(* ===== verification/Prelude.thy ===== *)
theory Prelude
  imports Main "HOL-Library.Word" "HOL-Library.Monad_Syntax"
begin

text \<open>
  The prelude of the development: the integer types of the C sources, the register bus of the
  SoC that every firmware component reads and writes, the two shapes of polling loop the
  sources use, and the lemmas on them that the component theories share.

  The bus is a record \<open>mach\<close>.  Every volatile access takes one tick of \<open>m_now\<close> and is
  recorded in \<open>m_evs\<close>.  A write stores into \<open>m_regs\<close>; a read at tick \<open>t\<close> of address \<open>a\<close>
  returns \<open>m_hw t a v\<close>, where \<open>v\<close> is the value last written there.  The function \<open>m_hw\<close> is
  never fixed: the theorems hold for every response the hardware (or another bus master)
  may give at every access, and a hypothesis such as \<open>plain s a\<close> (the register reads back
  what was last written) is stated where a component relies on it.
  The static variables of each firmware image extend this record in the theory that models it.
\<close>

unbundle bit_operations_syntax

section \<open>Types\<close>

type_synonym u8 = "8 word"
type_synonym u16 = "16 word"
type_synonym u32 = "32 word"
type_synonym u64 = "64 word"
type_synonym addr = "64 word"

text \<open>
  What an observer of the SoC sees: reads and writes of registers with their values, and
  calls into firmware outside this repository, by name and with their arguments.
\<close>

datatype ioev = RD addr u32 | WR addr u32 | RD8 addr u8 | WR8 addr u8 | CALL string "u32 list"

section \<open>The register bus\<close>

record mach =
  m_hw :: "nat \<Rightarrow> addr \<Rightarrow> u32 \<Rightarrow> u32"
  m_now :: nat
  m_regs :: "addr \<Rightarrow> u32"
  m_evs :: "ioev list"

named_theorems bus_simps \<open>field equations of the bus accesses\<close>

text \<open>The volatile accesses of \<open>lib/mmio.h\<close>, \<open>io.h\<close> and the PMU board support package.\<close>

definition mmio_read_32 :: "addr \<Rightarrow> 'a mach_scheme \<Rightarrow> u32 \<times> 'a mach_scheme" where
  "mmio_read_32 a s =
     (let v = m_hw s (m_now s) a (m_regs s a)
      in (v, s\<lparr>m_now := Suc (m_now s), m_evs := m_evs s @ [RD a v]\<rparr>))"

definition mmio_write_32 :: "addr \<Rightarrow> u32 \<Rightarrow> 'a mach_scheme \<Rightarrow> 'a mach_scheme" where
  "mmio_write_32 a v s =
     s\<lparr>m_now := Suc (m_now s), m_regs := (m_regs s)(a := v), m_evs := m_evs s @ [WR a v]\<rparr>"

text \<open>
  Byte accesses reach the byte lane of the 32-bit cell at the aligned address (little endian).
\<close>

definition cell :: "addr \<Rightarrow> addr" where
  "cell a = a AND NOT 3"

definition byte_lane :: "addr \<Rightarrow> nat" where
  "byte_lane a = 8 * unat (a AND 3)"

definition get_lane :: "nat \<Rightarrow> u32 \<Rightarrow> u8" where
  "get_lane n w = ucast (drop_bit n w)"

definition put_lane :: "nat \<Rightarrow> u8 \<Rightarrow> u32 \<Rightarrow> u32" where
  "put_lane n b w = (w AND NOT (push_bit n 0xFF)) OR push_bit n (ucast b)"

definition mmio_read_8 :: "addr \<Rightarrow> 'a mach_scheme \<Rightarrow> u8 \<times> 'a mach_scheme" where
  "mmio_read_8 a s =
     (let v = get_lane (byte_lane a) (m_hw s (m_now s) (cell a) (m_regs s (cell a)))
      in (v, s\<lparr>m_now := Suc (m_now s), m_evs := m_evs s @ [RD8 a v]\<rparr>))"

definition mmio_write_8 :: "addr \<Rightarrow> u8 \<Rightarrow> 'a mach_scheme \<Rightarrow> 'a mach_scheme" where
  "mmio_write_8 a v s =
     s\<lparr>m_now := Suc (m_now s),
       m_regs := (m_regs s)(cell a := put_lane (byte_lane a) v (m_regs s (cell a))),
       m_evs := m_evs s @ [WR8 a v]\<rparr>"

text \<open>A call of a firmware function whose code is not part of this repository.\<close>

definition fw_call :: "string \<Rightarrow> u32 list \<Rightarrow> 'a mach_scheme \<Rightarrow> 'a mach_scheme" where
  "fw_call f as s = s\<lparr>m_now := Suc (m_now s), m_evs := m_evs s @ [CALL f as]\<rparr>"

text \<open>The register at \<open>a\<close> is ordinary storage: it reads back the last value written.\<close>

definition plain :: "'a mach_scheme \<Rightarrow> addr \<Rightarrow> bool" where
  "plain s a \<longleftrightarrow> (\<forall>t v. m_hw s t a v = v)"

lemma mmio_read_fst [simp]: "fst (mmio_read_32 a s) = m_hw s (m_now s) a (m_regs s a)"
  by (simp add: mmio_read_32_def Let_def)

lemma mmio_read_snd [bus_simps]:
  "m_hw (snd (mmio_read_32 a s)) = m_hw s"
  "m_now (snd (mmio_read_32 a s)) = Suc (m_now s)"
  "m_regs (snd (mmio_read_32 a s)) = m_regs s"
  "m_evs (snd (mmio_read_32 a s)) = m_evs s @ [RD a (m_hw s (m_now s) a (m_regs s a))]"
  by (simp_all add: mmio_read_32_def Let_def)

lemma mmio_write_fields [bus_simps]:
  "m_hw (mmio_write_32 a v s) = m_hw s"
  "m_now (mmio_write_32 a v s) = Suc (m_now s)"
  "m_regs (mmio_write_32 a v s) = (m_regs s)(a := v)"
  "m_evs (mmio_write_32 a v s) = m_evs s @ [WR a v]"
  by (simp_all add: mmio_write_32_def)

lemma mmio_8_fields [bus_simps]:
  "fst (mmio_read_8 a s) = get_lane (byte_lane a) (m_hw s (m_now s) (cell a) (m_regs s (cell a)))"
  "m_hw (snd (mmio_read_8 a s)) = m_hw s"
  "m_now (snd (mmio_read_8 a s)) = Suc (m_now s)"
  "m_regs (snd (mmio_read_8 a s)) = m_regs s"
  "m_hw (mmio_write_8 a v s) = m_hw s"
  "m_now (mmio_write_8 a v s) = Suc (m_now s)"
  "m_regs (mmio_write_8 a v s) = (m_regs s)(cell a := put_lane (byte_lane a) v (m_regs s (cell a)))"
  "m_evs (mmio_write_8 a v s) = m_evs s @ [WR8 a v]"
  by (simp_all add: mmio_read_8_def mmio_write_8_def Let_def)

lemma fw_call_fields [bus_simps]:
  "m_hw (fw_call f as s) = m_hw s"
  "m_now (fw_call f as s) = Suc (m_now s)"
  "m_regs (fw_call f as s) = m_regs s"
  "m_evs (fw_call f as s) = m_evs s @ [CALL f as]"
  by (simp_all add: fw_call_def)

declare bus_simps [simp]

lemma mmio_more [simp]:
  "mach.more (snd (mmio_read_32 a s)) = mach.more s"
  "mach.more (mmio_write_32 a v s) = mach.more s"
  "mach.more (snd (mmio_read_8 a s)) = mach.more s"
  "mach.more (mmio_write_8 a w s) = mach.more s"
  "mach.more (fw_call f as s) = mach.more s"
  by (simp_all add: mmio_read_32_def mmio_write_32_def mmio_read_8_def mmio_write_8_def fw_call_def
      Let_def)

lemma plain_read [simp]: "plain s a \<Longrightarrow> m_hw s t a v = v"
  by (simp add: plain_def)

lemma plain_cong: "m_hw s' = m_hw s \<Longrightarrow> plain s' a = plain s a"
  by (simp add: plain_def)

lemma plain_after [simp]:
  "plain (mmio_write_32 b v s) a = plain s a"
  "plain (snd (mmio_read_32 b s)) a = plain s a"
  "plain (mmio_write_8 b w s) a = plain s a"
  "plain (snd (mmio_read_8 b s)) a = plain s a"
  "plain (fw_call f as s) a = plain s a"
  by (simp_all add: plain_def)

text \<open>The read-modify-write helpers of \<open>lib/mmio.h\<close>.\<close>

definition mmio_setbits_32 :: "addr \<Rightarrow> u32 \<Rightarrow> 'a mach_scheme \<Rightarrow> 'a mach_scheme" where
  "mmio_setbits_32 a b s = (let (v, s) = mmio_read_32 a s in mmio_write_32 a (v OR b) s)"

definition mmio_clrbits_32 :: "addr \<Rightarrow> u32 \<Rightarrow> 'a mach_scheme \<Rightarrow> 'a mach_scheme" where
  "mmio_clrbits_32 a b s = (let (v, s) = mmio_read_32 a s in mmio_write_32 a (v AND NOT b) s)"

definition mmio_clrsetbits_32 :: "addr \<Rightarrow> u32 \<Rightarrow> u32 \<Rightarrow> 'a mach_scheme \<Rightarrow> 'a mach_scheme" where
  "mmio_clrsetbits_32 a c b s =
     (let (v, s) = mmio_read_32 a s in mmio_write_32 a ((v AND NOT c) OR b) s)"

text \<open>
  \<open>assert\<close> of the C library: a failing assertion stops the firmware, which is the outcome
  \<open>None\<close>, as is a loop that never ends and a lock that is never released.
\<close>

definition assert_C :: "bool \<Rightarrow> unit option" where
  "assert_C b = (if b then Some () else None)"

lemma assert_C_simps [simp]: "assert_C True = Some ()" "assert_C False = None"
  by (simp_all add: assert_C_def)

lemma assert_C_Some [simp]: "assert_C b = Some u \<longleftrightarrow> b"
  by (simp add: assert_C_def)

section \<open>What a step may touch\<close>

text \<open>
  \<open>since s s'\<close> is what happened on the bus between two states: the events of \<open>s'\<close> after
  those of \<open>s\<close>.  \<open>writes_of\<close> keeps the register writes of an event list.
\<close>

definition since :: "'a mach_scheme \<Rightarrow> 'b mach_scheme \<Rightarrow> ioev list" where
  "since s s' = drop (length (m_evs s)) (m_evs s')"

fun writes_of :: "ioev list \<Rightarrow> (addr \<times> u32) list" where
  "writes_of [] = []"
| "writes_of (WR a v # es) = (a, v) # writes_of es"
| "writes_of (e # es) = writes_of es"

lemma writes_of_append [simp]: "writes_of (xs @ ys) = writes_of xs @ writes_of ys"
  by (induction xs rule: writes_of.induct) auto

fun reads_of :: "ioev list \<Rightarrow> (addr \<times> u32) list" where
  "reads_of [] = []"
| "reads_of (RD a v # es) = (a, v) # reads_of es"
| "reads_of (e # es) = reads_of es"

lemma reads_of_append [simp]: "reads_of (xs @ ys) = reads_of xs @ reads_of ys"
  by (induction xs rule: reads_of.induct) auto

lemma writes_of_map [simp]:
  "writes_of (map (\<lambda>x. WR (f x) (g x)) xs) = map (\<lambda>x. (f x, g x)) xs"
  "writes_of (map (\<lambda>x. RD (f x) (g x)) xs) = []"
  "reads_of (map (\<lambda>x. WR (f x) (g x)) xs) = []"
  "reads_of (map (\<lambda>x. RD (f x) (g x)) xs) = map (\<lambda>x. (f x, g x)) xs"
  by (induction xs) auto

lemma since_self [simp]: "since s s = []"
  by (simp add: since_def)

section \<open>Polling loops\<close>

text \<open>
  \<open>do { v = read(); } while (!stop(v));\<close> with no bound: \<open>None\<close> is a loop that never ends.
\<close>

partial_function (option) do_poll ::
  "('s \<Rightarrow> 'v \<times> 's) \<Rightarrow> ('v \<Rightarrow> bool) \<Rightarrow> 's \<Rightarrow> ('v \<times> 's) option" where
  "do_poll rd stop s =
     (let r = rd s in if stop (fst r) then Some r else do_poll rd stop (snd r))"

declare do_poll.simps [code]

text \<open>The state after \<open>n\<close> reads, and the value of the next one.\<close>

definition after_reads :: "('s \<Rightarrow> 'v \<times> 's) \<Rightarrow> nat \<Rightarrow> 's \<Rightarrow> 's" where
  "after_reads rd n s = ((\<lambda>s. snd (rd s)) ^^ n) s"

lemma after_reads_0 [simp]: "after_reads rd 0 s = s"
  by (simp add: after_reads_def)

lemma after_reads_Suc: "after_reads rd (Suc n) s = after_reads rd n (snd (rd s))"
  by (simp add: after_reads_def funpow_Suc_right del: funpow.simps)

lemma do_poll_first:
  assumes "stop (fst (rd (after_reads rd n s)))"
    and "\<And>i. i < n \<Longrightarrow> \<not> stop (fst (rd (after_reads rd i s)))"
  shows "do_poll rd stop s = Some (rd (after_reads rd n s))"
  using assms
proof (induction n arbitrary: s)
  case 0
  then show ?case by (subst do_poll.simps) (simp add: Let_def)
next
  case (Suc n)
  have "\<not> stop (fst (rd s))" using Suc.prems(2) [of 0] by simp
  moreover have "do_poll rd stop (snd (rd s)) = Some (rd (after_reads rd n (snd (rd s))))"
  proof (rule Suc.IH)
    show "stop (fst (rd (after_reads rd n (snd (rd s)))))"
      using Suc.prems(1) by (simp add: after_reads_Suc)
    show "\<not> stop (fst (rd (after_reads rd i (snd (rd s)))))" if "i < n" for i
      using Suc.prems(2) [of "Suc i"] that by (simp add: after_reads_Suc)
  qed
  ultimately show ?case by (subst do_poll.simps) (simp add: Let_def after_reads_Suc)
qed

text \<open>An unbounded poll returns as soon as the device shows the value once.\<close>

lemma do_poll_terminates:
  assumes "stop (fst (rd (after_reads rd n s)))"
  shows "\<exists>m \<le> n. do_poll rd stop s = Some (rd (after_reads rd m s))"
proof -
  define m where "m = (LEAST i. stop (fst (rd (after_reads rd i s))))"
  have "stop (fst (rd (after_reads rd m s)))"
    unfolding m_def using assms by (rule LeastI)
  moreover have "\<And>i. i < m \<Longrightarrow> \<not> stop (fst (rd (after_reads rd i s)))"
    unfolding m_def by (rule not_less_Least)
  ultimately have "do_poll rd stop s = Some (rd (after_reads rd m s))"
    by (rule do_poll_first)
  moreover have "m \<le> n" unfolding m_def using assms by (rule Least_le)
  ultimately show ?thesis by blast
qed

text \<open>What every return of an unbounded poll satisfies.\<close>

lemma do_poll_Some:
  assumes ret: "do_poll rd stop s = Some r"
  shows "stop (fst r) \<and> (\<exists>n. r = rd (after_reads rd n s))"
proof (rule do_poll.raw_induct
    [where P = "\<lambda>rd stop s r. stop (fst r) \<and> (\<exists>n. r = rd (after_reads rd n s))", OF _ ret])
  fix f :: "('s \<Rightarrow> 'v \<times> 's) \<Rightarrow> ('v \<Rightarrow> bool) \<Rightarrow> 's \<Rightarrow> ('v \<times> 's) option" and rd stop s r
  assume IH: "\<And>rd stop s r. f rd stop s = Some r \<Longrightarrow>
      stop (fst r) \<and> (\<exists>n. r = rd (after_reads rd n s))"
    and eq: "(let r = rd s in if stop (fst r) then Some r else f rd stop (snd r)) = Some r"
  show "stop (fst r) \<and> (\<exists>n. r = rd (after_reads rd n s))"
  proof (cases "stop (fst (rd s))")
    case True
    with eq have "r = rd (after_reads rd 0 s)" by (simp add: Let_def)
    with True show ?thesis by (metis after_reads_0)
  next
    case False
    with eq have "f rd stop (snd (rd s)) = Some r" by (simp add: Let_def)
    from IH [OF this] show ?thesis by (metis after_reads_Suc)
  qed
qed

lemma do_poll_invariant:
  assumes "do_poll rd stop s = Some r" and "I s" and "\<And>s. I s \<Longrightarrow> I (snd (rd s))"
  shows "I (snd r)"
proof -
  have "I (after_reads rd n s)" for n
    using assms(2,3) by (induction n arbitrary: s) (auto simp: after_reads_Suc)
  then show ?thesis using do_poll_Some [OF assms(1)] assms(3) by metis
qed

lemma do_poll_Some_first:
  assumes "do_poll rd stop s = Some r"
  obtains n where "r = rd (after_reads rd n s)" and "stop (fst r)"
    and "\<And>i. i < n \<Longrightarrow> \<not> stop (fst (rd (after_reads rd i s)))"
proof -
  from do_poll_Some [OF assms] obtain k where k: "stop (fst (rd (after_reads rd k s)))" by metis
  define m where "m = (LEAST i. stop (fst (rd (after_reads rd i s))))"
  have m: "stop (fst (rd (after_reads rd m s)))" unfolding m_def using k by (rule LeastI)
  have lt: "\<And>i. i < m \<Longrightarrow> \<not> stop (fst (rd (after_reads rd i s)))" unfolding m_def by (rule not_less_Least)
  have "do_poll rd stop s = Some (rd (after_reads rd m s))" using m lt by (rule do_poll_first)
  then have "r = rd (after_reads rd m s)" using assms by simp
  with m lt show ?thesis by (intro that) auto
qed

lemma do_poll_None: "do_poll rd stop s = None \<longleftrightarrow> (\<forall>n. \<not> stop (fst (rd (after_reads rd n s))))"
  by (metis do_poll_Some do_poll_terminates not_None_eq)

text \<open>Polling one register: what the reads leave behind.\<close>

lemma after_register_reads [simp]:
  "m_hw (after_reads (mmio_read_32 a) n s) = m_hw s"
  "m_now (after_reads (mmio_read_32 a) n s) = m_now s + n"
  "m_regs (after_reads (mmio_read_32 a) n s) = m_regs s"
  "mach.more (after_reads (mmio_read_32 a) n s) = mach.more s"
  by (induction n arbitrary: s) (simp_all add: after_reads_Suc)

lemma after_register_reads_evs:
  "m_evs (after_reads (mmio_read_32 a) n s) = m_evs s @ map (\<lambda>i. RD a (m_hw s (m_now s + i) a (m_regs s a))) [0..<n]"
  by (induction n arbitrary: s)
    (simp_all add: after_reads_Suc upt_conv_Cons map_Suc_upt [symmetric] o_def del: upt_Suc)

section \<open>Counting loops\<close>

text \<open>\<open>for (i = lo; i < hi; i += st) body(i)\<close> with a counter that does not wrap.\<close>

function for_step :: "nat \<Rightarrow> nat \<Rightarrow> nat \<Rightarrow> (nat \<Rightarrow> 's \<Rightarrow> 's) \<Rightarrow> 's \<Rightarrow> 's" where
  "for_step lo hi st f s = (if lo < hi \<and> 0 < st then for_step (lo + st) hi st f (f lo s) else s)"
  by pat_completeness auto
termination by (relation "measure (\<lambda>(lo, hi, _). hi - lo)") auto

declare for_step.simps [simp del]

lemma for_step_invariant:
  assumes "I lo s" and "\<And>i s. I i s \<Longrightarrow> lo \<le> i \<Longrightarrow> i < hi \<Longrightarrow> I (i + st) (f i s)" and "0 < st"
  shows "\<exists>i\<ge>hi. I i (for_step lo hi st f s)"
  using assms
proof (induction lo hi st f s rule: for_step.induct)
  case (1 lo hi st f s)
  show ?case
  proof (cases "lo < hi \<and> 0 < st")
    case True
    then show ?thesis
      using 1 by (subst for_step.simps) (simp add: less_imp_le)
  next
    case False
    then have "hi \<le> lo" using "1.prems"(3) by simp
    then show ?thesis using "1.prems"(1) False by (subst for_step.simps) auto
  qed
qed

section \<open>Runs of accesses\<close>

text \<open>
  A loop that writes successive values, and one that reads successive registers into a buffer.
\<close>

definition write_words :: "(addr \<times> u32) list \<Rightarrow> 'a mach_scheme \<Rightarrow> 'a mach_scheme" where
  "write_words ws s = fold (\<lambda>(a, v). mmio_write_32 a v) ws s"

fun read_words :: "addr list \<Rightarrow> 'a mach_scheme \<Rightarrow> u32 list \<times> 'a mach_scheme" where
  "read_words [] s = ([], s)"
| "read_words (a # as) s =
     (let (v, s) = mmio_read_32 a s; (vs, s) = read_words as s in (v # vs, s))"

lemma write_words_simps [simp]:
  "write_words [] s = s"
  "write_words ((a, v) # ws) s = write_words ws (mmio_write_32 a v s)"
  by (simp_all add: write_words_def)

lemma write_words_fields [simp]:
  "m_hw (write_words ws s) = m_hw s"
  "m_now (write_words ws s) = m_now s + length ws"
  "m_evs (write_words ws s) = m_evs s @ map (\<lambda>(a, v). WR a v) ws"
  "mach.more (write_words ws s) = mach.more s"
  by (induction ws arbitrary: s) auto

lemma write_words_regs: "a \<notin> fst ` set ws \<Longrightarrow> m_regs (write_words ws s) a = m_regs s a"
  by (induction ws arbitrary: s) auto

lemma read_words_fst:
  "fst (read_words as s) = map (\<lambda>i. m_hw s (m_now s + i) (as ! i) (m_regs s (as ! i))) [0..<length as]"
  by (induction as arbitrary: s)
    (simp_all add: case_prod_unfold Let_def upt_conv_Cons map_Suc_upt [symmetric] o_def del: upt_Suc)

lemma read_words_fields [simp]:
  "length (fst (read_words as s)) = length as"
  "m_hw (snd (read_words as s)) = m_hw s"
  "m_now (snd (read_words as s)) = m_now s + length as"
  "m_regs (snd (read_words as s)) = m_regs s"
  "mach.more (snd (read_words as s)) = mach.more s"
  by (induction as arbitrary: s) (simp_all add: case_prod_unfold Let_def)

lemma read_words_evs:
  "m_evs (snd (read_words as s)) = m_evs s @ map2 RD as (fst (read_words as s))"
  by (induction as arbitrary: s) (simp_all add: case_prod_unfold Let_def)

section \<open>Words\<close>

lemma word_Suc_neq: "w + 1 \<noteq> w" for w :: "'a :: len word"
  by simp

text \<open>Counting up a wrapping counter \<open>k\<close> times moves it unless \<open>k\<close> is a multiple of its range.\<close>

lemma word_add_of_nat_eq_iff: "w + of_nat k = w \<longleftrightarrow> 2 ^ LENGTH('a) dvd k" for w :: "'a :: len word"
  by (simp add: word_of_nat_eq_0_iff)

lemma unat_lt_pow: "LENGTH('a) \<le> n \<Longrightarrow> unat w < 2 ^ n" for w :: "'a :: len word"
  using unsigned_less [of w, where ?'a = nat] by (meson order_less_le_trans power_increasing one_le_numeral)

lemma take_bit_unat: "LENGTH('a) \<le> n \<Longrightarrow> take_bit n (unat w) = unat w" for w :: "'a :: len word"
  by (simp add: take_bit_nat_eq_self unat_lt_pow)

lemma unat_and_mask: "unat (w AND mask n) = unat w mod 2 ^ n" for w :: "'a :: len word"
  by (simp add: unsigned_take_bit_eq flip: take_bit_eq_mask take_bit_eq_mod)

lemma unat_drop_bit: "unat (drop_bit n w) = unat w div 2 ^ n" for w :: "'a :: len word"
  by (simp add: unsigned_drop_bit_eq take_bit_unat flip: drop_bit_eq_div)

lemma unat_ucast_up: "LENGTH('a) \<le> LENGTH('b) \<Longrightarrow> unat (ucast w :: 'b :: len word) = unat w" for w :: "'a :: len word"
  by (simp add: unsigned_ucast_eq take_bit_unat)

lemma ucast_up_eq:
  "LENGTH('a) \<le> LENGTH('b) \<Longrightarrow> (ucast v :: 'b :: len word) = ucast w \<longleftrightarrow> v = w" for v w :: "'a :: len word"
  by (metis unat_ucast_up word_unat_eq_iff)

lemma unat_push_bit: "unat w * 2 ^ n < 2 ^ LENGTH('a) \<Longrightarrow> unat (push_bit n w) = unat w * 2 ^ n" for w :: "'a :: len word"
  by (simp only: unsigned_push_bit_eq) (simp add: push_bit_eq_mult take_bit_nat_eq_self)

lemma unat_and_not_mask: "unat (w AND NOT (mask n)) = unat w div 2 ^ n * 2 ^ n" for w :: "'a :: len word"
proof -
  have "w AND NOT (mask n) = push_bit n (drop_bit n w)"
    by (rule bit_eqI) (auto simp: bit_simps)
  moreover have "unat w div 2 ^ n * 2 ^ n \<le> unat w" by (metis div_mult_mod_eq le_add1)
  moreover have "unat w < 2 ^ LENGTH('a)" by (simp add: unat_lt_pow)
  ultimately show ?thesis by (simp only: unat_push_bit unat_drop_bit order_le_less_trans)
qed

lemma mask_2_word: "(3 :: 'a :: len word) = mask 2"
  by (simp add: mask_eq_exp_minus_1)

text \<open>The lowest set bit of a word, and the word without it.\<close>

lemma and_uminus_lowest:
  fixes w :: "'a :: len word"
  assumes n: "bit w n" and low: "\<And>k. k < n \<Longrightarrow> \<not> bit w k"
  shows "w AND - w = push_bit n 1"
proof -
  define h where "h = w AND NOT (mask (Suc n))"
  have len: "n < LENGTH('a)" using n by (rule bit_imp_le_length)
  have w: "w = push_bit n 1 OR h"
    by (rule bit_word_eqI) (auto simp: h_def bit_simps n less_Suc_eq, metis low linorder_neqE_nat)
  have "push_bit n 1 AND h = 0" by (rule bit_word_eqI) (auto simp: h_def bit_simps)
  then have "w = push_bit n 1 + h" using w by (simp add: disjunctive_add_eq_or)
  then have "w - 1 = mask n + h" by (simp add: mask_eq_exp_minus_1)
  also have "mask n AND h = 0" by (rule bit_word_eqI) (auto simp: h_def bit_simps)
  then have "mask n + h = mask n OR h" by (rule disjunctive_add_eq_or)
  finally have "- w = NOT (mask n OR h)" by (simp add: minus_eq_not_minus_1)
  then show ?thesis
    using len n by (simp, intro bit_word_eqI) (auto simp: h_def bit_simps n less_Suc_eq)
qed

text \<open>Byte lanes of a cell.\<close>

lemma bit_put_lane: "bit (put_lane n b w) k \<longleftrightarrow> k < 32 \<and> (if n \<le> k \<and> k < n + 8 then bit b (k - n) else bit w k)"
proof -
  have m: "(0xFF :: u32) = mask 8" by (simp add: mask_eq_exp_minus_1)
  show ?thesis
    unfolding put_lane_def m by (auto simp: bit_simps less_diff_conv2 dest: bit_imp_le_length)
qed

lemma get_put_lane: "n + 8 \<le> 32 \<Longrightarrow> get_lane n (put_lane n b w) = b"
  by (rule bit_word_eqI) (auto simp: get_lane_def bit_put_lane bit_simps add.commute)

lemma get_put_lane_other:
  assumes "n + 8 \<le> m \<or> m + 8 \<le> n"
  shows "get_lane m (put_lane n b w) = get_lane m w"
  using assms by (intro bit_word_eqI) (auto simp: get_lane_def bit_put_lane bit_simps add.commute dest: bit_imp_le_length)

lemma unat_cell: "unat (cell a) = unat a div 4 * 4"
  using unat_and_not_mask [of a 2] by (simp add: cell_def mask_2_word)

lemma byte_lane_mod: "byte_lane a = 8 * (unat a mod 4)"
  using unat_and_mask [of a 2] by (simp add: byte_lane_def mask_2_word)

lemma byte_lane_le: "byte_lane a + 8 \<le> 32"
  by (simp add: byte_lane_mod)

lemma cell_lane_inj: "cell a = cell b \<Longrightarrow> byte_lane a = byte_lane b \<Longrightarrow> a = b"
  by (metis unat_cell byte_lane_mod div_mult_mod_eq mult_cancel_left zero_neq_numeral word_unat_eq_iff)

lemma byte_lane_disj: "byte_lane a \<noteq> byte_lane b \<Longrightarrow> byte_lane a + 8 \<le> byte_lane b \<or> byte_lane b + 8 \<le> byte_lane a"
  by (auto simp: byte_lane_mod)

section \<open>A logic of what a call adds to the trace\<close>

text \<open>
  A reflexive and transitive relation between the states before and after a call passes from
  the parts of a function to the whole: \<open>keeps f\<close> says that every return of \<open>f\<close> is
  related to its start.
\<close>

locale step_logic =
  fixes R :: "'s \<Rightarrow> 's \<Rightarrow> bool"
  assumes R_refl: "R s s"
    and R_trans: "R s t \<Longrightarrow> R t u \<Longrightarrow> R s u"
begin

definition keeps :: "('s \<Rightarrow> ('r \<times> 's) option) \<Rightarrow> bool" where
  "keeps f \<longleftrightarrow> (\<forall>s r s'. f s = Some (r, s') \<longrightarrow> R s s')"

lemma keepsI: "(\<And>s r s'. f s = Some (r, s') \<Longrightarrow> R s s') \<Longrightarrow> keeps f"
  by (simp add: keeps_def)

lemma keepsD: "keeps f \<Longrightarrow> f s = Some (r, s') \<Longrightarrow> R s s'"
  by (simp add: keeps_def)

lemma keeps_bind: "keeps f \<Longrightarrow> (\<And>x. keeps (g x)) \<Longrightarrow> keeps (\<lambda>s. f s \<bind> (\<lambda>(x, s). g x s))"
  unfolding keeps_def by (force split: bind_splits intro: R_trans)

lemma keeps_if: "(b \<Longrightarrow> keeps f) \<Longrightarrow> (\<not> b \<Longrightarrow> keeps g) \<Longrightarrow> keeps (\<lambda>s. if b then f s else g s)"
  by (simp add: keeps_def)

lemma keeps_at: "(\<And>x. keeps (f x)) \<Longrightarrow> keeps (\<lambda>s. f (x s) s)"
  by (simp add: keeps_def)

lemma keeps_ret: "(\<And>s. R s (g s)) \<Longrightarrow> keeps (\<lambda>s. Some (h s, g s))"
  by (simp add: keeps_def)

lemma keeps_after: "(\<And>s. R s (g s)) \<Longrightarrow> keeps f \<Longrightarrow> keeps (\<lambda>s. f (g s))"
  by (meson keeps_def R_trans)

lemma keeps_let: "(\<And>s. R s (snd (p s))) \<Longrightarrow> (\<And>x. keeps (g x)) \<Longrightarrow> keeps (\<lambda>s. let (x, s) = p s in g x s)"
  unfolding keeps_def by (metis (mono_tags, lifting) R_trans case_prod_beta)

lemma keeps_prod: "(\<And>a b. x = (a, b) \<Longrightarrow> keeps (f a b)) \<Longrightarrow> keeps (case_prod f x)"
  by (cases x) simp

lemma keeps_option: "(x = None \<Longrightarrow> keeps f) \<Longrightarrow> (\<And>v. x = Some v \<Longrightarrow> keeps (g v)) \<Longrightarrow>
  keeps (case x of None \<Rightarrow> f | Some v \<Rightarrow> g v)"
  by (cases x) simp_all

text \<open>\<open>ends s0 f\<close>: started anywhere after \<open>s0\<close>, the function returns, related to its start.\<close>

definition ends :: "'s \<Rightarrow> ('s \<Rightarrow> ('r \<times> 's) option) \<Rightarrow> bool" where
  "ends s0 f \<longleftrightarrow> (\<forall>s. R s0 s \<longrightarrow> (\<exists>r u. f s = Some (r, u) \<and> R s u))"

lemma endsI: "(\<And>s. R s0 s \<Longrightarrow> \<exists>r u. f s = Some (r, u) \<and> R s u) \<Longrightarrow> ends s0 f"
  by (simp add: ends_def)

lemma endsD: "ends s0 f \<Longrightarrow> R s0 s \<Longrightarrow> \<exists>r u. f s = Some (r, u) \<and> R s u"
  by (simp add: ends_def)

lemma ends_returns: "ends s0 f \<Longrightarrow> \<exists>r u. f s0 = Some (r, u) \<and> R s0 u"
  by (simp add: ends_def R_refl)

lemma ends_bind:
  assumes f: "ends s0 f" and g: "\<And>x. ends s0 (g x)"
  shows "ends s0 (\<lambda>s. f s \<bind> (\<lambda>(x, s). g x s))"
proof (rule endsI)
  fix s assume "R s0 s"
  with f obtain x t where t: "f s = Some (x, t)" "R s t" using endsD by blast
  with \<open>R s0 s\<close> have "R s0 t" by (blast intro: R_trans)
  with g obtain r u where "g x t = Some (r, u)" "R t u" using endsD by blast
  with t show "\<exists>r u. f s \<bind> (\<lambda>(x, s). g x s) = Some (r, u) \<and> R s u" by (auto intro: R_trans)
qed

lemma ends_ret: "(\<And>s. R s0 s \<Longrightarrow> R s (g s)) \<Longrightarrow> ends s0 (\<lambda>s. Some (h s, g s))"
  by (simp add: ends_def)

lemma ends_after:
  assumes "\<And>s. R s0 s \<Longrightarrow> R s (g s)" "ends s0 f"
  shows "ends s0 (\<lambda>s. f (g s))"
  using assms unfolding ends_def by (meson R_trans)

lemma ends_if: "(b \<Longrightarrow> ends s0 f) \<Longrightarrow> (\<not> b \<Longrightarrow> ends s0 g) \<Longrightarrow> ends s0 (\<lambda>s. if b then f s else g s)"
  by (cases b) simp_all

lemma ends_let:
  assumes "\<And>s. R s0 s \<Longrightarrow> R s (snd (p s))" "\<And>x. ends s0 (g x)"
  shows "ends s0 (\<lambda>s. let (x, s) = p s in g x s)"
  using assms unfolding ends_def by (simp add: case_prod_unfold) (meson R_trans)

lemma ends_option:
  "(x = None \<Longrightarrow> ends s0 f) \<Longrightarrow> (\<And>v. x = Some v \<Longrightarrow> ends s0 (g v)) \<Longrightarrow>
    ends s0 (\<lambda>s. case x of None \<Rightarrow> f s | Some v \<Rightarrow> g v s)"
  by (cases x) simp_all

lemma ends_at: "(\<And>x. ends s0 (f x)) \<Longrightarrow> ends s0 (\<lambda>s. f (x s) s)"
  by (simp add: ends_def)

lemma ends_cong: "(\<And>s. R s0 s \<Longrightarrow> f s = g s) \<Longrightarrow> ends s0 g \<Longrightarrow> ends s0 f"
  by (simp add: ends_def)

text \<open>\<open>from_on s0 f\<close>: started anywhere after \<open>s0\<close>, every run of the function that returns is related to its start.\<close>

definition from_on :: "'s \<Rightarrow> ('s \<Rightarrow> ('r \<times> 's) option) \<Rightarrow> bool" where
  "from_on s0 f \<longleftrightarrow> (\<forall>s r u. R s0 s \<longrightarrow> f s = Some (r, u) \<longrightarrow> R s u)"

lemma from_onI: "(\<And>s r u. R s0 s \<Longrightarrow> f s = Some (r, u) \<Longrightarrow> R s u) \<Longrightarrow> from_on s0 f"
  by (simp add: from_on_def)

lemma from_onD: "from_on s0 f \<Longrightarrow> R s0 s \<Longrightarrow> f s = Some (r, u) \<Longrightarrow> R s u"
  by (simp add: from_on_def)

lemma from_bind:
  assumes f: "from_on s0 f" and g: "\<And>x. from_on s0 (g x)"
  shows "from_on s0 (\<lambda>s. f s \<bind> (\<lambda>(x, s). g x s))"
proof (rule from_onI)
  fix s r u assume s: "R s0 s" and run: "f s \<bind> (\<lambda>(x, s). g x s) = Some (r, u)"
  from run obtain x t where t: "f s = Some (x, t)" "g x t = Some (r, u)" by (cases "f s") auto
  have "R s t" by (rule from_onD [OF f s t(1)])
  moreover from this have "R t u" by (rule from_onD [OF g R_trans [OF s] t(2)])
  ultimately show "R s u" by (rule R_trans)
qed

lemma from_ret: "(\<And>s. R s0 s \<Longrightarrow> R s (g s)) \<Longrightarrow> from_on s0 (\<lambda>s. Some (h s, g s))"
  by (simp add: from_on_def)

lemma from_after: "(\<And>s. R s0 s \<Longrightarrow> R s (g s)) \<Longrightarrow> from_on s0 f \<Longrightarrow> from_on s0 (\<lambda>s. f (g s))"
  unfolding from_on_def by (meson R_trans)

lemma from_if: "(b \<Longrightarrow> from_on s0 f) \<Longrightarrow> (\<not> b \<Longrightarrow> from_on s0 g) \<Longrightarrow> from_on s0 (\<lambda>s. if b then f s else g s)"
  by (cases b) simp_all

lemma from_let:
  assumes "\<And>s. R s0 s \<Longrightarrow> R s (snd (p s))" "\<And>x. from_on s0 (g x)"
  shows "from_on s0 (\<lambda>s. let (x, s) = p s in g x s)"
  using assms unfolding from_on_def by (simp add: case_prod_unfold) (meson R_trans)

lemma from_cong: "(\<And>s. R s0 s \<Longrightarrow> f s = g s) \<Longrightarrow> from_on s0 g \<Longrightarrow> from_on s0 f"
  by (simp add: from_on_def)

end

end
