(* ===== verification/TMR_WDT.thy ===== *)
theory TMR_WDT
  imports Prelude
begin

text \<open>
  The first layer of the watchdog: the triple-redundant down-counters and the majority voter
  in the programmable logic (\<open>pl/tmr_wdt_core.v\<close>) and the AXI4-Lite register file around them
  (\<open>pl/tmr_wdt_v1_0_S00_AXI.v\<close>).  A clock edge is a function on the registers: every
  nonblocking assignment reads the old state.  The lemmas relate each counter to the number of
  clocks since the dog was last fed, and the voter outputs to the three feeding histories.
\<close>

section \<open>The counters and the voter (tmr_wdt_core.v)\<close>

record tmr_core =
  counter_a :: u32
  counter_b :: u32
  counter_c :: u32

record tmr_in =
  rstn :: bool
  enable :: bool
  reload_val :: u32
  kick_a :: bool
  kick_b :: bool
  kick_c :: bool

definition wdt_a :: "tmr_in \<Rightarrow> tmr_core \<Rightarrow> u32" where
  "wdt_a i c =
     (if \<not> rstn i then reload_val i
      else if \<not> enable i then reload_val i
      else if kick_a i then reload_val i
      else if counter_a c \<noteq> 0 then counter_a c - 1
      else counter_a c)"

definition wdt_b :: "tmr_in \<Rightarrow> tmr_core \<Rightarrow> u32" where
  "wdt_b i c =
     (if \<not> rstn i then reload_val i
      else if \<not> enable i then reload_val i
      else if kick_b i then reload_val i
      else if counter_b c \<noteq> 0 then counter_b c - 1
      else counter_b c)"

definition wdt_c :: "tmr_in \<Rightarrow> tmr_core \<Rightarrow> u32" where
  "wdt_c i c =
     (if \<not> rstn i then reload_val i
      else if \<not> enable i then reload_val i
      else if kick_c i then reload_val i
      else if counter_c c \<noteq> 0 then counter_c c - 1
      else counter_c c)"

definition tmr_clk :: "tmr_in \<Rightarrow> tmr_core \<Rightarrow> tmr_core" where
  "tmr_clk i c = \<lparr>counter_a = wdt_a i c, counter_b = wdt_b i c, counter_c = wdt_c i c\<rparr>"

definition to_a :: "bool \<Rightarrow> tmr_core \<Rightarrow> bool" where
  "to_a en c \<longleftrightarrow> en \<and> counter_a c = 0"

definition to_b :: "bool \<Rightarrow> tmr_core \<Rightarrow> bool" where
  "to_b en c \<longleftrightarrow> en \<and> counter_b c = 0"

definition to_c :: "bool \<Rightarrow> tmr_core \<Rightarrow> bool" where
  "to_c en c \<longleftrightarrow> en \<and> counter_c c = 0"

definition maj_2of3 :: "bool \<Rightarrow> tmr_core \<Rightarrow> bool" where
  "maj_2of3 en c \<longleftrightarrow> (to_a en c \<and> to_b en c) \<or> (to_b en c \<and> to_c en c) \<or> (to_a en c \<and> to_c en c)"

definition all_3 :: "bool \<Rightarrow> tmr_core \<Rightarrow> bool" where
  "all_3 en c \<longleftrightarrow> to_a en c \<and> to_b en c \<and> to_c en c"

fun tmr_run :: "tmr_in list \<Rightarrow> tmr_core \<Rightarrow> tmr_core" where
  "tmr_run [] c = c"
| "tmr_run (i # ins) c = tmr_run ins (tmr_clk i c)"

section \<open>Clocks since the last feeding\<close>

text \<open>
  The abstract view of one dog: how many clocks have passed since it was last fed, starting
  from \<open>g\<close>.
\<close>

fun unfed :: "bool list \<Rightarrow> nat \<Rightarrow> nat" where
  "unfed [] g = g"
| "unfed (k # ks) g = unfed ks (if k then 0 else Suc g)"

text \<open>A stretch of clocks during which the watchdog is out of reset, enabled and set to \<open>r\<close>.\<close>

definition running :: "u32 \<Rightarrow> tmr_in list \<Rightarrow> bool" where
  "running r ins = list_all (\<lambda>i. rstn i \<and> enable i \<and> reload_val i = r) ins"

lemma unat_pred: "w \<noteq> 0 \<Longrightarrow> unat (w - 1) = unat w - 1" for w :: u32
  using unat_minus_one by blast

text \<open>
  The contract of one dog of the core: a counter that a feeding reloads and that otherwise
  counts down to zero and stays there.  The three explicit copies in the Verilog source are
  three interpretations of it.
\<close>

locale wdog =
  fixes cnt :: "tmr_core \<Rightarrow> u32" and kick :: "tmr_in \<Rightarrow> bool"
  assumes held: "\<not> (rstn i \<and> enable i) \<Longrightarrow> cnt (tmr_clk i c) = reload_val i"
    and fed: "kick i \<Longrightarrow> cnt (tmr_clk i c) = reload_val i"
    and counts: "\<lbrakk>rstn i; enable i; \<not> kick i; cnt c \<noteq> 0\<rbrakk> \<Longrightarrow> cnt (tmr_clk i c) = cnt c - 1"
    and stays: "\<lbrakk>rstn i; enable i; \<not> kick i; cnt c = 0\<rbrakk> \<Longrightarrow> cnt (tmr_clk i c) = 0"
begin

lemma step_exact:
  assumes "rstn i" "enable i" "reload_val i = r" "unat (cnt c) = unat r - g"
  shows "unat (cnt (tmr_clk i c)) = unat r - (if kick i then 0 else Suc g)"
proof (cases "kick i")
  case True
  then show ?thesis using assms by (simp add: fed)
next
  case False
  then show ?thesis
    using assms counts [of i c] stays [of i c] by (cases "cnt c = 0") (auto simp: unat_pred)
qed

lemma run_exact:
  assumes "running r ins" "unat (cnt c) = unat r - g"
  shows "unat (cnt (tmr_run ins c)) = unat r - unfed (map kick ins) g"
  using assms
proof (induction ins arbitrary: c g)
  case Nil
  then show ?case by simp
next
  case (Cons i ins)
  then have "unat (cnt (tmr_clk i c)) = unat r - (if kick i then 0 else Suc g)"
    by (intro step_exact) (auto simp: running_def)
  moreover have "running r ins" using Cons.prems(1) by (simp add: running_def)
  ultimately show ?case using Cons.IH by simp
qed

lemma timeout_iff:
  assumes "running r ins" "cnt c = r"
  shows "cnt (tmr_run ins c) = 0 \<longleftrightarrow> unat r \<le> unfed (map kick ins) 0"
  using run_exact [OF assms(1), of c 0] assms(2) by (simp add: unat_eq_zero [symmetric])

end

interpretation dog_a: wdog counter_a kick_a
  by unfold_locales (simp_all add: tmr_clk_def wdt_a_def)

interpretation dog_b: wdog counter_b kick_b
  by unfold_locales (simp_all add: tmr_clk_def wdt_b_def)

interpretation dog_c: wdog counter_c kick_c
  by unfold_locales (simp_all add: tmr_clk_def wdt_c_def)

lemma unfed_replicate_False: "unfed (replicate n False) g = g + n"
  by (induction n arbitrary: g) auto

lemma unfed_append: "unfed (xs @ ys) g = unfed ys (unfed xs g)"
  by (induction xs arbitrary: g) auto

lemma unfed_le_length: "unfed ks g \<le> g + length ks"
proof (induction ks arbitrary: g)
  case Nil
  then show ?case by simp
next
  case (Cons k ks)
  show ?case using Cons.IH [of "if k then 0 else Suc g"] by (auto split: if_splits)
qed

section \<open>The AXI4-Lite register file (tmr_wdt_v1_0_S00_AXI.v)\<close>

type_synonym u5 = "5 word"

record axi_in =
  S_AXI_ARESETN :: bool
  S_AXI_AWADDR :: u5
  S_AXI_AWVALID :: bool
  S_AXI_WDATA :: u32
  S_AXI_WSTRB :: "4 word"
  S_AXI_WVALID :: bool
  S_AXI_BREADY :: bool
  S_AXI_ARADDR :: u5
  S_AXI_ARVALID :: bool
  S_AXI_RREADY :: bool

record axi_st =
  axi_awaddr :: u5
  axi_awready :: bool
  axi_wready :: bool
  axi_bvalid :: bool
  axi_araddr :: u5
  axi_arready :: bool
  axi_rdata :: u32
  axi_rvalid :: bool
  aw_en :: bool
  slv_reg :: "nat \<Rightarrow> u32"
  u_core :: tmr_core

text \<open>The register number: bits 4 down to 2 of the latched address.\<close>

definition reg_sel :: "u5 \<Rightarrow> nat" where
  "reg_sel a = unat (drop_bit 2 a)"

definition slv_reg_wren :: "axi_in \<Rightarrow> axi_st \<Rightarrow> bool" where
  "slv_reg_wren i s \<longleftrightarrow> axi_wready s \<and> S_AXI_WVALID i \<and> axi_awready s \<and> S_AXI_AWVALID i"

text \<open>The byte lanes that the write strobes select.\<close>

definition lane :: "4 word \<Rightarrow> nat \<Rightarrow> u32" where
  "lane strb n = (if bit strb n then push_bit (8 * n) 0xFF else 0)"

definition strobe :: "4 word \<Rightarrow> u32 \<Rightarrow> u32 \<Rightarrow> u32" where
  "strobe strb old new =
     (let m = lane strb 0 OR lane strb 1 OR lane strb 2 OR lane strb 3
      in (old AND NOT m) OR (new AND m))"

definition reload_eff :: "axi_st \<Rightarrow> u32" where
  "reload_eff s = (if slv_reg s 1 \<noteq> 0 then slv_reg s 1 else 100000000)"

definition reg2_wr :: "axi_in \<Rightarrow> axi_st \<Rightarrow> bool" where
  "reg2_wr i s \<longleftrightarrow> slv_reg_wren i s \<and> reg_sel (axi_awaddr s) = 2"

definition core_in :: "axi_in \<Rightarrow> axi_st \<Rightarrow> tmr_in" where
  "core_in i s =
     \<lparr>rstn = S_AXI_ARESETN i, enable = bit (slv_reg s 0) 0, reload_val = reload_eff s,
      kick_a = (reg2_wr i s \<and> bit (S_AXI_WDATA i) 0),
      kick_b = (reg2_wr i s \<and> bit (S_AXI_WDATA i) 1),
      kick_c = (reg2_wr i s \<and> bit (S_AXI_WDATA i) 2)\<rparr>"

definition core_en :: "axi_st \<Rightarrow> bool" where
  "core_en s = bit (slv_reg s 0) 0"

definition status_word :: "bool \<Rightarrow> tmr_core \<Rightarrow> u32" where
  "status_word en c =
     (if to_a en c then 1 else 0) OR (if to_b en c then 2 else 0) OR (if to_c en c then 4 else 0) OR
     (if maj_2of3 en c then 8 else 0) OR (if all_3 en c then 16 else 0)"

definition reg_data_out :: "axi_st \<Rightarrow> u32" where
  "reg_data_out s =
     (let n = reg_sel (axi_araddr s) in
      if n = 0 then slv_reg s 0
      else if n = 1 then slv_reg s 1
      else if n = 2 then slv_reg s 2
      else if n = 3 then status_word (core_en s) (u_core s)
      else if n = 4 then counter_a (u_core s)
      else if n = 5 then counter_b (u_core s)
      else if n = 6 then counter_c (u_core s)
      else slv_reg s 7)"

definition axi_clk :: "axi_in \<Rightarrow> axi_st \<Rightarrow> axi_st" where
  "axi_clk i s =
     (let rst = \<not> S_AXI_ARESETN i;
          accept = \<not> axi_awready s \<and> S_AXI_AWVALID i \<and> S_AXI_WVALID i \<and> aw_en s;
          waccept = \<not> axi_wready s \<and> S_AXI_WVALID i \<and> S_AXI_AWVALID i \<and> aw_en s;
          bdone = S_AXI_BREADY i \<and> axi_bvalid s;
          raccept = \<not> axi_arready s \<and> S_AXI_ARVALID i;
          rden = axi_arready s \<and> S_AXI_ARVALID i \<and> \<not> axi_rvalid s;
          n = reg_sel (axi_awaddr s)
      in \<lparr>axi_awaddr = (if rst then 0 else if accept then S_AXI_AWADDR i else axi_awaddr s),
          axi_awready = (\<not> rst \<and> accept),
          axi_wready = (\<not> rst \<and> waccept),
          axi_bvalid = (if rst then False
             else if axi_awready s \<and> S_AXI_AWVALID i \<and> \<not> axi_bvalid s \<and> axi_wready s \<and> S_AXI_WVALID i
             then True
             else if bdone then False else axi_bvalid s),
          axi_araddr = (if rst then 0 else if raccept then S_AXI_ARADDR i else axi_araddr s),
          axi_arready = (\<not> rst \<and> raccept),
          axi_rdata = (if rst then 0 else if rden then reg_data_out s else axi_rdata s),
          axi_rvalid = (if rst then False else if rden then True
             else if axi_rvalid s \<and> S_AXI_RREADY i then False else axi_rvalid s),
          aw_en = (if rst then True else if accept then False else if bdone then True else aw_en s),
          slv_reg = (if rst then (\<lambda>_. 0)
             else if slv_reg_wren i s
             then (slv_reg s)(n := strobe (S_AXI_WSTRB i) (slv_reg s n) (S_AXI_WDATA i))
             else slv_reg s),
          u_core = tmr_clk (core_in i s) (u_core s)\<rparr>)"

text \<open>A master holding a write of \<open>w\<close> to byte offset \<open>a\<close> on the bus, all lanes enabled.\<close>

definition axi_wr_in :: "u5 \<Rightarrow> u32 \<Rightarrow> axi_in" where
  "axi_wr_in a w =
     \<lparr>S_AXI_ARESETN = True, S_AXI_AWADDR = a, S_AXI_AWVALID = True, S_AXI_WDATA = w,
      S_AXI_WSTRB = 15, S_AXI_WVALID = True, S_AXI_BREADY = True, S_AXI_ARADDR = 0,
      S_AXI_ARVALID = False, S_AXI_RREADY = False\<rparr>"

text \<open>No write in flight.\<close>

definition axi_idle :: "axi_st \<Rightarrow> bool" where
  "axi_idle s \<longleftrightarrow> \<not> axi_awready s \<and> \<not> axi_wready s \<and> \<not> axi_bvalid s \<and> aw_en s"

lemma strobe_all [simp]: "strobe 15 old new = new"
proof -
  have m: "lane 15 0 OR lane 15 1 OR lane 15 2 OR lane 15 3 = - 1"
    by (simp add: lane_def bit_word_iff_drop_bit_and)
  show ?thesis unfolding strobe_def m by (simp add: Let_def)
qed

lemma reload_eff_neq_0 [simp]: "reload_eff s \<noteq> 0"
  by (simp add: reload_eff_def)

lemma axi_wr_fst:
  assumes "axi_idle s"
  shows "axi_clk (axi_wr_in a w) s =
     s\<lparr>axi_awaddr := a, axi_awready := True, axi_wready := True, aw_en := False,
       axi_arready := False, u_core := tmr_clk (core_in (axi_wr_in a w) s) (u_core s)\<rparr>"
  using assms by (simp add: axi_clk_def axi_wr_in_def axi_idle_def Let_def slv_reg_wren_def)

lemma axi_wr_snd:
  assumes "axi_idle s" and "s1 = axi_clk (axi_wr_in a w) s"
  shows "axi_clk (axi_wr_in a w) s1 =
     s1\<lparr>axi_awready := False, axi_wready := False, axi_bvalid := True,
        slv_reg := (slv_reg s)(reg_sel a := w),
        u_core := tmr_clk (core_in (axi_wr_in a w) s1) (u_core s1)\<rparr>"
  using assms(1) unfolding assms(2) axi_wr_fst [OF assms(1)]
  by (simp add: axi_clk_def axi_wr_in_def axi_idle_def Let_def slv_reg_wren_def)

text \<open>One clock of one dog, with saturation at zero.\<close>

lemma tmr_clk_unat:
  assumes "rstn i" "enable i"
  shows "unat (counter_a (tmr_clk i c)) = (if kick_a i then unat (reload_val i) else unat (counter_a c) - 1)"
    and "unat (counter_b (tmr_clk i c)) = (if kick_b i then unat (reload_val i) else unat (counter_b c) - 1)"
    and "unat (counter_c (tmr_clk i c)) = (if kick_c i then unat (reload_val i) else unat (counter_c c) - 1)"
  using assms by (auto simp: tmr_clk_def wdt_a_def wdt_b_def wdt_c_def unat_pred)

lemma axi_wr_core:
  assumes "axi_idle s" "core_en s" and "s2 = axi_clk (axi_wr_in a w) (axi_clk (axi_wr_in a w) s)"
  shows "unat (counter_a (u_core s2)) =
      (if reg_sel a = 2 \<and> bit w 0 then unat (reload_eff s) else unat (counter_a (u_core s)) - 2)"
    and "unat (counter_b (u_core s2)) =
      (if reg_sel a = 2 \<and> bit w 1 then unat (reload_eff s) else unat (counter_b (u_core s)) - 2)"
    and "unat (counter_c (u_core s2)) =
      (if reg_sel a = 2 \<and> bit w 2 then unat (reload_eff s) else unat (counter_c (u_core s)) - 2)"
proof -
  define s1 where "s1 = axi_clk (axi_wr_in a w) s"
  define i1 where "i1 = core_in (axi_wr_in a w) s"
  define i2 where "i2 = core_in (axi_wr_in a w) s1"
  have en: "rstn i1" "enable i1" "rstn i2" "enable i2"
    using assms(1,2) unfolding i1_def i2_def s1_def
    by (simp_all add: core_in_def axi_wr_in_def core_en_def
        axi_wr_fst [OF assms(1), unfolded axi_wr_in_def])
  have i1: "\<not> kick_a i1" "\<not> kick_b i1" "\<not> kick_c i1"
    using assms(1) by (simp_all add: i1_def core_in_def reg2_wr_def slv_reg_wren_def axi_idle_def)
  have i2: "kick_a i2 = (reg_sel a = 2 \<and> bit w 0)" "kick_b i2 = (reg_sel a = 2 \<and> bit w 1)"
    "kick_c i2 = (reg_sel a = 2 \<and> bit w 2)" "reload_val i2 = reload_eff s"
    using assms(1) unfolding i2_def s1_def axi_wr_fst [OF assms(1)]
    by (simp_all add: core_in_def reg2_wr_def slv_reg_wren_def reload_eff_def, simp_all add: axi_wr_in_def)
  have core: "u_core s2 = tmr_clk i2 (tmr_clk i1 (u_core s))"
    using axi_wr_snd [OF assms(1) s1_def]
    by (simp add: assms(3) i2_def flip: s1_def) (simp add: s1_def i1_def axi_wr_fst [OF assms(1)])
  show "unat (counter_a (u_core s2)) =
      (if reg_sel a = 2 \<and> bit w 0 then unat (reload_eff s) else unat (counter_a (u_core s)) - 2)"
    "unat (counter_b (u_core s2)) =
      (if reg_sel a = 2 \<and> bit w 1 then unat (reload_eff s) else unat (counter_b (u_core s)) - 2)"
    "unat (counter_c (u_core s2)) =
      (if reg_sel a = 2 \<and> bit w 2 then unat (reload_eff s) else unat (counter_c (u_core s)) - 2)"
    by (simp_all add: core tmr_clk_unat en i1 i2 numeral_2_eq_2)
qed

section \<open>Properties of the voter and its registers\<close>

text \<open>
  C12.  The voter implements its specification exactly.  Let the three counters be loaded with
  the reload value and let the watchdog run for any number of enabled clocks with any pattern
  of feeding.  Then \<open>maj_2of3\<close> is high exactly when at least two of the dogs have gone
  unfed for the reload count, and \<open>all_3\<close> (the interrupt to the processing system) exactly when
  all three have.
\<close>

theorem voter_exact:
  assumes "running r ins" "counter_a c = r" "counter_b c = r" "counter_c c = r"
  shows "(maj_2of3 True (tmr_run ins c) \<longleftrightarrow>
           2 \<le> length (filter (\<lambda>k. unat r \<le> unfed (map k ins) 0) [kick_a, kick_b, kick_c])) \<and>
         (all_3 True (tmr_run ins c) \<longleftrightarrow>
           list_all (\<lambda>k. unat r \<le> unfed (map k ins) 0) [kick_a, kick_b, kick_c])"
  using dog_a.timeout_iff [OF assms(1,2)] dog_b.timeout_iff [OF assms(1,3)]
    dog_c.timeout_iff [OF assms(1,4)]
  by (auto simp: maj_2of3_def all_3_def to_a_def to_b_def to_c_def)

theorem voter_exact_witness:
  "let c = \<lparr>counter_a = 2, counter_b = 2, counter_c = 2\<rparr>;
       i = \<lparr>rstn = True, enable = True, reload_val = 2, kick_a = False, kick_b = False, kick_c = True\<rparr>
   in maj_2of3 True (tmr_run [i, i] c) \<and> \<not> all_3 True (tmr_run [i, i] c)"
  using voter_exact [of 2
      "let i = \<lparr>rstn = True, enable = True, reload_val = 2, kick_a = False, kick_b = False, kick_c = True\<rparr>
       in [i, i]" "\<lparr>counter_a = 2, counter_b = 2, counter_c = 2\<rparr>"]
  by (simp add: running_def Let_def)

text \<open>
  C40.  Feeding through the register file.  A write of \<open>w\<close> to KICK (offset 8) that the slave accepts
  from its idle state takes two clocks.  It reloads exactly the dogs whose bit of \<open>w\<close> is set, the
  others go on counting down (to zero at most), the register file keeps the word, and the write
  response is raised.
\<close>

theorem axi_kick:
  assumes "axi_idle s" "core_en s"
  shows "let s' = axi_clk (axi_wr_in 8 w) (axi_clk (axi_wr_in 8 w) s); c = u_core s; c' = u_core s' in
     unat (counter_a c') = (if bit w 0 then unat (reload_eff s) else unat (counter_a c) - 2) \<and>
     unat (counter_b c') = (if bit w 1 then unat (reload_eff s) else unat (counter_b c) - 2) \<and>
     unat (counter_c c') = (if bit w 2 then unat (reload_eff s) else unat (counter_c c) - 2) \<and>
     slv_reg s' = (slv_reg s)(2 := w) \<and> axi_bvalid s'"
proof -
  have r: "reg_sel 8 = 2" by (simp add: reg_sel_def)
  show ?thesis
    using axi_wr_core [OF assms refl, of 8 w] axi_wr_snd [OF assms(1) refl, of 8 w]
    by (simp add: Let_def r)
qed

theorem axi_kick_witness:
  "let s = \<lparr>axi_awaddr = 0, axi_awready = False, axi_wready = False, axi_bvalid = False,
            axi_araddr = 0, axi_arready = False, axi_rdata = 0, axi_rvalid = False, aw_en = True,
            slv_reg = (\<lambda>n. 1), u_core = \<lparr>counter_a = 1, counter_b = 0, counter_c = 9\<rparr>\<rparr>
   in unat (counter_c (u_core (axi_clk (axi_wr_in 8 3) (axi_clk (axi_wr_in 8 3) s)))) = 7"
  using axi_kick [of "\<lparr>axi_awaddr = 0, axi_awready = False, axi_wready = False, axi_bvalid = False,
            axi_araddr = 0, axi_arready = False, axi_rdata = 0, axi_rvalid = False, aw_en = True,
            slv_reg = (\<lambda>n. 1), u_core = \<lparr>counter_a = 1, counter_b = 0, counter_c = 9\<rparr>\<rparr>" 3]
  by (simp add: axi_idle_def core_en_def Let_def bit_word_iff_drop_bit_and)

text \<open>
  Enabling never raises a false alarm.  After any clock at which the watchdog is disabled
  or in reset, whatever the bus does in it (a write that sets EN or that clears RELOAD included),
  every bit of STATUS is zero and no counter is zero, because an unset RELOAD register counts as
  the default of 100000000 clocks.
\<close>

theorem enable_safe:
  assumes "\<not> core_en s \<or> \<not> S_AXI_ARESETN i"
  shows "status_word (core_en (axi_clk i s)) (u_core (axi_clk i s)) = 0 \<and>
         0 \<notin> {counter_a (u_core (axi_clk i s)), counter_b (u_core (axi_clk i s)),
              counter_c (u_core (axi_clk i s))}"
proof -
  have "\<not> (rstn (core_in i s) \<and> enable (core_in i s))"
    using assms by (auto simp: core_in_def core_en_def)
  note held = dog_a.held [OF this] dog_b.held [OF this] dog_c.held [OF this]
  have "reload_val (core_in i s) \<noteq> 0" by (simp add: core_in_def)
  then show ?thesis
    by (simp add: axi_clk_def Let_def held status_word_def to_a_def to_b_def to_c_def
        maj_2of3_def all_3_def)
qed

theorem enable_safe_witness:
  "let s = \<lparr>axi_awaddr = 0, axi_awready = True, axi_wready = True, axi_bvalid = False,
            axi_araddr = 0, axi_arready = False, axi_rdata = 0, axi_rvalid = False, aw_en = False,
            slv_reg = (\<lambda>n. 0), u_core = \<lparr>counter_a = 0, counter_b = 0, counter_c = 0\<rparr>\<rparr>;
       s' = axi_clk (axi_wr_in 0 1) s
   in core_en s' \<and> status_word (core_en s') (u_core s') = 0"
  using enable_safe [of "\<lparr>axi_awaddr = 0, axi_awready = True, axi_wready = True, axi_bvalid = False,
            axi_araddr = 0, axi_arready = False, axi_rdata = 0, axi_rvalid = False, aw_en = False,
            slv_reg = (\<lambda>n. 0), u_core = \<lparr>counter_a = 0, counter_b = 0, counter_c = 0\<rparr>\<rparr>" "axi_wr_in 0 1"]
  by (simp add: core_en_def axi_clk_def axi_wr_in_def slv_reg_wren_def reg_sel_def Let_def)

end
