(* ===== verification/SWDT_Monitor.thy ===== *)
theory SWDT_Monitor
  imports Prelude "HOL-Library.Sublist"
begin

text \<open>
  The third layer of the watchdog: the heartbeat monitor in the PMU firmware
  (\<open>pmufw/swdt_monitor.c\<close>).  The monitor polls the heartbeat register every two seconds, arms
  itself on the first non-zero value and resets the whole system when the value has not changed
  for eight polls.  Its static variables are the record \<open>swdt_mon\<close>; it shares the registers of
  the machine with TF-A, so its functions take and return any extension of the bus state.

  \<open>watch_step\<close> is the abstract monitor.  The locale \<open>hb_monitor\<close> is the contract between a
  concrete monitor and the abstract one; its lemmas transfer the trace properties of the
  abstract monitor to every concrete one and every environment that runs between the polls.
\<close>

section \<open>The monitor (swdt_monitor.c)\<close>

abbreviation (input) HEARTBEAT_ADDR :: addr where "HEARTBEAT_ADDR \<equiv> 0xFF130048"
abbreviation (input) DBG_CB_COUNT_ADDR :: addr where "DBG_CB_COUNT_ADDR \<equiv> 0xFF13003C"
abbreviation (input) DBG_HB_SEEN_ADDR :: addr where "DBG_HB_SEEN_ADDR \<equiv> 0xFF130040"
abbreviation (input) DBG_MISS_ADDR :: addr where "DBG_MISS_ADDR \<equiv> 0xFF130044"
abbreviation (input) CRL_APB_PCAP_CLK_CTRL :: u32 where "CRL_APB_PCAP_CLK_CTRL \<equiv> 0xFF5E00A4"
abbreviation (input) PCAP_CLK_EN :: u32 where "PCAP_CLK_EN \<equiv> 0x01000000"
abbreviation (input) CSU_PCAP_PROG :: addr where "CSU_PCAP_PROG \<equiv> 0xFFCA3000"
abbreviation (input) PCAP_PROG_PL_ASSERT :: u32 where "PCAP_PROG_PL_ASSERT \<equiv> 0"
abbreviation (input) PCAP_PROG_PL_RELEASE :: u32 where "PCAP_PROG_PL_RELEASE \<equiv> 1"
abbreviation (input) MONITOR_PERIOD_MS :: u32 where "MONITOR_PERIOD_MS \<equiv> 2000"
definition MISS_THRESHOLD :: u32 where "MISS_THRESHOLD = 8"

text \<open>The static variables; \<open>CbCount\<close> is the one local to the callback.\<close>

record swdt_mon =
  SwdtMod :: u32
  PrevHbVal :: u32
  MissedCount :: u32
  Armed :: u8
  CbCount :: u32

text \<open>An empty counting loop: only time passes.\<close>

definition spin :: "nat \<Rightarrow> 'a mach_scheme \<Rightarrow> 'a mach_scheme" where
  "spin n m = m\<lparr>m_now := m_now m + n\<rparr>"

text \<open>
  \<open>XPfw_RMW32\<close>, \<open>PmMasterFsm\<close> and \<open>XPfw_ResetSystem\<close> belong to the vendor's PMU firmware: they
  are calls on the trace.  \<open>XPfw_ResetSystem\<close> does not reset the PMU, so the model goes on after it.
\<close>

definition TriggerReset :: "swdt_mon \<Rightarrow> 'a mach_scheme \<Rightarrow> swdt_mon \<times> 'a mach_scheme" where
  "TriggerReset c m =
     (let m = fw_call ''XPfw_RMW32'' [CRL_APB_PCAP_CLK_CTRL, PCAP_CLK_EN, PCAP_CLK_EN] m;
          m = mmio_write_32 CSU_PCAP_PROG PCAP_PROG_PL_ASSERT m;
          m = spin 200000 m;
          m = mmio_write_32 CSU_PCAP_PROG PCAP_PROG_PL_RELEASE m;
          m = fw_call ''PmMasterFsm(APU, FORCE_DOWN)'' [] m;
          m = mmio_write_32 HEARTBEAT_ADDR 0 m;
          c = c\<lparr>PrevHbVal := 0, MissedCount := 0, Armed := 0\<rparr>;
          m = fw_call ''XPfw_ResetSystem'' [] m
      in (c, m))"

definition SwdtMonitorCallback :: "swdt_mon \<Rightarrow> 'a mach_scheme \<Rightarrow> swdt_mon \<times> 'a mach_scheme" where
  "SwdtMonitorCallback c m =
     (let (CurrentHb, m) = mmio_read_32 HEARTBEAT_ADDR m;
          c = c\<lparr>CbCount := CbCount c + 1\<rparr>;
          m = mmio_write_32 DBG_CB_COUNT_ADDR (CbCount c) m;
          m = mmio_write_32 DBG_HB_SEEN_ADDR CurrentHb m
      in if Armed c = 0 then
           (if CurrentHb \<noteq> 0 then (c\<lparr>Armed := 1, PrevHbVal := CurrentHb\<rparr>, m) else (c, m))
         else if CurrentHb \<noteq> PrevHbVal c then
           (c\<lparr>PrevHbVal := CurrentHb, MissedCount := 0\<rparr>, m)
         else
           (let c = c\<lparr>MissedCount := MissedCount c + 1\<rparr>;
                m = mmio_write_32 DBG_MISS_ADDR (MissedCount c) m
            in if MissedCount c \<ge> MISS_THRESHOLD then TriggerReset c m else (c, m)))"

text \<open>
  \<open>XPfw_CoreCreateMod\<close> and \<open>XPfw_CoreScheduleTask\<close> are vendor code; \<open>new_mod\<close> is the pointer that
  the former returns, 0 for \<open>NULL\<close>.
\<close>

definition SwdtMonitorInit :: "u32 \<Rightarrow> swdt_mon \<Rightarrow> 'a mach_scheme \<Rightarrow> swdt_mon \<times> 'a mach_scheme" where
  "SwdtMonitorInit new_mod c m =
     (let m = fw_call ''XPfw_CoreCreateMod'' [] m;
          c = c\<lparr>SwdtMod := new_mod\<rparr>
      in if SwdtMod c = 0 then (c, m)
         else (c\<lparr>PrevHbVal := 0, MissedCount := 0, Armed := 0\<rparr>,
               fw_call ''XPfw_CoreScheduleTask(SwdtMonitorCallback)'' [SwdtMod c, MONITOR_PERIOD_MS] m))"

section \<open>The abstract monitor\<close>

text \<open>
  Either no heartbeat has been seen yet, or the monitor knows the last value and for how many
  polls it has not changed.  A step returns the next state and whether the alarm goes off.
\<close>

datatype watch = Unarmed | Watching u32 nat

fun watch_step :: "nat \<Rightarrow> u32 \<Rightarrow> watch \<Rightarrow> watch \<times> bool" where
  "watch_step lim v Unarmed = (if v = 0 then Unarmed else Watching v 0, False)"
| "watch_step lim v (Watching p n) =
     (if v \<noteq> p then (Watching v 0, False)
      else if Suc n < lim then (Watching p (Suc n), False)
      else (Unarmed, True))"

fun watch_run :: "nat \<Rightarrow> u32 list \<Rightarrow> watch \<Rightarrow> watch \<times> bool list" where
  "watch_run lim [] w = (w, [])"
| "watch_run lim (v # vs) w =
     (let (w', b) = watch_step lim v w; (w'', bs) = watch_run lim vs w' in (w'', b # bs))"

lemma watch_run_Cons:
  "watch_run lim (v # vs) w =
     (fst (watch_run lim vs (fst (watch_step lim v w))),
      snd (watch_step lim v w) # snd (watch_run lim vs (fst (watch_step lim v w))))"
  by (simp add: Let_def split: prod.split)

declare watch_run.simps(2) [simp del] watch_run_Cons [simp]

fun watch_ok :: "nat \<Rightarrow> watch \<Rightarrow> bool" where
  "watch_ok lim Unarmed = True"
| "watch_ok lim (Watching p n) \<longleftrightarrow> n < lim"

text \<open>A stuck value: \<open>lim + 1\<close> equal readings in a row.\<close>

definition stuck :: "nat \<Rightarrow> u32 list \<Rightarrow> bool" where
  "stuck lim vs \<longleftrightarrow> (\<exists>v. sublist (replicate (Suc lim) v) vs)"

lemma no_prefix_across:
  assumes "n < lim" "v \<noteq> p"
  shows "\<not> prefix (replicate (Suc lim) x) (replicate (Suc n) p @ v # vs)"
proof
  assume "prefix (replicate (Suc lim) x) (replicate (Suc n) p @ v # vs)"
  then obtain zs where eq: "replicate (Suc n) p @ v # vs = replicate (Suc lim) x @ zs"
    by (auto simp: prefix_def)
  have "(replicate (Suc n) p @ v # vs) ! 0 = x" using eq by simp
  moreover have "(replicate (Suc n) p @ v # vs) ! Suc n = x"
    using eq assms(1) by (simp only: nth_append) simp
  ultimately show False using assms(2) by (simp add: nth_append)
qed

lemma stuck_Cons:
  "stuck lim (x # xs) \<longleftrightarrow> (\<exists>v. prefix (replicate (Suc lim) v) (x # xs)) \<or> stuck lim xs"
  unfolding stuck_def sublist_Cons_right by blast

lemma stuck_across:
  assumes "n < lim" "v \<noteq> p"
  shows "stuck lim (replicate (Suc n) p @ v # vs) = stuck lim (v # vs)"
  using assms(1)
proof (induction n)
  case 0
  have "stuck lim (replicate (Suc 0) p @ v # vs) = stuck lim (replicate 0 p @ v # vs)"
    using no_prefix_across [OF 0 assms(2), of _ vs] stuck_Cons [of lim p "v # vs"] by auto
  then show ?case by simp
next
  case (Suc n)
  have "stuck lim (replicate (Suc (Suc n)) p @ v # vs) = stuck lim (replicate (Suc n) p @ v # vs)"
    using no_prefix_across [OF Suc.prems assms(2), of _ vs]
      stuck_Cons [of lim p "replicate (Suc n) p @ v # vs"] by auto
  then show ?case using Suc by simp
qed

lemma stuck_replicate: "n < lim \<Longrightarrow> \<not> stuck lim (replicate (Suc n) p)"
  by (auto simp: stuck_def dest!: sublist_length_le)

lemma watching_alarm:
  assumes "n < lim"
  shows "True \<in> set (snd (watch_run lim vs (Watching p n))) \<longleftrightarrow> stuck lim (replicate (Suc n) p @ vs)"
  using assms
proof (induction vs arbitrary: p n)
  case Nil
  then show ?case using stuck_replicate by simp
next
  case (Cons v vs)
  consider "v \<noteq> p" | "v = p" "Suc n < lim" | "v = p" "Suc n = lim" using Cons.prems by linarith
  then show ?case
  proof cases
    case 1
    have "stuck lim (replicate (Suc n) p @ v # vs) = stuck lim (replicate (Suc 0) v @ vs)"
      using stuck_across [OF Cons.prems 1] by simp
    then show ?thesis using 1 Cons.IH [of 0 v] Cons.prems by simp
  next
    case 2
    then show ?thesis using Cons.IH [of "Suc n" p] by (simp add: replicate_app_Cons_same)
  next
    case 3
    then have "replicate (Suc n) p @ v # vs = [] @ replicate (Suc lim) p @ vs"
      by (simp add: replicate_app_Cons_same)
    then have "stuck lim (replicate (Suc n) p @ v # vs)"
      unfolding stuck_def by (metis sublist_appendI)
    then show ?thesis using 3 by simp
  qed
qed

text \<open>
  Exactness of the abstract monitor: it goes off if and only if, after the first non-zero
  reading, some value stays for \<open>lim + 1\<close> readings.
\<close>

lemma unarmed_alarm:
  assumes "0 < lim"
  shows "True \<in> set (snd (watch_run lim vs Unarmed)) \<longleftrightarrow> stuck lim (dropWhile (\<lambda>v. v = 0) vs)"
proof (induction vs)
  case Nil
  then show ?case by (auto simp: stuck_def)
next
  case (Cons v vs)
  then show ?case using watching_alarm [OF assms, of vs v] by simp
qed

text \<open>A frozen value is reported at exactly the poll that exhausts the limit.\<close>

lemma frozen_alarm:
  assumes "n < lim"
  shows "watch_run lim (replicate (lim - n) p) (Watching p n) =
     (Unarmed, replicate (lim - Suc n) False @ [True])"
  using assms
proof (induction "lim - n" arbitrary: n)
  case 0
  then show ?case by simp
next
  case (Suc k)
  show ?case
  proof (cases "Suc n = lim")
    case True
    then have "lim - n = Suc 0" "lim - Suc n = 0" by auto
    with True show ?thesis by simp
  next
    case False
    then have eqs: "lim - n = Suc (lim - Suc n)" "lim - Suc n = Suc (lim - Suc (Suc n))"
      and less: "Suc n < lim"
      using Suc.prems by auto
    have "watch_run lim (replicate (lim - n) p) (Watching p n) =
        (Unarmed, False # replicate (lim - Suc (Suc n)) False @ [True])"
      using Suc.hyps(1) [of "Suc n"] Suc.hyps(2) less unfolding eqs(1) by simp
    then show ?thesis by (simp add: eqs(2))
  qed
qed

lemma unarmed_zeros: "watch_run lim (replicate n 0) Unarmed = (Unarmed, replicate n False)"
  by (induction n) auto

section \<open>Polling among other bus masters\<close>

text \<open>
  A monitor on a shared machine.  Between two polls anything may happen to the machine: each
  element of the list is what the rest of the system does to it before the next poll.
  \<open>poll_run\<close> is the final state, \<open>polled\<close> the readings and \<open>alarms\<close> which polls raised the alarm.
\<close>

fun poll_run :: "('c \<Rightarrow> 'm \<Rightarrow> 'c \<times> 'm) \<Rightarrow> ('m \<Rightarrow> 'm) list \<Rightarrow> 'c \<Rightarrow> 'm \<Rightarrow> 'c \<times> 'm" where
  "poll_run tick [] c m = (c, m)"
| "poll_run tick (e # es) c m = (let (c, m) = tick c (e m) in poll_run tick es c m)"

fun polled :: "('c \<Rightarrow> 'm \<Rightarrow> 'c \<times> 'm) \<Rightarrow> ('m \<Rightarrow> 'v) \<Rightarrow> ('m \<Rightarrow> 'm) list \<Rightarrow> 'c \<Rightarrow> 'm \<Rightarrow> 'v list" where
  "polled tick hb [] c m = []"
| "polled tick hb (e # es) c m =
     hb (e m) # (let (c, m) = tick c (e m) in polled tick hb es c m)"

fun alarms :: "('c \<Rightarrow> 'm \<Rightarrow> 'c \<times> 'm) \<Rightarrow> ('m \<Rightarrow> 'm \<Rightarrow> bool) \<Rightarrow> ('m \<Rightarrow> 'm) list \<Rightarrow> 'c \<Rightarrow> 'm \<Rightarrow> bool list"
  where
  "alarms tick fired [] c m = []"
| "alarms tick fired (e # es) c m =
     (let (c', m') = tick c (e m) in fired (e m) m' # alarms tick fired es c' m')"

lemma polled_length [simp]: "length (polled tick hb es c m) = length es"
  by (induction es arbitrary: c m) (auto simp: Let_def split: prod.split)

text \<open>
  The contract: on states that satisfy the invariant one poll is one step of the abstract
  monitor, and the alarm is visible on the machine.
\<close>

locale hb_monitor =
  fixes tick :: "'c \<Rightarrow> 'm \<Rightarrow> 'c \<times> 'm"
    and hb :: "'m \<Rightarrow> u32"
    and fired :: "'m \<Rightarrow> 'm \<Rightarrow> bool"
    and view :: "'c \<Rightarrow> watch"
    and inv :: "'c \<Rightarrow> bool"
    and lim :: nat
  assumes refines: "inv c \<Longrightarrow> (view (fst (tick c m)), fired m (snd (tick c m))) = watch_step lim (hb m) (view c)"
    and keeps: "inv c \<Longrightarrow> inv (fst (tick c m))"
    and bounded: "inv c \<Longrightarrow> watch_ok lim (view c)"
    and lim_pos: "0 < lim"
begin

lemma run_inv: "inv c \<Longrightarrow> inv (fst (poll_run tick es c m))"
proof (induction es arbitrary: c m)
  case Nil
  then show ?case by simp
next
  case (Cons e es)
  then show ?case using keeps [of c "e m"] by (simp split: prod.split) (metis fst_conv)
qed

lemma simulates:
  assumes "inv c"
  shows "watch_run lim (polled tick hb es c m) (view c) =
    (view (fst (poll_run tick es c m)), alarms tick fired es c m)"
  using assms
proof (induction es arbitrary: c m)
  case Nil
  then show ?case by simp
next
  case (Cons e es)
  obtain c' m' where t: "tick c (e m) = (c', m')" by fastforce
  then have "watch_step lim (hb (e m)) (view c) = (view c', fired (e m) m')"
    using refines [OF Cons.prems, of "e m"] by simp
  moreover have "inv c'" using keeps [OF Cons.prems, of "e m"] t by simp
  ultimately show ?case using Cons.IH [of c' m'] t by simp
qed

lemma alarm_iff_stuck:
  assumes "inv c" "view c = Unarmed"
  shows "True \<in> set (alarms tick fired es c m) \<longleftrightarrow>
    stuck lim (dropWhile (\<lambda>v. v = 0) (polled tick hb es c m))"
  using unarmed_alarm [OF lim_pos] simulates [OF assms(1), of es m] assms(2) by (metis snd_conv)

lemma frozen_detected:
  assumes "inv c" "view c = Watching p n" "polled tick hb es c m = replicate (lim - n) p"
  shows "alarms tick fired es c m = replicate (lim - Suc n) False @ [True]"
proof -
  have "n < lim" using bounded [OF assms(1)] assms(2) by simp
  then show ?thesis
    using simulates [OF assms(1), of es m] frozen_alarm [of n lim p] assms(2,3) by simp
qed

lemma silent_before_first_beat:
  assumes "inv c" "view c = Unarmed" "set (polled tick hb es c m) \<subseteq> {0}"
  shows "True \<notin> set (alarms tick fired es c m)"
proof -
  have "polled tick hb es c m = replicate (length es) 0"
    using assms(3) by (intro replicate_eqI) auto
  then have "alarms tick fired es c m = replicate (length es) False"
    using simulates [OF assms(1), of es m] assms(2) by (simp add: unarmed_zeros)
  then show ?thesis by simp
qed

end

section \<open>The PMU firmware is such a monitor\<close>

definition heartbeat_now :: "'a mach_scheme \<Rightarrow> u32" where
  "heartbeat_now m = fst (mmio_read_32 HEARTBEAT_ADDR m)"

definition reset_issued :: "'a mach_scheme \<Rightarrow> 'a mach_scheme \<Rightarrow> bool" where
  "reset_issued m m' \<longleftrightarrow> CALL ''XPfw_ResetSystem'' [] \<in> set (since m m')"

definition mon_view :: "swdt_mon \<Rightarrow> watch" where
  "mon_view c = (if Armed c = 0 then Unarmed else Watching (PrevHbVal c) (unat (MissedCount c)))"

definition mon_inv :: "swdt_mon \<Rightarrow> bool" where
  "mon_inv c \<longleftrightarrow> Armed c \<in> {0, 1} \<and> MissedCount c < MISS_THRESHOLD \<and> (Armed c = 0 \<longrightarrow> MissedCount c = 0)"

lemma unat_Suc_lt8: "w < 8 \<Longrightarrow> unat (w + 1) = Suc (unat w)" for w :: u32
  by (simp add: word_less_nat_alt unat_word_ariths)

lemma spin_fields [bus_simps]:
  "m_hw (spin n m) = m_hw m" "m_regs (spin n m) = m_regs m" "m_evs (spin n m) = m_evs m"
  by (simp_all add: spin_def)

declare spin_fields [simp]

lemma TriggerReset_state: "fst (TriggerReset c m) = c\<lparr>PrevHbVal := 0, MissedCount := 0, Armed := 0\<rparr>"
  by (simp add: TriggerReset_def Let_def)

text \<open>What the recovery puts on the bus, in order.\<close>

definition recovery_events :: "ioev list" where
  "recovery_events =
     [CALL ''XPfw_RMW32'' [CRL_APB_PCAP_CLK_CTRL, PCAP_CLK_EN, PCAP_CLK_EN],
      WR CSU_PCAP_PROG PCAP_PROG_PL_ASSERT, WR CSU_PCAP_PROG PCAP_PROG_PL_RELEASE,
      CALL ''PmMasterFsm(APU, FORCE_DOWN)'' [], WR HEARTBEAT_ADDR 0, CALL ''XPfw_ResetSystem'' []]"

lemma TriggerReset_evs: "m_evs (snd (TriggerReset c m)) = m_evs m @ recovery_events"
  by (simp add: TriggerReset_def Let_def recovery_events_def)

lemma TriggerReset_bus:
  "m_regs (snd (TriggerReset c m)) HEARTBEAT_ADDR = 0"
  "m_hw (snd (TriggerReset c m)) = m_hw m"
  by (simp_all add: TriggerReset_def Let_def)

lemma callback_cases:
  fixes c m
  defines "r \<equiv> SwdtMonitorCallback c m" and "v \<equiv> heartbeat_now m"
  shows "Armed c = 0 \<Longrightarrow> v = 0 \<Longrightarrow> mon_view (fst r) = Unarmed \<and> \<not> reset_issued m (snd r)"
    and "Armed c = 0 \<Longrightarrow> v \<noteq> 0 \<Longrightarrow>
      mon_view (fst r) = Watching v (unat (MissedCount c)) \<and> \<not> reset_issued m (snd r)"
    and "Armed c \<noteq> 0 \<Longrightarrow> v \<noteq> PrevHbVal c \<Longrightarrow> mon_view (fst r) = Watching v 0 \<and> \<not> reset_issued m (snd r)"
    and "Armed c \<noteq> 0 \<Longrightarrow> v = PrevHbVal c \<Longrightarrow> MissedCount c + 1 < 8 \<Longrightarrow>
      mon_view (fst r) = Watching v (unat (MissedCount c + 1)) \<and> \<not> reset_issued m (snd r)"
    and "Armed c \<noteq> 0 \<Longrightarrow> v = PrevHbVal c \<Longrightarrow> \<not> MissedCount c + 1 < 8 \<Longrightarrow>
      mon_view (fst r) = Unarmed \<and> reset_issued m (snd r)"
  unfolding r_def v_def
  by (simp_all add: SwdtMonitorCallback_def Let_def case_prod_unfold mon_view_def heartbeat_now_def
      reset_issued_def since_def MISS_THRESHOLD_def TriggerReset_state TriggerReset_evs
      recovery_events_def)

lemma mon_refines:
  assumes "mon_inv c"
  shows "(mon_view (fst (SwdtMonitorCallback c m)), reset_issued m (snd (SwdtMonitorCallback c m))) =
    watch_step 8 (heartbeat_now m) (mon_view c)"
proof -
  have lt: "unat (MissedCount c + 1) = Suc (unat (MissedCount c))"
    using assms by (intro unat_Suc_lt8) (simp add: mon_inv_def MISS_THRESHOLD_def)
  consider "Armed c = 0" "heartbeat_now m = 0" | "Armed c = 0" "heartbeat_now m \<noteq> 0"
    | "Armed c \<noteq> 0" "heartbeat_now m \<noteq> PrevHbVal c"
    | "Armed c \<noteq> 0" "heartbeat_now m = PrevHbVal c" "MissedCount c + 1 < 8"
    | "Armed c \<noteq> 0" "heartbeat_now m = PrevHbVal c" "\<not> MissedCount c + 1 < 8" by blast
  then show ?thesis
    using assms lt callback_cases [of c m]
    by cases (simp_all add: mon_view_def mon_inv_def word_less_nat_alt)
qed

lemma reset_count:
  assumes "mon_inv c" "reset_issued m (snd (SwdtMonitorCallback c m))"
  shows "MissedCount c + 1 = 8"
proof -
  have "\<not> MissedCount c + 1 < 8" using callback_cases(1-4) [of c m] assms(2) by blast
  moreover have "unat (MissedCount c + 1) = Suc (unat (MissedCount c))" "unat (MissedCount c) < 8"
    using assms(1) unat_Suc_lt8 [of "MissedCount c"]
    by (simp_all add: mon_inv_def MISS_THRESHOLD_def word_less_nat_alt)
  ultimately have "unat (MissedCount c + 1) = unat (8 :: u32)" by (simp add: word_less_nat_alt)
  then show ?thesis by (simp only: word_unat_eq_iff)
qed

lemma mon_keeps: "mon_inv c \<Longrightarrow> mon_inv (fst (SwdtMonitorCallback c m))"
  by (auto simp: mon_inv_def SwdtMonitorCallback_def Let_def case_prod_unfold TriggerReset_state
      MISS_THRESHOLD_def)

interpretation pmu: hb_monitor SwdtMonitorCallback heartbeat_now reset_issued mon_view mon_inv 8
proof unfold_locales
  show "watch_ok 8 (mon_view c)" if "mon_inv c" for c
    using that by (auto simp: mon_inv_def mon_view_def MISS_THRESHOLD_def word_less_nat_alt)
qed (simp_all add: mon_refines mon_keeps)

lemma init_inv:
  assumes "new_mod \<noteq> 0"
  shows "mon_inv (fst (SwdtMonitorInit new_mod c m)) \<and> mon_view (fst (SwdtMonitorInit new_mod c m)) = Unarmed"
  using assms by (simp add: SwdtMonitorInit_def Let_def mon_inv_def mon_view_def MISS_THRESHOLD_def)

lemma callback_bus:
  "m_hw (snd (SwdtMonitorCallback c m)) = m_hw m"
  "m_regs (snd (SwdtMonitorCallback c m)) HEARTBEAT_ADDR \<in> {0, m_regs m HEARTBEAT_ADDR}"
  by (auto simp: SwdtMonitorCallback_def Let_def case_prod_unfold TriggerReset_def)

lemma callback_more: "mach.more (snd (SwdtMonitorCallback c m)) = mach.more m"
  by (simp add: SwdtMonitorCallback_def TriggerReset_def Let_def case_prod_unfold spin_def)

lemma callback_keeps_hb:
  assumes "\<not> reset_issued m (snd (SwdtMonitorCallback c m))"
  shows "m_regs (snd (SwdtMonitorCallback c m)) HEARTBEAT_ADDR = m_regs m HEARTBEAT_ADDR"
proof -
  have "\<not> (Armed c \<noteq> 0 \<and> heartbeat_now m = PrevHbVal c \<and> \<not> MissedCount c + 1 < 8)"
    using callback_cases(5) [of c m] assms by blast
  then consider "Armed c = 0" | "Armed c \<noteq> 0" "heartbeat_now m \<noteq> PrevHbVal c"
    | "Armed c \<noteq> 0" "heartbeat_now m = PrevHbVal c" "\<not> MissedCount c + 1 \<ge> 8" by (auto simp: not_le)
  then show ?thesis
    by cases (simp_all add: SwdtMonitorCallback_def Let_def case_prod_unfold heartbeat_now_def
        MISS_THRESHOLD_def)
qed

lemma callback_reset:
  assumes "reset_issued m (snd (SwdtMonitorCallback c m))"
  shows "\<exists>c1 m1. SwdtMonitorCallback c m = TriggerReset c1 m1 \<and>
    m_evs m1 = m_evs m @ [RD HEARTBEAT_ADDR (PrevHbVal c), WR DBG_CB_COUNT_ADDR (CbCount c + 1),
      WR DBG_HB_SEEN_ADDR (PrevHbVal c), WR DBG_MISS_ADDR (MissedCount c + 1)]"
  using assms
  by (auto simp: SwdtMonitorCallback_def Let_def case_prod_unfold reset_issued_def since_def
      split: if_splits intro!: exI)

lemma callback_plain [simp]: "plain (snd (SwdtMonitorCallback c m)) a = plain m a"
  by (simp add: plain_def callback_bus)

text \<open>What the monitor reads when somebody rewrites the same heartbeat before every poll.\<close>

lemma polled_rewritten:
  assumes "plain m HEARTBEAT_ADDR"
  shows "polled SwdtMonitorCallback heartbeat_now (replicate n (mmio_write_32 HEARTBEAT_ADDR v)) c m = replicate n v"
  using assms by (induction n arbitrary: c m) (simp_all add: case_prod_unfold heartbeat_now_def)

text \<open>What it reads when the register is zero and nobody writes it.\<close>

definition leaves_hb :: "('a mach_scheme \<Rightarrow> 'a mach_scheme) \<Rightarrow> bool" where
  "leaves_hb e \<longleftrightarrow>
     (\<forall>x. m_hw (e x) = m_hw x \<and> m_regs (e x) HEARTBEAT_ADDR = m_regs x HEARTBEAT_ADDR)"

lemma polled_zero:
  assumes "plain m HEARTBEAT_ADDR" "m_regs m HEARTBEAT_ADDR = 0" "list_all leaves_hb es"
  shows "set (polled SwdtMonitorCallback heartbeat_now es c m) \<subseteq> {0}"
  using assms
proof (induction es arbitrary: c m)
  case Nil
  then show ?case by simp
next
  case (Cons e es)
  have e: "plain (e m) HEARTBEAT_ADDR" "m_regs (e m) HEARTBEAT_ADDR = 0"
    using Cons.prems by (simp_all add: leaves_hb_def plain_def)
  then have "m_regs (snd (SwdtMonitorCallback c (e m))) HEARTBEAT_ADDR = 0"
    using callback_bus(2) [of c "e m"] by simp
  then show ?case
    using Cons.IH [of "snd (SwdtMonitorCallback c (e m))"] Cons.prems(3) e
    by (simp add: case_prod_unfold heartbeat_now_def Let_def)
qed

section \<open>Properties of the monitor\<close>

text \<open>
  C3.  Detection is exact.  Start the monitor with \<open>SwdtMonitorInit\<close> on any machine and let
  anything at all happen on the bus between the polls.  The PMU issues a system reset during the
  run if and only if, once a non-zero heartbeat has been read, nine consecutive polls read the
  same value (one reading and eight misses).  So there is no missed freeze and no false alarm.
\<close>

theorem monitor_exact:
  assumes "new_mod \<noteq> 0" and "SwdtMonitorInit new_mod c0 m0 = (c, m)"
  shows "True \<in> set (alarms SwdtMonitorCallback reset_issued es c m) \<longleftrightarrow>
    stuck 8 (dropWhile (\<lambda>v. v = 0) (polled SwdtMonitorCallback heartbeat_now es c m))"
  using pmu.alarm_iff_stuck init_inv [OF assms(1), of c0 m0] assms(2) by (metis fst_conv)

definition test_mach :: mach where
  "test_mach = \<lparr>m_hw = \<lambda>t a v. v, m_now = 0, m_regs = (\<lambda>_. 0), m_evs = []\<rparr>"

definition test_mon :: swdt_mon where
  "test_mon = \<lparr>SwdtMod = 0, PrevHbVal = 5, MissedCount = 5, Armed = 1, CbCount = 0\<rparr>"

lemma test_mach_plain [simp]: "plain test_mach a"
  by (simp add: test_mach_def plain_def)

theorem monitor_exact_witness:
  "let (c, m) = SwdtMonitorInit 1 test_mon test_mach
   in True \<in> set (alarms SwdtMonitorCallback reset_issued
        (replicate 9 (mmio_write_32 HEARTBEAT_ADDR 7)) c m)"
proof -
  obtain c m where cm: "SwdtMonitorInit 1 test_mon test_mach = (c, m)" by fastforce
  then have "plain m HEARTBEAT_ADDR" by (auto simp: SwdtMonitorInit_def Let_def)
  then have "stuck 8 (dropWhile (\<lambda>v. v = 0) (polled SwdtMonitorCallback heartbeat_now
      (replicate 9 (mmio_write_32 HEARTBEAT_ADDR 7)) c m))"
    by (auto simp: polled_rewritten stuck_def intro: exI [of _ 7])
  then show ?thesis using monitor_exact [OF _ cm] cm by simp
qed

text \<open>
  C17.  Detection time.  When the monitor is armed and the heartbeat stays at the value last seen,
  the reset comes at exactly the poll that makes eight misses in a row, and at no poll before,
  whatever else happens on the bus.
\<close>

theorem monitor_latency:
  assumes "mon_inv c" "Armed c = 1" and "n = 8 - unat (MissedCount c)"
    and "polled SwdtMonitorCallback heartbeat_now es c m = replicate n (PrevHbVal c)"
  shows "alarms SwdtMonitorCallback reset_issued es c m = replicate (n - 1) False @ [True]"
  using pmu.frozen_detected [OF assms(1), of "PrevHbVal c" "unat (MissedCount c)" es m] assms(2-4)
  by (simp add: mon_view_def)

theorem monitor_latency_witness:
  "alarms SwdtMonitorCallback reset_issued (replicate 3 (mmio_write_32 HEARTBEAT_ADDR 5)) test_mon test_mach
     = [False, False, True]"
proof -
  have "polled SwdtMonitorCallback heartbeat_now (replicate 3 (mmio_write_32 HEARTBEAT_ADDR 5)) test_mon test_mach
      = replicate 3 (PrevHbVal test_mon)"
    by (simp add: polled_rewritten test_mon_def)
  then have "alarms SwdtMonitorCallback reset_issued (replicate 3 (mmio_write_32 HEARTBEAT_ADDR 5)) test_mon test_mach
      = replicate (3 - 1) False @ [True]"
    by (intro monitor_latency) (simp_all add: test_mon_def mon_inv_def MISS_THRESHOLD_def)
  then show ?thesis by (simp add: numeral_2_eq_2)
qed

text \<open>
  C18.  The recovery.  A poll that resets the system first clears the PL (clock on, PROG asserted,
  then released), forces the APU down and zeroes the heartbeat register, in this order and with
  nothing in between; the reset is the last event of the poll.  The monitor is then disarmed, and
  as long as nobody writes a new heartbeat it never resets the system again.
\<close>

theorem monitor_recovery:
  assumes "mon_inv c" "SwdtMonitorCallback c m = (c', m')" "reset_issued m m'"
  shows "m_evs m' = m_evs m @
      [RD HEARTBEAT_ADDR (PrevHbVal c), WR DBG_CB_COUNT_ADDR (CbCount c + 1),
       WR DBG_HB_SEEN_ADDR (PrevHbVal c), WR DBG_MISS_ADDR 8] @ recovery_events \<and>
    Armed c' = 0 \<and>
    (plain m HEARTBEAT_ADDR \<longrightarrow> list_all leaves_hb es \<longrightarrow>
     True \<notin> set (alarms SwdtMonitorCallback reset_issued es c' m'))"
proof -
  obtain c1 m1 where cb: "SwdtMonitorCallback c m = TriggerReset c1 m1"
    and ev: "m_evs m1 = m_evs m @ [RD HEARTBEAT_ADDR (PrevHbVal c), WR DBG_CB_COUNT_ADDR (CbCount c + 1),
      WR DBG_HB_SEEN_ADDR (PrevHbVal c), WR DBG_MISS_ADDR (MissedCount c + 1)]"
    using callback_reset assms(2,3) by (metis snd_conv)
  have eq: "c' = fst (TriggerReset c1 m1)" "m' = snd (TriggerReset c1 m1)"
    using cb assms(2) by (metis fst_conv, metis snd_conv)
  have "mon_inv c'" using mon_keeps [OF assms(1), of m] assms(2) by simp
  moreover have un: "mon_view c' = Unarmed" "Armed c' = 0"
    by (simp_all add: eq TriggerReset_state mon_view_def)
  moreover have "set (polled SwdtMonitorCallback heartbeat_now es c' m') \<subseteq> {0}"
    if "plain m HEARTBEAT_ADDR" "list_all leaves_hb es"
    using that assms(2) callback_plain [of c m HEARTBEAT_ADDR]
    by (intro polled_zero) (simp_all add: eq TriggerReset_bus cb)
  ultimately have "True \<notin> set (alarms SwdtMonitorCallback reset_issued es c' m')"
    if "plain m HEARTBEAT_ADDR" "list_all leaves_hb es"
    using that pmu.silent_before_first_beat by blast
  moreover have "MissedCount c + 1 = 8"
    using reset_count [OF assms(1), of m] assms(2,3) by simp
  ultimately show ?thesis using ev un by (simp add: eq TriggerReset_evs)
qed

theorem monitor_recovery_witness:
  "let m = mmio_write_32 HEARTBEAT_ADDR 5 test_mach; c = test_mon\<lparr>MissedCount := 7\<rparr>;
       (c', m') = SwdtMonitorCallback c m
   in Armed c' = 0 \<and> True \<notin> set (alarms SwdtMonitorCallback reset_issued (replicate 20 (fw_call ''Linux'' [])) c' m')"
proof -
  define m c where "m = mmio_write_32 HEARTBEAT_ADDR 5 test_mach" and "c = test_mon\<lparr>MissedCount := 7\<rparr>"
  obtain c' m' where cm: "SwdtMonitorCallback c m = (c', m')" by fastforce
  have inv: "mon_inv c" by (simp add: c_def test_mon_def mon_inv_def MISS_THRESHOLD_def)
  have "reset_issued m (snd (SwdtMonitorCallback c m))"
    by (rule callback_cases(5) [THEN conjunct2])
      (simp_all add: c_def m_def test_mon_def heartbeat_now_def)
  then have "reset_issued m m'" using cm by simp
  then show ?thesis
    using monitor_recovery [OF inv cm, of "replicate 20 (fw_call ''Linux'' [])"] cm
    by (simp add: leaves_hb_def m_def c_def list_all_iff)
qed

end
