(* ===== verification/GICv2.thy ===== *)
theory GICv2
  imports Prelude
begin

text \<open>
  The GICv2 driver of TF-A and its platform glue: \<open>drivers/arm/gic/v2/gicdv2_helpers.c\<close>,
  \<open>gicv2_helpers.c\<close>, \<open>gicv2_private.h\<close>, \<open>gicv2_main.c\<close>, \<open>plat/common/plat_gicv2.c\<close> and
  \<open>plat/arm/common/arm_gicv2.c\<close>, built with \<open>GICV2_G0_FOR_EL3\<close>.  The driver state (the driver
  data pointer, the target mask array, the spinlock and the identity of the calling core)
  extends the bus record.  A failing \<open>assert\<close> and a lock that is already held are \<open>None\<close>.
  The barriers \<open>dsbishst\<close> and \<open>dmbishst\<close> order accesses that the bus record orders already.
\<close>

section \<open>Register map (gic_common.h, gicv2.h)\<close>

definition GICD_CTLR :: addr where "GICD_CTLR = 0x0"
definition GICD_TYPER :: addr where "GICD_TYPER = 0x4"
abbreviation (input) GICD_IIDR :: addr where "GICD_IIDR \<equiv> 0x8"
definition GICD_IGROUPR :: addr where "GICD_IGROUPR = 0x80"
abbreviation (input) GICD_ISENABLER :: addr where "GICD_ISENABLER \<equiv> 0x100"
abbreviation (input) GICD_ICENABLER :: addr where "GICD_ICENABLER \<equiv> 0x180"
abbreviation (input) GICD_ISPENDR :: addr where "GICD_ISPENDR \<equiv> 0x200"
abbreviation (input) GICD_ICPENDR :: addr where "GICD_ICPENDR \<equiv> 0x280"
abbreviation (input) GICD_ISACTIVER :: addr where "GICD_ISACTIVER \<equiv> 0x300"
abbreviation (input) GICD_ICACTIVER :: addr where "GICD_ICACTIVER \<equiv> 0x380"
definition GICD_IPRIORITYR :: addr where "GICD_IPRIORITYR = 0x400"
definition GICD_ITARGETSR :: addr where "GICD_ITARGETSR = 0x800"
abbreviation (input) GICD_ICFGR :: addr where "GICD_ICFGR \<equiv> 0xC00"
abbreviation (input) GICD_NSACR :: addr where "GICD_NSACR \<equiv> 0xE00"
abbreviation (input) GICD_SGIR :: addr where "GICD_SGIR \<equiv> 0xF00"
abbreviation (input) GICD_CPENDSGIR :: addr where "GICD_CPENDSGIR \<equiv> 0xF10"
abbreviation (input) GICD_SPENDSGIR :: addr where "GICD_SPENDSGIR \<equiv> 0xF20"
abbreviation (input) GICD_PIDR2_GICV2 :: addr where "GICD_PIDR2_GICV2 \<equiv> 0xFE8"
abbreviation (input) GICC_CTLR :: addr where "GICC_CTLR \<equiv> 0x0"
abbreviation (input) GICC_PMR :: addr where "GICC_PMR \<equiv> 0x4"
abbreviation (input) GICC_BPR :: addr where "GICC_BPR \<equiv> 0x8"
abbreviation (input) GICC_IAR :: addr where "GICC_IAR \<equiv> 0xC"
abbreviation (input) GICC_EOIR :: addr where "GICC_EOIR \<equiv> 0x10"
abbreviation (input) GICC_RPR :: addr where "GICC_RPR \<equiv> 0x14"
abbreviation (input) GICC_HPPIR :: addr where "GICC_HPPIR \<equiv> 0x18"
abbreviation (input) GICC_AHPPIR :: addr where "GICC_AHPPIR \<equiv> 0x28"
abbreviation (input) GICC_IIDR :: addr where "GICC_IIDR \<equiv> 0xFC"
abbreviation (input) GICC_DIR :: addr where "GICC_DIR \<equiv> 0x1000"
definition IGROUPR_SHIFT :: nat where "IGROUPR_SHIFT = 5"
abbreviation (input) ISENABLER_SHIFT :: nat where "ISENABLER_SHIFT \<equiv> 5"
abbreviation (input) ISPENDR_SHIFT :: nat where "ISPENDR_SHIFT \<equiv> 5"
abbreviation (input) ISACTIVER_SHIFT :: nat where "ISACTIVER_SHIFT \<equiv> 5"
abbreviation (input) IPRIORITYR_SHIFT :: nat where "IPRIORITYR_SHIFT \<equiv> 2"
abbreviation (input) ITARGETSR_SHIFT :: nat where "ITARGETSR_SHIFT \<equiv> 2"
abbreviation (input) CPENDSGIR_SHIFT :: nat where "CPENDSGIR_SHIFT \<equiv> 2"
abbreviation (input) ICFGR_SHIFT :: nat where "ICFGR_SHIFT \<equiv> 4"
abbreviation (input) NSACR_SHIFT :: nat where "NSACR_SHIFT \<equiv> 4"
abbreviation (input) MIN_PPI_ID :: u32 where "MIN_PPI_ID \<equiv> 0x10"
abbreviation (input) MIN_SPI_ID :: u32 where "MIN_SPI_ID \<equiv> 0x20"
definition MAX_SPI_ID :: u32 where "MAX_SPI_ID = 0x3fb"
abbreviation (input) GIC_SPURIOUS_INTERRUPT :: u32 where "GIC_SPURIOUS_INTERRUPT \<equiv> 0x3ff"
abbreviation (input) PENDING_G1_INTID :: u32 where "PENDING_G1_INTID \<equiv> 0x3fe"
abbreviation (input) INT_ID_MASK :: u32 where "INT_ID_MASK \<equiv> 0x3ff"
abbreviation (input) GIC_PRI_MASK :: u32 where "GIC_PRI_MASK \<equiv> 0xff"
abbreviation (input) GIC_TARGET_CPU_MASK :: u32 where "GIC_TARGET_CPU_MASK \<equiv> 0xff"
abbreviation (input) GIC_CFG_MASK :: u32 where "GIC_CFG_MASK \<equiv> 3"
abbreviation (input) GICV2_INTR_GROUP0 :: u32 where "GICV2_INTR_GROUP0 \<equiv> 0"
abbreviation (input) GICV2_INTR_GROUP1 :: u32 where "GICV2_INTR_GROUP1 \<equiv> 1"
abbreviation (input) TYPER_IT_LINES_NO_MASK :: u32 where "TYPER_IT_LINES_NO_MASK \<equiv> 0x1f"
abbreviation (input) GICD_IPRIORITYR_DEF_VAL :: u32 where "GICD_IPRIORITYR_DEF_VAL \<equiv> 0x80808080"
abbreviation (input) CTLR_ENABLE_G0_BIT :: u32 where "CTLR_ENABLE_G0_BIT \<equiv> 1"
abbreviation (input) CTLR_ENABLE_G1_BIT :: u32 where "CTLR_ENABLE_G1_BIT \<equiv> 2"
abbreviation (input) FIQ_EN_BIT :: u32 where "FIQ_EN_BIT \<equiv> 8"
abbreviation (input) FIQ_BYP_DIS_GRP0 :: u32 where "FIQ_BYP_DIS_GRP0 \<equiv> 0x20"
abbreviation (input) IRQ_BYP_DIS_GRP0 :: u32 where "IRQ_BYP_DIS_GRP0 \<equiv> 0x40"
abbreviation (input) FIQ_BYP_DIS_GRP1 :: u32 where "FIQ_BYP_DIS_GRP1 \<equiv> 0x80"
abbreviation (input) IRQ_BYP_DIS_GRP1 :: u32 where "IRQ_BYP_DIS_GRP1 \<equiv> 0x100"
definition INTR_TYPE_S_EL1 :: u32 where "INTR_TYPE_S_EL1 = 0"
definition INTR_TYPE_EL3 :: u32 where "INTR_TYPE_EL3 = 1"
definition INTR_TYPE_NS :: u32 where "INTR_TYPE_NS = 2"
abbreviation (input) INTR_TYPE_INVAL :: u32 where "INTR_TYPE_INVAL \<equiv> 3"
abbreviation (input) INTR_ID_UNAVAILABLE :: u32 where "INTR_ID_UNAVAILABLE \<equiv> 0xffffffff"
abbreviation (input) INTR_ROUTING_MODE_PE :: u32 where "INTR_ROUTING_MODE_PE \<equiv> 0"
abbreviation (input) INTR_ROUTING_MODE_ANY :: u32 where "INTR_ROUTING_MODE_ANY \<equiv> 1"
abbreviation (input) FIQ_EN_SHIFT :: nat where "FIQ_EN_SHIFT \<equiv> 3"
abbreviation (input) GICV2_MAX_TARGET_PE :: nat where "GICV2_MAX_TARGET_PE \<equiv> 8"
definition PLATFORM_CORE_COUNT :: nat where "PLATFORM_CORE_COUNT = 4"

section \<open>Driver state\<close>

record interrupt_prop =
  intr_num :: u32
  intr_pri :: u32
  intr_grp :: u32
  intr_cfg :: u32

record gicv2_driver_data =
  gicd_base :: addr
  gicc_base :: addr
  target_masks_num :: nat
  interrupt_props :: "interrupt_prop list"

text \<open>\<open>mpidr_el1\<close> identifies the core that runs the code.\<close>

record gic_mach = mach +
  driver_data :: "gicv2_driver_data option"
  target_masks :: "nat \<Rightarrow> u32"
  gic_lock :: bool
  mpidr_el1 :: u64

section \<open>Whole-register accessors (gicdv2_helpers.c)\<close>

text \<open>The register that holds the field of interrupt \<open>iid\<close>, at \<open>2 ^ sh\<close> interrupts a register.\<close>

definition gicd_reg :: "addr \<Rightarrow> addr \<Rightarrow> nat \<Rightarrow> u32 \<Rightarrow> addr" where
  "gicd_reg base off sh iid = base + off + ucast (push_bit 2 (drop_bit sh iid))"

definition gicd_read_igroupr :: "addr \<Rightarrow> u32 \<Rightarrow> 'a mach_scheme \<Rightarrow> u32 \<times> 'a mach_scheme" where
  "gicd_read_igroupr base iid = mmio_read_32 (gicd_reg base GICD_IGROUPR IGROUPR_SHIFT iid)"

definition gicd_read_isenabler :: "addr \<Rightarrow> u32 \<Rightarrow> 'a mach_scheme \<Rightarrow> u32 \<times> 'a mach_scheme" where
  "gicd_read_isenabler base iid = mmio_read_32 (gicd_reg base GICD_ISENABLER ISENABLER_SHIFT iid)"

definition gicd_read_icenabler :: "addr \<Rightarrow> u32 \<Rightarrow> 'a mach_scheme \<Rightarrow> u32 \<times> 'a mach_scheme" where
  "gicd_read_icenabler base iid = mmio_read_32 (gicd_reg base GICD_ICENABLER ISENABLER_SHIFT iid)"

definition gicd_read_ispendr :: "addr \<Rightarrow> u32 \<Rightarrow> 'a mach_scheme \<Rightarrow> u32 \<times> 'a mach_scheme" where
  "gicd_read_ispendr base iid = mmio_read_32 (gicd_reg base GICD_ISPENDR ISPENDR_SHIFT iid)"

definition gicd_read_icpendr :: "addr \<Rightarrow> u32 \<Rightarrow> 'a mach_scheme \<Rightarrow> u32 \<times> 'a mach_scheme" where
  "gicd_read_icpendr base iid = mmio_read_32 (gicd_reg base GICD_ICPENDR ISPENDR_SHIFT iid)"

definition gicd_read_isactiver :: "addr \<Rightarrow> u32 \<Rightarrow> 'a mach_scheme \<Rightarrow> u32 \<times> 'a mach_scheme" where
  "gicd_read_isactiver base iid = mmio_read_32 (gicd_reg base GICD_ISACTIVER ISACTIVER_SHIFT iid)"

definition gicd_read_icactiver :: "addr \<Rightarrow> u32 \<Rightarrow> 'a mach_scheme \<Rightarrow> u32 \<times> 'a mach_scheme" where
  "gicd_read_icactiver base iid = mmio_read_32 (gicd_reg base GICD_ICACTIVER ISACTIVER_SHIFT iid)"

definition gicd_read_ipriorityr :: "addr \<Rightarrow> u32 \<Rightarrow> 'a mach_scheme \<Rightarrow> u32 \<times> 'a mach_scheme" where
  "gicd_read_ipriorityr base iid = mmio_read_32 (gicd_reg base GICD_IPRIORITYR IPRIORITYR_SHIFT iid)"

definition gicd_read_icfgr :: "addr \<Rightarrow> u32 \<Rightarrow> 'a mach_scheme \<Rightarrow> u32 \<times> 'a mach_scheme" where
  "gicd_read_icfgr base iid = mmio_read_32 (gicd_reg base GICD_ICFGR ICFGR_SHIFT iid)"

definition gicd_read_nsacr :: "addr \<Rightarrow> u32 \<Rightarrow> 'a mach_scheme \<Rightarrow> u32 \<times> 'a mach_scheme" where
  "gicd_read_nsacr base iid = mmio_read_32 (gicd_reg base GICD_NSACR NSACR_SHIFT iid)"

definition gicd_write_igroupr :: "addr \<Rightarrow> u32 \<Rightarrow> u32 \<Rightarrow> 'a mach_scheme \<Rightarrow> 'a mach_scheme" where
  "gicd_write_igroupr base iid val = mmio_write_32 (gicd_reg base GICD_IGROUPR IGROUPR_SHIFT iid) val"

definition gicd_write_isenabler :: "addr \<Rightarrow> u32 \<Rightarrow> u32 \<Rightarrow> 'a mach_scheme \<Rightarrow> 'a mach_scheme" where
  "gicd_write_isenabler base iid val = mmio_write_32 (gicd_reg base GICD_ISENABLER ISENABLER_SHIFT iid) val"

definition gicd_write_icenabler :: "addr \<Rightarrow> u32 \<Rightarrow> u32 \<Rightarrow> 'a mach_scheme \<Rightarrow> 'a mach_scheme" where
  "gicd_write_icenabler base iid val = mmio_write_32 (gicd_reg base GICD_ICENABLER ISENABLER_SHIFT iid) val"

definition gicd_write_ispendr :: "addr \<Rightarrow> u32 \<Rightarrow> u32 \<Rightarrow> 'a mach_scheme \<Rightarrow> 'a mach_scheme" where
  "gicd_write_ispendr base iid val = mmio_write_32 (gicd_reg base GICD_ISPENDR ISPENDR_SHIFT iid) val"

definition gicd_write_icpendr :: "addr \<Rightarrow> u32 \<Rightarrow> u32 \<Rightarrow> 'a mach_scheme \<Rightarrow> 'a mach_scheme" where
  "gicd_write_icpendr base iid val = mmio_write_32 (gicd_reg base GICD_ICPENDR ISPENDR_SHIFT iid) val"

definition gicd_write_isactiver :: "addr \<Rightarrow> u32 \<Rightarrow> u32 \<Rightarrow> 'a mach_scheme \<Rightarrow> 'a mach_scheme" where
  "gicd_write_isactiver base iid val = mmio_write_32 (gicd_reg base GICD_ISACTIVER ISACTIVER_SHIFT iid) val"

definition gicd_write_icactiver :: "addr \<Rightarrow> u32 \<Rightarrow> u32 \<Rightarrow> 'a mach_scheme \<Rightarrow> 'a mach_scheme" where
  "gicd_write_icactiver base iid val = mmio_write_32 (gicd_reg base GICD_ICACTIVER ISACTIVER_SHIFT iid) val"

definition gicd_write_ipriorityr :: "addr \<Rightarrow> u32 \<Rightarrow> u32 \<Rightarrow> 'a mach_scheme \<Rightarrow> 'a mach_scheme" where
  "gicd_write_ipriorityr base iid val = mmio_write_32 (gicd_reg base GICD_IPRIORITYR IPRIORITYR_SHIFT iid) val"

definition gicd_write_icfgr :: "addr \<Rightarrow> u32 \<Rightarrow> u32 \<Rightarrow> 'a mach_scheme \<Rightarrow> 'a mach_scheme" where
  "gicd_write_icfgr base iid val = mmio_write_32 (gicd_reg base GICD_ICFGR ICFGR_SHIFT iid) val"

definition gicd_write_nsacr :: "addr \<Rightarrow> u32 \<Rightarrow> u32 \<Rightarrow> 'a mach_scheme \<Rightarrow> 'a mach_scheme" where
  "gicd_write_nsacr base iid val = mmio_write_32 (gicd_reg base GICD_NSACR NSACR_SHIFT iid) val"

section \<open>Single-interrupt accessors (gicdv2_helpers.c)\<close>

text \<open>The bit of interrupt \<open>iid\<close> in its register.\<close>

definition bit_num :: "nat \<Rightarrow> u32 \<Rightarrow> nat" where
  "bit_num sh iid = unat (iid AND (push_bit sh 1 - 1))"

definition one_bit :: "nat \<Rightarrow> u32 \<Rightarrow> u32" where
  "one_bit sh iid = push_bit (bit_num sh iid) 1"

definition gicd_get_igroupr :: "addr \<Rightarrow> u32 \<Rightarrow> 'a mach_scheme \<Rightarrow> u32 \<times> 'a mach_scheme" where
  "gicd_get_igroupr base iid s =
     (let (reg_val, s) = gicd_read_igroupr base iid s in (drop_bit (bit_num IGROUPR_SHIFT iid) reg_val AND 1, s))"

definition gicd_set_igroupr :: "addr \<Rightarrow> u32 \<Rightarrow> 'a mach_scheme \<Rightarrow> 'a mach_scheme" where
  "gicd_set_igroupr base iid s =
     (let (reg_val, s) = gicd_read_igroupr base iid s
      in gicd_write_igroupr base iid (reg_val OR one_bit IGROUPR_SHIFT iid) s)"

definition gicd_clr_igroupr :: "addr \<Rightarrow> u32 \<Rightarrow> 'a mach_scheme \<Rightarrow> 'a mach_scheme" where
  "gicd_clr_igroupr base iid s =
     (let (reg_val, s) = gicd_read_igroupr base iid s
      in gicd_write_igroupr base iid (reg_val AND NOT (one_bit IGROUPR_SHIFT iid)) s)"

definition gicd_set_isenabler :: "addr \<Rightarrow> u32 \<Rightarrow> 'a mach_scheme \<Rightarrow> 'a mach_scheme" where
  "gicd_set_isenabler base iid = gicd_write_isenabler base iid (one_bit ISENABLER_SHIFT iid)"

definition gicd_set_icenabler :: "addr \<Rightarrow> u32 \<Rightarrow> 'a mach_scheme \<Rightarrow> 'a mach_scheme" where
  "gicd_set_icenabler base iid = gicd_write_icenabler base iid (one_bit ISENABLER_SHIFT iid)"

definition gicd_set_ispendr :: "addr \<Rightarrow> u32 \<Rightarrow> 'a mach_scheme \<Rightarrow> 'a mach_scheme" where
  "gicd_set_ispendr base iid = gicd_write_ispendr base iid (one_bit ISPENDR_SHIFT iid)"

definition gicd_set_icpendr :: "addr \<Rightarrow> u32 \<Rightarrow> 'a mach_scheme \<Rightarrow> 'a mach_scheme" where
  "gicd_set_icpendr base iid = gicd_write_icpendr base iid (one_bit ISPENDR_SHIFT iid)"

definition gicd_get_isactiver :: "addr \<Rightarrow> u32 \<Rightarrow> 'a mach_scheme \<Rightarrow> u32 \<times> 'a mach_scheme" where
  "gicd_get_isactiver base iid s =
     (let (reg_val, s) = gicd_read_isactiver base iid s in (drop_bit (bit_num ISACTIVER_SHIFT iid) reg_val AND 1, s))"

definition gicd_set_isactiver :: "addr \<Rightarrow> u32 \<Rightarrow> 'a mach_scheme \<Rightarrow> 'a mach_scheme" where
  "gicd_set_isactiver base iid = gicd_write_isactiver base iid (one_bit ISACTIVER_SHIFT iid)"

definition gicd_set_icactiver :: "addr \<Rightarrow> u32 \<Rightarrow> 'a mach_scheme \<Rightarrow> 'a mach_scheme" where
  "gicd_set_icactiver base iid = gicd_write_icactiver base iid (one_bit ISACTIVER_SHIFT iid)"

definition gicd_set_ipriorityr :: "addr \<Rightarrow> u32 \<Rightarrow> u32 \<Rightarrow> 'a mach_scheme \<Rightarrow> 'a mach_scheme" where
  "gicd_set_ipriorityr base iid pri = mmio_write_8 (base + GICD_IPRIORITYR + ucast iid) (ucast (pri AND GIC_PRI_MASK))"

definition gicd_set_icfgr :: "addr \<Rightarrow> u32 \<Rightarrow> u32 \<Rightarrow> 'a mach_scheme \<Rightarrow> 'a mach_scheme" where
  "gicd_set_icfgr base iid cfg s =
     (let bit_shift = 2 * bit_num ICFGR_SHIFT iid;
          (reg_val, s) = gicd_read_icfgr base iid s;
          reg_val = reg_val AND NOT (push_bit bit_shift GIC_CFG_MASK);
          reg_val = reg_val OR push_bit bit_shift (cfg AND GIC_CFG_MASK)
      in gicd_write_icfgr base iid reg_val s)"

section \<open>Accessors of gicv2_private.h, gic_common_private.h and gicv2_helpers.c\<close>

definition gicd_read_ctlr :: "addr \<Rightarrow> 'a mach_scheme \<Rightarrow> u32 \<times> 'a mach_scheme" where
  "gicd_read_ctlr base = mmio_read_32 (base + GICD_CTLR)"

definition gicd_read_typer :: "addr \<Rightarrow> 'a mach_scheme \<Rightarrow> u32 \<times> 'a mach_scheme" where
  "gicd_read_typer base = mmio_read_32 (base + GICD_TYPER)"

definition gicd_read_iidr :: "addr \<Rightarrow> 'a mach_scheme \<Rightarrow> u32 \<times> 'a mach_scheme" where
  "gicd_read_iidr base = mmio_read_32 (base + GICD_IIDR)"

definition gicd_write_ctlr :: "addr \<Rightarrow> u32 \<Rightarrow> 'a mach_scheme \<Rightarrow> 'a mach_scheme" where
  "gicd_write_ctlr base val = mmio_write_32 (base + GICD_CTLR) val"

definition gicd_read_pidr2 :: "addr \<Rightarrow> 'a mach_scheme \<Rightarrow> u32 \<times> 'a mach_scheme" where
  "gicd_read_pidr2 base = mmio_read_32 (base + GICD_PIDR2_GICV2)"

definition gicd_get_itargetsr :: "addr \<Rightarrow> u32 \<Rightarrow> 'a mach_scheme \<Rightarrow> u32 \<times> 'a mach_scheme" where
  "gicd_get_itargetsr base iid s =
     (let (v, s) = mmio_read_8 (base + GICD_ITARGETSR + ucast iid) s in (ucast v, s))"

definition gicd_set_itargetsr :: "addr \<Rightarrow> u32 \<Rightarrow> u32 \<Rightarrow> 'a mach_scheme \<Rightarrow> 'a mach_scheme" where
  "gicd_set_itargetsr base iid target =
     mmio_write_8 (base + GICD_ITARGETSR + ucast iid) (ucast (target AND GIC_TARGET_CPU_MASK))"

definition gicd_write_sgir :: "addr \<Rightarrow> u32 \<Rightarrow> 'a mach_scheme \<Rightarrow> 'a mach_scheme" where
  "gicd_write_sgir base val = mmio_write_32 (base + GICD_SGIR) val"

definition gicc_read_ctlr :: "addr \<Rightarrow> 'a mach_scheme \<Rightarrow> u32 \<times> 'a mach_scheme" where
  "gicc_read_ctlr base = mmio_read_32 (base + GICC_CTLR)"

definition gicc_read_pmr :: "addr \<Rightarrow> 'a mach_scheme \<Rightarrow> u32 \<times> 'a mach_scheme" where
  "gicc_read_pmr base = mmio_read_32 (base + GICC_PMR)"

definition gicc_read_BPR :: "addr \<Rightarrow> 'a mach_scheme \<Rightarrow> u32 \<times> 'a mach_scheme" where
  "gicc_read_BPR base = mmio_read_32 (base + GICC_BPR)"

definition gicc_read_IAR :: "addr \<Rightarrow> 'a mach_scheme \<Rightarrow> u32 \<times> 'a mach_scheme" where
  "gicc_read_IAR base = mmio_read_32 (base + GICC_IAR)"

definition gicc_read_EOIR :: "addr \<Rightarrow> 'a mach_scheme \<Rightarrow> u32 \<times> 'a mach_scheme" where
  "gicc_read_EOIR base = mmio_read_32 (base + GICC_EOIR)"

definition gicc_read_hppir :: "addr \<Rightarrow> 'a mach_scheme \<Rightarrow> u32 \<times> 'a mach_scheme" where
  "gicc_read_hppir base = mmio_read_32 (base + GICC_HPPIR)"

definition gicc_read_ahppir :: "addr \<Rightarrow> 'a mach_scheme \<Rightarrow> u32 \<times> 'a mach_scheme" where
  "gicc_read_ahppir base = mmio_read_32 (base + GICC_AHPPIR)"

definition gicc_read_dir :: "addr \<Rightarrow> 'a mach_scheme \<Rightarrow> u32 \<times> 'a mach_scheme" where
  "gicc_read_dir base = mmio_read_32 (base + GICC_DIR)"

definition gicc_read_iidr :: "addr \<Rightarrow> 'a mach_scheme \<Rightarrow> u32 \<times> 'a mach_scheme" where
  "gicc_read_iidr base = mmio_read_32 (base + GICC_IIDR)"

definition gicc_read_rpr :: "addr \<Rightarrow> 'a mach_scheme \<Rightarrow> u32 \<times> 'a mach_scheme" where
  "gicc_read_rpr base = mmio_read_32 (base + GICC_RPR)"

definition gicc_write_ctlr :: "addr \<Rightarrow> u32 \<Rightarrow> 'a mach_scheme \<Rightarrow> 'a mach_scheme" where
  "gicc_write_ctlr base val = mmio_write_32 (base + GICC_CTLR) val"

definition gicc_write_pmr :: "addr \<Rightarrow> u32 \<Rightarrow> 'a mach_scheme \<Rightarrow> 'a mach_scheme" where
  "gicc_write_pmr base val = mmio_write_32 (base + GICC_PMR) val"

definition gicc_write_BPR :: "addr \<Rightarrow> u32 \<Rightarrow> 'a mach_scheme \<Rightarrow> 'a mach_scheme" where
  "gicc_write_BPR base val = mmio_write_32 (base + GICC_BPR) val"

definition gicc_write_IAR :: "addr \<Rightarrow> u32 \<Rightarrow> 'a mach_scheme \<Rightarrow> 'a mach_scheme" where
  "gicc_write_IAR base val = mmio_write_32 (base + GICC_IAR) val"

definition gicc_write_EOIR :: "addr \<Rightarrow> u32 \<Rightarrow> 'a mach_scheme \<Rightarrow> 'a mach_scheme" where
  "gicc_write_EOIR base val = mmio_write_32 (base + GICC_EOIR) val"

definition gicc_write_hppir :: "addr \<Rightarrow> u32 \<Rightarrow> 'a mach_scheme \<Rightarrow> 'a mach_scheme" where
  "gicc_write_hppir base val = mmio_write_32 (base + GICC_HPPIR) val"

definition gicc_write_dir :: "addr \<Rightarrow> u32 \<Rightarrow> 'a mach_scheme \<Rightarrow> 'a mach_scheme" where
  "gicc_write_dir base val = mmio_write_32 (base + GICC_DIR) val"

definition gicd_read_itargetsr :: "addr \<Rightarrow> u32 \<Rightarrow> 'a mach_scheme \<Rightarrow> u32 \<times> 'a mach_scheme" where
  "gicd_read_itargetsr base iid = mmio_read_32 (gicd_reg base GICD_ITARGETSR ITARGETSR_SHIFT iid)"

definition gicd_write_itargetsr :: "addr \<Rightarrow> u32 \<Rightarrow> u32 \<Rightarrow> 'a mach_scheme \<Rightarrow> 'a mach_scheme" where
  "gicd_write_itargetsr base iid val = mmio_write_32 (gicd_reg base GICD_ITARGETSR ITARGETSR_SHIFT iid) val"

definition gicd_read_cpendsgir :: "addr \<Rightarrow> u32 \<Rightarrow> 'a mach_scheme \<Rightarrow> u32 \<times> 'a mach_scheme" where
  "gicd_read_cpendsgir base iid = mmio_read_32 (gicd_reg base GICD_CPENDSGIR CPENDSGIR_SHIFT iid)"

definition gicd_write_cpendsgir :: "addr \<Rightarrow> u32 \<Rightarrow> u32 \<Rightarrow> 'a mach_scheme \<Rightarrow> 'a mach_scheme" where
  "gicd_write_cpendsgir base iid val = mmio_write_32 (gicd_reg base GICD_CPENDSGIR CPENDSGIR_SHIFT iid) val"

definition gicd_read_spendsgir :: "addr \<Rightarrow> u32 \<Rightarrow> 'a mach_scheme \<Rightarrow> u32 \<times> 'a mach_scheme" where
  "gicd_read_spendsgir base iid = mmio_read_32 (gicd_reg base GICD_SPENDSGIR CPENDSGIR_SHIFT iid)"

definition gicd_write_spendsgir :: "addr \<Rightarrow> u32 \<Rightarrow> u32 \<Rightarrow> 'a mach_scheme \<Rightarrow> 'a mach_scheme" where
  "gicd_write_spendsgir base iid val = mmio_write_32 (gicd_reg base GICD_SPENDSGIR CPENDSGIR_SHIFT iid) val"

definition gicv2_get_cpuif_id :: "addr \<Rightarrow> 'a mach_scheme \<Rightarrow> u32 \<times> 'a mach_scheme" where
  "gicv2_get_cpuif_id base s =
     (let (val, s) = gicd_read_itargetsr base 0 s in (val AND GIC_TARGET_CPU_MASK, s))"

definition gicv2_spis_configure_defaults :: "addr \<Rightarrow> 'a mach_scheme \<Rightarrow> 'a mach_scheme" where
  "gicv2_spis_configure_defaults base s =
     (let (num_ints, s) = gicd_read_typer base s;
          num_ints = unat (push_bit 5 ((num_ints AND TYPER_IT_LINES_NO_MASK) + 1));
          s = for_step 32 num_ints 32 (\<lambda>index. gicd_write_igroupr base (of_nat index) (NOT 0)) s;
          s = for_step 32 num_ints 4
                (\<lambda>index. gicd_write_ipriorityr base (of_nat index) GICD_IPRIORITYR_DEF_VAL) s
      in for_step 32 num_ints 16 (\<lambda>index. gicd_write_icfgr base (of_nat index) 0) s)"

fun gicv2_secure_spis_configure_props ::
  "addr \<Rightarrow> interrupt_prop list \<Rightarrow> 'a mach_scheme \<Rightarrow> 'a mach_scheme option" where
  "gicv2_secure_spis_configure_props base [] s = Some s"
| "gicv2_secure_spis_configure_props base (prop_desc # props) s =
     (if intr_num prop_desc < MIN_SPI_ID then gicv2_secure_spis_configure_props base props s
      else do {
        assert_C (intr_grp prop_desc = GICV2_INTR_GROUP0);
        let s = gicd_clr_igroupr base (intr_num prop_desc) s;
        let s = gicd_set_ipriorityr base (intr_num prop_desc) (intr_pri prop_desc) s;
        let (target, s) = gicv2_get_cpuif_id base s;
        let s = gicd_set_itargetsr base (intr_num prop_desc) target s;
        let s = gicd_set_icfgr base (intr_num prop_desc) (intr_cfg prop_desc) s;
        let s = gicd_set_isenabler base (intr_num prop_desc) s;
        gicv2_secure_spis_configure_props base props s
      })"

text \<open>The second loop of \<open>gicv2_secure_ppi_sgi_setup_props\<close>, which collects the secure mask.\<close>

fun ppi_sgi_props_loop ::
  "addr \<Rightarrow> interrupt_prop list \<Rightarrow> u32 \<Rightarrow> 'a mach_scheme \<Rightarrow> (u32 \<times> 'a mach_scheme) option" where
  "ppi_sgi_props_loop base [] sec_ppi_sgi_mask s = Some (sec_ppi_sgi_mask, s)"
| "ppi_sgi_props_loop base (prop_desc # props) sec_ppi_sgi_mask s =
     (if intr_num prop_desc \<ge> MIN_SPI_ID then ppi_sgi_props_loop base props sec_ppi_sgi_mask s
      else do {
        assert_C (intr_grp prop_desc = GICV2_INTR_GROUP0);
        let s = (if intr_num prop_desc \<ge> MIN_PPI_ID \<and> intr_num prop_desc < MIN_SPI_ID
                 then gicd_set_icfgr base (intr_num prop_desc) (intr_cfg prop_desc) s else s);
        let sec_ppi_sgi_mask = sec_ppi_sgi_mask OR push_bit (unat (intr_num prop_desc)) 1;
        let s = gicd_set_ipriorityr base (intr_num prop_desc) (intr_pri prop_desc) s;
        ppi_sgi_props_loop base props sec_ppi_sgi_mask s
      })"

definition gicv2_secure_ppi_sgi_setup_props ::
  "addr \<Rightarrow> interrupt_prop list \<Rightarrow> 'a mach_scheme \<Rightarrow> 'a mach_scheme option" where
  "gicv2_secure_ppi_sgi_setup_props base props s = do {
     let s = gicd_write_icenabler base 0 (NOT 0) s;
     let s = for_step 0 32 4
               (\<lambda>i. gicd_write_ipriorityr base (of_nat i) GICD_IPRIORITYR_DEF_VAL) s;
     (sec_ppi_sgi_mask, s) \<leftarrow> ppi_sgi_props_loop base props 0 s;
     let s = gicd_write_igroupr base 0 (NOT sec_ppi_sgi_mask) s;
     Some (gicd_write_isenabler base 0 sec_ppi_sgi_mask s)
   }"

section \<open>The driver (gicv2_main.c)\<close>

text \<open>Each entry point asserts that the driver data and the base it uses are set.\<close>

definition gicd_of :: "'a gic_mach_scheme \<Rightarrow> addr option" where
  "gicd_of s = do { d \<leftarrow> driver_data s; assert_C (gicd_base d \<noteq> 0); Some (gicd_base d) }"

definition gicc_of :: "'a gic_mach_scheme \<Rightarrow> addr option" where
  "gicc_of s = do { d \<leftarrow> driver_data s; assert_C (gicc_base d \<noteq> 0); Some (gicc_base d) }"

definition gicv2_cpuif_enable :: "'a gic_mach_scheme \<Rightarrow> 'a gic_mach_scheme option" where
  "gicv2_cpuif_enable s = do {
     base \<leftarrow> gicc_of s;
     let val = CTLR_ENABLE_G0_BIT OR FIQ_EN_BIT OR FIQ_BYP_DIS_GRP0;
     let val = val OR (IRQ_BYP_DIS_GRP0 OR FIQ_BYP_DIS_GRP1 OR IRQ_BYP_DIS_GRP1);
     let s = gicc_write_pmr base GIC_PRI_MASK s;
     Some (gicc_write_ctlr base val s)
   }"

definition gicv2_cpuif_disable :: "'a gic_mach_scheme \<Rightarrow> 'a gic_mach_scheme option" where
  "gicv2_cpuif_disable s = do {
     base \<leftarrow> gicc_of s;
     let (val, s) = gicc_read_ctlr base s;
     let val = val AND NOT (CTLR_ENABLE_G0_BIT OR CTLR_ENABLE_G1_BIT);
     let val = val OR (FIQ_BYP_DIS_GRP1 OR FIQ_BYP_DIS_GRP0);
     let val = val OR (IRQ_BYP_DIS_GRP0 OR IRQ_BYP_DIS_GRP1);
     Some (gicc_write_ctlr base val s)
   }"

definition gicv2_pcpu_distif_init :: "'a gic_mach_scheme \<Rightarrow> 'a gic_mach_scheme option" where
  "gicv2_pcpu_distif_init s = do {
     d \<leftarrow> driver_data s;
     base \<leftarrow> gicd_of s;
     s \<leftarrow> gicv2_secure_ppi_sgi_setup_props base (interrupt_props d) s;
     let (ctlr, s) = gicd_read_ctlr base s;
     Some (if ctlr AND CTLR_ENABLE_G0_BIT = 0 then gicd_write_ctlr base (ctlr OR CTLR_ENABLE_G0_BIT) s else s)
   }"

definition gicv2_distif_init :: "'a gic_mach_scheme \<Rightarrow> 'a gic_mach_scheme option" where
  "gicv2_distif_init s = do {
     d \<leftarrow> driver_data s;
     base \<leftarrow> gicd_of s;
     let (ctlr, s) = gicd_read_ctlr base s;
     let s = gicd_write_ctlr base (ctlr AND NOT (CTLR_ENABLE_G0_BIT OR CTLR_ENABLE_G1_BIT)) s;
     let s = gicv2_spis_configure_defaults base s;
     s \<leftarrow> gicv2_secure_spis_configure_props base (interrupt_props d) s;
     Some (gicd_write_ctlr base (ctlr OR CTLR_ENABLE_G0_BIT) s)
   }"

definition gicv2_driver_init :: "gicv2_driver_data \<Rightarrow> 'a gic_mach_scheme \<Rightarrow> 'a gic_mach_scheme option" where
  "gicv2_driver_init plat_driver_data s = do {
     assert_C (gicd_base plat_driver_data \<noteq> 0);
     assert_C (gicc_base plat_driver_data \<noteq> 0);
     let (gic_version, s) = gicd_read_pidr2 (gicd_base plat_driver_data) s;
     let gic_version = drop_bit 4 gic_version AND 0xF;
     assert_C (gic_version = 2 \<or> gic_version = 1);
     Some (s\<lparr>driver_data := Some plat_driver_data\<rparr>)
   }"

definition gicv2_is_fiq_enabled :: "'a gic_mach_scheme \<Rightarrow> (u32 \<times> 'a gic_mach_scheme) option" where
  "gicv2_is_fiq_enabled s = do {
     base \<leftarrow> gicc_of s;
     let (gicc_ctlr, s) = gicc_read_ctlr base s;
     Some (drop_bit FIQ_EN_SHIFT gicc_ctlr AND 1, s)
   }"

definition gicv2_get_pending_interrupt_type :: "'a gic_mach_scheme \<Rightarrow> (u32 \<times> 'a gic_mach_scheme) option" where
  "gicv2_get_pending_interrupt_type s = do {
     base \<leftarrow> gicc_of s;
     let (v, s) = gicc_read_hppir base s;
     Some (v AND INT_ID_MASK, s)
   }"

definition gicv2_get_pending_interrupt_id :: "'a gic_mach_scheme \<Rightarrow> (u32 \<times> 'a gic_mach_scheme) option" where
  "gicv2_get_pending_interrupt_id s = do {
     base \<leftarrow> gicc_of s;
     let (v, s) = gicc_read_hppir base s;
     if v AND INT_ID_MASK = PENDING_G1_INTID
     then let (v, s) = gicc_read_ahppir base s in Some (v AND INT_ID_MASK, s)
     else Some (v AND INT_ID_MASK, s)
   }"

definition gicv2_acknowledge_interrupt :: "'a gic_mach_scheme \<Rightarrow> (u32 \<times> 'a gic_mach_scheme) option" where
  "gicv2_acknowledge_interrupt s = do { base \<leftarrow> gicc_of s; Some (gicc_read_IAR base s) }"

definition gicv2_end_of_interrupt :: "u32 \<Rightarrow> 'a gic_mach_scheme \<Rightarrow> 'a gic_mach_scheme option" where
  "gicv2_end_of_interrupt iid s = do { base \<leftarrow> gicc_of s; Some (gicc_write_EOIR base iid s) }"

definition gicv2_get_interrupt_group :: "u32 \<Rightarrow> 'a gic_mach_scheme \<Rightarrow> (u32 \<times> 'a gic_mach_scheme) option" where
  "gicv2_get_interrupt_group iid s = do { base \<leftarrow> gicd_of s; Some (gicd_get_igroupr base iid s) }"

definition gicv2_get_running_priority :: "'a gic_mach_scheme \<Rightarrow> (u32 \<times> 'a gic_mach_scheme) option" where
  "gicv2_get_running_priority s = do { base \<leftarrow> gicc_of s; Some (gicc_read_rpr base s) }"

definition gicv2_set_pe_target_mask :: "nat \<Rightarrow> 'a gic_mach_scheme \<Rightarrow> 'a gic_mach_scheme option" where
  "gicv2_set_pe_target_mask proc_num s = do {
     d \<leftarrow> driver_data s;
     base \<leftarrow> gicd_of s;
     assert_C (proc_num < GICV2_MAX_TARGET_PE);
     assert_C (proc_num < target_masks_num d);
     if target_masks s proc_num \<noteq> 0 then Some s
     else let (m, s) = gicv2_get_cpuif_id base s
          in Some (s\<lparr>target_masks := (target_masks s)(proc_num := m)\<rparr>)
   }"

definition gicv2_get_interrupt_active :: "u32 \<Rightarrow> 'a gic_mach_scheme \<Rightarrow> (u32 \<times> 'a gic_mach_scheme) option" where
  "gicv2_get_interrupt_active iid s = do {
     base \<leftarrow> gicd_of s; assert_C (iid \<le> MAX_SPI_ID); Some (gicd_get_isactiver base iid s) }"

definition gicv2_enable_interrupt :: "u32 \<Rightarrow> 'a gic_mach_scheme \<Rightarrow> 'a gic_mach_scheme option" where
  "gicv2_enable_interrupt iid s = do {
     base \<leftarrow> gicd_of s; assert_C (iid \<le> MAX_SPI_ID); Some (gicd_set_isenabler base iid s) }"

definition gicv2_disable_interrupt :: "u32 \<Rightarrow> 'a gic_mach_scheme \<Rightarrow> 'a gic_mach_scheme option" where
  "gicv2_disable_interrupt iid s = do {
     base \<leftarrow> gicd_of s; assert_C (iid \<le> MAX_SPI_ID); Some (gicd_set_icenabler base iid s) }"

definition gicv2_set_interrupt_priority :: "u32 \<Rightarrow> u32 \<Rightarrow> 'a gic_mach_scheme \<Rightarrow> 'a gic_mach_scheme option" where
  "gicv2_set_interrupt_priority iid priority s = do {
     base \<leftarrow> gicd_of s; assert_C (iid \<le> MAX_SPI_ID); Some (gicd_set_ipriorityr base iid priority s) }"

text \<open>The spinlock: taking it while it is held never returns.\<close>

definition gic_spin_lock :: "'a gic_mach_scheme \<Rightarrow> 'a gic_mach_scheme option" where
  "gic_spin_lock s = (if gic_lock s then None else Some (s\<lparr>gic_lock := True\<rparr>))"

definition gicv2_set_interrupt_type :: "u32 \<Rightarrow> u32 \<Rightarrow> 'a gic_mach_scheme \<Rightarrow> 'a gic_mach_scheme option" where
  "gicv2_set_interrupt_type iid type s = do {
     base \<leftarrow> gicd_of s;
     assert_C (iid \<le> MAX_SPI_ID);
     s \<leftarrow> gic_spin_lock s;
     s \<leftarrow> (if type = GICV2_INTR_GROUP1 then Some (gicd_set_igroupr base iid s)
           else if type = GICV2_INTR_GROUP0 then Some (gicd_clr_igroupr base iid s)
           else None);
     Some (s\<lparr>gic_lock := False\<rparr>)
   }"

definition GICV2_SGIR_VALUE :: "u32 \<Rightarrow> u32 \<Rightarrow> u32 \<Rightarrow> u32" where
  "GICV2_SGIR_VALUE tgt_lst_flt tgt intid =
     push_bit 24 (tgt_lst_flt AND 3) OR push_bit 16 (tgt AND 0xFF) OR (intid AND 0xF)"

definition gicv2_raise_sgi :: "u32 \<Rightarrow> int \<Rightarrow> 'a gic_mach_scheme \<Rightarrow> 'a gic_mach_scheme option" where
  "gicv2_raise_sgi sgi_num proc_num s = do {
     d \<leftarrow> driver_data s;
     assert_C (0 \<le> proc_num);
     assert_C (proc_num < int GICV2_MAX_TARGET_PE);
     base \<leftarrow> gicd_of s;
     assert_C (proc_num < int (target_masks_num d));
     let target = target_masks s (nat proc_num);
     assert_C (target \<noteq> 0);
     Some (gicd_write_sgir base (GICV2_SGIR_VALUE 0 target sgi_num) s)
   }"

definition gicv2_set_spi_routing :: "u32 \<Rightarrow> int \<Rightarrow> 'a gic_mach_scheme \<Rightarrow> 'a gic_mach_scheme option" where
  "gicv2_set_spi_routing iid proc_num s = do {
     d \<leftarrow> driver_data s;
     base \<leftarrow> gicd_of s;
     assert_C (iid \<ge> MIN_SPI_ID \<and> iid \<le> MAX_SPI_ID);
     assert_C (proc_num < int GICV2_MAX_TARGET_PE);
     assert_C (proc_num < int (target_masks_num d));
     target \<leftarrow> (if proc_num < 0 then Some GIC_TARGET_CPU_MASK
       else do { assert_C (target_masks s (nat proc_num) \<noteq> 0); Some (target_masks s (nat proc_num)) });
     Some (gicd_set_itargetsr base iid target s)
   }"

definition gicv2_clear_interrupt_pending :: "u32 \<Rightarrow> 'a gic_mach_scheme \<Rightarrow> 'a gic_mach_scheme option" where
  "gicv2_clear_interrupt_pending iid s = do {
     base \<leftarrow> gicd_of s; assert_C (iid \<ge> MIN_PPI_ID); Some (gicd_set_icpendr base iid s) }"

definition gicv2_set_interrupt_pending :: "u32 \<Rightarrow> 'a gic_mach_scheme \<Rightarrow> 'a gic_mach_scheme option" where
  "gicv2_set_interrupt_pending iid s = do {
     base \<leftarrow> gicd_of s; assert_C (iid \<ge> MIN_PPI_ID); Some (gicd_set_ispendr base iid s) }"

definition gicv2_set_pmr :: "u32 \<Rightarrow> 'a gic_mach_scheme \<Rightarrow> (u32 \<times> 'a gic_mach_scheme) option" where
  "gicv2_set_pmr pmask s = do {
     base \<leftarrow> gicc_of s;
     let (old_mask, s) = gicc_read_pmr base s;
     Some (old_mask, gicc_write_pmr base pmask s)
   }"

definition gicv2_interrupt_set_cfg :: "u32 \<Rightarrow> u32 \<Rightarrow> 'a gic_mach_scheme \<Rightarrow> 'a gic_mach_scheme option" where
  "gicv2_interrupt_set_cfg iid cfg s = do { d \<leftarrow> driver_data s; Some (gicd_set_icfgr (gicd_base d) iid cfg s) }"

section \<open>The platform interface (plat_gicv2.c, plat_zynqmp.c)\<close>

definition zynqmp_calc_core_pos :: "u64 \<Rightarrow> int" where
  "zynqmp_calc_core_pos mpidr = uint ((mpidr AND 0xFF) + drop_bit 6 (mpidr AND 0xFF00))"

definition plat_core_pos_by_mpidr :: "u64 \<Rightarrow> int" where
  "plat_core_pos_by_mpidr mpidr =
     (if mpidr AND 0xFF00 \<noteq> 0 then -1
      else if mpidr AND 0xFF \<ge> of_nat PLATFORM_CORE_COUNT then -1
      else zynqmp_calc_core_pos mpidr)"

definition plat_my_core_pos :: "'a gic_mach_scheme \<Rightarrow> nat" where
  "plat_my_core_pos s = nat (zynqmp_calc_core_pos (mpidr_el1 s))"

definition plat_ic_get_pending_interrupt_id :: "'a gic_mach_scheme \<Rightarrow> (u32 \<times> 'a gic_mach_scheme) option" where
  "plat_ic_get_pending_interrupt_id s = do {
     (iid, s) \<leftarrow> gicv2_get_pending_interrupt_id s;
     Some (if iid = GIC_SPURIOUS_INTERRUPT then INTR_ID_UNAVAILABLE else iid, s)
   }"

definition plat_ic_get_pending_interrupt_type :: "'a gic_mach_scheme \<Rightarrow> (u32 \<times> 'a gic_mach_scheme) option" where
  "plat_ic_get_pending_interrupt_type s = do {
     (iid, s) \<leftarrow> gicv2_get_pending_interrupt_type s;
     Some (if iid < PENDING_G1_INTID then INTR_TYPE_EL3
           else if iid = GIC_SPURIOUS_INTERRUPT then INTR_TYPE_INVAL else INTR_TYPE_NS, s)
   }"

definition plat_ic_acknowledge_interrupt :: "'a gic_mach_scheme \<Rightarrow> (u32 \<times> 'a gic_mach_scheme) option" where
  "plat_ic_acknowledge_interrupt = gicv2_acknowledge_interrupt"

definition plat_ic_get_interrupt_type :: "u32 \<Rightarrow> 'a gic_mach_scheme \<Rightarrow> (u32 \<times> 'a gic_mach_scheme) option" where
  "plat_ic_get_interrupt_type iid s = do {
     (type, s) \<leftarrow> gicv2_get_interrupt_group iid s;
     Some (if type = GICV2_INTR_GROUP1 then INTR_TYPE_NS else INTR_TYPE_EL3, s)
   }"

definition plat_ic_end_of_interrupt :: "u32 \<Rightarrow> 'a gic_mach_scheme \<Rightarrow> 'a gic_mach_scheme option" where
  "plat_ic_end_of_interrupt = gicv2_end_of_interrupt"

text \<open>The bit position of the IRQ (1) or FIQ (2) bit in \<open>SCR_EL3\<close>.\<close>

definition plat_interrupt_type_to_line ::
  "u32 \<Rightarrow> u32 \<Rightarrow> 'a gic_mach_scheme \<Rightarrow> (nat \<times> 'a gic_mach_scheme) option" where
  "plat_interrupt_type_to_line type security_state s = do {
     assert_C (type = INTR_TYPE_S_EL1 \<or> type = INTR_TYPE_EL3 \<or> type = INTR_TYPE_NS);
     assert_C (security_state \<le> 1);
     if type = INTR_TYPE_NS then Some (1, s)
     else do {
       (fiq, s) \<leftarrow> gicv2_is_fiq_enabled s;
       Some (if fiq \<noteq> 0 then 2 else 1, s)
     }
   }"

definition plat_ic_get_running_priority :: "'a gic_mach_scheme \<Rightarrow> (u32 \<times> 'a gic_mach_scheme) option" where
  "plat_ic_get_running_priority = gicv2_get_running_priority"

definition plat_ic_is_spi :: "u32 \<Rightarrow> bool" where
  "plat_ic_is_spi iid \<longleftrightarrow> iid \<ge> MIN_SPI_ID \<and> iid \<le> MAX_SPI_ID"

definition plat_ic_is_ppi :: "u32 \<Rightarrow> bool" where
  "plat_ic_is_ppi iid \<longleftrightarrow> iid \<ge> MIN_PPI_ID \<and> iid < MIN_SPI_ID"

definition plat_ic_is_sgi :: "u32 \<Rightarrow> bool" where
  "plat_ic_is_sgi iid \<longleftrightarrow> iid \<ge> 0 \<and> iid < MIN_PPI_ID"

definition plat_ic_get_interrupt_active :: "u32 \<Rightarrow> 'a gic_mach_scheme \<Rightarrow> (u32 \<times> 'a gic_mach_scheme) option" where
  "plat_ic_get_interrupt_active = gicv2_get_interrupt_active"

definition plat_ic_enable_interrupt :: "u32 \<Rightarrow> 'a gic_mach_scheme \<Rightarrow> 'a gic_mach_scheme option" where
  "plat_ic_enable_interrupt = gicv2_enable_interrupt"

definition plat_ic_disable_interrupt :: "u32 \<Rightarrow> 'a gic_mach_scheme \<Rightarrow> 'a gic_mach_scheme option" where
  "plat_ic_disable_interrupt = gicv2_disable_interrupt"

definition plat_ic_set_interrupt_priority :: "u32 \<Rightarrow> u32 \<Rightarrow> 'a gic_mach_scheme \<Rightarrow> 'a gic_mach_scheme option" where
  "plat_ic_set_interrupt_priority = gicv2_set_interrupt_priority"

definition plat_ic_has_interrupt_type :: "u32 \<Rightarrow> bool" where
  "plat_ic_has_interrupt_type type \<longleftrightarrow> type = INTR_TYPE_EL3 \<or> type = INTR_TYPE_NS"

definition plat_ic_set_interrupt_type :: "u32 \<Rightarrow> u32 \<Rightarrow> 'a gic_mach_scheme \<Rightarrow> 'a gic_mach_scheme option" where
  "plat_ic_set_interrupt_type iid type s =
     (if type = INTR_TYPE_EL3 then gicv2_set_interrupt_type iid GICV2_INTR_GROUP0 s
      else if type = INTR_TYPE_NS then gicv2_set_interrupt_type iid GICV2_INTR_GROUP1 s
      else None)"

definition plat_ic_raise_el3_sgi :: "u32 \<Rightarrow> u64 \<Rightarrow> 'a gic_mach_scheme \<Rightarrow> 'a gic_mach_scheme option" where
  "plat_ic_raise_el3_sgi sgi_num target s = do {
     let iid = plat_core_pos_by_mpidr target;
     assert_C (0 \<le> iid);
     (type, s) \<leftarrow> plat_ic_get_interrupt_type sgi_num s;
     assert_C (type = INTR_TYPE_EL3);
     gicv2_raise_sgi sgi_num iid s
   }"

definition plat_ic_set_spi_routing :: "u32 \<Rightarrow> u32 \<Rightarrow> u64 \<Rightarrow> 'a gic_mach_scheme \<Rightarrow> 'a gic_mach_scheme option" where
  "plat_ic_set_spi_routing iid routing_mode mpidr s = do {
     proc_num \<leftarrow> (if routing_mode = INTR_ROUTING_MODE_PE
       then do { assert_C (0 \<le> plat_core_pos_by_mpidr mpidr); Some (plat_core_pos_by_mpidr mpidr) }
       else if routing_mode = INTR_ROUTING_MODE_ANY then Some (- 1) else None);
     gicv2_set_spi_routing iid proc_num s
   }"

definition plat_ic_set_interrupt_pending :: "u32 \<Rightarrow> 'a gic_mach_scheme \<Rightarrow> 'a gic_mach_scheme option" where
  "plat_ic_set_interrupt_pending = gicv2_set_interrupt_pending"

definition plat_ic_clear_interrupt_pending :: "u32 \<Rightarrow> 'a gic_mach_scheme \<Rightarrow> 'a gic_mach_scheme option" where
  "plat_ic_clear_interrupt_pending = gicv2_clear_interrupt_pending"

definition plat_ic_set_priority_mask :: "u32 \<Rightarrow> 'a gic_mach_scheme \<Rightarrow> (u32 \<times> 'a gic_mach_scheme) option" where
  "plat_ic_set_priority_mask = gicv2_set_pmr"

definition plat_ic_get_interrupt_id :: "u32 \<Rightarrow> u32" where
  "plat_ic_get_interrupt_id raw =
     (let iid = raw AND INT_ID_MASK in if iid = GIC_SPURIOUS_INTERRUPT then INTR_ID_UNAVAILABLE else iid)"

section \<open>Initialisation (arm_gicv2.c, platform_def.h)\<close>

definition sec_sgi :: "u32 \<Rightarrow> interrupt_prop" where
  "sec_sgi n = \<lparr>intr_num = n, intr_pri = 0, intr_grp = GICV2_INTR_GROUP0, intr_cfg = 2\<rparr>"

text \<open>The secure interrupts of the platform with \<open>ZYNQMP_WDT_RESTART\<close>.\<close>

definition arm_interrupt_props :: "interrupt_prop list" where
  "arm_interrupt_props =
     [\<lparr>intr_num = 29, intr_pri = 0, intr_grp = GICV2_INTR_GROUP0, intr_cfg = 0\<rparr>,
      \<lparr>intr_num = 77, intr_pri = 0, intr_grp = GICV2_INTR_GROUP0, intr_cfg = 2\<rparr>,
      sec_sgi 8, sec_sgi 9, sec_sgi 10, sec_sgi 11, sec_sgi 12, sec_sgi 13, sec_sgi 14, sec_sgi 15]"

definition arm_gic_data :: gicv2_driver_data where
  "arm_gic_data = \<lparr>gicd_base = 0xF9010000, gicc_base = 0xF9020000,
     target_masks_num = PLATFORM_CORE_COUNT, interrupt_props = arm_interrupt_props\<rparr>"

definition plat_arm_gic_driver_init :: "'a gic_mach_scheme \<Rightarrow> 'a gic_mach_scheme option" where
  "plat_arm_gic_driver_init = gicv2_driver_init arm_gic_data"

definition plat_arm_gic_init :: "'a gic_mach_scheme \<Rightarrow> 'a gic_mach_scheme option" where
  "plat_arm_gic_init s = do {
     s \<leftarrow> gicv2_distif_init s;
     s \<leftarrow> gicv2_pcpu_distif_init s;
     s \<leftarrow> gicv2_set_pe_target_mask (plat_my_core_pos s) s;
     gicv2_cpuif_enable s
   }"

definition plat_arm_gic_cpuif_enable :: "'a gic_mach_scheme \<Rightarrow> 'a gic_mach_scheme option" where
  "plat_arm_gic_cpuif_enable = gicv2_cpuif_enable"

definition plat_arm_gic_cpuif_disable :: "'a gic_mach_scheme \<Rightarrow> 'a gic_mach_scheme option" where
  "plat_arm_gic_cpuif_disable = gicv2_cpuif_disable"

definition plat_arm_gic_pcpu_init :: "'a gic_mach_scheme \<Rightarrow> 'a gic_mach_scheme option" where
  "plat_arm_gic_pcpu_init s = do {
     s \<leftarrow> gicv2_pcpu_distif_init s;
     gicv2_set_pe_target_mask (plat_my_core_pos s) s
   }"

definition plat_arm_gic_resume :: "'a gic_mach_scheme \<Rightarrow> 'a gic_mach_scheme option" where
  "plat_arm_gic_resume s = do { s \<leftarrow> gicv2_distif_init s; gicv2_pcpu_distif_init s }"

section \<open>The distributor's register cells\<close>

text \<open>Offset \<open>n\<close> of the distributor of this SoC.\<close>

definition gicd_at :: "nat \<Rightarrow> addr" where
  "gicd_at n = 0xF9010000 + of_nat n"

lemma gicd_at_eq [simp]: "m < 4096 \<Longrightarrow> n < 4096 \<Longrightarrow> gicd_at m = gicd_at n \<longleftrightarrow> m = n"
  by (simp add: gicd_at_def word_of_nat_eq_iff take_bit_nat_eq_self)

lemma unat_gicd_at: "n < 4096 \<Longrightarrow> unat (gicd_at n) = 0xF9010000 + n"
  by (simp add: gicd_at_def unat_word_ariths unat_of_nat)

lemma gicd_reg_of:
  assumes "unat i < 1024"
  shows "gicd_reg 0xF9010000 off sh i = 0xF9010000 + off + of_nat (4 * (unat i div 2 ^ sh))"
proof -
  have "unat i div 2 ^ sh \<le> unat i" by simp
  then have lt: "unat i div 2 ^ sh < 1024" using assms by linarith
  then have "unat (push_bit 2 (drop_bit sh i)) = unat i div 2 ^ sh * 4"
    using unat_push_bit [of "drop_bit sh i" 2] by (simp add: unat_drop_bit)
  moreover have "unat (of_nat (4 * (unat i div 2 ^ sh)) :: addr) = 4 * (unat i div 2 ^ sh)"
    using lt by (simp only: unat_of_nat) simp
  ultimately have "(ucast (push_bit 2 (drop_bit sh i)) :: addr) = of_nat (4 * (unat i div 2 ^ sh))"
    by (simp add: word_unat_eq_iff unat_ucast_up)
  then show ?thesis by (simp add: gicd_reg_def)
qed

lemma gicd_regs:
  assumes "unat i < 1024"
  shows "gicd_reg 0xF9010000 GICD_IGROUPR IGROUPR_SHIFT i = gicd_at (0x80 + 4 * (unat i div 32))"
    and "gicd_reg 0xF9010000 GICD_ISENABLER ISENABLER_SHIFT i = gicd_at (0x100 + 4 * (unat i div 32))"
    and "gicd_reg 0xF9010000 GICD_ICENABLER ISENABLER_SHIFT i = gicd_at (0x180 + 4 * (unat i div 32))"
    and "gicd_reg 0xF9010000 GICD_IPRIORITYR IPRIORITYR_SHIFT i = gicd_at (0x400 + 4 * (unat i div 4))"
    and "gicd_reg 0xF9010000 GICD_ITARGETSR ITARGETSR_SHIFT i = gicd_at (0x800 + 4 * (unat i div 4))"
    and "gicd_reg 0xF9010000 GICD_ICFGR ICFGR_SHIFT i = gicd_at (0xC00 + 4 * (unat i div 16))"
  unfolding gicd_reg_of [OF assms]
  by (simp_all add: gicd_at_def IGROUPR_SHIFT_def
      GICD_IGROUPR_def
      GICD_IPRIORITYR_def GICD_ITARGETSR_def)

lemma gicd_byte_regs:
  assumes "unat i < 1024"
  shows "0xF9010000 + GICD_IPRIORITYR + ucast i = gicd_at (0x400 + unat i)"
    and "0xF9010000 + GICD_ITARGETSR + ucast i = gicd_at (0x800 + unat i)"
proof -
  have "(ucast i :: addr) = of_nat (unat i)"
    using assms by (simp add: word_unat_eq_iff unat_ucast_up unat_of_nat)
  then show "0xF9010000 + GICD_IPRIORITYR + ucast i = gicd_at (0x400 + unat i)"
    "0xF9010000 + GICD_ITARGETSR + ucast i = gicd_at (0x800 + unat i)"
    by (simp_all add: gicd_at_def GICD_IPRIORITYR_def GICD_ITARGETSR_def)
qed

lemma cell_gicd_at:
  assumes "n < 4096"
  shows "cell (gicd_at n) = gicd_at (4 * (n div 4))" and "byte_lane (gicd_at n) = 8 * (n mod 4)"
proof -
  have base: "unat (gicd_at k) = 4 * 1044398080 + k" if "k < 4096" for k
    using that by (simp add: unat_gicd_at)
  have "4 * (n div 4) < 4096" using assms by linarith
  then have "unat (cell (gicd_at n)) = unat (gicd_at (4 * (n div 4)))"
    using assms by (simp only: unat_cell base div_mult_self4) simp
  then show "cell (gicd_at n) = gicd_at (4 * (n div 4))" by (simp only: word_unat_eq_iff)
  show "byte_lane (gicd_at n) = 8 * (n mod 4)"
    using assms by (simp only: byte_lane_mod base mod_mult_self4)
qed

lemma cell_gicd_at_add:
  assumes "4 * c + n < 4096"
  shows "cell (gicd_at (4 * c + n)) = gicd_at (4 * c + 4 * (n div 4))"
    and "byte_lane (gicd_at (4 * c + n)) = 8 * (n mod 4)"
  using cell_gicd_at [OF assms] by (simp_all add: add_mult_distrib2)

lemma bit_num_mod: "sh < 32 \<Longrightarrow> bit_num sh i = unat i mod 2 ^ sh"
  by (simp add: bit_num_def push_bit_eq_mult unat_and_mask flip: mask_eq_exp_minus_1)

text \<open>A loop of register writes: which cells it sets.\<close>

lemma for_step_writes:
  assumes "0 < st"
  shows "m_regs (for_step lo hi st (\<lambda>i. mmio_write_32 (A i) v) s) a =
    (if \<exists>k. lo + k * st < hi \<and> A (lo + k * st) = a then v else m_regs s a)"
proof (induction "hi - lo" arbitrary: lo s rule: less_induct)
  case less
  show ?case
  proof (cases "lo < hi")
    case False
    then show ?thesis by (subst for_step.simps) auto
  next
    case True
    have split: "(\<exists>k. P k) \<longleftrightarrow> P 0 \<or> (\<exists>k. P (Suc k))" for P :: "nat \<Rightarrow> bool"
      by (metis nat.exhaust)
    have "m_regs (for_step lo hi st (\<lambda>i. mmio_write_32 (A i) v) s) a =
        m_regs (for_step (lo + st) hi st (\<lambda>i. mmio_write_32 (A i) v) (mmio_write_32 (A lo) v s)) a"
      using True assms by (subst for_step.simps) simp
    also have "\<dots> = (if \<exists>k. lo + st + k * st < hi \<and> A (lo + st + k * st) = a then v
        else m_regs (mmio_write_32 (A lo) v s) a)"
      using True assms by (intro less) auto
    finally show ?thesis
      using True by (subst split) (auto simp: algebra_simps)
  qed
qed

lemma for_step_hw [simp]:
  assumes "\<And>i s. m_hw (f i s) = m_hw s"
  shows "m_hw (for_step lo hi st f s) = m_hw s"
  using assms by (induction lo hi st f s rule: for_step.induct) (subst for_step.simps, simp)

section \<open>The attributes of an interrupt\<close>

text \<open>
  The group bit (\<open>True\<close> is group 1, non-secure), the priority and the target mask of an
  interrupt, as last written to the distributor.
\<close>

definition irq_group :: "'a mach_scheme \<Rightarrow> u32 \<Rightarrow> bool" where
  "irq_group s i = bit (m_regs s (gicd_at (0x80 + 4 * (unat i div 32)))) (unat i mod 32)"

definition irq_prio :: "'a mach_scheme \<Rightarrow> u32 \<Rightarrow> u8" where
  "irq_prio s i = get_lane (8 * (unat i mod 4)) (m_regs s (gicd_at (0x400 + 4 * (unat i div 4))))"

definition irq_targets :: "'a mach_scheme \<Rightarrow> u32 \<Rightarrow> u8" where
  "irq_targets s i = get_lane (8 * (unat i mod 4)) (m_regs s (gicd_at (0x800 + 4 * (unat i div 4))))"

text \<open>The group and configuration registers of the distributor read back what was written.\<close>

definition gicd_plain :: "'a mach_scheme \<Rightarrow> bool" where
  "gicd_plain s \<longleftrightarrow> (\<forall>n. 0x80 \<le> n \<and> n < 0x100 \<or> 0xC00 \<le> n \<and> n < 0xD00 \<longrightarrow> plain s (gicd_at n))"

lemma gicd_plain_group [simp]: "gicd_plain s \<Longrightarrow> n < 1024 \<Longrightarrow> plain s (gicd_at (0x80 + 4 * (n div 32)))"
  by (simp add: gicd_plain_def)

lemma gicd_plain_cfg [simp]: "gicd_plain s \<Longrightarrow> n < 1024 \<Longrightarrow> plain s (gicd_at (0xC00 + 4 * (n div 16)))"
  by (simp add: gicd_plain_def)

lemma gicd_plain_cong: "m_hw s' = m_hw s \<Longrightarrow> gicd_plain s' = gicd_plain s"
  by (simp add: gicd_plain_def plain_def)

text \<open>
  A per-interrupt attribute: writing that of one interrupt is read back and leaves the others.
  The client lemma gives the attributes after any sequence of writes.
\<close>

locale irq_field =
  fixes get :: "'s \<Rightarrow> u32 \<Rightarrow> 'v" and put :: "u32 \<Rightarrow> 'v \<Rightarrow> 's \<Rightarrow> 's" and ok :: "'s \<Rightarrow> bool"
  assumes get_put: "ok s \<Longrightarrow> i \<le> MAX_SPI_ID \<Longrightarrow> get (put i v s) i = v"
    and get_other: "ok s \<Longrightarrow> i \<le> MAX_SPI_ID \<Longrightarrow> j \<le> MAX_SPI_ID \<Longrightarrow> i \<noteq> j \<Longrightarrow> get (put i v s) j = get s j"
    and ok_put: "ok s \<Longrightarrow> ok (put i v s)"
begin

lemma put_list:
  assumes "ok s" "distinct (map fst ps)" "list_all (\<lambda>p. fst p \<le> MAX_SPI_ID) ps" "j \<le> MAX_SPI_ID"
  shows "get (fold (\<lambda>(i, v). put i v) ps s) j = (case map_of ps j of Some v \<Rightarrow> v | None \<Rightarrow> get s j)"
  using assms
proof (induction ps arbitrary: s)
  case Nil
  then show ?case by simp
next
  case (Cons p ps)
  obtain i v where p: "p = (i, v)" by fastforce
  have IH: "get (fold (\<lambda>(i, v). put i v) ps (put i v s)) j =
      (case map_of ps j of Some v \<Rightarrow> v | None \<Rightarrow> get (put i v s) j)"
    using Cons by (simp add: p ok_put)
  show ?case
  proof (cases "j = i")
    case True
    then have "map_of ps j = None" using Cons.prems(2) by (simp add: p map_of_eq_None_iff)
    then show ?thesis using IH True Cons.prems by (simp add: p get_put)
  next
    case False
    then show ?thesis using IH Cons.prems get_other [of s i j v] by (simp add: p split: option.split)
  qed
qed

end

lemma spi_lt: "i \<le> MAX_SPI_ID \<Longrightarrow> unat i < 1020"
  by (simp add: MAX_SPI_ID_def word_le_nat_alt)

lemma group_write:
  assumes "gicd_plain s" "i \<le> MAX_SPI_ID"
  shows "m_regs (gicd_set_igroupr 0xF9010000 i s) = (let a = gicd_at (0x80 + 4 * (unat i div 32)) in
      (m_regs s)(a := m_regs s a OR push_bit (unat i mod 32) 1))"
    and "m_regs (gicd_clr_igroupr 0xF9010000 i s) = (let a = gicd_at (0x80 + 4 * (unat i div 32)) in
      (m_regs s)(a := m_regs s a AND NOT (push_bit (unat i mod 32) 1)))"
  using assms spi_lt [OF assms(2)]
  by (simp_all add: gicd_set_igroupr_def gicd_clr_igroupr_def gicd_read_igroupr_def
      gicd_write_igroupr_def case_prod_unfold gicd_regs Let_def one_bit_def bit_num_mod IGROUPR_SHIFT_def
      gicd_regs(1) [unfolded IGROUPR_SHIFT_def])

lemma same_word: "m div n = k div n \<Longrightarrow> m mod n = k mod n \<Longrightarrow> m = k" for m n k :: nat
  by (metis div_mult_mod_eq)

definition put_group :: "u32 \<Rightarrow> bool \<Rightarrow> 'a mach_scheme \<Rightarrow> 'a mach_scheme" where
  "put_group i v = (if v then gicd_set_igroupr 0xF9010000 i else gicd_clr_igroupr 0xF9010000 i)"

lemma put_group_hw [simp]: "m_hw (put_group i v s) = m_hw s"
  by (simp add: put_group_def gicd_set_igroupr_def gicd_clr_igroupr_def gicd_read_igroupr_def
      gicd_write_igroupr_def case_prod_unfold)

interpretation grp: irq_field irq_group put_group gicd_plain
proof
  fix s :: "'a mach_scheme" and i j v
  assume ok: "gicd_plain s"
  show "gicd_plain (put_group i v s)" using ok by (simp add: gicd_plain_def plain_def)
  assume i: "i \<le> MAX_SPI_ID"
  show "irq_group (put_group i v s) i = v"
    using ok i by (simp add: irq_group_def put_group_def group_write Let_def bit_simps)
  assume j: "j \<le> MAX_SPI_ID" and ij: "i \<noteq> j"
  have "\<not> (unat i div 32 = unat j div 32 \<and> unat i mod 32 = unat j mod 32)"
    using ij same_word word_unat_eq_iff by blast
  then show "irq_group (put_group i v s) j = irq_group s j"
    using ok i spi_lt [OF i] spi_lt [OF j]
    by (auto simp: irq_group_def put_group_def group_write Let_def bit_simps)
qed

lemma byte_write:
  assumes "i \<le> MAX_SPI_ID"
  shows "m_regs (gicd_set_ipriorityr 0xF9010000 i (ucast b) s) = (let a = gicd_at (0x400 + 4 * (unat i div 4)) in
      (m_regs s)(a := put_lane (8 * (unat i mod 4)) b (m_regs s a)))"
    and "m_regs (gicd_set_itargetsr 0xF9010000 i (ucast b) s) = (let a = gicd_at (0x800 + 4 * (unat i div 4)) in
      (m_regs s)(a := put_lane (8 * (unat i mod 4)) b (m_regs s a)))"
proof -
  have i: "unat i < 1020" using assms by (rule spi_lt)
  have m: "(0xFF :: u32) = mask 8" by (simp add: mask_eq_exp_minus_1)
  have b: "(ucast ((ucast b :: u32) AND 0xFF) :: u8) = b"
    unfolding m by (rule bit_word_eqI) (auto simp: bit_simps)
  have "cell (gicd_at (0x400 + unat i)) = gicd_at (0x400 + 4 * (unat i div 4))"
    "cell (gicd_at (0x800 + unat i)) = gicd_at (0x800 + 4 * (unat i div 4))"
    "byte_lane (gicd_at (0x400 + unat i)) = 8 * (unat i mod 4)"
    "byte_lane (gicd_at (0x800 + unat i)) = 8 * (unat i mod 4)"
    using i cell_gicd_at_add [of 256 "unat i"] cell_gicd_at_add [of 512 "unat i"] by simp_all
  then show "m_regs (gicd_set_ipriorityr 0xF9010000 i (ucast b) s) = (let a = gicd_at (0x400 + 4 * (unat i div 4)) in
      (m_regs s)(a := put_lane (8 * (unat i mod 4)) b (m_regs s a)))"
    "m_regs (gicd_set_itargetsr 0xF9010000 i (ucast b) s) = (let a = gicd_at (0x800 + 4 * (unat i div 4)) in
      (m_regs s)(a := put_lane (8 * (unat i mod 4)) b (m_regs s a)))"
    using i by (simp_all add: gicd_set_ipriorityr_def gicd_set_itargetsr_def
        gicd_byte_regs b Let_def)
qed

lemma lanes_disj: "m mod 4 \<noteq> n mod 4 \<Longrightarrow> 8 * (m mod 4) + 8 \<le> 8 * (n mod 4) \<or> 8 * (n mod 4) + 8 \<le> 8 * (m mod (4 :: nat))"
  by linarith

interpretation pri: irq_field irq_prio "\<lambda>i b. gicd_set_ipriorityr 0xF9010000 i (ucast b)" "\<lambda>_. True"
proof
  fix s :: "'a mach_scheme" and i j b
  assume i: "i \<le> MAX_SPI_ID"
  show "irq_prio (gicd_set_ipriorityr 0xF9010000 i (ucast b) s) i = b"
    using i by (simp add: irq_prio_def byte_write Let_def get_put_lane)
  assume j: "j \<le> MAX_SPI_ID" and ij: "i \<noteq> j"
  have "unat i div 4 = unat j div 4 \<Longrightarrow> unat i mod 4 \<noteq> unat j mod 4"
    using ij same_word word_unat_eq_iff by blast
  then show "irq_prio (gicd_set_ipriorityr 0xF9010000 i (ucast b) s) j = irq_prio s j"
    using i spi_lt [OF i] spi_lt [OF j] lanes_disj [of "unat i" "unat j"]
    by (auto simp: irq_prio_def byte_write Let_def get_put_lane_other)
qed simp

interpretation tgt: irq_field irq_targets "\<lambda>i b. gicd_set_itargetsr 0xF9010000 i (ucast b)" "\<lambda>_. True"
proof
  fix s :: "'a mach_scheme" and i j b
  assume i: "i \<le> MAX_SPI_ID"
  show "irq_targets (gicd_set_itargetsr 0xF9010000 i (ucast b) s) i = b"
    using i by (simp add: irq_targets_def byte_write Let_def get_put_lane)
  assume j: "j \<le> MAX_SPI_ID" and ij: "i \<noteq> j"
  have "unat i div 4 = unat j div 4 \<Longrightarrow> unat i mod 4 \<noteq> unat j mod 4"
    using ij same_word word_unat_eq_iff by blast
  then show "irq_targets (gicd_set_itargetsr 0xF9010000 i (ucast b) s) j = irq_targets s j"
    using i spi_lt [OF i] spi_lt [OF j] lanes_disj [of "unat i" "unat j"]
    by (auto simp: irq_targets_def byte_write Let_def get_put_lane_other)
qed simp

section \<open>Frame lemmas\<close>

lemma gic_fields [bus_simps]:
  "driver_data (mmio_write_32 a v s) = driver_data s"
  "target_masks (mmio_write_32 a v s) = target_masks s"
  "gic_lock (mmio_write_32 a v s) = gic_lock s"
  "mpidr_el1 (mmio_write_32 a v s) = mpidr_el1 s"
  "driver_data (snd (mmio_read_32 a s)) = driver_data s"
  "target_masks (snd (mmio_read_32 a s)) = target_masks s"
  "gic_lock (snd (mmio_read_32 a s)) = gic_lock s"
  "mpidr_el1 (snd (mmio_read_32 a s)) = mpidr_el1 s"
  "driver_data (mmio_write_8 a b s) = driver_data s"
  "target_masks (mmio_write_8 a b s) = target_masks s"
  "gic_lock (mmio_write_8 a b s) = gic_lock s"
  "mpidr_el1 (mmio_write_8 a b s) = mpidr_el1 s"
  "driver_data (fw_call f as s) = driver_data s"
  "target_masks (fw_call f as s) = target_masks s"
  "gic_lock (fw_call f as s) = gic_lock s"
  "mpidr_el1 (fw_call f as s) = mpidr_el1 s"
  by (simp_all add: mmio_read_32_def mmio_write_32_def mmio_write_8_def fw_call_def Let_def)

declare gic_fields [simp]

lemma put_group_fields [simp]:
  "driver_data (put_group i v s) = driver_data s"
  "target_masks (put_group i v s) = target_masks s"
  "gic_lock (put_group i v s) = gic_lock s"
  "mpidr_el1 (put_group i v s) = mpidr_el1 s"
  by (simp_all add: put_group_def gicd_set_igroupr_def gicd_clr_igroupr_def gicd_read_igroupr_def
      gicd_write_igroupr_def case_prod_unfold)

lemma arm_bases [simp]:
  "driver_data s = Some arm_gic_data \<Longrightarrow> gicd_of s = Some 0xF9010000"
  "driver_data s = Some arm_gic_data \<Longrightarrow> gicc_of s = Some 0xF9020000"
  by (simp_all add: gicd_of_def gicc_of_def arm_gic_data_def)

text \<open>The GIC driver is set up and its lock is free.\<close>

definition gic_ready :: "'a gic_mach_scheme \<Rightarrow> bool" where
  "gic_ready s \<longleftrightarrow> driver_data s = Some arm_gic_data \<and> \<not> gic_lock s \<and> gicd_plain s"

lemma set_type_put:
  assumes "gic_ready s" "i \<le> MAX_SPI_ID" "t = INTR_TYPE_EL3 \<or> t = INTR_TYPE_NS"
  shows "plat_ic_set_interrupt_type i t s = Some ((put_group i (t = INTR_TYPE_NS) (s\<lparr>gic_lock := True\<rparr>))\<lparr>gic_lock := False\<rparr>)"
  using assms
  by (auto simp: gic_ready_def plat_ic_set_interrupt_type_def gicv2_set_interrupt_type_def gic_spin_lock_def
      put_group_def INTR_TYPE_EL3_def INTR_TYPE_NS_def)

lemma get_type_group:
  assumes "driver_data s = Some arm_gic_data" "gicd_plain s" "i \<le> MAX_SPI_ID"
  shows "map_option fst (plat_ic_get_interrupt_type i s) =
    Some (if irq_group s i then INTR_TYPE_NS else INTR_TYPE_EL3)"
proof -
  have "drop_bit n w AND 1 = (if bit w n then 1 else 0)" for n and w :: u32
    by (rule bit_word_eqI) (auto simp: bit_simps intro!: gr0I)
  then show ?thesis
    using assms spi_lt [OF assms(3)]
    by (simp add: plat_ic_get_interrupt_type_def gicv2_get_interrupt_group_def gicd_get_igroupr_def
        gicd_read_igroupr_def case_prod_unfold gicd_regs gicd_regs(1) [unfolded IGROUPR_SHIFT_def]
        irq_group_def bit_num_mod IGROUPR_SHIFT_def)
qed

lemma irq_views_lock [simp]:
  "irq_group (s\<lparr>gic_lock := b\<rparr>) = irq_group s" "irq_prio (s\<lparr>gic_lock := b\<rparr>) = irq_prio s"
  "irq_targets (s\<lparr>gic_lock := b\<rparr>) = irq_targets s"
  by (simp_all add: irq_group_def irq_prio_def irq_targets_def fun_eq_iff)

lemma gicd_plain_lock [simp]: "gicd_plain (s\<lparr>gic_lock := b\<rparr>) = gicd_plain s"
  by (simp add: gicd_plain_def plain_def)

section \<open>Initialisation\<close>

lemma num_ints_le:
  fixes t :: u32
  defines "n \<equiv> unat (push_bit 5 ((t AND TYPER_IT_LINES_NO_MASK) + 1))"
  shows "n \<le> 1024" "n = 32 * Suc (unat (t AND 0x1F))"
proof -
  have "(0x1F :: u32) = mask 5" by (simp add: mask_eq_exp_minus_1)
  then have lt: "unat (t AND 0x1F) < 32" by (simp only: unat_and_mask) simp
  then have "unat ((t AND 0x1F) + 1) = Suc (unat (t AND 0x1F))" by (simp add: unat_word_ariths)
  then show eq: "n = 32 * Suc (unat (t AND 0x1F))"
    using lt unat_push_bit [of "(t AND 0x1F) + 1" 5] by (simp add: n_def)
  show "n \<le> 1024" using eq lt by simp
qed

lemma loop_index:
  fixes i N p :: nat
  assumes "32 dvd N" "p \<in> {4, 16, 32}"
  shows "(\<exists>k. 32 + k * p < N \<and> (32 + k * p) div p = i div p) \<longleftrightarrow> 32 \<le> i \<and> i < N"
proof -
  have p: "0 < p" "p dvd 32" using assms(2) by auto
  then obtain c where c: "32 = c * p" by (auto elim: dvdE simp: mult.commute)
  obtain d where d: "N = d * p" using p(2) assms(1) by (metis dvd_def dvd_trans mult.commute)
  have "32 + k * p = (c + k) * p" for k by (simp add: c add_mult_distrib)
  then have "(\<exists>k. 32 + k * p < N \<and> (32 + k * p) div p = i div p) \<longleftrightarrow> (\<exists>k. c + k < d \<and> c + k = i div p)"
    using p(1) by (simp add: d)
  also have "\<dots> \<longleftrightarrow> c \<le> i div p \<and> i div p < d"
    by (metis nat_le_iff_add)
  also have "\<dots> \<longleftrightarrow> 32 \<le> i \<and> i < N"
    by (simp add: c d less_eq_div_iff_mult_less_eq div_less_iff_less_mult p(1))
  finally show ?thesis .
qed

lemma loop_cells:
  assumes "32 dvd N" "p \<in> {4, 16, 32}" "N \<le> 1024" "i < 1024" "off \<le> 3072"
  shows "(\<exists>k. 32 + k * p < N \<and> gicd_at (off + 4 * ((32 + k * p) div p)) = gicd_at (off + 4 * (i div p)))
    \<longleftrightarrow> 32 \<le> i \<and> i < N"
proof -
  have bound: "off + 4 * (j div p) < 4096" if "j < 1024" for j
    using that assms(2,5) by auto
  have "(32 + k * p < N \<and> gicd_at (off + 4 * ((32 + k * p) div p)) = gicd_at (off + 4 * (i div p))) \<longleftrightarrow>
      (32 + k * p < N \<and> (32 + k * p) div p = i div p)" for k
    using bound [of "32 + k * p"] bound [OF assms(4)] assms(3) by (cases "32 + k * p < N") auto
  then show ?thesis using loop_index [OF assms(1,2)] by simp
qed

lemma loop_off:
  assumes "p \<in> {4, 16, 32}" "N \<le> 1024" "n < 4096" "n < off \<or> off + 4096 div p \<le> n" "off \<le> 3072"
  shows "\<not> (32 + k * p < N \<and> gicd_at (off + 4 * ((32 + k * p) div p)) = gicd_at n)"
proof
  assume k: "32 + k * p < N \<and> gicd_at (off + 4 * ((32 + k * p) div p)) = gicd_at n"
  then have b: "4 * ((32 + k * p) div p) < 4096 div p" "4096 div p \<le> 1024" using assms(1,2) by auto
  then have "off + 4 * ((32 + k * p) div p) = n" using k assms(3,5) by (subst gicd_at_eq [symmetric]) auto
  then show False using assms(4) b(1) by linarith
qed

text \<open>The three loops over the SPIs, as one update of the register file.\<close>

lemma for_step_cong:
  assumes "\<And>i. lo \<le> i \<Longrightarrow> i < hi \<Longrightarrow> f i = g i"
  shows "for_step lo hi st f s = for_step lo hi st g s"
  using assms
proof (induction lo hi st f s rule: for_step.induct)
  case (1 lo hi st f s)
  then show ?case by (subst (1 2) for_step.simps) simp
qed

definition spi_loop :: "nat \<Rightarrow> nat \<Rightarrow> nat \<Rightarrow> u32 \<Rightarrow> 'a mach_scheme \<Rightarrow> 'a mach_scheme" where
  "spi_loop off N p v = for_step 32 N p (\<lambda>i. mmio_write_32 (gicd_at (off + 4 * (i div p))) v)"

lemma unat_of_nat_u32: "i < 1024 \<Longrightarrow> unat (of_nat i :: u32) = i"
  by (simp add: unat_of_nat)

lemma defaults_loops:
  assumes "N = 32 * Suc (unat (fst (gicd_read_typer 0xF9010000 s) AND 0x1F))"
  shows "gicv2_spis_configure_defaults 0xF9010000 s =
    spi_loop 0xC00 N 16 0 (spi_loop 0x400 N 4 0x80808080 (spi_loop 0x80 N 32 (NOT 0)
      (snd (gicd_read_typer 0xF9010000 s))))"
proof -
  have N: "N \<le> 1024" "unat (push_bit 5 ((fst (gicd_read_typer 0xF9010000 s) AND TYPER_IT_LINES_NO_MASK) + 1)) = N"
    using num_ints_le [of "fst (gicd_read_typer 0xF9010000 s)"] assms by simp_all
  have "for_step 32 N 32 (\<lambda>i. gicd_write_igroupr 0xF9010000 (of_nat i) (NOT 0)) t = spi_loop 0x80 N 32 (NOT 0) t"
    "for_step 32 N 4 (\<lambda>i. gicd_write_ipriorityr 0xF9010000 (of_nat i) GICD_IPRIORITYR_DEF_VAL) t = spi_loop 0x400 N 4 0x80808080 t"
    "for_step 32 N 16 (\<lambda>i. gicd_write_icfgr 0xF9010000 (of_nat i) 0) t = spi_loop 0xC00 N 16 0 t"
    for t :: "'a mach_scheme"
    unfolding spi_loop_def using N(1)
    by (intro for_step_cong; simp add: gicd_write_igroupr_def gicd_write_ipriorityr_def gicd_write_icfgr_def
        gicd_regs unat_of_nat_u32 fun_eq_iff)+
  then show ?thesis by (simp add: gicv2_spis_configure_defaults_def case_prod_unfold Let_def N(2))
qed

lemma spi_loop_in:
  assumes "32 dvd N" "p \<in> {4, 16, 32}" "N \<le> 1024" "i < 1024" "off \<le> 3072"
  shows "m_regs (spi_loop off N p v s) (gicd_at (off + 4 * (i div p))) =
    (if 32 \<le> i \<and> i < N then v else m_regs s (gicd_at (off + 4 * (i div p))))"
  using assms(2) loop_cells [OF assms] unfolding spi_loop_def by (subst for_step_writes) auto

lemma spi_loop_out:
  assumes "p \<in> {4, 16, 32}" "N \<le> 1024" "n < 4096" "n < off \<or> off + 4096 div p \<le> n" "off \<le> 3072"
  shows "m_regs (spi_loop off N p v s) (gicd_at n) = m_regs s (gicd_at n)"
  using assms(1) loop_off [OF assms] unfolding spi_loop_def by (subst for_step_writes) auto

lemma three_loops:
  assumes "32 dvd N" "N \<le> 1024" "i < 1024"
  shows "m_regs (spi_loop 0xC00 N 16 c (spi_loop 0x400 N 4 b (spi_loop 0x80 N 32 a t))) (gicd_at (0x80 + 4 * (i div 32))) =
      (if 32 \<le> i \<and> i < N then a else m_regs t (gicd_at (0x80 + 4 * (i div 32))))"
    and "m_regs (spi_loop 0xC00 N 16 c (spi_loop 0x400 N 4 b (spi_loop 0x80 N 32 a t))) (gicd_at (0x400 + 4 * (i div 4))) =
      (if 32 \<le> i \<and> i < N then b else m_regs t (gicd_at (0x400 + 4 * (i div 4))))"
proof -
  have "0x80 + 4 * (i div 32) < 0x100" "0x400 + 4 * (i div 4) < 0x800" using assms(3) by auto
  then show "m_regs (spi_loop 0xC00 N 16 c (spi_loop 0x400 N 4 b (spi_loop 0x80 N 32 a t))) (gicd_at (0x80 + 4 * (i div 32))) =
      (if 32 \<le> i \<and> i < N then a else m_regs t (gicd_at (0x80 + 4 * (i div 32))))"
    "m_regs (spi_loop 0xC00 N 16 c (spi_loop 0x400 N 4 b (spi_loop 0x80 N 32 a t))) (gicd_at (0x400 + 4 * (i div 4))) =
      (if 32 \<le> i \<and> i < N then b else m_regs t (gicd_at (0x400 + 4 * (i div 4))))"
    using assms
    by (simp_all add: spi_loop_out [of 16 N "0x80 + 4 * (i div 32)" "0xC00"] spi_loop_out [of 4 N "0x80 + 4 * (i div 32)" "0x400"]
        spi_loop_out [of 16 N "0x400 + 4 * (i div 4)" "0xC00"] spi_loop_out [of 32 N "0x400 + 4 * (i div 4)" "0x80"]
        spi_loop_in [of N 32 i "0x80"] spi_loop_in [of N 4 i "0x400"])
qed

lemma spi_loop_hw [simp]: "m_hw (spi_loop off N p v s) = m_hw s"
  by (simp add: spi_loop_def)

text \<open>What leaves the bus response and the driver's variables alone.\<close>

definition same_env :: "'a gic_mach_scheme \<Rightarrow> 'a gic_mach_scheme \<Rightarrow> bool" where
  "same_env s s' \<longleftrightarrow> m_hw s' = m_hw s \<and> driver_data s' = driver_data s \<and> gic_lock s' = gic_lock s \<and>
     target_masks s' = target_masks s \<and> mpidr_el1 s' = mpidr_el1 s"

lemmas gicd_ops = gicd_set_igroupr_def gicd_clr_igroupr_def gicd_read_igroupr_def gicd_write_igroupr_def
  gicd_set_ipriorityr_def gicd_set_itargetsr_def gicd_set_icfgr_def gicd_read_icfgr_def gicd_write_icfgr_def
  gicd_set_isenabler_def gicd_write_isenabler_def gicd_write_icenabler_def gicd_write_ipriorityr_def
  gicv2_get_cpuif_id_def gicd_read_itargetsr_def gicd_read_ctlr_def gicd_write_ctlr_def gicd_read_typer_def

lemma gicd_set_fields [simp]:
  "m_hw (gicd_set_ipriorityr b i v s) = m_hw s"
  "driver_data (gicd_set_ipriorityr b i v t) = driver_data t"
  "gic_lock (gicd_set_ipriorityr b i v t) = gic_lock t"
  "target_masks (gicd_set_ipriorityr b i v t) = target_masks t"
  "mpidr_el1 (gicd_set_ipriorityr b i v t) = mpidr_el1 t"
  "m_hw (gicd_set_icfgr b i v s) = m_hw s"
  "driver_data (gicd_set_icfgr b i v t) = driver_data t"
  "gic_lock (gicd_set_icfgr b i v t) = gic_lock t"
  "target_masks (gicd_set_icfgr b i v t) = target_masks t"
  "mpidr_el1 (gicd_set_icfgr b i v t) = mpidr_el1 t"
  by (simp_all add: gicd_ops case_prod_unfold Let_def)

lemma set_prio_0 [simp]:
  "i \<le> MAX_SPI_ID \<Longrightarrow> m_regs (gicd_set_ipriorityr 0xF9010000 i 0 s) =
     (m_regs s)(gicd_at (0x400 + 4 * (unat i div 4)) := put_lane (8 * (unat i mod 4)) 0
       (m_regs s (gicd_at (0x400 + 4 * (unat i div 4)))))"
  using byte_write(1) [of i 0 s] by (simp add: Let_def)

lemma for_step_fields [simp]:
  assumes "\<And>i s. driver_data (f i s) = driver_data s" "\<And>i s. gic_lock (f i s) = gic_lock s"
    "\<And>i s. target_masks (f i s) = target_masks s" "\<And>i s. mpidr_el1 (f i s) = mpidr_el1 s"
  shows "driver_data (for_step lo hi st f s) = driver_data s" "gic_lock (for_step lo hi st f s) = gic_lock s"
    "target_masks (for_step lo hi st f s) = target_masks s" "mpidr_el1 (for_step lo hi st f s) = mpidr_el1 s"
  using assms
  by (induction lo hi st f s rule: for_step.induct; subst for_step.simps; simp)+

lemma ppi_loop:
  "\<exists>s'. ppi_sgi_props_loop 0xF9010000 arm_interrupt_props 0 s = Some (0x2000FF00, s') \<and> same_env s s' \<and>
     (\<forall>n<4096. n < 0x400 \<or> 0x420 \<le> n \<and> n < 0xC00 \<longrightarrow> m_regs s' (gicd_at n) = m_regs s (gicd_at n))"
  for s :: "'a gic_mach_scheme"
proof -
  have c0: "m_regs (gicd_set_icfgr 0xF9010000 29 0 s) (gicd_at n) = m_regs s (gicd_at n)"
    if "n < 4096" "n < 0xC00" for n and s :: "'a gic_mach_scheme"
    using that by (simp add: gicd_set_icfgr_def gicd_read_icfgr_def gicd_write_icfgr_def
        case_prod_unfold Let_def gicd_regs)
  show ?thesis
    by (simp add: arm_interrupt_props_def sec_sgi_def MAX_SPI_ID_def c0
        same_env_def)
qed

lemma pcpu_init:
  assumes "driver_data s = Some arm_gic_data"
  shows "\<exists>s'. gicv2_pcpu_distif_init s = Some s' \<and> same_env s s' \<and> m_regs s' (gicd_at 0x80) = NOT 0x2000FF00 \<and>
     (\<forall>n<4096. 0x84 \<le> n \<and> n < 0x100 \<or> 0x420 \<le> n \<and> n < 0xC00 \<longrightarrow> m_regs s' (gicd_at n) = m_regs s (gicd_at n))"
proof -
  define s1 where "s1 = for_step 0 32 4
      (\<lambda>i. gicd_write_ipriorityr 0xF9010000 (of_nat i) GICD_IPRIORITYR_DEF_VAL)
      (gicd_write_icenabler 0xF9010000 0 (NOT 0) s)"
  obtain s2 where s2: "ppi_sgi_props_loop 0xF9010000 arm_interrupt_props 0 s1 = Some (0x2000FF00, s2)" "same_env s1 s2"
    "\<forall>n<4096. n < 0x400 \<or> 0x420 \<le> n \<and> n < 0xC00 \<longrightarrow> m_regs s2 (gicd_at n) = m_regs s1 (gicd_at n)"
    using ppi_loop by blast
  have s1: "same_env s s1" by (simp add: s1_def same_env_def gicd_ops)
  have "m_regs s1 (gicd_at n) = m_regs s (gicd_at n)"
    if "n < 4096" "0x84 \<le> n \<and> n < 0x100 \<or> 0x420 \<le> n \<and> n < 0xC00" for n
  proof -
    have "gicd_at (0x400 + 4 * (i div 4)) \<noteq> gicd_at n" if "i < 32" for i
    proof -
      have "0x400 + 4 * (i div 4) < 0x420" using that by linarith
      then show ?thesis
        using \<open>n < 4096\<close> \<open>0x84 \<le> n \<and> n < 0x100 \<or> 0x420 \<le> n \<and> n < 0xC00\<close> by (subst gicd_at_eq) auto
    qed
    then have "m_regs (for_step 0 32 4 (\<lambda>i. mmio_write_32 (gicd_at (0x400 + 4 * (i div 4))) GICD_IPRIORITYR_DEF_VAL)
        (gicd_write_icenabler 0xF9010000 0 (NOT 0) s)) (gicd_at n) = m_regs s (gicd_at n)"
      using that by (subst for_step_writes) (auto simp: gicd_write_icenabler_def gicd_regs)
    moreover have "s1 = for_step 0 32 4 (\<lambda>i. mmio_write_32 (gicd_at (0x400 + 4 * (i div 4))) GICD_IPRIORITYR_DEF_VAL)
        (gicd_write_icenabler 0xF9010000 0 (NOT 0) s)"
      unfolding s1_def by (intro for_step_cong) (simp add: gicd_write_ipriorityr_def gicd_regs unat_of_nat_u32 fun_eq_iff)
    ultimately show ?thesis by simp
  qed
  note regs = this
  define s3 where "s3 = gicd_write_isenabler 0xF9010000 0 0x2000FF00 (gicd_write_igroupr 0xF9010000 0 (NOT 0x2000FF00) s2)"
  have run: "gicv2_secure_ppi_sgi_setup_props 0xF9010000 arm_interrupt_props s = Some s3"
    using s2(1) by (simp add: gicv2_secure_ppi_sgi_setup_props_def s1_def s3_def)
  have s3: "m_regs s3 (gicd_at n) = m_regs s (gicd_at n)"
    if "n < 4096" "0x84 \<le> n \<and> n < 0x100 \<or> 0x420 \<le> n \<and> n < 0xC00" for n
    using that s2(3) regs by (auto simp: s3_def gicd_write_isenabler_def gicd_write_igroupr_def gicd_regs)
  have ctl: "0xF9010000 + GICD_CTLR = gicd_at 0" by (simp add: gicd_at_def GICD_CTLR_def)
  have s3': "same_env s s3" "m_regs s3 (gicd_at 0x80) = NOT 0x2000FF00"
    using s1 s2(2)
    by (simp_all add: same_env_def s3_def gicd_write_isenabler_def gicd_write_igroupr_def gicd_regs)
  have d: "interrupt_props arm_gic_data = arm_interrupt_props" by (simp add: arm_gic_data_def)
  show ?thesis
    using assms s3' s3
    by (simp add: gicv2_pcpu_distif_init_def run d case_prod_unfold gicd_read_ctlr_def gicd_write_ctlr_def ctl
        same_env_def Let_def)
qed

text \<open>The platform's only secure SPI is that of the TTC3 watchdog timer.\<close>

lemma spi_props:
  "gicv2_secure_spis_configure_props 0xF9010000 arm_interrupt_props s =
    Some (let s = gicd_clr_igroupr 0xF9010000 77 s;
              s = gicd_set_ipriorityr 0xF9010000 77 0 s;
              (t, s) = gicv2_get_cpuif_id 0xF9010000 s;
              s = gicd_set_itargetsr 0xF9010000 77 t s;
              s = gicd_set_icfgr 0xF9010000 77 2 s
          in gicd_set_isenabler 0xF9010000 77 s)"
  by (simp add: arm_interrupt_props_def sec_sgi_def case_prod_unfold Let_def)

lemma view_cong:
  assumes "\<And>n. n < 4096 \<Longrightarrow> 0x80 \<le> n \<and> n < 0x100 \<or> 0x400 \<le> n \<and> n < 0x800 \<Longrightarrow>
      m_regs s' (gicd_at n) = m_regs s (gicd_at n)" and "unat i < 1020"
  shows "irq_group s' i = irq_group s i" "irq_prio s' i = irq_prio s i"
proof -
  have "0x80 + 4 * (unat i div 32) < 0x100" "0x400 + 4 * (unat i div 4) < 0x800" using assms(2) by auto
  then show "irq_group s' i = irq_group s i" "irq_prio s' i = irq_prio s i"
    using assms(1) by (simp_all add: irq_group_def irq_prio_def)
qed

lemma target_frame:
  assumes "i \<le> MAX_SPI_ID" "n < 0x800"
  shows "m_regs (gicd_set_itargetsr 0xF9010000 i t s) (gicd_at n) = m_regs s (gicd_at n)"
  using spi_lt [OF assms(1)] assms(2) cell_gicd_at_add(1) [of 512 "unat i"]
  by (simp add: gicd_set_itargetsr_def gicd_byte_regs)

lemma lane_80: "get_lane (8 * (n mod 4)) 0x80808080 = 0x80"
proof -
  have "n mod 4 = 0 \<or> n mod 4 = 1 \<or> n mod 4 = 2 \<or> n mod 4 = 3" by linarith
  then show ?thesis by (auto simp: get_lane_def)
qed

lemma distif_init:
  assumes "driver_data s = Some arm_gic_data" "gicd_plain s"
  shows "\<exists>s' N. gicv2_distif_init s = Some s' \<and> same_env s s' \<and>
    N = 32 * Suc (unat (m_hw s (m_now s + 2) (gicd_at 4) (m_regs s (gicd_at 4)) AND 0x1F)) \<and>
    (\<forall>i. 32 \<le> unat i \<and> unat i < 1020 \<longrightarrow>
       irq_group s' i = (i \<noteq> 77 \<and> (unat i < N \<or> irq_group s i)) \<and>
       irq_prio s' i = (if i = 77 then 0 else if unat i < N then 0x80 else irq_prio s i))"
proof -
  have ctl: "0xF9010000 + GICD_CTLR = gicd_at 0" "0xF9010000 + GICD_TYPER = gicd_at 4"
    by (simp_all add: gicd_at_def GICD_CTLR_def GICD_TYPER_def)
  define s1 where "s1 = gicd_write_ctlr 0xF9010000
     (fst (gicd_read_ctlr 0xF9010000 s) AND NOT (CTLR_ENABLE_G0_BIT OR CTLR_ENABLE_G1_BIT)) (snd (gicd_read_ctlr 0xF9010000 s))"
  define s2 where "s2 = gicv2_spis_configure_defaults 0xF9010000 s1"
  define s3 where "s3 = gicd_set_ipriorityr 0xF9010000 77 0 (gicd_clr_igroupr 0xF9010000 77 s2)"
  define s4 where "s4 = gicd_write_ctlr 0xF9010000 (fst (gicd_read_ctlr 0xF9010000 s) OR CTLR_ENABLE_G0_BIT)
     (gicd_set_isenabler 0xF9010000 77 (gicd_set_icfgr 0xF9010000 77 2
       (gicd_set_itargetsr 0xF9010000 77 (fst (gicv2_get_cpuif_id 0xF9010000 s3)) (snd (gicv2_get_cpuif_id 0xF9010000 s3)))))"
  define N where "N = 32 * Suc (unat (m_hw s (m_now s + 2) (gicd_at 4) (m_regs s (gicd_at 4)) AND 0x1F))"
  have d: "interrupt_props arm_gic_data = arm_interrupt_props" by (simp add: arm_gic_data_def)
  have run: "gicv2_distif_init s = Some s4"
    using assms(1) by (simp add: gicv2_distif_init_def case_prod_unfold spi_props d s4_def s3_def s2_def s1_def Let_def)
  have env: "same_env s s4"
    unfolding s4_def s3_def s2_def s1_def
    by (simp add: same_env_def gicd_ops case_prod_unfold gicv2_spis_configure_defaults_def Let_def)
  have N: "N = 32 * Suc (unat (fst (gicd_read_typer 0xF9010000 s1) AND 0x1F))"
    by (simp add: N_def gicd_read_typer_def s1_def gicd_write_ctlr_def gicd_read_ctlr_def ctl)
  have N': "32 dvd N" "N \<le> 1024"
    using num_ints_le [of "fst (gicd_read_typer 0xF9010000 s1)"] N by simp_all
  have m77: "(77 :: u32) \<le> MAX_SPI_ID" by (simp add: MAX_SPI_ID_def)
  have "m_hw s2 = m_hw s" unfolding s2_def defaults_loops [OF N] by (simp add: gicd_ops s1_def)
  then have hw2: "gicd_plain s2" using assms(2) gicd_plain_cong by blast
  have "irq_group s4 i = (i \<noteq> 77 \<and> (unat i < N \<or> irq_group s i)) \<and>
      irq_prio s4 i = (if i = 77 then 0 else if unat i < N then 0x80 else irq_prio s i)"
    if i: "32 \<le> unat i" "unat i < 1020" for i
  proof -
    have im: "i \<le> MAX_SPI_ID" using i(2) by (simp add: MAX_SPI_ID_def word_le_nat_alt)
    have r2: "m_regs s2 (gicd_at (0x80 + 4 * (unat i div 32))) =
        (if unat i < N then NOT 0 else m_regs s (gicd_at (0x80 + 4 * (unat i div 32))))"
      "m_regs s2 (gicd_at (0x400 + 4 * (unat i div 4))) =
        (if unat i < N then 0x80808080 else m_regs s (gicd_at (0x400 + 4 * (unat i div 4))))"
    proof -
      have b: "0x80 + 4 * (unat i div 32) < 0x100" "0x400 + 4 * (unat i div 4) < 0x800" using i by auto
      have s1: "m_regs (snd (gicd_read_typer 0xF9010000 s1)) (gicd_at (0x80 + n)) = m_regs s (gicd_at (0x80 + n))"
        if "0x80 + n < 4096" for n using that by (simp add: s1_def gicd_ops ctl)
      show "m_regs s2 (gicd_at (0x80 + 4 * (unat i div 32))) =
          (if unat i < N then NOT 0 else m_regs s (gicd_at (0x80 + 4 * (unat i div 32))))"
        using i b s1 by (simp add: s2_def defaults_loops [OF N] three_loops(1) [OF N'])
      show "m_regs s2 (gicd_at (0x400 + 4 * (unat i div 4))) =
          (if unat i < N then 0x80808080 else m_regs s (gicd_at (0x400 + 4 * (unat i div 4))))"
        using i b s1 [of "0x380 + 4 * (unat i div 4)"]
        by (simp add: s2_def defaults_loops [OF N] three_loops(2) [OF N'])
    qed
    have g2: "irq_group s2 i = (unat i < N \<or> irq_group s i)"
      using r2 by (simp add: irq_group_def bit_simps)
    have p2: "irq_prio s2 i = (if unat i < N then 0x80 else irq_prio s i)"
      using r2(2) by (simp add: irq_prio_def lane_80)
    have "irq_group s4 i = irq_group s3 i" "irq_prio s4 i = irq_prio s3 i"
      using i(2) m77
      by (intro view_cong; force simp: s4_def target_frame gicd_write_ctlr_def ctl gicd_set_isenabler_def
          gicd_write_isenabler_def gicd_set_icfgr_def gicd_write_icfgr_def gicd_read_icfgr_def gicd_regs
          case_prod_unfold Let_def gicv2_get_cpuif_id_def gicd_read_itargetsr_def)+
    moreover have "irq_group s3 i = irq_group (put_group 77 False s2) i" "irq_prio (put_group 77 False s2) i = irq_prio s2 i"
      using div_le_mono [of "unat i" 1019 32] i(2) m77 hw2
      by (simp_all add: irq_group_def irq_prio_def s3_def put_group_def group_write Let_def)
    moreover have "irq_prio s3 i = (if i = 77 then 0 else irq_prio (put_group 77 False s2) i)"
      using pri.get_put [where s = "put_group 77 False s2" and i = 77 and v = 0]
        pri.get_other [where s = "put_group 77 False s2" and i = 77 and j = i and v = 0] m77 im
      by (simp add: s3_def put_group_def)
    ultimately show ?thesis
      using grp.get_put [OF hw2 m77, of False] grp.get_other [OF hw2 m77 im, of False] g2 p2 by auto
  qed
  then show ?thesis using run env N_def by blast
qed

lemma target_mask_ok:
  assumes "driver_data s = Some arm_gic_data" "p < 4"
  shows "\<exists>s'. gicv2_set_pe_target_mask p s = Some s' \<and> m_regs s' = m_regs s \<and> m_hw s' = m_hw s \<and>
    driver_data s' = driver_data s \<and> gic_lock s' = gic_lock s"
  using assms
  by (simp add: gicv2_set_pe_target_mask_def PLATFORM_CORE_COUNT_def
      gicv2_get_cpuif_id_def gicd_read_itargetsr_def case_prod_unfold Let_def) (simp add: arm_gic_data_def PLATFORM_CORE_COUNT_def)

lemma gicc_neq: "n < 4096 \<Longrightarrow> gicd_at n \<noteq> 0xF9020000" "n < 4096 \<Longrightarrow> gicd_at n \<noteq> 0xF9020004"
  by (simp_all add: word_unat_eq_iff unat_gicd_at)

lemma cpuif_enable_ok:
  assumes "driver_data s = Some arm_gic_data"
  shows "\<exists>s'. gicv2_cpuif_enable s = Some s' \<and> m_hw s' = m_hw s \<and> driver_data s' = driver_data s \<and>
    gic_lock s' = gic_lock s \<and> m_regs s' (0xF9020000 + GICC_CTLR) = 0x1E9 \<and>
    (\<forall>n<4096. m_regs s' (gicd_at n) = m_regs s (gicd_at n))"
  using assms gicc_neq
  by (simp add: gicv2_cpuif_enable_def gicc_write_pmr_def gicc_write_ctlr_def)

lemma spi_view_cong:
  assumes "32 \<le> unat i" "unat i < 1020"
    and "\<forall>n<4096. 0x84 \<le> n \<and> n < 0x100 \<or> 0x420 \<le> n \<and> n < 0xC00 \<longrightarrow> m_regs s' (gicd_at n) = m_regs s (gicd_at n)"
  shows "irq_group s' i = irq_group s i" "irq_prio s' i = irq_prio s i"
proof -
  have "0x84 \<le> 0x80 + 4 * (unat i div 32)" "0x80 + 4 * (unat i div 32) < 0x100"
    "0x420 \<le> 0x400 + 4 * (unat i div 4)" "0x400 + 4 * (unat i div 4) < 0x800" using assms(1,2) by auto
  then show "irq_group s' i = irq_group s i" "irq_prio s' i = irq_prio s i"
    using assms(3) by (simp_all add: irq_group_def irq_prio_def)
qed

lemma bits_2000FF00: "n < 32 \<Longrightarrow> bit (NOT (0x2000FF00 :: u32)) n \<longleftrightarrow> n \<notin> {8..15} \<union> {29}"
proof -
  have "list_all (\<lambda>n. bit (NOT (0x2000FF00 :: u32)) n \<longleftrightarrow> n \<notin> {8..15} \<union> {29}) [0..<32]"
    by (simp add: upt_rec bit_simps)
  then show "n < 32 \<Longrightarrow> bit (NOT (0x2000FF00 :: u32)) n \<longleftrightarrow> n \<notin> {8..15} \<union> {29}"
    by (simp add: list_all_iff)
qed

section \<open>Properties of the interrupt controller driver\<close>

text \<open>
  Setting the type of an interrupt.  With the driver set up and its lock free,
  \<open>plat_ic_set_interrupt_type\<close> returns for every interrupt and both types, releases the lock, and
  afterwards \<open>plat_ic_get_interrupt_type\<close> returns the type that was set, and for every other
  interrupt the type it had.
\<close>

theorem set_interrupt_type_roundtrip:
  assumes "gic_ready s" "i \<le> MAX_SPI_ID" "t = INTR_TYPE_EL3 \<or> t = INTR_TYPE_NS"
  shows "\<exists>s'. plat_ic_set_interrupt_type i t s = Some s' \<and> gic_ready s' \<and>
    (\<forall>j. j \<le> MAX_SPI_ID \<longrightarrow>
       map_option fst (plat_ic_get_interrupt_type j s') =
       (if j = i then Some t else map_option fst (plat_ic_get_interrupt_type j s)))"
proof -
  define s' where "s' = (put_group i (t = INTR_TYPE_NS) (s\<lparr>gic_lock := True\<rparr>))\<lparr>gic_lock := False\<rparr>"
  have ok: "gicd_plain (s\<lparr>gic_lock := True\<rparr>)" using assms(1) by (simp add: gic_ready_def)
  have ready: "gic_ready s'"
    using assms(1) grp.ok_put [OF ok] by (simp add: gic_ready_def s'_def)
  have "map_option fst (plat_ic_get_interrupt_type j s') =
      (if j = i then Some t else map_option fst (plat_ic_get_interrupt_type j s))"
    if j: "j \<le> MAX_SPI_ID" for j
    using grp.get_put [OF ok assms(2)] grp.get_other [OF ok assms(2) j] assms(1,3) ready
      get_type_group [OF _ _ j, of s'] get_type_group [OF _ _ j, of s]
    by (auto simp: gic_ready_def s'_def)
  then show ?thesis using set_type_put [OF assms] ready s'_def by blast
qed

lemma gic_init_run:
  assumes "gic_ready s" "plat_my_core_pos s < PLATFORM_CORE_COUNT"
    and "N = 32 * Suc (unat (m_hw s (m_now s + 2) (gicd_at 4) (m_regs s (gicd_at 4)) AND 0x1F))"
  shows "\<exists>s'. plat_arm_gic_init s = Some s' \<and> gic_ready s' \<and>
    (\<forall>i. 32 \<le> unat i \<and> unat i < min N 1020 \<longrightarrow>
       irq_group s' i = (i \<noteq> 77) \<and> irq_prio s' i = (if i = 77 then 0 else 0x80)) \<and>
    (\<forall>i. unat i < 32 \<longrightarrow> irq_group s' i = (unat i \<notin> {8..15} \<union> {29})) \<and>
    m_regs s' (0xF9020000 + GICC_CTLR) AND (FIQ_EN_BIT OR CTLR_ENABLE_G0_BIT) = FIQ_EN_BIT OR CTLR_ENABLE_G0_BIT"
proof -
  have dr: "driver_data s = Some arm_gic_data" and pl: "gicd_plain s" using assms(1) by (simp_all add: gic_ready_def)
  obtain s1 where s1: "gicv2_distif_init s = Some s1" "same_env s s1"
    "\<forall>i. 32 \<le> unat i \<and> unat i < 1020 \<longrightarrow> irq_group s1 i = (i \<noteq> 77 \<and> (unat i < N \<or> irq_group s i)) \<and>
       irq_prio s1 i = (if i = 77 then 0 else if unat i < N then 0x80 else irq_prio s i)"
    using distif_init [OF dr pl] assms(3) by blast
  obtain s2 where s2: "gicv2_pcpu_distif_init s1 = Some s2" "same_env s1 s2" "m_regs s2 (gicd_at 0x80) = NOT 0x2000FF00"
    "\<forall>n<4096. 0x84 \<le> n \<and> n < 0x100 \<or> 0x420 \<le> n \<and> n < 0xC00 \<longrightarrow> m_regs s2 (gicd_at n) = m_regs s1 (gicd_at n)"
    using pcpu_init [of s1] s1(2) dr by (auto simp: same_env_def)
  have env: "same_env s s2" using s1(2) s2(2) by (simp add: same_env_def)
  obtain s3 where s3: "gicv2_set_pe_target_mask (plat_my_core_pos s2) s2 = Some s3" "m_regs s3 = m_regs s2"
    "m_hw s3 = m_hw s2" "driver_data s3 = driver_data s2" "gic_lock s3 = gic_lock s2"
    using target_mask_ok [of s2 "plat_my_core_pos s2"] env dr assms(2)
    by (auto simp: same_env_def plat_my_core_pos_def PLATFORM_CORE_COUNT_def)
  obtain s4 where s4: "gicv2_cpuif_enable s3 = Some s4" "m_hw s4 = m_hw s3" "driver_data s4 = driver_data s3"
    "gic_lock s4 = gic_lock s3" "m_regs s4 (0xF9020000 + GICC_CTLR) = 0x1E9"
    "\<forall>n<4096. m_regs s4 (gicd_at n) = m_regs s3 (gicd_at n)"
    using cpuif_enable_ok [of s3] s3(4) env dr by (auto simp: same_env_def)
  have run: "plat_arm_gic_init s = Some s4"
    using s1(1) s2(1) s3(1) s4(1) by (simp add: plat_arm_gic_init_def)
  have ready: "gic_ready s4"
    using assms(1) env s3 s4 gicd_plain_cong [of s4 s] by (simp add: gic_ready_def same_env_def)
  have spi: "irq_group s4 i = (i \<noteq> 77)" "irq_prio s4 i = (if i = 77 then 0 else 0x80)"
    if "32 \<le> unat i" "unat i < min N 1020" for i
    using that s1(3) s2(4) s3(2) s4(6) spi_view_cong [of i s4 s1] by auto
  have ppi: "irq_group s4 i = (unat i \<notin> {8..15} \<union> {29})" if "unat i < 32" for i
    using that s2(3) s3(2) s4(6) bits_2000FF00 [of "unat i"] by (simp add: irq_group_def)
  show ?thesis
    using run ready spi ppi s4(5) by auto
qed

text \<open>
  C20.  Initialisation of the interrupt controller.  On a set-up driver, \<open>plat_arm_gic_init\<close> runs
  to its end whatever the distributor reports as its size.  Afterwards the only secure shared
  interrupt below that size is 77 (the TTC3 watchdog), with the highest priority; every other one is
  non-secure with priority 0x80; of the private interrupts exactly the SGIs 8 to 15 and the
  secure timer 29 are secure; and the CPU interface signals secure interrupts as FIQ.
\<close>

theorem gic_init_groups:
  assumes "gic_ready s" "plat_my_core_pos s < PLATFORM_CORE_COUNT"
    and "N = 32 * Suc (unat (m_hw s (m_now s + 2) (gicd_at 4) (m_regs s (gicd_at 4)) AND 0x1F))"
  shows "\<exists>s'. plat_arm_gic_init s = Some s' \<and> gic_ready s' \<and>
    (\<forall>i. 32 \<le> unat i \<and> unat i < min N 1020 \<longrightarrow>
       irq_group s' i = (i \<noteq> 77) \<and> irq_prio s' i = (if i = 77 then 0 else 0x80)) \<and>
    (\<forall>i. unat i < 32 \<longrightarrow> irq_group s' i = (unat i \<notin> {8..15} \<union> {29})) \<and>
    m_regs s' (0xF9020000 + GICC_CTLR) AND (FIQ_EN_BIT OR CTLR_ENABLE_G0_BIT) = FIQ_EN_BIT OR CTLR_ENABLE_G0_BIT"
  using assms by (rule gic_init_run)

definition test_gic :: gic_mach where
  "test_gic = \<lparr>m_hw = \<lambda>t a v. v, m_now = 0, m_regs = (\<lambda>_. 0), m_evs = [],
     driver_data = Some arm_gic_data, target_masks = (\<lambda>_. 0), gic_lock = False, mpidr_el1 = 0\<rparr>"

lemma test_gic_ready [simp]: "gic_ready test_gic"
  by (simp add: gic_ready_def test_gic_def gicd_plain_def plain_def)

theorem gic_init_groups_witness:
  "\<exists>s'. plat_arm_gic_init test_gic = Some s' \<and> \<not> irq_group s' 8 \<and> irq_group s' 30"
proof -
  obtain s' where "plat_arm_gic_init test_gic = Some s'"
    "\<forall>i. unat i < 32 \<longrightarrow> irq_group s' i = (unat i \<notin> {8..15} \<union> {29})"
    using gic_init_groups [OF test_gic_ready _ refl]
    by (auto simp: test_gic_def plat_my_core_pos_def zynqmp_calc_core_pos_def PLATFORM_CORE_COUNT_def)
  then show ?thesis by simp
qed

theorem set_interrupt_type_roundtrip_witness:
  "\<exists>s'. plat_ic_set_interrupt_type 74 INTR_TYPE_NS test_gic = Some s' \<and> gic_ready s' \<and>
     map_option fst (plat_ic_get_interrupt_type 74 s') = Some INTR_TYPE_NS"
proof -
  have m: "74 \<le> MAX_SPI_ID" by (simp add: MAX_SPI_ID_def)
  obtain s' where "plat_ic_set_interrupt_type 74 INTR_TYPE_NS test_gic = Some s'" "gic_ready s'"
    "\<forall>j. j \<le> MAX_SPI_ID \<longrightarrow> map_option fst (plat_ic_get_interrupt_type j s') =
       (if j = 74 then Some INTR_TYPE_NS else map_option fst (plat_ic_get_interrupt_type j test_gic))"
    using set_interrupt_type_roundtrip [OF test_gic_ready m, of INTR_TYPE_NS] by blast
  then show ?thesis using m by metis
qed

end
