(* ===== verification/EL3_Intr.thy ===== *)
theory EL3_Intr
  imports GICv2
begin

text \<open>
  Interrupt handling at EL3: the interrupt management framework (\<open>bl31/interrupt_mgmt.c\<close>), the
  write of a saved \<open>SCR_EL3\<close> bit (\<open>context_mgmt.c\<close>), and the per-interrupt dispatch table of the
  watchdog (\<open>request_intr_type_el3\<close>, \<open>rdo_el3_interrupt_handler\<close> and \<open>bl31_platform_setup\<close> in
  \<open>bl31_zynqmp_setup.c\<close>).  Function pointers are values of the datatypes \<open>type_handler\<close> and
  \<open>el3_handler\<close>; \<open>NULL\<close> is \<open>None\<close>.  The dispatcher takes the function that runs a handler as an
  argument.
\<close>

section \<open>State\<close>

definition EINVAL :: int where "EINVAL = 22"
definition EALREADY :: int where "EALREADY = 37"
definition SECURE :: u32 where "SECURE = 0"
definition NON_SECURE :: u32 where "NON_SECURE = 1"
definition MAX_INTR_EL3 :: u32 where "MAX_INTR_EL3 = 128"
definition MAX_INTR_TYPES :: u32 where "MAX_INTR_TYPES = 3"
abbreviation (input) SCR_VALID_BIT_MASK :: u64 where "SCR_VALID_BIT_MASK \<equiv> 0x2f8f"

text \<open>The handlers that are registered per interrupt, and those that are registered per type.\<close>

datatype el3_handler = Ttc2_fiq_handler | Ttc_fiq_handler | Zynqmp_sgi7_irq

datatype type_handler = Rdo_el3_interrupt_handler | Spd_handler

record intr_type_desc =
  handler :: "type_handler option"
  scr_el3 :: "u32 \<Rightarrow> u64"
  flags :: u32

text \<open>
  \<open>cpu_ctx ss\<close> is the saved \<open>SCR_EL3\<close> of the context of security state \<open>ss\<close> on this core, if the
  context exists.
\<close>

record el3_mach = gic_mach +
  intr_type_descs :: "u32 \<Rightarrow> intr_type_desc"
  cpu_ctx :: "u32 \<Rightarrow> u64 option"
  type_el3_interrupt_table :: "u32 \<Rightarrow> el3_handler option"
  dbg_entry_cnt :: u32

lemma el3_fields [bus_simps]:
  "intr_type_descs (mmio_write_32 a v s) = intr_type_descs s"
  "cpu_ctx (mmio_write_32 a v s) = cpu_ctx s"
  "type_el3_interrupt_table (mmio_write_32 a v s) = type_el3_interrupt_table s"
  "dbg_entry_cnt (mmio_write_32 a v s) = dbg_entry_cnt s"
  "intr_type_descs (snd (mmio_read_32 a s)) = intr_type_descs s"
  "cpu_ctx (snd (mmio_read_32 a s)) = cpu_ctx s"
  "type_el3_interrupt_table (snd (mmio_read_32 a s)) = type_el3_interrupt_table s"
  "dbg_entry_cnt (snd (mmio_read_32 a s)) = dbg_entry_cnt s"
  "intr_type_descs (mmio_write_8 a b s) = intr_type_descs s"
  "cpu_ctx (mmio_write_8 a b s) = cpu_ctx s"
  "type_el3_interrupt_table (mmio_write_8 a b s) = type_el3_interrupt_table s"
  "dbg_entry_cnt (mmio_write_8 a b s) = dbg_entry_cnt s"
  "type_el3_interrupt_table (fw_call f as s) = type_el3_interrupt_table s"
  by (simp_all add: mmio_read_32_def mmio_write_32_def mmio_write_8_def fw_call_def Let_def)

declare el3_fields [simp]

section \<open>The framework (interrupt_mgmt.c, interrupt_mgmt.h, context_mgmt.c)\<close>

definition validate_interrupt_type :: "u32 \<Rightarrow> int" where
  "validate_interrupt_type type =
     (if type = INTR_TYPE_S_EL1 \<or> type = INTR_TYPE_NS \<or> type = INTR_TYPE_EL3 then 0 else - EINVAL)"

definition validate_sel1_interrupt_rm :: "u32 \<Rightarrow> int" where
  "validate_sel1_interrupt_rm x = (if x = 2 \<or> x = 3 then 0 else - EINVAL)"

definition validate_ns_interrupt_rm :: "u32 \<Rightarrow> int" where
  "validate_ns_interrupt_rm x = (if x = 0 \<or> x = 1 then 0 else - EINVAL)"

definition validate_el3_interrupt_rm :: "u32 \<Rightarrow> int" where
  "validate_el3_interrupt_rm x = (if x = 2 \<or> x = 3 then 0 else - EINVAL)"

definition validate_routing_model :: "u32 \<Rightarrow> u32 \<Rightarrow> int" where
  "validate_routing_model type fl =
     (let rm_flags = drop_bit 0 fl AND 3
      in if type = INTR_TYPE_S_EL1 then validate_sel1_interrupt_rm rm_flags
         else if type = INTR_TYPE_NS then validate_ns_interrupt_rm rm_flags
         else if type = INTR_TYPE_EL3 then validate_el3_interrupt_rm rm_flags
         else - EINVAL)"

definition get_interrupt_rm_flag :: "u32 \<Rightarrow> u32 \<Rightarrow> u32" where
  "get_interrupt_rm_flag flag ss = drop_bit (unat ss) (drop_bit 0 flag) AND 1"

definition get_scr_el3_from_routing_model :: "u32 \<Rightarrow> 'a el3_mach_scheme \<Rightarrow> u64 option" where
  "get_scr_el3_from_routing_model security_state s = do {
     assert_C (security_state = SECURE \<or> security_state = NON_SECURE);
     Some (scr_el3 (intr_type_descs s INTR_TYPE_NS) security_state OR
           scr_el3 (intr_type_descs s INTR_TYPE_S_EL1) security_state OR
           scr_el3 (intr_type_descs s INTR_TYPE_EL3) security_state)
   }"

definition cm_write_scr_el3_bit :: "u32 \<Rightarrow> nat \<Rightarrow> u32 \<Rightarrow> 'a el3_mach_scheme \<Rightarrow> 'a el3_mach_scheme option" where
  "cm_write_scr_el3_bit security_state bit_pos val s = do {
     scr \<leftarrow> cpu_ctx s security_state;
     assert_C (push_bit bit_pos 1 AND SCR_VALID_BIT_MASK \<noteq> 0);
     assert_C (val \<le> 1);
     let scr = scr AND NOT (push_bit bit_pos 1);
     let scr = scr OR push_bit bit_pos (ucast val);
     Some (s\<lparr>cpu_ctx := (cpu_ctx s)(security_state \<mapsto> scr)\<rparr>)
   }"

definition set_scr_el3_from_rm :: "u32 \<Rightarrow> u32 \<Rightarrow> u32 \<Rightarrow> 'a el3_mach_scheme \<Rightarrow> 'a el3_mach_scheme option" where
  "set_scr_el3_from_rm type interrupt_type_flags security_state s = do {
     let flag = get_interrupt_rm_flag interrupt_type_flags security_state;
     (bit_pos, s) \<leftarrow> plat_interrupt_type_to_line type security_state s;
     let d = intr_type_descs s type;
     let s = s\<lparr>intr_type_descs := (intr_type_descs s)
         (type := d\<lparr>scr_el3 := (scr_el3 d)(security_state := push_bit bit_pos (ucast flag))\<rparr>)\<rparr>;
     if cpu_ctx s security_state \<noteq> None then cm_write_scr_el3_bit security_state bit_pos flag s
     else Some s
   }"

definition set_routing_model :: "u32 \<Rightarrow> u32 \<Rightarrow> 'a el3_mach_scheme \<Rightarrow> (int \<times> 'a el3_mach_scheme) option" where
  "set_routing_model type fl s =
     (let rc = validate_interrupt_type type in
      if rc \<noteq> 0 then Some (rc, s)
      else let rc = validate_routing_model type fl in
      if rc \<noteq> 0 then Some (rc, s)
      else do {
        let s = s\<lparr>intr_type_descs := (intr_type_descs s)(type := (intr_type_descs s type)\<lparr>flags := fl\<rparr>)\<rparr>;
        s \<leftarrow> set_scr_el3_from_rm type fl SECURE s;
        s \<leftarrow> set_scr_el3_from_rm type fl NON_SECURE s;
        Some (0, s)
      })"

definition disable_intr_rm_local :: "u32 \<Rightarrow> u32 \<Rightarrow> 'a el3_mach_scheme \<Rightarrow> (int \<times> 'a el3_mach_scheme) option" where
  "disable_intr_rm_local type security_state s = do {
     assert_C (handler (intr_type_descs s type) \<noteq> None);
     let flag = get_interrupt_rm_flag 0 security_state;
     (bit_pos, s) \<leftarrow> plat_interrupt_type_to_line type security_state s;
     s \<leftarrow> cm_write_scr_el3_bit security_state bit_pos flag s;
     Some (0, s)
   }"

definition enable_intr_rm_local :: "u32 \<Rightarrow> u32 \<Rightarrow> 'a el3_mach_scheme \<Rightarrow> (int \<times> 'a el3_mach_scheme) option" where
  "enable_intr_rm_local type security_state s = do {
     assert_C (handler (intr_type_descs s type) \<noteq> None);
     let flag = get_interrupt_rm_flag (flags (intr_type_descs s type)) security_state;
     (bit_pos, s) \<leftarrow> plat_interrupt_type_to_line type security_state s;
     s \<leftarrow> cm_write_scr_el3_bit security_state bit_pos flag s;
     Some (0, s)
   }"

text \<open>
  The array \<open>intr_type_descs\<close> has \<open>MAX_INTR_TYPES\<close> entries, and the handler is read before the type
  is validated: an index outside the array is undefined, which is \<open>None\<close>.
\<close>

definition register_interrupt_type_handler ::
  "u32 \<Rightarrow> type_handler option \<Rightarrow> u32 \<Rightarrow> 'a el3_mach_scheme \<Rightarrow> (int \<times> 'a el3_mach_scheme) option" where
  "register_interrupt_type_handler type hnd fl s =
     (if hnd = None then Some (- EINVAL, s)
      else if fl AND 0xFFFFFFFC \<noteq> 0 then Some (- EINVAL, s)
      else do {
        assert_C (type < MAX_INTR_TYPES);
        if handler (intr_type_descs s type) \<noteq> None then Some (- EALREADY, s)
        else do {
          (rc, s) \<leftarrow> set_routing_model type fl s;
          if rc \<noteq> 0 then Some (rc, s)
          else Some (0, s\<lparr>intr_type_descs := (intr_type_descs s)
                 (type := (intr_type_descs s type)\<lparr>handler := hnd\<rparr>)\<rparr>)
        }
      })"

definition get_interrupt_type_handler :: "u32 \<Rightarrow> 'a el3_mach_scheme \<Rightarrow> type_handler option" where
  "get_interrupt_type_handler type s =
     (if validate_interrupt_type type \<noteq> 0 then None else handler (intr_type_descs s type))"

section \<open>The dispatch table (bl31_zynqmp_setup.c)\<close>

definition request_intr_type_el3 ::
  "u32 \<Rightarrow> el3_handler option \<Rightarrow> 'a el3_mach_scheme \<Rightarrow> int \<times> 'a el3_mach_scheme" where
  "request_intr_type_el3 iid hnd s =
     (if hnd = None \<or> iid \<ge> MAX_INTR_EL3 then (- EINVAL, s)
      else if type_el3_interrupt_table s iid \<noteq> None then (- EALREADY, s)
      else (0, s\<lparr>type_el3_interrupt_table := (type_el3_interrupt_table s)(iid := hnd)\<rparr>))"

definition rdo_el3_interrupt_handler ::
  "(el3_handler \<Rightarrow> u32 \<Rightarrow> u32 \<Rightarrow> 'a el3_mach_scheme \<Rightarrow> 'a el3_mach_scheme option) \<Rightarrow>
   u32 \<Rightarrow> 'a el3_mach_scheme \<Rightarrow> 'a el3_mach_scheme option" where
  "rdo_el3_interrupt_handler call fl s = do {
     let s = s\<lparr>dbg_entry_cnt := dbg_entry_cnt s + 1\<rparr>;
     let s = mmio_write_32 0xFF130034 (dbg_entry_cnt s) s;
     (intr_id, s) \<leftarrow> plat_ic_get_pending_interrupt_id s;
     let s = mmio_write_32 0xFF130038 intr_id s;
     if intr_id \<ge> MAX_INTR_EL3 then Some s
     else case type_el3_interrupt_table s intr_id of
            None \<Rightarrow> Some s
          | Some h \<Rightarrow> call h intr_id fl s
   }"

definition bl31_platform_setup :: "'a el3_mach_scheme \<Rightarrow> 'a el3_mach_scheme option" where
  "bl31_platform_setup s = do { s \<leftarrow> plat_arm_gic_driver_init s; plat_arm_gic_init s }"

section \<open>Tables of handlers\<close>

text \<open>
  The contract of a handler table: a free slot in range takes the handler and reports 0, every
  other request reports an error and changes nothing, and no request touches another slot.
  The client lemma: after any sequence of requests a slot holds the first handler requested for it.
\<close>

locale handler_table =
  fixes lookup :: "'s \<Rightarrow> 'i \<Rightarrow> 'h option" and register :: "'i \<Rightarrow> 'h \<Rightarrow> 's \<Rightarrow> int \<times> 's" and valid :: "'i \<Rightarrow> bool"
  assumes register_free: "valid i \<Longrightarrow> lookup s i = None \<Longrightarrow>
      fst (register i h s) = 0 \<and> lookup (snd (register i h s)) = (lookup s)(i \<mapsto> h)"
    and register_refused: "\<not> valid i \<or> lookup s i \<noteq> None \<Longrightarrow>
      fst (register i h s) < 0 \<and> snd (register i h s) = s"
begin

lemma first_wins:
  assumes "valid i"
  shows "lookup (fold (\<lambda>(j, h) s. snd (register j h s)) reqs s) i =
    (case lookup s i of Some h \<Rightarrow> Some h | None \<Rightarrow> map_of reqs i)"
proof (induction reqs arbitrary: s)
  case Nil
  then show ?case by (simp split: option.split)
next
  case (Cons r reqs)
  obtain j h where r: "r = (j, h)" by fastforce
  show ?case
  proof (cases "valid j \<and> lookup s j = None")
    case True
    then have "lookup (snd (register j h s)) = (lookup s)(j \<mapsto> h)" using register_free by blast
    then show ?thesis using Cons True by (auto simp: r split: option.split)
  next
    case False
    then have same: "snd (register j h s) = s" using register_refused by blast
    have "j \<noteq> i \<or> lookup s i \<noteq> None" using False assms by blast
    then show ?thesis using Cons by (auto simp: r same split: option.split)
  qed
qed

end

interpretation tbl: handler_table type_el3_interrupt_table "\<lambda>i h. request_intr_type_el3 i (Some h)"
  "\<lambda>i. i < MAX_INTR_EL3"
  by unfold_locales (auto simp: request_intr_type_el3_def EINVAL_def EALREADY_def not_less)

section \<open>The dispatcher\<close>

definition hppir_id :: "nat \<Rightarrow> 'a mach_scheme \<Rightarrow> u32" where
  "hppir_id t s = m_hw s t 0xF9020018 (m_regs s 0xF9020018) AND INT_ID_MASK"

lemma pending_id_secure:
  assumes "driver_data s = Some arm_gic_data" "hppir_id (m_now s) s = i" "i < PENDING_G1_INTID"
  shows "plat_ic_get_pending_interrupt_id s = Some (i, snd (mmio_read_32 0xF9020018 s))"
  using assms
  by (auto simp: plat_ic_get_pending_interrupt_id_def gicv2_get_pending_interrupt_id_def gicc_read_hppir_def
      case_prod_unfold hppir_id_def Let_def)

definition dispatch_prefix :: "u32 \<Rightarrow> 'a el3_mach_scheme \<Rightarrow> 'a el3_mach_scheme" where
  "dispatch_prefix i s =
     mmio_write_32 0xFF130038 i (snd (mmio_read_32 0xF9020018
       (mmio_write_32 0xFF130034 (dbg_entry_cnt s + 1) (s\<lparr>dbg_entry_cnt := dbg_entry_cnt s + 1\<rparr>))))"

lemma dispatch:
  assumes "driver_data s = Some arm_gic_data" "hppir_id (Suc (m_now s)) s = i" "i < PENDING_G1_INTID"
  shows "rdo_el3_interrupt_handler call fl s =
    (if i \<ge> MAX_INTR_EL3 then Some (dispatch_prefix i s)
     else case type_el3_interrupt_table s i of
            None \<Rightarrow> Some (dispatch_prefix i s)
          | Some h \<Rightarrow> call h i fl (dispatch_prefix i s))"
  using assms pending_id_secure [of "mmio_write_32 0xFF130034 (dbg_entry_cnt s + 1) (s\<lparr>dbg_entry_cnt := dbg_entry_cnt s + 1\<rparr>)" i]
  by (simp add: rdo_el3_interrupt_handler_def dispatch_prefix_def hppir_id_def Let_def split: option.split)

section \<open>Properties\<close>

text \<open>
  C28.  Dispatch of a secure interrupt.  Whatever handlers have been requested, in any order and with
  any mixture of valid, repeated and out-of-range interrupt numbers, when the interrupt controller
  reports a pending secure interrupt \<open>i\<close>, the EL3 dispatcher runs the first handler that was
  requested for \<open>i\<close>, with \<open>i\<close> as its argument, and no other; with none registered it returns
  after its two debug writes.
\<close>

theorem dispatch_first_registered:
  assumes "driver_data s0 = Some arm_gic_data" "type_el3_interrupt_table s0 = (\<lambda>_. None)"
    and "s = fold (\<lambda>(j, h) s. snd (request_intr_type_el3 j (Some h) s)) reqs s0"
    and "hppir_id (Suc (m_now s)) s = i" "i < MAX_INTR_EL3"
  shows "rdo_el3_interrupt_handler call fl s =
    (case map_of reqs i of
       None \<Rightarrow> Some (dispatch_prefix i s)
     | Some h \<Rightarrow> call h i fl (dispatch_prefix i s))"
proof -
  have "driver_data (fold (\<lambda>(j, h) s. snd (request_intr_type_el3 j (Some h) s)) rs s0) = Some arm_gic_data"
    for rs
    using assms(1) by (induction rs arbitrary: s0) (auto simp: request_intr_type_el3_def)
  then have dr: "driver_data s = Some arm_gic_data" using assms(3) by simp
  have "i < PENDING_G1_INTID"
    using assms(5) by (simp add: MAX_INTR_EL3_def word_less_nat_alt)
  moreover have "type_el3_interrupt_table s i = map_of reqs i"
    using tbl.first_wins [OF assms(5), of reqs s0] assms(2,3) by simp
  moreover have "\<not> MAX_INTR_EL3 \<le> i" using assms(5) by (simp add: not_le)
  ultimately show ?thesis using dispatch [OF dr assms(4)] by simp
qed

definition test_el3 :: "(nat \<Rightarrow> addr \<Rightarrow> u32 \<Rightarrow> u32) \<Rightarrow> el3_mach" where
  "test_el3 hw = \<lparr>m_hw = hw, m_now = 0, m_regs = (\<lambda>_. 0), m_evs = [], driver_data = Some arm_gic_data,
     target_masks = (\<lambda>_. 1), gic_lock = False, mpidr_el1 = 0,
     intr_type_descs = (\<lambda>_. \<lparr>handler = None, scr_el3 = (\<lambda>_. 0), flags = 0\<rparr>),
     cpu_ctx = (\<lambda>ss. if ss = NON_SECURE then Some 1 else None), type_el3_interrupt_table = (\<lambda>_. None),
     dbg_entry_cnt = 0\<rparr>"

theorem dispatch_first_registered_witness:
  "let reqs = [(200, Ttc_fiq_handler), (74, Ttc2_fiq_handler), (74, Zynqmp_sgi7_irq)];
       s = fold (\<lambda>(j, h) s. snd (request_intr_type_el3 j (Some h) s)) reqs (test_el3 (\<lambda>t a v. 74))
   in rdo_el3_interrupt_handler (\<lambda>h i fl s. if h = Ttc2_fiq_handler \<and> i = 74 then Some s else None) 0 s
      = Some (dispatch_prefix 74 s)"
proof -
  define reqs where "reqs = [(200 :: u32, Ttc_fiq_handler), (74, Ttc2_fiq_handler), (74, Zynqmp_sgi7_irq)]"
  define s where "s = fold (\<lambda>(j, h) s. snd (request_intr_type_el3 j (Some h) s)) reqs (test_el3 (\<lambda>t a v. 74))"
  have "hppir_id (Suc (m_now s)) s = 74"
    by (simp add: s_def reqs_def hppir_id_def request_intr_type_el3_def test_el3_def)
  then have "rdo_el3_interrupt_handler (\<lambda>h i fl s. if h = Ttc2_fiq_handler \<and> i = 74 then Some s else None) 0 s =
      (case map_of reqs 74 of None \<Rightarrow> Some (dispatch_prefix 74 s)
       | Some h \<Rightarrow> if h = Ttc2_fiq_handler \<and> (74 :: u32) = 74 then Some (dispatch_prefix 74 s) else None)"
    by (intro dispatch_first_registered [OF _ _ s_def]) (simp_all add: test_el3_def MAX_INTR_EL3_def)
  then show ?thesis by (simp add: reqs_def s_def Let_def)
qed

definition fiq_signalled :: "'a mach_scheme \<Rightarrow> bool" where
  "fiq_signalled s \<longleftrightarrow> (\<forall>t. bit (m_hw s t 0xF9020000 (m_regs s 0xF9020000)) 3)"

lemma fiq_line:
  assumes "driver_data s = Some arm_gic_data" "fiq_signalled s" "ss \<le> 1"
  shows "plat_interrupt_type_to_line INTR_TYPE_EL3 ss s = Some (2, snd (mmio_read_32 0xF9020000 s))"
proof -
  have "drop_bit 3 w AND 1 = 1" if "bit w 3" for w :: u32
    using that by (intro bit_word_eqI) (auto simp: bit_simps)
  then show ?thesis
    using assms
    by (simp add: plat_interrupt_type_to_line_def INTR_TYPE_EL3_def INTR_TYPE_NS_def INTR_TYPE_S_EL1_def
        gicv2_is_fiq_enabled_def gicc_read_ctlr_def case_prod_unfold fiq_signalled_def Let_def)
qed

lemma set_scr_fiq:
  assumes "driver_data s = Some arm_gic_data" "fiq_signalled s" "ss \<le> 1" "bit fl (unat ss)"
  shows "\<exists>s'. set_scr_el3_from_rm INTR_TYPE_EL3 fl ss s = Some s' \<and>
    m_hw s' = m_hw s \<and> m_regs s' = m_regs s \<and> driver_data s' = driver_data s \<and> gic_lock s' = gic_lock s \<and>
    type_el3_interrupt_table s' = type_el3_interrupt_table s \<and>
    intr_type_descs s' = (intr_type_descs s)(INTR_TYPE_EL3 :=
      (intr_type_descs s INTR_TYPE_EL3)\<lparr>scr_el3 := (scr_el3 (intr_type_descs s INTR_TYPE_EL3))(ss := 4)\<rparr>) \<and>
    cpu_ctx s' = (cpu_ctx s)(ss := map_option (\<lambda>w. w OR 4) (cpu_ctx s ss))"
proof -
  have one: "get_interrupt_rm_flag fl ss = 1"
    using assms(4) by (auto simp: get_interrupt_rm_flag_def bit_simps intro!: bit_word_eqI)
  have "(w AND NOT (push_bit 2 1)) OR push_bit 2 1 = w OR 4" for w :: u64
    by (rule bit_word_eqI) (auto simp: bit_simps)
  then show ?thesis
    using fiq_line [OF assms(1-3)]
    by (cases "cpu_ctx s ss")
      (auto simp: set_scr_el3_from_rm_def one cm_write_scr_el3_bit_def Let_def)
qed

text \<open>The registration of the dispatcher, with everything it leaves alone.\<close>

lemma register_rdo:
  assumes "driver_data s = Some arm_gic_data" "fiq_signalled s" "handler (intr_type_descs s INTR_TYPE_EL3) = None"
  shows "\<exists>s'. register_interrupt_type_handler INTR_TYPE_EL3 (Some Rdo_el3_interrupt_handler) 3 s = Some (0, s') \<and>
    (\<forall>ss \<in> {SECURE, NON_SECURE}. scr_el3 (intr_type_descs s' INTR_TYPE_EL3) ss = 4 \<and>
       cpu_ctx s' ss = map_option (\<lambda>w. w OR 4) (cpu_ctx s ss)) \<and>
    handler (intr_type_descs s' INTR_TYPE_EL3) = Some Rdo_el3_interrupt_handler \<and>
    m_hw s' = m_hw s \<and> m_regs s' = m_regs s \<and> driver_data s' = driver_data s \<and> gic_lock s' = gic_lock s \<and>
    type_el3_interrupt_table s' = type_el3_interrupt_table s"
proof -
  let ?s0 = "s\<lparr>intr_type_descs := (intr_type_descs s)(INTR_TYPE_EL3 := (intr_type_descs s INTR_TYPE_EL3)\<lparr>flags := 3\<rparr>)\<rparr>"
  obtain s1 where s1: "set_scr_el3_from_rm INTR_TYPE_EL3 3 SECURE ?s0 = Some s1"
    "m_hw s1 = m_hw s" "m_regs s1 = m_regs s" "driver_data s1 = driver_data s" "gic_lock s1 = gic_lock s"
    "type_el3_interrupt_table s1 = type_el3_interrupt_table s"
    "intr_type_descs s1 = (intr_type_descs s)(INTR_TYPE_EL3 :=
      (intr_type_descs s INTR_TYPE_EL3)\<lparr>flags := 3, scr_el3 := (scr_el3 (intr_type_descs s INTR_TYPE_EL3))(SECURE := 4)\<rparr>)"
    "cpu_ctx s1 = (cpu_ctx s)(SECURE := map_option (\<lambda>w. w OR 4) (cpu_ctx s SECURE))"
    using set_scr_fiq [of ?s0 SECURE 3] assms by (auto simp: SECURE_def fiq_signalled_def)
  obtain s2 where s2: "set_scr_el3_from_rm INTR_TYPE_EL3 3 NON_SECURE s1 = Some s2"
    "m_hw s2 = m_hw s1" "m_regs s2 = m_regs s1" "driver_data s2 = driver_data s1" "gic_lock s2 = gic_lock s1"
    "type_el3_interrupt_table s2 = type_el3_interrupt_table s1"
    "intr_type_descs s2 = (intr_type_descs s1)(INTR_TYPE_EL3 :=
      (intr_type_descs s1 INTR_TYPE_EL3)\<lparr>scr_el3 := (scr_el3 (intr_type_descs s1 INTR_TYPE_EL3))(NON_SECURE := 4)\<rparr>)"
    "cpu_ctx s2 = (cpu_ctx s1)(NON_SECURE := map_option (\<lambda>w. w OR 4) (cpu_ctx s1 NON_SECURE))"
    using set_scr_fiq [of s1 NON_SECURE 3] assms s1
    by (auto simp: NON_SECURE_def fiq_signalled_def bit_simps bit_word_iff_drop_bit_and)
  have "set_routing_model INTR_TYPE_EL3 3 s = Some (0, s2)"
    using s1(1) s2(1) by (simp add: set_routing_model_def validate_interrupt_type_def validate_routing_model_def
        validate_el3_interrupt_rm_def INTR_TYPE_EL3_def INTR_TYPE_NS_def INTR_TYPE_S_EL1_def)
  then show ?thesis
    using assms(3) s1 s2
    by (auto simp: register_interrupt_type_handler_def MAX_INTR_TYPES_def INTR_TYPE_EL3_def SECURE_def NON_SECURE_def)
qed

text \<open>
  C29.  Routing to EL3.  Registering the dispatcher for EL3 interrupts with the routing flags for both
  security states succeeds when none is registered yet and FIQ signalling is on.  From then on the
  framework returns this handler, the routing model sends FIQ to EL3 from the secure and from the
  non-secure world (also in every saved context, where nothing but the FIQ bit changes), and a second
  registration is refused without any effect.
\<close>

theorem routing_both_worlds:
  assumes "driver_data s = Some arm_gic_data" "fiq_signalled s" "handler (intr_type_descs s INTR_TYPE_EL3) = None"
  shows "\<exists>s'. register_interrupt_type_handler INTR_TYPE_EL3 (Some Rdo_el3_interrupt_handler) 3 s = Some (0, s') \<and>
    get_interrupt_type_handler INTR_TYPE_EL3 s' = Some Rdo_el3_interrupt_handler \<and>
    (\<forall>ss \<in> {SECURE, NON_SECURE}.
       (\<exists>w. get_scr_el3_from_routing_model ss s' = Some w \<and> bit w 2) \<and>
       cpu_ctx s' ss = map_option (\<lambda>w. w OR 4) (cpu_ctx s ss)) \<and>
    register_interrupt_type_handler INTR_TYPE_EL3 (Some Rdo_el3_interrupt_handler) 3 s' = Some (- EALREADY, s')"
  using register_rdo [OF assms]
  by (auto simp: register_interrupt_type_handler_def MAX_INTR_TYPES_def get_interrupt_type_handler_def
      validate_interrupt_type_def get_scr_el3_from_routing_model_def INTR_TYPE_EL3_def INTR_TYPE_NS_def
      INTR_TYPE_S_EL1_def SECURE_def NON_SECURE_def bit_simps)

theorem routing_both_worlds_witness:
  "\<exists>s'. register_interrupt_type_handler INTR_TYPE_EL3 (Some Rdo_el3_interrupt_handler) 3 (test_el3 (\<lambda>t a v. 8)) = Some (0, s') \<and>
    cpu_ctx s' NON_SECURE = Some 5"
proof -
  have b3: "bit (8 :: u32) 3" by (simp add: bit_word_iff_drop_bit_and)
  obtain s' where "register_interrupt_type_handler INTR_TYPE_EL3 (Some Rdo_el3_interrupt_handler) 3 (test_el3 (\<lambda>t a v. 8)) = Some (0, s')"
    "\<forall>ss \<in> {SECURE, NON_SECURE}. cpu_ctx s' ss = map_option (\<lambda>w. w OR 4) (cpu_ctx (test_el3 (\<lambda>t a v. 8)) ss)"
    using routing_both_worlds [of "test_el3 (\<lambda>t a v. 8)"] b3 by (auto simp: test_el3_def fiq_signalled_def)
  then show ?thesis by (auto simp: test_el3_def)
qed

end
