(* ===== verification/SWDT_Heartbeat.thy ===== *)
theory SWDT_Heartbeat
  imports EL3_Intr
begin

text \<open>
  The heartbeat of the secure world (\<open>plat/xilinx/zynqmp/zynqmp_swdt.c\<close>) and the runtime setup that
  starts it (\<open>bl31_plat_runtime_setup\<close> in \<open>bl31_zynqmp_setup.c\<close>).  The timer TTC2 raises interrupt
  74 about every two seconds; its EL3 handler counts up the register that the PMU polls.  The
  sequence number \<open>ttc2_hb_seq\<close> extends the EL3 state.  The debug output at the end of the
  initialisation is kept as far as it reads registers.
\<close>

section \<open>Constants (zynqmp_def.h)\<close>

abbreviation (input) IRQ_TTC2_0 :: u32 where "IRQ_TTC2_0 \<equiv> 74"
abbreviation (input) TTC2_BASE_ADDR :: addr where "TTC2_BASE_ADDR \<equiv> 0xFF130000"
abbreviation (input) TTC2_CLK_CNTRL_0 :: addr where "TTC2_CLK_CNTRL_0 \<equiv> 0xFF130000"
abbreviation (input) TTC2_CNT_CNTRL_0 :: addr where "TTC2_CNT_CNTRL_0 \<equiv> 0xFF13000C"
abbreviation (input) TTC2_INTERVAL_VAL_0 :: addr where "TTC2_INTERVAL_VAL_0 \<equiv> 0xFF130024"
abbreviation (input) TTC2_ISR_0 :: addr where "TTC2_ISR_0 \<equiv> 0xFF130054"
abbreviation (input) TTC2_IER_0 :: addr where "TTC2_IER_0 \<equiv> 0xFF130060"
abbreviation (input) TTC_CNTRL_DIS :: u32 where "TTC_CNTRL_DIS \<equiv> 1"
abbreviation (input) TTC_CNTRL_INT_MODE :: u32 where "TTC_CNTRL_INT_MODE \<equiv> 2"
abbreviation (input) TTC_CNTRL_RST :: u32 where "TTC_CNTRL_RST \<equiv> 16"
abbreviation (input) TTC_CLK_PS_EN :: u32 where "TTC_CLK_PS_EN \<equiv> 1"
abbreviation (input) TTC_CLK_PS_VAL_SHIFT :: nat where "TTC_CLK_PS_VAL_SHIFT \<equiv> 1"
abbreviation (input) TTC2_CLK_PS_VAL :: u32 where "TTC2_CLK_PS_VAL \<equiv> 15"
abbreviation (input) TTC2_INTERVAL_TICKS :: u32 where "TTC2_INTERVAL_TICKS \<equiv> 3052"
abbreviation (input) TTC2_IRQ_PRIORITY :: u32 where "TTC2_IRQ_PRIORITY \<equiv> 0x40"
abbreviation (input) BASE_GICD_BASE :: addr where "BASE_GICD_BASE \<equiv> 0xF9010000"
abbreviation (input) BASE_GICC_BASE :: addr where "BASE_GICC_BASE \<equiv> 0xF9020000"

section \<open>The heartbeat (zynqmp_swdt.c)\<close>

record hb_mach = el3_mach +
  ttc2_hb_seq :: u32

definition ttc2_fiq_handler :: "'a hb_mach_scheme \<Rightarrow> 'a hb_mach_scheme option" where
  "ttc2_fiq_handler s = do {
     let (_, s) = mmio_read_32 TTC2_ISR_0 s;
     let s = s\<lparr>ttc2_hb_seq := ttc2_hb_seq s + 1\<rparr>;
     let s = mmio_write_32 (TTC2_BASE_ADDR + 0x48) (ttc2_hb_seq s) s;
     let s = mmio_write_32 (TTC2_BASE_ADDR + 0x30) (ttc2_hb_seq s) s;
     plat_ic_end_of_interrupt IRQ_TTC2_0 s
   }"

definition ttc2_hw_init :: "'a mach_scheme \<Rightarrow> 'a mach_scheme" where
  "ttc2_hw_init s =
     (let s = mmio_write_32 TTC2_CNT_CNTRL_0 TTC_CNTRL_DIS s;
          s = mmio_write_32 TTC2_CLK_CNTRL_0
                (TTC_CLK_PS_EN OR push_bit TTC_CLK_PS_VAL_SHIFT TTC2_CLK_PS_VAL) s;
          s = mmio_write_32 TTC2_CNT_CNTRL_0 (TTC_CNTRL_DIS OR TTC_CNTRL_RST) s;
          s = mmio_write_32 TTC2_INTERVAL_VAL_0 TTC2_INTERVAL_TICKS s;
          (_, s) = mmio_read_32 TTC2_ISR_0 s;
          s = mmio_write_32 TTC2_IER_0 1 s
      in mmio_write_32 TTC2_CNT_CNTRL_0 TTC_CNTRL_INT_MODE s)"

definition zynqmp_swdt_init :: "'a hb_mach_scheme \<Rightarrow> 'a hb_mach_scheme option" where
  "zynqmp_swdt_init s = do {
     s \<leftarrow> plat_ic_set_interrupt_type IRQ_TTC2_0 INTR_TYPE_EL3 s;
     s \<leftarrow> plat_ic_set_interrupt_priority IRQ_TTC2_0 TTC2_IRQ_PRIORITY s;
     s \<leftarrow> plat_ic_set_spi_routing IRQ_TTC2_0 INTR_ROUTING_MODE_ANY 0 s;
     s \<leftarrow> plat_ic_enable_interrupt IRQ_TTC2_0 s;
     let (ret, s) = request_intr_type_el3 IRQ_TTC2_0 (Some Ttc2_fiq_handler) s;
     if ret \<noteq> 0 then Some s
     else do {
       let s = ttc2_hw_init s;
       let (_, s) = mmio_read_32 (BASE_GICD_BASE + 0x0) s;
       let (_, s) = mmio_read_32 (BASE_GICC_BASE + 0x0) s;
       let (_, s) = mmio_read_32 (BASE_GICD_BASE + 0x088) s;
       let (_, s) = mmio_read_32 (BASE_GICD_BASE + 0x108) s;
       Some s
     }
   }"

text \<open>\<open>set_interrupt_rm_flag(flags, ss)\<close>.\<close>

definition set_interrupt_rm_flag :: "u32 \<Rightarrow> u32 \<Rightarrow> u32" where
  "set_interrupt_rm_flag flag ss = flag OR push_bit (unat ss) 1"

definition bl31_plat_runtime_setup :: "'a hb_mach_scheme \<Rightarrow> 'a hb_mach_scheme option" where
  "bl31_plat_runtime_setup s = do {
     let fl = 0;
     let fl = set_interrupt_rm_flag fl NON_SECURE;
     let fl = set_interrupt_rm_flag fl SECURE;
     (rc, s) \<leftarrow> register_interrupt_type_handler INTR_TYPE_EL3 (Some Rdo_el3_interrupt_handler) fl s;
     if rc \<noteq> 0 then None
     else zynqmp_swdt_init s
   }"

lemma hb_fields [bus_simps]:
  "ttc2_hb_seq (mmio_write_32 a v s) = ttc2_hb_seq s"
  "ttc2_hb_seq (snd (mmio_read_32 a s)) = ttc2_hb_seq s"
  "ttc2_hb_seq (mmio_write_8 a b s) = ttc2_hb_seq s"
  "ttc2_hb_seq (fw_call f as s) = ttc2_hb_seq s"
  by (simp_all add: mmio_read_32_def mmio_write_32_def mmio_write_8_def fw_call_def Let_def)

declare hb_fields [simp]

section \<open>What the parts do\<close>

lemma ttc2_fiq_handler_eq:
  assumes "driver_data s = Some arm_gic_data"
  shows "\<exists>s'. ttc2_fiq_handler s = Some s' \<and> ttc2_hb_seq s' = ttc2_hb_seq s + 1 \<and>
    m_evs s' = m_evs s @
      [RD TTC2_ISR_0 (m_hw s (m_now s) TTC2_ISR_0 (m_regs s TTC2_ISR_0)),
       WR 0xFF130048 (ttc2_hb_seq s + 1), WR 0xFF130030 (ttc2_hb_seq s + 1), WR 0xF9020010 74] \<and>
    m_regs s' = (m_regs s)(0xFF130048 := ttc2_hb_seq s + 1, 0xFF130030 := ttc2_hb_seq s + 1, 0xF9020010 := 74) \<and>
    m_hw s' = m_hw s \<and> driver_data s' = driver_data s \<and> gic_lock s' = gic_lock s \<and>
    type_el3_interrupt_table s' = type_el3_interrupt_table s"
  using assms
  by (simp add: ttc2_fiq_handler_def case_prod_unfold plat_ic_end_of_interrupt_def gicv2_end_of_interrupt_def
      gicc_write_EOIR_def Let_def)

text \<open>The events with which the timer is programmed.\<close>

definition timer_start :: "u32 \<Rightarrow> ioev list" where
  "timer_start isr =
     [WR TTC2_CNT_CNTRL_0 1, WR TTC2_CLK_CNTRL_0 0x1F, WR TTC2_CNT_CNTRL_0 0x11,
      WR TTC2_INTERVAL_VAL_0 3052, RD TTC2_ISR_0 isr, WR TTC2_IER_0 1, WR TTC2_CNT_CNTRL_0 2]"

lemma ttc2_hw_init_evs:
  "\<exists>isr. m_evs (ttc2_hw_init s) = m_evs s @ timer_start isr"
  by (simp add: ttc2_hw_init_def case_prod_unfold Let_def timer_start_def)

lemma ttc2_hw_init_frame:
  "m_hw (ttc2_hw_init s) = m_hw s"
  "n < 4096 \<Longrightarrow> m_regs (ttc2_hw_init s) (gicd_at n) = m_regs s (gicd_at n)"
proof -
  have "gicd_at n \<noteq> 0xFF130000 \<and> gicd_at n \<noteq> 0xFF13000C \<and> gicd_at n \<noteq> 0xFF130024 \<and> gicd_at n \<noteq> 0xFF130060"
    if "n < 4096" for n
    using that by (simp add: word_unat_eq_iff unat_gicd_at)
  then show "n < 4096 \<Longrightarrow> m_regs (ttc2_hw_init s) (gicd_at n) = m_regs s (gicd_at n)"
    by (simp add: ttc2_hw_init_def case_prod_unfold Let_def)
  show "m_hw (ttc2_hw_init s) = m_hw s" by (simp add: ttc2_hw_init_def case_prod_unfold Let_def)
qed

text \<open>The interrupt controller part of the initialisation, in terms of the driver's accessors.\<close>

definition gic_part :: "'a hb_mach_scheme \<Rightarrow> 'a hb_mach_scheme" where
  "gic_part s =
     mmio_write_32 (gicd_at 0x108) 0x400
       (gicd_set_itargetsr 0xF9010000 74 (ucast (0xFF :: u8))
         (gicd_set_ipriorityr 0xF9010000 74 (ucast (0x40 :: u8))
           ((put_group 74 False (s\<lparr>gic_lock := True\<rparr>))\<lparr>gic_lock := False\<rparr>)))"

lemma gic_set_fields [simp]:
  "driver_data (gicd_set_itargetsr b i v s) = driver_data s"
  "gic_lock (gicd_set_itargetsr b i v s) = gic_lock s"
  "type_el3_interrupt_table (gicd_set_itargetsr b i v t) = type_el3_interrupt_table t"
  "type_el3_interrupt_table (gicd_set_ipriorityr b i v t) = type_el3_interrupt_table t"
  "type_el3_interrupt_table (put_group i g t) = type_el3_interrupt_table t"
  "m_hw (gicd_set_itargetsr b i v u) = m_hw u"
  by (simp_all add: gicd_set_itargetsr_def gicd_set_ipriorityr_def put_group_def gicd_set_igroupr_def
      gicd_clr_igroupr_def gicd_read_igroupr_def gicd_write_igroupr_def case_prod_unfold)

lemma swdt_init_eq:
  assumes "gic_ready s"
  shows "zynqmp_swdt_init s =
    (let (ret, s) = request_intr_type_el3 74 (Some Ttc2_fiq_handler) (gic_part s) in
     if ret \<noteq> 0 then Some s
     else Some (snd (mmio_read_32 0xF9010108 (snd (mmio_read_32 0xF9010088
       (snd (mmio_read_32 0xF9020000 (snd (mmio_read_32 0xF9010000 (ttc2_hw_init s))))))))))"
proof -
  have dr: "driver_data s = Some arm_gic_data" using assms by (simp add: gic_ready_def)
  have m: "(74 :: u32) \<le> MAX_SPI_ID" "(32 :: u32) \<le> 74" by (simp_all add: MAX_SPI_ID_def)
  have en: "gicd_set_isenabler 0xF9010000 74 = mmio_write_32 (gicd_at 0x108) 0x400"
    by (simp add: gicd_set_isenabler_def gicd_write_isenabler_def gicd_regs one_bit_def bit_num_mod
        gicd_regs(2) [unfolded] fun_eq_iff)
  show ?thesis
    using dr m set_type_put [OF assms m(1), of INTR_TYPE_EL3]
    by (simp add: zynqmp_swdt_init_def plat_ic_set_interrupt_priority_def
        gicv2_set_interrupt_priority_def plat_ic_set_spi_routing_def gicv2_set_spi_routing_def
        plat_ic_enable_interrupt_def gicv2_enable_interrupt_def en gic_part_def INTR_TYPE_EL3_def INTR_TYPE_NS_def
       
        Let_def case_prod_unfold)
qed

lemma views_cong:
  "m_regs s' = m_regs s \<Longrightarrow> irq_group s' = irq_group s \<and> irq_prio s' = irq_prio s \<and> irq_targets s' = irq_targets s"
  by (simp add: irq_group_def irq_prio_def irq_targets_def fun_eq_iff)

lemma gic_part_fields [simp]:
  "driver_data (gic_part s) = driver_data s" "gic_lock (gic_part s) = False" "m_hw (gic_part s) = m_hw s"
  "type_el3_interrupt_table (gic_part s) = type_el3_interrupt_table s"
  by (simp_all add: gic_part_def)

lemma cell_bound: "i \<le> MAX_SPI_ID \<Longrightarrow> unat i div 32 < 32 \<and> unat i div 4 < 255"
  using spi_lt [of i] by auto

lemma gic_part_views:
  assumes "gic_ready s" "i \<le> MAX_SPI_ID"
  shows "irq_group (gic_part s) i = (i \<noteq> 74 \<and> irq_group s i)"
    and "irq_prio (gic_part s) i = (if i = 74 then 0x40 else irq_prio s i)"
    and "irq_targets (gic_part s) i = (if i = 74 then 0xFF else irq_targets s i)"
proof -
  define s1 where "s1 = (put_group 74 False (s\<lparr>gic_lock := True\<rparr>))\<lparr>gic_lock := False\<rparr>"
  define s2 where "s2 = gicd_set_ipriorityr 0xF9010000 74 (ucast (0x40 :: u8)) s1"
  define s3 where "s3 = gicd_set_itargetsr 0xF9010000 74 (ucast (0xFF :: u8)) s2"
  have m: "(74 :: u32) \<le> MAX_SPI_ID" by (simp add: MAX_SPI_ID_def)
  have ok: "gicd_plain (s\<lparr>gic_lock := True\<rparr>)" using assms(1) by (simp add: gic_ready_def)
  have part: "gic_part s = mmio_write_32 (gicd_at 0x108) 0x400 s3"
    by (simp add: gic_part_def s1_def s2_def s3_def)
  have r3: "m_regs s3 = (m_regs s2)(gicd_at 0x848 := put_lane 16 0xFF (m_regs s2 (gicd_at 0x848)))"
    using byte_write(2) [OF m, of "0xFF" s2] by (simp add: s3_def Let_def)
  have r2: "m_regs s2 = (m_regs s1)(gicd_at 0x448 := put_lane 16 0x40 (m_regs s1 (gicd_at 0x448)))"
    using byte_write(1) [OF m, of "0x40" s1] by (simp add: s2_def Let_def)
  have final: "irq_group (gic_part s) i = irq_group s3 i" "irq_prio (gic_part s) i = irq_prio s3 i"
    "irq_targets (gic_part s) i = irq_targets s3 i"
    using cell_bound [OF assms(2)] by (simp_all add: part irq_group_def irq_prio_def irq_targets_def)
  have 3: "irq_group s3 i = irq_group s2 i" "irq_prio s3 i = irq_prio s2 i"
    using cell_bound [OF assms(2)] by (simp_all add: r3 irq_group_def irq_prio_def)
  have 2: "irq_group s2 i = irq_group s1 i" "irq_targets s2 i = irq_targets s1 i"
    using cell_bound [OF assms(2)] by (simp_all add: r2 irq_group_def irq_targets_def)
  have 1: "irq_prio s1 i = irq_prio s i" "irq_targets s1 i = irq_targets s i"
    using cell_bound [OF assms(2)] m ok
    by (simp_all add: s1_def put_group_def group_write Let_def irq_prio_def irq_targets_def)
  show "irq_group (gic_part s) i = (i \<noteq> 74 \<and> irq_group s i)"
    using grp.get_put [OF ok m, of False] grp.get_other [OF ok m assms(2), of False]
    by (auto simp: final 3 2 s1_def)
  show "irq_prio (gic_part s) i = (if i = 74 then 0x40 else irq_prio s i)"
    using pri.get_put [where s = s1 and i = 74 and v = "0x40"] m assms(2) 1
      pri.get_other [where s = s1 and i = 74 and j = i and v = "0x40"]
    by (auto simp: final 3 s2_def)
  show "irq_targets (gic_part s) i = (if i = 74 then 0xFF else irq_targets s i)"
    using tgt.get_put [where s = s2 and i = 74 and v = "0xFF"] m assms(2) 1 2
      tgt.get_other [where s = s2 and i = 74 and j = i and v = "0xFF"]
    by (auto simp: final s3_def)
qed

text \<open>The initialisation of the interrupt controller touches the distributor only.\<close>

definition gicd_event :: "ioev \<Rightarrow> bool" where
  "gicd_event e \<longleftrightarrow> (case e of
       RD a _ \<Rightarrow> \<exists>n<4096. a = gicd_at n
     | WR a _ \<Rightarrow> \<exists>n<4096. a = gicd_at n
     | RD8 a _ \<Rightarrow> \<exists>n<4096. a = gicd_at n
     | WR8 a _ \<Rightarrow> \<exists>n<4096. a = gicd_at n
     | CALL _ _ \<Rightarrow> False)"

lemma gic_part_evs:
  "\<exists>v. m_evs (gic_part s) = m_evs s @
     [RD (gicd_at 0x88) v, WR (gicd_at 0x88) (v AND NOT 0x400), WR8 (gicd_at 0x44A) 0x40, WR8 (gicd_at 0x84A) 0xFF,
      WR (gicd_at 0x108) 0x400]"
  by (simp add: gic_part_def put_group_def gicd_clr_igroupr_def gicd_read_igroupr_def gicd_write_igroupr_def
      case_prod_unfold gicd_regs gicd_regs(1) [unfolded IGROUPR_SHIFT_def] one_bit_def bit_num_mod IGROUPR_SHIFT_def
      gicd_set_ipriorityr_def gicd_set_itargetsr_def)
    (simp add: gicd_at_def GICD_IPRIORITYR_def GICD_ITARGETSR_def)

lemma descs_frame [simp]:
  "intr_type_descs (gic_part s) = intr_type_descs s" "intr_type_descs (ttc2_hw_init t) = intr_type_descs t"
  by (simp_all add: gic_part_def put_group_def gicd_set_igroupr_def gicd_clr_igroupr_def gicd_read_igroupr_def
      gicd_write_igroupr_def gicd_set_ipriorityr_def gicd_set_itargetsr_def case_prod_unfold ttc2_hw_init_def Let_def)

lemma swdt_init_state:
  assumes "gic_ready s" "type_el3_interrupt_table s 74 = None"
  shows "\<exists>s'. zynqmp_swdt_init s = Some s' \<and> intr_type_descs s' = intr_type_descs s \<and>
    type_el3_interrupt_table s' 74 = Some Ttc2_fiq_handler \<and> \<not> irq_group s' 74"
proof -
  have m: "(74 :: u32) \<le> MAX_SPI_ID" by (simp add: MAX_SPI_ID_def)
  define s1 where "s1 = (gic_part s)\<lparr>type_el3_interrupt_table := (type_el3_interrupt_table s)(74 \<mapsto> Ttc2_fiq_handler)\<rparr>"
  have "request_intr_type_el3 74 (Some Ttc2_fiq_handler) (gic_part s) = (0, s1)"
    using assms(2) by (simp add: request_intr_type_el3_def MAX_INTR_EL3_def s1_def)
  moreover have "irq_group (ttc2_hw_init s1) 74 = irq_group (gic_part s) 74"
    by (simp add: irq_group_def ttc2_hw_init_frame s1_def)
  moreover have "type_el3_interrupt_table (ttc2_hw_init s1) = type_el3_interrupt_table s1"
    by (simp add: ttc2_hw_init_def case_prod_unfold Let_def)
  ultimately show ?thesis
    using swdt_init_eq [OF assms(1)] gic_part_views(1) [OF assms(1) m] by (simp add: s1_def irq_group_def)
qed

lemma views_regs:
  assumes "\<forall>n<4096. m_regs s' (gicd_at n) = m_regs s (gicd_at n)" and "i \<le> MAX_SPI_ID"
  shows "irq_group s' i = irq_group s i" "irq_prio s' i = irq_prio s i" "irq_targets s' i = irq_targets s i"
  using cell_bound [OF assms(2)] assms(1) by (simp_all add: irq_group_def irq_prio_def irq_targets_def)

lemma gic_part_cfg:
  obtains cfg where "m_evs (gic_part s) = m_evs s @ cfg" "list_all gicd_event cfg" "last cfg = WR (gicd_at 0x108) 0x400"
proof -
  obtain v where v: "m_evs (gic_part s) = m_evs s @ [RD (gicd_at 0x88) v, WR (gicd_at 0x88) (v AND NOT 0x400),
      WR8 (gicd_at 0x44A) 0x40, WR8 (gicd_at 0x84A) 0xFF, WR (gicd_at 0x108) 0x400]"
    using gic_part_evs by blast
  have "\<exists>n<4096. gicd_at k = gicd_at n" if "k < 4096" for k using that by blast
  then show ?thesis by (intro that [OF v]) (simp_all add: gicd_event_def)
qed

text \<open>The initialisation with the handler's slot free.\<close>

lemma swdt_init_free:
  assumes "gic_ready s" "type_el3_interrupt_table s 74 = None"
  obtains s' isr reads where "zynqmp_swdt_init s = Some s'" "gic_ready s'"
    "\<forall>n<4096. m_regs s' (gicd_at n) = m_regs (gic_part s) (gicd_at n)"
    "type_el3_interrupt_table s' = (type_el3_interrupt_table s)(74 \<mapsto> Ttc2_fiq_handler)"
    "m_evs s' = m_evs (gic_part s) @ timer_start isr @ reads" "list_all (\<lambda>e. \<exists>a v. e = RD a v) reads"
proof -
  have m: "(74 :: u32) < MAX_INTR_EL3" by (simp add: MAX_INTR_EL3_def)
  define s1 where "s1 = snd (request_intr_type_el3 74 (Some Ttc2_fiq_handler) (gic_part s))"
  have free: "type_el3_interrupt_table (gic_part s) 74 = None" using assms(2) by simp
  have reg: "request_intr_type_el3 74 (Some Ttc2_fiq_handler) (gic_part s) = (0, s1)"
    "type_el3_interrupt_table s1 = (type_el3_interrupt_table s)(74 \<mapsto> Ttc2_fiq_handler)"
    using tbl.register_free [OF m free, of Ttc2_fiq_handler] by (auto simp: s1_def prod_eq_iff)
  have same: "m_regs s1 = m_regs (gic_part s)" "m_hw s1 = m_hw s" "m_evs s1 = m_evs (gic_part s)"
    "driver_data s1 = driver_data s" "gic_lock s1 = False"
    by (simp_all add: s1_def request_intr_type_el3_def)
  define s' where "s' = snd (mmio_read_32 0xF9010108 (snd (mmio_read_32 0xF9010088
       (snd (mmio_read_32 0xF9020000 (snd (mmio_read_32 0xF9010000 (ttc2_hw_init s1))))))))"
  have run: "zynqmp_swdt_init s = Some s'" using swdt_init_eq [OF assms(1)] reg(1) by (simp add: s'_def)
  have keep: "driver_data (ttc2_hw_init s1) = driver_data s1" "gic_lock (ttc2_hw_init s1) = gic_lock s1"
    "type_el3_interrupt_table (ttc2_hw_init s1) = type_el3_interrupt_table s1"
    by (simp_all add: ttc2_hw_init_def case_prod_unfold Let_def)
  have ready: "gic_ready s'"
    using assms(1) gicd_plain_cong [of s' s] same keep by (simp add: gic_ready_def s'_def ttc2_hw_init_frame)
  have regs: "\<forall>n<4096. m_regs s' (gicd_at n) = m_regs (gic_part s) (gicd_at n)"
    using same(1) by (simp add: s'_def ttc2_hw_init_frame)
  obtain isr where isr: "m_evs (ttc2_hw_init s1) = m_evs s1 @ timer_start isr" using ttc2_hw_init_evs by blast
  obtain reads where reads: "m_evs s' = m_evs (ttc2_hw_init s1) @ reads" "list_all (\<lambda>e. \<exists>a v. e = RD a v) reads"
    by (simp add: s'_def)
  show ?thesis
    by (rule that [OF run ready regs _ _ reads(2)]) (use reg(2) keep(3) isr reads(1) same(3) in \<open>simp_all add: s'_def\<close>)
qed

section \<open>Properties of the heartbeat\<close>

text \<open>
  C4.  The heartbeat is started safely.  On a ready interrupt controller \<open>zynqmp_swdt_init\<close> returns; interrupt 74
  is then secure, has priority 0x40, targets all cores, and no other interrupt's group, priority or targets
  have changed.  Up to the registration of the handler there are only accesses to the distributor, the last of them
  the enable of interrupt 74.  The timer is programmed only after that and only when the registration succeeded:
  with the slot of interrupt 74 free, the handler is in the table and the trace goes on with the timer's start
  sequence and reads; with the slot taken, the table is as it was and the trace ends there, so the timer
  is not started without its handler.
\<close>

theorem swdt_init_safe:
  assumes "gic_ready s"
  shows "\<exists>s' cfg. zynqmp_swdt_init s = Some s' \<and> gic_ready s' \<and>
    (\<forall>i. i \<le> MAX_SPI_ID \<longrightarrow>
       irq_group s' i = (i \<noteq> 74 \<and> irq_group s i) \<and>
       irq_prio s' i = (if i = 74 then 0x40 else irq_prio s i) \<and>
       irq_targets s' i = (if i = 74 then 0xFF else irq_targets s i)) \<and>
    list_all gicd_event cfg \<and> last cfg = WR (gicd_at 0x108) 0x400 \<and>
    (if type_el3_interrupt_table s 74 = None
     then type_el3_interrupt_table s' = (type_el3_interrupt_table s)(74 \<mapsto> Ttc2_fiq_handler) \<and>
       (\<exists>isr reads. m_evs s' = m_evs s @ cfg @ timer_start isr @ reads \<and> list_all (\<lambda>e. \<exists>a v. e = RD a v) reads)
     else type_el3_interrupt_table s' = type_el3_interrupt_table s \<and> m_evs s' = m_evs s @ cfg)"
proof -
  obtain cfg where cfg: "m_evs (gic_part s) = m_evs s @ cfg" "list_all gicd_event cfg" "last cfg = WR (gicd_at 0x108) 0x400"
    by (rule gic_part_cfg)
  note views = gic_part_views [OF assms]
  show ?thesis
  proof (cases "type_el3_interrupt_table s 74")
    case None
    obtain s' isr reads where s': "zynqmp_swdt_init s = Some s'" "gic_ready s'"
      "\<forall>n<4096. m_regs s' (gicd_at n) = m_regs (gic_part s) (gicd_at n)"
      "type_el3_interrupt_table s' = (type_el3_interrupt_table s)(74 \<mapsto> Ttc2_fiq_handler)"
      "m_evs s' = m_evs (gic_part s) @ timer_start isr @ reads" "list_all (\<lambda>e. \<exists>a v. e = RD a v) reads"
      by (rule swdt_init_free [OF assms None])
    then show ?thesis using None cfg views views_regs [OF s'(3)]
      by (intro exI [of _ s'] exI [of _ cfg]) auto
  next
    case (Some h)
    then have "zynqmp_swdt_init s = Some (gic_part s)"
      using swdt_init_eq [OF assms] by (simp add: request_intr_type_el3_def MAX_INTR_EL3_def EALREADY_def)
    moreover have "gic_ready (gic_part s)"
      using assms gicd_plain_cong [of "gic_part s" s] by (simp add: gic_ready_def)
    ultimately show ?thesis using Some cfg views by (intro exI [of _ "gic_part s"] exI [of _ cfg]) simp
  qed
qed

definition test_hb :: "(nat \<Rightarrow> addr \<Rightarrow> u32 \<Rightarrow> u32) \<Rightarrow> hb_mach" where
  "test_hb hw = el3_mach.extend (test_el3 hw) \<lparr>ttc2_hb_seq = 41\<rparr>"

lemmas test_hb_simps = test_hb_def test_el3_def el3_mach.defs

lemma test_hb_ready [simp]: "gic_ready (test_hb (\<lambda>t a v. v))"
  by (simp add: gic_ready_def gicd_plain_def plain_def test_hb_simps)

theorem swdt_init_safe_witness:
  "\<exists>s'. zynqmp_swdt_init (test_hb (\<lambda>t a v. v)) = Some s' \<and> irq_targets s' 74 = 0xFF"
proof -
  have "(74 :: u32) \<le> MAX_SPI_ID" by (simp add: MAX_SPI_ID_def)
  then show ?thesis using swdt_init_safe [OF test_hb_ready] by metis
qed

text \<open>
  C6.  One beat per interrupt.  When interrupt 74 is pending at the CPU interface and the heartbeat
  handler is in the table, a FIQ taken to EL3 runs it to its end: the sequence number and the
  register that the PMU polls go up by one (wrapping at 32 bits), the timer's interrupt status is
  read before that, and the end of interrupt for 74 is the last access.  The table and the driver
  are unchanged, so the next FIQ is served the same way.
\<close>

theorem heartbeat_fiq:
  assumes "driver_data s = Some arm_gic_data" "type_el3_interrupt_table s 74 = Some Ttc2_fiq_handler"
    and "hppir_id (Suc (m_now s)) s = 74" and "call Ttc2_fiq_handler 74 fl = ttc2_fiq_handler"
  shows "\<exists>s' cnt isr. rdo_el3_interrupt_handler call fl s = Some s' \<and>
    ttc2_hb_seq s' = ttc2_hb_seq s + 1 \<and> m_regs s' 0xFF130048 = ttc2_hb_seq s + 1 \<and>
    m_evs s' = m_evs s @ [WR 0xFF130034 cnt, RD 0xF9020018 (m_hw s (Suc (m_now s)) 0xF9020018 (m_regs s 0xF9020018)),
      WR 0xFF130038 74, RD TTC2_ISR_0 isr, WR 0xFF130048 (ttc2_hb_seq s + 1), WR 0xFF130030 (ttc2_hb_seq s + 1),
      WR 0xF9020010 74] \<and>
    m_hw s' = m_hw s \<and> driver_data s' = driver_data s \<and> type_el3_interrupt_table s' = type_el3_interrupt_table s"
proof -
  have pre: "driver_data (dispatch_prefix 74 s) = Some arm_gic_data" "ttc2_hb_seq (dispatch_prefix 74 s) = ttc2_hb_seq s"
    "m_hw (dispatch_prefix 74 s) = m_hw s" "type_el3_interrupt_table (dispatch_prefix 74 s) = type_el3_interrupt_table s"
    "m_evs (dispatch_prefix 74 s) = m_evs s @ [WR 0xFF130034 (dbg_entry_cnt s + 1),
       RD 0xF9020018 (m_hw s (Suc (m_now s)) 0xF9020018 (m_regs s 0xF9020018)), WR 0xFF130038 74]"
    using assms(1) by (simp_all add: dispatch_prefix_def)
  have "rdo_el3_interrupt_handler call fl s = ttc2_fiq_handler (dispatch_prefix 74 s)"
    using dispatch [OF assms(1,3)] assms(2,4) by (simp add: MAX_INTR_EL3_def)
  then show ?thesis
    using ttc2_fiq_handler_eq [OF pre(1)] pre assms(1) by auto
qed

theorem heartbeat_fiq_witness:
  "let s = (test_hb (\<lambda>t a v. 74))\<lparr>type_el3_interrupt_table := [74 \<mapsto> Ttc2_fiq_handler]\<rparr>
   in \<exists>s'. rdo_el3_interrupt_handler (\<lambda>h i fl. ttc2_fiq_handler) 0 s = Some s' \<and> m_regs s' 0xFF130048 = 42"
proof -
  define s where "s = (test_hb (\<lambda>t a v. 74))\<lparr>type_el3_interrupt_table := [74 \<mapsto> Ttc2_fiq_handler]\<rparr>"
  have "driver_data s = Some arm_gic_data" "type_el3_interrupt_table s 74 = Some Ttc2_fiq_handler"
    "hppir_id (Suc (m_now s)) s = 74" "ttc2_hb_seq s = 41"
    by (simp_all add: s_def test_hb_simps hppir_id_def)
  then show ?thesis
    using heartbeat_fiq [of s "\<lambda>h i fl. ttc2_fiq_handler" 0] by (auto simp: s_def Let_def)
qed

text \<open>
  C27.  The runtime setup of BL31.  With the interrupt controller ready and signalling FIQs, no EL3 handler
  registered and slot 74 free, \<open>bl31_plat_runtime_setup\<close> returns with the dispatcher registered
  for EL3 interrupts of both worlds and the heartbeat handler in its table; if an EL3 handler is
  already registered it panics instead of running without a heartbeat.
\<close>

theorem runtime_setup_complete:
  assumes "gic_ready s" "fiq_signalled s" "type_el3_interrupt_table s 74 = None"
  shows "if handler (intr_type_descs s INTR_TYPE_EL3) = None
    then \<exists>s'. bl31_plat_runtime_setup s = Some s' \<and>
           handler (intr_type_descs s' INTR_TYPE_EL3) = Some Rdo_el3_interrupt_handler \<and>
           (\<forall>ss \<in> {SECURE, NON_SECURE}. bit (scr_el3 (intr_type_descs s' INTR_TYPE_EL3) ss) 2) \<and>
           type_el3_interrupt_table s' 74 = Some Ttc2_fiq_handler \<and> \<not> irq_group s' 74
    else bl31_plat_runtime_setup s = None"
proof (cases "handler (intr_type_descs s INTR_TYPE_EL3) = None")
  case False
  then show ?thesis
    by (auto simp: bl31_plat_runtime_setup_def register_interrupt_type_handler_def set_interrupt_rm_flag_def
        NON_SECURE_def SECURE_def MAX_INTR_TYPES_def INTR_TYPE_EL3_def EALREADY_def)
next
  case True
  have dr: "driver_data s = Some arm_gic_data" using assms(1) by (simp add: gic_ready_def)
  obtain s1 where s1: "register_interrupt_type_handler INTR_TYPE_EL3 (Some Rdo_el3_interrupt_handler) 3 s = Some (0, s1)"
    "\<forall>ss \<in> {SECURE, NON_SECURE}. scr_el3 (intr_type_descs s1 INTR_TYPE_EL3) ss = 4"
    "handler (intr_type_descs s1 INTR_TYPE_EL3) = Some Rdo_el3_interrupt_handler"
    "m_hw s1 = m_hw s" "driver_data s1 = driver_data s" "gic_lock s1 = gic_lock s"
    "type_el3_interrupt_table s1 = type_el3_interrupt_table s"
    using register_rdo [OF dr assms(2) True] by blast
  have ready: "gic_ready s1" using assms(1) s1 gicd_plain_cong [of s1 s] by (simp add: gic_ready_def)
  obtain s2 where s2: "zynqmp_swdt_init s1 = Some s2" "intr_type_descs s2 = intr_type_descs s1"
    "type_el3_interrupt_table s2 74 = Some Ttc2_fiq_handler" "\<not> irq_group s2 74"
    using swdt_init_state [OF ready] assms(3) s1(7) by auto
  have "bl31_plat_runtime_setup s = Some s2"
    using s1(1) s2(1) by (simp add: bl31_plat_runtime_setup_def set_interrupt_rm_flag_def NON_SECURE_def SECURE_def)
  then show ?thesis using True s1(2,3) s2 by (auto simp: bit_simps)
qed

theorem runtime_setup_complete_witness:
  "\<exists>s'. bl31_plat_runtime_setup (test_hb (\<lambda>t a v. if a = 0xF9020000 then 8 else v)) = Some s' \<and>
     type_el3_interrupt_table s' 74 = Some Ttc2_fiq_handler"
proof -
  define s where "s = test_hb (\<lambda>t a v. if a = 0xF9020000 then 8 else v)"
  have "gicd_plain s" using gicc_neq(1) by (auto simp: s_def gicd_plain_def plain_def test_hb_simps)
  then have "gic_ready s" by (simp add: gic_ready_def s_def test_hb_simps)
  moreover have "fiq_signalled s" "type_el3_interrupt_table s 74 = None" "handler (intr_type_descs s INTR_TYPE_EL3) = None"
    by (simp_all add: s_def fiq_signalled_def test_hb_simps bit_word_iff_drop_bit_and)
  ultimately show ?thesis using runtime_setup_complete [of s] by (auto simp: s_def)
qed

end
