(* ===== verification/IPI.thy ===== *)
theory IPI
  imports SWDT_Heartbeat
begin

text \<open>
  The inter-processor interrupt mailboxes of TF-A: the driver (\<open>plat/xilinx/common/ipi.c\<close>), the
  agent table of the chip (\<open>zynqmp_ipi.c\<close>) and the SMC service that lends the mailboxes to the
  operating systems (\<open>ipi_mailbox_svc.c\<close>).  The static variables of the driver extend the EL3
  state.  An index outside the agent table is undefined behaviour and has the outcome \<open>None\<close>,
  as has a blocking notification that is never taken.  The enumerators and \<open>#define\<close>s of the
  sources are abbreviations.
\<close>

section \<open>Constants and state (ipi.h, ipi.c)\<close>

abbreviation (input) IPI_TRIG_OFFSET :: u32 where "IPI_TRIG_OFFSET \<equiv> 0x00"
abbreviation (input) IPI_OBR_OFFSET :: u32 where "IPI_OBR_OFFSET \<equiv> 0x04"
abbreviation (input) IPI_ISR_OFFSET :: u32 where "IPI_ISR_OFFSET \<equiv> 0x10"
abbreviation (input) IPI_IER_OFFSET :: u32 where "IPI_IER_OFFSET \<equiv> 0x18"
abbreviation (input) IPI_IDR_OFFSET :: u32 where "IPI_IDR_OFFSET \<equiv> 0x1C"
abbreviation (input) IPI_MB_STATUS_SEND_PENDING :: int where "IPI_MB_STATUS_SEND_PENDING \<equiv> 1"
abbreviation (input) IPI_MB_STATUS_RECV_PENDING :: int where "IPI_MB_STATUS_RECV_PENDING \<equiv> 2"
abbreviation (input) IPI_SECURE_MASK :: u8 where "IPI_SECURE_MASK \<equiv> 1"
abbreviation (input) EPERM :: int where "EPERM \<equiv> 1"

record ipi_config =
  ipi_bit_mask :: u32
  ipi_reg_base :: u32
  secure_only :: u8

record ipi_mach = hb_mach +
  ipi_table :: "ipi_config list"
  ipi_total :: u32

lemma ipi_fields [bus_simps]:
  "ipi_table (mmio_write_32 a v s) = ipi_table s"
  "ipi_total (mmio_write_32 a v s) = ipi_total s"
  "ipi_table (snd (mmio_read_32 a s)) = ipi_table s"
  "ipi_total (snd (mmio_read_32 a s)) = ipi_total s"
  "ipi_table (mmio_write_8 a b s) = ipi_table s"
  "ipi_total (mmio_write_8 a b s) = ipi_total s"
  "ipi_table (fw_call f as s) = ipi_table s"
  "ipi_total (fw_call f as s) = ipi_total s"
  by (simp_all add: mmio_read_32_def mmio_write_32_def mmio_write_8_def fw_call_def Let_def)

declare ipi_fields [simp]

text \<open>\<open>ipi_table[i]\<close>.\<close>

definition ipi_ent :: "u32 \<Rightarrow> 'a ipi_mach_scheme \<Rightarrow> ipi_config option" where
  "ipi_ent i s = (if unat i < length (ipi_table s) then Some (ipi_table s ! unat i) else None)"

definition IPI_REG_BASE :: "u32 \<Rightarrow> 'a ipi_mach_scheme \<Rightarrow> u32 option" where
  "IPI_REG_BASE i s = map_option ipi_reg_base (ipi_ent i s)"

definition IPI_BIT_MASK :: "u32 \<Rightarrow> 'a ipi_mach_scheme \<Rightarrow> u32 option" where
  "IPI_BIT_MASK i s = map_option ipi_bit_mask (ipi_ent i s)"

definition IPI_IS_SECURE :: "u32 \<Rightarrow> 'a ipi_mach_scheme \<Rightarrow> bool option" where
  "IPI_IS_SECURE i s = map_option (\<lambda>c. secure_only c AND IPI_SECURE_MASK \<noteq> 0) (ipi_ent i s)"

section \<open>The driver (ipi.c)\<close>

definition ipi_config_table_init :: "ipi_config list \<Rightarrow> u32 \<Rightarrow> 'a ipi_mach_scheme \<Rightarrow> 'a ipi_mach_scheme" where
  "ipi_config_table_init ipi_config_table total_ipi s =
     s\<lparr>ipi_table := ipi_config_table, ipi_total := total_ipi\<rparr>"

definition is_ipi_mb_within_range :: "u32 \<Rightarrow> u32 \<Rightarrow> 'a ipi_mach_scheme \<Rightarrow> bool" where
  "is_ipi_mb_within_range local remote s = (\<not> (remote \<ge> ipi_total s \<or> local \<ge> ipi_total s))"

definition ipi_mb_validate :: "u32 \<Rightarrow> u32 \<Rightarrow> bool \<Rightarrow> 'a ipi_mach_scheme \<Rightarrow> int option" where
  "ipi_mb_validate local remote is_secure s =
     (if \<not> is_ipi_mb_within_range local remote s then Some (- EINVAL)
      else do {
        l \<leftarrow> IPI_IS_SECURE local s;
        if l \<and> \<not> is_secure then Some (- EPERM)
        else do {
          r \<leftarrow> IPI_IS_SECURE remote s;
          if r \<and> \<not> is_secure then Some (- EPERM) else Some 0
        }
      })"

text \<open>\<open>mmio_write_32(IPI_REG_BASE(local) + off, IPI_BIT_MASK(remote))\<close>.\<close>

definition ipi_write_bit :: "u32 \<Rightarrow> u32 \<Rightarrow> u32 \<Rightarrow> 'a ipi_mach_scheme \<Rightarrow> 'a ipi_mach_scheme option" where
  "ipi_write_bit local off remote s = do {
     base \<leftarrow> IPI_REG_BASE local s;
     m \<leftarrow> IPI_BIT_MASK remote s;
     Some (mmio_write_32 (ucast (base + off)) m s)
   }"

definition ipi_mb_open :: "u32 \<Rightarrow> u32 \<Rightarrow> 'a ipi_mach_scheme \<Rightarrow> 'a ipi_mach_scheme option" where
  "ipi_mb_open local remote s = do {
     s \<leftarrow> ipi_write_bit local IPI_IDR_OFFSET remote s;
     ipi_write_bit local IPI_ISR_OFFSET remote s
   }"

definition ipi_mb_release :: "u32 \<Rightarrow> u32 \<Rightarrow> 'a ipi_mach_scheme \<Rightarrow> 'a ipi_mach_scheme option" where
  "ipi_mb_release local remote s = ipi_write_bit local IPI_IDR_OFFSET remote s"

definition ipi_mb_enquire_status :: "u32 \<Rightarrow> u32 \<Rightarrow> 'a ipi_mach_scheme \<Rightarrow> (int \<times> 'a ipi_mach_scheme) option" where
  "ipi_mb_enquire_status local remote s = do {
     base \<leftarrow> IPI_REG_BASE local s;
     m \<leftarrow> IPI_BIT_MASK remote s;
     let ret = 0;
     let (status, s) = mmio_read_32 (ucast (base + IPI_OBR_OFFSET)) s;
     let ret = (if status AND m \<noteq> 0 then ret OR IPI_MB_STATUS_SEND_PENDING else ret);
     let (status, s) = mmio_read_32 (ucast (base + IPI_ISR_OFFSET)) s;
     let ret = (if status AND m \<noteq> 0 then ret OR IPI_MB_STATUS_RECV_PENDING else ret);
     Some (ret, s)
   }"

definition ipi_mb_notify :: "u32 \<Rightarrow> u32 \<Rightarrow> bool \<Rightarrow> 'a ipi_mach_scheme \<Rightarrow> 'a ipi_mach_scheme option" where
  "ipi_mb_notify local remote is_blocking s = do {
     base \<leftarrow> IPI_REG_BASE local s;
     m \<leftarrow> IPI_BIT_MASK remote s;
     let s = mmio_write_32 (ucast (base + IPI_TRIG_OFFSET)) m s;
     if is_blocking
     then map_option snd (do_poll (mmio_read_32 (ucast (base + IPI_OBR_OFFSET))) (\<lambda>status. status AND m = 0) s)
     else Some s
   }"

definition ipi_mb_ack :: "u32 \<Rightarrow> u32 \<Rightarrow> 'a ipi_mach_scheme \<Rightarrow> 'a ipi_mach_scheme option" where
  "ipi_mb_ack local remote s = ipi_write_bit local IPI_ISR_OFFSET remote s"

definition ipi_mb_disable_irq :: "u32 \<Rightarrow> u32 \<Rightarrow> 'a ipi_mach_scheme \<Rightarrow> 'a ipi_mach_scheme option" where
  "ipi_mb_disable_irq local remote s = ipi_write_bit local IPI_IDR_OFFSET remote s"

definition ipi_mb_enable_irq :: "u32 \<Rightarrow> u32 \<Rightarrow> 'a ipi_mach_scheme \<Rightarrow> 'a ipi_mach_scheme option" where
  "ipi_mb_enable_irq local remote s = ipi_write_bit local IPI_IER_OFFSET remote s"

section \<open>The agents of the chip (zynqmp_ipi.c)\<close>

definition zynqmp_ipi_table :: "ipi_config list" where
  "zynqmp_ipi_table = [
     \<lparr>ipi_bit_mask = 0x1, ipi_reg_base = 0xFF300000, secure_only = 0\<rparr>,
     \<lparr>ipi_bit_mask = 0x100, ipi_reg_base = 0xFF310000, secure_only = 0\<rparr>,
     \<lparr>ipi_bit_mask = 0x200, ipi_reg_base = 0xFF320000, secure_only = 0\<rparr>,
     \<lparr>ipi_bit_mask = 0x10000, ipi_reg_base = 0xFF330000, secure_only = IPI_SECURE_MASK\<rparr>,
     \<lparr>ipi_bit_mask = 0x20000, ipi_reg_base = 0xFF331000, secure_only = 0\<rparr>,
     \<lparr>ipi_bit_mask = 0x40000, ipi_reg_base = 0xFF332000, secure_only = IPI_SECURE_MASK\<rparr>,
     \<lparr>ipi_bit_mask = 0x80000, ipi_reg_base = 0xFF333000, secure_only = IPI_SECURE_MASK\<rparr>,
     \<lparr>ipi_bit_mask = 0x1000000, ipi_reg_base = 0xFF340000, secure_only = 0\<rparr>,
     \<lparr>ipi_bit_mask = 0x2000000, ipi_reg_base = 0xFF350000, secure_only = 0\<rparr>,
     \<lparr>ipi_bit_mask = 0x4000000, ipi_reg_base = 0xFF360000, secure_only = 0\<rparr>,
     \<lparr>ipi_bit_mask = 0x8000000, ipi_reg_base = 0xFF370000, secure_only = 0\<rparr>]"

definition zynqmp_ipi_config_table_init :: "'a ipi_mach_scheme \<Rightarrow> 'a ipi_mach_scheme" where
  "zynqmp_ipi_config_table_init s =
     ipi_config_table_init zynqmp_ipi_table (of_nat (length zynqmp_ipi_table)) s"

section \<open>The mailbox service (ipi_mailbox_svc.c)\<close>

abbreviation (input) SMC_ENTITY_TRUSTED_APP :: u32 where "SMC_ENTITY_TRUSTED_APP \<equiv> 48"
abbreviation (input) SMC_UNK :: int where "SMC_UNK \<equiv> - 1"
abbreviation (input) IPI_MAILBOX_OPEN :: u32 where "IPI_MAILBOX_OPEN \<equiv> 0x1000"
abbreviation (input) IPI_MAILBOX_RELEASE :: u32 where "IPI_MAILBOX_RELEASE \<equiv> 0x1001"
abbreviation (input) IPI_MAILBOX_STATUS_ENQUIRY :: u32 where "IPI_MAILBOX_STATUS_ENQUIRY \<equiv> 0x1002"
abbreviation (input) IPI_MAILBOX_NOTIFY :: u32 where "IPI_MAILBOX_NOTIFY \<equiv> 0x1003"
abbreviation (input) IPI_MAILBOX_ACK :: u32 where "IPI_MAILBOX_ACK \<equiv> 0x1004"
abbreviation (input) IPI_MAILBOX_ENABLE_IRQ :: u32 where "IPI_MAILBOX_ENABLE_IRQ \<equiv> 0x1005"
abbreviation (input) IPI_MAILBOX_DISABLE_IRQ :: u32 where "IPI_MAILBOX_DISABLE_IRQ \<equiv> 0x1006"

definition SMC_ENTITY :: "u32 \<Rightarrow> u32" where
  "SMC_ENTITY smc_nr = drop_bit 24 (smc_nr AND 0x3F000000)"

definition SMC_FUNCTION :: "u32 \<Rightarrow> u32" where
  "SMC_FUNCTION smc_nr = smc_nr AND 0x0000FFFF"

text \<open>\<open>SMC_RET1(handle, r)\<close>: the call returns with \<open>r\<close>, sign extended, in register \<open>x0\<close>.\<close>

definition SMC_RET1 :: "int \<Rightarrow> 's \<Rightarrow> (u64 \<times> 's) option" where
  "SMC_RET1 r s = Some (word_of_int r, s)"

definition ipi_smc_handler :: "u32 \<Rightarrow> u64 \<Rightarrow> u64 \<Rightarrow> u64 \<Rightarrow> 'a ipi_mach_scheme \<Rightarrow> (u64 \<times> 'a ipi_mach_scheme) option" where
  "ipi_smc_handler smc_fid x1 x2 x3 s = do {
     let ipi_local_id = ucast (x1 AND 0xFFFFFFFF);
     let ipi_remote_id = ucast (x2 AND 0xFFFFFFFF);
     let is_secure = (SMC_ENTITY smc_fid \<ge> SMC_ENTITY_TRUSTED_APP);
     ret \<leftarrow> ipi_mb_validate ipi_local_id ipi_remote_id is_secure s;
     if ret \<noteq> 0 then SMC_RET1 ret s
     else let f = SMC_FUNCTION smc_fid in
     if f = IPI_MAILBOX_OPEN then do {
       s \<leftarrow> ipi_mb_open ipi_local_id ipi_remote_id s;
       SMC_RET1 0 s
     } else if f = IPI_MAILBOX_RELEASE then do {
       s \<leftarrow> ipi_mb_release ipi_local_id ipi_remote_id s;
       SMC_RET1 0 s
     } else if f = IPI_MAILBOX_STATUS_ENQUIRY then do {
       let disable_irq = (x3 AND 1 \<noteq> 0);
       (ret, s) \<leftarrow> ipi_mb_enquire_status ipi_local_id ipi_remote_id s;
       s \<leftarrow> (if ret AND IPI_MB_STATUS_RECV_PENDING \<noteq> 0 \<and> disable_irq
             then ipi_mb_disable_irq ipi_local_id ipi_remote_id s else Some s);
       SMC_RET1 ret s
     } else if f = IPI_MAILBOX_NOTIFY then do {
       s \<leftarrow> ipi_mb_notify ipi_local_id ipi_remote_id (x3 AND 1 \<noteq> 0) s;
       SMC_RET1 0 s
     } else if f = IPI_MAILBOX_ACK then do {
       let enable_irq = (x3 AND 1 \<noteq> 0);
       s \<leftarrow> ipi_mb_ack ipi_local_id ipi_remote_id s;
       s \<leftarrow> (if enable_irq then ipi_mb_enable_irq ipi_local_id ipi_remote_id s else Some s);
       SMC_RET1 0 s
     } else if f = IPI_MAILBOX_ENABLE_IRQ then do {
       s \<leftarrow> ipi_mb_enable_irq ipi_local_id ipi_remote_id s;
       SMC_RET1 0 s
     } else if f = IPI_MAILBOX_DISABLE_IRQ then do {
       s \<leftarrow> ipi_mb_disable_irq ipi_local_id ipi_remote_id s;
       SMC_RET1 0 s
     } else SMC_RET1 SMC_UNK s
   }"

section \<open>What the mailboxes guarantee\<close>

text \<open>The declared number of agents is backed by the table.\<close>

definition ipi_wf :: "'a ipi_mach_scheme \<Rightarrow> bool" where
  "ipi_wf s \<longleftrightarrow> unat (ipi_total s) \<le> length (ipi_table s)"

definition is_secure_agent :: "ipi_config \<Rightarrow> bool" where
  "is_secure_agent c \<longleftrightarrow> secure_only c AND IPI_SECURE_MASK \<noteq> 0"

text \<open>A bus access of agent \<open>l\<close>'s register block that concerns agent \<open>r\<close> only.\<close>

definition ipi_ev :: "ipi_config \<Rightarrow> ipi_config \<Rightarrow> ioev \<Rightarrow> bool" where
  "ipi_ev l r e = (case e of
      WR a v \<Rightarrow> v = ipi_bit_mask r \<and>
        (\<exists>off \<in> {IPI_TRIG_OFFSET, IPI_ISR_OFFSET, IPI_IER_OFFSET, IPI_IDR_OFFSET}. a = ucast (ipi_reg_base l + off))
    | RD a _ \<Rightarrow> (\<exists>off \<in> {IPI_OBR_OFFSET, IPI_ISR_OFFSET}. a = ucast (ipi_reg_base l + off))
    | _ \<Rightarrow> False)"

lemma ipi_ent_wf:
  "ipi_wf s \<Longrightarrow> i < ipi_total s \<Longrightarrow> ipi_ent i s = Some (ipi_table s ! unat i)"
  by (auto simp: ipi_wf_def ipi_ent_def word_less_nat_alt)

lemma ipi_ent_after [simp]:
  "ipi_ent i (mmio_write_32 a v s) = ipi_ent i s"
  "ipi_ent i (snd (mmio_read_32 a s)) = ipi_ent i s"
  by (simp_all add: ipi_ent_def)

lemma ipi_mb_validate_wf:
  assumes "ipi_wf s"
  shows "ipi_mb_validate l r sec s = Some
    (if \<not> is_ipi_mb_within_range l r s then - EINVAL
     else if \<not> sec \<and> (is_secure_agent (ipi_table s ! unat l) \<or> is_secure_agent (ipi_table s ! unat r)) then - EPERM
     else 0)"
  using assms
  by (auto simp: ipi_mb_validate_def IPI_IS_SECURE_def is_ipi_mb_within_range_def not_le ipi_ent_wf is_secure_agent_def)

lemma ipi_write_bit_eq:
  "ipi_ent l s = Some cl \<Longrightarrow> ipi_ent r s = Some cr \<Longrightarrow>
   ipi_write_bit l off r s = Some (mmio_write_32 (ucast (ipi_reg_base cl + off)) (ipi_bit_mask cr) s)"
  by (simp add: ipi_write_bit_def IPI_REG_BASE_def IPI_BIT_MASK_def)

lemma ipi_off_inj: "ucast (b + x :: u32) = (ucast (b + y) :: addr) \<longleftrightarrow> x = y"
  by (simp add: ucast_up_eq)

text \<open>
  A notification writes the trigger register and, when it blocks, reads the observation register
  until the bit of the remote agent is clear: \<open>n\<close> reads with the bit set and one without.
\<close>

definition obr_reads :: "ipi_config \<Rightarrow> nat \<Rightarrow> 'a mach_scheme \<Rightarrow> u32" where
  "obr_reads c n s =
     (let a = ucast (ipi_reg_base c + IPI_OBR_OFFSET) in m_hw s (Suc (m_now s) + n) a (m_regs s a))"

lemma ipi_mb_notify_eq:
  assumes "ipi_ent l s = Some cl" and "ipi_ent r s = Some cr"
  defines "s1 \<equiv> mmio_write_32 (ucast (ipi_reg_base cl)) (ipi_bit_mask cr) s"
    and "rd \<equiv> mmio_read_32 (ucast (ipi_reg_base cl + IPI_OBR_OFFSET))"
  shows "ipi_mb_notify l r b s =
    (if b then map_option snd (do_poll rd (\<lambda>v. v AND ipi_bit_mask cr = 0) s1) else Some s1)"
  using assms by (simp add: ipi_mb_notify_def IPI_REG_BASE_def IPI_BIT_MASK_def Let_def)

lemma obr_after:
  "fst (mmio_read_32 (ucast (ipi_reg_base cl + IPI_OBR_OFFSET))
     (after_reads (mmio_read_32 (ucast (ipi_reg_base cl + IPI_OBR_OFFSET))) n
       (mmio_write_32 (ucast (ipi_reg_base cl)) v s))) = obr_reads cl n s"
  using ipi_off_inj [of "ipi_reg_base cl" 4 0] by (simp add: obr_reads_def Let_def)

lemma ipi_mb_notify_None:
  assumes "ipi_ent l s = Some cl" and "ipi_ent r s = Some cr"
  shows "ipi_mb_notify l r b s = None \<longleftrightarrow> b \<and> (\<forall>n. obr_reads cl n s AND ipi_bit_mask cr \<noteq> 0)"
  unfolding ipi_mb_notify_eq [OF assms] by (simp add: do_poll_None obr_after del: mmio_read_fst)

text \<open>\<open>ipi_only l r s s'\<close>: between \<open>s\<close> and \<open>s'\<close> only mailbox \<open>l\<close> was used, only towards \<open>r\<close>.\<close>

definition ipi_only :: "ipi_config \<Rightarrow> ipi_config \<Rightarrow> 'a mach_scheme \<Rightarrow> 'a mach_scheme \<Rightarrow> bool" where
  "ipi_only l r s s' \<longleftrightarrow>
     (\<exists>es. m_evs s' = m_evs s @ es \<and> list_all (ipi_ev l r) es) \<and> mach.more s' = mach.more s \<and> m_hw s' = m_hw s"

lemma ipi_only_refl [simp]: "ipi_only l r s s"
  by (simp add: ipi_only_def)

lemma ipi_only_write:
  "ipi_only l r s t \<Longrightarrow> ipi_ev l r (WR a v) \<Longrightarrow> ipi_only l r s (mmio_write_32 a v t)"
  by (auto simp: ipi_only_def)

lemma ipi_only_read:
  "ipi_only l r s t \<Longrightarrow> ipi_ev l r (RD a (m_hw t (m_now t) a (m_regs t a))) \<Longrightarrow> ipi_only l r s (snd (mmio_read_32 a t))"
  by (auto simp: ipi_only_def)

lemma ipi_ev_offs:
  "ipi_ev l r (WR (ucast (ipi_reg_base l)) (ipi_bit_mask r))"
  "ipi_ev l r (WR (ucast (ipi_reg_base l + IPI_ISR_OFFSET)) (ipi_bit_mask r))"
  "ipi_ev l r (WR (ucast (ipi_reg_base l + IPI_IER_OFFSET)) (ipi_bit_mask r))"
  "ipi_ev l r (WR (ucast (ipi_reg_base l + IPI_IDR_OFFSET)) (ipi_bit_mask r))"
  "ipi_ev l r (RD (ucast (ipi_reg_base l + IPI_OBR_OFFSET)) v)"
  "ipi_ev l r (RD (ucast (ipi_reg_base l + IPI_ISR_OFFSET)) v)"
  by (simp_all add: ipi_ev_def)

lemmas ipi_only_intros = ipi_only_write ipi_only_read ipi_ev_offs

lemma ipi_mb_notify_only:
  assumes "ipi_ent l s = Some cl" and "ipi_ent r s = Some cr" and "ipi_mb_notify l r b s = Some s'"
  shows "ipi_only cl cr s s'"
proof (cases b)
  case False
  then show ?thesis using assms by (simp add: ipi_mb_notify_eq) (metis ipi_only_intros ipi_only_refl)
next
  case True
  define rd :: "'a ipi_mach_scheme \<Rightarrow> _" where "rd = mmio_read_32 (ucast (ipi_reg_base cl + IPI_OBR_OFFSET))"
  from True assms obtain q where q: "do_poll rd (\<lambda>v. v AND ipi_bit_mask cr = 0)
      (mmio_write_32 (ucast (ipi_reg_base cl)) (ipi_bit_mask cr) s) = Some q" and s': "s' = snd q"
    by (auto simp: ipi_mb_notify_eq rd_def)
  show ?thesis unfolding s'
  proof (rule do_poll_invariant [OF q])
    show "ipi_only cl cr s (mmio_write_32 (ucast (ipi_reg_base cl)) (ipi_bit_mask cr) s)"
      by (intro ipi_only_intros) simp
  qed (auto simp: rd_def intro!: ipi_only_intros)
qed

lemma ucast_low32: "(ucast (x AND 0xFFFFFFFF) :: u32) = ucast x" for x :: u64
proof -
  have m: "(0xFFFFFFFF :: u64) = mask 32" by (simp add: mask_eq_exp_minus_1)
  show ?thesis unfolding m by (rule bit_word_eqI) (auto simp: bit_simps)
qed

lemma ipi_mb_ops_eq:
  assumes "ipi_ent l s = Some cl" and "ipi_ent r s = Some cr"
  defines "w off \<equiv> mmio_write_32 (ucast (ipi_reg_base cl + off)) (ipi_bit_mask cr)"
  shows "ipi_mb_open l r s = Some (w IPI_ISR_OFFSET (w IPI_IDR_OFFSET s))"
    and "ipi_mb_release l r s = Some (w IPI_IDR_OFFSET s)"
    and "ipi_mb_ack l r s = Some (w IPI_ISR_OFFSET s)"
    and "ipi_mb_disable_irq l r s = Some (w IPI_IDR_OFFSET s)"
    and "ipi_mb_enable_irq l r s = Some (w IPI_IER_OFFSET s)"
  using assms
  by (simp_all add: ipi_mb_open_def ipi_mb_release_def ipi_mb_ack_def ipi_mb_disable_irq_def ipi_mb_enable_irq_def ipi_write_bit_eq)

lemma ipi_mb_enquire_status_only:
  assumes "ipi_ent l s = Some cl" and "ipi_ent r s = Some cr"
  shows "\<exists>n s'. ipi_mb_enquire_status l r s = Some (n, s') \<and> ipi_only cl cr s s' \<and> ipi_ent l s' = Some cl \<and> ipi_ent r s' = Some cr"
  using assms
  by (simp add: ipi_mb_enquire_status_def IPI_REG_BASE_def IPI_BIT_MASK_def case_prod_unfold Let_def)
    (auto intro!: ipi_only_intros)

text \<open>The handler, once the two agents are known and the caller may use them.\<close>

lemma ipi_smc_handler_refused:
  fixes x1 x2 x3 :: u64
  assumes "ipi_wf s"
  defines "l \<equiv> ucast x1 :: u32" and "r \<equiv> ucast x2 :: u32"
  shows "\<not> is_ipi_mb_within_range l r s \<Longrightarrow> ipi_smc_handler fid x1 x2 x3 s = Some (word_of_int (- EINVAL), s)"
    and "is_ipi_mb_within_range l r s \<Longrightarrow> SMC_ENTITY fid < SMC_ENTITY_TRUSTED_APP \<Longrightarrow>
      is_secure_agent (ipi_table s ! unat l) \<or> is_secure_agent (ipi_table s ! unat r) \<Longrightarrow>
      ipi_smc_handler fid x1 x2 x3 s = Some (word_of_int (- EPERM), s)"
  using assms by (simp_all add: ipi_smc_handler_def ucast_low32 ipi_mb_validate_wf SMC_RET1_def EINVAL_def not_le)

lemma ipi_smc_handler_accepted:
  assumes "ipi_wf s" and "is_ipi_mb_within_range (ucast x1) (ucast x2) s"
    and "SMC_ENTITY fid \<ge> SMC_ENTITY_TRUSTED_APP \<or>
      \<not> is_secure_agent (ipi_table s ! unat (ucast x1 :: u32)) \<and> \<not> is_secure_agent (ipi_table s ! unat (ucast x2 :: u32))"
  shows "ipi_ent (ucast x1) s = Some (ipi_table s ! unat (ucast x1 :: u32))"
    and "ipi_ent (ucast x2) s = Some (ipi_table s ! unat (ucast x2 :: u32))"
    and "ipi_mb_validate (ucast x1) (ucast x2) (SMC_ENTITY fid \<ge> SMC_ENTITY_TRUSTED_APP) s = Some 0"
  using assms
  by (auto simp: ipi_mb_validate_wf is_ipi_mb_within_range_def not_le ipi_ent_wf split: if_splits dest: leD)

lemma ipi_smc_handler_only:
  assumes ents: "ipi_ent (ucast x1) s = Some l" "ipi_ent (ucast x2) s = Some r"
    and val: "ipi_mb_validate (ucast x1) (ucast x2) (SMC_ENTITY fid \<ge> SMC_ENTITY_TRUSTED_APP) s = Some 0"
    and ret: "ipi_smc_handler fid x1 x2 x3 s = Some (x0, s')"
  shows "ipi_only l r s s'"
proof -
  from ipi_mb_enquire_status_only [OF ents] obtain n t where
    enq: "ipi_mb_enquire_status (ucast x1) (ucast x2) s = Some (n, t)" "ipi_only l r s t"
      "ipi_ent (ucast x1) t = Some l" "ipi_ent (ucast x2) t = Some r" by blast
  show ?thesis using ret ents enq val
    by (auto simp: ipi_smc_handler_def ucast_low32 SMC_RET1_def Let_def ipi_mb_ops_eq
        intro!: ipi_only_intros dest: ipi_mb_notify_only split: if_splits bind_splits)
qed

lemma ipi_smc_handler_None:
  assumes ents: "ipi_ent (ucast x1) s = Some l" "ipi_ent (ucast x2) s = Some r"
    and val: "ipi_mb_validate (ucast x1) (ucast x2) (SMC_ENTITY fid \<ge> SMC_ENTITY_TRUSTED_APP) s = Some 0"
  shows "ipi_smc_handler fid x1 x2 x3 s = None \<longleftrightarrow>
    SMC_FUNCTION fid = IPI_MAILBOX_NOTIFY \<and> x3 AND 1 \<noteq> 0 \<and> (\<forall>n. obr_reads l n s AND ipi_bit_mask r \<noteq> 0)"
proof -
  from ipi_mb_enquire_status_only [OF ents] obtain n t where
    enq: "ipi_mb_enquire_status (ucast x1) (ucast x2) s = Some (n, t)"
      "ipi_ent (ucast x1) t = Some l" "ipi_ent (ucast x2) t = Some r" by blast
  show ?thesis using ents enq val
    by (simp add: ipi_smc_handler_def ucast_low32 SMC_RET1_def Let_def ipi_mb_ops_eq bind_eq_None_conv ipi_mb_notify_None
        ipi_mb_notify_eq [where b = False])
qed

section \<open>Properties\<close>

text \<open>
  C19. Isolation of the secure mailboxes.  A mailbox SMC from outside the trusted application and
  trusted OS ranges that names a secure-only agent, as its own or as the remote one, is refused
  with \<open>-EPERM\<close> and one that names an agent outside the table with \<open>-EINVAL\<close>, in both cases
  with nothing on the bus and the state unchanged; and whatever such a call does, it uses the
  registers of a single non-secure agent of the table, and raises, acknowledges, masks or unmasks
  the bit of a single non-secure agent.  No variable of the firmware changes.
\<close>

theorem ipi_isolation:
  fixes x1 x2 x3 :: u64
  assumes wf: "ipi_wf s" and ns: "SMC_ENTITY fid < SMC_ENTITY_TRUSTED_APP"
    and ret: "ipi_smc_handler fid x1 x2 x3 s = Some (x0, s')"
  defines "l \<equiv> ipi_table s ! unat (ucast x1 :: u32)" and "r \<equiv> ipi_table s ! unat (ucast x2 :: u32)"
  shows "if \<not> is_ipi_mb_within_range (ucast x1) (ucast x2) s then x0 = word_of_int (- EINVAL) \<and> s' = s
    else if is_secure_agent l \<or> is_secure_agent r then x0 = word_of_int (- EPERM) \<and> s' = s
    else list_all (ipi_ev l r) (since s s') \<and> mach.more s' = mach.more s"
proof (cases "is_ipi_mb_within_range (ucast x1) (ucast x2) s")
  case False
  then show ?thesis using ret by (simp add: ipi_smc_handler_refused(1) [OF wf])
next
  case range: True
  show ?thesis
  proof (cases "is_secure_agent l \<or> is_secure_agent r")
    case True
    with range ns ret show ?thesis unfolding l_def r_def by (simp add: ipi_smc_handler_refused(2) [OF wf])
  next
    case False
    then have "SMC_ENTITY fid \<ge> SMC_ENTITY_TRUSTED_APP \<or>
        \<not> is_secure_agent (ipi_table s ! unat (ucast x1 :: u32)) \<and> \<not> is_secure_agent (ipi_table s ! unat (ucast x2 :: u32))"
      by (simp add: l_def r_def)
    from ipi_smc_handler_only [OF ipi_smc_handler_accepted [OF wf range this] ret]
    have "ipi_only l r s s'" by (simp add: l_def r_def)
    with range False show ?thesis by (auto simp: ipi_only_def since_def)
  qed
qed

definition test_ipi :: "(nat \<Rightarrow> addr \<Rightarrow> u32 \<Rightarrow> u32) \<Rightarrow> ipi_mach" where
  "test_ipi hw = zynqmp_ipi_config_table_init (hb_mach.extend (test_hb hw) \<lparr>ipi_table = [], ipi_total = 0\<rparr>)"

lemmas test_ipi_simps = test_ipi_def zynqmp_ipi_config_table_init_def ipi_config_table_init_def
  zynqmp_ipi_table_def test_hb_simps hb_mach.defs

lemma test_ipi_wf [simp]: "ipi_wf (test_ipi hw)"
  by (simp add: test_ipi_simps ipi_wf_def)

theorem ipi_isolation_witness:
  "\<exists>x0 s'. ipi_smc_handler 0x82001003 0 2 0 (test_ipi (\<lambda>t a v. v)) = Some (x0, s') \<and>
     list_all (ipi_ev (zynqmp_ipi_table ! 0) (zynqmp_ipi_table ! 2)) (since (test_ipi (\<lambda>t a v. v)) s')"
proof -
  define s where "s = test_ipi (\<lambda>t a v. v)"
  have e: "SMC_ENTITY 0x82001003 < SMC_ENTITY_TRUSTED_APP" by (simp add: SMC_ENTITY_def)
  have "ipi_table s = zynqmp_ipi_table" "is_ipi_mb_within_range 0 2 s"
    by (simp_all add: s_def test_ipi_simps is_ipi_mb_within_range_def)
  moreover have "\<not> is_secure_agent (zynqmp_ipi_table ! 0)" "\<not> is_secure_agent (zynqmp_ipi_table ! 2)"
    by (simp_all add: zynqmp_ipi_table_def is_secure_agent_def)
  moreover obtain x0 s' where r: "ipi_smc_handler 0x82001003 0 2 0 s = Some (x0, s')"
    by (simp add: s_def ipi_smc_handler_def ipi_mb_validate_def is_ipi_mb_within_range_def IPI_IS_SECURE_def
        ipi_ent_def test_ipi_simps SMC_FUNCTION_def ipi_mb_notify_def IPI_REG_BASE_def IPI_BIT_MASK_def SMC_RET1_def)
  ultimately show ?thesis using ipi_isolation [OF _ e r] by (auto simp: s_def)
qed

text \<open>
  C36. When the mailbox service does not return.  A mailbox SMC fails to return exactly when it is
  an accepted blocking notification and the observation register of the local agent shows the bit
  of the remote agent on every one of the reads that follow; every other call returns.
\<close>

theorem ipi_smc_returns:
  fixes x1 x2 x3 :: u64
  assumes wf: "ipi_wf s"
  defines "l \<equiv> ipi_table s ! unat (ucast x1 :: u32)" and "r \<equiv> ipi_table s ! unat (ucast x2 :: u32)"
  shows "ipi_smc_handler fid x1 x2 x3 s = None \<longleftrightarrow>
    is_ipi_mb_within_range (ucast x1) (ucast x2) s \<and>
    (SMC_ENTITY fid \<ge> SMC_ENTITY_TRUSTED_APP \<or> \<not> is_secure_agent l \<and> \<not> is_secure_agent r) \<and>
    SMC_FUNCTION fid = IPI_MAILBOX_NOTIFY \<and> x3 AND 1 \<noteq> 0 \<and> (\<forall>n. obr_reads l n s AND ipi_bit_mask r \<noteq> 0)"
proof (cases "is_ipi_mb_within_range (ucast x1) (ucast x2) s \<and>
    (SMC_ENTITY fid \<ge> SMC_ENTITY_TRUSTED_APP \<or> \<not> is_secure_agent l \<and> \<not> is_secure_agent r)")
  case True
  then have r: "is_ipi_mb_within_range (ucast x1) (ucast x2) s"
    and a: "SMC_ENTITY fid \<ge> SMC_ENTITY_TRUSTED_APP \<or>
      \<not> is_secure_agent (ipi_table s ! unat (ucast x1 :: u32)) \<and> \<not> is_secure_agent (ipi_table s ! unat (ucast x2 :: u32))"
    by (auto simp: l_def r_def)
  show ?thesis using True ipi_smc_handler_None [OF ipi_smc_handler_accepted [OF wf r a]]
    by (simp add: l_def r_def)
next
  case False
  then consider "\<not> is_ipi_mb_within_range (ucast x1) (ucast x2) s"
    | "is_ipi_mb_within_range (ucast x1) (ucast x2) s" "SMC_ENTITY fid < SMC_ENTITY_TRUSTED_APP"
      "is_secure_agent l \<or> is_secure_agent r" by (auto simp: not_le)
  then show ?thesis
    using False by cases (auto simp: l_def r_def ipi_smc_handler_refused [OF wf])
qed

theorem ipi_smc_returns_witness:
  "ipi_smc_handler 0x82001003 0 2 1 (test_ipi (\<lambda>t a v. 0x200)) = None \<and>
   ipi_smc_handler 0x82001003 0 2 1 (test_ipi (\<lambda>t a v. 0)) \<noteq> None"
  unfolding ipi_smc_returns [OF test_ipi_wf]
  by (simp add: test_ipi_simps is_ipi_mb_within_range_def is_secure_agent_def SMC_FUNCTION_def obr_reads_def)

end
