(* ===== verification/PM_IPI.thy ===== *)
theory PM_IPI
  imports IPI
begin

text \<open>
  The request channel between TF-A and the power management firmware
  (\<open>plat/xilinx/common/pm_service/pm_ipi.c\<close>): a request is six words in a message buffer followed
  by an inter-processor interrupt, the answer is read from the response half of the buffer.  A
  bakery lock guards the channel; taking a lock that is held never returns (\<open>None\<close>), as the holder
  runs on another core and the model follows one core.  \<open>stack_junk t k\<close> is word \<open>k\<close> of an
  uninitialised local array of a function entered at tick \<open>t\<close>.  The build sets \<open>IPI_CRC_CHECK\<close> to 0,
  so the checksum code is not compiled.
\<close>

section \<open>Constants and state (pm_common.h, plat_ipi.h, pm_defs.h)\<close>

abbreviation (input) PAYLOAD_ARG_CNT :: nat where "PAYLOAD_ARG_CNT \<equiv> 6"
abbreviation (input) PAYLOAD_ARG_SIZE :: nat where "PAYLOAD_ARG_SIZE \<equiv> 4"
abbreviation (input) IPI_ID_APU :: u32 where "IPI_ID_APU \<equiv> 0"
abbreviation (input) IPI_ID_PMU0 :: u32 where "IPI_ID_PMU0 \<equiv> 3"
abbreviation (input) IPI_BUFFER_APU_BASE :: addr where "IPI_BUFFER_APU_BASE \<equiv> 0xFF990400"
abbreviation (input) IPI_BUFFER_REMOTE_BASE :: addr where "IPI_BUFFER_REMOTE_BASE \<equiv> 0xFF990E00"
abbreviation (input) IPI_BUFFER_TARGET_LOCAL_OFFSET :: addr where "IPI_BUFFER_TARGET_LOCAL_OFFSET \<equiv> 0x80"
abbreviation (input) IPI_BUFFER_TARGET_REMOTE_OFFSET :: addr where "IPI_BUFFER_TARGET_REMOTE_OFFSET \<equiv> 0x1C0"
abbreviation (input) IPI_BUFFER_REQ_OFFSET :: addr where "IPI_BUFFER_REQ_OFFSET \<equiv> 0x0"
abbreviation (input) IPI_BUFFER_RESP_OFFSET :: addr where "IPI_BUFFER_RESP_OFFSET \<equiv> 0x20"
abbreviation (input) IPI_BUFFER_MAX_WORDS :: nat where "IPI_BUFFER_MAX_WORDS \<equiv> 8"
abbreviation (input) ERROR_CODE_MASK :: u32 where "ERROR_CODE_MASK \<equiv> 0xFFFF"
abbreviation (input) PM_RET_SUCCESS :: u32 where "PM_RET_SUCCESS \<equiv> 0"
abbreviation (input) IPI_BLOCKING :: bool where "IPI_BLOCKING \<equiv> True"
abbreviation (input) IPI_NON_BLOCKING :: bool where "IPI_NON_BLOCKING \<equiv> False"

record pm_ipi =
  local_ipi_id :: u32
  remote_ipi_id :: u32
  buffer_base :: addr

record pm_proc =
  node_id :: u32
  pwrdn_mask :: u32
  ipi :: pm_ipi

text \<open>\<open>uint32_t payload[PAYLOAD_ARG_CNT]\<close>.\<close>

type_synonym payload = "nat \<Rightarrow> u32"

record pm_mach = ipi_mach +
  pm_secure_lock :: bool
  stack_junk :: "nat \<Rightarrow> nat \<Rightarrow> u32"

lemma pm_fields [bus_simps]:
  "pm_secure_lock (mmio_write_32 a v s) = pm_secure_lock s"
  "stack_junk (mmio_write_32 a v s) = stack_junk s"
  "pm_secure_lock (snd (mmio_read_32 a s)) = pm_secure_lock s"
  "stack_junk (snd (mmio_read_32 a s)) = stack_junk s"
  "pm_secure_lock (mmio_write_8 a b s) = pm_secure_lock s"
  "stack_junk (mmio_write_8 a b s) = stack_junk s"
  "pm_secure_lock (fw_call f as s) = pm_secure_lock s"
  "stack_junk (fw_call f as s) = stack_junk s"
  by (simp_all add: mmio_read_32_def mmio_write_32_def mmio_write_8_def fw_call_def Let_def)

declare pm_fields [simp]

definition pm_lock_get :: "'a pm_mach_scheme \<Rightarrow> 'a pm_mach_scheme option" where
  "pm_lock_get s = (if pm_secure_lock s then None else Some (s\<lparr>pm_secure_lock := True\<rparr>))"

definition pm_lock_release :: "'a pm_mach_scheme \<Rightarrow> 'a pm_mach_scheme" where
  "pm_lock_release s = s\<lparr>pm_secure_lock := False\<rparr>"

section \<open>The channel (pm_ipi.c)\<close>

definition pm_ipi_init :: "pm_proc \<Rightarrow> 'a pm_mach_scheme \<Rightarrow> (int \<times> 'a pm_mach_scheme) option" where
  "pm_ipi_init proc s = do {
     let s = s\<lparr>pm_secure_lock := False\<rparr>;
     s \<leftarrow> ipi_mb_open (local_ipi_id (ipi proc)) (remote_ipi_id (ipi proc)) s;
     Some (0, s)
   }"

definition req_words :: "pm_proc \<Rightarrow> payload \<Rightarrow> (addr \<times> u32) list" where
  "req_words proc payload =
     map (\<lambda>i. (buffer_base (ipi proc) + IPI_BUFFER_TARGET_REMOTE_OFFSET + IPI_BUFFER_REQ_OFFSET
                 + of_nat (i * PAYLOAD_ARG_SIZE), payload i)) [0..<PAYLOAD_ARG_CNT]"

definition pm_ipi_send_common ::
  "pm_proc \<Rightarrow> payload \<Rightarrow> bool \<Rightarrow> 'a pm_mach_scheme \<Rightarrow> (u32 \<times> 'a pm_mach_scheme) option" where
  "pm_ipi_send_common proc payload is_blocking s = do {
     let s = write_words (req_words proc payload) s;
     s \<leftarrow> ipi_mb_notify (local_ipi_id (ipi proc)) (remote_ipi_id (ipi proc)) is_blocking s;
     Some (PM_RET_SUCCESS, s)
   }"

definition pm_ipi_send_non_blocking :: "pm_proc \<Rightarrow> payload \<Rightarrow> 'a pm_mach_scheme \<Rightarrow> (u32 \<times> 'a pm_mach_scheme) option" where
  "pm_ipi_send_non_blocking proc payload s = do {
     s \<leftarrow> pm_lock_get s;
     (ret, s) \<leftarrow> pm_ipi_send_common proc payload IPI_NON_BLOCKING s;
     Some (ret, pm_lock_release s)
   }"

definition pm_ipi_send :: "pm_proc \<Rightarrow> payload \<Rightarrow> 'a pm_mach_scheme \<Rightarrow> (u32 \<times> 'a pm_mach_scheme) option" where
  "pm_ipi_send proc payload s = do {
     s \<leftarrow> pm_lock_get s;
     (ret, s) \<leftarrow> pm_ipi_send_common proc payload IPI_BLOCKING s;
     Some (ret, pm_lock_release s)
   }"

text \<open>The words stored through \<open>value\<close> are returned next to the status.\<close>

definition resp_addr :: "pm_proc \<Rightarrow> nat \<Rightarrow> addr" where
  "resp_addr proc i = buffer_base (ipi proc) + IPI_BUFFER_TARGET_REMOTE_OFFSET + IPI_BUFFER_RESP_OFFSET
     + of_nat (i * PAYLOAD_ARG_SIZE)"

definition pm_ipi_buff_read :: "pm_proc \<Rightarrow> nat \<Rightarrow> 'a pm_mach_scheme \<Rightarrow> (u32 \<times> u32 list) \<times> 'a pm_mach_scheme" where
  "pm_ipi_buff_read proc count s =
     (let (vs, s) = read_words (map (resp_addr proc) [1..<Suc count]) s;
          (r, s) = mmio_read_32 (resp_addr proc 0) s
      in ((r, vs), s))"

definition pm_ipi_buff_read_callb :: "nat \<Rightarrow> 'a pm_mach_scheme \<Rightarrow> u32 list \<times> 'a pm_mach_scheme" where
  "pm_ipi_buff_read_callb count s =
     (let base = IPI_BUFFER_REMOTE_BASE + IPI_BUFFER_TARGET_LOCAL_OFFSET + IPI_BUFFER_REQ_OFFSET;
          count = (if count > IPI_BUFFER_MAX_WORDS then IPI_BUFFER_MAX_WORDS else count)
      in read_words (map (\<lambda>i. base + of_nat (i * PAYLOAD_ARG_SIZE)) [0..<Suc count]) s)"

definition pm_ipi_send_sync ::
  "pm_proc \<Rightarrow> payload \<Rightarrow> nat \<Rightarrow> 'a pm_mach_scheme \<Rightarrow> ((u32 \<times> u32 list) \<times> 'a pm_mach_scheme) option" where
  "pm_ipi_send_sync proc payload count s = do {
     s \<leftarrow> pm_lock_get s;
     (ret, s) \<leftarrow> pm_ipi_send_common proc payload IPI_BLOCKING s;
     if ret \<noteq> PM_RET_SUCCESS then Some ((ret, []), pm_lock_release s)
     else let ((r, vs), s) = pm_ipi_buff_read proc count s
          in Some ((ERROR_CODE_MASK AND r, vs), pm_lock_release s)
   }"

definition pm_ipi_irq_enable :: "pm_proc \<Rightarrow> 'a pm_mach_scheme \<Rightarrow> 'a pm_mach_scheme option" where
  "pm_ipi_irq_enable proc s = ipi_mb_enable_irq (local_ipi_id (ipi proc)) (remote_ipi_id (ipi proc)) s"

definition pm_ipi_irq_clear :: "pm_proc \<Rightarrow> 'a pm_mach_scheme \<Rightarrow> 'a pm_mach_scheme option" where
  "pm_ipi_irq_clear proc s = ipi_mb_ack (local_ipi_id (ipi proc)) (remote_ipi_id (ipi proc)) s"

definition pm_ipi_irq_status :: "pm_proc \<Rightarrow> 'a pm_mach_scheme \<Rightarrow> (u32 \<times> 'a pm_mach_scheme) option" where
  "pm_ipi_irq_status proc s = do {
     (ret, s) \<leftarrow> ipi_mb_enquire_status (local_ipi_id (ipi proc)) (remote_ipi_id (ipi proc)) s;
     if ret AND IPI_MB_STATUS_RECV_PENDING \<noteq> 0 then Some (1, s) else Some (0, s)
   }"

section \<open>What the channel does\<close>

text \<open>The processor's channel leads from agent \<open>l\<close> to agent \<open>r\<close> of the table, and its request buffer is not
  the observation register.\<close>

definition obr_addr :: "ipi_config \<Rightarrow> addr" where
  "obr_addr c = ucast (ipi_reg_base c + IPI_OBR_OFFSET)"

definition pm_chan :: "pm_proc \<Rightarrow> ipi_config \<Rightarrow> ipi_config \<Rightarrow> 'a pm_mach_scheme \<Rightarrow> bool" where
  "pm_chan proc l r s \<longleftrightarrow> ipi_ent (local_ipi_id (ipi proc)) s = Some l \<and>
     ipi_ent (remote_ipi_id (ipi proc)) s = Some r \<and> obr_addr l \<notin> fst ` set (req_words proc (\<lambda>_. 0))"

lemma req_words_dom: "fst ` set (req_words proc p) = fst ` set (req_words proc q)"
  by (simp add: req_words_def image_image)

lemma upt_0_6: "[0..<6] = [0, 1, 2, 3, 4, 5 :: nat]"
  by code_simp

lemma req_words_length [simp]: "length (req_words proc p) = 6"
  by (simp add: req_words_def)

text \<open>Fields of extensions are determined by \<open>mach.more\<close>.\<close>

lemma same_more_fields:
  "mach.more s' = mach.more s \<Longrightarrow> ipi_ent i s' = ipi_ent i s"
  "mach.more s' = mach.more s \<Longrightarrow> pm_secure_lock s' = pm_secure_lock s"
  "mach.more s' = mach.more s \<Longrightarrow> stack_junk s' = stack_junk s"
  by (cases s, cases s', simp add: ipi_ent_def)+

text \<open>A blocking notification: the trigger, and the polls of the observation register up to the first
  that shows the bit clear.\<close>

definition polled_clear :: "u32 \<Rightarrow> u32 list \<Rightarrow> bool" where
  "polled_clear m ps \<longleftrightarrow> ps \<noteq> [] \<and> last ps AND m = 0 \<and> (\<forall>p \<in> set (butlast ps). p AND m \<noteq> 0)"

lemma notify_trace:
  assumes ents: "ipi_ent l s = Some cl" "ipi_ent r s = Some cr"
    and ret: "ipi_mb_notify l r True s = Some s'"
  obtains ps where "polled_clear (ipi_bit_mask cr) ps" and "mach.more s' = mach.more s" and "m_hw s' = m_hw s"
    and "m_evs s' = m_evs s @ [WR (ucast (ipi_reg_base cl)) (ipi_bit_mask cr)] @ map (RD (obr_addr cl)) ps"
proof -
  define rd :: "'a ipi_mach_scheme \<Rightarrow> _" where "rd = mmio_read_32 (obr_addr cl)"
  define s1 where "s1 = mmio_write_32 (ucast (ipi_reg_base cl)) (ipi_bit_mask cr) s"
  from ret obtain q where q: "do_poll rd (\<lambda>v. v AND ipi_bit_mask cr = 0) s1 = Some q" and s': "s' = snd q"
    by (auto simp: ipi_mb_notify_eq [OF ents] rd_def s1_def obr_addr_def)
  from do_poll_Some_first [OF q] obtain n where n: "q = rd (after_reads rd n s1)" "fst q AND ipi_bit_mask cr = 0"
    "\<And>i. i < n \<Longrightarrow> fst (rd (after_reads rd i s1)) AND ipi_bit_mask cr \<noteq> 0" by blast
  define v where "v i = m_hw s1 (m_now s1 + i) (obr_addr cl) (m_regs s1 (obr_addr cl))" for i
  have v: "fst (rd (after_reads rd i s1)) = v i" for i
    by (simp add: rd_def v_def)
  show ?thesis
  proof (rule that)
    show "polled_clear (ipi_bit_mask cr) (map v [0..<Suc n])"
      using n v by (auto simp: polled_clear_def)
    show "m_evs s' = m_evs s @ [WR (ucast (ipi_reg_base cl)) (ipi_bit_mask cr)] @ map (RD (obr_addr cl)) (map v [0..<Suc n])"
      by (simp add: s' n(1) rd_def after_register_reads_evs s1_def v_def)
  qed (simp_all add: s' n(1) rd_def s1_def)
qed

lemma send_common_trace:
  assumes chan: "pm_chan proc cl cr s" and ret: "pm_ipi_send_common proc payload True s = Some (st, s')"
  obtains ps where "polled_clear (ipi_bit_mask cr) ps" and "mach.more s' = mach.more s" and "m_hw s' = m_hw s" and "st = 0"
    and "m_evs s' = m_evs s @ map (\<lambda>(a, v). WR a v) (req_words proc payload) @
      [WR (ucast (ipi_reg_base cl)) (ipi_bit_mask cr)] @ map (RD (obr_addr cl)) ps"
proof -
  define t where "t = write_words (req_words proc payload) s"
  have more: "mach.more t = mach.more s" by (simp add: t_def)
  have ents: "ipi_ent (local_ipi_id (ipi proc)) t = Some cl" "ipi_ent (remote_ipi_id (ipi proc)) t = Some cr"
    using chan same_more_fields(1) [OF more] by (simp_all add: pm_chan_def)
  from ret have "ipi_mb_notify (local_ipi_id (ipi proc)) (remote_ipi_id (ipi proc)) True t = Some s'" and "st = 0"
    by (auto simp: pm_ipi_send_common_def t_def Let_def split: bind_splits)
  with notify_trace [OF ents] obtain ps where
    "polled_clear (ipi_bit_mask cr) ps" "mach.more s' = mach.more t" "m_hw s' = m_hw t"
    "m_evs s' = m_evs t @ [WR (ucast (ipi_reg_base cl)) (ipi_bit_mask cr)] @ map (RD (obr_addr cl)) ps" by metis
  with \<open>st = 0\<close> show ?thesis by (intro that) (simp_all add: t_def)
qed

lemma unlock_more:
  assumes "mach.more t = mach.more (s\<lparr>pm_secure_lock := True\<rparr>)" and "\<not> pm_secure_lock s"
  shows "mach.more (pm_lock_release t) = mach.more s"
  using assms by (cases s, cases t) (simp add: pm_lock_release_def)

lemma lock_fields [simp]:
  "m_evs (pm_lock_release s) = m_evs s" "m_hw (pm_lock_release s) = m_hw s"
  "m_now (pm_lock_release s) = m_now s" "m_regs (pm_lock_release s) = m_regs s"
  "pm_secure_lock (pm_lock_release s) = False"
  by (simp_all add: pm_lock_release_def)

lemma pm_chan_lock [simp]: "pm_chan proc l r (s\<lparr>pm_secure_lock := b\<rparr>) = pm_chan proc l r s"
  by (simp add: pm_chan_def ipi_ent_def)

text \<open>The trace of a synchronous request.\<close>

definition sync_trace :: "pm_proc \<Rightarrow> ipi_config \<Rightarrow> ipi_config \<Rightarrow> payload \<Rightarrow> u32 list \<Rightarrow> u32 list \<Rightarrow> u32 \<Rightarrow> ioev list" where
  "sync_trace proc l r payload ps vs v0 =
     map (\<lambda>(a, v). WR a v) (req_words proc payload) @
     [WR (ucast (ipi_reg_base l)) (ipi_bit_mask r)] @
     map (RD (obr_addr l)) ps @
     map2 RD (map (resp_addr proc) [1..<Suc (length vs)]) vs @
     [RD (resp_addr proc 0) v0]"

lemma send_sync_trace:
  assumes chan: "pm_chan proc cl cr s" and ret: "pm_ipi_send_sync proc payload count s = Some ((st, vs), s')"
  obtains ps v0 where "polled_clear (ipi_bit_mask cr) ps" and "st = ERROR_CODE_MASK AND v0" and "length vs = count"
    and "m_evs s' = m_evs s @ sync_trace proc cl cr payload ps vs v0"
    and "mach.more s' = mach.more s" and "m_hw s' = m_hw s" and "\<not> pm_secure_lock s'"
proof -
  from ret have free: "\<not> pm_secure_lock s" by (auto simp: pm_ipi_send_sync_def pm_lock_get_def split: if_splits)
  define s0 where "s0 = s\<lparr>pm_secure_lock := True\<rparr>"
  from ret free obtain t where t: "pm_ipi_send_common proc payload True s0 = Some (0, t)"
    and r: "(st, vs) = (ERROR_CODE_MASK AND fst (fst (pm_ipi_buff_read proc count t)), snd (fst (pm_ipi_buff_read proc count t)))"
      "s' = pm_lock_release (snd (pm_ipi_buff_read proc count t))"
    by (auto simp: pm_ipi_send_sync_def pm_lock_get_def s0_def pm_ipi_send_common_def case_prod_unfold Let_def split: bind_splits)
  have "pm_chan proc cl cr s0" using chan by (simp add: s0_def)
  from send_common_trace [OF this t] obtain ps where ps: "polled_clear (ipi_bit_mask cr) ps" "mach.more t = mach.more s0" "m_hw t = m_hw s0"
    "m_evs t = m_evs s0 @ map (\<lambda>(a, v). WR a v) (req_words proc payload) @
      [WR (ucast (ipi_reg_base cl)) (ipi_bit_mask cr)] @ map (RD (obr_addr cl)) ps" by metis
  show ?thesis
  proof (rule that [OF ps(1)])
    show "st = ERROR_CODE_MASK AND fst (fst (pm_ipi_buff_read proc count t))" "length vs = count"
      using r by (simp_all add: pm_ipi_buff_read_def case_prod_unfold Let_def)
    show "m_evs s' = m_evs s @ sync_trace proc cl cr payload ps vs (fst (fst (pm_ipi_buff_read proc count t)))"
      using r ps(4) by (simp add: pm_ipi_buff_read_def case_prod_unfold Let_def s0_def sync_trace_def read_words_evs del: upt_Suc)
    show "mach.more s' = mach.more s"
      using ps(2) free unfolding r s0_def
      by (intro unlock_more) (simp_all add: pm_ipi_buff_read_def case_prod_unfold Let_def)
  qed (use ps r in \<open>simp_all add: pm_ipi_buff_read_def case_prod_unfold Let_def s0_def\<close>)
qed

text \<open>When a request returns.\<close>

lemma send_common_None:
  assumes "pm_chan proc cl cr s"
  shows "pm_ipi_send_common proc payload True s = None \<longleftrightarrow>
    (\<forall>n. m_hw s (m_now s + 7 + n) (obr_addr cl) (m_regs s (obr_addr cl)) AND ipi_bit_mask cr \<noteq> 0)"
proof -
  define t where "t = write_words (req_words proc payload) s"
  have ents: "ipi_ent (local_ipi_id (ipi proc)) t = Some cl" "ipi_ent (remote_ipi_id (ipi proc)) t = Some cr"
    using assms same_more_fields(1) [of t s] by (simp_all add: pm_chan_def t_def)
  have "m_regs t (obr_addr cl) = m_regs s (obr_addr cl)"
    unfolding t_def by (rule write_words_regs) (use assms req_words_dom in \<open>simp add: pm_chan_def, metis\<close>)
  then have "obr_reads cl n t = m_hw s (m_now s + 7 + n) (obr_addr cl) (m_regs s (obr_addr cl))" for n
    by (simp add: obr_reads_def obr_addr_def t_def Let_def add_ac)
  with ipi_mb_notify_None [OF ents] show ?thesis
    by (simp add: pm_ipi_send_common_def t_def [symmetric] bind_eq_None_conv)
qed

lemma send_sync_None:
  assumes "pm_chan proc cl cr s"
  shows "pm_ipi_send_sync proc payload count s = None \<longleftrightarrow> pm_secure_lock s \<or>
    (\<forall>n. m_hw s (m_now s + 7 + n) (obr_addr cl) (m_regs s (obr_addr cl)) AND ipi_bit_mask cr \<noteq> 0)"
  using send_common_None [of proc cl cr "s\<lparr>pm_secure_lock := True\<rparr>" payload] assms
  by (auto simp: pm_ipi_send_sync_def pm_lock_get_def bind_eq_None_conv case_prod_unfold Let_def)

section \<open>The channel of the APU (pm_client.c)\<close>

abbreviation (input) NODE_APU_0 :: u32 where "NODE_APU_0 \<equiv> 2"
abbreviation (input) NODE_APU_1 :: u32 where "NODE_APU_1 \<equiv> 3"
abbreviation (input) NODE_APU_2 :: u32 where "NODE_APU_2 \<equiv> 4"
abbreviation (input) NODE_APU_3 :: u32 where "NODE_APU_3 \<equiv> 5"

definition apu_ipi :: pm_ipi where
  "apu_ipi = \<lparr>local_ipi_id = IPI_ID_APU, remote_ipi_id = IPI_ID_PMU0, buffer_base = IPI_BUFFER_APU_BASE\<rparr>"

definition pm_procs_all :: "pm_proc list" where
  "pm_procs_all = [
     \<lparr>node_id = NODE_APU_0, pwrdn_mask = 1, ipi = apu_ipi\<rparr>,
     \<lparr>node_id = NODE_APU_1, pwrdn_mask = 2, ipi = apu_ipi\<rparr>,
     \<lparr>node_id = NODE_APU_2, pwrdn_mask = 4, ipi = apu_ipi\<rparr>,
     \<lparr>node_id = NODE_APU_3, pwrdn_mask = 8, ipi = apu_ipi\<rparr>]"

definition primary_proc :: pm_proc where
  "primary_proc = pm_procs_all ! 0"

text \<open>All processors of the table share one channel.\<close>

lemma send_sync_proc:
  assumes "ipi p = ipi q"
  shows "pm_ipi_send_sync p = pm_ipi_send_sync q"
proof -
  have "req_words p = req_words q" "resp_addr p = resp_addr q"
    by (simp_all add: fun_eq_iff req_words_def resp_addr_def assms)
  then show ?thesis
    by (intro ext) (simp add: pm_ipi_send_sync_def pm_ipi_send_common_def pm_ipi_buff_read_def assms)
qed

lemma primary_ipi [simp]: "ipi primary_proc = apu_ipi"
  by (simp add: primary_proc_def pm_procs_all_def)

lemma procs_ipi: "p \<in> set pm_procs_all \<Longrightarrow> ipi p = apu_ipi"
  by (auto simp: pm_procs_all_def)

text \<open>
  The channel is idle: the lock is free and the agent table is the one of the chip.
  \<open>pmu_takes s\<close>: after a request is triggered, the PMU clears the APU's observation bit at some poll.
\<close>

definition pm_idle :: "'a pm_mach_scheme \<Rightarrow> bool" where
  "pm_idle s \<longleftrightarrow> \<not> pm_secure_lock s \<and> ipi_table s = zynqmp_ipi_table"

definition pmu_takes :: "'a pm_mach_scheme \<Rightarrow> bool" where
  "pmu_takes s \<longleftrightarrow> (\<exists>n. m_hw s (m_now s + 7 + n) 0xFF300004 (m_regs s 0xFF300004) AND 0x10000 = 0)"

lemma pm_idle_chan: "pm_idle s \<Longrightarrow> pm_chan primary_proc (zynqmp_ipi_table ! 0) (zynqmp_ipi_table ! 3) s"
  by (simp add: pm_idle_def pm_chan_def ipi_ent_def apu_ipi_def req_words_def obr_addr_def zynqmp_ipi_table_def upt_0_6)

lemma apu_agents:
  "obr_addr (zynqmp_ipi_table ! 0) = 0xFF300004" "ipi_reg_base (zynqmp_ipi_table ! 0) = 0xFF300000"
  "ipi_bit_mask (zynqmp_ipi_table ! 3) = 0x10000"
  by (simp_all add: zynqmp_ipi_table_def obr_addr_def)

lemma pm_idle_more: "mach.more s' = mach.more s \<Longrightarrow> pm_idle s' = pm_idle s"
  by (cases s, cases s') (simp add: pm_idle_def)

section \<open>The contract of the channel\<close>

text \<open>
  What the power management API relies on: a request that returns leaves the channel idle, its
  status has 16 bits, and it delivers as many words as were asked for.  When every request returns,
  so does every computation that reaches the firmware only through requests, and it leaves the
  channel idle.
\<close>

locale pm_channel =
  fixes send :: "payload \<Rightarrow> nat \<Rightarrow> 's \<Rightarrow> ((u32 \<times> u32 list) \<times> 's) option" and idle :: "'s \<Rightarrow> bool"
  assumes send_idle: "idle s \<Longrightarrow> send p n s = Some ((st, vs), s') \<Longrightarrow> idle s'"
    and send_status: "idle s \<Longrightarrow> send p n s = Some ((st, vs), s') \<Longrightarrow> st \<le> 0xFFFF"
    and send_values: "idle s \<Longrightarrow> send p n s = Some ((st, vs), s') \<Longrightarrow> length vs = n"

locale pm_live_channel = pm_channel send idle
  for send :: "payload \<Rightarrow> nat \<Rightarrow> 's \<Rightarrow> ((u32 \<times> u32 list) \<times> 's) option" and idle +
  assumes send_total: "idle s \<Longrightarrow> send p n s \<noteq> None"
begin

definition runs :: "('s \<Rightarrow> ('r \<times> 's) option) \<Rightarrow> bool" where
  "runs f \<longleftrightarrow> (\<forall>s. idle s \<longrightarrow> (\<exists>r s'. f s = Some (r, s') \<and> idle s'))"

lemma runsI: "(\<And>s. idle s \<Longrightarrow> \<exists>r s'. f s = Some (r, s') \<and> idle s') \<Longrightarrow> runs f"
  by (simp add: runs_def)

lemma runsD: "runs f \<Longrightarrow> idle s \<Longrightarrow> \<exists>r s'. f s = Some (r, s') \<and> idle s'"
  by (simp add: runs_def)

lemma runsE:
  assumes "runs f" and "idle s" obtains r s' where "f s = Some (r, s')" and "idle s'"
  using runsD [OF assms] by blast

lemma runs_send: "runs (\<lambda>s. send (p s) n s)"
proof (rule runsI)
  fix s assume "idle s"
  with send_total obtain st vs s' where "send (p s) n s = Some ((st, vs), s')" by (metis not_None_eq prod.collapse)
  with send_idle [OF \<open>idle s\<close> this] show "\<exists>r s'. send (p s) n s = Some (r, s') \<and> idle s'" by blast
qed

lemma runs_upd: "(\<And>s. idle s \<Longrightarrow> idle (g s)) \<Longrightarrow> runs (\<lambda>s. Some (v s, g s))"
  by (simp add: runs_def)

lemma runs_bind:
  assumes f: "runs f" and g: "\<And>r. runs (g r)"
  shows "runs (\<lambda>s. f s \<bind> (\<lambda>(r, s). g r s))"
proof (rule runsI)
  fix s assume "idle s"
  with f obtain r t where t: "f s = Some (r, t)" "idle t" by (rule runsE)
  with runsD [OF g t(2)] show "\<exists>r s'. f s \<bind> (\<lambda>(r, s). g r s) = Some (r, s') \<and> idle s'" by simp
qed

lemma runs_pre:
  assumes "runs f" and "\<And>s. idle s \<Longrightarrow> idle (g s)"
  shows "runs (\<lambda>s. f (g s))"
  by (rule runsI) (rule runsD [OF assms(1)], rule assms(2))

lemma runs_if:
  assumes "runs f" and "runs g"
  shows "runs (\<lambda>s. if b s then f s else g s)"
  by (rule runsI) (auto dest: runsD [OF assms(1)] runsD [OF assms(2)])

lemma runs_at: "(\<And>v. runs (f v)) \<Longrightarrow> runs (\<lambda>s. f (x s) s)"
  by (simp add: runs_def)

lemma runs_prod: "(\<And>a b. runs (f a b)) \<Longrightarrow> runs (case_prod f r)"
  by (cases r) simp

lemma runs_option: "runs f \<Longrightarrow> (\<And>i. runs (g i)) \<Longrightarrow> runs (\<lambda>s. case p s of None \<Rightarrow> f s | Some i \<Rightarrow> g i s)"
  by (auto simp: runs_def split: option.splits)

lemma runs_let: "(\<And>v. runs (f v)) \<Longrightarrow> runs (\<lambda>s. let v = x s in f v s)"
  by (simp add: runs_def Let_def)

end

interpretation pmch: pm_channel "pm_ipi_send_sync primary_proc" pm_idle
proof
  fix s s' :: "'a pm_mach_scheme" and p n st vs
  assume "pm_idle s" and "pm_ipi_send_sync primary_proc p n s = Some ((st, vs), s')"
  from send_sync_trace [OF pm_idle_chan [OF this(1)] this(2)]
  have *: "length vs = n \<and> mach.more s' = mach.more s \<and> (\<exists>v0. st = ERROR_CODE_MASK AND v0)" by metis
  then show "length vs = n" by simp
  from * show "pm_idle s'" using \<open>pm_idle s\<close> pm_idle_more by metis
  from * show "st \<le> 0xFFFF" by (metis word_and_le1 and.commute)
qed

section \<open>Properties\<close>

definition apu_trace :: "payload \<Rightarrow> u32 list \<Rightarrow> u32 list \<Rightarrow> u32 \<Rightarrow> ioev list" where
  "apu_trace payload ps vs v0 =
     map (\<lambda>i. WR (0xFF9905C0 + of_nat (i * 4)) (payload i)) [0..<6] @
     [WR 0xFF300000 0x10000] @
     map (RD 0xFF300004) ps @
     map2 (\<lambda>i. RD (0xFF9905E0 + of_nat (i * 4))) [1..<Suc (length vs)] vs @
     [RD 0xFF9905E0 v0]"

lemma sync_trace_apu:
  "sync_trace primary_proc (zynqmp_ipi_table ! 0) (zynqmp_ipi_table ! 3) payload ps vs v0 = apu_trace payload ps vs v0"
  by (simp add: sync_trace_def apu_trace_def apu_agents req_words_def resp_addr_def apu_ipi_def zip_map1
      case_prod_unfold o_def del: upt_Suc)

lemma send_sync_apu:
  assumes idle: "pm_idle s" and ret: "pm_ipi_send_sync primary_proc payload count s = Some ((st, vs), s')"
  obtains ps v0 where "polled_clear 0x10000 ps" "st = ERROR_CODE_MASK AND v0" "length vs = count"
    "m_evs s' = m_evs s @ apu_trace payload ps vs v0" "mach.more s' = mach.more s" "m_hw s' = m_hw s" "pm_idle s'"
  using send_sync_trace [OF pm_idle_chan [OF idle] ret] pm_idle_more idle
  by (metis sync_trace_apu apu_agents(3))

lemma send_sync_returns:
  assumes "pm_idle s"
  shows "pm_ipi_send_sync primary_proc payload count s = None \<longleftrightarrow> \<not> pmu_takes s"
  using send_sync_None [OF pm_idle_chan [OF assms], of payload count] assms
  by (simp add: pmu_takes_def pm_idle_def apu_agents)

text \<open>
  The decoder of a trace: the words in the request buffer at each trigger of the channel, \<open>buf\<close> being
  what the buffer held before.
\<close>

fun pm_reqs :: "(addr \<Rightarrow> u32) \<Rightarrow> ioev list \<Rightarrow> u32 list list" where
  "pm_reqs buf [] = []"
| "pm_reqs buf (WR a v # es) =
     (if a = 0xFF300000 then map (\<lambda>i. buf (0xFF9905C0 + of_nat (i * 4))) [0..<6] # pm_reqs buf es
      else pm_reqs (buf(a := v)) es)"
| "pm_reqs buf (_ # es) = pm_reqs buf es"

fun buf_after :: "(addr \<Rightarrow> u32) \<Rightarrow> ioev list \<Rightarrow> addr \<Rightarrow> u32" where
  "buf_after buf [] = buf"
| "buf_after buf (WR a v # es) = buf_after (if a = 0xFF300000 then buf else buf(a := v)) es"
| "buf_after buf (_ # es) = buf_after buf es"

lemma pm_reqs_append: "pm_reqs buf (es @ fs) = pm_reqs buf es @ pm_reqs (buf_after buf es) fs"
proof (induction es arbitrary: buf)
  case (Cons e es)
  then show ?case by (cases e) (simp_all add: fun_upd_def)
qed simp

lemma pm_reqs_reads: "pm_reqs buf (map2 (\<lambda>i. RD (f i)) is vs) = []" "pm_reqs buf (map (RD a) ps) = []"
proof -
  show "pm_reqs buf (map2 (\<lambda>i. RD (f i)) is vs) = []"
    by (induction "is" arbitrary: vs) (auto simp: zip_Cons1 split: list.splits)
  show "pm_reqs buf (map (RD a) ps) = []" by (induction ps) simp_all
qed

lemma pm_reqs_apu: "pm_reqs buf (apu_trace p ps vs v0) = [map p [0..<6]]"
proof -
  have six: "[0..<6] = [0, 1, 2, 3, 4, 5 :: nat]" by code_simp
  show ?thesis by (simp add: apu_trace_def pm_reqs_append pm_reqs_reads six)
qed

text \<open>
  C26. The protocol of a synchronous request.  With the channel idle, a request to the power
  management firmware returns exactly when the firmware takes the interrupt, and then the bus shows
  the six words of the request in order in the APU's buffer, only then the trigger towards PMU0,
  polls of the observation register up to the first that shows the request taken, and only then the
  response words, the status word last; the caller gets the low 16 bits of the status word and the
  response words read, the lock is free again and no other variable has changed.
\<close>

theorem pm_sync_protocol:
  assumes idle: "pm_idle s"
  shows "if pmu_takes s
    then \<exists>v0 ps vs s'. pm_ipi_send_sync primary_proc payload count s = Some ((ERROR_CODE_MASK AND v0, vs), s') \<and>
      since s s' = apu_trace payload ps vs v0 \<and> polled_clear 0x10000 ps \<and> length vs = count \<and>
      pm_idle s' \<and> mach.more s' = mach.more s
    else pm_ipi_send_sync primary_proc payload count s = None"
proof (cases "pm_ipi_send_sync primary_proc payload count s")
  case None
  then show ?thesis using send_sync_returns [OF idle] by metis
next
  case (Some q)
  obtain st vs s' where q: "q = ((st, vs), s')" by (metis prod.collapse)
  from send_sync_apu [OF idle Some [unfolded q]] obtain ps v0 where
    "polled_clear 0x10000 ps" "st = ERROR_CODE_MASK AND v0" "length vs = count"
    "m_evs s' = m_evs s @ apu_trace payload ps vs v0" "mach.more s' = mach.more s" "pm_idle s'" by metis
  then show ?thesis using Some q send_sync_returns [OF idle, of payload count] by (auto simp: since_def)
qed

definition test_pm :: "(nat \<Rightarrow> addr \<Rightarrow> u32 \<Rightarrow> u32) \<Rightarrow> pm_mach" where
  "test_pm hw = ipi_mach.extend (test_ipi hw) \<lparr>pm_secure_lock = False, stack_junk = (\<lambda>t k. 0xDEAD)\<rparr>"

lemma test_pm_idle [simp]: "pm_idle (test_pm hw)"
  by (simp add: test_pm_def pm_idle_def test_ipi_simps ipi_mach.defs)

theorem pm_sync_protocol_witness:
  "\<exists>v0 ps vs s'. pm_ipi_send_sync primary_proc (\<lambda>i. of_nat i) 1 (test_pm (\<lambda>t a v. 0)) = Some ((ERROR_CODE_MASK AND v0, vs), s') \<and>
     since (test_pm (\<lambda>t a v. 0)) s' = apu_trace (\<lambda>i. of_nat i) ps vs v0 \<and> length vs = 1"
proof -
  have "pmu_takes (test_pm (\<lambda>t a v. 0))" by (simp add: pmu_takes_def test_pm_def test_ipi_simps ipi_mach.defs)
  then show ?thesis using pm_sync_protocol [OF test_pm_idle, of "\<lambda>t a v. 0" "\<lambda>i. of_nat i" 1] by auto
qed

end
