(* ===== verification/PM_Client.thy ===== *)
theory PM_Client
  imports PM_IPI
begin

text \<open>
  The processor specific part of power management (\<open>plat/xilinx/zynqmp/pm_service/pm_client.c\<close>):
  the map from interrupts to power nodes, the wake-up sources that are handed to the power
  management firmware before a suspend, and the power-down request bits of the cores.  The request
  \<open>pm_set_wakeup_source\<close> of \<open>pm_api_sys.c\<close>, which this part calls, and the packing of requests
  are here as well.  A node identifier is a 32-bit word, as the callers pass any value for it.
\<close>

section \<open>Constants and state (pm_defs.h, pm_client.c)\<close>

abbreviation (input) NODE_UNKNOWN :: u32 where "NODE_UNKNOWN \<equiv> 0"
abbreviation (input) NODE_APU :: u32 where "NODE_APU \<equiv> 1"
abbreviation (input) NODE_USB_0 :: u32 where "NODE_USB_0 \<equiv> 22"
abbreviation (input) NODE_USB_1 :: u32 where "NODE_USB_1 \<equiv> 23"
abbreviation (input) NODE_TTC_0 :: u32 where "NODE_TTC_0 \<equiv> 24"
abbreviation (input) NODE_TTC_1 :: u32 where "NODE_TTC_1 \<equiv> 25"
abbreviation (input) NODE_TTC_2 :: u32 where "NODE_TTC_2 \<equiv> 26"
abbreviation (input) NODE_TTC_3 :: u32 where "NODE_TTC_3 \<equiv> 27"
abbreviation (input) NODE_ETH_0 :: u32 where "NODE_ETH_0 \<equiv> 29"
abbreviation (input) NODE_ETH_1 :: u32 where "NODE_ETH_1 \<equiv> 30"
abbreviation (input) NODE_ETH_2 :: u32 where "NODE_ETH_2 \<equiv> 31"
abbreviation (input) NODE_ETH_3 :: u32 where "NODE_ETH_3 \<equiv> 32"
abbreviation (input) NODE_UART_0 :: u32 where "NODE_UART_0 \<equiv> 33"
abbreviation (input) NODE_UART_1 :: u32 where "NODE_UART_1 \<equiv> 34"
abbreviation (input) NODE_SPI_0 :: u32 where "NODE_SPI_0 \<equiv> 35"
abbreviation (input) NODE_SPI_1 :: u32 where "NODE_SPI_1 \<equiv> 36"
abbreviation (input) NODE_I2C_0 :: u32 where "NODE_I2C_0 \<equiv> 37"
abbreviation (input) NODE_I2C_1 :: u32 where "NODE_I2C_1 \<equiv> 38"
abbreviation (input) NODE_SD_0 :: u32 where "NODE_SD_0 \<equiv> 39"
abbreviation (input) NODE_SD_1 :: u32 where "NODE_SD_1 \<equiv> 40"
abbreviation (input) NODE_ADMA :: u32 where "NODE_ADMA \<equiv> 43"
abbreviation (input) NODE_NAND :: u32 where "NODE_NAND \<equiv> 44"
abbreviation (input) NODE_QSPI :: u32 where "NODE_QSPI \<equiv> 45"
abbreviation (input) NODE_GPIO :: u32 where "NODE_GPIO \<equiv> 46"
abbreviation (input) NODE_CAN_0 :: u32 where "NODE_CAN_0 \<equiv> 47"
abbreviation (input) NODE_CAN_1 :: u32 where "NODE_CAN_1 \<equiv> 48"
abbreviation (input) NODE_EXTERN :: u32 where "NODE_EXTERN \<equiv> 49"
abbreviation (input) NODE_RTC :: u32 where "NODE_RTC \<equiv> 61"
abbreviation (input) NODE_MAX :: u32 where "NODE_MAX \<equiv> 78"
abbreviation (input) PM_SET_WAKEUP_SOURCE :: u32 where "PM_SET_WAKEUP_SOURCE \<equiv> 11"
abbreviation (input) PM_RET_ERROR_ARGS :: u32 where "PM_RET_ERROR_ARGS \<equiv> 1"
abbreviation (input) PM_STATE_SUSPEND_TO_RAM :: u32 where "PM_STATE_SUSPEND_TO_RAM \<equiv> 0xF"
abbreviation (input) PM_SUSPEND_MODE_STD :: u32 where "PM_SUSPEND_MODE_STD \<equiv> 0"
abbreviation (input) PM_SUSPEND_MODE_POWER_OFF :: u32 where "PM_SUSPEND_MODE_POWER_OFF \<equiv> 1"
abbreviation (input) UNDEFINED_CPUID :: u32 where "UNDEFINED_CPUID \<equiv> - 1"
abbreviation (input) IRQ_MAX :: u32 where "IRQ_MAX \<equiv> 84"
abbreviation (input) NUM_GICD_ISENABLER :: nat where "NUM_GICD_ISENABLER \<equiv> 3"
abbreviation (input) APU_PWRCTL :: addr where "APU_PWRCTL \<equiv> 0xFD5C0090"

record pmc_mach = pm_mach +
  suspend_mode :: u32
  pm_client_secure_lock :: bool

lemma pmc_fields [bus_simps]:
  "suspend_mode (mmio_write_32 a v s) = suspend_mode s"
  "pm_client_secure_lock (mmio_write_32 a v s) = pm_client_secure_lock s"
  "suspend_mode (snd (mmio_read_32 a s)) = suspend_mode s"
  "pm_client_secure_lock (snd (mmio_read_32 a s)) = pm_client_secure_lock s"
  "suspend_mode (mmio_write_8 a b s) = suspend_mode s"
  "pm_client_secure_lock (mmio_write_8 a b s) = pm_client_secure_lock s"
  "suspend_mode (fw_call f as s) = suspend_mode s"
  "pm_client_secure_lock (fw_call f as s) = pm_client_secure_lock s"
  by (simp_all add: mmio_read_32_def mmio_write_32_def mmio_write_8_def fw_call_def Let_def)

declare pmc_fields [simp]

definition irq_node_map :: "u32 list" where
  "irq_node_map = [
     NODE_UNKNOWN, NODE_UNKNOWN, NODE_UNKNOWN, NODE_UNKNOWN, NODE_UNKNOWN,
     NODE_UNKNOWN, NODE_UNKNOWN, NODE_UNKNOWN, NODE_UNKNOWN, NODE_UNKNOWN,
     NODE_UNKNOWN, NODE_UNKNOWN, NODE_UNKNOWN, NODE_UNKNOWN, NODE_NAND,
     NODE_QSPI, NODE_GPIO, NODE_I2C_0, NODE_I2C_1, NODE_SPI_0,
     NODE_SPI_1, NODE_UART_0, NODE_UART_1, NODE_CAN_0, NODE_CAN_1,
     NODE_UNKNOWN, NODE_RTC, NODE_RTC, NODE_UNKNOWN, NODE_UNKNOWN,
     NODE_UNKNOWN, NODE_UNKNOWN, NODE_UNKNOWN, NODE_UNKNOWN, NODE_UNKNOWN,
     NODE_UNKNOWN, NODE_TTC_0, NODE_TTC_0, NODE_TTC_0, NODE_TTC_1,
     NODE_TTC_1, NODE_TTC_1, NODE_TTC_2, NODE_TTC_2, NODE_TTC_2,
     NODE_TTC_3, NODE_TTC_3, NODE_TTC_3, NODE_SD_0, NODE_SD_1,
     NODE_SD_0, NODE_SD_1, NODE_UNKNOWN, NODE_UNKNOWN, NODE_UNKNOWN,
     NODE_UNKNOWN, NODE_UNKNOWN, NODE_ETH_0, NODE_ETH_0, NODE_ETH_1,
     NODE_ETH_1, NODE_ETH_2, NODE_ETH_2, NODE_ETH_3, NODE_ETH_3,
     NODE_USB_0, NODE_USB_0, NODE_USB_0, NODE_USB_0, NODE_USB_0,
     NODE_USB_1, NODE_USB_1, NODE_USB_1, NODE_USB_1, NODE_USB_1,
     NODE_USB_0, NODE_USB_0, NODE_ADMA, NODE_ADMA, NODE_ADMA,
     NODE_ADMA, NODE_ADMA, NODE_ADMA, NODE_ADMA, NODE_ADMA]"

section \<open>Requests (pm_api_sys.c)\<close>

text \<open>
  \<open>PM_PACK_PAYLOAD1\<close> to \<open>6\<close>: the words given, the rest of the array keeps what was on the stack.
\<close>

definition pm_pack :: "u32 list \<Rightarrow> 'a pm_mach_scheme \<Rightarrow> payload" where
  "pm_pack args s k = (if k < length args then args ! k else stack_junk s (m_now s) k)"

definition pm_set_wakeup_source ::
  "u32 \<Rightarrow> u32 \<Rightarrow> u32 \<Rightarrow> 'a pm_mach_scheme \<Rightarrow> (u32 \<times> 'a pm_mach_scheme) option" where
  "pm_set_wakeup_source target wkup_node enable s = do {
     let payload = pm_pack [PM_SET_WAKEUP_SOURCE, target, wkup_node, enable] s;
     ((ret, _), s) \<leftarrow> pm_ipi_send_sync primary_proc payload 0 s;
     Some (ret, s)
   }"

section \<open>The client (pm_client.c)\<close>

definition irq_to_pm_node :: "u32 \<Rightarrow> u32 option" where
  "irq_to_pm_node irq = do {
     assert_C (irq \<le> IRQ_MAX);
     Some (irq_node_map ! unat irq)
   }"

text \<open>\<open>__builtin_ctz\<close>: the number of trailing zero bits.\<close>

definition ctz32 :: "u32 \<Rightarrow> nat" where
  "ctz32 w = length (takeWhile (\<lambda>n. \<not> bit w n) [0..<32])"

lemma ctz32_eqI:
  assumes "bit w n" and "\<And>k. k < n \<Longrightarrow> \<not> bit w k"
  shows "ctz32 w = n"
proof -
  have "n < 32" using bit_imp_le_length [OF assms(1)] by simp
  then have "[0..<32] = [0..<n] @ n # [Suc n..<32]"
    by (metis less_imp_le upt_add_eq_append le_Suc_ex zero_le upt_conv_Cons)
  moreover have "length (takeWhile (\<lambda>n. \<not> bit w n) [0..<n]) = n"
    using assms(2) by (subst takeWhile_eq_all_conv [THEN iffD2]) auto
  ultimately show ?thesis using assms(1) by (simp add: ctz32_def takeWhile_tail)
qed

lemma ctz32_bit:
  assumes "w \<noteq> 0"
  shows "bit w (ctz32 w)" and "k < ctz32 w \<Longrightarrow> \<not> bit w k"
proof -
  from assms obtain m where m: "bit w m" using bit_word_eqI [of w 0] by auto
  define n where "n = (LEAST i. bit w i)"
  have "bit w n" "\<And>i. i < n \<Longrightarrow> \<not> bit w i"
    unfolding n_def using m by (auto intro: LeastI dest: not_less_Least)
  then have "ctz32 w = n \<and> bit w n \<and> (\<forall>i<n. \<not> bit w i)" by (auto intro: ctz32_eqI)
  then show "bit w (ctz32 w)" "k < ctz32 w \<Longrightarrow> \<not> bit w k" by auto
qed

text \<open>The arithmetic of the loop: \<open>reg & (-reg)\<close> is the lowest set bit, and clearing it leaves the others.\<close>

lemma lowest_set:
  fixes w :: u32
  assumes "w \<noteq> 0"
  shows "w AND - w = push_bit (ctz32 w) 1" and "ctz32 (w AND - w) = ctz32 w"
    and "bit (w AND NOT (w AND - w)) k \<longleftrightarrow> bit w k \<and> k \<noteq> ctz32 w"
proof -
  show eq: "w AND - w = push_bit (ctz32 w) 1"
    by (rule and_uminus_lowest) (use ctz32_bit [OF assms] in auto)
  have "ctz32 w < 32" using bit_imp_le_length [OF ctz32_bit(1) [OF assms]] by simp
  then show "ctz32 (w AND - w) = ctz32 w" unfolding eq by (intro ctz32_eqI) (auto simp: bit_simps)
  show "bit (w AND NOT (w AND - w)) k \<longleftrightarrow> bit w k \<and> k \<noteq> ctz32 w"
    unfolding eq by (auto simp: bit_simps dest: bit_imp_le_length)
qed

lemma lowest_decreases:
  fixes w :: u32
  assumes "w \<noteq> 0"
  shows "unat (w AND NOT (w AND - w)) < unat w"
proof -
  have "w AND NOT (w AND - w) \<le> w" by (rule word_and_le2)
  moreover have "w AND NOT (w AND - w) \<noteq> w"
    using lowest_set(3) [OF assms, of "ctz32 w"] ctz32_bit(1) [OF assms] by metis
  ultimately have "w AND NOT (w AND - w) < w" by (rule order.not_eq_order_implies_strict [rotated])
  then show ?thesis by (rule word_less_nat_alt [THEN iffD1])
qed

text \<open>The inner loop over the enabled interrupts of one register, and the outer loop over registers.\<close>

function wakeup_loop ::
  "u32 \<Rightarrow> u32 \<Rightarrow> (u32 \<Rightarrow> bool) \<Rightarrow> 'a pm_mach_scheme \<Rightarrow> ((u32 \<Rightarrow> bool) \<times> 'a pm_mach_scheme) option" where
  "wakeup_loop base_irq reg nodes_set s =
     (if reg = 0 then Some (nodes_set, s)
      else let lowest_set = reg AND (- reg);
               idx = of_nat (ctz32 lowest_set);
               irq = base_irq + idx
           in if irq > IRQ_MAX then Some (nodes_set, s)
              else do {
                node \<leftarrow> irq_to_pm_node irq;
                let reg' = reg AND NOT lowest_set;
                if node \<noteq> NODE_UNKNOWN \<and> \<not> nodes_set node
                then do {
                  (ret, s) \<leftarrow> pm_set_wakeup_source NODE_APU node 1 s;
                  wakeup_loop base_irq reg' (nodes_set(node := (ret = 0))) s
                }
                else wakeup_loop base_irq reg' nodes_set s
              })"
  by pat_completeness auto
termination by (relation "measure (\<lambda>(_, reg, _, _). unat reg)") (auto simp: lowest_decreases simp del: bit.de_Morgan_conj)

declare wakeup_loop.simps [simp del]

fun wakeup_regs :: "nat list \<Rightarrow> (u32 \<Rightarrow> bool) \<Rightarrow> 'a pm_mach_scheme \<Rightarrow> 'a pm_mach_scheme option" where
  "wakeup_regs [] nodes_set s = Some s"
| "wakeup_regs (reg_num # rs) nodes_set s =
     (let base_irq = push_bit 5 (of_nat reg_num);
          (reg, s) = mmio_read_32 (BASE_GICD_BASE + 0x100 + 4 + push_bit 2 (of_nat reg_num)) s
      in if reg = 0 then wakeup_regs rs nodes_set s
         else do {
           (nodes_set, s) \<leftarrow> wakeup_loop base_irq reg nodes_set s;
           wakeup_regs rs nodes_set s
         })"

definition pm_client_set_wakeup_sources :: "'a pmc_mach_scheme \<Rightarrow> 'a pmc_mach_scheme option" where
  "pm_client_set_wakeup_sources s = do {
     (done, s) \<leftarrow> (if suspend_mode s = PM_SUSPEND_MODE_POWER_OFF
       then do {
         (ret, s) \<leftarrow> pm_set_wakeup_source NODE_APU NODE_EXTERN 1 s;
         Some (ret = PM_RET_SUCCESS, s)
       }
       else Some (False, s));
     if done then Some s
     else wakeup_regs [0..<NUM_GICD_ISENABLER] (\<lambda>_. False) s
   }"

definition pm_get_proc :: "u32 \<Rightarrow> pm_proc option" where
  "pm_get_proc cpuid = (if unat cpuid < length pm_procs_all then Some (pm_procs_all ! unat cpuid) else None)"

definition pm_get_proc_by_node :: "u32 \<Rightarrow> pm_proc option" where
  "pm_get_proc_by_node nid = find (\<lambda>p. nid = node_id p) pm_procs_all"

definition pm_get_cpuid :: "u32 \<Rightarrow> u32" where
  "pm_get_cpuid nid =
     (case find (\<lambda>i. node_id (pm_procs_all ! i) = nid) [0..<length pm_procs_all] of
        Some i \<Rightarrow> of_nat i | None \<Rightarrow> UNDEFINED_CPUID)"

definition pmc_lock_get :: "'a pmc_mach_scheme \<Rightarrow> 'a pmc_mach_scheme option" where
  "pmc_lock_get s = (if pm_client_secure_lock s then None else Some (s\<lparr>pm_client_secure_lock := True\<rparr>))"

definition pmc_lock_release :: "'a pmc_mach_scheme \<Rightarrow> 'a pmc_mach_scheme" where
  "pmc_lock_release s = s\<lparr>pm_client_secure_lock := False\<rparr>"

text \<open>A null \<open>proc\<close> is dereferenced by these functions: \<open>None\<close>.\<close>

definition pm_client_suspend :: "pm_proc option \<Rightarrow> u32 \<Rightarrow> 'a pmc_mach_scheme \<Rightarrow> 'a pmc_mach_scheme option" where
  "pm_client_suspend proc state s = do {
     s \<leftarrow> pmc_lock_get s;
     s \<leftarrow> (if state = PM_STATE_SUSPEND_TO_RAM then pm_client_set_wakeup_sources s else Some s);
     let (v, s) = mmio_read_32 APU_PWRCTL s;
     p \<leftarrow> proc;
     let s = mmio_write_32 APU_PWRCTL (v OR pwrdn_mask p) s;
     Some (pmc_lock_release s)
   }"

definition pm_client_abort_suspend :: "'a pmc_mach_scheme \<Rightarrow> 'a pmc_mach_scheme option" where
  "pm_client_abort_suspend s = do {
     s \<leftarrow> gicv2_cpuif_enable s;
     s \<leftarrow> pmc_lock_get s;
     let (v, s) = mmio_read_32 APU_PWRCTL s;
     let s = mmio_write_32 APU_PWRCTL (v AND NOT (pwrdn_mask primary_proc)) s;
     Some (pmc_lock_release s)
   }"

definition pm_client_wakeup :: "pm_proc option \<Rightarrow> 'a pmc_mach_scheme \<Rightarrow> 'a pmc_mach_scheme option" where
  "pm_client_wakeup proc s = do {
     p \<leftarrow> proc;
     let cpuid = pm_get_cpuid (node_id p);
     if cpuid = UNDEFINED_CPUID then Some s
     else do {
       s \<leftarrow> pmc_lock_get s;
       let (val, s) = mmio_read_32 APU_PWRCTL s;
       let val = val AND NOT (pwrdn_mask p);
       let s = mmio_write_32 APU_PWRCTL val s;
       Some (pmc_lock_release s)
     }
   }"

definition pm_set_suspend_mode :: "u32 \<Rightarrow> 'a pmc_mach_scheme \<Rightarrow> u32 \<times> 'a pmc_mach_scheme" where
  "pm_set_suspend_mode m s =
     (if m \<noteq> PM_SUSPEND_MODE_STD \<and> m \<noteq> PM_SUSPEND_MODE_POWER_OFF then (PM_RET_ERROR_ARGS, s)
      else (PM_RET_SUCCESS, s\<lparr>suspend_mode := m\<rparr>))"

section \<open>The enabled interrupts\<close>

text \<open>
  The reference for the bit loop: scan the enabled interrupts of the register in ascending order.
\<close>

definition enabled_irqs :: "u32 \<Rightarrow> u32 \<Rightarrow> u32 list" where
  "enabled_irqs base_irq reg = map (\<lambda>k. base_irq + of_nat k) (filter (bit reg) [0..<32])"

fun wakeup_scan :: "u32 list \<Rightarrow> (u32 \<Rightarrow> bool) \<Rightarrow> 'a pm_mach_scheme \<Rightarrow> ((u32 \<Rightarrow> bool) \<times> 'a pm_mach_scheme) option" where
  "wakeup_scan [] nodes_set s = Some (nodes_set, s)"
| "wakeup_scan (irq # irqs) nodes_set s =
     (if irq > IRQ_MAX then Some (nodes_set, s)
      else let node = irq_node_map ! unat irq
           in if node \<noteq> NODE_UNKNOWN \<and> \<not> nodes_set node
              then do {
                (ret, s) \<leftarrow> pm_set_wakeup_source NODE_APU node 1 s;
                wakeup_scan irqs (nodes_set(node := (ret = 0))) s
              }
              else wakeup_scan irqs nodes_set s)"

lemma filter_lowest:
  assumes "w \<noteq> 0"
  shows "filter (bit w) [0..<32] = ctz32 w # filter (bit (w AND NOT (w AND - w))) [0..<32]"
proof -
  define n where "n = ctz32 w"
  define w' where "w' = w AND NOT (w AND - w)"
  have b: "bit w' k \<longleftrightarrow> bit w k \<and> k \<noteq> n" for k
    unfolding w'_def n_def by (rule lowest_set(3) [OF assms])
  have w: "bit w n" "\<And>k. k < n \<Longrightarrow> \<not> bit w k"
    using ctz32_bit [OF assms] by (simp_all add: n_def)
  have "n < 32" using bit_imp_le_length [OF w(1)] by simp
  then have l: "[0..<32] = [0..<n] @ n # [Suc n..<32]"
    by (metis less_imp_le upt_add_eq_append le_Suc_ex zero_le upt_conv_Cons)
  have "filter (bit w) [0..<n] = []" "filter (bit w') [0..<n] = []"
    using w(2) by (simp_all add: b filter_empty_conv)
  moreover have "filter (bit w) [Suc n..<32] = filter (bit w') [Suc n..<32]"
    by (rule filter_cong) (auto simp: b)
  ultimately show ?thesis unfolding l w'_def [symmetric] n_def [symmetric] using w(1) by (simp add: b)
qed

lemma wakeup_loop_scan:
  "wakeup_loop base_irq reg nodes_set s = wakeup_scan (enabled_irqs base_irq reg) nodes_set s"
proof (induction "unat reg" arbitrary: reg nodes_set s rule: less_induct)
  case less
  show ?case
  proof (cases "reg = 0")
    case True
    then show ?thesis by (subst wakeup_loop.simps) (simp add: enabled_irqs_def)
  next
    case False
    define irq where "irq = base_irq + of_nat (ctz32 (reg AND - reg))"
    define reg' where "reg' = reg AND NOT (reg AND - reg)"
    have e: "enabled_irqs base_irq reg = irq # enabled_irqs base_irq reg'"
      using filter_lowest [OF False] lowest_set(2) [OF False]
      by (simp add: enabled_irqs_def irq_def reg'_def del: bit.de_Morgan_conj)
    have IH: "wakeup_loop base_irq reg' ns t = wakeup_scan (enabled_irqs base_irq reg') ns t"
      for ns and t :: "'a pm_mach_scheme"
      by (rule less) (simp add: reg'_def lowest_decreases [OF False] del: bit.de_Morgan_conj)
    have n: "irq_to_pm_node irq = Some (irq_node_map ! unat irq)" if "\<not> irq > IRQ_MAX"
      using that by (simp add: irq_to_pm_node_def not_less)
    show ?thesis
      using n False unfolding e
      by (subst wakeup_loop.simps) (simp add: Let_def irq_def [symmetric] reg'_def [symmetric] IH case_prod_unfold del: bit.de_Morgan_conj)
  qed
qed

section \<open>Which nodes are asked to wake the system\<close>

text \<open>
  The nodes named in the third word of the requests of a trace, and the reads of the interrupt
  enable registers.  \<open>wake_only\<close>: every request of the trace, decoded from the channel's buffer, asks to
  enable such a node as a wake-up source of the APU.
\<close>

definition wake_nodes :: "ioev list \<Rightarrow> u32 list" where
  "wake_nodes es = map snd (filter (\<lambda>(a, v). a = 0xFF9905C8) (writes_of es))"

definition wake_req :: "u32 \<Rightarrow> u32 list" where
  "wake_req n = [PM_SET_WAKEUP_SOURCE, NODE_APU, n, 1]"

definition wake_only :: "ioev list \<Rightarrow> bool" where
  "wake_only es \<longleftrightarrow> (\<forall>buf. map (take 4) (pm_reqs buf es) = map wake_req (wake_nodes es))"

definition isenabler_addr :: "nat \<Rightarrow> addr" where
  "isenabler_addr r = BASE_GICD_BASE + 0x100 + 4 + push_bit 2 (of_nat r)"

definition isen_reads :: "ioev list \<Rightarrow> (addr \<times> u32) list" where
  "isen_reads es = filter (\<lambda>(a, v). a \<in> isenabler_addr ` {..<NUM_GICD_ISENABLER}) (reads_of es)"

lemma wake_append [simp]:
  "wake_nodes [] = []" "wake_nodes (es @ fs) = wake_nodes es @ wake_nodes fs"
  "isen_reads [] = []" "isen_reads (es @ fs) = isen_reads es @ isen_reads fs"
  by (simp_all add: wake_nodes_def isen_reads_def)

lemma isenabler_addrs: "isenabler_addr ` {..<3} = {0xF9010104, 0xF9010108, 0xF901010C}"
proof -
  have "{..<3} = {0, 1, 2 :: nat}" by auto
  then show ?thesis by (simp add: isenabler_addr_def)
qed

lemma isen_reads_gicd [simp]: "r < 3 \<Longrightarrow> isen_reads [RD (isenabler_addr r) v] = [(isenabler_addr r, v)]"
  by (simp add: isen_reads_def)

lemma wake_nodes_RD [simp]: "wake_nodes [RD a v] = []"
  by (simp add: wake_nodes_def)

lemma wake_only_simps:
  "wake_only []" "wake_only [RD a v]" "wake_only es \<Longrightarrow> wake_only fs \<Longrightarrow> wake_only (es @ fs)"
  by (simp_all add: wake_only_def pm_reqs_append)

lemma wake_trace:
  "wake_nodes (apu_trace p ps [] v0) = [p 2]" "isen_reads (apu_trace p ps [] v0) = []"
  using writes_of_map(2) [of "\<lambda>_. 0xFF300004" "\<lambda>x. x" ps] writes_of_map(4) [of "\<lambda>_. 0xFF300004" "\<lambda>x. x" ps]
  by (simp_all add: wake_nodes_def isen_reads_def apu_trace_def upt_0_6 isenabler_addrs)

lemma wake_only_trace: "p 0 = PM_SET_WAKEUP_SOURCE \<Longrightarrow> p 1 = NODE_APU \<Longrightarrow> p 3 = 1 \<Longrightarrow> wake_only (apu_trace p ps [] v0)"
  by (simp add: wake_only_def wake_req_def pm_reqs_apu wake_trace upt_0_6)

text \<open>The firmware takes every request: at every time, the observation bit clears later.\<close>

definition pmu_live :: "'a mach_scheme \<Rightarrow> bool" where
  "pmu_live s \<longleftrightarrow> (\<forall>t v. \<exists>n. m_hw s (t + n) 0xFF300004 v AND 0x10000 = 0)"

lemma pmu_live_takes: "pmu_live s \<Longrightarrow> pmu_takes s"
  by (simp add: pmu_live_def pmu_takes_def)

lemma pmu_live_cong: "m_hw s' = m_hw s \<Longrightarrow> pmu_live s' = pmu_live s"
  by (simp add: pmu_live_def)

lemma live_read [simp]:
  "pmu_live (snd (mmio_read_32 a s)) = pmu_live s" "pm_idle (snd (mmio_read_32 a s')) = pm_idle s'"
  "pmu_live (mmio_write_32 a v s) = pmu_live s" "pm_idle (mmio_write_32 a v s') = pm_idle s'"
  by (simp_all add: pmu_live_def pm_idle_def)

lemma set_wakeup_source_returns:
  assumes idle: "pm_idle s" and live: "pmu_live s"
  obtains ret s' es where "pm_set_wakeup_source NODE_APU n 1 s = Some (ret, s')" "m_evs s' = m_evs s @ es"
    "wake_nodes es = [n]" "wake_only es" "isen_reads es = []" "pm_idle s'" "pmu_live s'"
proof -
  define p where "p = pm_pack [PM_SET_WAKEUP_SOURCE, NODE_APU, n, 1] s"
  from send_sync_returns [OF idle] pmu_live_takes [OF live] obtain st vs s' where
    r: "pm_ipi_send_sync primary_proc p 0 s = Some ((st, vs), s')" by (metis not_None_eq prod.collapse)
  from send_sync_apu [OF idle r] obtain ps v0 where
    a: "length vs = 0" "m_evs s' = m_evs s @ apu_trace p ps vs v0" "m_hw s' = m_hw s" "pm_idle s'" by metis
  have "p 0 = PM_SET_WAKEUP_SOURCE" "p 1 = NODE_APU" "p 2 = n" "p 3 = 1" by (simp_all add: p_def pm_pack_def)
  with a(1) have "wake_nodes (apu_trace p ps vs v0) = [n]" "wake_only (apu_trace p ps vs v0)" "isen_reads (apu_trace p ps vs v0) = []"
    by (simp_all add: wake_trace wake_only_trace)
  moreover have "pm_set_wakeup_source NODE_APU n 1 s = Some (st, s')"
    using r by (simp add: pm_set_wakeup_source_def p_def)
  moreover have "pmu_live s'" using live pmu_live_cong [OF a(3)] by simp
  ultimately show ?thesis using that a by blast
qed

definition known_nodes :: "u32 list \<Rightarrow> u32 set" where
  "known_nodes irqs = (\<lambda>irq. irq_node_map ! unat irq) ` set (takeWhile (\<lambda>irq. irq \<le> IRQ_MAX) irqs) - {NODE_UNKNOWN}"

lemma wakeup_scan_returns:
  assumes "pm_idle s" and "pmu_live s"
  shows "\<exists>ns' s' es. wakeup_scan irqs ns s = Some (ns', s') \<and> m_evs s' = m_evs s @ es \<and> wake_only es \<and> isen_reads es = [] \<and>
    pm_idle s' \<and> pmu_live s' \<and> (\<forall>n. ns' n \<longrightarrow> ns n \<or> n \<in> set (wake_nodes es)) \<and> (\<forall>n. ns n \<longrightarrow> ns' n) \<and>
    set (wake_nodes es) = {n \<in> known_nodes irqs. \<not> ns n}"
  using assms
proof (induction irqs arbitrary: ns s)
  case Nil
  then show ?case by (intro exI [of _ ns] exI [of _ s] exI [of _ "[]"]) (simp add: known_nodes_def wake_only_simps)
next
  case (Cons irq irqs)
  define node where "node = irq_node_map ! unat irq"
  consider (stop) "irq > IRQ_MAX" | (skip) "irq \<le> IRQ_MAX" "node = 0 \<or> ns node" | (ask) "irq \<le> IRQ_MAX" "node \<noteq> 0" "\<not> ns node"
    by fastforce
  then show ?case
  proof cases
    case stop
    then have "known_nodes (irq # irqs) = {}" by (auto simp: known_nodes_def)
    with stop show ?thesis using Cons.prems
      by (intro exI [of _ ns] exI [of _ s] exI [of _ "[]"]) (simp add: wake_only_simps)
  next
    case skip
    then have "wakeup_scan (irq # irqs) ns s = wakeup_scan irqs ns s"
      "{n \<in> known_nodes (irq # irqs). \<not> ns n} = {n \<in> known_nodes irqs. \<not> ns n}"
      by (auto simp: node_def known_nodes_def)
    then show ?thesis using Cons.IH [OF Cons.prems] by simp
  next
    case ask
    from set_wakeup_source_returns [OF Cons.prems] obtain ret t es where
      t: "pm_set_wakeup_source NODE_APU node 1 s = Some (ret, t)" "m_evs t = m_evs s @ es"
        "wake_nodes es = [node]" "isen_reads es = []" "pm_idle t" "pmu_live t" "wake_only es" by metis
    from Cons.IH [OF t(5,6), of "ns(node := (ret = 0))"] obtain ns' s' fs where
      r: "wakeup_scan irqs (ns(node := (ret = 0))) t = Some (ns', s')" "m_evs s' = m_evs t @ fs" "wake_only fs" "isen_reads fs = []"
        "pm_idle s'" "pmu_live s'" "\<forall>n. ns' n \<longrightarrow> (ns(node := (ret = 0))) n \<or> n \<in> set (wake_nodes fs)"
        "\<forall>n. (ns(node := (ret = 0))) n \<longrightarrow> ns' n"
        "set (wake_nodes fs) = {n \<in> known_nodes irqs. \<not> (ns(node := (ret = 0))) n}" by (elim exE conjE)
    have k: "known_nodes (irq # irqs) = insert node (known_nodes irqs)"
      using ask by (auto simp: known_nodes_def node_def)
    have "wakeup_scan (irq # irqs) ns s = Some (ns', s')"
      using leD [OF ask(1)] ask t(1) r(1) by (simp add: node_def [symmetric])
    moreover have "m_evs s' = m_evs s @ es @ fs" using t(2) r(2) by simp
    moreover have "set (wake_nodes (es @ fs)) = {n \<in> known_nodes (irq # irqs). \<not> ns n}"
      using ask t(3) r(9) unfolding k by auto
    moreover have "wake_only (es @ fs)" by (rule wake_only_simps(3) [OF t(7) r(3)])
    moreover have "isen_reads (es @ fs) = []" using t(4) r(4) by simp
    moreover have "\<forall>n. ns' n \<longrightarrow> ns n \<or> n \<in> set (wake_nodes (es @ fs))"
      using r(7) t(3) by (auto simp: fun_upd_apply split: if_splits)
    moreover have "\<forall>n. ns n \<longrightarrow> ns' n" using r(8) ask(3) by (metis fun_upd_apply)
    ultimately show ?thesis using r(5,6) by blast
  qed
qed

text \<open>The interrupts of register \<open>r\<close>: numbers \<open>32 r\<close> to \<open>32 r + 31\<close>, as far as the map goes.\<close>

definition reg_nodes :: "nat \<Rightarrow> u32 \<Rightarrow> u32 set" where
  "reg_nodes r v = {n. n \<noteq> NODE_UNKNOWN \<and> (\<exists>k<32. 32 * r + k \<le> 84 \<and> bit v k \<and> n = irq_node_map ! (32 * r + k))}"

lemma takeWhile_le_sorted:
  "sorted_wrt (\<le>) xs \<Longrightarrow> takeWhile (\<lambda>x. x \<le> c) xs = filter (\<lambda>x. x \<le> c) xs" for c :: "'a :: linorder"
  by (induction xs) (auto simp: filter_empty_conv [symmetric] intro!: filter_False [symmetric] dest: order_trans)

lemma unat_small: "n < 1000 \<Longrightarrow> unat (of_nat n :: u32) = n"
  by (simp add: unsigned_of_nat take_bit_nat_eq_self)

lemma known_nodes_enabled:
  assumes "r < 3"
  shows "known_nodes (enabled_irqs (push_bit 5 (of_nat r)) v) = reg_nodes r v"
proof -
  have e: "enabled_irqs (push_bit 5 (of_nat r)) v = map of_nat (map (\<lambda>k. 32 * r + k) (filter (bit v) [0..<32]))"
    by (simp add: enabled_irqs_def push_bit_eq_mult mult.commute)
  have u: "unat (of_nat (32 * r + k) :: u32) = 32 * r + k" if "k < 32" for k
    by (rule unat_small) (use assms that in simp)
  have s: "sorted_wrt (\<le>) (enabled_irqs (push_bit 5 (of_nat r)) v)"
    unfolding e map_map sorted_wrt_map
    by (rule sorted_wrt_mono_rel [OF _ sorted_wrt_filter [OF sorted_wrt_upt]])
      (auto simp: word_le_nat_alt u simp del: of_nat_add of_nat_mult)
  have "of_nat (32 * r + k) \<le> IRQ_MAX \<longleftrightarrow> 32 * r + k \<le> 84" if "k < 32" for k
    using u [OF that] by (simp add: word_le_nat_alt del: of_nat_add of_nat_mult)
  then have "set (takeWhile (\<lambda>irq. irq \<le> IRQ_MAX) (enabled_irqs (push_bit 5 (of_nat r)) v)) =
      (\<lambda>k. of_nat (32 * r + k)) ` {k. k < 32 \<and> bit v k \<and> 32 * r + k \<le> 84}"
    unfolding takeWhile_le_sorted [OF s] by (auto simp: e simp del: of_nat_add of_nat_mult)
  then show ?thesis unfolding known_nodes_def reg_nodes_def
    by (auto simp: image_image u simp del: of_nat_add of_nat_mult)
qed

lemma wakeup_regs_step:
  "wakeup_regs (r # rs) ns s = (let (v, s) = mmio_read_32 (isenabler_addr r) s in do {
     (ns, s) \<leftarrow> wakeup_scan (enabled_irqs (push_bit 5 (of_nat r)) v) ns s;
     wakeup_regs rs ns s
   })"
  by (simp add: case_prod_unfold Let_def wakeup_loop_scan isenabler_addr_def enabled_irqs_def)

lemma wakeup_regs_returns:
  assumes "pm_idle s" and "pmu_live s" and "\<forall>r \<in> set rs. r < 3"
  shows "\<exists>s' es vs. wakeup_regs rs ns s = Some s' \<and> m_evs s' = m_evs s @ es \<and> wake_only es \<and> length vs = length rs \<and>
    isen_reads es = zip (map isenabler_addr rs) vs \<and> pm_idle s' \<and> pmu_live s' \<and>
    set (wake_nodes es) \<union> {n. ns n} = (\<Union>(r, v) \<in> set (zip rs vs). reg_nodes r v) \<union> {n. ns n}"
  using assms
proof (induction rs arbitrary: ns s)
  case Nil
  then show ?case by (intro exI [of _ s] exI [of _ "[]"]) (simp add: wake_only_simps)
next
  case (Cons r rs)
  define v where "v = fst (mmio_read_32 (isenabler_addr r) s)"
  define t where "t = snd (mmio_read_32 (isenabler_addr r) s)"
  have t: "pm_idle t" "pmu_live t" "m_evs t = m_evs s @ [RD (isenabler_addr r) v]"
    using Cons.prems by (simp_all add: t_def v_def)
  have r: "r < 3" using Cons.prems by simp
  from wakeup_scan_returns [OF t(1,2), of "enabled_irqs (push_bit 5 (of_nat r)) v" ns]
  obtain ns' u es where u: "wakeup_scan (enabled_irqs (push_bit 5 (of_nat r)) v) ns t = Some (ns', u)"
    "m_evs u = m_evs t @ es" "wake_only es" "isen_reads es = []" "pm_idle u" "pmu_live u"
    "\<forall>n. ns' n \<longrightarrow> ns n \<or> n \<in> set (wake_nodes es)" "\<forall>n. ns n \<longrightarrow> ns' n"
    "set (wake_nodes es) = {n \<in> reg_nodes r v. \<not> ns n}"
    unfolding known_nodes_enabled [OF r] by (elim exE conjE)
  from Cons.IH [OF u(5,6), of ns'] Cons.prems(3)
  obtain s' fs vs where s': "wakeup_regs rs ns' u = Some s'" "m_evs s' = m_evs u @ fs" "wake_only fs" "length vs = length rs"
    "isen_reads fs = zip (map isenabler_addr rs) vs" "pm_idle s'" "pmu_live s'"
    "set (wake_nodes fs) \<union> {n. ns' n} = (\<Union>(r, v) \<in> set (zip rs vs). reg_nodes r v) \<union> {n. ns' n}" by auto
  have "wakeup_regs (r # rs) ns s = Some s'"
    unfolding wakeup_regs_step using u(1) s'(1) by (simp add: case_prod_unfold Let_def t_def v_def)
  moreover have "m_evs s' = m_evs s @ [RD (isenabler_addr r) v] @ es @ fs" using t(3) u(2) s'(2) by simp
  moreover have "isen_reads ([RD (isenabler_addr r) v] @ es @ fs) = zip (map isenabler_addr (r # rs)) (v # vs)"
    using r u(4) s'(5) by (simp only: wake_append isen_reads_gicd) simp
  moreover have "set (wake_nodes ([RD (isenabler_addr r) v] @ es @ fs)) \<union> {n. ns n} =
      (\<Union>(r, v) \<in> set (zip (r # rs) (v # vs)). reg_nodes r v) \<union> {n. ns n}"
    using u(7-9) s'(8) by (simp only: wake_append wake_nodes_RD zip_Cons_Cons list.set UN_insert prod.case set_append) blast
  moreover have "length (v # vs) = length (r # rs)" using s'(4) by simp
  moreover have "wake_only ([RD (isenabler_addr r) v] @ es @ fs)" by (intro wake_only_simps u(3) s'(3))
  ultimately show ?case using s'(6,7) by blast
qed

section \<open>Properties\<close>

lemma reg_nodes_all:
  assumes "length vs = 3"
  shows "(\<Union>(r, v) \<in> set (zip [0..<3] vs). reg_nodes r v) =
    {n. n \<noteq> NODE_UNKNOWN \<and> (\<exists>irq \<le> 84. bit (vs ! (irq div 32)) (irq mod 32) \<and> n = irq_node_map ! irq)}" (is "?L = ?R")
proof -
  have z: "set (zip [0..<3] vs) = {(r, vs ! r) | r. r < 3}"
    unfolding set_zip using assms by (intro Collect_cong) (auto, metis add_0 nth_upt)
  have "n \<in> ?L \<longleftrightarrow> n \<in> ?R" for n
  proof
    assume "n \<in> ?L"
    then obtain r k where "r < 3" "n \<noteq> 0" "k < 32" "32 * r + k \<le> 84" "bit (vs ! r) k" "n = irq_node_map ! (32 * r + k)"
      by (auto simp: z reg_nodes_def)
    then show "n \<in> ?R" by (auto intro!: exI [of _ "32 * r + k"])
  next
    assume "n \<in> ?R"
    then obtain irq where i: "n \<noteq> 0" "irq \<le> 84" "bit (vs ! (irq div 32)) (irq mod 32)" "n = irq_node_map ! irq" by auto
    then have "irq div 32 < 3" "n \<in> reg_nodes (irq div 32) (vs ! (irq div 32))"
      by (auto simp: reg_nodes_def intro!: exI [of _ "irq mod 32"])
    then show "n \<in> ?L" by (auto simp: z)
  qed
  then show ?thesis by blast
qed

text \<open>
  C30. Every enabled interrupt can wake the system.  Before a standard suspend, with the channel idle
  and a power management firmware that takes its requests, the firmware reads each of the three
  enable registers of the shared interrupts once; the requests it sends, decoded from the words in the
  channel's buffer at each trigger, are all of the form \<open>PM_SET_WAKEUP_SOURCE(NODE_APU, node, 1)\<close>, with the
  enable flag set, and their nodes are exactly the power nodes of the interrupts that are enabled there and
  mapped to a node, up to interrupt 84; it always returns and leaves the channel idle.
\<close>

theorem wakeup_sources_complete:
  assumes idle: "pm_idle s" and live: "pmu_live s" and std: "suspend_mode s \<noteq> PM_SUSPEND_MODE_POWER_OFF"
  shows "\<exists>s' vs. pm_client_set_wakeup_sources s = Some s' \<and> length vs = 3 \<and>
    isen_reads (since s s') = zip [0xF9010104, 0xF9010108, 0xF901010C] vs \<and>
    set (map (take 4) (pm_reqs buf (since s s'))) = (\<lambda>n. [PM_SET_WAKEUP_SOURCE, NODE_APU, n, 1]) `
      {n. n \<noteq> NODE_UNKNOWN \<and> (\<exists>irq \<le> 84. bit (vs ! (irq div 32)) (irq mod 32) \<and> n = irq_node_map ! irq)} \<and>
    pm_idle s'"
proof -
  from wakeup_regs_returns [OF idle live, of "[0..<3]" "\<lambda>_. False"] obtain s' es vs where
    r: "wakeup_regs [0..<3] (\<lambda>_. False) s = Some s'" "m_evs s' = m_evs s @ es" "wake_only es" "length vs = length [0..<3]"
      "isen_reads es = zip (map isenabler_addr [0..<3]) vs" "pm_idle s'"
      "set (wake_nodes es) = (\<Union>(r, v) \<in> set (zip [0..<3] vs). reg_nodes r v)" by auto
  have "map isenabler_addr [0..<3] = [0xF9010104, 0xF9010108, 0xF901010C]"
    by (simp add: upt_rec isenabler_addr_def)
  moreover have "pm_client_set_wakeup_sources s = Some s'"
    using std r(1) by (simp add: pm_client_set_wakeup_sources_def)
  moreover have "set (map (take 4) (pm_reqs buf (since s s'))) = wake_req ` set (wake_nodes es)"
    using r(2,3) by (simp add: since_def wake_only_def del: set_map) simp
  ultimately show ?thesis using r reg_nodes_all [of vs]
    by (intro exI [of _ s'] exI [of _ vs]) (simp add: since_def wake_req_def [abs_def])
qed

definition test_pmc :: "(nat \<Rightarrow> addr \<Rightarrow> u32 \<Rightarrow> u32) \<Rightarrow> pmc_mach" where
  "test_pmc hw = pm_mach.extend (test_pm hw) \<lparr>suspend_mode = PM_SUSPEND_MODE_STD, pm_client_secure_lock = False\<rparr>"

lemmas test_pmc_simps = test_pmc_def test_pm_def test_ipi_simps ipi_mach.defs pm_mach.defs

lemma test_pmc_idle [simp]: "pm_idle (test_pmc hw)"
  by (simp add: test_pmc_simps pm_idle_def)

theorem wakeup_sources_complete_witness:
  "\<exists>s'. pm_client_set_wakeup_sources (test_pmc (\<lambda>t a v. if a = 0xF9010104 then 0x8000 else 0)) = Some s' \<and> pm_idle s'"
proof -
  define hw :: "nat \<Rightarrow> addr \<Rightarrow> u32 \<Rightarrow> u32" where "hw = (\<lambda>t a v. if a = 0xF9010104 then 0x8000 else 0)"
  have "pmu_live (test_pmc hw)" "suspend_mode (test_pmc hw) \<noteq> PM_SUSPEND_MODE_POWER_OFF"
    by (simp_all add: test_pmc_simps pmu_live_def hw_def)
  then show ?thesis using wakeup_sources_complete [OF test_pmc_idle] unfolding hw_def by blast
qed

text \<open>
  The power-down request of a core.  With the power control register plain storage and the
  client lock free, an idle suspend of core \<open>i\<close> sets bit \<open>i\<close> of the register and a later wake-up of
  that core clears it again; between the two and after both, every other bit is as it was before, and
  the lock is free.
\<close>

theorem suspend_wakeup_roundtrip:
  assumes i: "i < 4" and pl: "plain s APU_PWRCTL" and free: "\<not> pm_client_secure_lock s" and st: "state \<noteq> PM_STATE_SUSPEND_TO_RAM"
  shows "\<exists>s1 s2. pm_client_suspend (pm_get_proc (of_nat i)) state s = Some s1 \<and> pm_client_wakeup (pm_get_proc (of_nat i)) s1 = Some s2 \<and>
    (\<forall>k. bit (m_regs s1 APU_PWRCTL) k \<longleftrightarrow> k = i \<or> bit (m_regs s APU_PWRCTL) k) \<and>
    (\<forall>k. bit (m_regs s2 APU_PWRCTL) k \<longleftrightarrow> k \<noteq> i \<and> bit (m_regs s APU_PWRCTL) k) \<and>
    \<not> pm_client_secure_lock s1 \<and> \<not> pm_client_secure_lock s2"
proof -
  define p where "p = pm_procs_all ! i"
  have p: "pm_get_proc (of_nat i) = Some p"
    using i by (simp add: pm_get_proc_def p_def unat_small pm_procs_all_def)
  have "i = 0 \<or> i = 1 \<or> i = 2 \<or> i = 3" using i by linarith
  then have m: "pwrdn_mask p = push_bit i 1" "pm_get_cpuid (node_id p) \<noteq> UNDEFINED_CPUID"
    by (elim disjE; simp add: p_def pm_procs_all_def pm_get_cpuid_def upt_rec)+
  have b: "bit (push_bit i (1 :: u32)) k \<longleftrightarrow> k = i" for k using i by (auto simp: bit_simps)
  show ?thesis
    using pl free st
    by (simp add: p m(1) m(2) [simplified] pm_client_suspend_def pm_client_wakeup_def pmc_lock_get_def pmc_lock_release_def
        case_prod_unfold Let_def plain_def bit_simps b [simplified bit_simps])
      (use i in \<open>auto dest: bit_imp_le_length\<close>)
qed

theorem suspend_wakeup_roundtrip_witness:
  "\<exists>s1 s2. pm_client_suspend (pm_get_proc 2) 0 (test_pmc (\<lambda>t a v. v)) = Some s1 \<and>
     pm_client_wakeup (pm_get_proc 2) s1 = Some s2 \<and> bit (m_regs s1 APU_PWRCTL) 2 \<and> \<not> bit (m_regs s2 APU_PWRCTL) 2"
proof -
  have "plain (test_pmc (\<lambda>t a v. v)) APU_PWRCTL" "\<not> pm_client_secure_lock (test_pmc (\<lambda>t a v. v))"
    by (simp_all add: test_pmc_simps plain_def)
  from suspend_wakeup_roundtrip [of 2, OF _ this, of 0] show ?thesis by auto
qed

end
