(* ===== verification/PM_Sys.thy ===== *)
theory PM_Sys
  imports PM_Client
begin

text \<open>
  The power management API of TF-A (\<open>plat/xilinx/zynqmp/pm_service/pm_api_sys.c\<close>), as far as it talks
  to the power management firmware directly; the clock, pin and ioctl parts follow in theories of
  their own.  Every function returns its status and the words it stored through its result pointer;
  an empty list of words means that the caller's variable was left as it was.
\<close>

section \<open>Constants and state (pm_defs.h, pm_api_sys.c)\<close>

abbreviation (input) PM_GET_API_VERSION :: u32 where "PM_GET_API_VERSION \<equiv> 1"
abbreviation (input) PM_SET_CONFIGURATION :: u32 where "PM_SET_CONFIGURATION \<equiv> 2"
abbreviation (input) PM_GET_NODE_STATUS :: u32 where "PM_GET_NODE_STATUS \<equiv> 3"
abbreviation (input) PM_GET_OP_CHARACTERISTIC :: u32 where "PM_GET_OP_CHARACTERISTIC \<equiv> 4"
abbreviation (input) PM_REGISTER_NOTIFIER :: u32 where "PM_REGISTER_NOTIFIER \<equiv> 5"
abbreviation (input) PM_REQ_SUSPEND :: u32 where "PM_REQ_SUSPEND \<equiv> 6"
abbreviation (input) PM_SELF_SUSPEND :: u32 where "PM_SELF_SUSPEND \<equiv> 7"
abbreviation (input) PM_FORCE_POWERDOWN :: u32 where "PM_FORCE_POWERDOWN \<equiv> 8"
abbreviation (input) PM_ABORT_SUSPEND :: u32 where "PM_ABORT_SUSPEND \<equiv> 9"
abbreviation (input) PM_REQ_WAKEUP :: u32 where "PM_REQ_WAKEUP \<equiv> 10"
abbreviation (input) PM_SYSTEM_SHUTDOWN :: u32 where "PM_SYSTEM_SHUTDOWN \<equiv> 12"
abbreviation (input) PM_REQ_NODE :: u32 where "PM_REQ_NODE \<equiv> 13"
abbreviation (input) PM_RELEASE_NODE :: u32 where "PM_RELEASE_NODE \<equiv> 14"
abbreviation (input) PM_SET_REQUIREMENT :: u32 where "PM_SET_REQUIREMENT \<equiv> 15"
abbreviation (input) PM_SET_MAX_LATENCY :: u32 where "PM_SET_MAX_LATENCY \<equiv> 16"
abbreviation (input) PM_RESET_ASSERT :: u32 where "PM_RESET_ASSERT \<equiv> 17"
abbreviation (input) PM_RESET_GET_STATUS :: u32 where "PM_RESET_GET_STATUS \<equiv> 18"
abbreviation (input) PM_MMIO_WRITE :: u32 where "PM_MMIO_WRITE \<equiv> 19"
abbreviation (input) PM_MMIO_READ :: u32 where "PM_MMIO_READ \<equiv> 20"
abbreviation (input) PM_INIT_FINALIZE :: u32 where "PM_INIT_FINALIZE \<equiv> 21"
abbreviation (input) PM_FPGA_LOAD :: u32 where "PM_FPGA_LOAD \<equiv> 22"
abbreviation (input) PM_FPGA_GET_STATUS :: u32 where "PM_FPGA_GET_STATUS \<equiv> 23"
abbreviation (input) PM_GET_CHIPID :: u32 where "PM_GET_CHIPID \<equiv> 24"
abbreviation (input) PM_SECURE_RSA_AES :: u32 where "PM_SECURE_RSA_AES \<equiv> 25"
abbreviation (input) PM_SECURE_SHA :: u32 where "PM_SECURE_SHA \<equiv> 26"
abbreviation (input) PM_SECURE_RSA :: u32 where "PM_SECURE_RSA \<equiv> 27"
abbreviation (input) PM_PINCTRL_REQUEST :: u32 where "PM_PINCTRL_REQUEST \<equiv> 28"
abbreviation (input) PM_PINCTRL_RELEASE :: u32 where "PM_PINCTRL_RELEASE \<equiv> 29"
abbreviation (input) PM_PINCTRL_GET_FUNCTION :: u32 where "PM_PINCTRL_GET_FUNCTION \<equiv> 30"
abbreviation (input) PM_PINCTRL_SET_FUNCTION :: u32 where "PM_PINCTRL_SET_FUNCTION \<equiv> 31"
abbreviation (input) PM_PINCTRL_CONFIG_PARAM_GET :: u32 where "PM_PINCTRL_CONFIG_PARAM_GET \<equiv> 32"
abbreviation (input) PM_PINCTRL_CONFIG_PARAM_SET :: u32 where "PM_PINCTRL_CONFIG_PARAM_SET \<equiv> 33"
abbreviation (input) PM_IOCTL :: u32 where "PM_IOCTL \<equiv> 34"
abbreviation (input) PM_QUERY_DATA :: u32 where "PM_QUERY_DATA \<equiv> 35"
abbreviation (input) PM_CLOCK_ENABLE :: u32 where "PM_CLOCK_ENABLE \<equiv> 36"
abbreviation (input) PM_CLOCK_DISABLE :: u32 where "PM_CLOCK_DISABLE \<equiv> 37"
abbreviation (input) PM_CLOCK_GETSTATE :: u32 where "PM_CLOCK_GETSTATE \<equiv> 38"
abbreviation (input) PM_CLOCK_SETDIVIDER :: u32 where "PM_CLOCK_SETDIVIDER \<equiv> 39"
abbreviation (input) PM_CLOCK_GETDIVIDER :: u32 where "PM_CLOCK_GETDIVIDER \<equiv> 40"
abbreviation (input) PM_CLOCK_SETRATE :: u32 where "PM_CLOCK_SETRATE \<equiv> 41"
abbreviation (input) PM_CLOCK_GETRATE :: u32 where "PM_CLOCK_GETRATE \<equiv> 42"
abbreviation (input) PM_CLOCK_SETPARENT :: u32 where "PM_CLOCK_SETPARENT \<equiv> 43"
abbreviation (input) PM_CLOCK_GETPARENT :: u32 where "PM_CLOCK_GETPARENT \<equiv> 44"
abbreviation (input) PM_SECURE_IMAGE :: u32 where "PM_SECURE_IMAGE \<equiv> 45"
abbreviation (input) PM_FPGA_READ :: u32 where "PM_FPGA_READ \<equiv> 46"
abbreviation (input) PM_SECURE_AES :: u32 where "PM_SECURE_AES \<equiv> 47"
abbreviation (input) PM_PLL_SET_PARAMETER :: u32 where "PM_PLL_SET_PARAMETER \<equiv> 48"
abbreviation (input) PM_PLL_GET_PARAMETER :: u32 where "PM_PLL_GET_PARAMETER \<equiv> 49"
abbreviation (input) PM_PLL_SET_MODE :: u32 where "PM_PLL_SET_MODE \<equiv> 50"
abbreviation (input) PM_PLL_GET_MODE :: u32 where "PM_PLL_GET_MODE \<equiv> 51"
abbreviation (input) PM_REGISTER_ACCESS :: u32 where "PM_REGISTER_ACCESS \<equiv> 52"
abbreviation (input) PM_EFUSE_ACCESS :: u32 where "PM_EFUSE_ACCESS \<equiv> 53"
abbreviation (input) PM_API_MAX :: u32 where "PM_API_MAX \<equiv> 54"
abbreviation (input) REQ_ACK_BLOCKING :: u32 where "REQ_ACK_BLOCKING \<equiv> 2"
abbreviation (input) PMF_SHUTDOWN_TYPE_RESET :: u32 where "PMF_SHUTDOWN_TYPE_RESET \<equiv> 1"
abbreviation (input) PMF_SHUTDOWN_TYPE_SETSCOPE_ONLY :: u32 where "PMF_SHUTDOWN_TYPE_SETSCOPE_ONLY \<equiv> 2"
abbreviation (input) PMF_SHUTDOWN_SUBTYPE_SYSTEM :: u32 where "PMF_SHUTDOWN_SUBTYPE_SYSTEM \<equiv> 2"
abbreviation (input) PM_RET_ERROR_NOTSUPPORTED :: u32 where "PM_RET_ERROR_NOTSUPPORTED \<equiv> 4"
abbreviation (input) PM_RET_ERROR_ACCESS :: u32 where "PM_RET_ERROR_ACCESS \<equiv> 2002"
abbreviation (input) NODE_APLL :: u32 where "NODE_APLL \<equiv> 50"
abbreviation (input) NODE_IOPLL :: u32 where "NODE_IOPLL \<equiv> 54"
abbreviation (input) PM_PLL_PARAM_MAX :: u32 where "PM_PLL_PARAM_MAX \<equiv> 10"
abbreviation (input) PM_PLL_MODE_MAX :: u32 where "PM_PLL_MODE_MAX \<equiv> 3"
abbreviation (input) ZYNQMP_CSU_BASEADDR :: u32 where "ZYNQMP_CSU_BASEADDR \<equiv> 0xFFCA0000"
abbreviation (input) CSUDMA_BASE :: u32 where "CSUDMA_BASE \<equiv> 0xFFC80000"
abbreviation (input) RSA_CORE_BASE :: u32 where "RSA_CORE_BASE \<equiv> 0xFFCE0000"
abbreviation (input) PMU_GLOBAL_BASE :: u32 where "PMU_GLOBAL_BASE \<equiv> 0xFFD80000"
abbreviation (input) CONFIG_REG_WRITE :: u32 where "CONFIG_REG_WRITE \<equiv> 0"
abbreviation (input) CONFIG_REG_READ :: u32 where "CONFIG_REG_READ \<equiv> 1"
abbreviation (input) EM_SET_ACTION :: u32 where "EM_SET_ACTION \<equiv> 1"
abbreviation (input) EM_REMOVE_ACTION :: u32 where "EM_REMOVE_ACTION \<equiv> 2"
abbreviation (input) EM_SEND_ERRORS :: u32 where "EM_SEND_ERRORS \<equiv> 3"
abbreviation (input) IOCTL_SET_FEATURE_CONFIG :: u32 where "IOCTL_SET_FEATURE_CONFIG \<equiv> 26"
abbreviation (input) IOCTL_GET_FEATURE_CONFIG :: u32 where "IOCTL_GET_FEATURE_CONFIG \<equiv> 27"

record pms_mach = pmc_mach +
  pm_shutdown_scope :: u32

lemma pms_fields [bus_simps]:
  "pm_shutdown_scope (mmio_write_32 a v s) = pm_shutdown_scope s"
  "pm_shutdown_scope (snd (mmio_read_32 a s)) = pm_shutdown_scope s"
  "pm_shutdown_scope (mmio_write_8 a b s) = pm_shutdown_scope s"
  "pm_shutdown_scope (fw_call f as s) = pm_shutdown_scope s"
  by (simp_all add: mmio_read_32_def mmio_write_32_def mmio_write_8_def fw_call_def Let_def)

declare pms_fields [simp]

type_synonym 's pm_api = "'s \<Rightarrow> ((u32 \<times> u32 list) \<times> 's) option"

section \<open>Requests\<close>

text \<open>
  \<open>pm_req args n\<close>: pack the words \<open>args\<close> into a payload, send it synchronously on the channel of the
  primary processor and fetch \<open>n\<close> words of the answer.  \<open>pm_ret e\<close>: return status \<open>e\<close> and store nothing.
\<close>

definition pm_req :: "u32 list \<Rightarrow> nat \<Rightarrow> 'a pm_mach_scheme pm_api" where
  "pm_req args n s = pm_ipi_send_sync primary_proc (pm_pack args s) n s"

definition pm_ret :: "u32 \<Rightarrow> 's pm_api" where
  "pm_ret e s = Some ((e, []), s)"

text \<open>\<open>if (ack == REQ_ACK_BLOCKING) pm_ipi_send_sync(...) else pm_ipi_send(...)\<close>.\<close>

definition pm_req_ack :: "u32 list \<Rightarrow> u32 \<Rightarrow> 'a pm_mach_scheme pm_api" where
  "pm_req_ack args ack s =
     (if ack = REQ_ACK_BLOCKING then pm_req args 0 s
      else do {
        (ret, s) \<leftarrow> pm_ipi_send primary_proc (pm_pack args s) s;
        pm_ret ret s
      })"

definition pm_get_shutdown_scope :: "'a pms_mach_scheme \<Rightarrow> u32" where
  "pm_get_shutdown_scope s = pm_shutdown_scope s"

definition pm_self_suspend :: "u32 \<Rightarrow> u32 \<Rightarrow> u32 \<Rightarrow> u64 \<Rightarrow> 'a pmc_mach_scheme pm_api" where
  "pm_self_suspend nid latency state address s = do {
     let cpuid = of_nat (plat_my_core_pos s);
     let proc = pm_get_proc cpuid;
     s \<leftarrow> pm_client_suspend proc state s;
     p \<leftarrow> proc;
     let payload = pm_pack [PM_SELF_SUSPEND, node_id p, latency, state, ucast address, ucast (drop_bit 32 address)] s;
     pm_ipi_send_sync p payload 0 s
   }"

definition pm_req_suspend :: "u32 \<Rightarrow> u32 \<Rightarrow> u32 \<Rightarrow> u32 \<Rightarrow> 'a pm_mach_scheme pm_api" where
  "pm_req_suspend target ack latency state = pm_req_ack [PM_REQ_SUSPEND, target, ack, latency, state] ack"

definition pm_req_wakeup :: "u32 \<Rightarrow> u32 \<Rightarrow> u64 \<Rightarrow> u32 \<Rightarrow> 'a pm_mach_scheme pm_api" where
  "pm_req_wakeup target set_address address ack =
     (let encoded_address = address OR (if set_address \<noteq> 0 then 1 else 0)
      in pm_req_ack [PM_REQ_WAKEUP, target, ucast encoded_address, ucast (drop_bit 32 encoded_address), ack] ack)"

definition pm_force_powerdown :: "u32 \<Rightarrow> u32 \<Rightarrow> 'a pm_mach_scheme pm_api" where
  "pm_force_powerdown target ack = pm_req_ack [PM_FORCE_POWERDOWN, target, ack] ack"

definition pm_abort_suspend :: "u32 \<Rightarrow> 'a pmc_mach_scheme pm_api" where
  "pm_abort_suspend reason s = do {
     s \<leftarrow> pm_client_abort_suspend s;
     pm_req [PM_ABORT_SUSPEND, reason, node_id primary_proc] 0 s
   }"

definition pm_system_shutdown :: "u32 \<Rightarrow> u32 \<Rightarrow> 'a pms_mach_scheme pm_api" where
  "pm_system_shutdown type subtype s =
     (if type = PMF_SHUTDOWN_TYPE_SETSCOPE_ONLY then pm_ret PM_RET_SUCCESS (s\<lparr>pm_shutdown_scope := subtype\<rparr>)
      else do {
        (ret, s) \<leftarrow> pm_ipi_send_non_blocking primary_proc (pm_pack [PM_SYSTEM_SHUTDOWN, type, subtype] s) s;
        pm_ret ret s
      })"

definition pm_req_node :: "u32 \<Rightarrow> u32 \<Rightarrow> u32 \<Rightarrow> u32 \<Rightarrow> 'a pm_mach_scheme pm_api" where
  "pm_req_node nid capabilities qos ack = pm_req_ack [PM_REQ_NODE, nid, capabilities, qos, ack] ack"

definition pm_set_requirement :: "u32 \<Rightarrow> u32 \<Rightarrow> u32 \<Rightarrow> u32 \<Rightarrow> 'a pm_mach_scheme pm_api" where
  "pm_set_requirement nid capabilities qos ack = pm_req_ack [PM_SET_REQUIREMENT, nid, capabilities, qos, ack] ack"

definition pm_release_node :: "u32 \<Rightarrow> 'a pm_mach_scheme pm_api" where
  "pm_release_node nid = pm_req [PM_RELEASE_NODE, nid] 0"

definition pm_set_max_latency :: "u32 \<Rightarrow> u32 \<Rightarrow> 'a pm_mach_scheme pm_api" where
  "pm_set_max_latency nid latency = pm_req [PM_SET_MAX_LATENCY, nid, latency] 0"

definition pm_get_api_version :: "'a pm_mach_scheme pm_api" where
  "pm_get_api_version = pm_req [PM_GET_API_VERSION] 1"

definition pm_set_configuration :: "u32 \<Rightarrow> 'a pm_mach_scheme pm_api" where
  "pm_set_configuration phys_addr = pm_req [PM_SET_CONFIGURATION, phys_addr] 0"

definition pm_init_finalize :: "'a pm_mach_scheme pm_api" where
  "pm_init_finalize = pm_req [PM_INIT_FINALIZE] 0"

definition pm_get_node_status :: "u32 \<Rightarrow> 'a pm_mach_scheme pm_api" where
  "pm_get_node_status nid = pm_req [PM_GET_NODE_STATUS, nid] 3"

definition pm_register_notifier :: "u32 \<Rightarrow> u32 \<Rightarrow> u32 \<Rightarrow> u32 \<Rightarrow> 'a pm_mach_scheme pm_api" where
  "pm_register_notifier nid event wake enable = pm_req [PM_REGISTER_NOTIFIER, nid, event, wake, enable] 0"

definition pm_get_op_characteristic :: "u32 \<Rightarrow> u32 \<Rightarrow> 'a pm_mach_scheme pm_api" where
  "pm_get_op_characteristic nid type = pm_req [PM_GET_OP_CHARACTERISTIC, nid, type] 1"

definition pm_reset_assert :: "u32 \<Rightarrow> u32 \<Rightarrow> 'a pm_mach_scheme pm_api" where
  "pm_reset_assert reset asrt = pm_req [PM_RESET_ASSERT, reset, asrt] 0"

definition pm_reset_get_status :: "u32 \<Rightarrow> 'a pm_mach_scheme pm_api" where
  "pm_reset_get_status reset = pm_req [PM_RESET_GET_STATUS, reset] 1"

definition pm_mmio_write :: "u32 \<Rightarrow> u32 \<Rightarrow> u32 \<Rightarrow> 'a pm_mach_scheme pm_api" where
  "pm_mmio_write address msk value = pm_req [PM_MMIO_WRITE, address, msk, value] 0"

definition pm_mmio_read :: "u32 \<Rightarrow> 'a pm_mach_scheme pm_api" where
  "pm_mmio_read address = pm_req [PM_MMIO_READ, address] 1"

definition pm_fpga_load :: "u32 \<Rightarrow> u32 \<Rightarrow> u32 \<Rightarrow> u32 \<Rightarrow> 'a pm_mach_scheme pm_api" where
  "pm_fpga_load address_low address_high sz fl = pm_req [PM_FPGA_LOAD, address_high, address_low, sz, fl] 0"

definition pm_fpga_get_status :: "'a pm_mach_scheme pm_api" where
  "pm_fpga_get_status = pm_req [PM_FPGA_GET_STATUS] 1"

definition pm_get_chipid :: "'a pm_mach_scheme pm_api" where
  "pm_get_chipid = pm_req [PM_GET_CHIPID] 2"

definition pm_secure_rsaaes :: "u32 \<Rightarrow> u32 \<Rightarrow> u32 \<Rightarrow> u32 \<Rightarrow> 'a pm_mach_scheme pm_api" where
  "pm_secure_rsaaes address_low address_high sz fl = pm_req [PM_SECURE_RSA_AES, address_high, address_low, sz, fl] 0"

definition pm_aes_engine :: "u32 \<Rightarrow> u32 \<Rightarrow> 'a pm_mach_scheme pm_api" where
  "pm_aes_engine address_high address_low = pm_req [PM_SECURE_AES, address_high, address_low] 1"

definition pm_get_callbackdata :: "nat \<Rightarrow> 'a pm_mach_scheme \<Rightarrow> (u32 list \<times> 'a pm_mach_scheme) option" where
  "pm_get_callbackdata count s = do {
     (st, s) \<leftarrow> pm_ipi_irq_status primary_proc s;
     if st = 0 then Some ([], s)
     else do {
       let (vs, s) = pm_ipi_buff_read_callb count s;
       s \<leftarrow> pm_ipi_irq_clear primary_proc s;
       Some (vs, s)
     }
   }"

definition pm_pinctrl_request :: "u32 \<Rightarrow> 'a pm_mach_scheme pm_api" where
  "pm_pinctrl_request pin = pm_req [PM_PINCTRL_REQUEST, pin] 0"

definition pm_pinctrl_release :: "u32 \<Rightarrow> 'a pm_mach_scheme pm_api" where
  "pm_pinctrl_release pin = pm_req [PM_PINCTRL_RELEASE, pin] 0"

definition pm_pinctrl_get_function :: "u32 \<Rightarrow> 'a pm_mach_scheme pm_api" where
  "pm_pinctrl_get_function pin = pm_req [PM_PINCTRL_GET_FUNCTION, pin] 1"

definition pm_pinctrl_set_function :: "u32 \<Rightarrow> u32 \<Rightarrow> 'a pm_mach_scheme pm_api" where
  "pm_pinctrl_set_function pin fid = pm_req [PM_PINCTRL_SET_FUNCTION, pin, fid] 0"

definition pm_pinctrl_get_config :: "u32 \<Rightarrow> u32 \<Rightarrow> 'a pm_mach_scheme pm_api" where
  "pm_pinctrl_get_config pin param = pm_req [PM_PINCTRL_CONFIG_PARAM_GET, pin, param] 1"

definition pm_pinctrl_set_config :: "u32 \<Rightarrow> u32 \<Rightarrow> u32 \<Rightarrow> 'a pm_mach_scheme pm_api" where
  "pm_pinctrl_set_config pin param value = pm_req [PM_PINCTRL_CONFIG_PARAM_SET, pin, param, value] 0"

definition pm_sha_hash :: "u32 \<Rightarrow> u32 \<Rightarrow> u32 \<Rightarrow> u32 \<Rightarrow> 'a pm_mach_scheme pm_api" where
  "pm_sha_hash address_high address_low sz fl = pm_req [PM_SECURE_SHA, address_high, address_low, sz, fl] 0"

definition pm_rsa_core :: "u32 \<Rightarrow> u32 \<Rightarrow> u32 \<Rightarrow> u32 \<Rightarrow> 'a pm_mach_scheme pm_api" where
  "pm_rsa_core address_high address_low sz fl = pm_req [PM_SECURE_RSA, address_high, address_low, sz, fl] 0"

definition pm_secure_image :: "u32 \<Rightarrow> u32 \<Rightarrow> u32 \<Rightarrow> u32 \<Rightarrow> 'a pm_mach_scheme pm_api" where
  "pm_secure_image address_low address_high key_lo key_hi = pm_req [PM_SECURE_IMAGE, address_high, address_low, key_hi, key_lo] 2"

definition pm_fpga_read :: "u32 \<Rightarrow> u32 \<Rightarrow> u32 \<Rightarrow> u32 \<Rightarrow> 'a pm_mach_scheme pm_api" where
  "pm_fpga_read reg_numframes address_low address_high readback_type = pm_req [PM_FPGA_READ, reg_numframes, address_low, address_high, readback_type] 1"

definition is_pll_node :: "u32 \<Rightarrow> bool" where
  "is_pll_node nid \<longleftrightarrow> \<not> (nid < NODE_APLL \<or> nid > NODE_IOPLL)"

definition pm_pll_set_parameter :: "u32 \<Rightarrow> u32 \<Rightarrow> u32 \<Rightarrow> 'a pm_mach_scheme pm_api" where
  "pm_pll_set_parameter nid param_id value =
     (if \<not> is_pll_node nid then pm_ret PM_RET_ERROR_ARGS
      else if param_id \<ge> PM_PLL_PARAM_MAX then pm_ret PM_RET_ERROR_ARGS
      else pm_req [PM_PLL_SET_PARAMETER, nid, param_id, value] 0)"

definition pm_pll_get_parameter :: "u32 \<Rightarrow> u32 \<Rightarrow> 'a pm_mach_scheme pm_api" where
  "pm_pll_get_parameter nid param_id =
     (if \<not> is_pll_node nid then pm_ret PM_RET_ERROR_ARGS
      else if param_id \<ge> PM_PLL_PARAM_MAX then pm_ret PM_RET_ERROR_ARGS
      else pm_req [PM_PLL_GET_PARAMETER, nid, param_id] 1)"

definition pm_pll_set_mode :: "u32 \<Rightarrow> u32 \<Rightarrow> 'a pm_mach_scheme pm_api" where
  "pm_pll_set_mode nid mode =
     (if \<not> is_pll_node nid then pm_ret PM_RET_ERROR_ARGS
      else if mode \<ge> PM_PLL_MODE_MAX then pm_ret PM_RET_ERROR_ARGS
      else pm_req [PM_PLL_SET_MODE, nid, mode] 0)"

definition pm_pll_get_mode :: "u32 \<Rightarrow> 'a pm_mach_scheme pm_api" where
  "pm_pll_get_mode nid =
     (if \<not> is_pll_node nid then pm_ret PM_RET_ERROR_ARGS
      else pm_req [PM_PLL_GET_MODE, nid] 1)"

definition register_window :: "u32 \<Rightarrow> bool" where
  "register_window address \<longleftrightarrow>
     \<not> (ZYNQMP_CSU_BASEADDR AND address \<noteq> ZYNQMP_CSU_BASEADDR \<and>
        CSUDMA_BASE AND address \<noteq> CSUDMA_BASE \<and>
        RSA_CORE_BASE AND address \<noteq> RSA_CORE_BASE \<and>
        PMU_GLOBAL_BASE AND address \<noteq> PMU_GLOBAL_BASE)"

definition pm_register_access :: "u32 \<Rightarrow> u32 \<Rightarrow> u32 \<Rightarrow> u32 \<Rightarrow> 'a pm_mach_scheme pm_api" where
  "pm_register_access register_access_id address msk value =
     (if \<not> register_window address then pm_ret PM_RET_ERROR_ACCESS
      else if register_access_id = CONFIG_REG_WRITE then pm_mmio_write address msk value
      else if register_access_id = CONFIG_REG_READ then pm_mmio_read address
      else pm_ret PM_RET_ERROR_ARGS)"

definition pm_efuse_access :: "u32 \<Rightarrow> u32 \<Rightarrow> 'a pm_mach_scheme pm_api" where
  "pm_efuse_access address_high address_low = pm_req [PM_EFUSE_ACCESS, address_high, address_low] 1"

text \<open>\<open>EM_PACK_PAYLOAD1\<close>: the error management module number in the upper half of the first word.\<close>

definition em_pack :: "u32 \<Rightarrow> u32 list" where
  "em_pack arg0 = [push_bit 16 0xE OR (arg0 AND 0xFFFF)]"

definition em_set_action :: "'a pm_mach_scheme pm_api" where
  "em_set_action = pm_req (em_pack EM_SET_ACTION) 1"

definition em_remove_action :: "'a pm_mach_scheme pm_api" where
  "em_remove_action = pm_req (em_pack EM_REMOVE_ACTION) 1"

definition em_send_errors :: "'a pm_mach_scheme pm_api" where
  "em_send_errors = pm_req (em_pack EM_SEND_ERRORS) 1"

definition pm_feature_config :: "u32 \<Rightarrow> u32 \<Rightarrow> u32 \<Rightarrow> 'a pm_mach_scheme pm_api" where
  "pm_feature_config ioctl_id config_id value =
     (let args = [PM_IOCTL, 0, ioctl_id, config_id, value]
      in if ioctl_id = IOCTL_GET_FEATURE_CONFIG then pm_req args 1
         else if ioctl_id = IOCTL_SET_FEATURE_CONFIG then pm_req args 0
         else pm_ret PM_RET_ERROR_ARGS)"

section \<open>Every call returns and leaves the channel idle\<close>

text \<open>
  The state in which the API may be called: channel idle, firmware alive, the client lock in the
  state \<open>b\<close>, the interrupt controller driver set up and the code on one of the four cores.
\<close>

definition pm_ok :: "bool \<Rightarrow> 'a pmc_mach_scheme \<Rightarrow> bool" where
  "pm_ok b s \<longleftrightarrow> pm_idle s \<and> pmu_live s \<and> pm_client_secure_lock s = b \<and>
     driver_data s = Some arm_gic_data \<and> plat_my_core_pos s < 4"

lemma pm_ok_cong: "mach.more s' = mach.more s \<Longrightarrow> m_hw s' = m_hw s \<Longrightarrow> pm_ok b s' = pm_ok b s"
  by (cases s, cases s') (simp add: pm_ok_def pm_idle_def pmu_live_def plat_my_core_pos_def)

lemma pm_ok_bus [simp]:
  "pm_ok b (mmio_write_32 a v s) = pm_ok b s" "pm_ok b (snd (mmio_read_32 a s)) = pm_ok b s"
  "pm_ok b (fw_call f as s) = pm_ok b s"
  by (rule pm_ok_cong; simp)+

lemma pm_ok_lock: "pm_ok b s \<Longrightarrow> pm_ok b' (s\<lparr>pm_client_secure_lock := b'\<rparr>)"
  by (simp add: pm_ok_def pm_idle_def pmu_live_def plat_my_core_pos_def)

interpretation pml: pm_live_channel "pm_ipi_send_sync primary_proc" "pm_ok b" for b
proof
  fix s s' :: "'a pmc_mach_scheme" and p n st vs
  assume ok: "pm_ok b s"
  then have idle: "pm_idle s" and live: "pmu_live s" by (simp_all add: pm_ok_def)
  show "pm_ipi_send_sync primary_proc p n s \<noteq> None"
    using send_sync_returns [OF idle] pmu_live_takes [OF live] by blast
  assume r: "pm_ipi_send_sync primary_proc p n s = Some ((st, vs), s')"
  show "st \<le> 0xFFFF" "length vs = n"
    using pmch.send_status [OF idle r] pmch.send_values [OF idle r] by simp_all
  from send_sync_apu [OF idle r] have "mach.more s' = mach.more s" "m_hw s' = m_hw s" by metis+
  with ok show "pm_ok b s'" using pm_ok_cong by blast
qed

named_theorems pm_runs \<open>functions of the API that return and leave the channel idle\<close>

lemma runs_pm_req [pm_runs]: "pml.runs b (pm_req args n)"
  unfolding pm_req_def by (rule pml.runs_send)

lemma runs_pm_ret [pm_runs]: "pml.runs b (pm_ret e)"
  unfolding pm_ret_def by (rule pml.runs_upd)

lemma runs_pm_set_wakeup_source [pm_runs]: "pml.runs b (pm_set_wakeup_source t n e)"
proof (rule pml.runsI)
  fix s :: "'a pmc_mach_scheme" assume "pm_ok b s"
  from pml.runsD [OF pml.runs_send this, of "pm_pack [PM_SET_WAKEUP_SOURCE, t, n, e]" 0]
  show "\<exists>r s'. pm_set_wakeup_source t n e s = Some (r, s') \<and> pm_ok b s'"
    by (auto simp: pm_set_wakeup_source_def)
qed

text \<open>The blocking and the non-blocking notification without an answer.\<close>

lemma pm_ok_unlock:
  assumes "pm_ok b s" and "mach.more t = mach.more (s\<lparr>pm_secure_lock := True\<rparr>)" and "m_hw t = m_hw s"
  shows "pm_ok b (pm_lock_release t)"
proof -
  have "mach.more (pm_lock_release t) = mach.more s"
    using assms(1,2) by (intro unlock_more) (simp_all add: pm_ok_def pm_idle_def)
  from pm_ok_cong [OF this] assms show ?thesis by simp
qed

lemma runs_pm_ipi_send [pm_runs]: "pml.runs b (\<lambda>s. pm_ipi_send primary_proc (p s) s)"
proof (rule pml.runsI)
  fix s :: "'a pmc_mach_scheme" assume ok: "pm_ok b s"
  define s0 where "s0 = s\<lparr>pm_secure_lock := True\<rparr>"
  have idle: "pm_idle s" and live: "pmu_live s" and free: "\<not> pm_secure_lock s" using ok by (simp_all add: pm_ok_def pm_idle_def)
  have chan: "pm_chan primary_proc (zynqmp_ipi_table ! 0) (zynqmp_ipi_table ! 3) s0"
    using pm_idle_chan [OF idle] by (simp add: s0_def)
  have "\<exists>n. m_hw s0 (m_now s0 + 7 + n) 0xFF300004 (m_regs s0 0xFF300004) AND 0x10000 = 0"
    using live by (simp add: pmu_live_def s0_def)
  then have "pm_ipi_send_common primary_proc (p s) True s0 \<noteq> None"
    using send_common_None [OF chan, of "p s"] by (simp add: apu_agents)
  then obtain st t where t: "pm_ipi_send_common primary_proc (p s) True s0 = Some (st, t)" by auto
  from send_common_trace [OF chan t] have "mach.more t = mach.more s0" "m_hw t = m_hw s0" by metis+
  then have "pm_ok b (pm_lock_release t)" using pm_ok_unlock [OF ok] by (simp add: s0_def)
  moreover have "pm_ipi_send primary_proc (p s) s = Some (st, pm_lock_release t)"
    using t free by (simp add: pm_ipi_send_def pm_lock_get_def s0_def)
  ultimately show "\<exists>r s'. pm_ipi_send primary_proc (p s) s = Some (r, s') \<and> pm_ok b s'" by blast
qed

lemma send_non_blocking_eq:
  assumes "pm_idle s"
  shows "pm_ipi_send_non_blocking primary_proc p s = Some (PM_RET_SUCCESS,
    pm_lock_release (mmio_write_32 0xFF300000 0x10000 (write_words (req_words primary_proc p) (s\<lparr>pm_secure_lock := True\<rparr>))))"
proof -
  define t where "t = write_words (req_words primary_proc p) (s\<lparr>pm_secure_lock := True\<rparr>)"
  have more: "mach.more t = mach.more (s\<lparr>pm_secure_lock := True\<rparr>)" by (simp add: t_def)
  have "ipi_ent 0 t = Some (zynqmp_ipi_table ! 0)" "ipi_ent 3 t = Some (zynqmp_ipi_table ! 3)"
    unfolding same_more_fields(1) [OF more]
    using assms by (simp_all add: pm_idle_def ipi_ent_def zynqmp_ipi_table_def)
  from ipi_mb_notify_eq [OF this, of False] have "ipi_mb_notify 0 3 False t = Some (mmio_write_32 0xFF300000 0x10000 t)"
    by (simp add: apu_agents)
  with assms show ?thesis
    by (simp add: pm_ipi_send_non_blocking_def pm_ipi_send_common_def pm_lock_get_def pm_idle_def apu_ipi_def t_def)
qed

lemma runs_send_non_blocking [pm_runs]: "pml.runs b (\<lambda>s. pm_ipi_send_non_blocking primary_proc (p s) s)"
proof (rule pml.runsI)
  fix s :: "'a pmc_mach_scheme" assume ok: "pm_ok b s"
  then have "pm_idle s" by (simp add: pm_ok_def)
  from send_non_blocking_eq [OF this, of "p s"] pm_ok_unlock [OF ok]
  show "\<exists>r s'. pm_ipi_send_non_blocking primary_proc (p s) s = Some (r, s') \<and> pm_ok b s'" by simp
qed

lemma runs_pm_req_ack [pm_runs]: "pml.runs b (pm_req_ack args ack)"
  unfolding pm_req_ack_def by (intro pml.runs_if pml.runs_bind pm_runs)

text \<open>The client.\<close>

lemma runs_wakeup_scan: "pml.runs b (wakeup_scan irqs ns)"
proof (induction irqs arbitrary: ns)
  case Nil
  show ?case by (auto intro: pml.runsI)
next
  case (Cons irq irqs)
  have eq: "wakeup_scan (irq # irqs) ns = (\<lambda>s :: 'a pmc_mach_scheme. if irq > IRQ_MAX then Some (ns, s)
      else if irq_node_map ! unat irq \<noteq> NODE_UNKNOWN \<and> \<not> ns (irq_node_map ! unat irq)
      then pm_set_wakeup_source NODE_APU (irq_node_map ! unat irq) 1 s \<bind>
        (\<lambda>(ret, s). wakeup_scan irqs (ns(irq_node_map ! unat irq := (ret = 0))) s)
      else wakeup_scan irqs ns s)"
    by (rule ext) (simp add: Let_def)
  show ?case unfolding eq by (intro pml.runs_if pml.runs_upd pml.runs_bind pm_runs Cons.IH)
qed

lemma wakeup_regs_ok: "pm_ok b s \<Longrightarrow> \<exists>s'. wakeup_regs rs ns s = Some s' \<and> pm_ok b s'"
proof (induction rs arbitrary: ns s)
  case (Cons r rs)
  define t where "t = snd (mmio_read_32 (isenabler_addr r) s)"
  have "pm_ok b t" using Cons.prems by (simp add: t_def)
  from pml.runsE [OF runs_wakeup_scan this] obtain ns' u where
    "wakeup_scan (enabled_irqs (push_bit 5 (of_nat r)) (fst (mmio_read_32 (isenabler_addr r) s))) ns t = Some (ns', u)" "pm_ok b u"
    by metis
  then show ?case
    using Cons.IH [of u ns'] unfolding wakeup_regs_step by (simp add: case_prod_unfold Let_def t_def)
qed simp

lemma set_wakeup_sources_ok:
  assumes "pm_ok b s"
  shows "\<exists>s'. pm_client_set_wakeup_sources s = Some s' \<and> pm_ok b s'"
proof -
  from pml.runsD [OF runs_pm_set_wakeup_source assms, of NODE_APU NODE_EXTERN 1] obtain ret t where
    "pm_set_wakeup_source NODE_APU NODE_EXTERN 1 s = Some (ret, t)" "pm_ok b t" by blast
  then show ?thesis
    using wakeup_regs_ok [OF assms] wakeup_regs_ok [of b t] assms
    by (simp add: pm_client_set_wakeup_sources_def)
qed

lemma client_suspend_ok:
  assumes "pm_ok False s" and "proc \<noteq> None"
  shows "\<exists>s'. pm_client_suspend proc state s = Some s' \<and> pm_ok False s'"
proof -
  define s0 where "s0 = s\<lparr>pm_client_secure_lock := True\<rparr>"
  have s0: "pm_ok True s0" using pm_ok_lock [OF assms(1)] by (simp add: s0_def)
  have "pmc_lock_get s = Some s0" using assms(1) by (simp add: pm_ok_def pmc_lock_get_def s0_def)
  moreover have "\<exists>t. (if state = PM_STATE_SUSPEND_TO_RAM then pm_client_set_wakeup_sources s0 else Some s0) = Some t \<and> pm_ok True t"
    using set_wakeup_sources_ok [OF s0] s0 by simp
  ultimately show ?thesis
    using assms(2)
    by (auto simp: pm_client_suspend_def pmc_lock_release_def case_prod_unfold Let_def intro!: pm_ok_lock [of True])
qed

lemma client_abort_ok:
  assumes "pm_ok False s"
  shows "\<exists>s'. pm_client_abort_suspend s = Some s' \<and> pm_ok False s'"
proof -
  obtain t where t: "gicv2_cpuif_enable s = Some t" "mach.more t = mach.more s" "m_hw t = m_hw s"
    using assms by (auto simp: pm_ok_def gicv2_cpuif_enable_def gicc_of_def arm_gic_data_def
        gicc_write_pmr_def gicc_write_ctlr_def Let_def)
  then have ok: "pm_ok False t" using assms pm_ok_cong [OF t(2,3)] by simp
  have "pm_ok True (t\<lparr>pm_client_secure_lock := True\<rparr>)" "\<not> pm_client_secure_lock t"
    using pm_ok_lock [OF ok] ok by (simp_all add: pm_ok_def)
  with t(1) show ?thesis
    by (auto simp: pm_client_abort_suspend_def pmc_lock_get_def pmc_lock_release_def case_prod_unfold Let_def intro!: pm_ok_lock [of True])
qed

lemma runs_pm_self_suspend [pm_runs]: "pml.runs False (pm_self_suspend nid latency state address)"
proof (rule pml.runsI)
  fix s :: "'a pmc_mach_scheme" assume ok: "pm_ok False s"
  then obtain p where p: "pm_get_proc (of_nat (plat_my_core_pos s)) = Some p"
    by (simp add: pm_get_proc_def pm_ok_def pm_procs_all_def unat_small)
  then have "ipi p = apu_ipi"
    using procs_ipi by (auto simp: pm_get_proc_def split: if_splits)
  then have send: "pm_ipi_send_sync p = pm_ipi_send_sync primary_proc"
    by (intro send_sync_proc) simp
  from client_suspend_ok [OF ok] obtain t where t: "pm_client_suspend (Some p) state s = Some t" "pm_ok False t"
    by blast
  from pml.runsD [OF pml.runs_send t(2), of "pm_pack _" 0] p t(1)
  show "\<exists>r s'. pm_self_suspend nid latency state address s = Some (r, s') \<and> pm_ok False s'"
    by (simp add: pm_self_suspend_def send)
qed

lemma runs_pm_abort_suspend [pm_runs]: "pml.runs False (pm_abort_suspend reason)"
proof (rule pml.runsI)
  fix s :: "'a pmc_mach_scheme" assume "pm_ok False s"
  then obtain t where "pm_client_abort_suspend s = Some t" "pm_ok False t" using client_abort_ok by blast
  with pml.runsD [OF runs_pm_req, of False t "[PM_ABORT_SUSPEND, reason, node_id primary_proc]" 0]
  show "\<exists>r s'. pm_abort_suspend reason s = Some (r, s') \<and> pm_ok False s'"
    by (simp add: pm_abort_suspend_def)
qed

lemma runs_pm_system_shutdown [pm_runs]: "pml.runs b (pm_system_shutdown ty subty)"
proof -
  have "pm_ok b (s\<lparr>pm_shutdown_scope := v\<rparr>)" if "pm_ok b s" for s :: "'a pms_mach_scheme" and v
    using that by (simp add: pm_ok_def pm_idle_def pmu_live_def plat_my_core_pos_def)
  then show ?thesis unfolding pm_system_shutdown_def
    by (intro pml.runs_if pml.runs_bind pml.runs_pre [OF runs_pm_ret] pm_runs)
qed

lemma ipi_only_ok: "ipi_only l r s t \<Longrightarrow> pm_ok b t = pm_ok b s"
  by (rule pm_ok_cong) (simp_all add: ipi_only_def)

lemma pm_ok_ents:
  assumes "pm_ok b s"
  shows "ipi_ent (local_ipi_id (ipi primary_proc)) s = Some (zynqmp_ipi_table ! 0)"
    and "ipi_ent (remote_ipi_id (ipi primary_proc)) s = Some (zynqmp_ipi_table ! 3)"
  using assms by (simp_all add: pm_ok_def pm_idle_def ipi_ent_def apu_ipi_def zynqmp_ipi_table_def)

lemma runs_pm_get_callbackdata [pm_runs]: "pml.runs b (pm_get_callbackdata count)"
proof (rule pml.runsI)
  fix s :: "'a pmc_mach_scheme" assume ok: "pm_ok b s"
  from ipi_mb_enquire_status_only [OF pm_ok_ents [OF ok]] obtain n t where
    t: "ipi_mb_enquire_status (local_ipi_id (ipi primary_proc)) (remote_ipi_id (ipi primary_proc)) s = Some (n, t)"
      "ipi_only (zynqmp_ipi_table ! 0) (zynqmp_ipi_table ! 3) s t" by blast
  have okt: "pm_ok b t" using ok ipi_only_ok [OF t(2)] by simp
  define u where "u = snd (pm_ipi_buff_read_callb count t)"
  have "pm_ok b u = pm_ok b t"
    by (rule pm_ok_cong) (simp_all add: u_def pm_ipi_buff_read_callb_def Let_def)
  with okt have "pm_ok b u" by simp
  with ipi_mb_ops_eq(3) [OF pm_ok_ents [OF this]] t(1) okt
  show "\<exists>r s'. pm_get_callbackdata count s = Some (r, s') \<and> pm_ok b s'"
    by (simp add: pm_get_callbackdata_def pm_ipi_irq_status_def pm_ipi_irq_clear_def u_def case_prod_unfold Let_def)
qed

text \<open>Everything else is a request, or an error before one.\<close>

lemma runs_api [pm_runs]:
  "pml.runs b (pm_req_suspend u v w x)"
  "pml.runs b (pm_req_wakeup u v adr x)"
  "pml.runs b (pm_force_powerdown u v)"
  "pml.runs b (pm_req_node u v w x)"
  "pml.runs b (pm_set_requirement u v w x)"
  "pml.runs b (pm_release_node u)"
  "pml.runs b (pm_set_max_latency u v)"
  "pml.runs b (pm_get_api_version)"
  "pml.runs b (pm_set_configuration u)"
  "pml.runs b (pm_init_finalize)"
  "pml.runs b (pm_get_node_status u)"
  "pml.runs b (pm_register_notifier u v w x)"
  "pml.runs b (pm_get_op_characteristic u v)"
  "pml.runs b (pm_reset_assert u v)"
  "pml.runs b (pm_reset_get_status u)"
  "pml.runs b (pm_mmio_write u v w)"
  "pml.runs b (pm_mmio_read u)"
  "pml.runs b (pm_fpga_load u v w x)"
  "pml.runs b (pm_fpga_get_status)"
  "pml.runs b (pm_get_chipid)"
  "pml.runs b (pm_secure_rsaaes u v w x)"
  "pml.runs b (pm_aes_engine u v)"
  "pml.runs b (pm_pinctrl_request u)"
  "pml.runs b (pm_pinctrl_release u)"
  "pml.runs b (pm_pinctrl_get_function u)"
  "pml.runs b (pm_pinctrl_set_function u v)"
  "pml.runs b (pm_pinctrl_get_config u v)"
  "pml.runs b (pm_pinctrl_set_config u v w)"
  "pml.runs b (pm_sha_hash u v w x)"
  "pml.runs b (pm_rsa_core u v w x)"
  "pml.runs b (pm_secure_image u v w x)"
  "pml.runs b (pm_fpga_read u v w x)"
  "pml.runs b (pm_pll_set_parameter u v w)"
  "pml.runs b (pm_pll_get_parameter u v)"
  "pml.runs b (pm_pll_set_mode u v)"
  "pml.runs b (pm_pll_get_mode u)"
  "pml.runs b (pm_register_access u v w x)"
  "pml.runs b (pm_efuse_access u v)"
  "pml.runs b (em_set_action)"
  "pml.runs b (em_remove_action)"
  "pml.runs b (em_send_errors)"
  "pml.runs b (pm_feature_config u v w)"
  by (simp_all add: pm_req_suspend_def pm_req_wakeup_def pm_force_powerdown_def pm_req_node_def pm_set_requirement_def
    pm_release_node_def pm_set_max_latency_def pm_get_api_version_def pm_set_configuration_def
    pm_init_finalize_def pm_get_node_status_def pm_register_notifier_def pm_get_op_characteristic_def
    pm_reset_assert_def pm_reset_get_status_def pm_mmio_write_def pm_mmio_read_def pm_fpga_load_def
    pm_fpga_get_status_def pm_get_chipid_def pm_secure_rsaaes_def pm_aes_engine_def pm_pinctrl_request_def
    pm_pinctrl_release_def pm_pinctrl_get_function_def pm_pinctrl_set_function_def pm_pinctrl_get_config_def
    pm_pinctrl_set_config_def pm_sha_hash_def pm_rsa_core_def pm_secure_image_def pm_fpga_read_def
    pm_pll_set_parameter_def pm_pll_get_parameter_def pm_pll_set_mode_def pm_pll_get_mode_def
    pm_register_access_def pm_efuse_access_def em_set_action_def em_remove_action_def em_send_errors_def
    pm_feature_config_def
    pm_runs Let_def)

section \<open>Properties\<close>

lemma window_exact: "register_window address \<longleftrightarrow> 0xFFC80000 AND address = 0xFFC80000"
proof -
  have sub: "c AND address = c \<Longrightarrow> d AND c = d \<Longrightarrow> d AND address = d" for c d :: u32
    by (metis and.assoc)
  show ?thesis
    unfolding register_window_def
    using sub [of "0xFFCA0000" "0xFFC80000"] sub [of "0xFFCE0000" "0xFFC80000"] sub [of "0xFFD80000" "0xFFC80000"]
    by auto
qed

text \<open>The specification: the requests that a register access makes.\<close>

definition register_reqs :: "u32 \<Rightarrow> u32 \<Rightarrow> u32 \<Rightarrow> u32 \<Rightarrow> u32 list list" where
  "register_reqs op address msk value =
     (if 0xFFC80000 AND address \<noteq> 0xFFC80000 then []
      else if op = CONFIG_REG_WRITE then [[PM_MMIO_WRITE, address, msk, value]]
      else if op = CONFIG_REG_READ then [[PM_MMIO_READ, address]]
      else [])"

lemma pm_req_decoded:
  assumes ok: "pm_ok b s" and len: "length args \<le> 6"
  shows "\<exists>v0 vs s'. pm_req args n s = Some ((0xFFFF AND v0, vs), s') \<and> pm_ok b s' \<and> length vs = n \<and>
    last (since s s') = RD 0xFF9905E0 v0 \<and> (\<forall>buf. list_all2 (\<lambda>words req. take (length words) req = words) [args] (pm_reqs buf (since s s')))"
proof -
  have idle: "pm_idle s" using ok by (simp add: pm_ok_def)
  from pml.runsD [OF runs_pm_req ok, of args n] obtain st vs s' where
    r: "pm_req args n s = Some ((st, vs), s')" "pm_ok b s'" by auto
  from send_sync_apu [OF idle r(1) [unfolded pm_req_def]] obtain ps v0 where
    a: "st = ERROR_CODE_MASK AND v0" "length vs = n" "m_evs s' = m_evs s @ apu_trace (pm_pack args s) ps vs v0" by metis
  have e: "since s s' = apu_trace (pm_pack args s) ps vs v0" using a(3) by (simp add: since_def)
  have "take (length args) (map (pm_pack args s) [0..<6]) = args"
    using len by (intro nth_equalityI) (auto simp: pm_pack_def)
  moreover have "last (since s s') = RD 0xFF9905E0 v0" by (simp add: e apu_trace_def)
  ultimately show ?thesis using r a(1,2)
    by (intro exI [of _ v0] exI [of _ vs] exI [of _ s']) (simp add: e pm_reqs_apu)
qed

text \<open>
  C38. The register access call.  It always returns and leaves the channel idle, and the request it sends to
  the power management firmware is decided by one bit test: when all the bits of \<open>0xFFC80000\<close> are set
  in the address, a write is sent as exactly one \<open>PM_MMIO_WRITE\<close> of this address, mask and value, a
  read as exactly one \<open>PM_MMIO_READ\<close> of this address, with the caller's status that of the firmware
  and one word of data for a read; any other operation is an argument error; and when
  one of the bits is clear the access is refused.  In these last two cases nothing happens on the bus.  The
  tests of the source for the CSU, the RSA core and the PMU so add nothing to the one for the CSU DMA, and
  every address from \<open>0xFFC80000\<close> on that has the bits passes, on-chip memory included.
\<close>

theorem register_access_window:
  assumes "pm_ok b s"
  shows "\<exists>r vs s'. pm_register_access op address msk value s = Some ((r, vs), s') \<and> pm_ok b s' \<and>
    list_all2 (\<lambda>words req. take (length words) req = words) (register_reqs op address msk value) (pm_reqs buf (since s s')) \<and>
    (if register_reqs op address msk value = []
     then s' = s \<and> vs = [] \<and> r = (if 0xFFC80000 AND address = 0xFFC80000 then PM_RET_ERROR_ARGS else PM_RET_ERROR_ACCESS)
     else length vs = (if op = CONFIG_REG_READ then 1 else 0) \<and> (\<exists>v0. last (since s s') = RD 0xFF9905E0 v0 \<and> r = 0xFFFF AND v0))"
proof -
  consider (out) "0xFFC80000 AND address \<noteq> 0xFFC80000" | (wr) "0xFFC80000 AND address = 0xFFC80000" "op = 0"
    | (rd) "0xFFC80000 AND address = 0xFFC80000" "op = 1" | (other) "0xFFC80000 AND address = 0xFFC80000" "op \<noteq> 0" "op \<noteq> 1"
    by blast
  then show ?thesis
  proof cases
    case wr
    with pm_req_decoded [OF assms, of "[PM_MMIO_WRITE, address, msk, value]" 0] show ?thesis
      by (fastforce simp: pm_register_access_def window_exact register_reqs_def pm_mmio_write_def)
  next
    case rd
    with pm_req_decoded [OF assms, of "[PM_MMIO_READ, address]" 1] show ?thesis
      by (fastforce simp: pm_register_access_def window_exact register_reqs_def pm_mmio_read_def)
  qed (use assms in \<open>simp_all add: pm_register_access_def window_exact register_reqs_def pm_ret_def\<close>)
qed

text \<open>The top of on-chip memory passes the check, the interrupt controller does not.\<close>

theorem register_access_window_witness:
  "\<exists>(s :: pmc_mach) ws s1. pm_register_access CONFIG_REG_READ 0xFFFEA000 0 0 s = Some s1 \<and>
     pm_reqs (\<lambda>_. 0) (since s (snd s1)) = [ws] \<and> take 2 ws = [PM_MMIO_READ, 0xFFFEA000] \<and>
     pm_register_access CONFIG_REG_WRITE 0xF9010000 1 1 s = Some ((PM_RET_ERROR_ACCESS, []), s)"
proof -
  define s where "s = test_pmc (\<lambda>t a v. 0)"
  have ok: "pm_ok False s"
    by (simp add: s_def pm_ok_def pmu_live_def test_pmc_simps pm_idle_def plat_my_core_pos_def zynqmp_calc_core_pos_def)
  have regs: "register_reqs 1 0xFFFEA000 0 0 = [[PM_MMIO_READ, 0xFFFEA000]]" "register_reqs 0 0xF9010000 1 1 = []"
    by (simp_all add: register_reqs_def)
  from register_access_window [OF ok, of 1 "0xFFFEA000" 0 0 "\<lambda>_. 0"] obtain r vs s' where
    "pm_register_access 1 0xFFFEA000 0 0 s = Some ((r, vs), s')"
    "list_all2 (\<lambda>words req. take (length words) req = words) [[PM_MMIO_READ, 0xFFFEA000]] (pm_reqs (\<lambda>_. 0) (since s s'))"
    unfolding regs by blast
  moreover have "pm_register_access 0 0xF9010000 1 1 s = Some ((PM_RET_ERROR_ACCESS, []), s)"
    using register_access_window [OF ok, of 0 "0xF9010000" 1 1 "\<lambda>_. 0"] unfolding regs by auto
  ultimately show ?thesis
    by (intro exI [of _ s]) (auto simp: list_all2_Cons1 numeral_2_eq_2)
qed

end
