(* ===== verification/PM_Clock_Tables.thy ===== *)
theory PM_Clock_Tables
  imports PM_Sys
begin

unbundle bit_operations_syntax

text \<open>
  The clock tables of \<open>plat/xilinx/zynqmp/pm_service/pm_api_clock.c\<close>: the node lists that describe
  how a clock is built from multiplexers, dividers and gates, the output clocks with their parents,
  the external clocks, the clocks that this chip variant does not have and the PLLs.  The designated
  initialisers of an array are an association list from the index to the element, in the order of the
  source; \<open>PM_Clock\<close> reads it as the array.  Names, numbers and flags are those of \<open>pm_api_clock.h\<close>,
  register addresses those of \<open>include/zynqmp_def.h\<close>.
\<close>

section \<open>Types\<close>

record pm_clock_node =
  cn_clkflags :: u16
  cn_typeflags :: u16
  cn_type :: u8
  cn_offset :: u8
  cn_width :: u8
  cn_mult :: "4 word"
  cn_div :: "4 word"

text \<open>The pointers \<open>parents\<close> and \<open>nodes\<close> are the arrays they point to; a null parents pointer is \<open>None\<close>.\<close>

record pm_clock =
  ck_name :: string
  ck_num_nodes :: u8
  ck_control_reg :: u32
  ck_status_reg :: u32
  ck_parents :: "u32 list option"
  ck_nodes :: "pm_clock_node list"

record pm_pll =
  pll_nid :: u32
  pll_cid :: u32
  pll_pre_src :: u32
  pll_post_src :: u32
  pll_div2 :: u32
  pll_bypass :: u32
  pll_mode :: u8

section \<open>Constants\<close>

abbreviation (input) NODE_VPLL :: u32 where "NODE_VPLL \<equiv> 51"
abbreviation (input) NODE_DPLL :: u32 where "NODE_DPLL \<equiv> 52"
abbreviation (input) NODE_RPLL :: u32 where "NODE_RPLL \<equiv> 53"

abbreviation (input) CLK_NA_PARENT :: u32 where "CLK_NA_PARENT \<equiv> - 1"
abbreviation (input) CLK_DUMMY_PARENT :: u32 where "CLK_DUMMY_PARENT \<equiv> - 2"
abbreviation (input) PARENT_CLK_NODE1 :: u32 where "PARENT_CLK_NODE1 \<equiv> 1"
abbreviation (input) PARENT_CLK_NODE2 :: u32 where "PARENT_CLK_NODE2 \<equiv> 2"
abbreviation (input) PARENT_CLK_NODE3 :: u32 where "PARENT_CLK_NODE3 \<equiv> 3"
abbreviation (input) PARENT_CLK_EXTERNAL :: u32 where "PARENT_CLK_EXTERNAL \<equiv> 5"
abbreviation (input) CLK_PARENTS_ID_LEN :: nat where "CLK_PARENTS_ID_LEN \<equiv> 16"
abbreviation (input) CLK_EXTERNAL_PARENT :: u32 where "CLK_EXTERNAL_PARENT \<equiv> push_bit CLK_PARENTS_ID_LEN PARENT_CLK_EXTERNAL"
abbreviation (input) CLK_IOPLL :: u32 where "CLK_IOPLL \<equiv> 0"
abbreviation (input) CLK_RPLL :: u32 where "CLK_RPLL \<equiv> 1"
abbreviation (input) CLK_APLL :: u32 where "CLK_APLL \<equiv> 2"
abbreviation (input) CLK_DPLL :: u32 where "CLK_DPLL \<equiv> 3"
abbreviation (input) CLK_VPLL :: u32 where "CLK_VPLL \<equiv> 4"
abbreviation (input) CLK_IOPLL_TO_FPD :: u32 where "CLK_IOPLL_TO_FPD \<equiv> 5"
abbreviation (input) CLK_RPLL_TO_FPD :: u32 where "CLK_RPLL_TO_FPD \<equiv> 6"
abbreviation (input) CLK_APLL_TO_LPD :: u32 where "CLK_APLL_TO_LPD \<equiv> 7"
abbreviation (input) CLK_DPLL_TO_LPD :: u32 where "CLK_DPLL_TO_LPD \<equiv> 8"
abbreviation (input) CLK_VPLL_TO_LPD :: u32 where "CLK_VPLL_TO_LPD \<equiv> 9"
abbreviation (input) CLK_ACPU :: u32 where "CLK_ACPU \<equiv> 10"
abbreviation (input) CLK_ACPU_HALF :: u32 where "CLK_ACPU_HALF \<equiv> 11"
abbreviation (input) CLK_DBG_FPD :: u32 where "CLK_DBG_FPD \<equiv> 12"
abbreviation (input) CLK_DBG_LPD :: u32 where "CLK_DBG_LPD \<equiv> 13"
abbreviation (input) CLK_DBG_TRACE :: u32 where "CLK_DBG_TRACE \<equiv> 14"
abbreviation (input) CLK_DBG_TSTMP :: u32 where "CLK_DBG_TSTMP \<equiv> 15"
abbreviation (input) CLK_DP_VIDEO_REF :: u32 where "CLK_DP_VIDEO_REF \<equiv> 16"
abbreviation (input) CLK_DP_AUDIO_REF :: u32 where "CLK_DP_AUDIO_REF \<equiv> 17"
abbreviation (input) CLK_DP_STC_REF :: u32 where "CLK_DP_STC_REF \<equiv> 18"
abbreviation (input) CLK_GDMA_REF :: u32 where "CLK_GDMA_REF \<equiv> 19"
abbreviation (input) CLK_DPDMA_REF :: u32 where "CLK_DPDMA_REF \<equiv> 20"
abbreviation (input) CLK_DDR_REF :: u32 where "CLK_DDR_REF \<equiv> 21"
abbreviation (input) CLK_SATA_REF :: u32 where "CLK_SATA_REF \<equiv> 22"
abbreviation (input) CLK_PCIE_REF :: u32 where "CLK_PCIE_REF \<equiv> 23"
abbreviation (input) CLK_GPU_REF :: u32 where "CLK_GPU_REF \<equiv> 24"
abbreviation (input) CLK_GPU_PP0_REF :: u32 where "CLK_GPU_PP0_REF \<equiv> 25"
abbreviation (input) CLK_GPU_PP1_REF :: u32 where "CLK_GPU_PP1_REF \<equiv> 26"
abbreviation (input) CLK_TOPSW_MAIN :: u32 where "CLK_TOPSW_MAIN \<equiv> 27"
abbreviation (input) CLK_TOPSW_LSBUS :: u32 where "CLK_TOPSW_LSBUS \<equiv> 28"
abbreviation (input) CLK_GTGREF0_REF :: u32 where "CLK_GTGREF0_REF \<equiv> 29"
abbreviation (input) CLK_LPD_SWITCH :: u32 where "CLK_LPD_SWITCH \<equiv> 30"
abbreviation (input) CLK_LPD_LSBUS :: u32 where "CLK_LPD_LSBUS \<equiv> 31"
abbreviation (input) CLK_USB0_BUS_REF :: u32 where "CLK_USB0_BUS_REF \<equiv> 32"
abbreviation (input) CLK_USB1_BUS_REF :: u32 where "CLK_USB1_BUS_REF \<equiv> 33"
abbreviation (input) CLK_USB3_DUAL_REF :: u32 where "CLK_USB3_DUAL_REF \<equiv> 34"
abbreviation (input) CLK_USB0 :: u32 where "CLK_USB0 \<equiv> 35"
abbreviation (input) CLK_USB1 :: u32 where "CLK_USB1 \<equiv> 36"
abbreviation (input) CLK_CPU_R5 :: u32 where "CLK_CPU_R5 \<equiv> 37"
abbreviation (input) CLK_CPU_R5_CORE :: u32 where "CLK_CPU_R5_CORE \<equiv> 38"
abbreviation (input) CLK_CSU_SPB :: u32 where "CLK_CSU_SPB \<equiv> 39"
abbreviation (input) CLK_CSU_PLL :: u32 where "CLK_CSU_PLL \<equiv> 40"
abbreviation (input) CLK_PCAP :: u32 where "CLK_PCAP \<equiv> 41"
abbreviation (input) CLK_IOU_SWITCH :: u32 where "CLK_IOU_SWITCH \<equiv> 42"
abbreviation (input) CLK_GEM_TSU_REF :: u32 where "CLK_GEM_TSU_REF \<equiv> 43"
abbreviation (input) CLK_GEM_TSU :: u32 where "CLK_GEM_TSU \<equiv> 44"
abbreviation (input) CLK_GEM0_TX :: u32 where "CLK_GEM0_TX \<equiv> 45"
abbreviation (input) CLK_GEM1_TX :: u32 where "CLK_GEM1_TX \<equiv> 46"
abbreviation (input) CLK_GEM2_TX :: u32 where "CLK_GEM2_TX \<equiv> 47"
abbreviation (input) CLK_GEM3_TX :: u32 where "CLK_GEM3_TX \<equiv> 48"
abbreviation (input) CLK_GEM0_RX :: u32 where "CLK_GEM0_RX \<equiv> 49"
abbreviation (input) CLK_GEM1_RX :: u32 where "CLK_GEM1_RX \<equiv> 50"
abbreviation (input) CLK_GEM2_RX :: u32 where "CLK_GEM2_RX \<equiv> 51"
abbreviation (input) CLK_GEM3_RX :: u32 where "CLK_GEM3_RX \<equiv> 52"
abbreviation (input) CLK_QSPI_REF :: u32 where "CLK_QSPI_REF \<equiv> 53"
abbreviation (input) CLK_SDIO0_REF :: u32 where "CLK_SDIO0_REF \<equiv> 54"
abbreviation (input) CLK_SDIO1_REF :: u32 where "CLK_SDIO1_REF \<equiv> 55"
abbreviation (input) CLK_UART0_REF :: u32 where "CLK_UART0_REF \<equiv> 56"
abbreviation (input) CLK_UART1_REF :: u32 where "CLK_UART1_REF \<equiv> 57"
abbreviation (input) CLK_SPI0_REF :: u32 where "CLK_SPI0_REF \<equiv> 58"
abbreviation (input) CLK_SPI1_REF :: u32 where "CLK_SPI1_REF \<equiv> 59"
abbreviation (input) CLK_NAND_REF :: u32 where "CLK_NAND_REF \<equiv> 60"
abbreviation (input) CLK_I2C0_REF :: u32 where "CLK_I2C0_REF \<equiv> 61"
abbreviation (input) CLK_I2C1_REF :: u32 where "CLK_I2C1_REF \<equiv> 62"
abbreviation (input) CLK_CAN0_REF :: u32 where "CLK_CAN0_REF \<equiv> 63"
abbreviation (input) CLK_CAN1_REF :: u32 where "CLK_CAN1_REF \<equiv> 64"
abbreviation (input) CLK_CAN0 :: u32 where "CLK_CAN0 \<equiv> 65"
abbreviation (input) CLK_CAN1 :: u32 where "CLK_CAN1 \<equiv> 66"
abbreviation (input) CLK_DLL_REF :: u32 where "CLK_DLL_REF \<equiv> 67"
abbreviation (input) CLK_ADMA_REF :: u32 where "CLK_ADMA_REF \<equiv> 68"
abbreviation (input) CLK_TIMESTAMP_REF :: u32 where "CLK_TIMESTAMP_REF \<equiv> 69"
abbreviation (input) CLK_AMS_REF :: u32 where "CLK_AMS_REF \<equiv> 70"
abbreviation (input) CLK_PL0_REF :: u32 where "CLK_PL0_REF \<equiv> 71"
abbreviation (input) CLK_PL1_REF :: u32 where "CLK_PL1_REF \<equiv> 72"
abbreviation (input) CLK_PL2_REF :: u32 where "CLK_PL2_REF \<equiv> 73"
abbreviation (input) CLK_PL3_REF :: u32 where "CLK_PL3_REF \<equiv> 74"
abbreviation (input) CLK_FPD_WDT :: u32 where "CLK_FPD_WDT \<equiv> 75"
abbreviation (input) CLK_IOPLL_INT :: u32 where "CLK_IOPLL_INT \<equiv> 76"
abbreviation (input) CLK_IOPLL_PRE_SRC :: u32 where "CLK_IOPLL_PRE_SRC \<equiv> 77"
abbreviation (input) CLK_IOPLL_HALF :: u32 where "CLK_IOPLL_HALF \<equiv> 78"
abbreviation (input) CLK_IOPLL_INT_MUX :: u32 where "CLK_IOPLL_INT_MUX \<equiv> 79"
abbreviation (input) CLK_IOPLL_POST_SRC :: u32 where "CLK_IOPLL_POST_SRC \<equiv> 80"
abbreviation (input) CLK_RPLL_INT :: u32 where "CLK_RPLL_INT \<equiv> 81"
abbreviation (input) CLK_RPLL_PRE_SRC :: u32 where "CLK_RPLL_PRE_SRC \<equiv> 82"
abbreviation (input) CLK_RPLL_HALF :: u32 where "CLK_RPLL_HALF \<equiv> 83"
abbreviation (input) CLK_RPLL_INT_MUX :: u32 where "CLK_RPLL_INT_MUX \<equiv> 84"
abbreviation (input) CLK_RPLL_POST_SRC :: u32 where "CLK_RPLL_POST_SRC \<equiv> 85"
abbreviation (input) CLK_APLL_INT :: u32 where "CLK_APLL_INT \<equiv> 86"
abbreviation (input) CLK_APLL_PRE_SRC :: u32 where "CLK_APLL_PRE_SRC \<equiv> 87"
abbreviation (input) CLK_APLL_HALF :: u32 where "CLK_APLL_HALF \<equiv> 88"
abbreviation (input) CLK_APLL_INT_MUX :: u32 where "CLK_APLL_INT_MUX \<equiv> 89"
abbreviation (input) CLK_APLL_POST_SRC :: u32 where "CLK_APLL_POST_SRC \<equiv> 90"
abbreviation (input) CLK_DPLL_INT :: u32 where "CLK_DPLL_INT \<equiv> 91"
abbreviation (input) CLK_DPLL_PRE_SRC :: u32 where "CLK_DPLL_PRE_SRC \<equiv> 92"
abbreviation (input) CLK_DPLL_HALF :: u32 where "CLK_DPLL_HALF \<equiv> 93"
abbreviation (input) CLK_DPLL_INT_MUX :: u32 where "CLK_DPLL_INT_MUX \<equiv> 94"
abbreviation (input) CLK_DPLL_POST_SRC :: u32 where "CLK_DPLL_POST_SRC \<equiv> 95"
abbreviation (input) CLK_VPLL_INT :: u32 where "CLK_VPLL_INT \<equiv> 96"
abbreviation (input) CLK_VPLL_PRE_SRC :: u32 where "CLK_VPLL_PRE_SRC \<equiv> 97"
abbreviation (input) CLK_VPLL_HALF :: u32 where "CLK_VPLL_HALF \<equiv> 98"
abbreviation (input) CLK_VPLL_INT_MUX :: u32 where "CLK_VPLL_INT_MUX \<equiv> 99"
abbreviation (input) CLK_VPLL_POST_SRC :: u32 where "CLK_VPLL_POST_SRC \<equiv> 100"
abbreviation (input) CLK_CAN0_MIO :: u32 where "CLK_CAN0_MIO \<equiv> 101"
abbreviation (input) CLK_CAN1_MIO :: u32 where "CLK_CAN1_MIO \<equiv> 102"
abbreviation (input) CLK_ACPU_FULL :: u32 where "CLK_ACPU_FULL \<equiv> 103"
abbreviation (input) CLK_GEM0_REF :: u32 where "CLK_GEM0_REF \<equiv> 104"
abbreviation (input) CLK_GEM1_REF :: u32 where "CLK_GEM1_REF \<equiv> 105"
abbreviation (input) CLK_GEM2_REF :: u32 where "CLK_GEM2_REF \<equiv> 106"
abbreviation (input) CLK_GEM3_REF :: u32 where "CLK_GEM3_REF \<equiv> 107"
abbreviation (input) CLK_GEM0_REF_UNGATED :: u32 where "CLK_GEM0_REF_UNGATED \<equiv> 108"
abbreviation (input) CLK_GEM1_REF_UNGATED :: u32 where "CLK_GEM1_REF_UNGATED \<equiv> 109"
abbreviation (input) CLK_GEM2_REF_UNGATED :: u32 where "CLK_GEM2_REF_UNGATED \<equiv> 110"
abbreviation (input) CLK_GEM3_REF_UNGATED :: u32 where "CLK_GEM3_REF_UNGATED \<equiv> 111"
abbreviation (input) CLK_LPD_WDT :: u32 where "CLK_LPD_WDT \<equiv> 112"
abbreviation (input) END_OF_OUTPUT_CLKS :: u32 where "END_OF_OUTPUT_CLKS \<equiv> 113"
abbreviation (input) EXT_CLK_PSS_REF :: u32 where "EXT_CLK_PSS_REF \<equiv> 113"
abbreviation (input) EXT_CLK_VIDEO :: u32 where "EXT_CLK_VIDEO \<equiv> 114"
abbreviation (input) EXT_CLK_PSS_ALT_REF :: u32 where "EXT_CLK_PSS_ALT_REF \<equiv> 115"
abbreviation (input) EXT_CLK_AUX_REF :: u32 where "EXT_CLK_AUX_REF \<equiv> 116"
abbreviation (input) EXT_CLK_GT_CRX_REF :: u32 where "EXT_CLK_GT_CRX_REF \<equiv> 117"
abbreviation (input) EXT_CLK_SWDT0 :: u32 where "EXT_CLK_SWDT0 \<equiv> 118"
abbreviation (input) EXT_CLK_SWDT1 :: u32 where "EXT_CLK_SWDT1 \<equiv> 119"
abbreviation (input) EXT_CLK_GEM0_TX_EMIO :: u32 where "EXT_CLK_GEM0_TX_EMIO \<equiv> 120"
abbreviation (input) EXT_CLK_GEM1_TX_EMIO :: u32 where "EXT_CLK_GEM1_TX_EMIO \<equiv> 121"
abbreviation (input) EXT_CLK_GEM2_TX_EMIO :: u32 where "EXT_CLK_GEM2_TX_EMIO \<equiv> 122"
abbreviation (input) EXT_CLK_GEM3_TX_EMIO :: u32 where "EXT_CLK_GEM3_TX_EMIO \<equiv> 123"
abbreviation (input) EXT_CLK_GEM0_RX_EMIO :: u32 where "EXT_CLK_GEM0_RX_EMIO \<equiv> 124"
abbreviation (input) EXT_CLK_GEM1_RX_EMIO :: u32 where "EXT_CLK_GEM1_RX_EMIO \<equiv> 125"
abbreviation (input) EXT_CLK_GEM2_RX_EMIO :: u32 where "EXT_CLK_GEM2_RX_EMIO \<equiv> 126"
abbreviation (input) EXT_CLK_GEM3_RX_EMIO :: u32 where "EXT_CLK_GEM3_RX_EMIO \<equiv> 127"
abbreviation (input) EXT_CLK_MIO50_OR_MIO51 :: u32 where "EXT_CLK_MIO50_OR_MIO51 \<equiv> 128"
abbreviation (input) EXT_CLK_MIO0 :: u32 where "EXT_CLK_MIO0 \<equiv> 129"
abbreviation (input) EXT_CLK_MIO1 :: u32 where "EXT_CLK_MIO1 \<equiv> 130"
abbreviation (input) EXT_CLK_MIO2 :: u32 where "EXT_CLK_MIO2 \<equiv> 131"
abbreviation (input) EXT_CLK_MIO3 :: u32 where "EXT_CLK_MIO3 \<equiv> 132"
abbreviation (input) EXT_CLK_MIO4 :: u32 where "EXT_CLK_MIO4 \<equiv> 133"
abbreviation (input) EXT_CLK_MIO5 :: u32 where "EXT_CLK_MIO5 \<equiv> 134"
abbreviation (input) EXT_CLK_MIO6 :: u32 where "EXT_CLK_MIO6 \<equiv> 135"
abbreviation (input) EXT_CLK_MIO7 :: u32 where "EXT_CLK_MIO7 \<equiv> 136"
abbreviation (input) EXT_CLK_MIO8 :: u32 where "EXT_CLK_MIO8 \<equiv> 137"
abbreviation (input) EXT_CLK_MIO9 :: u32 where "EXT_CLK_MIO9 \<equiv> 138"
abbreviation (input) EXT_CLK_MIO10 :: u32 where "EXT_CLK_MIO10 \<equiv> 139"
abbreviation (input) EXT_CLK_MIO11 :: u32 where "EXT_CLK_MIO11 \<equiv> 140"
abbreviation (input) EXT_CLK_MIO12 :: u32 where "EXT_CLK_MIO12 \<equiv> 141"
abbreviation (input) EXT_CLK_MIO13 :: u32 where "EXT_CLK_MIO13 \<equiv> 142"
abbreviation (input) EXT_CLK_MIO14 :: u32 where "EXT_CLK_MIO14 \<equiv> 143"
abbreviation (input) EXT_CLK_MIO15 :: u32 where "EXT_CLK_MIO15 \<equiv> 144"
abbreviation (input) EXT_CLK_MIO16 :: u32 where "EXT_CLK_MIO16 \<equiv> 145"
abbreviation (input) EXT_CLK_MIO17 :: u32 where "EXT_CLK_MIO17 \<equiv> 146"
abbreviation (input) EXT_CLK_MIO18 :: u32 where "EXT_CLK_MIO18 \<equiv> 147"
abbreviation (input) EXT_CLK_MIO19 :: u32 where "EXT_CLK_MIO19 \<equiv> 148"
abbreviation (input) EXT_CLK_MIO20 :: u32 where "EXT_CLK_MIO20 \<equiv> 149"
abbreviation (input) EXT_CLK_MIO21 :: u32 where "EXT_CLK_MIO21 \<equiv> 150"
abbreviation (input) EXT_CLK_MIO22 :: u32 where "EXT_CLK_MIO22 \<equiv> 151"
abbreviation (input) EXT_CLK_MIO23 :: u32 where "EXT_CLK_MIO23 \<equiv> 152"
abbreviation (input) EXT_CLK_MIO24 :: u32 where "EXT_CLK_MIO24 \<equiv> 153"
abbreviation (input) EXT_CLK_MIO25 :: u32 where "EXT_CLK_MIO25 \<equiv> 154"
abbreviation (input) EXT_CLK_MIO26 :: u32 where "EXT_CLK_MIO26 \<equiv> 155"
abbreviation (input) EXT_CLK_MIO27 :: u32 where "EXT_CLK_MIO27 \<equiv> 156"
abbreviation (input) EXT_CLK_MIO28 :: u32 where "EXT_CLK_MIO28 \<equiv> 157"
abbreviation (input) EXT_CLK_MIO29 :: u32 where "EXT_CLK_MIO29 \<equiv> 158"
abbreviation (input) EXT_CLK_MIO30 :: u32 where "EXT_CLK_MIO30 \<equiv> 159"
abbreviation (input) EXT_CLK_MIO31 :: u32 where "EXT_CLK_MIO31 \<equiv> 160"
abbreviation (input) EXT_CLK_MIO32 :: u32 where "EXT_CLK_MIO32 \<equiv> 161"
abbreviation (input) EXT_CLK_MIO33 :: u32 where "EXT_CLK_MIO33 \<equiv> 162"
abbreviation (input) EXT_CLK_MIO34 :: u32 where "EXT_CLK_MIO34 \<equiv> 163"
abbreviation (input) EXT_CLK_MIO35 :: u32 where "EXT_CLK_MIO35 \<equiv> 164"
abbreviation (input) EXT_CLK_MIO36 :: u32 where "EXT_CLK_MIO36 \<equiv> 165"
abbreviation (input) EXT_CLK_MIO37 :: u32 where "EXT_CLK_MIO37 \<equiv> 166"
abbreviation (input) EXT_CLK_MIO38 :: u32 where "EXT_CLK_MIO38 \<equiv> 167"
abbreviation (input) EXT_CLK_MIO39 :: u32 where "EXT_CLK_MIO39 \<equiv> 168"
abbreviation (input) EXT_CLK_MIO40 :: u32 where "EXT_CLK_MIO40 \<equiv> 169"
abbreviation (input) EXT_CLK_MIO41 :: u32 where "EXT_CLK_MIO41 \<equiv> 170"
abbreviation (input) EXT_CLK_MIO42 :: u32 where "EXT_CLK_MIO42 \<equiv> 171"
abbreviation (input) EXT_CLK_MIO43 :: u32 where "EXT_CLK_MIO43 \<equiv> 172"
abbreviation (input) EXT_CLK_MIO44 :: u32 where "EXT_CLK_MIO44 \<equiv> 173"
abbreviation (input) EXT_CLK_MIO45 :: u32 where "EXT_CLK_MIO45 \<equiv> 174"
abbreviation (input) EXT_CLK_MIO46 :: u32 where "EXT_CLK_MIO46 \<equiv> 175"
abbreviation (input) EXT_CLK_MIO47 :: u32 where "EXT_CLK_MIO47 \<equiv> 176"
abbreviation (input) EXT_CLK_MIO48 :: u32 where "EXT_CLK_MIO48 \<equiv> 177"
abbreviation (input) EXT_CLK_MIO49 :: u32 where "EXT_CLK_MIO49 \<equiv> 178"
abbreviation (input) EXT_CLK_MIO50 :: u32 where "EXT_CLK_MIO50 \<equiv> 179"
abbreviation (input) EXT_CLK_MIO51 :: u32 where "EXT_CLK_MIO51 \<equiv> 180"
abbreviation (input) EXT_CLK_MIO52 :: u32 where "EXT_CLK_MIO52 \<equiv> 181"
abbreviation (input) EXT_CLK_MIO53 :: u32 where "EXT_CLK_MIO53 \<equiv> 182"
abbreviation (input) EXT_CLK_MIO54 :: u32 where "EXT_CLK_MIO54 \<equiv> 183"
abbreviation (input) EXT_CLK_MIO55 :: u32 where "EXT_CLK_MIO55 \<equiv> 184"
abbreviation (input) EXT_CLK_MIO56 :: u32 where "EXT_CLK_MIO56 \<equiv> 185"
abbreviation (input) EXT_CLK_MIO57 :: u32 where "EXT_CLK_MIO57 \<equiv> 186"
abbreviation (input) EXT_CLK_MIO58 :: u32 where "EXT_CLK_MIO58 \<equiv> 187"
abbreviation (input) EXT_CLK_MIO59 :: u32 where "EXT_CLK_MIO59 \<equiv> 188"
abbreviation (input) EXT_CLK_MIO60 :: u32 where "EXT_CLK_MIO60 \<equiv> 189"
abbreviation (input) EXT_CLK_MIO61 :: u32 where "EXT_CLK_MIO61 \<equiv> 190"
abbreviation (input) EXT_CLK_MIO62 :: u32 where "EXT_CLK_MIO62 \<equiv> 191"
abbreviation (input) EXT_CLK_MIO63 :: u32 where "EXT_CLK_MIO63 \<equiv> 192"
abbreviation (input) EXT_CLK_MIO64 :: u32 where "EXT_CLK_MIO64 \<equiv> 193"
abbreviation (input) EXT_CLK_MIO65 :: u32 where "EXT_CLK_MIO65 \<equiv> 194"
abbreviation (input) EXT_CLK_MIO66 :: u32 where "EXT_CLK_MIO66 \<equiv> 195"
abbreviation (input) EXT_CLK_MIO67 :: u32 where "EXT_CLK_MIO67 \<equiv> 196"
abbreviation (input) EXT_CLK_MIO68 :: u32 where "EXT_CLK_MIO68 \<equiv> 197"
abbreviation (input) EXT_CLK_MIO69 :: u32 where "EXT_CLK_MIO69 \<equiv> 198"
abbreviation (input) EXT_CLK_MIO70 :: u32 where "EXT_CLK_MIO70 \<equiv> 199"
abbreviation (input) EXT_CLK_MIO71 :: u32 where "EXT_CLK_MIO71 \<equiv> 200"
abbreviation (input) EXT_CLK_MIO72 :: u32 where "EXT_CLK_MIO72 \<equiv> 201"
abbreviation (input) EXT_CLK_MIO73 :: u32 where "EXT_CLK_MIO73 \<equiv> 202"
abbreviation (input) EXT_CLK_MIO74 :: u32 where "EXT_CLK_MIO74 \<equiv> 203"
abbreviation (input) EXT_CLK_MIO75 :: u32 where "EXT_CLK_MIO75 \<equiv> 204"
abbreviation (input) EXT_CLK_MIO76 :: u32 where "EXT_CLK_MIO76 \<equiv> 205"
abbreviation (input) EXT_CLK_MIO77 :: u32 where "EXT_CLK_MIO77 \<equiv> 206"
abbreviation (input) END_OF_CLKS :: u32 where "END_OF_CLKS \<equiv> 207"
abbreviation (input) CLK_SET_RATE_GATE :: u16 where "CLK_SET_RATE_GATE \<equiv> 0x1"
abbreviation (input) CLK_SET_RATE_PARENT :: u16 where "CLK_SET_RATE_PARENT \<equiv> 0x4"
abbreviation (input) CLK_IGNORE_UNUSED :: u16 where "CLK_IGNORE_UNUSED \<equiv> 0x8"
abbreviation (input) CLK_IS_BASIC :: u16 where "CLK_IS_BASIC \<equiv> 0x20"
abbreviation (input) CLK_SET_RATE_NO_REPARENT :: u16 where "CLK_SET_RATE_NO_REPARENT \<equiv> 0x80"
abbreviation (input) CLK_IS_CRITICAL :: u16 where "CLK_IS_CRITICAL \<equiv> 0x800"
abbreviation (input) CLK_DIVIDER_ONE_BASED :: u16 where "CLK_DIVIDER_ONE_BASED \<equiv> 0x1"
abbreviation (input) CLK_DIVIDER_POWER_OF_TWO :: u16 where "CLK_DIVIDER_POWER_OF_TWO \<equiv> 0x2"
abbreviation (input) CLK_DIVIDER_ALLOW_ZERO :: u16 where "CLK_DIVIDER_ALLOW_ZERO \<equiv> 0x4"
abbreviation (input) CLK_FRAC :: u16 where "CLK_FRAC \<equiv> 0x100"
abbreviation (input) TYPE_INVALID :: u8 where "TYPE_INVALID \<equiv> 0"
abbreviation (input) TYPE_MUX :: u8 where "TYPE_MUX \<equiv> 1"
abbreviation (input) TYPE_PLL :: u8 where "TYPE_PLL \<equiv> 2"
abbreviation (input) TYPE_FIXEDFACTOR :: u8 where "TYPE_FIXEDFACTOR \<equiv> 3"
abbreviation (input) TYPE_DIV1 :: u8 where "TYPE_DIV1 \<equiv> 4"
abbreviation (input) TYPE_DIV2 :: u8 where "TYPE_DIV2 \<equiv> 5"
abbreviation (input) TYPE_GATE :: u8 where "TYPE_GATE \<equiv> 6"
abbreviation (input) NA_MULT :: "4 word" where "NA_MULT \<equiv> 0"
abbreviation (input) NA_DIV :: "4 word" where "NA_DIV \<equiv> 0"
abbreviation (input) NA_SHIFT :: u8 where "NA_SHIFT \<equiv> 0"
abbreviation (input) NA_WIDTH :: u8 where "NA_WIDTH \<equiv> 0"
abbreviation (input) NA_TYPE_FLAGS :: u16 where "NA_TYPE_FLAGS \<equiv> 0"
abbreviation (input) PLL_PRESRC_MUX_SHIFT :: u8 where "PLL_PRESRC_MUX_SHIFT \<equiv> 20"
abbreviation (input) PLL_PRESRC_MUX_WIDTH :: u8 where "PLL_PRESRC_MUX_WIDTH \<equiv> 3"
abbreviation (input) PLL_POSTSRC_MUX_SHIFT :: u8 where "PLL_POSTSRC_MUX_SHIFT \<equiv> 24"
abbreviation (input) PLL_POSTSRC_MUX_WIDTH :: u8 where "PLL_POSTSRC_MUX_WIDTH \<equiv> 3"
abbreviation (input) PLL_DIV2_MUX_SHIFT :: u8 where "PLL_DIV2_MUX_SHIFT \<equiv> 16"
abbreviation (input) PLL_DIV2_MUX_WIDTH :: u8 where "PLL_DIV2_MUX_WIDTH \<equiv> 1"
abbreviation (input) PLL_BYPASS_MUX_SHIFT :: u8 where "PLL_BYPASS_MUX_SHIFT \<equiv> 3"
abbreviation (input) PLL_BYPASS_MUX_WIDTH :: u8 where "PLL_BYPASS_MUX_WIDTH \<equiv> 1"
abbreviation (input) PERIPH_MUX_SHIFT :: u8 where "PERIPH_MUX_SHIFT \<equiv> 0"
abbreviation (input) PERIPH_MUX_WIDTH :: u8 where "PERIPH_MUX_WIDTH \<equiv> 3"
abbreviation (input) PERIPH_DIV1_SHIFT :: u8 where "PERIPH_DIV1_SHIFT \<equiv> 8"
abbreviation (input) PERIPH_DIV1_WIDTH :: u8 where "PERIPH_DIV1_WIDTH \<equiv> 6"
abbreviation (input) PERIPH_DIV2_SHIFT :: u8 where "PERIPH_DIV2_SHIFT \<equiv> 16"
abbreviation (input) PERIPH_DIV2_WIDTH :: u8 where "PERIPH_DIV2_WIDTH \<equiv> 6"
abbreviation (input) PERIPH_GATE_SHIFT :: u8 where "PERIPH_GATE_SHIFT \<equiv> 24"
abbreviation (input) PERIPH_GATE_WIDTH :: u8 where "PERIPH_GATE_WIDTH \<equiv> 1"
abbreviation (input) USB_GATE_SHIFT :: u8 where "USB_GATE_SHIFT \<equiv> 25"
abbreviation (input) CRF_APB_APLL_CTRL :: u32 where "CRF_APB_APLL_CTRL \<equiv> 0xFD1A0020"
abbreviation (input) CRF_APB_PLL_STATUS :: u32 where "CRF_APB_PLL_STATUS \<equiv> 0xFD1A0044"
abbreviation (input) CRF_APB_DPLL_CTRL :: u32 where "CRF_APB_DPLL_CTRL \<equiv> 0xFD1A002C"
abbreviation (input) CRF_APB_VPLL_CTRL :: u32 where "CRF_APB_VPLL_CTRL \<equiv> 0xFD1A0038"
abbreviation (input) CRL_APB_IOPLL_CTRL :: u32 where "CRL_APB_IOPLL_CTRL \<equiv> 0xFF5E0020"
abbreviation (input) CRL_APB_RPLL_CTRL :: u32 where "CRL_APB_RPLL_CTRL \<equiv> 0xFF5E0030"
abbreviation (input) CRL_APB_PLL_STATUS :: u32 where "CRL_APB_PLL_STATUS \<equiv> 0xFF5E0040"
abbreviation (input) CRF_APB_ACPU_CTRL :: u32 where "CRF_APB_ACPU_CTRL \<equiv> 0xFD1A0060"
abbreviation (input) CRF_APB_DBG_TRACE_CTRL :: u32 where "CRF_APB_DBG_TRACE_CTRL \<equiv> 0xFD1A0064"
abbreviation (input) CRF_APB_DBG_FPD_CTRL :: u32 where "CRF_APB_DBG_FPD_CTRL \<equiv> 0xFD1A0068"
abbreviation (input) CRF_APB_DBG_TSTMP_CTRL :: u32 where "CRF_APB_DBG_TSTMP_CTRL \<equiv> 0xFD1A00F8"
abbreviation (input) CRF_APB_DP_VIDEO_REF_CTRL :: u32 where "CRF_APB_DP_VIDEO_REF_CTRL \<equiv> 0xFD1A0070"
abbreviation (input) CRF_APB_DP_AUDIO_REF_CTRL :: u32 where "CRF_APB_DP_AUDIO_REF_CTRL \<equiv> 0xFD1A0074"
abbreviation (input) CRF_APB_DP_STC_REF_CTRL :: u32 where "CRF_APB_DP_STC_REF_CTRL \<equiv> 0xFD1A007C"
abbreviation (input) CRF_APB_DPDMA_REF_CTRL :: u32 where "CRF_APB_DPDMA_REF_CTRL \<equiv> 0xFD1A00BC"
abbreviation (input) CRF_APB_DDR_CTRL :: u32 where "CRF_APB_DDR_CTRL \<equiv> 0xFD1A0080"
abbreviation (input) CRF_APB_GPU_REF_CTRL :: u32 where "CRF_APB_GPU_REF_CTRL \<equiv> 0xFD1A0084"
abbreviation (input) CRF_APB_SATA_REF_CTRL :: u32 where "CRF_APB_SATA_REF_CTRL \<equiv> 0xFD1A00A0"
abbreviation (input) CRF_APB_PCIE_REF_CTRL :: u32 where "CRF_APB_PCIE_REF_CTRL \<equiv> 0xFD1A00B4"
abbreviation (input) CRF_APB_GDMA_REF_CTRL :: u32 where "CRF_APB_GDMA_REF_CTRL \<equiv> 0xFD1A00B8"
abbreviation (input) CRF_APB_GTGREF0_REF_CTRL :: u32 where "CRF_APB_GTGREF0_REF_CTRL \<equiv> 0xFD1A00C8"
abbreviation (input) CRF_APB_TOPSW_MAIN_CTRL :: u32 where "CRF_APB_TOPSW_MAIN_CTRL \<equiv> 0xFD1A00C0"
abbreviation (input) CRF_APB_TOPSW_LSBUS_CTRL :: u32 where "CRF_APB_TOPSW_LSBUS_CTRL \<equiv> 0xFD1A00C4"
abbreviation (input) CRL_APB_IOU_SWITCH_CTRL :: u32 where "CRL_APB_IOU_SWITCH_CTRL \<equiv> 0xFF5E009C"
abbreviation (input) CRL_APB_GEM0_REF_CTRL :: u32 where "CRL_APB_GEM0_REF_CTRL \<equiv> 0xFF5E0050"
abbreviation (input) CRL_APB_GEM1_REF_CTRL :: u32 where "CRL_APB_GEM1_REF_CTRL \<equiv> 0xFF5E0054"
abbreviation (input) CRL_APB_GEM2_REF_CTRL :: u32 where "CRL_APB_GEM2_REF_CTRL \<equiv> 0xFF5E0058"
abbreviation (input) CRL_APB_GEM3_REF_CTRL :: u32 where "CRL_APB_GEM3_REF_CTRL \<equiv> 0xFF5E005C"
abbreviation (input) IOU_SLCR_GEM_CLK_CTRL :: u32 where "IOU_SLCR_GEM_CLK_CTRL \<equiv> 0xFF180308"
abbreviation (input) CRL_APB_USB0_BUS_REF_CTRL :: u32 where "CRL_APB_USB0_BUS_REF_CTRL \<equiv> 0xFF5E0060"
abbreviation (input) CRL_APB_USB1_BUS_REF_CTRL :: u32 where "CRL_APB_USB1_BUS_REF_CTRL \<equiv> 0xFF5E0064"
abbreviation (input) CRL_APB_USB3_DUAL_REF_CTRL :: u32 where "CRL_APB_USB3_DUAL_REF_CTRL \<equiv> 0xFF5E004C"
abbreviation (input) CRL_APB_QSPI_REF_CTRL :: u32 where "CRL_APB_QSPI_REF_CTRL \<equiv> 0xFF5E0068"
abbreviation (input) CRL_APB_SDIO0_REF_CTRL :: u32 where "CRL_APB_SDIO0_REF_CTRL \<equiv> 0xFF5E006C"
abbreviation (input) CRL_APB_SDIO1_REF_CTRL :: u32 where "CRL_APB_SDIO1_REF_CTRL \<equiv> 0xFF5E0070"
abbreviation (input) CRL_APB_UART0_REF_CTRL :: u32 where "CRL_APB_UART0_REF_CTRL \<equiv> 0xFF5E0074"
abbreviation (input) CRL_APB_UART1_REF_CTRL :: u32 where "CRL_APB_UART1_REF_CTRL \<equiv> 0xFF5E0078"
abbreviation (input) CRL_APB_SPI0_REF_CTRL :: u32 where "CRL_APB_SPI0_REF_CTRL \<equiv> 0xFF5E007C"
abbreviation (input) CRL_APB_SPI1_REF_CTRL :: u32 where "CRL_APB_SPI1_REF_CTRL \<equiv> 0xFF5E0080"
abbreviation (input) CRL_APB_CAN0_REF_CTRL :: u32 where "CRL_APB_CAN0_REF_CTRL \<equiv> 0xFF5E0084"
abbreviation (input) CRL_APB_CAN1_REF_CTRL :: u32 where "CRL_APB_CAN1_REF_CTRL \<equiv> 0xFF5E0088"
abbreviation (input) CRL_APB_NAND_REF_CTRL :: u32 where "CRL_APB_NAND_REF_CTRL \<equiv> 0xFF5E00B4"
abbreviation (input) CRL_APB_GEM_TSU_REF_CTRL :: u32 where "CRL_APB_GEM_TSU_REF_CTRL \<equiv> 0xFF5E0100"
abbreviation (input) CRL_APB_DLL_REF_CTRL :: u32 where "CRL_APB_DLL_REF_CTRL \<equiv> 0xFF5E0104"
abbreviation (input) CRL_APB_ADMA_REF_CTRL :: u32 where "CRL_APB_ADMA_REF_CTRL \<equiv> 0xFF5E00B8"
abbreviation (input) CRL_APB_DBG_LPD_CTRL :: u32 where "CRL_APB_DBG_LPD_CTRL \<equiv> 0xFF5E00B0"
abbreviation (input) CRL_APB_CPU_R5_CTRL :: u32 where "CRL_APB_CPU_R5_CTRL \<equiv> 0xFF5E0090"
abbreviation (input) CRL_APB_CSU_PLL_CTRL :: u32 where "CRL_APB_CSU_PLL_CTRL \<equiv> 0xFF5E00A0"
abbreviation (input) CRL_APB_PCAP_CTRL :: u32 where "CRL_APB_PCAP_CTRL \<equiv> 0xFF5E00A4"
abbreviation (input) CRL_APB_LPD_LSBUS_CTRL :: u32 where "CRL_APB_LPD_LSBUS_CTRL \<equiv> 0xFF5E00AC"
abbreviation (input) CRL_APB_LPD_SWITCH_CTRL :: u32 where "CRL_APB_LPD_SWITCH_CTRL \<equiv> 0xFF5E00A8"
abbreviation (input) CRL_APB_I2C0_REF_CTRL :: u32 where "CRL_APB_I2C0_REF_CTRL \<equiv> 0xFF5E0120"
abbreviation (input) CRL_APB_I2C1_REF_CTRL :: u32 where "CRL_APB_I2C1_REF_CTRL \<equiv> 0xFF5E0124"
abbreviation (input) CRL_APB_TIMESTAMP_REF_CTRL :: u32 where "CRL_APB_TIMESTAMP_REF_CTRL \<equiv> 0xFF5E0128"
abbreviation (input) CRL_APB_PL0_REF_CTRL :: u32 where "CRL_APB_PL0_REF_CTRL \<equiv> 0xFF5E00C0"
abbreviation (input) CRL_APB_PL1_REF_CTRL :: u32 where "CRL_APB_PL1_REF_CTRL \<equiv> 0xFF5E00C4"
abbreviation (input) CRL_APB_PL2_REF_CTRL :: u32 where "CRL_APB_PL2_REF_CTRL \<equiv> 0xFF5E00C8"
abbreviation (input) CRL_APB_PL3_REF_CTRL :: u32 where "CRL_APB_PL3_REF_CTRL \<equiv> 0xFF5E00CC"
abbreviation (input) CRL_APB_AMS_REF_CTRL :: u32 where "CRL_APB_AMS_REF_CTRL \<equiv> 0xFF5E0108"
abbreviation (input) CRL_APB_IOPLL_TO_FPD_CTRL :: u32 where "CRL_APB_IOPLL_TO_FPD_CTRL \<equiv> 0xFF5E0044"
abbreviation (input) CRL_APB_RPLL_TO_FPD_CTRL :: u32 where "CRL_APB_RPLL_TO_FPD_CTRL \<equiv> 0xFF5E0048"
abbreviation (input) CRF_APB_APLL_TO_LPD_CTRL :: u32 where "CRF_APB_APLL_TO_LPD_CTRL \<equiv> 0xFD1A0048"
abbreviation (input) CRF_APB_DPLL_TO_LPD_CTRL :: u32 where "CRF_APB_DPLL_TO_LPD_CTRL \<equiv> 0xFD1A004C"
abbreviation (input) CRF_APB_VPLL_TO_LPD_CTRL :: u32 where "CRF_APB_VPLL_TO_LPD_CTRL \<equiv> 0xFD1A0050"
abbreviation (input) FPD_SLCR_WDT_CLK_SEL :: u32 where "FPD_SLCR_WDT_CLK_SEL \<equiv> 0xFD610100"
abbreviation (input) IOU_SLCR_CAN_MIO_CTRL :: u32 where "IOU_SLCR_CAN_MIO_CTRL \<equiv> 0xFF180304"
abbreviation (input) IOU_SLCR_WDT_CLK_SEL :: u32 where "IOU_SLCR_WDT_CLK_SEL \<equiv> 0xFF180300"

abbreviation (input) CLK_MAX_OUTPUT_CLK :: u32 where "CLK_MAX_OUTPUT_CLK \<equiv> END_OF_OUTPUT_CLKS"
abbreviation (input) CLK_MAX :: u32 where "CLK_MAX \<equiv> END_OF_CLKS"

definition EXT_CLK_INDEX :: "u32 \<Rightarrow> u32" where
  "EXT_CLK_INDEX n = n - CLK_MAX_OUTPUT_CLK"

section \<open>Tables\<close>

definition GENERIC_MUX :: pm_clock_node where
  "GENERIC_MUX =
    \<lparr>cn_clkflags = CLK_SET_RATE_NO_REPARENT OR CLK_IS_BASIC, cn_typeflags = NA_TYPE_FLAGS,
     cn_type = TYPE_MUX, cn_offset = PERIPH_MUX_SHIFT, cn_width = PERIPH_MUX_WIDTH, cn_mult = NA_MULT, cn_div = NA_DIV\<rparr>"

definition IGNORE_UNUSED_MUX :: pm_clock_node where
  "IGNORE_UNUSED_MUX =
    \<lparr>cn_clkflags = CLK_IGNORE_UNUSED OR CLK_SET_RATE_NO_REPARENT OR CLK_IS_BASIC, cn_typeflags = NA_TYPE_FLAGS,
     cn_type = TYPE_MUX, cn_offset = PERIPH_MUX_SHIFT, cn_width = PERIPH_MUX_WIDTH, cn_mult = NA_MULT, cn_div = NA_DIV\<rparr>"

definition GENERIC_DIV1 :: pm_clock_node where
  "GENERIC_DIV1 =
    \<lparr>cn_clkflags = CLK_SET_RATE_NO_REPARENT OR CLK_IS_BASIC, cn_typeflags = CLK_DIVIDER_ONE_BASED OR CLK_DIVIDER_ALLOW_ZERO,
     cn_type = TYPE_DIV1, cn_offset = PERIPH_DIV1_SHIFT, cn_width = PERIPH_DIV1_WIDTH, cn_mult = NA_MULT, cn_div = NA_DIV\<rparr>"

definition GENERIC_DIV2 :: pm_clock_node where
  "GENERIC_DIV2 =
    \<lparr>cn_clkflags = CLK_SET_RATE_NO_REPARENT OR CLK_SET_RATE_PARENT OR CLK_IS_BASIC, cn_typeflags = CLK_DIVIDER_ONE_BASED OR CLK_DIVIDER_ALLOW_ZERO,
     cn_type = TYPE_DIV2, cn_offset = PERIPH_DIV2_SHIFT, cn_width = PERIPH_DIV2_WIDTH, cn_mult = NA_MULT, cn_div = NA_DIV\<rparr>"

definition GENERIC_GATE :: pm_clock_node where
  "GENERIC_GATE =
    \<lparr>cn_clkflags = CLK_SET_RATE_PARENT OR CLK_SET_RATE_GATE OR CLK_IS_BASIC, cn_typeflags = NA_TYPE_FLAGS,
     cn_type = TYPE_GATE, cn_offset = PERIPH_GATE_SHIFT, cn_width = PERIPH_GATE_WIDTH, cn_mult = NA_MULT, cn_div = NA_DIV\<rparr>"

definition IGNORE_UNUSED_GATE :: pm_clock_node where
  "IGNORE_UNUSED_GATE =
    \<lparr>cn_clkflags = CLK_SET_RATE_PARENT OR CLK_IGNORE_UNUSED OR CLK_IS_BASIC, cn_typeflags = NA_TYPE_FLAGS,
     cn_type = TYPE_GATE, cn_offset = PERIPH_GATE_SHIFT, cn_width = PERIPH_GATE_WIDTH, cn_mult = NA_MULT, cn_div = NA_DIV\<rparr>"

definition generic_pll_nodes :: "pm_clock_node list" where
  "generic_pll_nodes = [
    \<lparr>cn_clkflags = CLK_SET_RATE_NO_REPARENT, cn_typeflags = NA_TYPE_FLAGS,
     cn_type = TYPE_PLL, cn_offset = NA_SHIFT, cn_width = NA_WIDTH, cn_mult = NA_MULT, cn_div = NA_DIV\<rparr>]"

definition ignore_unused_pll_nodes :: "pm_clock_node list" where
  "ignore_unused_pll_nodes = [
    \<lparr>cn_clkflags = CLK_IGNORE_UNUSED OR CLK_SET_RATE_NO_REPARENT, cn_typeflags = NA_TYPE_FLAGS,
     cn_type = TYPE_PLL, cn_offset = NA_SHIFT, cn_width = NA_WIDTH, cn_mult = NA_MULT, cn_div = NA_DIV\<rparr>]"

definition generic_pll_pre_src_nodes :: "pm_clock_node list" where
  "generic_pll_pre_src_nodes = [
    \<lparr>cn_clkflags = CLK_IS_BASIC, cn_typeflags = NA_TYPE_FLAGS,
     cn_type = TYPE_MUX, cn_offset = PLL_PRESRC_MUX_SHIFT, cn_width = PLL_PRESRC_MUX_WIDTH, cn_mult = NA_MULT, cn_div = NA_DIV\<rparr>]"

definition generic_pll_half_nodes :: "pm_clock_node list" where
  "generic_pll_half_nodes = [
    \<lparr>cn_clkflags = CLK_SET_RATE_NO_REPARENT OR CLK_SET_RATE_PARENT, cn_typeflags = NA_TYPE_FLAGS,
     cn_type = TYPE_FIXEDFACTOR, cn_offset = NA_SHIFT, cn_width = NA_WIDTH, cn_mult = 1, cn_div = 2\<rparr>]"

definition generic_pll_int_nodes :: "pm_clock_node list" where
  "generic_pll_int_nodes = [
    \<lparr>cn_clkflags = CLK_SET_RATE_NO_REPARENT OR CLK_SET_RATE_PARENT OR CLK_IS_BASIC, cn_typeflags = NA_TYPE_FLAGS,
     cn_type = TYPE_MUX, cn_offset = PLL_DIV2_MUX_SHIFT, cn_width = PLL_DIV2_MUX_WIDTH, cn_mult = NA_MULT, cn_div = NA_DIV\<rparr>]"

definition generic_pll_post_src_nodes :: "pm_clock_node list" where
  "generic_pll_post_src_nodes = [
    \<lparr>cn_clkflags = CLK_IS_BASIC, cn_typeflags = NA_TYPE_FLAGS,
     cn_type = TYPE_MUX, cn_offset = PLL_POSTSRC_MUX_SHIFT, cn_width = PLL_POSTSRC_MUX_WIDTH, cn_mult = NA_MULT, cn_div = NA_DIV\<rparr>]"

definition generic_pll_system_nodes :: "pm_clock_node list" where
  "generic_pll_system_nodes = [
    \<lparr>cn_clkflags = CLK_SET_RATE_NO_REPARENT OR CLK_SET_RATE_PARENT OR CLK_IS_BASIC, cn_typeflags = NA_TYPE_FLAGS,
     cn_type = TYPE_MUX, cn_offset = PLL_BYPASS_MUX_SHIFT, cn_width = PLL_BYPASS_MUX_WIDTH, cn_mult = NA_MULT, cn_div = NA_DIV\<rparr>]"

definition acpu_nodes :: "pm_clock_node list" where
  "acpu_nodes = [
    \<lparr>cn_clkflags = CLK_SET_RATE_NO_REPARENT OR CLK_IS_BASIC, cn_typeflags = NA_TYPE_FLAGS,
     cn_type = TYPE_MUX, cn_offset = PERIPH_MUX_SHIFT, cn_width = PERIPH_MUX_WIDTH, cn_mult = NA_MULT, cn_div = NA_DIV\<rparr>,
    \<lparr>cn_clkflags = CLK_IS_BASIC, cn_typeflags = CLK_DIVIDER_ONE_BASED OR CLK_DIVIDER_ALLOW_ZERO,
     cn_type = TYPE_DIV1, cn_offset = PERIPH_DIV1_SHIFT, cn_width = PERIPH_DIV1_WIDTH, cn_mult = NA_MULT, cn_div = NA_DIV\<rparr>]"

definition generic_mux_div_nodes :: "pm_clock_node list" where
  "generic_mux_div_nodes = [
    GENERIC_MUX,
    GENERIC_DIV1]"

definition generic_mux_div_gate_nodes :: "pm_clock_node list" where
  "generic_mux_div_gate_nodes = [
    GENERIC_MUX,
    GENERIC_DIV1,
    GENERIC_GATE]"

definition generic_mux_div_unused_gate_nodes :: "pm_clock_node list" where
  "generic_mux_div_unused_gate_nodes = [
    GENERIC_MUX,
    GENERIC_DIV1,
    IGNORE_UNUSED_GATE]"

definition generic_mux_div_div_gate_nodes :: "pm_clock_node list" where
  "generic_mux_div_div_gate_nodes = [
    GENERIC_MUX,
    GENERIC_DIV1,
    GENERIC_DIV2,
    GENERIC_GATE]"

definition dp_audio_video_ref_nodes :: "pm_clock_node list" where
  "dp_audio_video_ref_nodes = [
    \<lparr>cn_clkflags = CLK_SET_RATE_NO_REPARENT OR CLK_SET_RATE_PARENT OR CLK_IS_BASIC, cn_typeflags = CLK_FRAC,
     cn_type = TYPE_MUX, cn_offset = PERIPH_MUX_SHIFT, cn_width = PERIPH_MUX_WIDTH, cn_mult = NA_MULT, cn_div = NA_DIV\<rparr>,
    \<lparr>cn_clkflags = CLK_SET_RATE_NO_REPARENT OR CLK_SET_RATE_PARENT OR CLK_IS_BASIC, cn_typeflags = CLK_DIVIDER_ONE_BASED OR CLK_DIVIDER_ALLOW_ZERO OR CLK_FRAC,
     cn_type = TYPE_DIV1, cn_offset = PERIPH_DIV1_SHIFT, cn_width = PERIPH_DIV1_WIDTH, cn_mult = NA_MULT, cn_div = NA_DIV\<rparr>,
    \<lparr>cn_clkflags = CLK_SET_RATE_NO_REPARENT OR CLK_SET_RATE_PARENT OR CLK_IS_BASIC, cn_typeflags = CLK_DIVIDER_ONE_BASED OR CLK_DIVIDER_ALLOW_ZERO OR CLK_FRAC,
     cn_type = TYPE_DIV2, cn_offset = PERIPH_DIV2_SHIFT, cn_width = PERIPH_DIV2_WIDTH, cn_mult = NA_MULT, cn_div = NA_DIV\<rparr>,
    \<lparr>cn_clkflags = CLK_SET_RATE_PARENT OR CLK_SET_RATE_GATE OR CLK_IS_BASIC, cn_typeflags = NA_TYPE_FLAGS,
     cn_type = TYPE_GATE, cn_offset = PERIPH_GATE_SHIFT, cn_width = PERIPH_GATE_WIDTH, cn_mult = NA_MULT, cn_div = NA_DIV\<rparr>]"

definition usb_nodes :: "pm_clock_node list" where
  "usb_nodes = [
    GENERIC_MUX,
    GENERIC_DIV1,
    GENERIC_DIV2,
    \<lparr>cn_clkflags = CLK_SET_RATE_PARENT OR CLK_IS_BASIC OR CLK_SET_RATE_GATE, cn_typeflags = NA_TYPE_FLAGS,
     cn_type = TYPE_GATE, cn_offset = USB_GATE_SHIFT, cn_width = PERIPH_GATE_WIDTH, cn_mult = NA_MULT, cn_div = NA_DIV\<rparr>]"

definition generic_domain_crossing_nodes :: "pm_clock_node list" where
  "generic_domain_crossing_nodes = [
    \<lparr>cn_clkflags = CLK_IS_BASIC, cn_typeflags = CLK_DIVIDER_ONE_BASED OR CLK_DIVIDER_ALLOW_ZERO,
     cn_type = TYPE_DIV1, cn_offset = 8, cn_width = 6, cn_mult = NA_MULT, cn_div = NA_DIV\<rparr>]"

definition rpll_to_fpd_nodes :: "pm_clock_node list" where
  "rpll_to_fpd_nodes = [
    \<lparr>cn_clkflags = CLK_SET_RATE_PARENT OR CLK_IS_BASIC, cn_typeflags = CLK_DIVIDER_ONE_BASED OR CLK_DIVIDER_ALLOW_ZERO,
     cn_type = TYPE_DIV1, cn_offset = 8, cn_width = 6, cn_mult = NA_MULT, cn_div = NA_DIV\<rparr>]"

definition acpu_half_nodes :: "pm_clock_node list" where
  "acpu_half_nodes = [
    \<lparr>cn_clkflags = 0, cn_typeflags = 0,
     cn_type = TYPE_FIXEDFACTOR, cn_offset = 0, cn_width = 1, cn_mult = 1, cn_div = 2\<rparr>,
    \<lparr>cn_clkflags = CLK_IGNORE_UNUSED OR CLK_SET_RATE_PARENT OR CLK_IS_BASIC, cn_typeflags = NA_TYPE_FLAGS,
     cn_type = TYPE_GATE, cn_offset = 25, cn_width = PERIPH_GATE_WIDTH, cn_mult = NA_MULT, cn_div = NA_DIV\<rparr>]"

definition acpu_full_nodes :: "pm_clock_node list" where
  "acpu_full_nodes = [
    \<lparr>cn_clkflags = CLK_IGNORE_UNUSED OR CLK_SET_RATE_PARENT OR CLK_IS_BASIC, cn_typeflags = NA_TYPE_FLAGS,
     cn_type = TYPE_GATE, cn_offset = 24, cn_width = PERIPH_GATE_WIDTH, cn_mult = NA_MULT, cn_div = NA_DIV\<rparr>]"

definition wdt_nodes :: "pm_clock_node list" where
  "wdt_nodes = [
    \<lparr>cn_clkflags = CLK_SET_RATE_PARENT OR CLK_SET_RATE_NO_REPARENT OR CLK_IS_BASIC, cn_typeflags = NA_TYPE_FLAGS,
     cn_type = TYPE_MUX, cn_offset = 0, cn_width = 1, cn_mult = NA_MULT, cn_div = NA_DIV\<rparr>]"

definition ddr_nodes :: "pm_clock_node list" where
  "ddr_nodes = [
    GENERIC_MUX,
    \<lparr>cn_clkflags = CLK_IS_BASIC OR CLK_IS_CRITICAL, cn_typeflags = CLK_DIVIDER_ONE_BASED OR CLK_DIVIDER_ALLOW_ZERO,
     cn_type = TYPE_DIV1, cn_offset = 8, cn_width = 6, cn_mult = NA_MULT, cn_div = NA_DIV\<rparr>]"

definition pl_nodes :: "pm_clock_node list" where
  "pl_nodes = [
    GENERIC_MUX,
    \<lparr>cn_clkflags = CLK_IS_BASIC, cn_typeflags = CLK_DIVIDER_ONE_BASED OR CLK_DIVIDER_ALLOW_ZERO,
     cn_type = TYPE_DIV1, cn_offset = PERIPH_DIV1_SHIFT, cn_width = PERIPH_DIV1_WIDTH, cn_mult = NA_MULT, cn_div = NA_DIV\<rparr>,
    \<lparr>cn_clkflags = CLK_IS_BASIC OR CLK_SET_RATE_PARENT, cn_typeflags = CLK_DIVIDER_ONE_BASED OR CLK_DIVIDER_ALLOW_ZERO,
     cn_type = TYPE_DIV2, cn_offset = PERIPH_DIV2_SHIFT, cn_width = PERIPH_DIV2_WIDTH, cn_mult = NA_MULT, cn_div = NA_DIV\<rparr>,
    \<lparr>cn_clkflags = CLK_SET_RATE_PARENT OR CLK_IS_BASIC, cn_typeflags = NA_TYPE_FLAGS,
     cn_type = TYPE_GATE, cn_offset = PERIPH_GATE_SHIFT, cn_width = PERIPH_GATE_WIDTH, cn_mult = NA_MULT, cn_div = NA_DIV\<rparr>]"

definition gpu_pp0_nodes :: "pm_clock_node list" where
  "gpu_pp0_nodes = [
    \<lparr>cn_clkflags = CLK_SET_RATE_PARENT OR CLK_IS_BASIC, cn_typeflags = NA_TYPE_FLAGS,
     cn_type = TYPE_GATE, cn_offset = 25, cn_width = PERIPH_GATE_WIDTH, cn_mult = NA_MULT, cn_div = NA_DIV\<rparr>]"

definition gpu_pp1_nodes :: "pm_clock_node list" where
  "gpu_pp1_nodes = [
    \<lparr>cn_clkflags = CLK_SET_RATE_PARENT OR CLK_IS_BASIC, cn_typeflags = NA_TYPE_FLAGS,
     cn_type = TYPE_GATE, cn_offset = 26, cn_width = PERIPH_GATE_WIDTH, cn_mult = NA_MULT, cn_div = NA_DIV\<rparr>]"

definition gem_ref_ungated_nodes :: "pm_clock_node list" where
  "gem_ref_ungated_nodes = [
    GENERIC_MUX,
    \<lparr>cn_clkflags = CLK_SET_RATE_NO_REPARENT OR CLK_IS_BASIC, cn_typeflags = CLK_DIVIDER_ONE_BASED OR CLK_DIVIDER_ALLOW_ZERO,
     cn_type = TYPE_DIV1, cn_offset = 8, cn_width = 6, cn_mult = NA_MULT, cn_div = NA_DIV\<rparr>,
    \<lparr>cn_clkflags = CLK_SET_RATE_NO_REPARENT OR CLK_IS_BASIC OR CLK_SET_RATE_PARENT, cn_typeflags = CLK_DIVIDER_ONE_BASED OR CLK_DIVIDER_ALLOW_ZERO,
     cn_type = TYPE_DIV2, cn_offset = 16, cn_width = 6, cn_mult = NA_MULT, cn_div = NA_DIV\<rparr>]"

definition gem0_ref_nodes :: "pm_clock_node list" where
  "gem0_ref_nodes = [
    \<lparr>cn_clkflags = CLK_SET_RATE_PARENT OR CLK_SET_RATE_NO_REPARENT OR CLK_IS_BASIC, cn_typeflags = NA_TYPE_FLAGS,
     cn_type = TYPE_MUX, cn_offset = 1, cn_width = 1, cn_mult = NA_MULT, cn_div = NA_DIV\<rparr>]"

definition gem1_ref_nodes :: "pm_clock_node list" where
  "gem1_ref_nodes = [
    \<lparr>cn_clkflags = CLK_SET_RATE_PARENT OR CLK_SET_RATE_NO_REPARENT OR CLK_IS_BASIC, cn_typeflags = NA_TYPE_FLAGS,
     cn_type = TYPE_MUX, cn_offset = 6, cn_width = 1, cn_mult = NA_MULT, cn_div = NA_DIV\<rparr>]"

definition gem2_ref_nodes :: "pm_clock_node list" where
  "gem2_ref_nodes = [
    \<lparr>cn_clkflags = CLK_SET_RATE_PARENT OR CLK_SET_RATE_NO_REPARENT OR CLK_IS_BASIC, cn_typeflags = NA_TYPE_FLAGS,
     cn_type = TYPE_MUX, cn_offset = 11, cn_width = 1, cn_mult = NA_MULT, cn_div = NA_DIV\<rparr>]"

definition gem3_ref_nodes :: "pm_clock_node list" where
  "gem3_ref_nodes = [
    \<lparr>cn_clkflags = CLK_SET_RATE_PARENT OR CLK_SET_RATE_NO_REPARENT OR CLK_IS_BASIC, cn_typeflags = NA_TYPE_FLAGS,
     cn_type = TYPE_MUX, cn_offset = 16, cn_width = 1, cn_mult = NA_MULT, cn_div = NA_DIV\<rparr>]"

definition gem_tx_nodes :: "pm_clock_node list" where
  "gem_tx_nodes = [
    \<lparr>cn_clkflags = CLK_SET_RATE_PARENT OR CLK_IS_BASIC, cn_typeflags = NA_TYPE_FLAGS,
     cn_type = TYPE_GATE, cn_offset = 25, cn_width = PERIPH_GATE_WIDTH, cn_mult = NA_MULT, cn_div = NA_DIV\<rparr>]"

definition gem_rx_nodes :: "pm_clock_node list" where
  "gem_rx_nodes = [
    \<lparr>cn_clkflags = CLK_IS_BASIC, cn_typeflags = NA_TYPE_FLAGS,
     cn_type = TYPE_GATE, cn_offset = 26, cn_width = PERIPH_GATE_WIDTH, cn_mult = NA_MULT, cn_div = NA_DIV\<rparr>]"

definition gem_tsu_nodes :: "pm_clock_node list" where
  "gem_tsu_nodes = [
    \<lparr>cn_clkflags = CLK_SET_RATE_PARENT OR CLK_SET_RATE_NO_REPARENT OR CLK_IS_BASIC, cn_typeflags = NA_TYPE_FLAGS,
     cn_type = TYPE_MUX, cn_offset = 20, cn_width = 2, cn_mult = NA_MULT, cn_div = NA_DIV\<rparr>]"

definition can0_mio_nodes :: "pm_clock_node list" where
  "can0_mio_nodes = [
    \<lparr>cn_clkflags = CLK_SET_RATE_PARENT OR CLK_SET_RATE_NO_REPARENT OR CLK_IS_BASIC, cn_typeflags = NA_TYPE_FLAGS,
     cn_type = TYPE_MUX, cn_offset = 0, cn_width = 7, cn_mult = NA_MULT, cn_div = NA_DIV\<rparr>]"

definition can1_mio_nodes :: "pm_clock_node list" where
  "can1_mio_nodes = [
    \<lparr>cn_clkflags = CLK_SET_RATE_PARENT OR CLK_SET_RATE_NO_REPARENT OR CLK_IS_BASIC, cn_typeflags = NA_TYPE_FLAGS,
     cn_type = TYPE_MUX, cn_offset = 15, cn_width = 1, cn_mult = NA_MULT, cn_div = NA_DIV\<rparr>]"

definition can0_nodes :: "pm_clock_node list" where
  "can0_nodes = [
    \<lparr>cn_clkflags = CLK_SET_RATE_PARENT OR CLK_SET_RATE_NO_REPARENT OR CLK_IS_BASIC, cn_typeflags = NA_TYPE_FLAGS,
     cn_type = TYPE_MUX, cn_offset = 7, cn_width = 1, cn_mult = NA_MULT, cn_div = NA_DIV\<rparr>]"

definition can1_nodes :: "pm_clock_node list" where
  "can1_nodes = [
    \<lparr>cn_clkflags = CLK_SET_RATE_PARENT OR CLK_SET_RATE_NO_REPARENT OR CLK_IS_BASIC, cn_typeflags = NA_TYPE_FLAGS,
     cn_type = TYPE_MUX, cn_offset = 22, cn_width = 1, cn_mult = NA_MULT, cn_div = NA_DIV\<rparr>]"

definition cpu_r5_core_nodes :: "pm_clock_node list" where
  "cpu_r5_core_nodes = [
    \<lparr>cn_clkflags = CLK_IGNORE_UNUSED OR CLK_IS_BASIC, cn_typeflags = NA_TYPE_FLAGS,
     cn_type = TYPE_GATE, cn_offset = 25, cn_width = PERIPH_GATE_WIDTH, cn_mult = NA_MULT, cn_div = NA_DIV\<rparr>]"

definition dll_ref_nodes :: "pm_clock_node list" where
  "dll_ref_nodes = [
    \<lparr>cn_clkflags = CLK_SET_RATE_PARENT OR CLK_SET_RATE_NO_REPARENT OR CLK_IS_BASIC, cn_typeflags = NA_TYPE_FLAGS,
     cn_type = TYPE_MUX, cn_offset = 0, cn_width = 3, cn_mult = NA_MULT, cn_div = NA_DIV\<rparr>]"

definition timestamp_ref_nodes :: "pm_clock_node list" where
  "timestamp_ref_nodes = [
    GENERIC_MUX,
    \<lparr>cn_clkflags = CLK_IS_BASIC, cn_typeflags = CLK_DIVIDER_ONE_BASED OR CLK_DIVIDER_ALLOW_ZERO,
     cn_type = TYPE_DIV1, cn_offset = 8, cn_width = 6, cn_mult = NA_MULT, cn_div = NA_DIV\<rparr>,
    IGNORE_UNUSED_GATE]"

definition can_mio_parents :: "u32 list" where
  "can_mio_parents = [EXT_CLK_MIO0, EXT_CLK_MIO1, EXT_CLK_MIO2, EXT_CLK_MIO3, EXT_CLK_MIO4, EXT_CLK_MIO5, EXT_CLK_MIO6, EXT_CLK_MIO7,
    EXT_CLK_MIO8, EXT_CLK_MIO9, EXT_CLK_MIO10, EXT_CLK_MIO11, EXT_CLK_MIO12, EXT_CLK_MIO13, EXT_CLK_MIO14, EXT_CLK_MIO15,
    EXT_CLK_MIO16, EXT_CLK_MIO17, EXT_CLK_MIO18, EXT_CLK_MIO19, EXT_CLK_MIO20, EXT_CLK_MIO21, EXT_CLK_MIO22,
    EXT_CLK_MIO23, EXT_CLK_MIO24, EXT_CLK_MIO25, EXT_CLK_MIO26, EXT_CLK_MIO27, EXT_CLK_MIO28, EXT_CLK_MIO29,
    EXT_CLK_MIO30, EXT_CLK_MIO31, EXT_CLK_MIO32, EXT_CLK_MIO33, EXT_CLK_MIO34, EXT_CLK_MIO35, EXT_CLK_MIO36,
    EXT_CLK_MIO37, EXT_CLK_MIO38, EXT_CLK_MIO39, EXT_CLK_MIO40, EXT_CLK_MIO41, EXT_CLK_MIO42, EXT_CLK_MIO43,
    EXT_CLK_MIO44, EXT_CLK_MIO45, EXT_CLK_MIO46, EXT_CLK_MIO47, EXT_CLK_MIO48, EXT_CLK_MIO49, EXT_CLK_MIO50,
    EXT_CLK_MIO51, EXT_CLK_MIO52, EXT_CLK_MIO53, EXT_CLK_MIO54, EXT_CLK_MIO55, EXT_CLK_MIO56, EXT_CLK_MIO57,
    EXT_CLK_MIO58, EXT_CLK_MIO59, EXT_CLK_MIO60, EXT_CLK_MIO61, EXT_CLK_MIO62, EXT_CLK_MIO63, EXT_CLK_MIO64,
    EXT_CLK_MIO65, EXT_CLK_MIO66, EXT_CLK_MIO67, EXT_CLK_MIO68, EXT_CLK_MIO69, EXT_CLK_MIO70, EXT_CLK_MIO71,
    EXT_CLK_MIO72, EXT_CLK_MIO73, EXT_CLK_MIO74, EXT_CLK_MIO75, EXT_CLK_MIO76, EXT_CLK_MIO77, CLK_NA_PARENT]"

definition clocks_1 :: "(u32 \<times> pm_clock) list" where
  "clocks_1 = [
    (CLK_APLL_INT, \<lparr>ck_name = ''apll_int'', ck_num_nodes = of_nat (length ignore_unused_pll_nodes), ck_control_reg = CRF_APB_APLL_CTRL, ck_status_reg = CRF_APB_PLL_STATUS,
     ck_parents = Some [CLK_APLL_PRE_SRC, CLK_NA_PARENT],
     ck_nodes = ignore_unused_pll_nodes\<rparr>),
    (CLK_APLL_PRE_SRC, \<lparr>ck_name = ''apll_pre_src'', ck_num_nodes = of_nat (length generic_pll_pre_src_nodes), ck_control_reg = CRF_APB_APLL_CTRL, ck_status_reg = CRF_APB_PLL_STATUS,
     ck_parents = Some [EXT_CLK_PSS_REF OR CLK_EXTERNAL_PARENT, EXT_CLK_PSS_REF OR CLK_EXTERNAL_PARENT,
       EXT_CLK_PSS_REF OR CLK_EXTERNAL_PARENT, EXT_CLK_PSS_REF OR CLK_EXTERNAL_PARENT, EXT_CLK_VIDEO OR CLK_EXTERNAL_PARENT,
       EXT_CLK_PSS_ALT_REF OR CLK_EXTERNAL_PARENT, EXT_CLK_AUX_REF OR CLK_EXTERNAL_PARENT,
       EXT_CLK_GT_CRX_REF OR CLK_EXTERNAL_PARENT, CLK_NA_PARENT],
     ck_nodes = generic_pll_pre_src_nodes\<rparr>),
    (CLK_APLL_HALF, \<lparr>ck_name = ''apll_half'', ck_num_nodes = of_nat (length generic_pll_half_nodes), ck_control_reg = CRF_APB_APLL_CTRL, ck_status_reg = CRF_APB_PLL_STATUS,
     ck_parents = Some [CLK_APLL_INT, CLK_NA_PARENT],
     ck_nodes = generic_pll_half_nodes\<rparr>),
    (CLK_APLL_INT_MUX, \<lparr>ck_name = ''apll_int_mux'', ck_num_nodes = of_nat (length generic_pll_int_nodes), ck_control_reg = CRF_APB_APLL_CTRL, ck_status_reg = CRF_APB_PLL_STATUS,
     ck_parents = Some [CLK_APLL_INT, CLK_APLL_HALF, CLK_NA_PARENT],
     ck_nodes = generic_pll_int_nodes\<rparr>),
    (CLK_APLL_POST_SRC, \<lparr>ck_name = ''apll_post_src'', ck_num_nodes = of_nat (length generic_pll_post_src_nodes), ck_control_reg = CRF_APB_APLL_CTRL, ck_status_reg = CRF_APB_PLL_STATUS,
     ck_parents = Some [EXT_CLK_PSS_REF OR CLK_EXTERNAL_PARENT, EXT_CLK_PSS_REF OR CLK_EXTERNAL_PARENT,
       EXT_CLK_PSS_REF OR CLK_EXTERNAL_PARENT, EXT_CLK_PSS_REF OR CLK_EXTERNAL_PARENT, EXT_CLK_VIDEO OR CLK_EXTERNAL_PARENT,
       EXT_CLK_PSS_ALT_REF OR CLK_EXTERNAL_PARENT, EXT_CLK_AUX_REF OR CLK_EXTERNAL_PARENT,
       EXT_CLK_GT_CRX_REF OR CLK_EXTERNAL_PARENT, CLK_NA_PARENT],
     ck_nodes = generic_pll_post_src_nodes\<rparr>),
    (CLK_APLL, \<lparr>ck_name = ''apll'', ck_num_nodes = of_nat (length generic_pll_system_nodes), ck_control_reg = CRF_APB_APLL_CTRL, ck_status_reg = CRF_APB_PLL_STATUS,
     ck_parents = Some [CLK_APLL_INT_MUX, CLK_APLL_POST_SRC, CLK_NA_PARENT],
     ck_nodes = generic_pll_system_nodes\<rparr>),
    (CLK_DPLL_INT, \<lparr>ck_name = ''dpll_int'', ck_num_nodes = of_nat (length generic_pll_nodes), ck_control_reg = CRF_APB_DPLL_CTRL, ck_status_reg = CRF_APB_PLL_STATUS,
     ck_parents = Some [CLK_DPLL_PRE_SRC, CLK_NA_PARENT],
     ck_nodes = generic_pll_nodes\<rparr>),
    (CLK_DPLL_PRE_SRC, \<lparr>ck_name = ''dpll_pre_src'', ck_num_nodes = of_nat (length generic_pll_pre_src_nodes), ck_control_reg = CRF_APB_DPLL_CTRL, ck_status_reg = CRF_APB_PLL_STATUS,
     ck_parents = Some [EXT_CLK_PSS_REF OR CLK_EXTERNAL_PARENT, EXT_CLK_PSS_REF OR CLK_EXTERNAL_PARENT,
       EXT_CLK_PSS_REF OR CLK_EXTERNAL_PARENT, EXT_CLK_PSS_REF OR CLK_EXTERNAL_PARENT, EXT_CLK_VIDEO OR CLK_EXTERNAL_PARENT,
       EXT_CLK_PSS_ALT_REF OR CLK_EXTERNAL_PARENT, EXT_CLK_AUX_REF OR CLK_EXTERNAL_PARENT,
       EXT_CLK_GT_CRX_REF OR CLK_EXTERNAL_PARENT, CLK_NA_PARENT],
     ck_nodes = generic_pll_pre_src_nodes\<rparr>),
    (CLK_DPLL_HALF, \<lparr>ck_name = ''dpll_half'', ck_num_nodes = of_nat (length generic_pll_half_nodes), ck_control_reg = CRF_APB_DPLL_CTRL, ck_status_reg = CRF_APB_PLL_STATUS,
     ck_parents = Some [CLK_DPLL_INT, CLK_NA_PARENT],
     ck_nodes = generic_pll_half_nodes\<rparr>),
    (CLK_DPLL_INT_MUX, \<lparr>ck_name = ''dpll_int_mux'', ck_num_nodes = of_nat (length generic_pll_int_nodes), ck_control_reg = CRF_APB_DPLL_CTRL, ck_status_reg = CRF_APB_PLL_STATUS,
     ck_parents = Some [CLK_DPLL_INT, CLK_DPLL_HALF, CLK_NA_PARENT],
     ck_nodes = generic_pll_int_nodes\<rparr>),
    (CLK_DPLL_POST_SRC, \<lparr>ck_name = ''dpll_post_src'', ck_num_nodes = of_nat (length generic_pll_post_src_nodes), ck_control_reg = CRF_APB_DPLL_CTRL, ck_status_reg = CRF_APB_PLL_STATUS,
     ck_parents = Some [EXT_CLK_PSS_REF OR CLK_EXTERNAL_PARENT, EXT_CLK_PSS_REF OR CLK_EXTERNAL_PARENT,
       EXT_CLK_PSS_REF OR CLK_EXTERNAL_PARENT, EXT_CLK_PSS_REF OR CLK_EXTERNAL_PARENT, EXT_CLK_VIDEO OR CLK_EXTERNAL_PARENT,
       EXT_CLK_PSS_ALT_REF OR CLK_EXTERNAL_PARENT, EXT_CLK_AUX_REF OR CLK_EXTERNAL_PARENT,
       EXT_CLK_GT_CRX_REF OR CLK_EXTERNAL_PARENT, CLK_NA_PARENT],
     ck_nodes = generic_pll_post_src_nodes\<rparr>)]"

definition clocks_2 :: "(u32 \<times> pm_clock) list" where
  "clocks_2 = [
    (CLK_DPLL, \<lparr>ck_name = ''dpll'', ck_num_nodes = of_nat (length generic_pll_system_nodes), ck_control_reg = CRF_APB_DPLL_CTRL, ck_status_reg = CRF_APB_PLL_STATUS,
     ck_parents = Some [CLK_DPLL_INT_MUX, CLK_DPLL_POST_SRC, CLK_NA_PARENT],
     ck_nodes = generic_pll_system_nodes\<rparr>),
    (CLK_VPLL_INT, \<lparr>ck_name = ''vpll_int'', ck_num_nodes = of_nat (length ignore_unused_pll_nodes), ck_control_reg = CRF_APB_VPLL_CTRL, ck_status_reg = CRF_APB_PLL_STATUS,
     ck_parents = Some [CLK_VPLL_PRE_SRC, CLK_NA_PARENT],
     ck_nodes = ignore_unused_pll_nodes\<rparr>),
    (CLK_VPLL_PRE_SRC, \<lparr>ck_name = ''vpll_pre_src'', ck_num_nodes = of_nat (length generic_pll_pre_src_nodes), ck_control_reg = CRF_APB_VPLL_CTRL, ck_status_reg = CRF_APB_PLL_STATUS,
     ck_parents = Some [EXT_CLK_PSS_REF OR CLK_EXTERNAL_PARENT, EXT_CLK_PSS_REF OR CLK_EXTERNAL_PARENT,
       EXT_CLK_PSS_REF OR CLK_EXTERNAL_PARENT, EXT_CLK_PSS_REF OR CLK_EXTERNAL_PARENT, EXT_CLK_VIDEO OR CLK_EXTERNAL_PARENT,
       EXT_CLK_PSS_ALT_REF OR CLK_EXTERNAL_PARENT, EXT_CLK_AUX_REF OR CLK_EXTERNAL_PARENT,
       EXT_CLK_GT_CRX_REF OR CLK_EXTERNAL_PARENT, CLK_NA_PARENT],
     ck_nodes = generic_pll_pre_src_nodes\<rparr>),
    (CLK_VPLL_HALF, \<lparr>ck_name = ''vpll_half'', ck_num_nodes = of_nat (length generic_pll_half_nodes), ck_control_reg = CRF_APB_VPLL_CTRL, ck_status_reg = CRF_APB_PLL_STATUS,
     ck_parents = Some [CLK_VPLL_INT, CLK_NA_PARENT],
     ck_nodes = generic_pll_half_nodes\<rparr>),
    (CLK_VPLL_INT_MUX, \<lparr>ck_name = ''vpll_int_mux'', ck_num_nodes = of_nat (length generic_pll_int_nodes), ck_control_reg = CRF_APB_VPLL_CTRL, ck_status_reg = CRF_APB_PLL_STATUS,
     ck_parents = Some [CLK_VPLL_INT, CLK_VPLL_HALF, CLK_NA_PARENT],
     ck_nodes = generic_pll_int_nodes\<rparr>),
    (CLK_VPLL_POST_SRC, \<lparr>ck_name = ''vpll_post_src'', ck_num_nodes = of_nat (length generic_pll_post_src_nodes), ck_control_reg = CRF_APB_VPLL_CTRL, ck_status_reg = CRF_APB_PLL_STATUS,
     ck_parents = Some [EXT_CLK_PSS_REF OR CLK_EXTERNAL_PARENT, EXT_CLK_PSS_REF OR CLK_EXTERNAL_PARENT,
       EXT_CLK_PSS_REF OR CLK_EXTERNAL_PARENT, EXT_CLK_PSS_REF OR CLK_EXTERNAL_PARENT, EXT_CLK_VIDEO OR CLK_EXTERNAL_PARENT,
       EXT_CLK_PSS_ALT_REF OR CLK_EXTERNAL_PARENT, EXT_CLK_AUX_REF OR CLK_EXTERNAL_PARENT,
       EXT_CLK_GT_CRX_REF OR CLK_EXTERNAL_PARENT, CLK_NA_PARENT],
     ck_nodes = generic_pll_post_src_nodes\<rparr>),
    (CLK_VPLL, \<lparr>ck_name = ''vpll'', ck_num_nodes = of_nat (length generic_pll_system_nodes), ck_control_reg = CRF_APB_VPLL_CTRL, ck_status_reg = CRF_APB_PLL_STATUS,
     ck_parents = Some [CLK_VPLL_INT_MUX, CLK_VPLL_POST_SRC, CLK_NA_PARENT],
     ck_nodes = generic_pll_system_nodes\<rparr>),
    (CLK_IOPLL_INT, \<lparr>ck_name = ''iopll_int'', ck_num_nodes = of_nat (length generic_pll_nodes), ck_control_reg = CRL_APB_IOPLL_CTRL, ck_status_reg = CRF_APB_PLL_STATUS,
     ck_parents = Some [CLK_IOPLL_PRE_SRC, CLK_NA_PARENT],
     ck_nodes = generic_pll_nodes\<rparr>),
    (CLK_IOPLL_PRE_SRC, \<lparr>ck_name = ''iopll_pre_src'', ck_num_nodes = of_nat (length generic_pll_pre_src_nodes), ck_control_reg = CRL_APB_IOPLL_CTRL, ck_status_reg = CRF_APB_PLL_STATUS,
     ck_parents = Some [EXT_CLK_PSS_REF OR CLK_EXTERNAL_PARENT, EXT_CLK_PSS_REF OR CLK_EXTERNAL_PARENT,
       EXT_CLK_PSS_REF OR CLK_EXTERNAL_PARENT, EXT_CLK_PSS_REF OR CLK_EXTERNAL_PARENT, EXT_CLK_VIDEO OR CLK_EXTERNAL_PARENT,
       EXT_CLK_PSS_ALT_REF OR CLK_EXTERNAL_PARENT, EXT_CLK_AUX_REF OR CLK_EXTERNAL_PARENT,
       EXT_CLK_GT_CRX_REF OR CLK_EXTERNAL_PARENT, CLK_NA_PARENT],
     ck_nodes = generic_pll_pre_src_nodes\<rparr>),
    (CLK_IOPLL_HALF, \<lparr>ck_name = ''iopll_half'', ck_num_nodes = of_nat (length generic_pll_half_nodes), ck_control_reg = CRL_APB_IOPLL_CTRL, ck_status_reg = CRF_APB_PLL_STATUS,
     ck_parents = Some [CLK_IOPLL_INT, CLK_NA_PARENT],
     ck_nodes = generic_pll_half_nodes\<rparr>),
    (CLK_IOPLL_INT_MUX, \<lparr>ck_name = ''iopll_int_mux'', ck_num_nodes = of_nat (length generic_pll_int_nodes), ck_control_reg = CRL_APB_IOPLL_CTRL, ck_status_reg = CRF_APB_PLL_STATUS,
     ck_parents = Some [CLK_IOPLL_INT, CLK_IOPLL_HALF, CLK_NA_PARENT],
     ck_nodes = generic_pll_int_nodes\<rparr>)]"

definition clocks_3 :: "(u32 \<times> pm_clock) list" where
  "clocks_3 = [
    (CLK_IOPLL_POST_SRC, \<lparr>ck_name = ''iopll_post_src'', ck_num_nodes = of_nat (length generic_pll_post_src_nodes), ck_control_reg = CRL_APB_IOPLL_CTRL, ck_status_reg = CRF_APB_PLL_STATUS,
     ck_parents = Some [EXT_CLK_PSS_REF OR CLK_EXTERNAL_PARENT, EXT_CLK_PSS_REF OR CLK_EXTERNAL_PARENT,
       EXT_CLK_PSS_REF OR CLK_EXTERNAL_PARENT, EXT_CLK_PSS_REF OR CLK_EXTERNAL_PARENT, EXT_CLK_VIDEO OR CLK_EXTERNAL_PARENT,
       EXT_CLK_PSS_ALT_REF OR CLK_EXTERNAL_PARENT, EXT_CLK_AUX_REF OR CLK_EXTERNAL_PARENT,
       EXT_CLK_GT_CRX_REF OR CLK_EXTERNAL_PARENT, CLK_NA_PARENT],
     ck_nodes = generic_pll_post_src_nodes\<rparr>),
    (CLK_IOPLL, \<lparr>ck_name = ''iopll'', ck_num_nodes = of_nat (length generic_pll_system_nodes), ck_control_reg = CRL_APB_IOPLL_CTRL, ck_status_reg = CRF_APB_PLL_STATUS,
     ck_parents = Some [CLK_IOPLL_INT_MUX, CLK_IOPLL_POST_SRC, CLK_NA_PARENT],
     ck_nodes = generic_pll_system_nodes\<rparr>),
    (CLK_RPLL_INT, \<lparr>ck_name = ''rpll_int'', ck_num_nodes = of_nat (length generic_pll_nodes), ck_control_reg = CRL_APB_RPLL_CTRL, ck_status_reg = CRF_APB_PLL_STATUS,
     ck_parents = Some [CLK_RPLL_PRE_SRC, CLK_NA_PARENT],
     ck_nodes = generic_pll_nodes\<rparr>),
    (CLK_RPLL_PRE_SRC, \<lparr>ck_name = ''rpll_pre_src'', ck_num_nodes = of_nat (length generic_pll_pre_src_nodes), ck_control_reg = CRL_APB_RPLL_CTRL, ck_status_reg = CRF_APB_PLL_STATUS,
     ck_parents = Some [EXT_CLK_PSS_REF OR CLK_EXTERNAL_PARENT, EXT_CLK_PSS_REF OR CLK_EXTERNAL_PARENT,
       EXT_CLK_PSS_REF OR CLK_EXTERNAL_PARENT, EXT_CLK_PSS_REF OR CLK_EXTERNAL_PARENT, EXT_CLK_VIDEO OR CLK_EXTERNAL_PARENT,
       EXT_CLK_PSS_ALT_REF OR CLK_EXTERNAL_PARENT, EXT_CLK_AUX_REF OR CLK_EXTERNAL_PARENT,
       EXT_CLK_GT_CRX_REF OR CLK_EXTERNAL_PARENT, CLK_NA_PARENT],
     ck_nodes = generic_pll_pre_src_nodes\<rparr>),
    (CLK_RPLL_HALF, \<lparr>ck_name = ''rpll_half'', ck_num_nodes = of_nat (length generic_pll_half_nodes), ck_control_reg = CRL_APB_RPLL_CTRL, ck_status_reg = CRF_APB_PLL_STATUS,
     ck_parents = Some [CLK_RPLL_INT, CLK_NA_PARENT],
     ck_nodes = generic_pll_half_nodes\<rparr>),
    (CLK_RPLL_INT_MUX, \<lparr>ck_name = ''rpll_int_mux'', ck_num_nodes = of_nat (length generic_pll_int_nodes), ck_control_reg = CRL_APB_RPLL_CTRL, ck_status_reg = CRF_APB_PLL_STATUS,
     ck_parents = Some [CLK_RPLL_INT, CLK_RPLL_HALF, CLK_NA_PARENT],
     ck_nodes = generic_pll_int_nodes\<rparr>),
    (CLK_RPLL_POST_SRC, \<lparr>ck_name = ''rpll_post_src'', ck_num_nodes = of_nat (length generic_pll_post_src_nodes), ck_control_reg = CRL_APB_RPLL_CTRL, ck_status_reg = CRF_APB_PLL_STATUS,
     ck_parents = Some [EXT_CLK_PSS_REF OR CLK_EXTERNAL_PARENT, EXT_CLK_PSS_REF OR CLK_EXTERNAL_PARENT,
       EXT_CLK_PSS_REF OR CLK_EXTERNAL_PARENT, EXT_CLK_PSS_REF OR CLK_EXTERNAL_PARENT, EXT_CLK_VIDEO OR CLK_EXTERNAL_PARENT,
       EXT_CLK_PSS_ALT_REF OR CLK_EXTERNAL_PARENT, EXT_CLK_AUX_REF OR CLK_EXTERNAL_PARENT,
       EXT_CLK_GT_CRX_REF OR CLK_EXTERNAL_PARENT, CLK_NA_PARENT],
     ck_nodes = generic_pll_post_src_nodes\<rparr>),
    (CLK_RPLL, \<lparr>ck_name = ''rpll'', ck_num_nodes = of_nat (length generic_pll_system_nodes), ck_control_reg = CRL_APB_RPLL_CTRL, ck_status_reg = CRL_APB_PLL_STATUS,
     ck_parents = Some [CLK_RPLL_INT_MUX, CLK_RPLL_POST_SRC, CLK_NA_PARENT],
     ck_nodes = generic_pll_system_nodes\<rparr>),
    (CLK_ACPU, \<lparr>ck_name = ''acpu'', ck_num_nodes = of_nat (length acpu_nodes), ck_control_reg = CRF_APB_ACPU_CTRL, ck_status_reg = 0,
     ck_parents = Some [CLK_APLL, CLK_DUMMY_PARENT, CLK_DPLL, CLK_VPLL, CLK_NA_PARENT],
     ck_nodes = acpu_nodes\<rparr>),
    (CLK_ACPU_FULL, \<lparr>ck_name = ''acpu_full'', ck_num_nodes = of_nat (length acpu_full_nodes), ck_control_reg = CRF_APB_ACPU_CTRL, ck_status_reg = 0,
     ck_parents = Some [CLK_ACPU OR push_bit CLK_PARENTS_ID_LEN PARENT_CLK_NODE2, CLK_NA_PARENT],
     ck_nodes = acpu_full_nodes\<rparr>),
    (CLK_DBG_TRACE, \<lparr>ck_name = ''dbg_trace'', ck_num_nodes = of_nat (length generic_mux_div_gate_nodes), ck_control_reg = CRF_APB_DBG_TRACE_CTRL, ck_status_reg = 0,
     ck_parents = Some [CLK_IOPLL_TO_FPD, CLK_DUMMY_PARENT, CLK_DPLL, CLK_APLL, CLK_NA_PARENT],
     ck_nodes = generic_mux_div_gate_nodes\<rparr>)]"

definition clocks_4 :: "(u32 \<times> pm_clock) list" where
  "clocks_4 = [
    (CLK_DBG_FPD, \<lparr>ck_name = ''dbg_fpd'', ck_num_nodes = of_nat (length generic_mux_div_gate_nodes), ck_control_reg = CRF_APB_DBG_FPD_CTRL, ck_status_reg = 0,
     ck_parents = Some [CLK_IOPLL_TO_FPD, CLK_DUMMY_PARENT, CLK_DPLL, CLK_APLL, CLK_NA_PARENT],
     ck_nodes = generic_mux_div_gate_nodes\<rparr>),
    (CLK_DBG_TSTMP, \<lparr>ck_name = ''dbg_tstmp'', ck_num_nodes = of_nat (length generic_mux_div_nodes), ck_control_reg = CRF_APB_DBG_TSTMP_CTRL, ck_status_reg = 0,
     ck_parents = Some [CLK_IOPLL_TO_FPD, CLK_DUMMY_PARENT, CLK_DPLL, CLK_APLL, CLK_NA_PARENT],
     ck_nodes = generic_mux_div_nodes\<rparr>),
    (CLK_DP_VIDEO_REF, \<lparr>ck_name = ''dp_video_ref'', ck_num_nodes = of_nat (length dp_audio_video_ref_nodes), ck_control_reg = CRF_APB_DP_VIDEO_REF_CTRL, ck_status_reg = 0,
     ck_parents = Some [CLK_VPLL, CLK_DUMMY_PARENT, CLK_DPLL, CLK_RPLL_TO_FPD, CLK_NA_PARENT],
     ck_nodes = dp_audio_video_ref_nodes\<rparr>),
    (CLK_DP_AUDIO_REF, \<lparr>ck_name = ''dp_audio_ref'', ck_num_nodes = of_nat (length dp_audio_video_ref_nodes), ck_control_reg = CRF_APB_DP_AUDIO_REF_CTRL, ck_status_reg = 0,
     ck_parents = Some [CLK_VPLL, CLK_DUMMY_PARENT, CLK_DPLL, CLK_RPLL_TO_FPD, CLK_NA_PARENT],
     ck_nodes = dp_audio_video_ref_nodes\<rparr>),
    (CLK_DP_STC_REF, \<lparr>ck_name = ''dp_stc_ref'', ck_num_nodes = of_nat (length generic_mux_div_div_gate_nodes), ck_control_reg = CRF_APB_DP_STC_REF_CTRL, ck_status_reg = 0,
     ck_parents = Some [CLK_VPLL, CLK_DUMMY_PARENT, CLK_DPLL, CLK_RPLL_TO_FPD, CLK_NA_PARENT],
     ck_nodes = generic_mux_div_div_gate_nodes\<rparr>),
    (CLK_DPDMA_REF, \<lparr>ck_name = ''dpdma_ref'', ck_num_nodes = of_nat (length generic_mux_div_gate_nodes), ck_control_reg = CRF_APB_DPDMA_REF_CTRL, ck_status_reg = 0,
     ck_parents = Some [CLK_APLL, CLK_DUMMY_PARENT, CLK_VPLL, CLK_DPLL, CLK_NA_PARENT],
     ck_nodes = generic_mux_div_gate_nodes\<rparr>),
    (CLK_DDR_REF, \<lparr>ck_name = ''ddr_ref'', ck_num_nodes = of_nat (length ddr_nodes), ck_control_reg = CRF_APB_DDR_CTRL, ck_status_reg = 0,
     ck_parents = Some [CLK_DPLL, CLK_VPLL, CLK_NA_PARENT],
     ck_nodes = ddr_nodes\<rparr>),
    (CLK_GPU_REF, \<lparr>ck_name = ''gpu_ref'', ck_num_nodes = of_nat (length generic_mux_div_gate_nodes), ck_control_reg = CRF_APB_GPU_REF_CTRL, ck_status_reg = 0,
     ck_parents = Some [CLK_IOPLL_TO_FPD, CLK_DUMMY_PARENT, CLK_VPLL, CLK_DPLL, CLK_NA_PARENT],
     ck_nodes = generic_mux_div_gate_nodes\<rparr>),
    (CLK_SATA_REF, \<lparr>ck_name = ''sata_ref'', ck_num_nodes = of_nat (length generic_mux_div_gate_nodes), ck_control_reg = CRF_APB_SATA_REF_CTRL, ck_status_reg = 0,
     ck_parents = Some [CLK_IOPLL_TO_FPD, CLK_DUMMY_PARENT, CLK_APLL, CLK_DPLL, CLK_NA_PARENT],
     ck_nodes = generic_mux_div_gate_nodes\<rparr>),
    (CLK_PCIE_REF, \<lparr>ck_name = ''pcie_ref'', ck_num_nodes = of_nat (length generic_mux_div_gate_nodes), ck_control_reg = CRF_APB_PCIE_REF_CTRL, ck_status_reg = 0,
     ck_parents = Some [CLK_IOPLL_TO_FPD, CLK_DUMMY_PARENT, CLK_RPLL_TO_FPD, CLK_DPLL, CLK_NA_PARENT],
     ck_nodes = generic_mux_div_gate_nodes\<rparr>)]"

definition clocks_5 :: "(u32 \<times> pm_clock) list" where
  "clocks_5 = [
    (CLK_GDMA_REF, \<lparr>ck_name = ''gdma_ref'', ck_num_nodes = of_nat (length generic_mux_div_gate_nodes), ck_control_reg = CRF_APB_GDMA_REF_CTRL, ck_status_reg = 0,
     ck_parents = Some [CLK_APLL, CLK_DUMMY_PARENT, CLK_VPLL, CLK_DPLL, CLK_NA_PARENT],
     ck_nodes = generic_mux_div_gate_nodes\<rparr>),
    (CLK_GTGREF0_REF, \<lparr>ck_name = ''gtgref0_ref'', ck_num_nodes = of_nat (length generic_mux_div_gate_nodes), ck_control_reg = CRF_APB_GTGREF0_REF_CTRL, ck_status_reg = 0,
     ck_parents = Some [CLK_IOPLL_TO_FPD, CLK_DUMMY_PARENT, CLK_APLL, CLK_DPLL, CLK_NA_PARENT],
     ck_nodes = generic_mux_div_gate_nodes\<rparr>),
    (CLK_TOPSW_MAIN, \<lparr>ck_name = ''topsw_main'', ck_num_nodes = of_nat (length generic_mux_div_unused_gate_nodes), ck_control_reg = CRF_APB_TOPSW_MAIN_CTRL, ck_status_reg = 0,
     ck_parents = Some [CLK_APLL, CLK_DUMMY_PARENT, CLK_VPLL, CLK_DPLL, CLK_NA_PARENT],
     ck_nodes = generic_mux_div_unused_gate_nodes\<rparr>),
    (CLK_TOPSW_LSBUS, \<lparr>ck_name = ''topsw_lsbus'', ck_num_nodes = of_nat (length generic_mux_div_unused_gate_nodes), ck_control_reg = CRF_APB_TOPSW_LSBUS_CTRL, ck_status_reg = 0,
     ck_parents = Some [CLK_APLL, CLK_DUMMY_PARENT, CLK_IOPLL_TO_FPD, CLK_DPLL, CLK_NA_PARENT],
     ck_nodes = generic_mux_div_unused_gate_nodes\<rparr>),
    (CLK_IOU_SWITCH, \<lparr>ck_name = ''iou_switch'', ck_num_nodes = of_nat (length generic_mux_div_unused_gate_nodes), ck_control_reg = CRL_APB_IOU_SWITCH_CTRL, ck_status_reg = 0,
     ck_parents = Some [CLK_RPLL, CLK_DUMMY_PARENT, CLK_IOPLL, CLK_DPLL_TO_LPD, CLK_NA_PARENT],
     ck_nodes = generic_mux_div_unused_gate_nodes\<rparr>),
    (CLK_GEM0_REF_UNGATED, \<lparr>ck_name = ''gem0_ref_ung'', ck_num_nodes = of_nat (length gem_ref_ungated_nodes), ck_control_reg = CRL_APB_GEM0_REF_CTRL, ck_status_reg = 0,
     ck_parents = Some [CLK_IOPLL, CLK_DUMMY_PARENT, CLK_RPLL, CLK_DPLL_TO_LPD, CLK_NA_PARENT],
     ck_nodes = gem_ref_ungated_nodes\<rparr>),
    (CLK_GEM1_REF_UNGATED, \<lparr>ck_name = ''gem1_ref_ung'', ck_num_nodes = of_nat (length gem_ref_ungated_nodes), ck_control_reg = CRL_APB_GEM1_REF_CTRL, ck_status_reg = 0,
     ck_parents = Some [CLK_IOPLL, CLK_DUMMY_PARENT, CLK_RPLL, CLK_DPLL_TO_LPD, CLK_NA_PARENT],
     ck_nodes = gem_ref_ungated_nodes\<rparr>),
    (CLK_GEM2_REF_UNGATED, \<lparr>ck_name = ''gem2_ref_ung'', ck_num_nodes = of_nat (length gem_ref_ungated_nodes), ck_control_reg = CRL_APB_GEM2_REF_CTRL, ck_status_reg = 0,
     ck_parents = Some [CLK_IOPLL, CLK_DUMMY_PARENT, CLK_RPLL, CLK_DPLL_TO_LPD, CLK_NA_PARENT],
     ck_nodes = gem_ref_ungated_nodes\<rparr>),
    (CLK_GEM3_REF_UNGATED, \<lparr>ck_name = ''gem3_ref_ung'', ck_num_nodes = of_nat (length gem_ref_ungated_nodes), ck_control_reg = CRL_APB_GEM3_REF_CTRL, ck_status_reg = 0,
     ck_parents = Some [CLK_IOPLL, CLK_DUMMY_PARENT, CLK_RPLL, CLK_DPLL_TO_LPD, CLK_NA_PARENT],
     ck_nodes = gem_ref_ungated_nodes\<rparr>),
    (CLK_GEM0_REF, \<lparr>ck_name = ''gem0_ref'', ck_num_nodes = of_nat (length gem0_ref_nodes), ck_control_reg = IOU_SLCR_GEM_CLK_CTRL, ck_status_reg = 0,
     ck_parents = Some [CLK_GEM0_REF_UNGATED OR push_bit CLK_PARENTS_ID_LEN PARENT_CLK_NODE3, EXT_CLK_GEM0_TX_EMIO OR CLK_EXTERNAL_PARENT,
       CLK_NA_PARENT],
     ck_nodes = gem0_ref_nodes\<rparr>)]"

definition clocks_6 :: "(u32 \<times> pm_clock) list" where
  "clocks_6 = [
    (CLK_GEM1_REF, \<lparr>ck_name = ''gem1_ref'', ck_num_nodes = of_nat (length gem1_ref_nodes), ck_control_reg = IOU_SLCR_GEM_CLK_CTRL, ck_status_reg = 0,
     ck_parents = Some [CLK_GEM1_REF_UNGATED OR push_bit CLK_PARENTS_ID_LEN PARENT_CLK_NODE3, EXT_CLK_GEM1_TX_EMIO OR CLK_EXTERNAL_PARENT,
       CLK_NA_PARENT],
     ck_nodes = gem1_ref_nodes\<rparr>),
    (CLK_GEM2_REF, \<lparr>ck_name = ''gem2_ref'', ck_num_nodes = of_nat (length gem2_ref_nodes), ck_control_reg = IOU_SLCR_GEM_CLK_CTRL, ck_status_reg = 0,
     ck_parents = Some [CLK_GEM2_REF_UNGATED OR push_bit CLK_PARENTS_ID_LEN PARENT_CLK_NODE3, EXT_CLK_GEM2_TX_EMIO OR CLK_EXTERNAL_PARENT,
       CLK_NA_PARENT],
     ck_nodes = gem2_ref_nodes\<rparr>),
    (CLK_GEM3_REF, \<lparr>ck_name = ''gem3_ref'', ck_num_nodes = of_nat (length gem3_ref_nodes), ck_control_reg = IOU_SLCR_GEM_CLK_CTRL, ck_status_reg = 0,
     ck_parents = Some [CLK_GEM3_REF_UNGATED OR push_bit CLK_PARENTS_ID_LEN PARENT_CLK_NODE3, EXT_CLK_GEM3_TX_EMIO OR CLK_EXTERNAL_PARENT,
       CLK_NA_PARENT],
     ck_nodes = gem3_ref_nodes\<rparr>),
    (CLK_USB0_BUS_REF, \<lparr>ck_name = ''usb0_bus_ref'', ck_num_nodes = of_nat (length usb_nodes), ck_control_reg = CRL_APB_USB0_BUS_REF_CTRL, ck_status_reg = 0,
     ck_parents = Some [CLK_IOPLL, CLK_DUMMY_PARENT, CLK_RPLL, CLK_DPLL_TO_LPD, CLK_NA_PARENT],
     ck_nodes = usb_nodes\<rparr>),
    (CLK_USB1_BUS_REF, \<lparr>ck_name = ''usb1_bus_ref'', ck_num_nodes = of_nat (length usb_nodes), ck_control_reg = CRL_APB_USB1_BUS_REF_CTRL, ck_status_reg = 0,
     ck_parents = Some [CLK_IOPLL, CLK_DUMMY_PARENT, CLK_RPLL, CLK_DPLL_TO_LPD, CLK_NA_PARENT],
     ck_nodes = usb_nodes\<rparr>),
    (CLK_USB3_DUAL_REF, \<lparr>ck_name = ''usb3_dual_ref'', ck_num_nodes = of_nat (length usb_nodes), ck_control_reg = CRL_APB_USB3_DUAL_REF_CTRL, ck_status_reg = 0,
     ck_parents = Some [CLK_IOPLL, CLK_DUMMY_PARENT, CLK_RPLL, CLK_DPLL_TO_LPD, CLK_NA_PARENT],
     ck_nodes = usb_nodes\<rparr>),
    (CLK_QSPI_REF, \<lparr>ck_name = ''qspi_ref'', ck_num_nodes = of_nat (length generic_mux_div_div_gate_nodes), ck_control_reg = CRL_APB_QSPI_REF_CTRL, ck_status_reg = 0,
     ck_parents = Some [CLK_IOPLL, CLK_DUMMY_PARENT, CLK_RPLL, CLK_DPLL_TO_LPD, CLK_NA_PARENT],
     ck_nodes = generic_mux_div_div_gate_nodes\<rparr>),
    (CLK_SDIO0_REF, \<lparr>ck_name = ''sdio0_ref'', ck_num_nodes = of_nat (length generic_mux_div_div_gate_nodes), ck_control_reg = CRL_APB_SDIO0_REF_CTRL, ck_status_reg = 0,
     ck_parents = Some [CLK_IOPLL, CLK_DUMMY_PARENT, CLK_RPLL, CLK_VPLL_TO_LPD, CLK_NA_PARENT],
     ck_nodes = generic_mux_div_div_gate_nodes\<rparr>),
    (CLK_SDIO1_REF, \<lparr>ck_name = ''sdio1_ref'', ck_num_nodes = of_nat (length generic_mux_div_div_gate_nodes), ck_control_reg = CRL_APB_SDIO1_REF_CTRL, ck_status_reg = 0,
     ck_parents = Some [CLK_IOPLL, CLK_DUMMY_PARENT, CLK_RPLL, CLK_VPLL_TO_LPD, CLK_NA_PARENT],
     ck_nodes = generic_mux_div_div_gate_nodes\<rparr>),
    (CLK_UART0_REF, \<lparr>ck_name = ''uart0_ref'', ck_num_nodes = of_nat (length generic_mux_div_div_gate_nodes), ck_control_reg = CRL_APB_UART0_REF_CTRL, ck_status_reg = 0,
     ck_parents = Some [CLK_IOPLL, CLK_DUMMY_PARENT, CLK_RPLL, CLK_DPLL_TO_LPD, CLK_NA_PARENT],
     ck_nodes = generic_mux_div_div_gate_nodes\<rparr>)]"

definition clocks_7 :: "(u32 \<times> pm_clock) list" where
  "clocks_7 = [
    (CLK_UART1_REF, \<lparr>ck_name = ''uart1_ref'', ck_num_nodes = of_nat (length generic_mux_div_div_gate_nodes), ck_control_reg = CRL_APB_UART1_REF_CTRL, ck_status_reg = 0,
     ck_parents = Some [CLK_IOPLL, CLK_DUMMY_PARENT, CLK_RPLL, CLK_DPLL_TO_LPD, CLK_NA_PARENT],
     ck_nodes = generic_mux_div_div_gate_nodes\<rparr>),
    (CLK_SPI0_REF, \<lparr>ck_name = ''spi0_ref'', ck_num_nodes = of_nat (length generic_mux_div_div_gate_nodes), ck_control_reg = CRL_APB_SPI0_REF_CTRL, ck_status_reg = 0,
     ck_parents = Some [CLK_IOPLL, CLK_DUMMY_PARENT, CLK_RPLL, CLK_DPLL_TO_LPD, CLK_NA_PARENT],
     ck_nodes = generic_mux_div_div_gate_nodes\<rparr>),
    (CLK_SPI1_REF, \<lparr>ck_name = ''spi1_ref'', ck_num_nodes = of_nat (length generic_mux_div_div_gate_nodes), ck_control_reg = CRL_APB_SPI1_REF_CTRL, ck_status_reg = 0,
     ck_parents = Some [CLK_IOPLL, CLK_DUMMY_PARENT, CLK_RPLL, CLK_DPLL_TO_LPD, CLK_NA_PARENT],
     ck_nodes = generic_mux_div_div_gate_nodes\<rparr>),
    (CLK_CAN0_REF, \<lparr>ck_name = ''can0_ref'', ck_num_nodes = of_nat (length generic_mux_div_div_gate_nodes), ck_control_reg = CRL_APB_CAN0_REF_CTRL, ck_status_reg = 0,
     ck_parents = Some [CLK_IOPLL, CLK_DUMMY_PARENT, CLK_RPLL, CLK_DPLL_TO_LPD, CLK_NA_PARENT],
     ck_nodes = generic_mux_div_div_gate_nodes\<rparr>),
    (CLK_CAN1_REF, \<lparr>ck_name = ''can1_ref'', ck_num_nodes = of_nat (length generic_mux_div_div_gate_nodes), ck_control_reg = CRL_APB_CAN1_REF_CTRL, ck_status_reg = 0,
     ck_parents = Some [CLK_IOPLL, CLK_DUMMY_PARENT, CLK_RPLL, CLK_DPLL_TO_LPD, CLK_NA_PARENT],
     ck_nodes = generic_mux_div_div_gate_nodes\<rparr>),
    (CLK_NAND_REF, \<lparr>ck_name = ''nand_ref'', ck_num_nodes = of_nat (length generic_mux_div_div_gate_nodes), ck_control_reg = CRL_APB_NAND_REF_CTRL, ck_status_reg = 0,
     ck_parents = Some [CLK_IOPLL, CLK_DUMMY_PARENT, CLK_RPLL, CLK_DPLL_TO_LPD, CLK_NA_PARENT],
     ck_nodes = generic_mux_div_div_gate_nodes\<rparr>),
    (CLK_GEM_TSU_REF, \<lparr>ck_name = ''gem_tsu_ref'', ck_num_nodes = of_nat (length generic_mux_div_div_gate_nodes), ck_control_reg = CRL_APB_GEM_TSU_REF_CTRL, ck_status_reg = 0,
     ck_parents = Some [CLK_IOPLL, CLK_DUMMY_PARENT, CLK_RPLL, CLK_DPLL_TO_LPD, CLK_NA_PARENT],
     ck_nodes = generic_mux_div_div_gate_nodes\<rparr>),
    (CLK_DLL_REF, \<lparr>ck_name = ''dll_ref'', ck_num_nodes = of_nat (length dll_ref_nodes), ck_control_reg = CRL_APB_DLL_REF_CTRL, ck_status_reg = 0,
     ck_parents = Some [CLK_IOPLL, CLK_RPLL, CLK_NA_PARENT],
     ck_nodes = dll_ref_nodes\<rparr>),
    (CLK_ADMA_REF, \<lparr>ck_name = ''adma_ref'', ck_num_nodes = of_nat (length generic_mux_div_gate_nodes), ck_control_reg = CRL_APB_ADMA_REF_CTRL, ck_status_reg = 0,
     ck_parents = Some [CLK_RPLL, CLK_DUMMY_PARENT, CLK_IOPLL, CLK_DPLL_TO_LPD, CLK_NA_PARENT],
     ck_nodes = generic_mux_div_gate_nodes\<rparr>),
    (CLK_DBG_LPD, \<lparr>ck_name = ''dbg_lpd'', ck_num_nodes = of_nat (length generic_mux_div_gate_nodes), ck_control_reg = CRL_APB_DBG_LPD_CTRL, ck_status_reg = 0,
     ck_parents = Some [CLK_RPLL, CLK_DUMMY_PARENT, CLK_IOPLL, CLK_DPLL_TO_LPD, CLK_NA_PARENT],
     ck_nodes = generic_mux_div_gate_nodes\<rparr>)]"

definition clocks_8 :: "(u32 \<times> pm_clock) list" where
  "clocks_8 = [
    (CLK_CPU_R5, \<lparr>ck_name = ''cpu_r5'', ck_num_nodes = of_nat (length generic_mux_div_unused_gate_nodes), ck_control_reg = CRL_APB_CPU_R5_CTRL, ck_status_reg = 0,
     ck_parents = Some [CLK_RPLL, CLK_DUMMY_PARENT, CLK_IOPLL, CLK_DPLL_TO_LPD, CLK_NA_PARENT],
     ck_nodes = generic_mux_div_unused_gate_nodes\<rparr>),
    (CLK_CSU_PLL, \<lparr>ck_name = ''csu_pll'', ck_num_nodes = of_nat (length generic_mux_div_gate_nodes), ck_control_reg = CRL_APB_CSU_PLL_CTRL, ck_status_reg = 0,
     ck_parents = Some [CLK_IOPLL, CLK_DUMMY_PARENT, CLK_RPLL, CLK_DPLL_TO_LPD, CLK_NA_PARENT],
     ck_nodes = generic_mux_div_gate_nodes\<rparr>),
    (CLK_PCAP, \<lparr>ck_name = ''pcap'', ck_num_nodes = of_nat (length generic_mux_div_gate_nodes), ck_control_reg = CRL_APB_PCAP_CTRL, ck_status_reg = 0,
     ck_parents = Some [CLK_IOPLL, CLK_DUMMY_PARENT, CLK_RPLL, CLK_DPLL_TO_LPD, CLK_NA_PARENT],
     ck_nodes = generic_mux_div_gate_nodes\<rparr>),
    (CLK_LPD_LSBUS, \<lparr>ck_name = ''lpd_lsbus'', ck_num_nodes = of_nat (length generic_mux_div_unused_gate_nodes), ck_control_reg = CRL_APB_LPD_LSBUS_CTRL, ck_status_reg = 0,
     ck_parents = Some [CLK_RPLL, CLK_DUMMY_PARENT, CLK_IOPLL, CLK_DPLL_TO_LPD, CLK_NA_PARENT],
     ck_nodes = generic_mux_div_unused_gate_nodes\<rparr>),
    (CLK_LPD_SWITCH, \<lparr>ck_name = ''lpd_switch'', ck_num_nodes = of_nat (length generic_mux_div_unused_gate_nodes), ck_control_reg = CRL_APB_LPD_SWITCH_CTRL, ck_status_reg = 0,
     ck_parents = Some [CLK_RPLL, CLK_DUMMY_PARENT, CLK_IOPLL, CLK_DPLL_TO_LPD, CLK_NA_PARENT],
     ck_nodes = generic_mux_div_unused_gate_nodes\<rparr>),
    (CLK_I2C0_REF, \<lparr>ck_name = ''i2c0_ref'', ck_num_nodes = of_nat (length generic_mux_div_div_gate_nodes), ck_control_reg = CRL_APB_I2C0_REF_CTRL, ck_status_reg = 0,
     ck_parents = Some [CLK_IOPLL, CLK_DUMMY_PARENT, CLK_RPLL, CLK_DPLL_TO_LPD, CLK_NA_PARENT],
     ck_nodes = generic_mux_div_div_gate_nodes\<rparr>),
    (CLK_I2C1_REF, \<lparr>ck_name = ''i2c1_ref'', ck_num_nodes = of_nat (length generic_mux_div_div_gate_nodes), ck_control_reg = CRL_APB_I2C1_REF_CTRL, ck_status_reg = 0,
     ck_parents = Some [CLK_IOPLL, CLK_DUMMY_PARENT, CLK_RPLL, CLK_DPLL_TO_LPD, CLK_NA_PARENT],
     ck_nodes = generic_mux_div_div_gate_nodes\<rparr>),
    (CLK_TIMESTAMP_REF, \<lparr>ck_name = ''timestamp_ref'', ck_num_nodes = of_nat (length timestamp_ref_nodes), ck_control_reg = CRL_APB_TIMESTAMP_REF_CTRL, ck_status_reg = 0,
     ck_parents = Some [CLK_IOPLL, CLK_DUMMY_PARENT, CLK_RPLL, CLK_DPLL_TO_LPD, EXT_CLK_PSS_REF OR CLK_EXTERNAL_PARENT,
       EXT_CLK_PSS_REF OR CLK_EXTERNAL_PARENT, EXT_CLK_PSS_REF OR CLK_EXTERNAL_PARENT,
       EXT_CLK_PSS_REF OR CLK_EXTERNAL_PARENT, CLK_NA_PARENT],
     ck_nodes = timestamp_ref_nodes\<rparr>),
    (CLK_PL0_REF, \<lparr>ck_name = ''pl0_ref'', ck_num_nodes = of_nat (length pl_nodes), ck_control_reg = CRL_APB_PL0_REF_CTRL, ck_status_reg = 0,
     ck_parents = Some [CLK_IOPLL, CLK_DUMMY_PARENT, CLK_RPLL, CLK_DPLL_TO_LPD, CLK_NA_PARENT],
     ck_nodes = pl_nodes\<rparr>),
    (CLK_PL1_REF, \<lparr>ck_name = ''pl1_ref'', ck_num_nodes = of_nat (length pl_nodes), ck_control_reg = CRL_APB_PL1_REF_CTRL, ck_status_reg = 0,
     ck_parents = Some [CLK_IOPLL, CLK_DUMMY_PARENT, CLK_RPLL, CLK_DPLL_TO_LPD, CLK_NA_PARENT],
     ck_nodes = pl_nodes\<rparr>)]"

definition clocks_9 :: "(u32 \<times> pm_clock) list" where
  "clocks_9 = [
    (CLK_PL2_REF, \<lparr>ck_name = ''pl2_ref'', ck_num_nodes = of_nat (length pl_nodes), ck_control_reg = CRL_APB_PL2_REF_CTRL, ck_status_reg = 0,
     ck_parents = Some [CLK_IOPLL, CLK_DUMMY_PARENT, CLK_RPLL, CLK_DPLL_TO_LPD, CLK_NA_PARENT],
     ck_nodes = pl_nodes\<rparr>),
    (CLK_PL3_REF, \<lparr>ck_name = ''pl3_ref'', ck_num_nodes = of_nat (length pl_nodes), ck_control_reg = CRL_APB_PL3_REF_CTRL, ck_status_reg = 0,
     ck_parents = Some [CLK_IOPLL, CLK_DUMMY_PARENT, CLK_RPLL, CLK_DPLL_TO_LPD, CLK_NA_PARENT],
     ck_nodes = pl_nodes\<rparr>),
    (CLK_AMS_REF, \<lparr>ck_name = ''ams_ref'', ck_num_nodes = of_nat (length generic_mux_div_div_gate_nodes), ck_control_reg = CRL_APB_AMS_REF_CTRL, ck_status_reg = 0,
     ck_parents = Some [CLK_RPLL, CLK_DUMMY_PARENT, CLK_IOPLL, CLK_DPLL_TO_LPD, CLK_NA_PARENT],
     ck_nodes = generic_mux_div_div_gate_nodes\<rparr>),
    (CLK_IOPLL_TO_FPD, \<lparr>ck_name = ''iopll_to_fpd'', ck_num_nodes = of_nat (length generic_domain_crossing_nodes), ck_control_reg = CRL_APB_IOPLL_TO_FPD_CTRL, ck_status_reg = 0,
     ck_parents = Some [CLK_IOPLL, CLK_NA_PARENT],
     ck_nodes = generic_domain_crossing_nodes\<rparr>),
    (CLK_RPLL_TO_FPD, \<lparr>ck_name = ''rpll_to_fpd'', ck_num_nodes = of_nat (length rpll_to_fpd_nodes), ck_control_reg = CRL_APB_RPLL_TO_FPD_CTRL, ck_status_reg = 0,
     ck_parents = Some [CLK_RPLL, CLK_NA_PARENT],
     ck_nodes = rpll_to_fpd_nodes\<rparr>),
    (CLK_APLL_TO_LPD, \<lparr>ck_name = ''apll_to_lpd'', ck_num_nodes = of_nat (length generic_domain_crossing_nodes), ck_control_reg = CRF_APB_APLL_TO_LPD_CTRL, ck_status_reg = 0,
     ck_parents = Some [CLK_APLL, CLK_NA_PARENT],
     ck_nodes = generic_domain_crossing_nodes\<rparr>),
    (CLK_DPLL_TO_LPD, \<lparr>ck_name = ''dpll_to_lpd'', ck_num_nodes = of_nat (length generic_domain_crossing_nodes), ck_control_reg = CRF_APB_DPLL_TO_LPD_CTRL, ck_status_reg = 0,
     ck_parents = Some [CLK_DPLL, CLK_NA_PARENT],
     ck_nodes = generic_domain_crossing_nodes\<rparr>),
    (CLK_VPLL_TO_LPD, \<lparr>ck_name = ''vpll_to_lpd'', ck_num_nodes = of_nat (length generic_domain_crossing_nodes), ck_control_reg = CRF_APB_VPLL_TO_LPD_CTRL, ck_status_reg = 0,
     ck_parents = Some [CLK_VPLL, CLK_NA_PARENT],
     ck_nodes = generic_domain_crossing_nodes\<rparr>),
    (CLK_GEM0_TX, \<lparr>ck_name = ''gem0_tx'', ck_num_nodes = of_nat (length gem_tx_nodes), ck_control_reg = CRL_APB_GEM0_REF_CTRL, ck_status_reg = 0,
     ck_parents = Some [CLK_GEM0_REF, CLK_NA_PARENT],
     ck_nodes = gem_tx_nodes\<rparr>),
    (CLK_GEM1_TX, \<lparr>ck_name = ''gem1_tx'', ck_num_nodes = of_nat (length gem_tx_nodes), ck_control_reg = CRL_APB_GEM1_REF_CTRL, ck_status_reg = 0,
     ck_parents = Some [CLK_GEM1_REF, CLK_NA_PARENT],
     ck_nodes = gem_tx_nodes\<rparr>),
    (CLK_GEM2_TX, \<lparr>ck_name = ''gem2_tx'', ck_num_nodes = of_nat (length gem_tx_nodes), ck_control_reg = CRL_APB_GEM2_REF_CTRL, ck_status_reg = 0,
     ck_parents = Some [CLK_GEM2_REF, CLK_NA_PARENT],
     ck_nodes = gem_tx_nodes\<rparr>),
    (CLK_GEM3_TX, \<lparr>ck_name = ''gem3_tx'', ck_num_nodes = of_nat (length gem_tx_nodes), ck_control_reg = CRL_APB_GEM3_REF_CTRL, ck_status_reg = 0,
     ck_parents = Some [CLK_GEM3_REF, CLK_NA_PARENT],
     ck_nodes = gem_tx_nodes\<rparr>),
    (CLK_GEM0_RX, \<lparr>ck_name = ''gem0_rx'', ck_num_nodes = of_nat (length gem_rx_nodes), ck_control_reg = CRL_APB_GEM0_REF_CTRL, ck_status_reg = 0,
     ck_parents = Some [EXT_CLK_GEM0_RX_EMIO OR CLK_EXTERNAL_PARENT, CLK_NA_PARENT],
     ck_nodes = gem_rx_nodes\<rparr>),
    (CLK_GEM1_RX, \<lparr>ck_name = ''gem1_rx'', ck_num_nodes = of_nat (length gem_rx_nodes), ck_control_reg = CRL_APB_GEM1_REF_CTRL, ck_status_reg = 0,
     ck_parents = Some [EXT_CLK_GEM1_RX_EMIO OR CLK_EXTERNAL_PARENT, CLK_NA_PARENT],
     ck_nodes = gem_rx_nodes\<rparr>)]"

definition clocks_10 :: "(u32 \<times> pm_clock) list" where
  "clocks_10 = [
    (CLK_GEM2_RX, \<lparr>ck_name = ''gem2_rx'', ck_num_nodes = of_nat (length gem_rx_nodes), ck_control_reg = CRL_APB_GEM2_REF_CTRL, ck_status_reg = 0,
     ck_parents = Some [EXT_CLK_GEM2_RX_EMIO OR CLK_EXTERNAL_PARENT, CLK_NA_PARENT],
     ck_nodes = gem_rx_nodes\<rparr>),
    (CLK_GEM3_RX, \<lparr>ck_name = ''gem3_rx'', ck_num_nodes = of_nat (length gem_rx_nodes), ck_control_reg = CRL_APB_GEM3_REF_CTRL, ck_status_reg = 0,
     ck_parents = Some [EXT_CLK_GEM3_RX_EMIO OR CLK_EXTERNAL_PARENT, CLK_NA_PARENT],
     ck_nodes = gem_rx_nodes\<rparr>),
    (CLK_ACPU_HALF, \<lparr>ck_name = ''acpu_half'', ck_num_nodes = of_nat (length acpu_half_nodes), ck_control_reg = CRF_APB_ACPU_CTRL, ck_status_reg = 0,
     ck_parents = Some [CLK_ACPU OR push_bit CLK_PARENTS_ID_LEN PARENT_CLK_NODE2, CLK_NA_PARENT],
     ck_nodes = acpu_half_nodes\<rparr>),
    (CLK_FPD_WDT, \<lparr>ck_name = ''fpd_wdt'', ck_num_nodes = of_nat (length wdt_nodes), ck_control_reg = FPD_SLCR_WDT_CLK_SEL, ck_status_reg = 0,
     ck_parents = Some [CLK_TOPSW_LSBUS, EXT_CLK_SWDT0 OR CLK_EXTERNAL_PARENT, CLK_NA_PARENT],
     ck_nodes = wdt_nodes\<rparr>),
    (CLK_GPU_PP0_REF, \<lparr>ck_name = ''gpu_pp0_ref'', ck_num_nodes = of_nat (length gpu_pp0_nodes), ck_control_reg = CRF_APB_GPU_REF_CTRL, ck_status_reg = 0,
     ck_parents = Some [CLK_GPU_REF OR push_bit CLK_PARENTS_ID_LEN PARENT_CLK_NODE2, CLK_NA_PARENT],
     ck_nodes = gpu_pp0_nodes\<rparr>),
    (CLK_GPU_PP1_REF, \<lparr>ck_name = ''gpu_pp1_ref'', ck_num_nodes = of_nat (length gpu_pp1_nodes), ck_control_reg = CRF_APB_GPU_REF_CTRL, ck_status_reg = 0,
     ck_parents = Some [CLK_GPU_REF OR push_bit CLK_PARENTS_ID_LEN PARENT_CLK_NODE2, CLK_NA_PARENT],
     ck_nodes = gpu_pp1_nodes\<rparr>),
    (CLK_GEM_TSU, \<lparr>ck_name = ''gem_tsu'', ck_num_nodes = of_nat (length gem_tsu_nodes), ck_control_reg = IOU_SLCR_GEM_CLK_CTRL, ck_status_reg = 0,
     ck_parents = Some [CLK_GEM_TSU_REF, CLK_GEM_TSU_REF, EXT_CLK_MIO26 OR CLK_EXTERNAL_PARENT, EXT_CLK_MIO50_OR_MIO51 OR CLK_EXTERNAL_PARENT,
       CLK_NA_PARENT],
     ck_nodes = gem_tsu_nodes\<rparr>),
    (CLK_CPU_R5_CORE, \<lparr>ck_name = ''cpu_r5_core'', ck_num_nodes = of_nat (length cpu_r5_core_nodes), ck_control_reg = CRL_APB_CPU_R5_CTRL, ck_status_reg = 0,
     ck_parents = Some [CLK_CPU_R5 OR push_bit CLK_PARENTS_ID_LEN PARENT_CLK_NODE2, CLK_DUMMY_PARENT, CLK_NA_PARENT],
     ck_nodes = cpu_r5_core_nodes\<rparr>),
    (CLK_CAN0_MIO, \<lparr>ck_name = ''can0_mio'', ck_num_nodes = of_nat (length can0_mio_nodes), ck_control_reg = IOU_SLCR_CAN_MIO_CTRL, ck_status_reg = 0,
     ck_parents = Some can_mio_parents,
     ck_nodes = can0_mio_nodes\<rparr>),
    (CLK_CAN1_MIO, \<lparr>ck_name = ''can1_mio'', ck_num_nodes = of_nat (length can1_mio_nodes), ck_control_reg = IOU_SLCR_CAN_MIO_CTRL, ck_status_reg = 0,
     ck_parents = Some can_mio_parents,
     ck_nodes = can1_mio_nodes\<rparr>),
    (CLK_CAN0, \<lparr>ck_name = ''can0'', ck_num_nodes = of_nat (length can0_nodes), ck_control_reg = IOU_SLCR_CAN_MIO_CTRL, ck_status_reg = 0,
     ck_parents = Some [CLK_CAN0_REF, CLK_CAN0_MIO, CLK_NA_PARENT],
     ck_nodes = can0_nodes\<rparr>),
    (CLK_CAN1, \<lparr>ck_name = ''can1'', ck_num_nodes = of_nat (length can1_nodes), ck_control_reg = IOU_SLCR_CAN_MIO_CTRL, ck_status_reg = 0,
     ck_parents = Some [CLK_CAN1_REF, CLK_CAN1_MIO, CLK_NA_PARENT],
     ck_nodes = can1_nodes\<rparr>),
    (CLK_LPD_WDT, \<lparr>ck_name = ''lpd_wdt'', ck_num_nodes = of_nat (length wdt_nodes), ck_control_reg = IOU_SLCR_WDT_CLK_SEL, ck_status_reg = 0,
     ck_parents = Some [CLK_LPD_LSBUS, EXT_CLK_SWDT1 OR CLK_EXTERNAL_PARENT, CLK_NA_PARENT],
     ck_nodes = wdt_nodes\<rparr>)]"

definition ext_clocks_init :: "(u32 \<times> string) list" where
  "ext_clocks_init = [
    (EXT_CLK_INDEX EXT_CLK_PSS_REF, ''pss_ref_clk''),
    (EXT_CLK_INDEX EXT_CLK_VIDEO, ''video_clk''),
    (EXT_CLK_INDEX EXT_CLK_PSS_ALT_REF, ''pss_alt_ref_clk''),
    (EXT_CLK_INDEX EXT_CLK_AUX_REF, ''aux_ref_clk''),
    (EXT_CLK_INDEX EXT_CLK_GT_CRX_REF, ''video_clk''),
    (EXT_CLK_INDEX EXT_CLK_SWDT0, ''swdt0_ext_clk''),
    (EXT_CLK_INDEX EXT_CLK_SWDT1, ''swdt1_ext_clk''),
    (EXT_CLK_INDEX EXT_CLK_GEM0_TX_EMIO, ''gem0_tx_ext''),
    (EXT_CLK_INDEX EXT_CLK_GEM1_TX_EMIO, ''gem1_tx_ext''),
    (EXT_CLK_INDEX EXT_CLK_GEM2_TX_EMIO, ''gem2_tx_ext''),
    (EXT_CLK_INDEX EXT_CLK_GEM3_TX_EMIO, ''gem3_tx_ext''),
    (EXT_CLK_INDEX EXT_CLK_GEM0_RX_EMIO, ''gem0_rx_ext''),
    (EXT_CLK_INDEX EXT_CLK_GEM1_RX_EMIO, ''gem1_rx_ext''),
    (EXT_CLK_INDEX EXT_CLK_GEM2_RX_EMIO, ''gem2_rx_ext''),
    (EXT_CLK_INDEX EXT_CLK_GEM3_RX_EMIO, ''gem3_rx_ext''),
    (EXT_CLK_INDEX EXT_CLK_MIO50_OR_MIO51, ''mio_clk_50_51'')] @
    map (\<lambda>(i, n). (EXT_CLK_INDEX i, ''mio_clk_'' @ n)) [
    (EXT_CLK_MIO0, ''0''),
    (EXT_CLK_MIO1, ''1''),
    (EXT_CLK_MIO2, ''2''),
    (EXT_CLK_MIO3, ''3''),
    (EXT_CLK_MIO4, ''4''),
    (EXT_CLK_MIO5, ''5''),
    (EXT_CLK_MIO6, ''6''),
    (EXT_CLK_MIO7, ''7''),
    (EXT_CLK_MIO8, ''8''),
    (EXT_CLK_MIO9, ''9''),
    (EXT_CLK_MIO10, ''10''),
    (EXT_CLK_MIO11, ''11''),
    (EXT_CLK_MIO12, ''12''),
    (EXT_CLK_MIO13, ''13''),
    (EXT_CLK_MIO14, ''14''),
    (EXT_CLK_MIO15, ''15''),
    (EXT_CLK_MIO16, ''16''),
    (EXT_CLK_MIO17, ''17''),
    (EXT_CLK_MIO18, ''18''),
    (EXT_CLK_MIO19, ''19''),
    (EXT_CLK_MIO20, ''20''),
    (EXT_CLK_MIO21, ''21''),
    (EXT_CLK_MIO22, ''22''),
    (EXT_CLK_MIO23, ''23''),
    (EXT_CLK_MIO24, ''24''),
    (EXT_CLK_MIO25, ''25''),
    (EXT_CLK_MIO26, ''26''),
    (EXT_CLK_MIO27, ''27''),
    (EXT_CLK_MIO28, ''28''),
    (EXT_CLK_MIO29, ''29''),
    (EXT_CLK_MIO30, ''30''),
    (EXT_CLK_MIO31, ''31''),
    (EXT_CLK_MIO32, ''32''),
    (EXT_CLK_MIO33, ''33''),
    (EXT_CLK_MIO34, ''34''),
    (EXT_CLK_MIO35, ''35''),
    (EXT_CLK_MIO36, ''36''),
    (EXT_CLK_MIO37, ''37''),
    (EXT_CLK_MIO38, ''38''),
    (EXT_CLK_MIO39, ''39''),
    (EXT_CLK_MIO40, ''40''),
    (EXT_CLK_MIO41, ''41''),
    (EXT_CLK_MIO42, ''42''),
    (EXT_CLK_MIO43, ''43''),
    (EXT_CLK_MIO44, ''44''),
    (EXT_CLK_MIO45, ''45''),
    (EXT_CLK_MIO46, ''46''),
    (EXT_CLK_MIO47, ''47''),
    (EXT_CLK_MIO48, ''48''),
    (EXT_CLK_MIO49, ''49''),
    (EXT_CLK_MIO50, ''50''),
    (EXT_CLK_MIO51, ''51''),
    (EXT_CLK_MIO52, ''52''),
    (EXT_CLK_MIO53, ''53''),
    (EXT_CLK_MIO54, ''54''),
    (EXT_CLK_MIO55, ''55''),
    (EXT_CLK_MIO56, ''56''),
    (EXT_CLK_MIO57, ''57''),
    (EXT_CLK_MIO58, ''58''),
    (EXT_CLK_MIO59, ''59''),
    (EXT_CLK_MIO60, ''60''),
    (EXT_CLK_MIO61, ''61''),
    (EXT_CLK_MIO62, ''62''),
    (EXT_CLK_MIO63, ''63''),
    (EXT_CLK_MIO64, ''64''),
    (EXT_CLK_MIO65, ''65''),
    (EXT_CLK_MIO66, ''66''),
    (EXT_CLK_MIO67, ''67''),
    (EXT_CLK_MIO68, ''68''),
    (EXT_CLK_MIO69, ''69''),
    (EXT_CLK_MIO70, ''70''),
    (EXT_CLK_MIO71, ''71''),
    (EXT_CLK_MIO72, ''72''),
    (EXT_CLK_MIO73, ''73''),
    (EXT_CLK_MIO74, ''74''),
    (EXT_CLK_MIO75, ''75''),
    (EXT_CLK_MIO76, ''76''),
    (EXT_CLK_MIO77, ''77'')]"

definition pm_clk_invalid_list :: "u32 list" where
  "pm_clk_invalid_list = [CLK_USB0, CLK_USB1, CLK_CSU_SPB, CLK_ACPU_FULL, CLK_ACPU_HALF, CLK_APLL_TO_LPD, CLK_DBG_FPD, CLK_DBG_LPD,
    CLK_DBG_TRACE, CLK_DBG_TSTMP, CLK_DDR_REF, CLK_TOPSW_MAIN, CLK_GTGREF0_REF, CLK_LPD_SWITCH, CLK_CPU_R5,
    CLK_CPU_R5_CORE, CLK_CSU_SPB, CLK_CSU_PLL, CLK_PCAP, CLK_IOU_SWITCH, CLK_DLL_REF, CLK_TIMESTAMP_REF]"

definition pm_plls_init :: "pm_pll list" where
  "pm_plls_init = [
    \<lparr>pll_nid = NODE_IOPLL, pll_cid = CLK_IOPLL_INT, pll_pre_src = CLK_IOPLL_PRE_SRC, pll_post_src = CLK_IOPLL_POST_SRC,
     pll_div2 = CLK_IOPLL_INT_MUX, pll_bypass = CLK_IOPLL, pll_mode = 0\<rparr>,
    \<lparr>pll_nid = NODE_RPLL, pll_cid = CLK_RPLL_INT, pll_pre_src = CLK_RPLL_PRE_SRC, pll_post_src = CLK_RPLL_POST_SRC,
     pll_div2 = CLK_RPLL_INT_MUX, pll_bypass = CLK_RPLL, pll_mode = 0\<rparr>,
    \<lparr>pll_nid = NODE_APLL, pll_cid = CLK_APLL_INT, pll_pre_src = CLK_APLL_PRE_SRC, pll_post_src = CLK_APLL_POST_SRC,
     pll_div2 = CLK_APLL_INT_MUX, pll_bypass = CLK_APLL, pll_mode = 0\<rparr>,
    \<lparr>pll_nid = NODE_VPLL, pll_cid = CLK_VPLL_INT, pll_pre_src = CLK_VPLL_PRE_SRC, pll_post_src = CLK_VPLL_POST_SRC,
     pll_div2 = CLK_VPLL_INT_MUX, pll_bypass = CLK_VPLL, pll_mode = 0\<rparr>,
    \<lparr>pll_nid = NODE_DPLL, pll_cid = CLK_DPLL_INT, pll_pre_src = CLK_DPLL_PRE_SRC, pll_post_src = CLK_DPLL_POST_SRC,
     pll_div2 = CLK_DPLL_INT_MUX, pll_bypass = CLK_DPLL, pll_mode = 0\<rparr>]"

definition clocks_init :: "(u32 \<times> pm_clock) list" where
  "clocks_init = clocks_1 @ clocks_2 @ clocks_3 @ clocks_4 @ clocks_5 @ clocks_6 @ clocks_7 @ clocks_8 @ clocks_9 @ clocks_10"

lemmas clocks_defs = clocks_1_def clocks_2_def clocks_3_def clocks_4_def clocks_5_def clocks_6_def clocks_7_def clocks_8_def clocks_9_def clocks_10_def

lemmas node_defs = GENERIC_MUX_def GENERIC_DIV1_def GENERIC_DIV2_def GENERIC_GATE_def IGNORE_UNUSED_GATE_def
  generic_pll_nodes_def ignore_unused_pll_nodes_def generic_pll_pre_src_nodes_def generic_pll_half_nodes_def
  generic_pll_int_nodes_def generic_pll_post_src_nodes_def generic_pll_system_nodes_def acpu_nodes_def
  generic_mux_div_nodes_def generic_mux_div_gate_nodes_def generic_mux_div_unused_gate_nodes_def
  generic_mux_div_div_gate_nodes_def dp_audio_video_ref_nodes_def usb_nodes_def
  generic_domain_crossing_nodes_def rpll_to_fpd_nodes_def acpu_half_nodes_def acpu_full_nodes_def wdt_nodes_def
  ddr_nodes_def pl_nodes_def gpu_pp0_nodes_def gpu_pp1_nodes_def gem_ref_ungated_nodes_def gem0_ref_nodes_def
  gem1_ref_nodes_def gem2_ref_nodes_def gem3_ref_nodes_def gem_tx_nodes_def gem_rx_nodes_def gem_tsu_nodes_def
  can0_mio_nodes_def can1_mio_nodes_def can0_nodes_def can1_nodes_def cpu_r5_core_nodes_def dll_ref_nodes_def
  timestamp_ref_nodes_def

end
