(* ===== verification/WDT_Restart.thy ===== *)
theory WDT_Restart
  imports PM_Sys
begin

text \<open>
  The warm restart of the application cores after a watchdog event (the \<open>ZYNQMP_WDT_RESTART\<close> part of
  \<open>plat/xilinx/zynqmp/pm_service/pm_svc_main.c\<close>).  The power management firmware starts timer TTC3 when
  the full power domain watchdog expires; the EL3 handler of its interrupt counts the active cores and
  sends each of them the secure software interrupt 7, whose handler counts the cores down; the core
  that finds none left asks for the restart.  The static variables of the file extend the state.

  The handlers of the cores run concurrently.  The functional definitions are the code as one core
  executes it; the step relation below interleaves the parts of the handler on all the cores, with
  what is under the spin lock as one step.
\<close>

section \<open>State and constants\<close>

abbreviation (input) IRQ_TTC3_1 :: u32 where "IRQ_TTC3_1 \<equiv> 77"
abbreviation (input) ARM_IRQ_SEC_SGI_7 :: u32 where "ARM_IRQ_SEC_SGI_7 \<equiv> 15"
abbreviation (input) TTC3_INTR_REGISTER_1 :: addr where "TTC3_INTR_REGISTER_1 \<equiv> 0xFF140054"
abbreviation (input) TTC3_INTR_ENABLE_1 :: addr where "TTC3_INTR_ENABLE_1 \<equiv> 0xFF140060"
abbreviation (input) PMU_GLOBAL_GEN_STORAGE4 :: u32 where "PMU_GLOBAL_GEN_STORAGE4 \<equiv> 0xFFD80040"
abbreviation (input) RESTART_SCOPE_SHIFT :: nat where "RESTART_SCOPE_SHIFT \<equiv> 3"
abbreviation (input) RESTART_SCOPE_MASK :: u32 where "RESTART_SCOPE_MASK \<equiv> 0x18"

record svc_mach = pms_mach +
  pm_up :: int
  ipi_irq_flag :: int
  inc_lock :: bool
  active_cores :: int
  api_version :: u32

lemma svc_fields [bus_simps]:
  "pm_up (mmio_write_32 a v s) = pm_up s" "ipi_irq_flag (mmio_write_32 a v s) = ipi_irq_flag s"
  "inc_lock (mmio_write_32 a v s) = inc_lock s" "active_cores (mmio_write_32 a v s) = active_cores s"
  "api_version (mmio_write_32 a v s) = api_version s"
  "pm_up (snd (mmio_read_32 a s)) = pm_up s" "ipi_irq_flag (snd (mmio_read_32 a s)) = ipi_irq_flag s"
  "inc_lock (snd (mmio_read_32 a s)) = inc_lock s" "active_cores (snd (mmio_read_32 a s)) = active_cores s"
  "api_version (snd (mmio_read_32 a s)) = api_version s"
  by (simp_all add: mmio_read_32_def mmio_write_32_def Let_def)

declare svc_fields [simp]

definition inc_lock_get :: "'a svc_mach_scheme \<Rightarrow> 'a svc_mach_scheme option" where
  "inc_lock_get s = (if inc_lock s then None else Some (s\<lparr>inc_lock := True\<rparr>))"

definition inc_lock_release :: "'a svc_mach_scheme \<Rightarrow> 'a svc_mach_scheme" where
  "inc_lock_release s = s\<lparr>inc_lock := False\<rparr>"

section \<open>The code\<close>

text \<open>
  \<open>trigger_wdt_restart\<close>: the loop over the power states of the cores, with the count and the target
  list as accumulators, and the loop that raises the software interrupts, from core 3 down to 0.
\<close>

fun count_active :: "nat list \<Rightarrow> u32 \<Rightarrow> u32 \<Rightarrow> 'a pm_mach_scheme \<Rightarrow> ((u32 \<times> u32) \<times> 'a pm_mach_scheme) option" where
  "count_active [] core_count target_cpu_list s = Some ((core_count, target_cpu_list), s)"
| "count_active (i # is) core_count target_cpu_list s = do {
     ((_, core_status), s) \<leftarrow> pm_get_node_status (NODE_APU_0 + of_nat i) s;
     if core_status ! 0 = 1
     then count_active is (core_count + 1) (target_cpu_list OR push_bit i 1) s
     else count_active is core_count target_cpu_list s
   }"

fun raise_sgis :: "nat list \<Rightarrow> u32 \<Rightarrow> 'a gic_mach_scheme \<Rightarrow> 'a gic_mach_scheme option" where
  "raise_sgis [] target_cpu_list s = Some s"
| "raise_sgis (i # is) target_cpu_list s = do {
     s \<leftarrow> (if target_cpu_list AND push_bit i 1 \<noteq> 0
           then plat_ic_raise_el3_sgi ARM_IRQ_SEC_SGI_7 (of_nat i) s else Some s);
     raise_sgis is target_cpu_list s
   }"

definition trigger_wdt_restart :: "'a svc_mach_scheme \<Rightarrow> 'a svc_mach_scheme option" where
  "trigger_wdt_restart s = do {
     ((core_count, target_cpu_list), s) \<leftarrow> count_active [0..<4] 0 0 s;
     s \<leftarrow> inc_lock_get s;
     let s = s\<lparr>active_cores := sint core_count\<rparr>;
     let s = inc_lock_release s;
     raise_sgis (rev [0..<PLATFORM_CORE_COUNT]) target_cpu_list s
   }"

definition ttc_fiq_handler :: "u32 \<Rightarrow> 'a svc_mach_scheme \<Rightarrow> 'a svc_mach_scheme option" where
  "ttc_fiq_handler iid s = do {
     s \<leftarrow> plat_ic_end_of_interrupt iid s;
     let (_, s) = mmio_read_32 TTC3_INTR_REGISTER_1 s;
     let s = mmio_write_32 TTC3_INTR_ENABLE_1 0 s;
     trigger_wdt_restart s
   }"

text \<open>
  \<open>zynqmp_sgi7_irq\<close> in the three parts that other cores can come between: the critical section, the
  read of the restart scope from the PMU, and the restart request.  The handler never returns: its
  last state is the one in which the core enters \<open>wfi\<close> for good.
\<close>

definition sgi7_enter :: "'a svc_mach_scheme \<Rightarrow> 'a svc_mach_scheme option" where
  "sgi7_enter s = do {
     s \<leftarrow> inc_lock_get s;
     let s = s\<lparr>active_cores := active_cores s - 1\<rparr>;
     let s = fold (\<lambda>i. mmio_write_32 (BASE_GICD_BASE + GICD_CPENDSGIR + of_nat (4 * i)) 0xffffffff) [0..<4] s;
     Some (inc_lock_release s)
   }"

definition sgi7_scope :: "'a svc_mach_scheme \<Rightarrow> (u32 \<times> 'a svc_mach_scheme) option" where
  "sgi7_scope s = do {
     ((_, vs), s) \<leftarrow> pm_mmio_read PMU_GLOBAL_GEN_STORAGE4 s;
     Some (drop_bit RESTART_SCOPE_SHIFT (vs ! 0 AND RESTART_SCOPE_MASK), s)
   }"

definition sgi7_restart :: "u32 \<Rightarrow> 'a svc_mach_scheme \<Rightarrow> 'a svc_mach_scheme option" where
  "sgi7_restart value s = do {
     (_, s) \<leftarrow> pm_system_shutdown PMF_SHUTDOWN_TYPE_RESET value s;
     Some s
   }"

definition zynqmp_sgi7_irq :: "'a svc_mach_scheme \<Rightarrow> 'a svc_mach_scheme option" where
  "zynqmp_sgi7_irq s = do {
     s \<leftarrow> sgi7_enter s;
     if active_cores s = 0
     then do {
       (value, s) \<leftarrow> sgi7_scope s;
       sgi7_restart value s
     }
     else Some s
   }"

definition pm_wdt_restart_setup :: "'a svc_mach_scheme \<Rightarrow> int \<times> 'a svc_mach_scheme" where
  "pm_wdt_restart_setup s =
     (let (ret, s) = request_intr_type_el3 ARM_IRQ_SEC_SGI_7 (Some Zynqmp_sgi7_irq) s
      in if ret \<noteq> 0 then (ret, s)
         else request_intr_type_el3 IRQ_TTC3_1 (Some Ttc_fiq_handler) s)"

section \<open>The cores together\<close>

text \<open>
  Where a core is in the handler: interrupted but not yet in, past the critical section, chosen to
  restart the system, with the scope at hand, or halted in \<open>wfi\<close> (\<open>Halted True\<close> after it asked for
  the restart).  A core that was not interrupted has no position.
\<close>

datatype sgi_pc = Pending | Cleared | Chosen | Scoped u32 | Halted bool

type_synonym 'a wdt_conf = "(nat \<rightharpoonup> sgi_pc) \<times> 'a svc_mach_scheme"

inductive wdt_step :: "'a wdt_conf \<Rightarrow> 'a wdt_conf \<Rightarrow> bool" where
  enter: "pc c = Some Pending \<Longrightarrow> sgi7_enter s = Some s' \<Longrightarrow> wdt_step (pc, s) (pc(c \<mapsto> Cleared), s')"
| last: "pc c = Some Cleared \<Longrightarrow> active_cores s = 0 \<Longrightarrow> wdt_step (pc, s) (pc(c \<mapsto> Chosen), s)"
| other: "pc c = Some Cleared \<Longrightarrow> active_cores s \<noteq> 0 \<Longrightarrow> wdt_step (pc, s) (pc(c \<mapsto> Halted False), s)"
| scope: "pc c = Some Chosen \<Longrightarrow> sgi7_scope s = Some (v, s') \<Longrightarrow> wdt_step (pc, s) (pc(c \<mapsto> Scoped v), s')"
| restart: "pc c = Some (Scoped v) \<Longrightarrow> sgi7_restart v s = Some s' \<Longrightarrow> wdt_step (pc, s) (pc(c \<mapsto> Halted True), s')"

inductive_cases wdt_stepE: "wdt_step (pc, s) conf'"

abbreviation wdt_steps :: "'a wdt_conf \<Rightarrow> 'a wdt_conf \<Rightarrow> bool" where
  "wdt_steps \<equiv> wdt_step\<^sup>*\<^sup>*"

text \<open>One core that is never interrupted runs the handler as it is written.\<close>

lemma sgi7_as_steps:
  assumes "zynqmp_sgi7_irq s = Some s'" and "pc c = Some Pending"
  shows "\<exists>b. wdt_steps (pc, s) (pc(c \<mapsto> Halted b), s')"
proof -
  from assms(1) obtain t where t: "sgi7_enter s = Some t"
    by (auto simp: zynqmp_sgi7_irq_def split: bind_splits)
  have 1: "wdt_step (pc, s) (pc(c \<mapsto> Cleared), t)" using assms(2) t by (rule wdt_step.enter)
  show ?thesis
  proof (cases "active_cores t = 0")
    case False
    then have "wdt_step (pc(c \<mapsto> Cleared), t) (pc(c \<mapsto> Cleared, c \<mapsto> Halted False), t)"
      by (intro wdt_step.other) simp_all
    moreover have "s' = t" using assms(1) t False by (simp add: zynqmp_sgi7_irq_def)
    ultimately show ?thesis using 1 by (metis converse_rtranclp_into_rtranclp fun_upd_upd rtranclp.rtrancl_refl)
  next
    case True
    then obtain v u where u: "sgi7_scope t = Some (v, u)" "sgi7_restart v u = Some s'"
      using assms(1) t by (auto simp: zynqmp_sgi7_irq_def split: bind_splits)
    have "wdt_step (pc(c \<mapsto> Cleared), t) (pc(c \<mapsto> Cleared, c \<mapsto> Chosen), t)"
      using True by (intro wdt_step.last) simp_all
    moreover have "wdt_step (pc(c \<mapsto> Chosen), t) (pc(c \<mapsto> Chosen, c \<mapsto> Scoped v), u)"
      using u(1) by (intro wdt_step.scope) simp_all
    moreover have "wdt_step (pc(c \<mapsto> Scoped v), u) (pc(c \<mapsto> Scoped v, c \<mapsto> Halted True), s')"
      using u(2) by (intro wdt_step.restart) simp_all
    ultimately show ?thesis using 1 unfolding fun_upd_upd by (meson converse_rtranclp_into_rtranclp rtranclp.rtrancl_refl)
  qed
qed

section \<open>What the parts do\<close>

text \<open>Requests to restart on the bus: the first word of a shutdown request.\<close>

definition restart_ev :: ioev where
  "restart_ev = WR 0xFF9905C0 PM_SYSTEM_SHUTDOWN"

definition restarts :: "ioev list \<Rightarrow> nat" where
  "restarts es = length (filter (\<lambda>e. e = restart_ev) es)"

lemma restarts_append [simp]: "restarts [] = 0" "restarts (es @ fs) = restarts es + restarts fs"
  by (simp_all add: restarts_def)

text \<open>
  \<open>all_resets\<close>: decoded from the words in the channel's buffer at each trigger, the shutdown requests of a trace are as
  many as these first words, and each has the type reset.
\<close>

definition all_resets :: "ioev list \<Rightarrow> bool" where
  "all_resets es \<longleftrightarrow> (\<forall>buf. map (take 2) (filter (\<lambda>ws. ws ! 0 = PM_SYSTEM_SHUTDOWN) (pm_reqs buf es)) =
     replicate (restarts es) [PM_SYSTEM_SHUTDOWN, PMF_SHUTDOWN_TYPE_RESET])"

lemma all_resets_append: "all_resets []" "all_resets es \<Longrightarrow> all_resets fs \<Longrightarrow> all_resets (es @ fs)"
  by (simp_all add: all_resets_def pm_reqs_append replicate_add)

text \<open>What the restart relies on, and what it keeps.\<close>

definition wdt_ok :: "'a svc_mach_scheme \<Rightarrow> bool" where
  "wdt_ok s \<longleftrightarrow> pm_ok False s \<and> \<not> inc_lock s"

lemma svc_more:
  "mach.more s' = mach.more s \<Longrightarrow> active_cores s' = active_cores s"
  "mach.more s' = mach.more s \<Longrightarrow> inc_lock s' = inc_lock s"
  by (cases s, cases s', simp)+

lemma pm_ok_svc [simp]:
  "pm_ok b (s\<lparr>inc_lock := l\<rparr>) = pm_ok b s" "pm_ok b (s\<lparr>active_cores := n\<rparr>) = pm_ok b s"
  by (simp_all add: pm_ok_def pm_idle_def pmu_live_def plat_my_core_pos_def)

lemma upt_0_4: "[0..<4] = [0, 1, 2, 3 :: nat]"
  by code_simp

lemma sgi7_enter_ok:
  assumes "wdt_ok s"
  obtains s' es where "sgi7_enter s = Some s'" "wdt_ok s'" "active_cores s' = active_cores s - 1"
    "m_evs s' = m_evs s @ es" "restarts es = 0" "all_resets es"
proof -
  define s1 where "s1 = s\<lparr>inc_lock := True, active_cores := active_cores s - 1\<rparr>"
  define s2 where "s2 = fold (\<lambda>i. mmio_write_32 (BASE_GICD_BASE + GICD_CPENDSGIR + of_nat (4 * i)) 0xffffffff) [0..<4] s1"
  have s2: "pm_ok False s2" "active_cores s2 = active_cores s - 1"
    using assms by (simp_all add: s2_def s1_def upt_0_4 wdt_ok_def)
  obtain es where es: "m_evs s2 = m_evs s @ es" "restarts es = 0" "all_resets es"
    by (simp add: s2_def s1_def upt_0_4 restarts_def restart_ev_def all_resets_def)
  have "sgi7_enter s = Some (inc_lock_release s2)"
    using assms by (simp add: sgi7_enter_def inc_lock_get_def wdt_ok_def s2_def s1_def Let_def)
  then show ?thesis using s2 es by (intro that [of "inc_lock_release s2" es]) (simp_all add: inc_lock_release_def wdt_ok_def)
qed

lemma restarts_apu_trace: "restarts (apu_trace p ps vs v0) = (if p 0 = PM_SYSTEM_SHUTDOWN then 1 else 0)"
proof -
  have "filter (\<lambda>e. e = restart_ev) (map (RD a) xs) = []" for a xs
    by (auto simp: restart_ev_def filter_empty_conv)
  moreover have "filter (\<lambda>e. e = restart_ev) (map2 (\<lambda>i. RD (f i)) xs ys) = []" for f and xs :: "nat list" and ys
    by (auto simp: restart_ev_def filter_empty_conv)
  ultimately show ?thesis
    by (simp add: restarts_def apu_trace_def upt_0_6) (simp add: restart_ev_def)
qed

lemma sgi7_scope_ok:
  assumes "wdt_ok s"
  obtains v s' es where "sgi7_scope s = Some (v, s')" "wdt_ok s'" "active_cores s' = active_cores s"
    "m_evs s' = m_evs s @ es" "restarts es = 0" "all_resets es"
proof -
  have ok: "pm_ok False s" and idle: "pm_idle s" using assms by (simp_all add: wdt_ok_def pm_ok_def)
  define p where "p = pm_pack [PM_MMIO_READ, PMU_GLOBAL_GEN_STORAGE4] s"
  from pml.runsD [OF pml.runs_send ok, of "\<lambda>_. p" 1] obtain st vs s' where
    r: "pm_ipi_send_sync primary_proc p 1 s = Some ((st, vs), s')" "pm_ok False s'" by auto
  from send_sync_apu [OF idle r(1)] obtain ps v0 where
    a: "m_evs s' = m_evs s @ apu_trace p ps vs v0" "mach.more s' = mach.more s" by metis
  have "p 0 = PM_MMIO_READ" by (simp add: p_def pm_pack_def)
  then have "restarts (apu_trace p ps vs v0) = 0" "all_resets (apu_trace p ps vs v0)"
    by (simp_all add: restarts_apu_trace all_resets_def pm_reqs_apu)
  moreover have "sgi7_scope s = Some (drop_bit RESTART_SCOPE_SHIFT (vs ! 0 AND RESTART_SCOPE_MASK), s')"
    using r(1) by (simp add: sgi7_scope_def pm_mmio_read_def pm_req_def p_def)
  moreover have "wdt_ok s'" "active_cores s' = active_cores s"
    using assms r(2) svc_more [OF a(2)] by (simp_all add: wdt_ok_def)
  ultimately show ?thesis using that a(1) by blast
qed

lemma sgi7_restart_ok:
  assumes "wdt_ok s"
  obtains s' es where "sgi7_restart v s = Some s'" "wdt_ok s'" "active_cores s' = active_cores s"
    "m_evs s' = m_evs s @ es" "restarts es = 1" "all_resets es"
proof -
  have ok: "pm_ok False s" and idle: "pm_idle s" using assms by (simp_all add: wdt_ok_def pm_ok_def)
  define p where "p = pm_pack [PM_SYSTEM_SHUTDOWN, PMF_SHUTDOWN_TYPE_RESET, v] s"
  define t where "t = mmio_write_32 0xFF300000 0x10000 (write_words (req_words primary_proc p) (s\<lparr>pm_secure_lock := True\<rparr>))"
  have r: "pm_ipi_send_non_blocking primary_proc p s = Some (PM_RET_SUCCESS, pm_lock_release t)"
    unfolding t_def by (rule send_non_blocking_eq [OF idle])
  have more: "mach.more (pm_lock_release t) = mach.more s"
    using idle by (intro unlock_more) (simp_all add: t_def pm_idle_def)
  let ?es = "map (\<lambda>(a, v). WR a v) (req_words primary_proc p) @ [WR 0xFF300000 0x10000]"
  have "p 0 = PM_SYSTEM_SHUTDOWN" "p 1 = PMF_SHUTDOWN_TYPE_RESET" by (simp_all add: p_def pm_pack_def)
  then have one: "restarts ?es = 1"
    by (simp add: req_words_def apu_ipi_def upt_0_6 restarts_def) (simp add: restart_ev_def)
  have "pm_reqs buf ?es = [map p [0..<6]]" for buf by (simp add: req_words_def apu_ipi_def upt_0_6)
  then have "all_resets ?es"
    using \<open>p 0 = _\<close> \<open>p 1 = _\<close> unfolding all_resets_def one by (simp add: upt_0_6)
  note one this
  moreover have "m_evs (pm_lock_release t) = m_evs s @ map (\<lambda>(a, v). WR a v) (req_words primary_proc p) @ [WR 0xFF300000 0x10000]"
    by (simp add: t_def)
  moreover have "sgi7_restart v s = Some (pm_lock_release t)"
    using r by (simp add: sgi7_restart_def pm_system_shutdown_def pm_ret_def p_def)
  moreover have "pm_ok False (pm_lock_release t)"
    by (rule pm_ok_unlock [OF ok]) (simp_all add: t_def)
  then have "wdt_ok (pm_lock_release t)" "active_cores (pm_lock_release t) = active_cores s"
    using assms svc_more [OF more] by (simp_all add: wdt_ok_def)
  ultimately show ?thesis using that by blast
qed

section \<open>The invariant of the restart\<close>

definition pend :: "(nat \<rightharpoonup> sgi_pc) \<Rightarrow> nat set" where
  "pend pc = {c. pc c = Some Pending}"

definition asked :: "(nat \<rightharpoonup> sgi_pc) \<Rightarrow> nat set" where
  "asked pc = {c. pc c = Some (Halted True)}"

definition late :: "sgi_pc \<Rightarrow> bool" where
  "late x \<longleftrightarrow> (case x of Chosen \<Rightarrow> True | Scoped _ \<Rightarrow> True | Halted b \<Rightarrow> b | _ \<Rightarrow> False)"

text \<open>
  The counter is the number of cores still to come; a core decides to restart only when there is none;
  and when there is none, some core has decided or is about to look.
\<close>

definition wdt_inv :: "nat set \<Rightarrow> ioev list \<Rightarrow> 'a wdt_conf \<Rightarrow> bool" where
  "wdt_inv T ev0 conf \<longleftrightarrow> (let (pc, s) = conf in
     finite T \<and> T \<noteq> {} \<and> dom pc = T \<and> wdt_ok s \<and> active_cores s = int (card (pend pc)) \<and>
     (\<exists>es. m_evs s = ev0 @ es \<and> restarts es = card (asked pc) \<and> all_resets es) \<and>
     ((\<exists>c x. pc c = Some x \<and> late x) \<longrightarrow> pend pc = {}) \<and>
     (pend pc = {} \<longrightarrow> (\<exists>c x. pc c = Some x \<and> (late x \<or> x = Cleared))))"

lemma late_simps [simp]:
  "\<not> late Pending" "\<not> late Cleared" "late Chosen" "late (Scoped v)" "late (Halted b) = b"
  by (simp_all add: late_def)

lemma finite_pend [simp]: "finite (dom pc) \<Longrightarrow> finite (pend pc)" "finite (dom pc) \<Longrightarrow> finite (asked pc)"
  by (auto simp: pend_def asked_def elim!: finite_subset [rotated])

lemma pend_upd:
  "x \<noteq> Pending \<Longrightarrow> pend (pc(c \<mapsto> x)) = pend pc - {c}"
  "x \<noteq> Halted True \<Longrightarrow> asked (pc(c \<mapsto> x)) = asked pc - {c}"
  "asked (pc(c \<mapsto> Halted True)) = insert c (asked pc)"
  by (auto simp: pend_def asked_def)

lemma wdt_inv_upd:
  assumes inv: "wdt_inv T ev0 (pc, s)" and c: "pc c = Some y" and ok: "wdt_ok s'"
    and cnt: "active_cores s' = int (card (pend (pc(c \<mapsto> x))))"
    and evs: "m_evs s' = m_evs s @ fs" "restarts fs + card (asked pc) = card (asked (pc(c \<mapsto> x)))" "all_resets fs"
    and dec: "late x \<or> pend (pc(c \<mapsto> x)) \<noteq> pend pc \<Longrightarrow> \<exists>d z. (pc(c \<mapsto> x)) d = Some z \<and> late z \<Longrightarrow> pend (pc(c \<mapsto> x)) = {}"
    and look: "pend (pc(c \<mapsto> x)) = {} \<Longrightarrow> late x \<or> x = Cleared"
  shows "wdt_inv T ev0 (pc(c \<mapsto> x), s')"
proof -
  from inv obtain es where es: "m_evs s = ev0 @ es" "restarts es = card (asked pc)" "all_resets es" by (auto simp: wdt_inv_def)
  have "dom (pc(c \<mapsto> x)) = T" using inv c by (auto simp: wdt_inv_def)
  moreover have "\<exists>es. m_evs s' = ev0 @ es \<and> restarts es = card (asked (pc(c \<mapsto> x))) \<and> all_resets es"
    using es evs by (intro exI [of _ "es @ fs"]) (simp add: all_resets_append)
  moreover have "pend (pc(c \<mapsto> x)) = {}" if "\<exists>d z. (pc(c \<mapsto> x)) d = Some z \<and> late z"
  proof (cases "late x \<or> pend (pc(c \<mapsto> x)) \<noteq> pend pc")
    case True
    then show ?thesis using dec that by blast
  next
    case False
    then have "\<exists>d z. pc d = Some z \<and> late z" using that by (metis fun_upd_apply option.inject)
    then show ?thesis using False inv by (simp add: wdt_inv_def)
  qed
  moreover have "\<exists>d z. (pc(c \<mapsto> x)) d = Some z \<and> (late z \<or> z = Cleared)" if "pend (pc(c \<mapsto> x)) = {}"
    using look [OF that] by (intro exI [of _ c]) simp
  ultimately show ?thesis using inv ok cnt by (simp add: wdt_inv_def)
qed

lemma wdt_inv_step:
  assumes inv: "wdt_inv T ev0 (pc, s)" and step: "wdt_step (pc, s) (pc', s')"
  shows "wdt_inv T ev0 (pc', s')"
proof -
  from inv have fin: "finite (dom pc)" and ok: "wdt_ok s" and cnt: "active_cores s = int (card (pend pc))"
    and dec: "\<And>d z. pc d = Some z \<Longrightarrow> late z \<Longrightarrow> pend pc = {}"
    by (auto simp: wdt_inv_def)
  from step show ?thesis
  proof (cases rule: wdt_step.cases)
    case (enter c)
    obtain t fs where r: "sgi7_enter s = Some t" "wdt_ok t" "active_cores t = active_cores s - 1"
      "m_evs t = m_evs s @ fs" "restarts fs = 0" "all_resets fs" by (rule sgi7_enter_ok [OF ok])
    have c: "c \<in> pend pc" "c \<notin> asked pc" using enter by (simp_all add: pend_def asked_def)
    have "\<not> late z" if "pc d = Some z" for d z using dec that c by blast
    then have nl: "\<not> (\<exists>d z. (pc(c \<mapsto> Cleared)) d = Some z \<and> late z)" by (auto split: if_splits)
    have n: "int (card (pend pc)) - 1 = int (card (pend pc - {c}))"
      using card_Suc_Diff1 [OF finite_pend(1) [OF fin] c(1)] by simp
    have eq: "s' = t" using enter(3) r(1) by simp
    have "wdt_inv T ev0 (pc(c \<mapsto> Cleared), t)"
    proof (rule wdt_inv_upd [OF inv enter(2) r(2) _ r(4) _ r(6)])
      show "active_cores t = int (card (pend (pc(c \<mapsto> Cleared))))" using r(3) cnt n by (simp add: pend_upd)
      show "restarts fs + card (asked pc) = card (asked (pc(c \<mapsto> Cleared)))" using r(5) c(2) by (simp add: pend_upd)
    qed (use nl in auto)
    then show ?thesis using enter(1) eq by simp
  next
    case (last c)
    then have "pend pc = {}" "c \<notin> asked pc" using cnt fin by (auto simp: asked_def)
    then show ?thesis using last cnt ok unfolding last(1)
      by (intro wdt_inv_upd [OF inv last(3), where fs = "[]"]) (simp_all add: pend_upd all_resets_append)
  next
    case (other c)
    then have "pend pc \<noteq> {}" using cnt by auto
    moreover have "c \<notin> pend pc" "c \<notin> asked pc" using other by (simp_all add: asked_def pend_def)
    ultimately show ?thesis using other cnt ok unfolding other(1)
      by (intro wdt_inv_upd [OF inv other(3), where fs = "[]"]) (simp_all add: pend_upd all_resets_append)
  next
    case (scope c v)
    obtain w t fs where r: "sgi7_scope s = Some (w, t)" "wdt_ok t" "active_cores t = active_cores s"
      "m_evs t = m_evs s @ fs" "restarts fs = 0" "all_resets fs" by (rule sgi7_scope_ok [OF ok])
    have "pend pc = {}" "c \<notin> asked pc" using scope(2) dec by (auto simp: asked_def)
    then show ?thesis using scope r cnt unfolding scope(1)
      by (intro wdt_inv_upd [OF inv scope(2), where fs = fs]) (simp_all add: pend_upd)
  next
    case (restart c v)
    obtain t fs where r: "sgi7_restart v s = Some t" "wdt_ok t" "active_cores t = active_cores s"
      "m_evs t = m_evs s @ fs" "restarts fs = 1" "all_resets fs" by (rule sgi7_restart_ok [OF ok])
    have "pend pc = {}" "c \<notin> asked pc" using restart(2) dec by (auto simp: asked_def)
    then show ?thesis using restart r cnt fin unfolding restart(1)
      by (intro wdt_inv_upd [OF inv restart(2), where fs = fs]) (simp_all add: pend_upd)
  qed
qed

lemma wdt_inv_steps: "wdt_steps conf conf' \<Longrightarrow> wdt_inv T ev0 conf \<Longrightarrow> wdt_inv T ev0 conf'"
  by (induction rule: rtranclp_induct) (metis wdt_inv_step prod.collapse)+

text \<open>The start: every core of \<open>T\<close> interrupted, the counter set to their number.\<close>

definition wdt_start :: "nat set \<Rightarrow> 'a svc_mach_scheme \<Rightarrow> 'a wdt_conf \<Rightarrow> bool" where
  "wdt_start T s conf \<longleftrightarrow> finite T \<and> T \<noteq> {} \<and> wdt_ok s \<and> active_cores s = int (card T) \<and>
     conf = ((\<lambda>c. if c \<in> T then Some Pending else None), s)"

lemma wdt_start_inv: "wdt_start T s conf \<Longrightarrow> wdt_inv T (m_evs s) conf"
proof -
  assume st: "wdt_start T s conf"
  let ?pc = "\<lambda>c. if c \<in> T then Some Pending else None"
  have "pend ?pc = T" "asked ?pc = {}" "dom ?pc = T" by (auto simp: pend_def asked_def split: if_splits)
  with st show ?thesis by (auto simp: wdt_start_def wdt_inv_def all_resets_append split: if_splits)
qed

text \<open>Every step brings the end nearer, and there is one until all cores are halted.\<close>

definition work :: "sgi_pc \<Rightarrow> nat" where
  "work x = (case x of Pending \<Rightarrow> 4 | Cleared \<Rightarrow> 3 | Chosen \<Rightarrow> 2 | Scoped _ \<Rightarrow> 1 | Halted _ \<Rightarrow> 0)"

definition work_left :: "(nat \<rightharpoonup> sgi_pc) \<Rightarrow> nat" where
  "work_left pc = (\<Sum>c \<in> dom pc. work (the (pc c)))"

lemma work_upd:
  assumes "finite (dom pc)" and "pc c = Some x" and "work y < work x"
  shows "work_left (pc(c \<mapsto> y)) < work_left pc"
proof -
  have "dom (pc(c \<mapsto> y)) = dom pc" using assms(2) by auto
  then show ?thesis unfolding work_left_def
    using assms by (auto intro!: sum_strict_mono_ex1 bexI [of _ c])
qed

lemma wdt_step_work:
  assumes "wdt_step (pc, s) (pc', s')" and "finite (dom pc)"
  shows "work_left pc' < work_left pc"
  using assms(1) by (cases rule: wdt_step.cases) (auto intro!: work_upd [OF assms(2)] simp: work_def)

lemma wdt_progress:
  assumes "wdt_ok s" and "pc c = Some x" and "\<forall>b. x \<noteq> Halted b"
  shows "\<exists>conf'. wdt_step (pc, s) conf'"
proof (cases x)
  case Pending
  with assms show ?thesis by (metis sgi7_enter_ok wdt_step.enter)
next
  case Cleared
  with assms show ?thesis by (metis wdt_step.last wdt_step.other)
next
  case Chosen
  with assms show ?thesis by (metis sgi7_scope_ok wdt_step.scope)
next
  case (Scoped v)
  with assms show ?thesis by (metis sgi7_restart_ok wdt_step.restart)
qed (use assms in auto)

lemma wdt_run_work:
  assumes start: "wdt_start T s0 conf0" and run: "(wdt_step ^^ n) conf0 (pc, s)"
  shows "n + work_left pc \<le> 4 * card T"
  using run
proof (induction n arbitrary: pc s)
  case 0
  have "dom (\<lambda>c. if c \<in> T then Some Pending else None) = T" by (auto split: if_splits)
  with 0 start show ?case by (auto simp: wdt_start_def work_left_def work_def)
next
  case (Suc n)
  then obtain pc1 s1 where r: "(wdt_step ^^ n) conf0 (pc1, s1)" "wdt_step (pc1, s1) (pc, s)"
    by (metis relpowp_Suc_E prod.collapse)
  have "wdt_inv T (m_evs s0) (pc1, s1)"
    by (rule wdt_inv_steps [OF relpowp_imp_rtranclp [OF r(1)] wdt_start_inv [OF start]])
  then have "finite (dom pc1)" by (auto simp: wdt_inv_def)
  with wdt_step_work [OF r(2)] Suc.IH [OF r(1)] show ?case by linarith
qed

text \<open>Two cores can both find the counter at zero.\<close>

lemma two_cores_ask:
  assumes "wdt_start {0, 1} s0 conf0"
  shows "\<exists>pc s. wdt_steps conf0 (pc, s) \<and> asked pc = {0, 1}"
proof -
  define pc0 :: "nat \<rightharpoonup> sgi_pc" where "pc0 = (\<lambda>c. if c \<in> {0, 1} then Some Pending else None)"
  have s0: "wdt_ok s0" "active_cores s0 = 2" "conf0 = (pc0, s0)" using assms by (simp_all add: wdt_start_def pc0_def)
  obtain s1 where s1: "sgi7_enter s0 = Some s1" "wdt_ok s1" "active_cores s1 = 1"
    using sgi7_enter_ok [OF s0(1)] s0(2) by auto
  obtain s2 where s2: "sgi7_enter s1 = Some s2" "wdt_ok s2" "active_cores s2 = 0"
    using sgi7_enter_ok [OF s1(2)] s1(3) by auto
  obtain v s3 where s3: "sgi7_scope s2 = Some (v, s3)" "wdt_ok s3" using sgi7_scope_ok [OF s2(2)] by blast
  obtain w s4 where s4: "sgi7_scope s3 = Some (w, s4)" "wdt_ok s4" using sgi7_scope_ok [OF s3(2)] by blast
  obtain s5 where s5: "sgi7_restart v s4 = Some s5" "wdt_ok s5" using sgi7_restart_ok [OF s4(2)] by blast
  obtain s6 where s6: "sgi7_restart w s5 = Some s6" using sgi7_restart_ok [OF s5(2)] by blast
  let ?p1 = "pc0(0 \<mapsto> Cleared)" let ?p2 = "?p1(1 \<mapsto> Cleared)" let ?p3 = "?p2(0 \<mapsto> Chosen)" let ?p4 = "?p3(1 \<mapsto> Chosen)"
  let ?p5 = "?p4(0 \<mapsto> Scoped v)" let ?p6 = "?p5(1 \<mapsto> Scoped w)" let ?p7 = "?p6(0 \<mapsto> Halted True)" let ?p8 = "?p7(1 \<mapsto> Halted True)"
  have "wdt_step (pc0, s0) (?p1, s1)" using s1(1) by (intro wdt_step.enter) (simp_all add: pc0_def)
  moreover have "wdt_step (?p1, s1) (?p2, s2)" using s2(1) by (intro wdt_step.enter) (simp_all add: pc0_def)
  moreover have "wdt_step (?p2, s2) (?p3, s2)" using s2(3) by (intro wdt_step.last) simp_all
  moreover have "wdt_step (?p3, s2) (?p4, s2)" using s2(3) by (intro wdt_step.last) simp_all
  moreover have "wdt_step (?p4, s2) (?p5, s3)" using s3(1) by (intro wdt_step.scope) simp_all
  moreover have "wdt_step (?p5, s3) (?p6, s4)" using s4(1) by (intro wdt_step.scope) simp_all
  moreover have "wdt_step (?p6, s4) (?p7, s5)" using s5(1) by (intro wdt_step.restart) simp_all
  moreover have "wdt_step (?p7, s5) (?p8, s6)" using s6 by (intro wdt_step.restart) simp_all
  ultimately have "wdt_steps conf0 (?p8, s6)"
    unfolding s0(3) by (elim converse_rtranclp_into_rtranclp) simp
  moreover have "asked ?p8 = {0, 1}" by (auto simp: asked_def pc0_def split: if_splits)
  ultimately show ?thesis by blast
qed

lemma wdt_inv_restarts: "wdt_inv T (m_evs s0) (pc, s) \<Longrightarrow> restarts (since s0 s) = card (asked pc)"
  by (auto simp: wdt_inv_def since_def)

section \<open>Who is interrupted\<close>

text \<open>
  A status query as the bus shows it: the request, the polls, the response words and the status word.
  \<open>reported_on\<close> is the test of the code on the first response word.
\<close>

type_synonym query = "payload \<times> u32 list \<times> u32 list \<times> u32"

definition query_trace :: "query \<Rightarrow> ioev list" where
  "query_trace q = (case q of (p, ps, vs, v0) \<Rightarrow> apu_trace p ps vs v0)"

definition asks_about :: "nat \<Rightarrow> query \<Rightarrow> bool" where
  "asks_about i q \<longleftrightarrow> fst q 0 = PM_GET_NODE_STATUS \<and> fst q 1 = NODE_APU_0 + of_nat i"

definition reported_on :: "query \<Rightarrow> bool" where
  "reported_on q \<longleftrightarrow> fst (snd (snd q)) ! 0 = 1"

lemma node_status_trace:
  assumes ok: "pm_ok False s"
  obtains q st vs s' where "pm_get_node_status (NODE_APU_0 + of_nat i) s = Some ((st, vs), s')" "asks_about i q"
    "reported_on q \<longleftrightarrow> vs ! 0 = 1" "m_evs s' = m_evs s @ query_trace q" "mach.more s' = mach.more s" "m_hw s' = m_hw s"
    "pm_ok False s'"
proof -
  have idle: "pm_idle s" using ok by (simp add: pm_ok_def)
  define p where "p = pm_pack [PM_GET_NODE_STATUS, NODE_APU_0 + of_nat i] s"
  from pml.runsD [OF pml.runs_send ok, of "\<lambda>_. p" 3] obtain st vs s' where
    r: "pm_ipi_send_sync primary_proc p 3 s = Some ((st, vs), s')" "pm_ok False s'" by auto
  from send_sync_apu [OF idle r(1)] obtain ps v0 where
    a: "m_evs s' = m_evs s @ apu_trace p ps vs v0" "mach.more s' = mach.more s" "m_hw s' = m_hw s" by metis
  have "asks_about i (p, ps, vs, v0)" by (simp add: asks_about_def p_def pm_pack_def)
  moreover have "pm_get_node_status (NODE_APU_0 + of_nat i) s = Some ((st, vs), s')"
    using r(1) by (simp add: pm_get_node_status_def pm_req_def p_def)
  moreover have "reported_on (p, ps, vs, v0) \<longleftrightarrow> vs ! 0 = 1" by (simp add: reported_on_def)
  moreover have "m_evs s' = m_evs s @ query_trace (p, ps, vs, v0)" using a(1) by (simp add: query_trace_def)
  ultimately show ?thesis using that a(2,3) r(2) by blast
qed

lemma count_active_trace:
  assumes "pm_ok False s" and "distinct is"
  shows "\<exists>q l' s'. count_active is n l s = Some ((n + of_nat (length (filter (\<lambda>i. reported_on (q i)) is)), l'), s') \<and>
    (\<forall>i < 32. bit l' i \<longleftrightarrow> bit l i \<or> i \<in> set is \<and> reported_on (q i)) \<and> (\<forall>i \<in> set is. asks_about i (q i)) \<and>
    m_evs s' = m_evs s @ concat (map (\<lambda>i. query_trace (q i)) is) \<and>
    mach.more s' = mach.more s \<and> m_hw s' = m_hw s \<and> pm_ok False s'"
  using assms
proof (induction "is" arbitrary: n l s)
  case Nil
  then show ?case by simp
next
  case (Cons i "is")
  obtain r st vs t where
    t: "pm_get_node_status (NODE_APU_0 + of_nat i) s = Some ((st, vs), t)" "asks_about i r"
      "reported_on r \<longleftrightarrow> vs ! 0 = 1" "m_evs t = m_evs s @ query_trace r" "mach.more t = mach.more s" "m_hw t = m_hw s"
      "pm_ok False t" by (rule node_status_trace [OF Cons.prems(1), of i])
  define n' l1 where "n' = (if reported_on r then n + 1 else n)" and "l1 = (if reported_on r then l OR push_bit i 1 else l)"
  have i: "i \<notin> set is" "distinct is" using Cons.prems(2) by auto
  from Cons.IH [OF t(7) i(2), of n' l1] obtain q l' s' where
    r: "count_active is n' l1 t = Some ((n' + of_nat (length (filter (\<lambda>i. reported_on (q i)) is)), l'), s')"
      "\<forall>i < 32. bit l' i \<longleftrightarrow> bit l1 i \<or> i \<in> set is \<and> reported_on (q i)" "\<forall>i \<in> set is. asks_about i (q i)"
      "m_evs s' = m_evs t @ concat (map (\<lambda>i. query_trace (q i)) is)"
      "mach.more s' = mach.more t" "m_hw s' = m_hw t" "pm_ok False s'" by (elim exE conjE)
  define q' where "q' = q(i := r)"
  have q': "map (\<lambda>i. query_trace (q' i)) is = map (\<lambda>i. query_trace (q i)) is"
    "filter (\<lambda>i. reported_on (q' i)) is = filter (\<lambda>i. reported_on (q i)) is"
    using i(1) by (auto simp: q'_def intro: filter_cong)
  have "count_active (i # is) n l s = count_active is n' l1 t"
    using t(1,3) by (simp add: n'_def l1_def)
  moreover have "n' + of_nat (length (filter (\<lambda>i. reported_on (q i)) is)) =
      n + of_nat (length (filter (\<lambda>i. reported_on (q' i)) (i # is)))"
    using q'(2) by (simp add: n'_def q'_def)
  moreover have "bit l' k \<longleftrightarrow> bit l k \<or> k \<in> set (i # is) \<and> reported_on (q' k)" if "k < 32" for k
    using r(2) that i(1) by (auto simp: l1_def q'_def bit_simps)
  moreover have "\<forall>k \<in> set (i # is). asks_about k (q' k)" using r(3) t(2) by (simp add: q'_def)
  moreover have "m_evs s' = m_evs s @ concat (map (\<lambda>i. query_trace (q' i)) (i # is))"
    using r(4) t(4) by (simp only: list.map concat.simps append_assoc q'(1)) (simp add: q'_def)
  ultimately show ?case using r t by (intro exI [of _ q'] exI [of _ l'] exI [of _ s']) simp
qed

text \<open>Interrupt 15 belongs to EL3: its group bit reads as zero.\<close>

definition sgi7_secure :: "'a mach_scheme \<Rightarrow> bool" where
  "sgi7_secure s \<longleftrightarrow> (\<forall>t v. \<not> bit (m_hw s t 0xF9010080 v) 15)"

definition sgi_trace :: "(nat \<Rightarrow> u32) \<Rightarrow> (nat \<Rightarrow> u32) \<Rightarrow> nat \<Rightarrow> ioev list" where
  "sgi_trace masks g i = [RD 0xF9010080 (g i), WR 0xF9010F00 (GICV2_SGIR_VALUE 0 (masks i) ARM_IRQ_SEC_SGI_7)]"


lemma and_push_bit_1:
  "i < 32 \<Longrightarrow> (w :: u32) AND push_bit i 1 \<noteq> 0 \<longleftrightarrow> bit w i"
proof -
  assume i: "i < 32"
  have b: "bit (w AND push_bit i 1) k \<longleftrightarrow> k = i \<and> bit w i" for k using i by (auto simp: bit_simps)
  show ?thesis
  proof (cases "bit w i")
    case True
    with b [of i] have "bit (w AND push_bit i 1) i" by blast
    then show ?thesis using True by (metis bit_0_eq bot_apply bot_bool_def)
  next
    case False
    with b have "w AND push_bit i 1 = 0" by (intro bit_word_eqI) simp
    then show ?thesis using False by blast
  qed
qed

lemma gic_more:
  "mach.more s' = mach.more s \<Longrightarrow> driver_data s' = driver_data s"
  "mach.more s' = mach.more s \<Longrightarrow> target_masks s' = target_masks s"
  by (cases s, cases s', simp)+

lemma raise_sgi_trace:
  assumes d: "driver_data s = Some arm_gic_data" and sec: "sgi7_secure s" and i: "i < 4" and m: "target_masks s i \<noteq> 0"
  obtains g s' where "plat_ic_raise_el3_sgi ARM_IRQ_SEC_SGI_7 (of_nat i) s = Some s'"
    "m_evs s' = m_evs s @ sgi_trace (target_masks s) g i" "mach.more s' = mach.more s" "m_hw s' = m_hw s"
proof -
  define r where "r = mmio_read_32 0xF9010080 s"
  have pos: "plat_core_pos_by_mpidr (of_nat i) = int i"
  proof -
    consider "i = 0" | "i = 1" | "i = 2" | "i = 3" using i by linarith
    then show ?thesis
      by cases (simp_all add: plat_core_pos_by_mpidr_def zynqmp_calc_core_pos_def PLATFORM_CORE_COUNT_def word_le_nat_alt)
  qed
  have "\<not> bit (fst r) 15" using sec by (simp add: sgi7_secure_def r_def mmio_read_32_def Let_def)
  then have g0: "drop_bit 15 (fst r) AND 1 = 0"
    by (intro bit_word_eqI) (auto simp: bit_simps intro!: gr0I)
  define s' where "s' = mmio_write_32 0xF9010F00 (GICV2_SGIR_VALUE 0 (target_masks s i) ARM_IRQ_SEC_SGI_7) (snd r)"
  have "plat_ic_raise_el3_sgi ARM_IRQ_SEC_SGI_7 (of_nat i) s = Some s'"
    using d m i g0 pos
    by (simp add: plat_ic_raise_el3_sgi_def plat_ic_get_interrupt_type_def gicv2_get_interrupt_group_def gicd_get_igroupr_def
        gicd_read_igroupr_def case_prod_unfold gicd_of_def arm_gic_data_def IGROUPR_SHIFT_def r_def
        INTR_TYPE_EL3_def gicv2_raise_sgi_def gicd_write_sgir_def s'_def PLATFORM_CORE_COUNT_def
        gicd_reg_def bit_num_def GICD_IGROUPR_def)
  moreover have "m_evs s' = m_evs s @ sgi_trace (target_masks s) (\<lambda>_. fst r) i" "mach.more s' = mach.more s" "m_hw s' = m_hw s"
    by (simp_all add: s'_def r_def sgi_trace_def mmio_read_32_def mmio_write_32_def Let_def)
  ultimately show ?thesis using that by blast
qed

lemma raise_sgis_trace:
  assumes "driver_data s = Some arm_gic_data" "sgi7_secure s" "\<forall>i \<in> set is. i < 4 \<and> target_masks s i \<noteq> 0" "distinct is"
  shows "\<exists>g s'. raise_sgis is l s = Some s' \<and>
    m_evs s' = m_evs s @ concat (map (sgi_trace (target_masks s) g) (filter (bit l) is)) \<and>
    mach.more s' = mach.more s \<and> m_hw s' = m_hw s"
  using assms
proof (induction "is" arbitrary: s)
  case Nil
  then show ?case by simp
next
  case (Cons i "is")
  have w: "l AND push_bit i 1 \<noteq> 0 \<longleftrightarrow> bit l i" using Cons.prems(3) by (intro and_push_bit_1) auto
  have p: "\<forall>i \<in> set is. i < 4 \<and> target_masks s i \<noteq> 0" "distinct is" "i \<notin> set is" using Cons.prems(3,4) by auto
  show ?case
  proof (cases "bit l i")
    case False
    then show ?thesis using Cons.IH [OF Cons.prems(1,2) p(1,2)] w by simp
  next
    case True
    obtain g t where t: "plat_ic_raise_el3_sgi ARM_IRQ_SEC_SGI_7 (of_nat i) s = Some t"
      "m_evs t = m_evs s @ sgi_trace (target_masks s) g i" "mach.more t = mach.more s" "m_hw t = m_hw s"
      by (rule raise_sgi_trace [OF Cons.prems(1,2), of i]) (use Cons.prems(3) in auto)
    have m: "driver_data t = driver_data s" "target_masks t = target_masks s" using gic_more [OF t(3)] by simp_all
    have "sgi7_secure t" using Cons.prems(2) t(4) by (simp add: sgi7_secure_def)
    with Cons.IH [of t] Cons.prems(1) p m obtain h s' where
      r: "raise_sgis is l t = Some s'" "m_evs s' = m_evs t @ concat (map (sgi_trace (target_masks s) h) (filter (bit l) is))"
        "mach.more s' = mach.more t" "m_hw s' = m_hw t" by auto
    define f where "f = sgi_trace (target_masks s) (h(i := g i))"
    have "map f (filter (bit l) is) = map (sgi_trace (target_masks s) h) (filter (bit l) is)" "f i = sgi_trace (target_masks s) g i"
      using p(3) by (auto simp: sgi_trace_def f_def)
    then have e: "m_evs s' = m_evs s @ concat (map f (filter (bit l) (i # is)))"
      using True t(2) r(2) by (simp del: map_eq_conv)
    moreover have "raise_sgis (i # is) l s = Some s'" using w True t(1) r(1) by simp
    ultimately show ?thesis using t(3,4) r(3,4) unfolding f_def by (metis (no_types))
  qed
qed

section \<open>Properties\<close>

text \<open>
  C7. The cores that are interrupted are those that are counted.  The restart trigger asks the power
  management firmware for the status of each of the four cores, in order, sets the counter to the
  number of cores reported on, and then sends the secure software interrupt to exactly these cores,
  from the highest to the lowest; it always returns, with all locks free.
\<close>

theorem trigger_counts_cores:
  assumes ok: "wdt_ok s" and sec: "sgi7_secure s" and masks: "\<forall>i < 4. target_masks s i \<noteq> 0"
  shows "\<exists>q g s'. trigger_wdt_restart s = Some s' \<and> wdt_ok s' \<and> (\<forall>i < 4. asks_about i (q i)) \<and>
    active_cores s' = int (card {i. i < 4 \<and> reported_on (q i)}) \<and>
    since s s' = concat (map (\<lambda>i. query_trace (q i)) [0..<4]) @
      concat (map (sgi_trace (target_masks s) g) (filter (\<lambda>i. reported_on (q i)) [3, 2, 1, 0]))"
proof -
  have pm: "pm_ok False s" "\<not> inc_lock s" using ok by (simp_all add: wdt_ok_def)
  from count_active_trace [OF pm(1), of "[0..<4]" 0 0] obtain q l t where
    c: "count_active [0..<4] 0 0 s = Some ((of_nat (length (filter (\<lambda>i. reported_on (q i)) [0..<4])), l), t)"
      "\<forall>i < 32. bit l i \<longleftrightarrow> i \<in> set [0..<4] \<and> reported_on (q i)" "\<forall>i \<in> set [0..<4]. asks_about i (q i)"
      "m_evs t = m_evs s @ concat (map (\<lambda>i. query_trace (q i)) [0..<4])"
      "mach.more t = mach.more s" "m_hw t = m_hw s" "pm_ok False t" by auto
  define T where "T = {i. i < 4 \<and> reported_on (q i)}"
  have T: "length (filter (\<lambda>i. reported_on (q i)) [0..<4]) = card T"
    by (simp add: T_def length_filter_conv_card conj_commute cong: conj_cong)
  have "card T \<le> card {..<4::nat}" by (rule card_mono) (auto simp: T_def)
  then have "card T \<in> {0, 1, 2, 3, 4}" by auto
  then have n: "sint (of_nat (card T) :: u32) = int (card T)" by auto
  define u where "u = t\<lparr>active_cores := int (card T), inc_lock := False\<rparr>"
  have u: "driver_data u = Some arm_gic_data" "target_masks u = target_masks s" "sgi7_secure u"
    using c(5,6,7) gic_more [OF c(5)] sec by (simp_all add: u_def pm_ok_def sgi7_secure_def)
  have four: "rev [0..<PLATFORM_CORE_COUNT] = [3, 2, 1, 0 :: nat]" by code_simp
  from raise_sgis_trace [OF u(1,3), of "[3, 2, 1, 0]" l] masks u(2) obtain g s' where
    r: "raise_sgis [3, 2, 1, 0] l u = Some s'"
      "m_evs s' = m_evs u @ concat (map (sgi_trace (target_masks s) g) (filter (bit l) [3, 2, 1, 0]))"
      "mach.more s' = mach.more u" "m_hw s' = m_hw u" by auto
  have "filter (bit l) [3, 2, 1, 0] = filter (\<lambda>i. reported_on (q i)) [3, 2, 1, 0]"
    using c(2) by (intro filter_cong) auto
  moreover have "\<not> inc_lock t" using svc_more(2) [OF c(5)] pm(2) by simp
  then have "trigger_wdt_restart s = Some s'"
    using c(1) r(1) T n four by (simp add: trigger_wdt_restart_def inc_lock_get_def inc_lock_release_def u_def)
  moreover have "pm_ok False u" using c(7) by (simp add: u_def)
  then have "wdt_ok s'" using pm_ok_cong [OF r(3,4)] svc_more(2) [OF r(3)] by (simp add: wdt_ok_def u_def)
  moreover have "active_cores s' = int (card T)" using svc_more(1) [OF r(3)] by (simp add: u_def)
  ultimately show ?thesis using c(3,4) r(2)
    by (intro exI [of _ q] exI [of _ g] exI [of _ s']) (simp add: since_def u_def T_def)
qed

text \<open>
  C8. No restart before every core is safe.  However the handlers of the interrupted cores
  interleave, the counter is the number of cores that have not entered their handler, the shutdown
  requests on the bus are those of the cores that halted after asking for it, all of them requests for a
  reset, and there is none as long as some interrupted core has not passed its critical section.
\<close>

theorem wdt_restart_safe:
  assumes start: "wdt_start T s0 conf0" and run: "wdt_steps conf0 (pc, s)"
  shows "active_cores s = int (card {c. pc c = Some Pending}) \<and>
    restarts (since s0 s) = card {c. pc c = Some (Halted True)} \<and> all_resets (since s0 s) \<and>
    (0 < restarts (since s0 s) \<longrightarrow> (\<forall>c \<in> T. pc c \<noteq> Some Pending))"
proof -
  have inv: "wdt_inv T (m_evs s0) (pc, s)" using wdt_inv_steps [OF run wdt_start_inv [OF start]] .
  then have n: "restarts (since s0 s) = card (asked pc)" "all_resets (since s0 s)" "finite (asked pc)"
    by (auto simp: wdt_inv_def since_def)
  moreover have "pend pc = {}" if "asked pc \<noteq> {}"
  proof -
    from that obtain c where "pc c = Some (Halted True)" by (auto simp: asked_def)
    then have "\<exists>c x. pc c = Some x \<and> late x" by (intro exI [of _ c] exI [of _ "Halted True"]) simp
    then show ?thesis using inv by (simp add: wdt_inv_def)
  qed
  ultimately show ?thesis using inv by (auto simp: wdt_inv_def pend_def asked_def card_gt_0_iff)
qed

text \<open>
  C9. The restart is always asked for.  A run of the interrupted cores has at most four steps per core;
  as long as some core has not halted another step is possible, and when all have halted at least one
  of them has asked for the restart.
\<close>

theorem wdt_restart_live:
  assumes start: "wdt_start T s0 conf0" and run: "(wdt_step ^^ n) conf0 (pc, s)"
  shows "n \<le> 4 * card T \<and>
    ((\<exists>c \<in> T. \<forall>b. pc c \<noteq> Some (Halted b)) \<longrightarrow> (\<exists>conf'. wdt_step (pc, s) conf')) \<and>
    ((\<forall>c \<in> T. \<exists>b. pc c = Some (Halted b)) \<longrightarrow> 1 \<le> restarts (since s0 s))"
proof -
  have steps: "wdt_steps conf0 (pc, s)" using run by (rule relpowp_imp_rtranclp)
  have inv: "wdt_inv T (m_evs s0) (pc, s)" by (rule wdt_inv_steps [OF steps wdt_start_inv [OF start]])
  then have T: "dom pc = T" "finite T" "T \<noteq> {}" and ok: "wdt_ok s" by (auto simp: wdt_inv_def)
  have "n + work_left pc \<le> 4 * card T"
    by (rule wdt_run_work [OF start run])
  moreover have "\<exists>conf'. wdt_step (pc, s) conf'" if c: "c \<in> T" "\<forall>b. pc c \<noteq> Some (Halted b)" for c
  proof -
    obtain x where "pc c = Some x" using c(1) T(1) by blast
    then show ?thesis using wdt_progress [OF ok, of pc c x] c(2) by blast
  qed
  moreover have "1 \<le> restarts (since s0 s)" if all: "\<forall>c \<in> T. \<exists>b. pc c = Some (Halted b)"
  proof -
    have "pc c \<noteq> Some Pending" for c
    proof
      assume p: "pc c = Some Pending"
      with T(1) have "c \<in> T" by blast
      with all p show False by auto
    qed
    then have "pend pc = {}" by (simp add: pend_def)
    then obtain c x where "pc c = Some x" "late x \<or> x = Cleared" using inv by (auto simp: wdt_inv_def)
    moreover from this T(1) have "c \<in> T" by blast
    ultimately have "c \<in> asked pc" using all by (fastforce simp: asked_def)
    moreover have "finite (asked pc)" using T by simp
    ultimately have "card (asked pc) \<noteq> 0" by auto
    then show ?thesis using inv by (auto simp: wdt_inv_def since_def)
  qed
  ultimately show ?thesis by auto
qed


text \<open>
  C37. The counter is read after the lock is released, so the restart may be asked for more than once:
  when two cores are interrupted there is a run in which both find the counter at zero and both send
  the shutdown request.
\<close>

theorem wdt_restart_twice:
  assumes start: "wdt_start {0, 1} s0 conf0"
  shows "\<exists>pc s. wdt_steps conf0 (pc, s) \<and> restarts (since s0 s) = 2"
proof -
  from two_cores_ask [OF start] obtain pc s where r: "wdt_steps conf0 (pc, s)" "asked pc = {0, 1}" by blast
  have "wdt_inv {0, 1} (m_evs s0) (pc, s)" by (rule wdt_inv_steps [OF r(1) wdt_start_inv [OF start]])
  with r(2) have "restarts (since s0 s) = 2" by (simp add: wdt_inv_restarts)
  with r(1) show ?thesis by blast
qed

section \<open>Concrete instances\<close>

definition test_svc :: "int \<Rightarrow> svc_mach" where
  "test_svc n = pms_mach.extend (pmc_mach.extend (test_pmc (\<lambda>t a v. if a = 0xFF9905E4 then 1 else 0)) \<lparr>pm_shutdown_scope = 0\<rparr>)
     \<lparr>pm_up = 0, ipi_irq_flag = 0, inc_lock = False, active_cores = n, api_version = 0\<rparr>"

lemmas test_svc_simps = test_svc_def test_pmc_simps pmc_mach.defs pms_mach.defs

lemma test_svc_ok: "wdt_ok (test_svc n)"
  by (simp add: wdt_ok_def pm_ok_def pm_idle_def pmu_live_def test_svc_simps plat_my_core_pos_def zynqmp_calc_core_pos_def)

lemma test_svc_start: "wdt_start {0, 1} (test_svc 2) ((\<lambda>c. if c \<in> {0, 1} then Some Pending else None), test_svc 2)"
  using test_svc_ok [of 2] by (simp add: wdt_start_def) (simp add: test_svc_simps)

theorem trigger_counts_cores_witness:
  "\<exists>s'. trigger_wdt_restart (test_svc 0) = Some s' \<and> wdt_ok s'"
proof -
  have "sgi7_secure (test_svc 0)" "\<forall>i < 4. target_masks (test_svc 0) i \<noteq> 0"
    by (simp_all add: sgi7_secure_def test_svc_simps)
  from trigger_counts_cores [OF test_svc_ok this] show ?thesis by blast
qed

theorem wdt_restart_safe_witness:
  "\<exists>pc s. wdt_steps ((\<lambda>c. if c \<in> {0, 1} then Some Pending else None), test_svc 2) (pc, s) \<and> pc 0 = Some (Halted True) \<and>
    active_cores s = int (card {c. pc c = Some Pending}) \<and> restarts (since (test_svc 2) s) = card {c. pc c = Some (Halted True)}"
proof -
  from two_cores_ask [OF test_svc_start] obtain pc s where
    r: "wdt_steps ((\<lambda>c. if c \<in> {0, 1} then Some Pending else None), test_svc 2) (pc, s)" "asked pc = {0, 1}" by blast
  then have "pc 0 = Some (Halted True)" by (auto simp: asked_def)
  with wdt_restart_safe [OF test_svc_start r(1)] r(1) show ?thesis by blast
qed

theorem wdt_restart_live_witness:
  "\<exists>conf'. wdt_step ((\<lambda>c. if c \<in> {0, 1} then Some Pending else None), test_svc 2) conf'"
proof -
  have "(wdt_step ^^ 0) ((\<lambda>c. if c \<in> {0, 1} then Some Pending else None), test_svc 2)
      ((\<lambda>c. if c \<in> {0, 1} then Some Pending else None), test_svc 2)" by simp
  from wdt_restart_live [OF test_svc_start this] show ?thesis by auto
qed

theorem wdt_restart_twice_witness:
  "\<exists>pc s. wdt_steps ((\<lambda>c. if c \<in> {0, 1} then Some Pending else None), test_svc 2) (pc, s) \<and> restarts (since (test_svc 2) s) = 2"
  by (rule wdt_restart_twice [OF test_svc_start])

end
