(* ===== verification/PM_Clock.thy ===== *)
theory PM_Clock
  imports PM_Clock_Tables WDT_Restart
begin

text \<open>
  Clock control (\<open>plat/xilinx/zynqmp/pm_service/pm_api_clock.c\<close> and the clock functions of
  \<open>pm_api_sys.c\<close>).  The queries read the tables of \<open>PM_Clock_Tables\<close>; \<open>None\<close> is a read outside an
  array.  The control functions send requests to the power management firmware; the only state of the
  component is the buffered mode of the five PLLs.  A pointer to a PLL structure is its index.
\<close>

section \<open>State and constants\<close>

record clk_mach = svc_mach +
  pm_plls :: "pm_pll list"

lemma clk_fields [bus_simps]:
  "pm_plls (mmio_write_32 a v s) = pm_plls s" "pm_plls (snd (mmio_read_32 a s)) = pm_plls s"
  by (simp_all add: mmio_read_32_def mmio_write_32_def Let_def)

declare clk_fields [simp]

abbreviation (input) CLK_NAME_LEN :: nat where "CLK_NAME_LEN \<equiv> 15"
abbreviation (input) CLK_TYPE_OUTPUT :: u32 where "CLK_TYPE_OUTPUT \<equiv> 0"
abbreviation (input) CLK_TYPE_EXTERNAL :: u32 where "CLK_TYPE_EXTERNAL \<equiv> 1"
abbreviation (input) PLL_FRAC_MODE :: u32 where "PLL_FRAC_MODE \<equiv> 1"
abbreviation (input) PLL_INT_MODE :: u32 where "PLL_INT_MODE \<equiv> 0"
abbreviation (input) PM_CLOCK_DIV0_ID :: u32 where "PM_CLOCK_DIV0_ID \<equiv> 0"
abbreviation (input) PM_CLOCK_DIV1_ID :: u32 where "PM_CLOCK_DIV1_ID \<equiv> 1"

section \<open>The tables as arrays\<close>

text \<open>An array read with its bounds.\<close>

definition arr_get :: "'a list \<Rightarrow> u32 \<Rightarrow> 'a option" where
  "arr_get xs i = (if unat i < length xs then Some (xs ! unat i) else None)"

text \<open>
  The array \<open>clocks\<close> ends with its highest designator, \<open>CLK_LPD_WDT\<close>; elements without a designator
  are zero.  \<open>ext_clocks\<close> ends with the last external clock.
\<close>

definition clock_zero :: pm_clock where
  "clock_zero = \<lparr>ck_name = [], ck_num_nodes = 0, ck_control_reg = 0, ck_status_reg = 0, ck_parents = None, ck_nodes = []\<rparr>"

definition clocks :: "u32 \<Rightarrow> pm_clock option" where
  "clocks i = (if i < CLK_LPD_WDT + 1 then Some (case map_of clocks_init i of Some c \<Rightarrow> c | None \<Rightarrow> clock_zero) else None)"

definition ext_clocks :: "u32 \<Rightarrow> string option" where
  "ext_clocks i = (if i < EXT_CLK_INDEX EXT_CLK_MIO77 + 1
     then Some (case map_of ext_clocks_init i of Some n \<Rightarrow> n | None \<Rightarrow> []) else None)"

text \<open>The bytes of a name array.\<close>

definition name_bytes :: "string \<Rightarrow> string" where
  "name_bytes n = take CLK_NAME_LEN (n @ replicate CLK_NAME_LEN (CHR 0x00))"

section \<open>Queries (pm_api_clock.c)\<close>

definition pm_clock_valid :: "u32 \<Rightarrow> bool" where
  "pm_clock_valid clock_id \<longleftrightarrow> \<not> list_ex (\<lambda>c. c = clock_id) pm_clk_invalid_list"

definition pm_clock_type :: "u32 \<Rightarrow> u32" where
  "pm_clock_type clock_id = (if clock_id < CLK_MAX_OUTPUT_CLK then CLK_TYPE_OUTPUT else CLK_TYPE_EXTERNAL)"

definition pm_api_clock_get_num_clocks :: "u32 \<times> u32 list" where
  "pm_api_clock_get_num_clocks = (PM_RET_SUCCESS, [CLK_MAX])"

text \<open>The bytes stored to \<open>name\<close>.\<close>

definition pm_api_clock_get_name :: "u32 \<Rightarrow> string option" where
  "pm_api_clock_get_name clock_id =
     (if clock_id = CLK_MAX then Some (''END_OF_CLK'' @ [CHR 0x00])
      else if \<not> pm_clock_valid clock_id then Some (replicate CLK_NAME_LEN (CHR 0x00))
      else if clock_id < CLK_MAX_OUTPUT_CLK then map_option (name_bytes \<circ> ck_name) (clocks clock_id)
      else map_option name_bytes (ext_clocks (clock_id - CLK_MAX_OUTPUT_CLK)))"

definition topology_word :: "pm_clock_node \<Rightarrow> u32" where
  "topology_word n = ucast (cn_type n) OR push_bit 8 (ucast (cn_clkflags n)) OR
     push_bit 24 (ucast (cn_typeflags n AND 0xFF)) OR drop_bit 4 (ucast (cn_typeflags n AND 0x0F00))"

fun topology_loop :: "u32 list \<Rightarrow> pm_clock \<Rightarrow> u32 \<Rightarrow> u32 list \<Rightarrow> u32 list option" where
  "topology_loop [] c index topology = Some topology"
| "topology_loop (i # is) c index topology =
     (if index + i = ucast (ck_num_nodes c) then Some topology
      else do {
        n \<leftarrow> arr_get (ck_nodes c) (index + i);
        topology_loop is c index (topology[unat i := topology_word n])
      })"

definition pm_api_clock_get_topology :: "u32 \<Rightarrow> u32 \<Rightarrow> (u32 \<times> u32 list) option" where
  "pm_api_clock_get_topology clock_id index =
     (if \<not> pm_clock_valid clock_id then Some (PM_RET_ERROR_ARGS, [])
      else if pm_clock_type clock_id \<noteq> CLK_TYPE_OUTPUT then Some (PM_RET_ERROR_NOTSUPPORTED, [])
      else do {
        c \<leftarrow> clocks clock_id;
        let topology = [0, 0, 0];
        if index \<ge> ucast (ck_num_nodes c) then Some (PM_RET_SUCCESS, topology)
        else do {
          topology \<leftarrow> topology_loop [0, 1, 2] c index topology;
          Some (PM_RET_SUCCESS, topology)
        }
      })"

fun find_node :: "u32 list \<Rightarrow> pm_clock \<Rightarrow> u8 \<Rightarrow> pm_clock_node option option" where
  "find_node [] c type = Some None"
| "find_node (i # is) c type = do {
     n \<leftarrow> arr_get (ck_nodes c) i;
     if cn_type n = type then Some (Some n) else find_node is c type
   }"

definition node_indexes :: "pm_clock \<Rightarrow> u32 list" where
  "node_indexes c = map of_nat [0..<unat (ck_num_nodes c)]"

definition pm_api_clock_get_fixedfactor_params :: "u32 \<Rightarrow> (u32 \<times> u32 list) option" where
  "pm_api_clock_get_fixedfactor_params clock_id =
     (if \<not> pm_clock_valid clock_id then Some (PM_RET_ERROR_ARGS, [])
      else if pm_clock_type clock_id \<noteq> CLK_TYPE_OUTPUT then Some (PM_RET_ERROR_NOTSUPPORTED, [])
      else do {
        c \<leftarrow> clocks clock_id;
        r \<leftarrow> find_node (node_indexes c) c TYPE_FIXEDFACTOR;
        Some (case r of None \<Rightarrow> (PM_RET_ERROR_ARGS, []) | Some n \<Rightarrow> (PM_RET_SUCCESS, [ucast (cn_mult n), ucast (cn_div n)]))
      })"

text \<open>The loop that skips parents: \<open>True\<close> if it met the end of the list.\<close>

function skip_parents :: "u32 list \<Rightarrow> nat \<Rightarrow> nat \<Rightarrow> bool option" where
  "skip_parents ps i index =
     (if i < index then
        (if i < length ps then (if ps ! i = CLK_NA_PARENT then Some True else skip_parents ps (Suc i) index) else None)
      else Some False)"
  by pat_completeness auto
termination by (relation "measure (\<lambda>(ps, i, index). index - i)") auto

fun parents_loop :: "u32 list \<Rightarrow> u32 list \<Rightarrow> u32 \<Rightarrow> u32 list \<Rightarrow> u32 list option" where
  "parents_loop [] clk_parents index parents = Some parents"
| "parents_loop (i # is) clk_parents index parents = do {
     p \<leftarrow> arr_get clk_parents (index + i);
     let parents = parents[unat i := p];
     if p = CLK_NA_PARENT then Some parents else parents_loop is clk_parents index parents
   }"

definition pm_api_clock_get_parents :: "u32 \<Rightarrow> u32 \<Rightarrow> (u32 \<times> u32 list) option" where
  "pm_api_clock_get_parents clock_id index =
     (if \<not> pm_clock_valid clock_id then Some (PM_RET_ERROR_ARGS, [])
      else if pm_clock_type clock_id \<noteq> CLK_TYPE_OUTPUT then Some (PM_RET_ERROR_NOTSUPPORTED, [])
      else do {
        c \<leftarrow> clocks clock_id;
        case ck_parents c of
          None \<Rightarrow> Some (PM_RET_ERROR_ARGS, [])
        | Some clk_parents \<Rightarrow> do {
            let parents = [0, 0, 0];
            done \<leftarrow> skip_parents clk_parents 0 (unat index);
            if done then Some (PM_RET_SUCCESS, parents)
            else do {
              parents \<leftarrow> parents_loop [0, 1, 2] clk_parents index parents;
              Some (PM_RET_SUCCESS, parents)
            }
          }
      })"

definition pm_api_clock_get_attributes :: "u32 \<Rightarrow> u32 \<times> u32 list" where
  "pm_api_clock_get_attributes clock_id =
     (if clock_id \<ge> CLK_MAX then (PM_RET_ERROR_ARGS, [])
      else (PM_RET_SUCCESS, [of_bool (pm_clock_valid clock_id) OR push_bit 2 (pm_clock_type clock_id)]))"

text \<open>
  \<open>BIT(width) - 1\<close> is a 64-bit value, undefined from width 64 on; the shift \<open>1 << (BIT(width) - 1)\<close>
  of a signed 32-bit one is undefined from 31 on.
\<close>

definition max_divisor_of :: "pm_clock_node \<Rightarrow> u32 option" where
  "max_divisor_of n =
     (if cn_width n \<ge> 64 then None
      else let m = push_bit (unat (cn_width n)) 1 - 1 :: u64
           in if CLK_DIVIDER_POWER_OF_TWO AND cn_typeflags n \<noteq> 0
              then (if m < 31 then Some (push_bit (unat m) 1) else None)
              else Some (ucast m))"

definition pm_api_clock_get_max_divisor :: "u32 \<Rightarrow> u8 \<Rightarrow> (u32 \<times> u32 list) option" where
  "pm_api_clock_get_max_divisor clock_id div_type =
     (if clock_id \<ge> CLK_MAX_OUTPUT_CLK then Some (PM_RET_ERROR_ARGS, [])
      else do {
        c \<leftarrow> clocks clock_id;
        r \<leftarrow> find_node (node_indexes c) c div_type;
        case r of
          None \<Rightarrow> Some (PM_RET_ERROR_ARGS, [])
        | Some n \<Rightarrow> do { m \<leftarrow> max_divisor_of n; Some (PM_RET_SUCCESS, [m]) }
      })"

definition pm_clock_id_is_valid :: "u32 \<Rightarrow> u32" where
  "pm_clock_id_is_valid clock_id =
     (if \<not> pm_clock_valid clock_id then PM_RET_ERROR_ARGS
      else if pm_clock_type clock_id \<noteq> CLK_TYPE_OUTPUT then PM_RET_ERROR_NOTSUPPORTED
      else PM_RET_SUCCESS)"

fun has_div_loop :: "u32 list \<Rightarrow> pm_clock \<Rightarrow> u32 \<Rightarrow> bool option" where
  "has_div_loop [] c div_id = Some False"
| "has_div_loop (i # is) c div_id = do {
     n \<leftarrow> arr_get (ck_nodes c) i;
     if cn_type n = TYPE_DIV1
     then (if div_id = PM_CLOCK_DIV0_ID then Some True else has_div_loop is c div_id)
     else if cn_type n = TYPE_DIV2
     then (if div_id = PM_CLOCK_DIV1_ID then Some True else has_div_loop is c div_id)
     else has_div_loop is c div_id
   }"

definition pm_clock_has_div :: "u32 \<Rightarrow> u32 \<Rightarrow> bool option" where
  "pm_clock_has_div clock_id div_id =
     (if clock_id \<ge> CLK_MAX_OUTPUT_CLK then Some False
      else do { c \<leftarrow> clocks clock_id; has_div_loop (node_indexes c) c div_id })"


section \<open>PLLs (pm_api_clock.c)\<close>

abbreviation (input) PM_PLL_PARAM_DIV2 :: u32 where "PM_PLL_PARAM_DIV2 \<equiv> 0"
abbreviation (input) PM_PLL_PARAM_FBDIV :: u32 where "PM_PLL_PARAM_FBDIV \<equiv> 1"
abbreviation (input) PM_PLL_PARAM_DATA :: u32 where "PM_PLL_PARAM_DATA \<equiv> 2"
abbreviation (input) PM_PLL_PARAM_PRE_SRC :: u32 where "PM_PLL_PARAM_PRE_SRC \<equiv> 3"
abbreviation (input) PM_PLL_PARAM_POST_SRC :: u32 where "PM_PLL_PARAM_POST_SRC \<equiv> 4"
abbreviation (input) PM_PLL_MODE_RESET :: u32 where "PM_PLL_MODE_RESET \<equiv> 0"
abbreviation (input) PM_PLL_MODE_INTEGER :: u32 where "PM_PLL_MODE_INTEGER \<equiv> 1"
abbreviation (input) PM_PLL_MODE_FRACTIONAL :: u32 where "PM_PLL_MODE_FRACTIONAL \<equiv> 2"

definition pm_clock_get_pll :: "u32 \<Rightarrow> 'a clk_mach_scheme \<Rightarrow> nat option" where
  "pm_clock_get_pll clock_id s = find (\<lambda>i. pll_cid (pm_plls s ! i) = clock_id) [0..<length (pm_plls s)]"

definition pm_clock_get_pll_node_id :: "u32 \<Rightarrow> 'a clk_mach_scheme \<Rightarrow> u32 \<times> u32 list" where
  "pm_clock_get_pll_node_id clock_id s =
     (case pm_clock_get_pll clock_id s of
        Some i \<Rightarrow> (PM_RET_SUCCESS, [pll_nid (pm_plls s ! i)])
      | None \<Rightarrow> (PM_RET_ERROR_ARGS, []))"

definition pm_clock_get_pll_by_related_clk :: "u32 \<Rightarrow> 'a clk_mach_scheme \<Rightarrow> nat option" where
  "pm_clock_get_pll_by_related_clk clock_id s =
     find (\<lambda>i. pll_pre_src (pm_plls s ! i) = clock_id \<or> pll_post_src (pm_plls s ! i) = clock_id \<or>
        pll_div2 (pm_plls s ! i) = clock_id \<or> pll_bypass (pm_plls s ! i) = clock_id) [0..<length (pm_plls s)]"

definition pm_clock_pll_enable :: "nat option \<Rightarrow> 'a clk_mach_scheme pm_api" where
  "pm_clock_pll_enable pll s =
     (case pll of
        None \<Rightarrow> pm_ret PM_RET_ERROR_ARGS s
      | Some i \<Rightarrow>
          if ucast (pll_mode (pm_plls s ! i)) = PLL_FRAC_MODE
          then pm_pll_set_mode (pll_nid (pm_plls s ! i)) PM_PLL_MODE_FRACTIONAL s
          else pm_pll_set_mode (pll_nid (pm_plls s ! i)) PM_PLL_MODE_INTEGER s)"

definition pm_clock_pll_disable :: "nat option \<Rightarrow> 'a clk_mach_scheme pm_api" where
  "pm_clock_pll_disable pll s =
     (case pll of
        None \<Rightarrow> pm_ret PM_RET_ERROR_ARGS s
      | Some i \<Rightarrow> pm_pll_set_mode (pll_nid (pm_plls s ! i)) PM_PLL_MODE_RESET s)"

definition pm_clock_pll_get_state :: "nat option \<Rightarrow> 'a clk_mach_scheme pm_api" where
  "pm_clock_pll_get_state pll s =
     (case pll of
        None \<Rightarrow> pm_ret PM_RET_ERROR_ARGS s
      | Some i \<Rightarrow> do {
          ((status, mode), s) \<leftarrow> pm_pll_get_mode (pll_nid (pm_plls s ! i)) s;
          if status \<noteq> PM_RET_SUCCESS then pm_ret status s
          else Some ((PM_RET_SUCCESS, [if mode ! 0 = PM_PLL_MODE_RESET then 0 else 1]), s)
        })"

definition pm_clock_pll_set_parent :: "nat option \<Rightarrow> u32 \<Rightarrow> u32 \<Rightarrow> 'a clk_mach_scheme pm_api" where
  "pm_clock_pll_set_parent pll clock_id parent_index s =
     (case pll of
        None \<Rightarrow> pm_ret PM_RET_ERROR_ARGS s
      | Some i \<Rightarrow>
          (let p = pm_plls s ! i
           in if pll_pre_src p = clock_id then pm_pll_set_parameter (pll_nid p) PM_PLL_PARAM_PRE_SRC parent_index s
              else if pll_post_src p = clock_id then pm_pll_set_parameter (pll_nid p) PM_PLL_PARAM_POST_SRC parent_index s
              else if pll_div2 p = clock_id then pm_pll_set_parameter (pll_nid p) PM_PLL_PARAM_DIV2 parent_index s
              else pm_ret PM_RET_ERROR_ARGS s))"

definition pm_clock_pll_get_parent :: "nat option \<Rightarrow> u32 \<Rightarrow> 'a clk_mach_scheme pm_api" where
  "pm_clock_pll_get_parent pll clock_id s =
     (case pll of
        None \<Rightarrow> pm_ret PM_RET_ERROR_ARGS s
      | Some i \<Rightarrow>
          (let p = pm_plls s ! i
           in if pll_pre_src p = clock_id then pm_pll_get_parameter (pll_nid p) PM_PLL_PARAM_PRE_SRC s
              else if pll_post_src p = clock_id then pm_pll_get_parameter (pll_nid p) PM_PLL_PARAM_POST_SRC s
              else if pll_div2 p = clock_id then pm_pll_get_parameter (pll_nid p) PM_PLL_PARAM_DIV2 s
              else if pll_bypass p = clock_id then Some ((PM_RET_SUCCESS, [0]), s)
              else pm_ret PM_RET_ERROR_ARGS s))"

definition pm_clock_set_pll_mode :: "u32 \<Rightarrow> u32 \<Rightarrow> 'a clk_mach_scheme pm_api" where
  "pm_clock_set_pll_mode clock_id mode s =
     (case pm_clock_get_pll clock_id s of
        None \<Rightarrow> pm_ret PM_RET_ERROR_ARGS s
      | Some i \<Rightarrow>
          if mode \<noteq> PLL_FRAC_MODE \<and> mode \<noteq> PLL_INT_MODE then pm_ret PM_RET_ERROR_ARGS s
          else pm_ret PM_RET_SUCCESS (s\<lparr>pm_plls := (pm_plls s)[i := (pm_plls s ! i)\<lparr>pll_mode := ucast mode\<rparr>]\<rparr>))"

definition pm_clock_get_pll_mode :: "u32 \<Rightarrow> 'a clk_mach_scheme pm_api" where
  "pm_clock_get_pll_mode clock_id s =
     (case pm_clock_get_pll clock_id s of
        None \<Rightarrow> pm_ret PM_RET_ERROR_ARGS s
      | Some i \<Rightarrow> Some ((PM_RET_SUCCESS, [ucast (pll_mode (pm_plls s ! i))]), s))"

section \<open>Clock control (pm_api_sys.c)\<close>

definition pm_clock_gate :: "u32 \<Rightarrow> bool \<Rightarrow> 'a pm_mach_scheme pm_api" where
  "pm_clock_gate clock_id enable s =
     (if pm_clock_id_is_valid clock_id \<noteq> PM_RET_SUCCESS then pm_ret (pm_clock_id_is_valid clock_id) s
      else do {
        ((status, _), s) \<leftarrow> pm_req [if enable then PM_CLOCK_ENABLE else PM_CLOCK_DISABLE, clock_id] 0 s;
        pm_ret (if status = PM_RET_ERROR_ACCESS then PM_RET_SUCCESS else status) s
      })"

definition pm_clock_enable :: "u32 \<Rightarrow> 'a clk_mach_scheme pm_api" where
  "pm_clock_enable clock_id s =
     (if pm_clock_get_pll clock_id s \<noteq> None then pm_clock_pll_enable (pm_clock_get_pll clock_id s) s
      else pm_clock_gate clock_id True s)"

definition pm_clock_disable :: "u32 \<Rightarrow> 'a clk_mach_scheme pm_api" where
  "pm_clock_disable clock_id s =
     (if pm_clock_get_pll clock_id s \<noteq> None then pm_clock_pll_disable (pm_clock_get_pll clock_id s) s
      else pm_clock_gate clock_id False s)"

definition pm_clock_getstate :: "u32 \<Rightarrow> 'a clk_mach_scheme pm_api" where
  "pm_clock_getstate clock_id s =
     (if pm_clock_get_pll clock_id s \<noteq> None then pm_clock_pll_get_state (pm_clock_get_pll clock_id s) s
      else if pm_clock_id_is_valid clock_id \<noteq> PM_RET_SUCCESS then pm_ret (pm_clock_id_is_valid clock_id) s
      else pm_req [PM_CLOCK_GETSTATE, clock_id] 1 s)"

definition pm_clock_setdivider :: "u32 \<Rightarrow> u32 \<Rightarrow> 'a clk_mach_scheme pm_api" where
  "pm_clock_setdivider clock_id divider s =
     (let (status, nid) = pm_clock_get_pll_node_id clock_id s; div0 = 0xFFFF0000; div1 = 0x0000FFFF
      in if status = PM_RET_SUCCESS then pm_pll_set_parameter (nid ! 0) PM_PLL_PARAM_FBDIV divider s
         else if pm_clock_id_is_valid clock_id \<noteq> PM_RET_SUCCESS then pm_ret (pm_clock_id_is_valid clock_id) s
         else if div0 = divider AND div0
         then pm_req [PM_CLOCK_SETDIVIDER, clock_id, PM_CLOCK_DIV0_ID, divider AND NOT div0] 0 s
         else if div1 = divider AND div1
         then pm_req [PM_CLOCK_SETDIVIDER, clock_id, PM_CLOCK_DIV1_ID, drop_bit 16 (divider AND NOT div1)] 0 s
         else pm_ret PM_RET_ERROR_ARGS s)"

text \<open>
  \<open>pm_clock_getdivider\<close>: \<open>d\<close> is what \<open>*divider\<close> holds at the call, and \<open>out\<close> collects what the function
  stores there.  \<open>getdivider_part\<close> is one of the two symmetric steps; a failed request returns at once.
\<close>

definition getdivider_part ::
  "u32 \<Rightarrow> u32 \<Rightarrow> (u32 \<Rightarrow> u32) \<Rightarrow> u32 \<times> u32 list \<Rightarrow> 'a pm_mach_scheme \<Rightarrow> ((bool \<times> u32 \<times> u32 list) \<times> 'a pm_mach_scheme) option" where
  "getdivider_part clock_id div_id store r s = do {
     has \<leftarrow> pm_clock_has_div clock_id div_id;
     if has
     then do {
       ((status, val), s) \<leftarrow> pm_req [PM_CLOCK_GETDIVIDER, clock_id, div_id] 1 s;
       if status \<noteq> PM_RET_SUCCESS then Some ((True, status, snd r), s)
       else Some ((False, status, [store (val ! 0)]), s)
     }
     else Some ((False, r), s)
   }"

definition getdivider_parts :: "u32 \<Rightarrow> u32 \<Rightarrow> 'a pm_mach_scheme pm_api" where
  "getdivider_parts clock_id d s = do {
     ((stop, r), s) \<leftarrow> getdivider_part clock_id PM_CLOCK_DIV0_ID (\<lambda>val. val) (PM_RET_SUCCESS, []) s;
     if stop then Some (r, s)
     else do {
       let old = (case snd r of [] \<Rightarrow> d | v # _ \<Rightarrow> v);
       ((_, r), s) \<leftarrow> getdivider_part clock_id PM_CLOCK_DIV1_ID (\<lambda>val. old OR push_bit 16 val) r s;
       Some (r, s)
     }
   }"

definition pm_clock_getdivider :: "u32 \<Rightarrow> u32 \<Rightarrow> 'a clk_mach_scheme pm_api" where
  "pm_clock_getdivider clock_id d s =
     (let (status, nid) = pm_clock_get_pll_node_id clock_id s
      in if status = PM_RET_SUCCESS then pm_pll_get_parameter (nid ! 0) PM_PLL_PARAM_FBDIV s
         else if pm_clock_id_is_valid clock_id \<noteq> PM_RET_SUCCESS then pm_ret (pm_clock_id_is_valid clock_id) s
         else getdivider_parts clock_id d s)"

definition pm_clock_setrate :: "u32 \<Rightarrow> u64 \<Rightarrow> 's pm_api" where
  "pm_clock_setrate clock_id rate = pm_ret PM_RET_ERROR_NOTSUPPORTED"

definition pm_clock_getrate :: "u32 \<Rightarrow> 's pm_api" where
  "pm_clock_getrate clock_id = pm_ret PM_RET_ERROR_NOTSUPPORTED"

definition pm_clock_setparent :: "u32 \<Rightarrow> u32 \<Rightarrow> 'a clk_mach_scheme pm_api" where
  "pm_clock_setparent clock_id parent_index s =
     (if pm_clock_get_pll_by_related_clk clock_id s \<noteq> None
      then pm_clock_pll_set_parent (pm_clock_get_pll_by_related_clk clock_id s) clock_id parent_index s
      else if pm_clock_id_is_valid clock_id \<noteq> PM_RET_SUCCESS then pm_ret (pm_clock_id_is_valid clock_id) s
      else pm_req [PM_CLOCK_SETPARENT, clock_id, parent_index] 0 s)"

definition pm_clock_getparent :: "u32 \<Rightarrow> 'a clk_mach_scheme pm_api" where
  "pm_clock_getparent clock_id s =
     (if pm_clock_get_pll_by_related_clk clock_id s \<noteq> None
      then pm_clock_pll_get_parent (pm_clock_get_pll_by_related_clk clock_id s) clock_id s
      else if pm_clock_id_is_valid clock_id \<noteq> PM_RET_SUCCESS then pm_ret (pm_clock_id_is_valid clock_id) s
      else pm_req [PM_CLOCK_GETPARENT, clock_id] 1 s)"

section \<open>Facts of the tables\<close>

text \<open>
  What the code relies on: node counts that match the node lists, parent lists with the end marker as
  last and only last element, known node types, type flags of 12 bits without the power-of-two flag.
\<close>

definition wf_node :: "pm_clock_node \<Rightarrow> bool" where
  "wf_node n \<longleftrightarrow> 1 \<le> cn_type n \<and> cn_type n \<le> 6 \<and> cn_typeflags n < 0x1000 \<and>
     CLK_DIVIDER_POWER_OF_TWO AND cn_typeflags n = 0 \<and> cn_width n < 32"

definition wf_parents :: "u32 list \<Rightarrow> bool" where
  "wf_parents ps \<longleftrightarrow> ps \<noteq> [] \<and> last ps = CLK_NA_PARENT \<and> CLK_NA_PARENT \<notin> set (butlast ps) \<and> length ps < 128"

definition wf_clock :: "pm_clock \<Rightarrow> bool" where
  "wf_clock c \<longleftrightarrow> unat (ck_num_nodes c) = length (ck_nodes c) \<and> length (ck_nodes c) \<le> 6 \<and>
     list_all wf_node (ck_nodes c) \<and> (case ck_parents c of None \<Rightarrow> True | Some ps \<Rightarrow> wf_parents ps)"

lemma clocks_init_wf: "list_all (\<lambda>(i, c). i < CLK_MAX_OUTPUT_CLK \<and> wf_clock c) clocks_init"
  by code_simp


lemma clocks_wf: "clocks i = Some c \<Longrightarrow> wf_clock c"
proof -
  assume c: "clocks i = Some c"
  have "wf_clock clock_zero" by (simp add: wf_clock_def clock_zero_def)
  moreover have "wf_clock d" if "map_of clocks_init i = Some d" for d
    using clocks_init_wf map_of_SomeD [OF that] by (auto simp: list_all_iff)
  ultimately show ?thesis using c by (auto simp: clocks_def split: if_splits option.splits)
qed

lemma clocks_defined: "i < CLK_MAX_OUTPUT_CLK \<Longrightarrow> \<exists>c. clocks i = Some c \<and> wf_clock c"
  by (rule exI [of _ "the (clocks i)"]) (auto simp: clocks_def intro!: clocks_wf)


declare skip_parents.simps [simp del]

lemma unat_of_nat32: "k < 2 ^ 32 \<Longrightarrow> unat (of_nat k :: u32) = k"
  by (simp add: unsigned_of_nat take_bit_nat_eq_self)

lemma of_nat32_eq: "a < 2 ^ 32 \<Longrightarrow> b < 2 ^ 32 \<Longrightarrow> (of_nat a :: u32) = of_nat b \<longleftrightarrow> a = b"
  by (metis unat_of_nat32)

lemma wf_clock_num [simp]: "wf_clock c \<Longrightarrow> (ucast (ck_num_nodes c) :: u32) = of_nat (length (ck_nodes c))"
proof -
  assume "wf_clock c"
  then have "length (ck_nodes c) = unat (ck_num_nodes c)" by (simp add: wf_clock_def)
  then show ?thesis by simp
qed

lemma arr_get_of_nat:
  "k < 2 ^ 32 \<Longrightarrow> arr_get xs (of_nat k) = (if k < length xs then Some (xs ! k) else None)"
  by (simp add: arr_get_def unat_of_nat32)

section \<open>Queries against a reference\<close>

text \<open>An answer of three words: the next three of a list, then zeros.\<close>

definition chunk3 :: "u32 list \<Rightarrow> nat \<Rightarrow> u32 list" where
  "chunk3 xs k = take 3 (drop k xs @ [0, 0, 0])"

lemma chunk3_end: "length xs \<le> k \<Longrightarrow> chunk3 xs k = [0, 0, 0]"
  by (simp add: chunk3_def)

text \<open>A list from a position on has one, two or at least three elements.\<close>

lemma drop_cases:
  assumes "k < length xs"
  obtains (one) a where "drop k xs = [a]" "length xs = k + 1" "xs ! k = a"
    | (two) a b where "drop k xs = [a, b]" "length xs = k + 2" "xs ! k = a" "xs ! (k + 1) = b"
    | (more) a b c ys where "drop k xs = a # b # c # ys" "k + 2 < length xs" "xs ! k = a" "xs ! (k + 1) = b" "xs ! (k + 2) = c"
proof -
  define ys where "ys = drop k xs"
  have n: "xs ! k = ys ! 0" "1 < length ys \<Longrightarrow> xs ! (k + 1) = ys ! 1" "2 < length ys \<Longrightarrow> xs ! (k + 2) = ys ! 2"
    using assms by (simp_all add: ys_def)
  have l: "length ys = length xs - k" by (simp add: ys_def)
  show ?thesis
  proof (cases ys)
    case Nil
    then show ?thesis using assms l by simp
  next
    case a: (Cons a as)
    show ?thesis
    proof (cases as)
      case Nil
      show ?thesis by (rule one [of a]) (use a Nil l n assms ys_def in auto)
    next
      case b: (Cons b bs)
      show ?thesis
      proof (cases bs)
        case Nil
        show ?thesis by (rule two [of a b]) (use a b Nil l n assms ys_def in auto)
      next
        case (Cons c cs)
        show ?thesis by (rule more [of a b c cs]) (use a b Cons l n assms ys_def in auto)
      qed
    qed
  qed
qed

lemma wf_parents_end: "wf_parents ps \<Longrightarrow> j < length ps \<Longrightarrow> ps ! j = - 1 \<longleftrightarrow> Suc j = length ps"
proof -
  assume wf: "wf_parents ps" and j: "j < length ps"
  show ?thesis
  proof (cases "Suc j = length ps")
    case True
    then have "j = length ps - 1" "ps \<noteq> []" using j by auto
    then have "ps ! j = last ps" by (simp add: last_conv_nth)
    then show ?thesis using wf True by (simp add: wf_parents_def)
  next
    case False
    then have "j < length (butlast ps)" using j by simp
    then have "ps ! j \<in> set (butlast ps)" by (metis nth_mem nth_butlast)
    then show ?thesis using wf False by (auto simp: wf_parents_def)
  qed
qed

lemma topology_loop_chunk:
  assumes wf: "wf_clock c" and k: "unat index < length (ck_nodes c)"
  shows "topology_loop [0, 1, 2] c index [0, 0, 0] = Some (chunk3 (map topology_word (ck_nodes c)) (unat index))"
proof -
  define k where "k = unat index"
  have n: "length (ck_nodes c) \<le> 6" using wf by (simp add: wf_clock_def)
  have kn: "k < length (ck_nodes c)" using k by (simp add: k_def)
  have i: "index + of_nat j = of_nat (k + j)" for j by (simp add: k_def)
  have e: "index + of_nat j = ucast (ck_num_nodes c) \<longleftrightarrow> k + j = length (ck_nodes c)" if "j < 3" for j
    unfolding i wf_clock_num [OF wf] using that n kn by (intro of_nat32_eq) auto
  have g: "arr_get (ck_nodes c) (index + of_nat j) = (if k + j < length (ck_nodes c) then Some (ck_nodes c ! (k + j)) else None)"
    if "j < 3" for j unfolding i using that n kn by (intro arr_get_of_nat) auto
  note step = e [of 0, simplified] e [of 1, simplified] e [of 2, simplified] g [of 0, simplified] g [of 1, simplified] g [of 2, simplified]
  show ?thesis unfolding chunk3_def drop_map k_def [symmetric] using kn
    by (cases rule: drop_cases) (simp_all add: step)
qed

lemma parents_loop_chunk:
  assumes wf: "wf_parents ps" and k: "unat index < length ps"
  shows "parents_loop [0, 1, 2] ps index [0, 0, 0] = Some (chunk3 ps (unat index))"
proof -
  define k where "k = unat index"
  have n: "length ps < 128" using wf by (simp add: wf_parents_def)
  have kn: "k < length ps" using k by (simp add: k_def)
  have i: "index + of_nat j = of_nat (k + j)" for j by (simp add: k_def)
  have g: "arr_get ps (index + of_nat j) = (if k + j < length ps then Some (ps ! (k + j)) else None)"
    if "j < 3" for j unfolding i using that n kn by (intro arr_get_of_nat) auto
  have e: "ps ! j = - 1 \<longleftrightarrow> Suc j = length ps" if "j < length ps" for j
    by (rule wf_parents_end [OF wf that])
  note step = g [of 0, simplified] g [of 1, simplified] g [of 2, simplified]
  show ?thesis using kn
  proof (cases rule: drop_cases)
    case (one a)
    then have "a = - 1" using e [of k] by simp
    then show ?thesis using one by (simp add: step chunk3_def k_def [symmetric])
  next
    case (two a b)
    then have "a \<noteq> - 1" "b = - 1" using e [of k] e [of "k + 1"] by simp_all
    then show ?thesis using two by (simp add: step chunk3_def k_def [symmetric])
  next
    case (more a b c ys)
    then have "a \<noteq> - 1" "b \<noteq> - 1" using e [of k] e [of "k + 1"] by simp_all
    then show ?thesis using more by (simp add: step chunk3_def k_def [symmetric] Let_def)
  qed
qed

lemma skip_parents_end:
  assumes wf: "wf_parents ps" and "i < length ps" "i \<le> index"
  shows "skip_parents ps i index = Some (length ps \<le> index)"
  using assms(2,3)
proof (induction "index - i" arbitrary: i)
  case 0
  then show ?case by (subst skip_parents.simps) simp
next
  case (Suc n)
  then have "i < index" by simp
  show ?case
  proof (cases "Suc i = length ps")
    case True
    then show ?thesis using Suc.prems \<open>i < index\<close> wf_parents_end [OF wf Suc.prems(1)]
      by (simp add: skip_parents.simps [of ps i index])
  next
    case False
    then show ?thesis using Suc.prems Suc.hyps(1) [of "Suc i"] Suc.hyps(2) \<open>i < index\<close> wf_parents_end [OF wf Suc.prems(1)]
      by (simp add: skip_parents.simps [of ps i index])
  qed
qed

text \<open>The parents query is the reference on the parent list.\<close>

lemma get_parents_chunk:
  assumes c: "clocks clock_id = Some c" and v: "pm_clock_valid clock_id" "pm_clock_type clock_id = CLK_TYPE_OUTPUT"
    and ps: "ck_parents c = Some ps"
  shows "pm_api_clock_get_parents clock_id index = Some (PM_RET_SUCCESS, chunk3 ps (unat index))"
proof -
  have wf: "wf_parents ps" using clocks_wf [OF c] ps by (simp add: wf_clock_def)
  then have "0 < length ps" by (simp add: wf_parents_def)
  then have "skip_parents ps 0 (unat index) = Some (length ps \<le> unat index)" by (intro skip_parents_end [OF wf]) auto
  then show ?thesis using c v ps parents_loop_chunk [OF wf, of index]
    by (cases "length ps \<le> unat index") (simp_all add: pm_api_clock_get_parents_def chunk3_end del: parents_loop.simps)
qed

lemma get_topology_chunk:
  assumes c: "clocks clock_id = Some c" and v: "pm_clock_valid clock_id" "pm_clock_type clock_id = CLK_TYPE_OUTPUT"
  shows "pm_api_clock_get_topology clock_id index = Some (PM_RET_SUCCESS, chunk3 (map topology_word (ck_nodes c)) (unat index))"
proof -
  have wf: "wf_clock c" by (rule clocks_wf [OF c])
  then have "length (ck_nodes c) \<le> 6" by (simp add: wf_clock_def)
  then have "of_nat (length (ck_nodes c)) \<le> index \<longleftrightarrow> length (ck_nodes c) \<le> unat index"
    by (simp add: word_le_nat_alt unat_of_nat32)
  then show ?thesis using c v topology_loop_chunk [OF wf, of index] wf_clock_num [OF wf]
    by (cases "length (ck_nodes c) \<le> unat index") (simp_all add: pm_api_clock_get_topology_def chunk3_end del: topology_loop.simps)
qed


lemma find_node_find:
  assumes "length (ck_nodes c) \<le> 6" "list_all (\<lambda>j. j < length (ck_nodes c)) js"
  shows "find_node (map of_nat js) c t = Some (find (\<lambda>n. cn_type n = t) (map ((!) (ck_nodes c)) js))"
  using assms(2)
proof (induction js)
  case (Cons j js)
  then have "arr_get (ck_nodes c) (of_nat j) = Some (ck_nodes c ! j)" using assms(1) by (simp add: arr_get_of_nat)
  with Cons show ?case by simp
qed simp

lemma node_indexes_wf: "wf_clock c \<Longrightarrow> node_indexes c = map of_nat [0..<length (ck_nodes c)]"
  by (simp add: node_indexes_def wf_clock_def)

lemma find_node_wf:
  assumes "wf_clock c"
  shows "find_node (node_indexes c) c t = Some (find (\<lambda>n. cn_type n = t) (ck_nodes c))"
  using find_node_find [of c "[0..<length (ck_nodes c)]" t] assms
  by (simp add: node_indexes_wf wf_clock_def list_all_iff map_nth)

lemma has_div_loop_ex:
  assumes "length (ck_nodes c) \<le> 6" "list_all (\<lambda>j. j < length (ck_nodes c)) js"
  shows "has_div_loop (map of_nat js) c d =
    Some (\<exists>n \<in> set (map ((!) (ck_nodes c)) js). cn_type n = TYPE_DIV1 \<and> d = PM_CLOCK_DIV0_ID \<or> cn_type n = TYPE_DIV2 \<and> d = PM_CLOCK_DIV1_ID)"
  using assms(2)
proof (induction js)
  case (Cons j js)
  then have "arr_get (ck_nodes c) (of_nat j) = Some (ck_nodes c ! j)" using assms(1) by (simp add: arr_get_of_nat)
  with Cons show ?case by auto
qed simp

lemma has_div_wf:
  assumes "wf_clock c"
  shows "has_div_loop (node_indexes c) c d =
    Some (\<exists>n \<in> set (ck_nodes c). cn_type n = TYPE_DIV1 \<and> d = PM_CLOCK_DIV0_ID \<or> cn_type n = TYPE_DIV2 \<and> d = PM_CLOCK_DIV1_ID)"
proof -
  have "map ((!) (ck_nodes c)) [0..<length (ck_nodes c)] = ck_nodes c" by (rule map_nth)
  then show ?thesis using has_div_loop_ex [of c "[0..<length (ck_nodes c)]" d] assms
    by (simp only: node_indexes_wf) (simp add: wf_clock_def list_all_iff)
qed

lemma max_divisor_of_wf: "wf_node n \<Longrightarrow> max_divisor_of n = Some (ucast (push_bit (unat (cn_width n)) 1 - 1 :: u64))"
proof -
  assume n: "wf_node n"
  then have "\<not> 64 \<le> cn_width n" by (simp add: wf_node_def word_le_nat_alt word_less_nat_alt)
  with n show ?thesis by (simp add: max_divisor_of_def wf_node_def Let_def)
qed

lemma clock_type_output: "pm_clock_type i = CLK_TYPE_OUTPUT \<longleftrightarrow> i < CLK_MAX_OUTPUT_CLK"
  by (simp add: pm_clock_type_def)

text \<open>The designated indexes, and that they leave out only clocks of the invalid list.\<close>

lemma clock_keys: "map (\<lambda>x. uint (fst x)) clocks_init =
    [86, 87, 88, 89, 90, 2, 91, 92, 93, 94, 95, 3, 96, 97, 98, 99, 100, 4, 76, 77, 78, 79, 80, 0, 81, 82, 83, 84,
     85, 1, 10, 103, 14, 12, 15, 16, 17, 18, 20, 21, 24, 22, 23, 19, 29, 27, 28, 42, 108, 109, 110, 111, 104, 105,
     106, 107, 32, 33, 34, 53, 54, 55, 56, 57, 58, 59, 63, 64, 60, 43, 67, 68, 13, 37, 40, 41, 31, 30, 61, 62, 69,
     71, 72, 73, 74, 70, 5, 6, 7, 8, 9, 45, 46, 47, 48, 49, 50, 51, 52, 11, 75, 25, 26, 44, 38, 101, 102, 65, 66,
     112]"
  by (simp only: clocks_init_def clocks_defs list.map fst_conv append.simps) simp

lemma clock_keys_cover: "list_all (\<lambda>i. i \<in> set (map (\<lambda>x. uint (fst x)) clocks_init) \<or> i \<in> {35, 36, 39}) [0..112]"
  unfolding clock_keys by code_simp

lemma clocks_init_parents: "list_all (\<lambda>(i, c). ck_parents c \<noteq> None) clocks_init"
  by (simp only: clocks_init_def clocks_defs list_all_append list.pred_inject prod.case pm_clock.select_convs option.distinct not_False_eq_True simp_thms)

lemma invalid_small: "pm_clock_valid i" if "CLK_MAX_OUTPUT_CLK \<le> i"
  using that by (auto simp: pm_clock_valid_def pm_clk_invalid_list_def)

lemma valid_clock:
  assumes v: "pm_clock_valid i" and i: "i < CLK_MAX_OUTPUT_CLK"
  obtains c ps where "clocks i = Some c" "wf_clock c" "ck_parents c = Some ps" "wf_parents ps"
proof -
  have "\<not> i = 35" "\<not> i = 36" "\<not> i = 39" using v by (auto simp: pm_clock_valid_def pm_clk_invalid_list_def)
  then have "uint i \<notin> {35, 36, 39}" by (auto simp: word_uint_eq_iff)
  moreover have "uint i \<in> {0..112}" using i by (auto simp: word_less_def)
  ultimately have "uint i \<in> (\<lambda>x. uint (fst x)) ` set clocks_init"
    using clock_keys_cover by (auto simp: list_all_iff)
  then obtain x where x: "x \<in> set clocks_init" "uint i = uint (fst x)" by blast
  then have "(i, snd x) \<in> set clocks_init" by (simp add: word_uint_eq_iff [symmetric])
  then obtain d where d: "map_of clocks_init i = Some d" by (metis weak_map_of_SomeI)
  have "ck_parents d \<noteq> None" using clocks_init_parents map_of_SomeD [OF d] by (auto simp: list_all_iff)
  moreover have "clocks i = Some d" using i d by (simp add: clocks_def)
  moreover from clocks_wf [OF this] have "wf_clock d" .
  ultimately show ?thesis using that [of d] by (auto simp: wf_clock_def)
qed

section \<open>The clock tree\<close>

text \<open>
  A parent entry is an index with flags in the upper half.  The level of a clock orders the tree: PLL
  sources, PLLs, domain crossings, then the clocks derived from them and from one another.
\<close>

definition clock_parent :: "u32 \<Rightarrow> u32 \<Rightarrow> bool" where
  "clock_parent i p \<longleftrightarrow> (\<exists>c ps q. clocks i = Some c \<and> ck_parents c = Some ps \<and> q \<in> set ps \<and>
     q \<noteq> CLK_NA_PARENT \<and> q \<noteq> CLK_DUMMY_PARENT \<and> p = q AND 0xFFFF)"

definition clock_level :: "int \<Rightarrow> nat" where
  "clock_level k =
     (if k \<ge> 113 then 0
      else if 76 \<le> k \<and> k \<le> 100
      then (if (k - 76) mod 5 = 1 \<or> (k - 76) mod 5 = 4 then 1 else if (k - 76) mod 5 = 0 then 2 else if (k - 76) mod 5 = 2 then 3 else 4)
      else if k \<le> 4 then 5 else if k \<le> 9 then 6 else if 45 \<le> k \<and> k \<le> 48 then 9
      else if k \<in> {11, 25, 26, 38, 44, 65, 66, 75, 112} \<or> 103 \<le> k \<and> k \<le> 107 then 8
      else 7)"

definition invalid_ids :: "int set" where
  "invalid_ids = {7, 11, 12, 13, 14, 15, 21, 27, 29, 30, 35, 36, 37, 38, 39, 40, 41, 42, 67, 69, 103}"

lemma clock_valid_ids: "pm_clock_valid i \<longleftrightarrow> uint i \<notin> invalid_ids"
  by (auto simp: pm_clock_valid_def pm_clk_invalid_list_def invalid_ids_def word_uint_eq_iff)

definition wf_parent :: "int \<Rightarrow> int \<Rightarrow> bool" where
  "wf_parent k q \<longleftrightarrow> q = 0xFFFFFFFF \<or> q = 0xFFFFFFFE \<or>
     (q mod 0x10000 < 207 \<and> clock_level (q mod 0x10000) < clock_level k \<and>
      (k \<notin> invalid_ids \<longrightarrow> q mod 0x10000 \<notin> invalid_ids))"

lemma clocks_init_tree:
  "list_all (\<lambda>(k, qs). list_all (wf_parent k) qs)
     (map (\<lambda>(i, c). (uint i, map uint (case ck_parents c of None \<Rightarrow> [] | Some ps \<Rightarrow> ps))) clocks_init)"
  by code_simp



lemma uint_and_16: "uint (q AND 0xFFFF) = uint q mod 0x10000" for q :: u32
proof -
  have "(0xFFFF :: u32) = mask 16" by (simp add: mask_eq_exp_minus_1)
  then have "q AND 0xFFFF = take_bit 16 q" by (simp add: take_bit_eq_mask)
  then show ?thesis by (simp add: take_bit_eq_mod uint_mod)
qed

lemma clock_parent_wf:
  assumes "clock_parent i p"
  shows "p < CLK_MAX" "clock_level (uint p) < clock_level (uint i)" "pm_clock_valid i \<Longrightarrow> pm_clock_valid p"
proof -
  from assms obtain c ps q where c: "clocks i = Some c" "ck_parents c = Some ps" "q \<in> set ps"
    "q \<noteq> - 1" "q \<noteq> - 2" "p = q AND 0xFFFF" by (auto simp: clock_parent_def)
  have "map_of clocks_init i = Some c"
    using c(1,2) by (auto simp: clocks_def clock_zero_def split: if_splits option.splits)
  then have "(i, c) \<in> set clocks_init" by (rule map_of_SomeD)
  then have w: "wf_parent (uint i) (uint q)" using clocks_init_tree c(2,3) by (fastforce simp: list_all_iff)
  have "(- 1 :: u32) = 0xFFFFFFFF" "(- 2 :: u32) = 0xFFFFFFFE" by simp_all
  with c(4,5) have "uint q \<noteq> 0xFFFFFFFF" "uint q \<noteq> 0xFFFFFFFE" by (auto simp: word_uint_eq_iff)
  with w have w: "uint p < 207" "clock_level (uint p) < clock_level (uint i)" "uint i \<notin> invalid_ids \<longrightarrow> uint p \<notin> invalid_ids"
    by (auto simp: wf_parent_def c(6) uint_and_16)
  then show "p < CLK_MAX" "clock_level (uint p) < clock_level (uint i)" "pm_clock_valid i \<Longrightarrow> pm_clock_valid p"
    by (simp_all add: word_less_def clock_valid_ids)
qed

text \<open>What a client reads out of a topology word.\<close>

definition decode_topology :: "u32 \<Rightarrow> u8 \<times> u16 \<times> u16" where
  "decode_topology w = (ucast (w AND 0xF), ucast (drop_bit 8 w), ucast (drop_bit 24 w) OR push_bit 4 (ucast (w AND 0xF0)))"

lemma bit_ge: "bit w n \<Longrightarrow> n < LENGTH('a)" for w :: "'a :: len word"
  by (rule bit_imp_le_length)

lemma wf_node_bits: "wf_node n \<Longrightarrow> bit (cn_type n) k \<Longrightarrow> k < 3" "wf_node n \<Longrightarrow> bit (cn_typeflags n) k \<Longrightarrow> k < 12"
proof -
  assume n: "wf_node n"
  have "unat (cn_type n) < 2 ^ 3" using n by (simp add: wf_node_def word_le_nat_alt)
  then have t: "take_bit 3 (cn_type n) = cn_type n" by (simp add: word_unat_eq_iff unsigned_take_bit_eq take_bit_nat_eq_self)
  have "unat (cn_typeflags n) < 2 ^ 12" using n by (simp add: wf_node_def word_less_nat_alt)
  then have f: "take_bit 12 (cn_typeflags n) = cn_typeflags n" by (simp add: word_unat_eq_iff unsigned_take_bit_eq take_bit_nat_eq_self)
  show "bit (cn_type n) k \<Longrightarrow> k < 3" using t by (metis bit_take_bit_iff)
  show "bit (cn_typeflags n) k \<Longrightarrow> k < 12" using f by (metis bit_take_bit_iff)
qed

lemma mask_consts: "(0xF :: u32) = mask 4" "(0xFF :: u16) = mask 8" "(0xF0 :: u32) = push_bit 4 (mask 4)" "(0x0F00 :: u16) = push_bit 8 (mask 4)"
  by (simp_all add: mask_eq_exp_minus_1)

lemma decode_topology_word:
  assumes "wf_node n"
  shows "decode_topology (topology_word n) = (cn_type n, cn_clkflags n, cn_typeflags n)"
proof -
  note b = wf_node_bits [OF assms] bit_ge [of "cn_clkflags n"]
  have "ucast (topology_word n AND 0xF) = cn_type n"
    by (intro bit_word_eqI) (auto simp: topology_word_def mask_consts bit_simps dest: b)
  moreover have "ucast (drop_bit 8 (topology_word n)) = cn_clkflags n"
    by (intro bit_word_eqI) (auto simp: topology_word_def mask_consts bit_simps dest: b)
  moreover have "ucast (drop_bit 24 (topology_word n)) OR push_bit 4 (ucast (topology_word n AND 0xF0)) = cn_typeflags n"
  proof -
    have w: "bit (topology_word n) (24 + k) \<longleftrightarrow> k < 8 \<and> bit (cn_typeflags n) k" for k
      by (auto simp: topology_word_def mask_consts bit_simps dest: b)
    have hi: "bit (ucast (drop_bit 24 (topology_word n)) :: u16) k \<longleftrightarrow> k < 8 \<and> bit (cn_typeflags n) k" for k
      using w [of k] by (auto simp: bit_unsigned_iff bit_drop_bit_eq)
    have v: "bit (topology_word n AND 0xF0) j \<longleftrightarrow> 4 \<le> j \<and> j < 8 \<and> bit (cn_typeflags n) (4 + j)" for j
      by (auto simp: topology_word_def mask_consts bit_simps dest: b)
    have lo: "bit (push_bit 4 (ucast (topology_word n AND 0xF0)) :: u16) k \<longleftrightarrow> 8 \<le> k \<and> k < 12 \<and> bit (cn_typeflags n) k" for k
      using v [of "k - 4"] by (auto simp: bit_push_bit_iff bit_unsigned_iff dest: b)
    show ?thesis by (intro bit_word_eqI) (auto simp: bit_or_iff hi lo dest: b(2))
  qed
  ultimately show ?thesis by (simp add: decode_topology_def)
qed


lemma chunk3_twice:
  assumes "length xs \<le> 6" "0 \<notin> set xs"
  shows "takeWhile (\<lambda>w. w \<noteq> 0) (chunk3 xs 0 @ chunk3 xs 3) = xs"
proof -
  have z: "takeWhile (\<lambda>w. w \<noteq> 0) (xs @ replicate k 0) = xs" for k
    using assms(2) by (subst takeWhile_append2) (auto intro: ccontr)
  have r: "[0, 0, 0 :: u32] = replicate 3 0" by (simp add: numeral_eq_Suc)
  have "chunk3 xs 0 @ chunk3 xs 3 = xs @ replicate (6 - length xs) 0"
  proof (cases "length xs \<le> 3")
    case True
    then show ?thesis by (simp add: chunk3_def r take_append replicate_add [symmetric])
  next
    case False
    then show ?thesis using assms(1) by (simp add: chunk3_def r take_append)
  qed
  then show ?thesis by (simp only: z)
qed

lemma topology_word_nonzero: "wf_node n \<Longrightarrow> topology_word n \<noteq> 0"
proof
  assume n: "wf_node n" and "topology_word n = 0"
  then have "decode_topology 0 = (cn_type n, cn_clkflags n, cn_typeflags n)" using decode_topology_word [OF n] by simp
  then have "cn_type n = 0" by (simp add: decode_topology_def)
  with n show False by (simp add: wf_node_def)
qed

section \<open>PLL modes\<close>

text \<open>The PLL table differs from its initial value in the modes only.\<close>

definition plls_ok :: "'a clk_mach_scheme \<Rightarrow> bool" where
  "plls_ok s \<longleftrightarrow> map (\<lambda>p. p\<lparr>pll_mode := 0\<rparr>) (pm_plls s) = pm_plls_init"

lemma pll_mode_zero: "p\<lparr>pll_mode := 0\<rparr> = \<lparr>pll_nid = n, pll_cid = c, pll_pre_src = a, pll_post_src = b, pll_div2 = d, pll_bypass = e, pll_mode = 0\<rparr> \<Longrightarrow>
    p = \<lparr>pll_nid = n, pll_cid = c, pll_pre_src = a, pll_post_src = b, pll_div2 = d, pll_bypass = e, pll_mode = pll_mode p\<rparr>"
  by (cases p) simp

lemma plls_ok_list:
  assumes "plls_ok s"
  obtains a b c d e where "pm_plls s = [
    \<lparr>pll_nid = NODE_IOPLL, pll_cid = CLK_IOPLL_INT, pll_pre_src = CLK_IOPLL_PRE_SRC, pll_post_src = CLK_IOPLL_POST_SRC, pll_div2 = CLK_IOPLL_INT_MUX, pll_bypass = CLK_IOPLL, pll_mode = a\<rparr>,
    \<lparr>pll_nid = NODE_RPLL, pll_cid = CLK_RPLL_INT, pll_pre_src = CLK_RPLL_PRE_SRC, pll_post_src = CLK_RPLL_POST_SRC, pll_div2 = CLK_RPLL_INT_MUX, pll_bypass = CLK_RPLL, pll_mode = b\<rparr>,
    \<lparr>pll_nid = NODE_APLL, pll_cid = CLK_APLL_INT, pll_pre_src = CLK_APLL_PRE_SRC, pll_post_src = CLK_APLL_POST_SRC, pll_div2 = CLK_APLL_INT_MUX, pll_bypass = CLK_APLL, pll_mode = c\<rparr>,
    \<lparr>pll_nid = NODE_VPLL, pll_cid = CLK_VPLL_INT, pll_pre_src = CLK_VPLL_PRE_SRC, pll_post_src = CLK_VPLL_POST_SRC, pll_div2 = CLK_VPLL_INT_MUX, pll_bypass = CLK_VPLL, pll_mode = d\<rparr>,
    \<lparr>pll_nid = NODE_DPLL, pll_cid = CLK_DPLL_INT, pll_pre_src = CLK_DPLL_PRE_SRC, pll_post_src = CLK_DPLL_POST_SRC, pll_div2 = CLK_DPLL_INT_MUX, pll_bypass = CLK_DPLL, pll_mode = e\<rparr>]"
proof -
  from assms obtain p q r t u where "pm_plls s = [p, q, r, t, u]" "p\<lparr>pll_mode := 0\<rparr> = pm_plls_init ! 0" "q\<lparr>pll_mode := 0\<rparr> = pm_plls_init ! 1"
    "r\<lparr>pll_mode := 0\<rparr> = pm_plls_init ! 2" "t\<lparr>pll_mode := 0\<rparr> = pm_plls_init ! 3" "u\<lparr>pll_mode := 0\<rparr> = pm_plls_init ! 4"
    by (auto simp: plls_ok_def pm_plls_init_def map_eq_Cons_conv)
  then show ?thesis
    by (intro that [of "pll_mode p" "pll_mode q" "pll_mode r" "pll_mode t" "pll_mode u"]) (simp add: pm_plls_init_def pll_mode_zero)
qed

lemma upt_0_5: "[0..<5] = [0, 1, 2, 3, 4 :: nat]"
  by code_simp


section \<open>The control functions return\<close>

lemma runs_gate [pm_runs]: "pml.runs b (pm_clock_gate c e)"
  unfolding pm_clock_gate_def by (intro pml.runs_if pml.runs_bind pml.runs_prod pm_runs)

lemma runs_pll_enable [pm_runs]: "pml.runs b (pm_clock_pll_enable pll)"
  unfolding pm_clock_pll_enable_def
  by (intro pml.runs_option pml.runs_if pm_runs pml.runs_at [where f = "\<lambda>n. pm_pll_set_mode n _"])

lemma runs_pll_disable [pm_runs]: "pml.runs b (pm_clock_pll_disable pll)"
  unfolding pm_clock_pll_disable_def
  by (intro pml.runs_option pml.runs_if pm_runs pml.runs_at [where f = "\<lambda>n. pm_pll_set_mode n _"])

lemma runs_pll_get_state [pm_runs]: "pml.runs b (pm_clock_pll_get_state pll)"
  unfolding pm_clock_pll_get_state_def
  by (intro pml.runs_option pml.runs_if pml.runs_bind pml.runs_prod pml.runs_upd pm_runs pml.runs_at [where f = "\<lambda>n. pm_pll_get_mode n"])

lemma runs_pll_set_parent [pm_runs]: "pml.runs b (pm_clock_pll_set_parent pll c i)"
  unfolding pm_clock_pll_set_parent_def Let_def
  by (intro pml.runs_option pml.runs_if pm_runs pml.runs_at [where f = "\<lambda>n. pm_pll_set_parameter n _ _"])

lemma runs_pll_get_parent [pm_runs]: "pml.runs b (pm_clock_pll_get_parent pll c)"
  unfolding pm_clock_pll_get_parent_def Let_def
  by (intro pml.runs_option pml.runs_if pml.runs_upd pm_runs pml.runs_at [where f = "\<lambda>n. pm_pll_get_parameter n _"])

lemma pm_ok_plls [simp]: "pm_ok b (s\<lparr>pm_plls := ps\<rparr>) = pm_ok b s"
  by (simp add: pm_ok_def pm_idle_def pmu_live_def plat_my_core_pos_def)

lemma runs_set_pll_mode [pm_runs]: "pml.runs b (pm_clock_set_pll_mode c m)"
  unfolding pm_clock_set_pll_mode_def
  by (intro pml.runs_option pml.runs_if pml.runs_pre [OF runs_pm_ret] pm_runs) simp

lemma runs_get_pll_mode [pm_runs]: "pml.runs b (pm_clock_get_pll_mode c)"
  unfolding pm_clock_get_pll_mode_def by (intro pml.runs_option pml.runs_upd pm_runs)

lemma runs_clock_control [pm_runs]:
  "pml.runs b (pm_clock_enable c)" "pml.runs b (pm_clock_disable c)" "pml.runs b (pm_clock_getstate c)"
  "pml.runs b (pm_clock_setparent c i)" "pml.runs b (pm_clock_getparent c)"
  "pml.runs b (pm_clock_setrate c r)" "pml.runs b (pm_clock_getrate c)"
  unfolding pm_clock_enable_def pm_clock_disable_def pm_clock_getstate_def pm_clock_setparent_def pm_clock_getparent_def
    pm_clock_setrate_def pm_clock_getrate_def
  by (intro pml.runs_if pm_runs pml.runs_at [where f = pm_clock_pll_enable] pml.runs_at [where f = pm_clock_pll_disable]
      pml.runs_at [where f = pm_clock_pll_get_state] pml.runs_at [where f = "\<lambda>p. pm_clock_pll_set_parent p _ _"]
      pml.runs_at [where f = "\<lambda>p. pm_clock_pll_get_parent p _"])+

lemma runs_setdivider [pm_runs]: "pml.runs b (pm_clock_setdivider c d)"
  unfolding pm_clock_setdivider_def Let_def case_prod_unfold
  by (intro pml.runs_if pm_runs pml.runs_at [where f = "\<lambda>n. pm_pll_set_parameter n _ _"])


lemma has_div_total: "\<exists>h. pm_clock_has_div c d = Some h"
proof (cases "c < CLK_MAX_OUTPUT_CLK")
  case True
  from clocks_defined [OF this] True show ?thesis by (auto simp: pm_clock_has_div_def has_div_wf)
qed (auto simp: pm_clock_has_div_def not_less)

lemma runs_getdivider_part [pm_runs]: "pml.runs b (getdivider_part c d f r)"
proof -
  obtain h where h: "pm_clock_has_div c d = Some h" using has_div_total by blast
  show ?thesis unfolding getdivider_part_def h bind.bind_lunit
    by (intro pml.runs_if pml.runs_bind pml.runs_prod pml.runs_upd pm_runs)
qed

lemma runs_getdivider_parts [pm_runs]: "pml.runs b (getdivider_parts c d)"
  unfolding getdivider_parts_def Let_def by (intro pml.runs_if pml.runs_bind pml.runs_prod pml.runs_upd pm_runs)

lemma runs_getdivider [pm_runs]: "pml.runs b (pm_clock_getdivider c d)"
  unfolding pm_clock_getdivider_def Let_def case_prod_unfold
  by (intro pml.runs_if pm_runs pml.runs_at [where f = "\<lambda>n. pm_pll_get_parameter n _"])

section \<open>Properties\<close>

lemma query_total:
  "pm_api_clock_get_topology c i \<noteq> None" "pm_api_clock_get_parents c i \<noteq> None"
proof -
  show "pm_api_clock_get_topology c i \<noteq> None"
    using get_topology_chunk [of c _ i] clocks_defined [of c]
    by (auto simp: pm_api_clock_get_topology_def clock_type_output)
  show "pm_api_clock_get_parents c i \<noteq> None"
  proof (cases "pm_clock_valid c \<and> c < CLK_MAX_OUTPUT_CLK")
    case True
    then obtain d ps where d: "clocks c = Some d" "ck_parents d = Some ps" using valid_clock by blast
    show ?thesis using get_parents_chunk [OF d(1) _ _ d(2), of i] True by (simp add: clock_type_output)
  next
    case False
    then show ?thesis by (auto simp: pm_api_clock_get_parents_def clock_type_output)
  qed
qed

lemma table_queries_total:
  "pm_api_clock_get_topology c i \<noteq> None \<and> pm_api_clock_get_parents c i \<noteq> None \<and>
   pm_api_clock_get_fixedfactor_params c \<noteq> None \<and> pm_api_clock_get_max_divisor c t \<noteq> None \<and> pm_clock_has_div c d \<noteq> None"
proof (intro conjI)
  show "pm_api_clock_get_topology c i \<noteq> None" "pm_api_clock_get_parents c i \<noteq> None" by (rule query_total)+
  show "pm_api_clock_get_fixedfactor_params c \<noteq> None"
    using clocks_defined [of c] by (auto simp: pm_api_clock_get_fixedfactor_params_def clock_type_output find_node_wf)
  show "pm_clock_has_div c d \<noteq> None" using has_div_total [of c d] by auto
  show "pm_api_clock_get_max_divisor c t \<noteq> None"
  proof (cases "c < CLK_MAX_OUTPUT_CLK")
    case True
    then obtain k where k: "clocks c = Some k" "wf_clock k" using clocks_defined by blast
    have "wf_node n" if "find (\<lambda>n. cn_type n = t) (ck_nodes k) = Some n" for n
      using that k(2) by (auto simp: find_Some_iff wf_clock_def list_all_iff)
    with k True show ?thesis
      by (auto simp: pm_api_clock_get_max_divisor_def find_node_wf max_divisor_of_wf split: option.splits)
  qed (auto simp: pm_api_clock_get_max_divisor_def not_less)
qed

lemma clock_name_None:
  "pm_api_clock_get_name c = None \<longleftrightarrow> CLK_MAX < c"
proof (cases "c < CLK_MAX_OUTPUT_CLK")
  case True
  then have "\<not> CLK_MAX < c" by (simp add: word_less_nat_alt)
  with True clocks_defined [OF True] show ?thesis by (auto simp: pm_api_clock_get_name_def)
next
  case False
  then have v: "pm_clock_valid c" by (intro invalid_small) simp
  have u: "unat (c - 113) = unat c - 113" using False by (simp add: unat_sub word_le_nat_alt word_less_nat_alt)
  have "c - CLK_MAX_OUTPUT_CLK < 94 \<longleftrightarrow> c < CLK_MAX"
    unfolding word_less_nat_alt u using False by (auto simp: word_less_nat_alt)
  moreover have "CLK_MAX < c \<longleftrightarrow> \<not> c < CLK_MAX \<and> c \<noteq> CLK_MAX" by auto
  ultimately show ?thesis using False v by (auto simp: pm_api_clock_get_name_def ext_clocks_def EXT_CLK_INDEX_def)
qed

text \<open>
  C32. No query of the clock tables reads outside them: whatever clock, index and divisor type a
  client asks for, the topology, parents, fixed factor, divisor and divider queries return.
\<close>

theorem clock_queries_in_bounds:
  "pm_api_clock_get_topology c i \<noteq> None \<and> pm_api_clock_get_parents c i \<noteq> None \<and>
   pm_api_clock_get_fixedfactor_params c \<noteq> None \<and> pm_api_clock_get_max_divisor c t \<noteq> None \<and> pm_clock_has_div c d \<noteq> None"
  by (rule table_queries_total)

text \<open>
  The name query does read outside its table: for a clock number above the number of clocks, and
  for these numbers only, it copies what lies behind the external clock names.
\<close>

theorem clock_name_overread:
  "pm_api_clock_get_name c = None \<longleftrightarrow> CLK_MAX < c"
  by (rule clock_name_None)

text \<open>
  C33. The topology protocol loses nothing.  For every valid output clock the two answers at index 0
  and 3 hold, up to the first zero word, the nodes of the clock in order, and each word decodes to the
  type, the clock flags and the type flags of its node.
\<close>

theorem clock_topology_roundtrip:
  assumes v: "pm_clock_valid c" and out: "c < CLK_MAX_OUTPUT_CLK"
  shows "\<exists>k ws ws'. clocks c = Some k \<and> pm_api_clock_get_topology c 0 = Some (PM_RET_SUCCESS, ws) \<and>
    pm_api_clock_get_topology c 3 = Some (PM_RET_SUCCESS, ws') \<and>
    map decode_topology (takeWhile (\<lambda>w. w \<noteq> 0) (ws @ ws')) = map (\<lambda>n. (cn_type n, cn_clkflags n, cn_typeflags n)) (ck_nodes k)"
proof -
  obtain k where k: "clocks c = Some k" "wf_clock k" using clocks_defined [OF out] by blast
  have n: "length (ck_nodes k) \<le> 6" "\<And>n. n \<in> set (ck_nodes k) \<Longrightarrow> wf_node n"
    using k(2) by (auto simp: wf_clock_def list_all_iff)
  have "0 \<notin> set (map topology_word (ck_nodes k))" using topology_word_nonzero n(2) by fastforce
  with chunk3_twice [of "map topology_word (ck_nodes k)"] n(1)
  have "takeWhile (\<lambda>w. w \<noteq> 0) (chunk3 (map topology_word (ck_nodes k)) 0 @ chunk3 (map topology_word (ck_nodes k)) 3) =
    map topology_word (ck_nodes k)" by simp
  then have "map decode_topology (takeWhile (\<lambda>w. w \<noteq> 0) (chunk3 (map topology_word (ck_nodes k)) 0 @ chunk3 (map topology_word (ck_nodes k)) 3)) =
    map (\<lambda>n. (cn_type n, cn_clkflags n, cn_typeflags n)) (ck_nodes k)"
    using n(2) by (simp add: decode_topology_word)
  then show ?thesis using k(1) get_topology_chunk [OF k(1) v, of 0] get_topology_chunk [OF k(1) v, of 3] out
    by (simp add: clock_type_output)
qed

text \<open>
  C34. The parents query is its reference.  For every valid output clock and every index the answer is
  a success with the next three entries of the parent list, which ends with the end marker, and zeros
  after it.
\<close>

theorem clock_parents_reference:
  assumes v: "pm_clock_valid c" and out: "c < CLK_MAX_OUTPUT_CLK"
  shows "\<exists>k ps. clocks c = Some k \<and> ck_parents k = Some ps \<and> last ps = CLK_NA_PARENT \<and>
    pm_api_clock_get_parents c index = Some (PM_RET_SUCCESS, take 3 (drop (unat index) ps @ [0, 0, 0]))"
proof -
  obtain k ps where k: "clocks c = Some k" "ck_parents k = Some ps" "wf_parents ps" using valid_clock [OF v out] by blast
  show ?thesis using k get_parents_chunk [OF k(1) v _ k(2), of index] out
    by (simp add: clock_type_output wf_parents_def chunk3_def)
qed

text \<open>
  C39. The clock tables describe a clock tree.  Every parent of a clock is a clock, a parent of a valid
  clock is valid, and going from clocks to parents always ends: no clock depends on itself.
\<close>

theorem clock_tree_sound:
  "wfP (\<lambda>p c. clock_parent c p) \<and>
   (\<forall>c p. clock_parent c p \<longrightarrow> p < CLK_MAX \<and> (pm_clock_valid c \<longrightarrow> pm_clock_valid p))"
proof
  have "(\<lambda>p c. clock_parent c p) \<le> (\<lambda>p c. clock_level (uint p) < clock_level (uint c))"
    using clock_parent_wf(2) by (simp add: le_fun_def)
  moreover have "wfP (\<lambda>p c :: u32. clock_level (uint p) < clock_level (uint c))"
    by (rule wfp_if_convertible_to_nat [of _ "\<lambda>c. clock_level (uint c)"])
  ultimately show "wfP (\<lambda>p c. clock_parent c p)" by (rule wfp_subset [rotated])
  show "\<forall>c p. clock_parent c p \<longrightarrow> p < CLK_MAX \<and> (pm_clock_valid c \<longrightarrow> pm_clock_valid p)"
    using clock_parent_wf(1,3) by blast
qed

text \<open>
  The buffered PLL mode.  Setting the mode of a PLL clock to integer or fractional succeeds
  without a request; from then on the mode query returns it, enabling the clock asks the firmware for
  exactly this mode of this PLL, and the modes of the other PLLs are what they were.
\<close>

theorem pll_mode_roundtrip:
  assumes ok: "plls_ok s" and pll: "pm_clock_get_pll_node_id c s = (PM_RET_SUCCESS, [nid])"
    and m: "m = PLL_FRAC_MODE \<or> m = PLL_INT_MODE"
  shows "\<exists>s'. pm_clock_set_pll_mode c m s = Some ((PM_RET_SUCCESS, []), s') \<and> since s s' = [] \<and> plls_ok s' \<and>
    pm_clock_get_pll_mode c s' = Some ((PM_RET_SUCCESS, [m]), s') \<and>
    pm_clock_enable c s' = pm_req [PM_PLL_SET_MODE, nid, if m = PLL_FRAC_MODE then PM_PLL_MODE_FRACTIONAL else PM_PLL_MODE_INTEGER] 0 s' \<and>
    (\<forall>c'. c' \<noteq> c \<longrightarrow> map_option fst (pm_clock_get_pll_mode c' s') = map_option fst (pm_clock_get_pll_mode c' s))"
proof -
  obtain f g h i j where l: "pm_plls s = [
    \<lparr>pll_nid = NODE_IOPLL, pll_cid = CLK_IOPLL_INT, pll_pre_src = CLK_IOPLL_PRE_SRC, pll_post_src = CLK_IOPLL_POST_SRC, pll_div2 = CLK_IOPLL_INT_MUX, pll_bypass = CLK_IOPLL, pll_mode = f\<rparr>,
    \<lparr>pll_nid = NODE_RPLL, pll_cid = CLK_RPLL_INT, pll_pre_src = CLK_RPLL_PRE_SRC, pll_post_src = CLK_RPLL_POST_SRC, pll_div2 = CLK_RPLL_INT_MUX, pll_bypass = CLK_RPLL, pll_mode = g\<rparr>,
    \<lparr>pll_nid = NODE_APLL, pll_cid = CLK_APLL_INT, pll_pre_src = CLK_APLL_PRE_SRC, pll_post_src = CLK_APLL_POST_SRC, pll_div2 = CLK_APLL_INT_MUX, pll_bypass = CLK_APLL, pll_mode = h\<rparr>,
    \<lparr>pll_nid = NODE_VPLL, pll_cid = CLK_VPLL_INT, pll_pre_src = CLK_VPLL_PRE_SRC, pll_post_src = CLK_VPLL_POST_SRC, pll_div2 = CLK_VPLL_INT_MUX, pll_bypass = CLK_VPLL, pll_mode = i\<rparr>,
    \<lparr>pll_nid = NODE_DPLL, pll_cid = CLK_DPLL_INT, pll_pre_src = CLK_DPLL_PRE_SRC, pll_post_src = CLK_DPLL_POST_SRC, pll_div2 = CLK_DPLL_INT_MUX, pll_bypass = CLK_DPLL, pll_mode = j\<rparr>]"
    by (rule plls_ok_list [OF ok])
  have "\<not> (3 :: u32) \<le> 1" by (simp add: word_le_nat_alt)
  note defs = pm_clock_get_pll_def pm_clock_get_pll_node_id_def l upt_0_5 this
  from pll consider "c = CLK_IOPLL_INT" "nid = NODE_IOPLL" | "c = CLK_RPLL_INT" "nid = NODE_RPLL" | "c = CLK_APLL_INT" "nid = NODE_APLL"
    | "c = CLK_VPLL_INT" "nid = NODE_VPLL" | "c = CLK_DPLL_INT" "nid = NODE_DPLL"
    by (auto simp: defs split: if_splits)
  then show ?thesis using m ok
    by cases (auto simp: defs pm_clock_set_pll_mode_def pm_clock_get_pll_mode_def pm_clock_enable_def pm_clock_pll_enable_def
        pm_ret_def since_def plls_ok_def pm_pll_set_mode_def is_pll_node_def)
qed


section \<open>Concrete instances\<close>

definition test_clk :: clk_mach where
  "test_clk = svc_mach.extend (test_svc 0) \<lparr>pm_plls = pm_plls_init\<rparr>"

lemma test_clk_plls: "plls_ok test_clk" "pm_plls test_clk = pm_plls_init"
  by (simp_all add: plls_ok_def test_clk_def svc_mach.defs pm_plls_init_def)

theorem clock_topology_roundtrip_witness:
  "\<exists>k ws ws'. clocks CLK_FPD_WDT = Some k \<and> pm_api_clock_get_topology CLK_FPD_WDT 0 = Some (PM_RET_SUCCESS, ws) \<and>
    map decode_topology (takeWhile (\<lambda>w. w \<noteq> 0) (ws @ ws')) = map (\<lambda>n. (cn_type n, cn_clkflags n, cn_typeflags n)) (ck_nodes k)"
  using clock_topology_roundtrip [of CLK_FPD_WDT] by (auto simp: clock_valid_ids invalid_ids_def)

theorem clock_parents_reference_witness:
  "\<exists>ps. pm_api_clock_get_parents CLK_FPD_WDT 3 = Some (PM_RET_SUCCESS, take 3 (drop 3 ps @ [0, 0, 0]))"
  using clock_parents_reference [of CLK_FPD_WDT 3] by (auto simp: clock_valid_ids invalid_ids_def)

theorem clock_tree_sound_witness:
  "clock_parent CLK_LPD_WDT EXT_CLK_SWDT1 \<and> EXT_CLK_SWDT1 < CLK_MAX"
proof -
  have "map_of clocks_init CLK_LPD_WDT = Some \<lparr>ck_name = ''lpd_wdt'', ck_num_nodes = of_nat (length wdt_nodes),
     ck_control_reg = IOU_SLCR_WDT_CLK_SEL, ck_status_reg = 0,
     ck_parents = Some [CLK_LPD_LSBUS, EXT_CLK_SWDT1 OR CLK_EXTERNAL_PARENT, CLK_NA_PARENT], ck_nodes = wdt_nodes\<rparr>"
    by (simp only: clocks_init_def clocks_defs append.simps map_of.simps fst_conv snd_conv fun_upd_apply) simp
  then obtain c where "clocks CLK_LPD_WDT = Some c"
    "ck_parents c = Some [CLK_LPD_LSBUS, EXT_CLK_SWDT1 OR CLK_EXTERNAL_PARENT, CLK_NA_PARENT]" by (simp add: clocks_def)
  then have "clock_parent CLK_LPD_WDT EXT_CLK_SWDT1"
    unfolding clock_parent_def by (intro exI [of _ c] exI [of _ "[CLK_LPD_LSBUS, EXT_CLK_SWDT1 OR CLK_EXTERNAL_PARENT, CLK_NA_PARENT]"]
      exI [of _ "EXT_CLK_SWDT1 OR CLK_EXTERNAL_PARENT"]) simp
  then show ?thesis using clock_tree_sound by blast
qed

theorem pll_mode_roundtrip_witness:
  "\<exists>s'. pm_clock_set_pll_mode CLK_VPLL_INT PLL_FRAC_MODE test_clk = Some ((PM_RET_SUCCESS, []), s') \<and>
    pm_clock_get_pll_mode CLK_VPLL_INT s' = Some ((PM_RET_SUCCESS, [PLL_FRAC_MODE]), s')"
proof -
  have "pm_clock_get_pll_node_id CLK_VPLL_INT test_clk = (PM_RET_SUCCESS, [NODE_VPLL])"
    by (simp add: pm_clock_get_pll_node_id_def pm_clock_get_pll_def test_clk_plls(2) pm_plls_init_def upt_0_5)
  from pll_mode_roundtrip [OF test_clk_plls(1) this, of PLL_FRAC_MODE] show ?thesis by auto
qed

end
