(* ===== verification/PM_Ioctl.thy ===== *)
theory PM_Ioctl
  imports PM_Clock
begin

text \<open>
  Device control (\<open>plat/xilinx/zynqmp/pm_service/pm_api_ioctl.c\<close>): the real-time processors, tap
  delays, SGMII, the SD delay lines, the fractional mode of the PLLs, the general storage registers
  and the AXI interfaces of the logic.  Some controls are accesses of EL3 itself, the others requests
  to the power management firmware.  \<open>mdelay\<close> only waits; it is an event of the trace.
\<close>

section \<open>Constants (zynqmp_def.h, pm_api_ioctl.h)\<close>

abbreviation (input) ZYNQMP_RPU_GLBL_CNTL :: addr where "ZYNQMP_RPU_GLBL_CNTL \<equiv> 0xFF9A0000"
abbreviation (input) ZYNQMP_RPU0_CFG :: addr where "ZYNQMP_RPU0_CFG \<equiv> 0xFF9A0100"
abbreviation (input) ZYNQMP_RPU1_CFG :: addr where "ZYNQMP_RPU1_CFG \<equiv> 0xFF9A0200"
abbreviation (input) ZYNQMP_SLSPLIT_MASK :: u32 where "ZYNQMP_SLSPLIT_MASK \<equiv> 0x08"
abbreviation (input) ZYNQMP_TCM_COMB_MASK :: u32 where "ZYNQMP_TCM_COMB_MASK \<equiv> 0x40"
abbreviation (input) ZYNQMP_SLCLAMP_MASK :: u32 where "ZYNQMP_SLCLAMP_MASK \<equiv> 0x10"
abbreviation (input) ZYNQMP_VINITHI_MASK :: u32 where "ZYNQMP_VINITHI_MASK \<equiv> 0x04"
abbreviation (input) CRL_APB_RST_LPD_TOP :: addr where "CRL_APB_RST_LPD_TOP \<equiv> 0xFF5E023C"
abbreviation (input) CRL_APB_RPU_AMBA_RESET :: u32 where "CRL_APB_RPU_AMBA_RESET \<equiv> 0x4"
abbreviation (input) PM_RPU_MODE_LOCKSTEP :: u32 where "PM_RPU_MODE_LOCKSTEP \<equiv> 0"
abbreviation (input) PM_RPU_MODE_SPLIT :: u32 where "PM_RPU_MODE_SPLIT \<equiv> 1"
abbreviation (input) PM_RPU_BOOTMEM_LOVEC :: u32 where "PM_RPU_BOOTMEM_LOVEC \<equiv> 0"
abbreviation (input) PM_RPU_BOOTMEM_HIVEC :: u32 where "PM_RPU_BOOTMEM_HIVEC \<equiv> 1"
abbreviation (input) PM_RPU_TCM_SPLIT :: u32 where "PM_RPU_TCM_SPLIT \<equiv> 0"
abbreviation (input) PM_RPU_TCM_COMB :: u32 where "PM_RPU_TCM_COMB \<equiv> 1"
abbreviation (input) NODE_RPU_0 :: u32 where "NODE_RPU_0 \<equiv> 7"
abbreviation (input) NODE_RPU_1 :: u32 where "NODE_RPU_1 \<equiv> 8"
abbreviation (input) PM_TAPDELAY_BYPASS_DISABLE :: u32 where "PM_TAPDELAY_BYPASS_DISABLE \<equiv> 0"
abbreviation (input) PM_TAPDELAY_BYPASS_ENABLE :: u32 where "PM_TAPDELAY_BYPASS_ENABLE \<equiv> 1"
abbreviation (input) PM_TAPDELAY_MAX :: u32 where "PM_TAPDELAY_MAX \<equiv> 3"
abbreviation (input) IOU_TAPDLY_BYPASS :: u32 where "IOU_TAPDLY_BYPASS \<equiv> 0xFF180390"
abbreviation (input) TAP_DELAY_MASK :: u32 where "TAP_DELAY_MASK \<equiv> 0x7"
abbreviation (input) PM_SGMII_DISABLE :: u32 where "PM_SGMII_DISABLE \<equiv> 0"
abbreviation (input) PM_SGMII_ENABLE :: u32 where "PM_SGMII_ENABLE \<equiv> 1"
abbreviation (input) IOU_GEM_CTRL :: u32 where "IOU_GEM_CTRL \<equiv> 0xFF180360"
abbreviation (input) IOU_GEM_CLK_CTRL :: u32 where "IOU_GEM_CLK_CTRL \<equiv> 0xFF180308"
abbreviation (input) SGMII_SD_MASK :: u32 where "SGMII_SD_MASK \<equiv> 0x3"
abbreviation (input) SGMII_SD_OFFSET :: nat where "SGMII_SD_OFFSET \<equiv> 2"
abbreviation (input) SGMII_PCS_SD_1 :: u32 where "SGMII_PCS_SD_1 \<equiv> 0x1"
abbreviation (input) GEM_SGMII_MASK :: u32 where "GEM_SGMII_MASK \<equiv> 0x4"
abbreviation (input) GEM_CLK_CTRL_MASK :: u32 where "GEM_CLK_CTRL_MASK \<equiv> 0xF"
abbreviation (input) GEM_CLK_CTRL_OFFSET :: nat where "GEM_CLK_CTRL_OFFSET \<equiv> 5"
abbreviation (input) GEM_RX_SRC_SEL_GTR :: u32 where "GEM_RX_SRC_SEL_GTR \<equiv> 0x1"
abbreviation (input) GEM_SGMII_MODE :: u32 where "GEM_SGMII_MODE \<equiv> 0x4"
abbreviation (input) ZYNQMP_SD_DLL_CTRL :: u32 where "ZYNQMP_SD_DLL_CTRL \<equiv> 0xFF180358"
abbreviation (input) ZYNQMP_SD0_DLL_RST_MASK :: u32 where "ZYNQMP_SD0_DLL_RST_MASK \<equiv> 0x00000004"
abbreviation (input) ZYNQMP_SD0_DLL_RST :: u32 where "ZYNQMP_SD0_DLL_RST \<equiv> 0x00000004"
abbreviation (input) ZYNQMP_SD1_DLL_RST_MASK :: u32 where "ZYNQMP_SD1_DLL_RST_MASK \<equiv> 0x00040000"
abbreviation (input) ZYNQMP_SD1_DLL_RST :: u32 where "ZYNQMP_SD1_DLL_RST \<equiv> 0x00040000"
abbreviation (input) ZYNQMP_SD_ITAP_DLY :: u32 where "ZYNQMP_SD_ITAP_DLY \<equiv> 0xFF180314"
abbreviation (input) ZYNQMP_SD_OTAP_DLY :: u32 where "ZYNQMP_SD_OTAP_DLY \<equiv> 0xFF180318"
abbreviation (input) ZYNQMP_SD_TAP_OFFSET :: nat where "ZYNQMP_SD_TAP_OFFSET \<equiv> 16"
abbreviation (input) ZYNQMP_SD_ITAPCHGWIN_MASK :: u32 where "ZYNQMP_SD_ITAPCHGWIN_MASK \<equiv> 0x200"
abbreviation (input) ZYNQMP_SD_ITAPCHGWIN :: u32 where "ZYNQMP_SD_ITAPCHGWIN \<equiv> 0x200"
abbreviation (input) ZYNQMP_SD_ITAPDLYENA_MASK :: u32 where "ZYNQMP_SD_ITAPDLYENA_MASK \<equiv> 0x100"
abbreviation (input) ZYNQMP_SD_ITAPDLYENA :: u32 where "ZYNQMP_SD_ITAPDLYENA \<equiv> 0x100"
abbreviation (input) ZYNQMP_SD_ITAPDLYSEL_MASK :: u32 where "ZYNQMP_SD_ITAPDLYSEL_MASK \<equiv> 0xFF"
abbreviation (input) ZYNQMP_SD_OTAPDLYSEL_MASK :: u32 where "ZYNQMP_SD_OTAPDLYSEL_MASK \<equiv> 0x3F"
abbreviation (input) ZYNQMP_SD_OTAPDLYENA_MASK :: u32 where "ZYNQMP_SD_OTAPDLYENA_MASK \<equiv> 0x40"
abbreviation (input) PM_TAPDELAY_INPUT :: u32 where "PM_TAPDELAY_INPUT \<equiv> 0"
abbreviation (input) PM_TAPDELAY_OUTPUT :: u32 where "PM_TAPDELAY_OUTPUT \<equiv> 1"
abbreviation (input) PM_DLL_RESET_ASSERT :: u32 where "PM_DLL_RESET_ASSERT \<equiv> 0"
abbreviation (input) PM_DLL_RESET_RELEASE :: u32 where "PM_DLL_RESET_RELEASE \<equiv> 1"
abbreviation (input) PM_DLL_RESET_PULSE :: u32 where "PM_DLL_RESET_PULSE \<equiv> 2"
abbreviation (input) PM_PLL_PARAM_DATA :: u32 where "PM_PLL_PARAM_DATA \<equiv> 2"
abbreviation (input) GGS_BASEADDR :: u32 where "GGS_BASEADDR \<equiv> 0xFFD80030"
abbreviation (input) GGS_NUM_REGS :: u32 where "GGS_NUM_REGS \<equiv> 4"
abbreviation (input) PGGS_BASEADDR :: u32 where "PGGS_BASEADDR \<equiv> 0xFFD80050"
abbreviation (input) PGGS_NUM_REGS :: u32 where "PGGS_NUM_REGS \<equiv> 4"
abbreviation (input) AFIFM6_WRCTRL :: u32 where "AFIFM6_WRCTRL \<equiv> 13"
abbreviation (input) FABRIC_WIDTH :: u32 where "FABRIC_WIDTH \<equiv> 3"
abbreviation (input) CRL_APB_BOOT_PIN_CTRL :: u32 where "CRL_APB_BOOT_PIN_CTRL \<equiv> 0xFF5E0250"
abbreviation (input) CRL_APB_BOOT_PIN_MASK :: u32 where "CRL_APB_BOOT_PIN_MASK \<equiv> 0xf0f"
abbreviation (input) ZYNQMP_ULPI_RESET_VAL_HIGH :: u32 where "ZYNQMP_ULPI_RESET_VAL_HIGH \<equiv> 0x202"
abbreviation (input) ZYNQMP_ULPI_RESET_VAL_LOW :: u32 where "ZYNQMP_ULPI_RESET_VAL_LOW \<equiv> 0x2"
abbreviation (input) PM_BOOT_HEALTH_STATUS_MASK :: u32 where "PM_BOOT_HEALTH_STATUS_MASK \<equiv> 0x01"
abbreviation (input) IOCTL_GET_RPU_OPER_MODE :: u32 where "IOCTL_GET_RPU_OPER_MODE \<equiv> 0"
abbreviation (input) IOCTL_SET_RPU_OPER_MODE :: u32 where "IOCTL_SET_RPU_OPER_MODE \<equiv> 1"
abbreviation (input) IOCTL_RPU_BOOT_ADDR_CONFIG :: u32 where "IOCTL_RPU_BOOT_ADDR_CONFIG \<equiv> 2"
abbreviation (input) IOCTL_TCM_COMB_CONFIG :: u32 where "IOCTL_TCM_COMB_CONFIG \<equiv> 3"
abbreviation (input) IOCTL_SET_TAPDELAY_BYPASS :: u32 where "IOCTL_SET_TAPDELAY_BYPASS \<equiv> 4"
abbreviation (input) IOCTL_SET_SGMII_MODE :: u32 where "IOCTL_SET_SGMII_MODE \<equiv> 5"
abbreviation (input) IOCTL_SD_DLL_RESET :: u32 where "IOCTL_SD_DLL_RESET \<equiv> 6"
abbreviation (input) IOCTL_SET_SD_TAPDELAY :: u32 where "IOCTL_SET_SD_TAPDELAY \<equiv> 7"
abbreviation (input) IOCTL_SET_PLL_FRAC_MODE :: u32 where "IOCTL_SET_PLL_FRAC_MODE \<equiv> 8"
abbreviation (input) IOCTL_GET_PLL_FRAC_MODE :: u32 where "IOCTL_GET_PLL_FRAC_MODE \<equiv> 9"
abbreviation (input) IOCTL_SET_PLL_FRAC_DATA :: u32 where "IOCTL_SET_PLL_FRAC_DATA \<equiv> 10"
abbreviation (input) IOCTL_GET_PLL_FRAC_DATA :: u32 where "IOCTL_GET_PLL_FRAC_DATA \<equiv> 11"
abbreviation (input) IOCTL_WRITE_GGS :: u32 where "IOCTL_WRITE_GGS \<equiv> 12"
abbreviation (input) IOCTL_READ_GGS :: u32 where "IOCTL_READ_GGS \<equiv> 13"
abbreviation (input) IOCTL_WRITE_PGGS :: u32 where "IOCTL_WRITE_PGGS \<equiv> 14"
abbreviation (input) IOCTL_READ_PGGS :: u32 where "IOCTL_READ_PGGS \<equiv> 15"
abbreviation (input) IOCTL_ULPI_RESET :: u32 where "IOCTL_ULPI_RESET \<equiv> 16"
abbreviation (input) IOCTL_SET_BOOT_HEALTH_STATUS :: u32 where "IOCTL_SET_BOOT_HEALTH_STATUS \<equiv> 17"
abbreviation (input) IOCTL_AFI :: u32 where "IOCTL_AFI \<equiv> 18"

section \<open>The controls (pm_api_ioctl.c)\<close>

text \<open>\<open>ret = f(...); if (ret != PM_RET_SUCCESS) return ret;\<close> and on with \<open>g\<close>.\<close>

definition on_success :: "'s pm_api \<Rightarrow> 's pm_api \<Rightarrow> 's pm_api" where
  "on_success f g s = do {
     ((ret, _), s) \<leftarrow> f s;
     if ret \<noteq> PM_RET_SUCCESS then pm_ret ret s else g s
   }"

definition mdelay :: "u32 \<Rightarrow> 'a mach_scheme \<Rightarrow> 'a mach_scheme" where
  "mdelay msec s = fw_call ''mdelay'' [msec] s"

definition pm_ioctl_get_rpu_oper_mode :: "'a mach_scheme pm_api" where
  "pm_ioctl_get_rpu_oper_mode s =
     (let (val, s) = mmio_read_32 ZYNQMP_RPU_GLBL_CNTL s;
          val = val AND ZYNQMP_SLSPLIT_MASK
      in Some ((PM_RET_SUCCESS, [if val = 0 then PM_RPU_MODE_LOCKSTEP else PM_RPU_MODE_SPLIT]), s))"

definition pm_ioctl_set_rpu_oper_mode :: "u32 \<Rightarrow> 'a mach_scheme pm_api" where
  "pm_ioctl_set_rpu_oper_mode mode s =
     (let (rst, s) = mmio_read_32 CRL_APB_RST_LPD_TOP s
      in if rst AND CRL_APB_RPU_AMBA_RESET \<noteq> 0 then pm_ret PM_RET_ERROR_ACCESS s
         else
           let (val, s) = mmio_read_32 ZYNQMP_RPU_GLBL_CNTL s
           in if mode = PM_RPU_MODE_SPLIT then
                pm_ret PM_RET_SUCCESS (mmio_write_32 ZYNQMP_RPU_GLBL_CNTL
                  (((val OR ZYNQMP_SLSPLIT_MASK) AND NOT ZYNQMP_TCM_COMB_MASK) AND NOT ZYNQMP_SLCLAMP_MASK) s)
              else if mode = PM_RPU_MODE_LOCKSTEP then
                pm_ret PM_RET_SUCCESS (mmio_write_32 ZYNQMP_RPU_GLBL_CNTL
                  (((val AND NOT ZYNQMP_SLSPLIT_MASK) OR ZYNQMP_TCM_COMB_MASK) OR ZYNQMP_SLCLAMP_MASK) s)
              else pm_ret PM_RET_ERROR_ARGS s)"

definition pm_ioctl_config_boot_addr :: "u32 \<Rightarrow> u32 \<Rightarrow> 'a mach_scheme pm_api" where
  "pm_ioctl_config_boot_addr nid value s =
     (if nid \<noteq> NODE_RPU_0 \<and> nid \<noteq> NODE_RPU_1 then pm_ret PM_RET_ERROR_ARGS s
      else
        let rpu_cfg_addr = (if nid = NODE_RPU_0 then ZYNQMP_RPU0_CFG else ZYNQMP_RPU1_CFG);
            (val, s) = mmio_read_32 rpu_cfg_addr s
        in if value = PM_RPU_BOOTMEM_LOVEC then
             pm_ret PM_RET_SUCCESS (mmio_write_32 rpu_cfg_addr (val AND NOT ZYNQMP_VINITHI_MASK) s)
           else if value = PM_RPU_BOOTMEM_HIVEC then
             pm_ret PM_RET_SUCCESS (mmio_write_32 rpu_cfg_addr (val OR ZYNQMP_VINITHI_MASK) s)
           else pm_ret PM_RET_ERROR_ARGS s)"

definition pm_ioctl_config_tcm_comb :: "u32 \<Rightarrow> 'a mach_scheme pm_api" where
  "pm_ioctl_config_tcm_comb value s =
     (let (val, s) = mmio_read_32 ZYNQMP_RPU_GLBL_CNTL s
      in if value = PM_RPU_TCM_SPLIT then
           pm_ret PM_RET_SUCCESS (mmio_write_32 ZYNQMP_RPU_GLBL_CNTL (val AND NOT ZYNQMP_TCM_COMB_MASK) s)
         else if value = PM_RPU_TCM_COMB then
           pm_ret PM_RET_SUCCESS (mmio_write_32 ZYNQMP_RPU_GLBL_CNTL (val OR ZYNQMP_TCM_COMB_MASK) s)
         else pm_ret PM_RET_ERROR_ARGS s)"

definition pm_ioctl_set_tapdelay_bypass :: "u32 \<Rightarrow> u32 \<Rightarrow> 'a pm_mach_scheme pm_api" where
  "pm_ioctl_set_tapdelay_bypass type value =
     (if (value \<noteq> PM_TAPDELAY_BYPASS_ENABLE \<and> value \<noteq> PM_TAPDELAY_BYPASS_DISABLE) \<or> type \<ge> PM_TAPDELAY_MAX
      then pm_ret PM_RET_ERROR_ARGS
      else pm_mmio_write IOU_TAPDLY_BYPASS TAP_DELAY_MASK (push_bit (unat type) value))"

definition pm_ioctl_set_sgmii_mode :: "u32 \<Rightarrow> u32 \<Rightarrow> 'a pm_mach_scheme pm_api" where
  "pm_ioctl_set_sgmii_mode nid value =
     (if value \<noteq> PM_SGMII_DISABLE \<and> value \<noteq> PM_SGMII_ENABLE then pm_ret PM_RET_ERROR_ARGS
      else if nid \<noteq> NODE_ETH_0 \<and> nid \<noteq> NODE_ETH_1 \<and> nid \<noteq> NODE_ETH_2 \<and> nid \<noteq> NODE_ETH_3 then pm_ret PM_RET_ERROR_ARGS
      else
        let shift = (if nid = NODE_ETH_0 then 0 else if nid = NODE_ETH_1 then 1 else if nid = NODE_ETH_2 then 2 else 3)
        in if value = PM_SGMII_DISABLE then
             pm_mmio_write IOU_GEM_CLK_CTRL (push_bit (GEM_CLK_CTRL_OFFSET * shift) GEM_SGMII_MASK) 0
           else
             on_success
               (pm_mmio_write IOU_GEM_CTRL (push_bit (SGMII_SD_OFFSET * shift) SGMII_SD_MASK)
                 (push_bit (SGMII_SD_OFFSET * shift) SGMII_PCS_SD_1))
               (pm_mmio_write IOU_GEM_CLK_CTRL (push_bit (GEM_CLK_CTRL_OFFSET * shift) GEM_CLK_CTRL_MASK)
                 (push_bit (GEM_CLK_CTRL_OFFSET * shift) (GEM_RX_SRC_SEL_GTR OR GEM_SGMII_MODE))))"

definition pm_ioctl_sd_dll_reset :: "u32 \<Rightarrow> u32 \<Rightarrow> 'a pm_mach_scheme pm_api" where
  "pm_ioctl_sd_dll_reset nid type =
     (if nid \<noteq> NODE_SD_0 \<and> nid \<noteq> NODE_SD_1 then pm_ret PM_RET_ERROR_ARGS
      else
        let msk = (if nid = NODE_SD_0 then ZYNQMP_SD0_DLL_RST_MASK else ZYNQMP_SD1_DLL_RST_MASK);
            val = (if nid = NODE_SD_0 then ZYNQMP_SD0_DLL_RST else ZYNQMP_SD1_DLL_RST)
        in if type = PM_DLL_RESET_ASSERT then pm_mmio_write ZYNQMP_SD_DLL_CTRL msk val
           else if type = PM_DLL_RESET_PULSE then
             on_success (pm_mmio_write ZYNQMP_SD_DLL_CTRL msk val)
               (\<lambda>s. pm_mmio_write ZYNQMP_SD_DLL_CTRL msk 0 (mdelay 1 s))
           else if type = PM_DLL_RESET_RELEASE then pm_mmio_write ZYNQMP_SD_DLL_CTRL msk 0
           else pm_ret PM_RET_ERROR_ARGS)"

text \<open>
  The writes between asserting and releasing the reset of the delay line; each \<open>goto reset_release\<close>
  leaves them with the status that failed.
\<close>

definition sd_tapdelay_writes :: "nat \<Rightarrow> u32 \<Rightarrow> u32 \<Rightarrow> 'a pm_mach_scheme pm_api" where
  "sd_tapdelay_writes shift type value =
     (if type = PM_TAPDELAY_INPUT then
        on_success (pm_mmio_write ZYNQMP_SD_ITAP_DLY (push_bit shift ZYNQMP_SD_ITAPCHGWIN_MASK) (push_bit shift ZYNQMP_SD_ITAPCHGWIN))
        (on_success (pm_mmio_write ZYNQMP_SD_ITAP_DLY (push_bit shift ZYNQMP_SD_ITAPDLYENA_MASK)
                       (if value = 0 then 0 else push_bit shift ZYNQMP_SD_ITAPDLYENA))
        (on_success (pm_mmio_write ZYNQMP_SD_ITAP_DLY (push_bit shift ZYNQMP_SD_ITAPDLYSEL_MASK) (push_bit shift value))
           (pm_mmio_write ZYNQMP_SD_ITAP_DLY (push_bit shift ZYNQMP_SD_ITAPCHGWIN_MASK) 0)))
      else if type = PM_TAPDELAY_OUTPUT then
        on_success (pm_mmio_write ZYNQMP_SD_OTAP_DLY (push_bit shift ZYNQMP_SD_OTAPDLYENA_MASK) 0)
          (pm_mmio_write ZYNQMP_SD_OTAP_DLY (push_bit shift ZYNQMP_SD_OTAPDLYSEL_MASK) (push_bit shift value))
      else pm_ret PM_RET_ERROR_ARGS)"

definition pm_ioctl_sd_set_tapdelay :: "u32 \<Rightarrow> u32 \<Rightarrow> u32 \<Rightarrow> 'a pm_mach_scheme pm_api" where
  "pm_ioctl_sd_set_tapdelay nid type value s =
     (if nid \<noteq> NODE_SD_0 \<and> nid \<noteq> NODE_SD_1 then pm_ret PM_RET_ERROR_ARGS s
      else do {
        let shift = (if nid = NODE_SD_0 then 0 else ZYNQMP_SD_TAP_OFFSET);
        let msk = (if nid = NODE_SD_0 then ZYNQMP_SD0_DLL_RST_MASK else ZYNQMP_SD1_DLL_RST_MASK);
        ((ret, vs), s) \<leftarrow> pm_mmio_read ZYNQMP_SD_DLL_CTRL s;
        if ret \<noteq> PM_RET_SUCCESS then pm_ret ret s
        else if vs ! 0 AND msk = 0 then
          on_success (pm_ioctl_sd_dll_reset nid PM_DLL_RESET_ASSERT)
            (\<lambda>s. do {
               ((ret, _), s) \<leftarrow> sd_tapdelay_writes shift type value s;
               (_, s) \<leftarrow> pm_ioctl_sd_dll_reset nid PM_DLL_RESET_RELEASE s;
               pm_ret ret s
             }) s
        else sd_tapdelay_writes shift type value s
      })"

definition pm_ioctl_set_pll_frac_data :: "u32 \<Rightarrow> u32 \<Rightarrow> 'a clk_mach_scheme pm_api" where
  "pm_ioctl_set_pll_frac_data pll data s =
     (let (status, nid) = pm_clock_get_pll_node_id pll s
      in if status \<noteq> PM_RET_SUCCESS then pm_ret status s
         else pm_pll_set_parameter (nid ! 0) PM_PLL_PARAM_DATA data s)"

definition pm_ioctl_get_pll_frac_data :: "u32 \<Rightarrow> 'a clk_mach_scheme pm_api" where
  "pm_ioctl_get_pll_frac_data pll s =
     (let (status, nid) = pm_clock_get_pll_node_id pll s
      in if status \<noteq> PM_RET_SUCCESS then pm_ret status s
         else pm_pll_get_parameter (nid ! 0) PM_PLL_PARAM_DATA s)"

definition pm_ioctl_write_ggs :: "u32 \<Rightarrow> u32 \<Rightarrow> 'a pm_mach_scheme pm_api" where
  "pm_ioctl_write_ggs index value =
     (if index \<ge> GGS_NUM_REGS then pm_ret PM_RET_ERROR_ARGS
      else pm_mmio_write (GGS_BASEADDR + push_bit 2 index) 0xFFFFFFFF value)"

definition pm_ioctl_read_ggs :: "u32 \<Rightarrow> 'a pm_mach_scheme pm_api" where
  "pm_ioctl_read_ggs index =
     (if index \<ge> GGS_NUM_REGS then pm_ret PM_RET_ERROR_ARGS
      else pm_mmio_read (GGS_BASEADDR + push_bit 2 index))"

definition pm_ioctl_write_pggs :: "u32 \<Rightarrow> u32 \<Rightarrow> 'a pm_mach_scheme pm_api" where
  "pm_ioctl_write_pggs index value =
     (if index \<ge> PGGS_NUM_REGS then pm_ret PM_RET_ERROR_ARGS
      else pm_mmio_write (PGGS_BASEADDR + push_bit 2 index) 0xFFFFFFFF value)"

definition afi_regs :: "u32 list" where
  "afi_regs = [0xFD360000, 0xFD360014, 0xFD370000, 0xFD370014, 0xFD380000, 0xFD380014, 0xFD390000, 0xFD390014,
     0xFD3a0000, 0xFD3a0014, 0xFD3b0000, 0xFD3b0014, 0xFF9b0000, 0xFF9b0014, 0xFD615000, 0xFF419000]"

definition pm_ioctl_afi :: "u32 \<Rightarrow> u32 \<Rightarrow> 'a pm_mach_scheme pm_api" where
  "pm_ioctl_afi index value =
     (if unat index \<ge> length afi_regs then pm_ret PM_RET_ERROR_ARGS
      else
        let msk = (if index < AFIFM6_WRCTRL then FABRIC_WIDTH else 0xf00)
        in pm_mmio_write (afi_regs ! unat index) msk value)"

definition pm_ioctl_read_pggs :: "u32 \<Rightarrow> 'a pm_mach_scheme pm_api" where
  "pm_ioctl_read_pggs index =
     (if index \<ge> PGGS_NUM_REGS then pm_ret PM_RET_ERROR_ARGS
      else pm_mmio_read (PGGS_BASEADDR + push_bit 2 index))"

definition pm_ioctl_ulpi_reset :: "'a pm_mach_scheme pm_api" where
  "pm_ioctl_ulpi_reset =
     on_success (pm_mmio_write CRL_APB_BOOT_PIN_CTRL CRL_APB_BOOT_PIN_MASK ZYNQMP_ULPI_RESET_VAL_HIGH)
       (\<lambda>s. on_success (pm_mmio_write CRL_APB_BOOT_PIN_CTRL CRL_APB_BOOT_PIN_MASK ZYNQMP_ULPI_RESET_VAL_LOW)
          (\<lambda>s. pm_mmio_write CRL_APB_BOOT_PIN_CTRL CRL_APB_BOOT_PIN_MASK ZYNQMP_ULPI_RESET_VAL_HIGH (mdelay 1 s))
          (mdelay 1 s))"

definition pm_ioctl_set_boot_health_status :: "u32 \<Rightarrow> 'a pm_mach_scheme pm_api" where
  "pm_ioctl_set_boot_health_status value = pm_mmio_write PMU_GLOBAL_GEN_STORAGE4 PM_BOOT_HEALTH_STATUS_MASK value"

text \<open>
  The dispatcher.  \<open>pm_ioctl_set_pll_frac_mode\<close> and \<open>pm_ioctl_get_pll_frac_mode\<close> only call the
  functions of the clock component, and \<open>pm_ioctl\<close> of \<open>pm_api_sys.c\<close> only calls this function.
\<close>

definition pm_api_ioctl :: "u32 \<Rightarrow> u32 \<Rightarrow> u32 \<Rightarrow> u32 \<Rightarrow> 'a clk_mach_scheme pm_api" where
  "pm_api_ioctl nid ioctl_id arg1 arg2 =
     (if ioctl_id = IOCTL_GET_RPU_OPER_MODE then pm_ioctl_get_rpu_oper_mode
      else if ioctl_id = IOCTL_SET_RPU_OPER_MODE then pm_ioctl_set_rpu_oper_mode arg1
      else if ioctl_id = IOCTL_RPU_BOOT_ADDR_CONFIG then pm_ioctl_config_boot_addr nid arg1
      else if ioctl_id = IOCTL_TCM_COMB_CONFIG then pm_ioctl_config_tcm_comb arg1
      else if ioctl_id = IOCTL_SET_TAPDELAY_BYPASS then pm_ioctl_set_tapdelay_bypass arg1 arg2
      else if ioctl_id = IOCTL_SET_SGMII_MODE then pm_ioctl_set_sgmii_mode nid arg1
      else if ioctl_id = IOCTL_SD_DLL_RESET then pm_ioctl_sd_dll_reset nid arg1
      else if ioctl_id = IOCTL_SET_SD_TAPDELAY then pm_ioctl_sd_set_tapdelay nid arg1 arg2
      else if ioctl_id = IOCTL_SET_PLL_FRAC_MODE then pm_clock_set_pll_mode arg1 arg2
      else if ioctl_id = IOCTL_GET_PLL_FRAC_MODE then pm_clock_get_pll_mode arg1
      else if ioctl_id = IOCTL_SET_PLL_FRAC_DATA then pm_ioctl_set_pll_frac_data arg1 arg2
      else if ioctl_id = IOCTL_GET_PLL_FRAC_DATA then pm_ioctl_get_pll_frac_data arg1
      else if ioctl_id = IOCTL_WRITE_GGS then pm_ioctl_write_ggs arg1 arg2
      else if ioctl_id = IOCTL_READ_GGS then pm_ioctl_read_ggs arg1
      else if ioctl_id = IOCTL_WRITE_PGGS then pm_ioctl_write_pggs arg1 arg2
      else if ioctl_id = IOCTL_READ_PGGS then pm_ioctl_read_pggs arg1
      else if ioctl_id = IOCTL_ULPI_RESET then pm_ioctl_ulpi_reset
      else if ioctl_id = IOCTL_SET_BOOT_HEALTH_STATUS then pm_ioctl_set_boot_health_status arg1
      else if ioctl_id = IOCTL_AFI then pm_ioctl_afi arg1 arg2
      else if ioctl_id = IOCTL_SET_FEATURE_CONFIG \<or> ioctl_id = IOCTL_GET_FEATURE_CONFIG then
        pm_feature_config ioctl_id arg1 arg2
      else pm_ret PM_RET_ERROR_NOTSUPPORTED)"

section \<open>Every control returns\<close>

lemma runs_on_success [pm_runs]: "pml.runs b f \<Longrightarrow> pml.runs b g \<Longrightarrow> pml.runs b (on_success f g)"
  unfolding on_success_def by (intro pml.runs_bind pml.runs_prod pml.runs_if pm_runs)

lemma pm_ok_mdelay [simp]: "pm_ok b (mdelay n s) = pm_ok b s"
  by (simp add: mdelay_def)

lemma runs_direct [pm_runs]:
  "pml.runs b pm_ioctl_get_rpu_oper_mode"
  "pml.runs b (pm_ioctl_set_rpu_oper_mode m)"
  "pml.runs b (pm_ioctl_config_boot_addr u m)"
  "pml.runs b (pm_ioctl_config_tcm_comb m)"
  by (auto intro!: pml.runsI simp: pm_ioctl_get_rpu_oper_mode_def pm_ioctl_set_rpu_oper_mode_def
      pm_ioctl_config_boot_addr_def pm_ioctl_config_tcm_comb_def pm_ret_def case_prod_unfold Let_def)

lemma runs_dll_reset [pm_runs]: "pml.runs b (pm_ioctl_sd_dll_reset u t)"
proof -
  have w: "pml.runs b (\<lambda>s. pm_mmio_write ZYNQMP_SD_DLL_CTRL m 0 (mdelay 1 s))" for m
    by (rule pml.runs_pre) (simp_all add: pm_runs)
  show ?thesis by (simp add: pm_ioctl_sd_dll_reset_def Let_def pm_runs runs_on_success [OF runs_api(16) w])
qed

lemma runs_tapdelay [pm_runs]: "pml.runs b (pm_ioctl_sd_set_tapdelay u t v)"
proof -
  have w: "pml.runs b (sd_tapdelay_writes k t v)" for k
    by (simp add: sd_tapdelay_writes_def pm_runs)
  show ?thesis
    unfolding pm_ioctl_sd_set_tapdelay_def Let_def
    by (intro pml.runs_if pml.runs_bind pml.runs_prod pm_runs w)
qed

lemma runs_ulpi [pm_runs]: "pml.runs b pm_ioctl_ulpi_reset"
  unfolding pm_ioctl_ulpi_reset_def
  by (intro runs_on_success pml.runs_pre [of _ _ "mdelay 1"] runs_api) simp_all

lemma runs_frac_data [pm_runs]:
  "pml.runs b (pm_ioctl_set_pll_frac_data u v)" "pml.runs b (pm_ioctl_get_pll_frac_data u)"
  unfolding pm_ioctl_set_pll_frac_data_def pm_ioctl_get_pll_frac_data_def case_prod_unfold Let_def
  by (rule pml.runs_if, rule pml.runs_at, rule runs_pm_ret,
      rule pml.runs_at [where f = "\<lambda>n. pm_pll_set_parameter n PM_PLL_PARAM_DATA v"], rule runs_api)
    (rule pml.runs_if, rule pml.runs_at, rule runs_pm_ret,
      rule pml.runs_at [where f = "\<lambda>n. pm_pll_get_parameter n PM_PLL_PARAM_DATA"], rule runs_api)

lemma runs_modes [pm_runs]:
  "pml.runs b (pm_ioctl_set_sgmii_mode u v)" "pml.runs b (pm_ioctl_set_tapdelay_bypass u v)"
  by (simp_all add: pm_ioctl_set_sgmii_mode_def pm_ioctl_set_tapdelay_bypass_def Let_def pm_runs)

lemma runs_ioctl [pm_runs]: "pml.runs b (pm_api_ioctl nid ioctl_id arg1 arg2)"
  by (simp add: pm_api_ioctl_def pm_ioctl_write_ggs_def pm_ioctl_read_ggs_def pm_ioctl_write_pggs_def
      pm_ioctl_read_pggs_def pm_ioctl_afi_def pm_ioctl_set_boot_health_status_def Let_def pm_runs)

section \<open>The requests of a run\<close>

text \<open>Every request of the run from \<open>s\<close> to \<open>s'\<close> satisfies \<open>Q\<close>.\<close>

definition only_reqs :: "(u32 list \<Rightarrow> bool) \<Rightarrow> 'a pm_mach_scheme \<Rightarrow> 'a pm_mach_scheme \<Rightarrow> bool" where
  "only_reqs Q s s' \<longleftrightarrow> (pm_idle s \<longrightarrow> pm_idle s' \<and>
     (\<exists>es. m_evs s' = m_evs s @ es \<and> (\<forall>buf. list_all Q (pm_reqs buf es))))"

lemma only_reqs_trans: "only_reqs Q s t \<Longrightarrow> only_reqs Q t u \<Longrightarrow> only_reqs Q s u"
  unfolding only_reqs_def by (auto simp: pm_reqs_append)

interpretation rq: step_logic "only_reqs Q" for Q
  by unfold_locales (simp add: only_reqs_def, rule only_reqs_trans)

named_theorems reqs \<open>calls and the requests they make\<close>

lemma pm_idle_bus:
  "pm_idle (mmio_write_32 a v s) = pm_idle s" "pm_idle (snd (mmio_read_32 a s)) = pm_idle s" "pm_idle (mdelay n s) = pm_idle s"
  by (rule pm_idle_more; simp add: mdelay_def)+

lemma only_bus:
  "only_reqs Q s (snd (mmio_read_32 a s))" "only_reqs Q s (mdelay n s)"
  "a \<noteq> 0xFF300000 \<Longrightarrow> only_reqs Q s (mmio_write_32 a v s)"
  by (simp_all add: only_reqs_def pm_idle_bus) (simp_all add: mdelay_def)

lemma reqs_pm_req:
  assumes "\<And>p. (\<forall>i < length args. p i = args ! i) \<Longrightarrow> Q (map p [0..<6])"
  shows "rq.keeps Q (pm_req args n)"
proof (rule rq.keepsI)
  fix s s' :: "'a pm_mach_scheme" and r
  assume r: "pm_req args n s = Some (r, s')"
  have "Q (map (pm_pack args s) [0..<6])" by (rule assms) (simp add: pm_pack_def)
  then show "only_reqs Q s s'"
    unfolding only_reqs_def
    by (cases r) (metis r pm_req_def send_sync_apu pm_reqs_apu list.pred_inject)
qed

lemma reqs_pm_ret [reqs]: "rq.keeps Q (pm_ret e)"
  unfolding pm_ret_def by (rule rq.keeps_ret) (rule rq.R_refl)

lemma reqs_on_success [reqs]: "rq.keeps Q f \<Longrightarrow> rq.keeps Q g \<Longrightarrow> rq.keeps Q (on_success f g)"
  unfolding on_success_def by (intro rq.keeps_bind rq.keeps_prod rq.keeps_if reqs_pm_ret)

text \<open>A write by the firmware that leaves the restart scope of the warm restart alone.\<close>

definition scope_kept :: "u32 list \<Rightarrow> bool" where
  "scope_kept ws \<longleftrightarrow>
     \<not> (ws ! 0 = PM_MMIO_WRITE \<and> ws ! 1 = PMU_GLOBAL_GEN_STORAGE4 \<and> ws ! 2 AND RESTART_SCOPE_MASK \<noteq> 0)"

lemma scope_other [reqs]: "op \<noteq> PM_MMIO_WRITE \<Longrightarrow> rq.keeps scope_kept (pm_req (op # args) n)"
  by (rule reqs_pm_req) (auto simp: scope_kept_def)

lemma scope_write [reqs]:
  assumes "a \<noteq> PMU_GLOBAL_GEN_STORAGE4 \<or> msk AND RESTART_SCOPE_MASK = 0"
  shows "rq.keeps scope_kept (pm_mmio_write a msk v)"
  unfolding pm_mmio_write_def using assms
  by (intro reqs_pm_req) (auto simp: scope_kept_def less_Suc_eq_0_disj numeral_eq_Suc)

lemma scope_read [reqs]: "rq.keeps scope_kept (pm_mmio_read a)"
  unfolding pm_mmio_read_def by (rule scope_other) simp

lemma scope_direct [reqs]:
  "rq.keeps Q pm_ioctl_get_rpu_oper_mode" "rq.keeps Q (pm_ioctl_set_rpu_oper_mode m)"
  "rq.keeps Q (pm_ioctl_config_boot_addr u m)" "rq.keeps Q (pm_ioctl_config_tcm_comb m)"
  unfolding pm_ioctl_get_rpu_oper_mode_def pm_ioctl_set_rpu_oper_mode_def pm_ioctl_config_boot_addr_def
    pm_ioctl_config_tcm_comb_def
  by (auto intro!: rq.keepsI only_bus(1) rq.R_trans [OF only_bus(1) only_bus(1)] rq.R_trans [OF only_bus(1) only_bus(3)]
        rq.R_trans [OF only_bus(1) rq.R_trans [OF only_bus(1) only_bus(3)]]
      simp: pm_ret_def case_prod_unfold Let_def rq.R_refl split: if_splits)

lemma ggs_addr:
  fixes i :: u32
  assumes "i < 4"
  shows "0xFFD80030 + push_bit 2 i \<noteq> 0xFFD80040" "0xFFD80050 + push_bit 2 i \<noteq> 0xFFD80040"
proof -
  from assms have "unat i \<in> {0, 1, 2, 3}" by (auto simp: word_less_nat_alt)
  then have "i \<in> {0, 1, 2, 3}" by (auto simp: word_unat_eq_iff)
  then show "0xFFD80030 + push_bit 2 i \<noteq> 0xFFD80040" "0xFFD80050 + push_bit 2 i \<noteq> 0xFFD80040" by auto
qed

lemma afi_addr:
  assumes "unat i < length afi_regs"
  shows "afi_regs ! unat i \<noteq> PMU_GLOBAL_GEN_STORAGE4"
proof -
  have "list_all (\<lambda>a. a \<noteq> PMU_GLOBAL_GEN_STORAGE4) afi_regs" by (simp add: afi_regs_def)
  then show ?thesis using assms by (simp add: list_all_length)
qed

lemma scope_after_delay: "rq.keeps Q f \<Longrightarrow> rq.keeps Q (\<lambda>s. f (mdelay n s))"
  by (rule rq.keeps_after [OF only_bus(2)])

lemma scope_dll [reqs]: "rq.keeps scope_kept (pm_ioctl_sd_dll_reset u t)"
  by (simp add: pm_ioctl_sd_dll_reset_def Let_def reqs reqs_on_success scope_after_delay [of _ "pm_mmio_write _ _ _"])

lemma scope_tapdelay [reqs]: "rq.keeps scope_kept (pm_ioctl_sd_set_tapdelay u t v)"
proof -
  have w: "rq.keeps scope_kept (sd_tapdelay_writes k t v)" for k
    by (simp add: sd_tapdelay_writes_def reqs)
  show ?thesis
    unfolding pm_ioctl_sd_set_tapdelay_def Let_def
    by (rule rq.keeps_if, rule reqs_pm_ret, rule rq.keeps_bind, rule scope_read, rule rq.keeps_prod,
        rule rq.keeps_if, rule reqs_pm_ret, rule rq.keeps_if, rule reqs_on_success, rule scope_dll,
        rule rq.keeps_bind, rule w, rule rq.keeps_prod, rule rq.keeps_bind, rule scope_dll, rule reqs_pm_ret, rule w)
qed

lemma only_plls: "only_reqs Q s (s\<lparr>pm_plls := ps\<rparr>)"
  by (simp add: only_reqs_def pm_idle_def)

lemma scope_pll_mode [reqs]:
  "rq.keeps Q (pm_clock_set_pll_mode u v)" "rq.keeps Q (pm_clock_get_pll_mode u)"
  by (auto intro!: rq.keepsI only_plls simp: pm_clock_set_pll_mode_def pm_clock_get_pll_mode_def pm_ret_def rq.R_refl
      split: option.splits if_splits)

lemma scope_pll_parameter [reqs]:
  "rq.keeps scope_kept (pm_pll_set_parameter n w x)" "rq.keeps scope_kept (pm_pll_get_parameter n w)"
  by (simp_all add: pm_pll_set_parameter_def pm_pll_get_parameter_def reqs)

lemma scope_frac_data [reqs]:
  "rq.keeps scope_kept (pm_ioctl_set_pll_frac_data u v)" "rq.keeps scope_kept (pm_ioctl_get_pll_frac_data u)"
  unfolding pm_ioctl_set_pll_frac_data_def pm_ioctl_get_pll_frac_data_def
  by (auto intro!: rq.keepsI simp: case_prod_unfold Let_def pm_ret_def rq.R_refl split: if_splits
      dest: rq.keepsD [OF scope_pll_parameter(1)] rq.keepsD [OF scope_pll_parameter(2)])

lemma scope_modes [reqs]:
  "rq.keeps scope_kept (pm_ioctl_set_sgmii_mode u v)" "rq.keeps scope_kept (pm_ioctl_set_tapdelay_bypass u v)"
  by (simp_all add: pm_ioctl_set_sgmii_mode_def pm_ioctl_set_tapdelay_bypass_def Let_def reqs)

lemma scope_storage [reqs]:
  "rq.keeps scope_kept (pm_ioctl_write_ggs u v)" "rq.keeps scope_kept (pm_ioctl_read_ggs u)"
  "rq.keeps scope_kept (pm_ioctl_write_pggs u v)" "rq.keeps scope_kept (pm_ioctl_read_pggs u)"
  "rq.keeps scope_kept (pm_ioctl_set_boot_health_status u)"
  by (simp_all add: pm_ioctl_write_ggs_def pm_ioctl_read_ggs_def pm_ioctl_write_pggs_def pm_ioctl_read_pggs_def
      pm_ioctl_set_boot_health_status_def ggs_addr not_le reqs)

lemma scope_afi [reqs]: "rq.keeps scope_kept (pm_ioctl_afi u v)"
proof (cases "unat u < length afi_regs")
  case True
  then show ?thesis by (simp add: pm_ioctl_afi_def Let_def scope_write [OF disjI1 [OF afi_addr [OF True]]])
next
  case False
  then show ?thesis by (simp add: pm_ioctl_afi_def reqs)
qed

lemma scope_ulpi [reqs]: "rq.keeps scope_kept pm_ioctl_ulpi_reset"
  unfolding pm_ioctl_ulpi_reset_def
  by (rule reqs_on_success, rule scope_write, simp, rule scope_after_delay, rule reqs_on_success, rule scope_write, simp,
      rule scope_after_delay, rule scope_write, simp)

lemma scope_feature [reqs]: "rq.keeps scope_kept (pm_feature_config u v w)"
  by (simp add: pm_feature_config_def Let_def reqs)

lemma scope_ioctl: "rq.keeps scope_kept (pm_api_ioctl nid ioctl_id arg1 arg2)"
  unfolding pm_api_ioctl_def by (simp add: reqs)

section \<open>Property\<close>

text \<open>
  C23.  No device control can change the scope of the warm restart.  With a live power management
  firmware every control call, for every node, number and arguments, returns with the channel idle,
  and no request it made writes a bit of the restart scope in \<open>PMU_GLOBAL_GEN_STORAGE4\<close>, the
  register from which \<open>zynqmp_sgi7_irq\<close> takes what to restart: the storage controls reach only their
  own registers, and the boot health control only its own bit of that register.
\<close>

theorem ioctl_keeps_restart_scope:
  assumes "pm_ok b s"
  shows "\<exists>r s'. pm_api_ioctl nid ioctl_id arg1 arg2 s = Some (r, s') \<and> pm_ok b s' \<and>
    (\<forall>ws \<in> set (pm_reqs buf (since s s')).
       ws ! 0 = PM_MMIO_WRITE \<and> ws ! 1 = PMU_GLOBAL_GEN_STORAGE4 \<longrightarrow> ws ! 2 AND RESTART_SCOPE_MASK = 0)"
proof -
  from pml.runsE [OF runs_ioctl assms] obtain r s' where
    r: "pm_api_ioctl nid ioctl_id arg1 arg2 s = Some (r, s')" "pm_ok b s'" by blast
  have "list_all scope_kept (pm_reqs buf (since s s'))"
    using rq.keepsD [OF scope_ioctl r(1)] assms by (auto simp: only_reqs_def pm_ok_def since_def)
  with r show ?thesis by (auto simp: list_all_iff scope_kept_def)
qed

lemma test_clk_ok: "pm_ok False test_clk"
  by (simp add: pm_ok_def pm_idle_def pmu_live_def test_clk_def svc_mach.defs test_svc_simps plat_my_core_pos_def
      zynqmp_calc_core_pos_def)

theorem ioctl_keeps_restart_scope_witness:
  "\<exists>r s'. pm_api_ioctl 0 IOCTL_SET_BOOT_HEALTH_STATUS 0xFFFFFFFF 0 test_clk = Some (r, s') \<and> pm_ok False s'"
  using ioctl_keeps_restart_scope [OF test_clk_ok, of 0 IOCTL_SET_BOOT_HEALTH_STATUS "0xFFFFFFFF" 0 "\<lambda>_. 0"] by auto

end
