(* ===== verification/PM_Pin_Tables.thy ===== *)
theory PM_Pin_Tables
  imports Prelude
begin

text \<open>
  The pin control tables of \<open>plat/xilinx/zynqmp/pm_service/pm_api_pinctrl.c\<close>: the functions with their
  names, register values and groups, and the groups of each pin.  The designated initialisers of both
  arrays are in ascending order and complete, so that the arrays are lists; a group array is a list
  that includes its end mark.  Group numbers are those of \<open>pm_api_pinctrl.h\<close>.
\<close>

section \<open>Constants (pm_api_pinctrl.h)\<close>

abbreviation (input) FUNCTION_NAME_LEN :: nat where "FUNCTION_NAME_LEN \<equiv> 16"
abbreviation (input) NUM_GROUPS_PER_RESP :: nat where "NUM_GROUPS_PER_RESP \<equiv> 6"
abbreviation (input) END_OF_GROUPS :: u16 where "END_OF_GROUPS \<equiv> - 1"
abbreviation (input) PINCTRL_GRP_RESERVED :: u16 where "PINCTRL_GRP_RESERVED \<equiv> - 2"
abbreviation (input) MAX_FUNCTION :: u32 where "MAX_FUNCTION \<equiv> 57"
abbreviation (input) MAX_PIN :: u32 where "MAX_PIN \<equiv> 78"

abbreviation (input) PINCTRL_GRP_ETHERNET0_0 :: u16 where "PINCTRL_GRP_ETHERNET0_0 \<equiv> 0"
abbreviation (input) PINCTRL_GRP_ETHERNET1_0 :: u16 where "PINCTRL_GRP_ETHERNET1_0 \<equiv> 1"
abbreviation (input) PINCTRL_GRP_ETHERNET2_0 :: u16 where "PINCTRL_GRP_ETHERNET2_0 \<equiv> 2"
abbreviation (input) PINCTRL_GRP_ETHERNET3_0 :: u16 where "PINCTRL_GRP_ETHERNET3_0 \<equiv> 3"
abbreviation (input) PINCTRL_GRP_GEMTSU0_0 :: u16 where "PINCTRL_GRP_GEMTSU0_0 \<equiv> 4"
abbreviation (input) PINCTRL_GRP_GEMTSU0_1 :: u16 where "PINCTRL_GRP_GEMTSU0_1 \<equiv> 5"
abbreviation (input) PINCTRL_GRP_GEMTSU0_2 :: u16 where "PINCTRL_GRP_GEMTSU0_2 \<equiv> 6"
abbreviation (input) PINCTRL_GRP_MDIO0_0 :: u16 where "PINCTRL_GRP_MDIO0_0 \<equiv> 7"
abbreviation (input) PINCTRL_GRP_MDIO1_0 :: u16 where "PINCTRL_GRP_MDIO1_0 \<equiv> 8"
abbreviation (input) PINCTRL_GRP_MDIO1_1 :: u16 where "PINCTRL_GRP_MDIO1_1 \<equiv> 9"
abbreviation (input) PINCTRL_GRP_MDIO2_0 :: u16 where "PINCTRL_GRP_MDIO2_0 \<equiv> 10"
abbreviation (input) PINCTRL_GRP_MDIO3_0 :: u16 where "PINCTRL_GRP_MDIO3_0 \<equiv> 11"
abbreviation (input) PINCTRL_GRP_QSPI0_0 :: u16 where "PINCTRL_GRP_QSPI0_0 \<equiv> 12"
abbreviation (input) PINCTRL_GRP_QSPI_SS :: u16 where "PINCTRL_GRP_QSPI_SS \<equiv> 13"
abbreviation (input) PINCTRL_GRP_QSPI_FBCLK :: u16 where "PINCTRL_GRP_QSPI_FBCLK \<equiv> 14"
abbreviation (input) PINCTRL_GRP_SPI0_0 :: u16 where "PINCTRL_GRP_SPI0_0 \<equiv> 15"
abbreviation (input) PINCTRL_GRP_SPI0_0_SS0 :: u16 where "PINCTRL_GRP_SPI0_0_SS0 \<equiv> 16"
abbreviation (input) PINCTRL_GRP_SPI0_0_SS1 :: u16 where "PINCTRL_GRP_SPI0_0_SS1 \<equiv> 17"
abbreviation (input) PINCTRL_GRP_SPI0_0_SS2 :: u16 where "PINCTRL_GRP_SPI0_0_SS2 \<equiv> 18"
abbreviation (input) PINCTRL_GRP_SPI0_1 :: u16 where "PINCTRL_GRP_SPI0_1 \<equiv> 19"
abbreviation (input) PINCTRL_GRP_SPI0_1_SS0 :: u16 where "PINCTRL_GRP_SPI0_1_SS0 \<equiv> 20"
abbreviation (input) PINCTRL_GRP_SPI0_1_SS1 :: u16 where "PINCTRL_GRP_SPI0_1_SS1 \<equiv> 21"
abbreviation (input) PINCTRL_GRP_SPI0_1_SS2 :: u16 where "PINCTRL_GRP_SPI0_1_SS2 \<equiv> 22"
abbreviation (input) PINCTRL_GRP_SPI0_2 :: u16 where "PINCTRL_GRP_SPI0_2 \<equiv> 23"
abbreviation (input) PINCTRL_GRP_SPI0_2_SS0 :: u16 where "PINCTRL_GRP_SPI0_2_SS0 \<equiv> 24"
abbreviation (input) PINCTRL_GRP_SPI0_2_SS1 :: u16 where "PINCTRL_GRP_SPI0_2_SS1 \<equiv> 25"
abbreviation (input) PINCTRL_GRP_SPI0_2_SS2 :: u16 where "PINCTRL_GRP_SPI0_2_SS2 \<equiv> 26"
abbreviation (input) PINCTRL_GRP_SPI0_3 :: u16 where "PINCTRL_GRP_SPI0_3 \<equiv> 27"
abbreviation (input) PINCTRL_GRP_SPI0_3_SS0 :: u16 where "PINCTRL_GRP_SPI0_3_SS0 \<equiv> 28"
abbreviation (input) PINCTRL_GRP_SPI0_3_SS1 :: u16 where "PINCTRL_GRP_SPI0_3_SS1 \<equiv> 29"
abbreviation (input) PINCTRL_GRP_SPI0_3_SS2 :: u16 where "PINCTRL_GRP_SPI0_3_SS2 \<equiv> 30"
abbreviation (input) PINCTRL_GRP_SPI0_4 :: u16 where "PINCTRL_GRP_SPI0_4 \<equiv> 31"
abbreviation (input) PINCTRL_GRP_SPI0_4_SS0 :: u16 where "PINCTRL_GRP_SPI0_4_SS0 \<equiv> 32"
abbreviation (input) PINCTRL_GRP_SPI0_4_SS1 :: u16 where "PINCTRL_GRP_SPI0_4_SS1 \<equiv> 33"
abbreviation (input) PINCTRL_GRP_SPI0_4_SS2 :: u16 where "PINCTRL_GRP_SPI0_4_SS2 \<equiv> 34"
abbreviation (input) PINCTRL_GRP_SPI0_5 :: u16 where "PINCTRL_GRP_SPI0_5 \<equiv> 35"
abbreviation (input) PINCTRL_GRP_SPI0_5_SS0 :: u16 where "PINCTRL_GRP_SPI0_5_SS0 \<equiv> 36"
abbreviation (input) PINCTRL_GRP_SPI0_5_SS1 :: u16 where "PINCTRL_GRP_SPI0_5_SS1 \<equiv> 37"
abbreviation (input) PINCTRL_GRP_SPI0_5_SS2 :: u16 where "PINCTRL_GRP_SPI0_5_SS2 \<equiv> 38"
abbreviation (input) PINCTRL_GRP_SPI1_0 :: u16 where "PINCTRL_GRP_SPI1_0 \<equiv> 39"
abbreviation (input) PINCTRL_GRP_SPI1_0_SS0 :: u16 where "PINCTRL_GRP_SPI1_0_SS0 \<equiv> 40"
abbreviation (input) PINCTRL_GRP_SPI1_0_SS1 :: u16 where "PINCTRL_GRP_SPI1_0_SS1 \<equiv> 41"
abbreviation (input) PINCTRL_GRP_SPI1_0_SS2 :: u16 where "PINCTRL_GRP_SPI1_0_SS2 \<equiv> 42"
abbreviation (input) PINCTRL_GRP_SPI1_1 :: u16 where "PINCTRL_GRP_SPI1_1 \<equiv> 43"
abbreviation (input) PINCTRL_GRP_SPI1_1_SS0 :: u16 where "PINCTRL_GRP_SPI1_1_SS0 \<equiv> 44"
abbreviation (input) PINCTRL_GRP_SPI1_1_SS1 :: u16 where "PINCTRL_GRP_SPI1_1_SS1 \<equiv> 45"
abbreviation (input) PINCTRL_GRP_SPI1_1_SS2 :: u16 where "PINCTRL_GRP_SPI1_1_SS2 \<equiv> 46"
abbreviation (input) PINCTRL_GRP_SPI1_2 :: u16 where "PINCTRL_GRP_SPI1_2 \<equiv> 47"
abbreviation (input) PINCTRL_GRP_SPI1_2_SS0 :: u16 where "PINCTRL_GRP_SPI1_2_SS0 \<equiv> 48"
abbreviation (input) PINCTRL_GRP_SPI1_2_SS1 :: u16 where "PINCTRL_GRP_SPI1_2_SS1 \<equiv> 49"
abbreviation (input) PINCTRL_GRP_SPI1_2_SS2 :: u16 where "PINCTRL_GRP_SPI1_2_SS2 \<equiv> 50"
abbreviation (input) PINCTRL_GRP_SPI1_3 :: u16 where "PINCTRL_GRP_SPI1_3 \<equiv> 51"
abbreviation (input) PINCTRL_GRP_SPI1_3_SS0 :: u16 where "PINCTRL_GRP_SPI1_3_SS0 \<equiv> 52"
abbreviation (input) PINCTRL_GRP_SPI1_3_SS1 :: u16 where "PINCTRL_GRP_SPI1_3_SS1 \<equiv> 53"
abbreviation (input) PINCTRL_GRP_SPI1_3_SS2 :: u16 where "PINCTRL_GRP_SPI1_3_SS2 \<equiv> 54"
abbreviation (input) PINCTRL_GRP_SPI1_4 :: u16 where "PINCTRL_GRP_SPI1_4 \<equiv> 55"
abbreviation (input) PINCTRL_GRP_SPI1_4_SS0 :: u16 where "PINCTRL_GRP_SPI1_4_SS0 \<equiv> 56"
abbreviation (input) PINCTRL_GRP_SPI1_4_SS1 :: u16 where "PINCTRL_GRP_SPI1_4_SS1 \<equiv> 57"
abbreviation (input) PINCTRL_GRP_SPI1_4_SS2 :: u16 where "PINCTRL_GRP_SPI1_4_SS2 \<equiv> 58"
abbreviation (input) PINCTRL_GRP_SPI1_5 :: u16 where "PINCTRL_GRP_SPI1_5 \<equiv> 59"
abbreviation (input) PINCTRL_GRP_SPI1_5_SS0 :: u16 where "PINCTRL_GRP_SPI1_5_SS0 \<equiv> 60"
abbreviation (input) PINCTRL_GRP_SPI1_5_SS1 :: u16 where "PINCTRL_GRP_SPI1_5_SS1 \<equiv> 61"
abbreviation (input) PINCTRL_GRP_SPI1_5_SS2 :: u16 where "PINCTRL_GRP_SPI1_5_SS2 \<equiv> 62"
abbreviation (input) PINCTRL_GRP_SDIO0_0 :: u16 where "PINCTRL_GRP_SDIO0_0 \<equiv> 63"
abbreviation (input) PINCTRL_GRP_SDIO0_1 :: u16 where "PINCTRL_GRP_SDIO0_1 \<equiv> 64"
abbreviation (input) PINCTRL_GRP_SDIO0_2 :: u16 where "PINCTRL_GRP_SDIO0_2 \<equiv> 65"
abbreviation (input) PINCTRL_GRP_SDIO0_4BIT_0_0 :: u16 where "PINCTRL_GRP_SDIO0_4BIT_0_0 \<equiv> 66"
abbreviation (input) PINCTRL_GRP_SDIO0_4BIT_0_1 :: u16 where "PINCTRL_GRP_SDIO0_4BIT_0_1 \<equiv> 67"
abbreviation (input) PINCTRL_GRP_SDIO0_4BIT_1_0 :: u16 where "PINCTRL_GRP_SDIO0_4BIT_1_0 \<equiv> 68"
abbreviation (input) PINCTRL_GRP_SDIO0_4BIT_1_1 :: u16 where "PINCTRL_GRP_SDIO0_4BIT_1_1 \<equiv> 69"
abbreviation (input) PINCTRL_GRP_SDIO0_4BIT_2_0 :: u16 where "PINCTRL_GRP_SDIO0_4BIT_2_0 \<equiv> 70"
abbreviation (input) PINCTRL_GRP_SDIO0_4BIT_2_1 :: u16 where "PINCTRL_GRP_SDIO0_4BIT_2_1 \<equiv> 71"
abbreviation (input) PINCTRL_GRP_SDIO0_1BIT_0_0 :: u16 where "PINCTRL_GRP_SDIO0_1BIT_0_0 \<equiv> 72"
abbreviation (input) PINCTRL_GRP_SDIO0_1BIT_0_1 :: u16 where "PINCTRL_GRP_SDIO0_1BIT_0_1 \<equiv> 73"
abbreviation (input) PINCTRL_GRP_SDIO0_1BIT_0_2 :: u16 where "PINCTRL_GRP_SDIO0_1BIT_0_2 \<equiv> 74"
abbreviation (input) PINCTRL_GRP_SDIO0_1BIT_0_3 :: u16 where "PINCTRL_GRP_SDIO0_1BIT_0_3 \<equiv> 75"
abbreviation (input) PINCTRL_GRP_SDIO0_1BIT_0_4 :: u16 where "PINCTRL_GRP_SDIO0_1BIT_0_4 \<equiv> 76"
abbreviation (input) PINCTRL_GRP_SDIO0_1BIT_0_5 :: u16 where "PINCTRL_GRP_SDIO0_1BIT_0_5 \<equiv> 77"
abbreviation (input) PINCTRL_GRP_SDIO0_1BIT_0_6 :: u16 where "PINCTRL_GRP_SDIO0_1BIT_0_6 \<equiv> 78"
abbreviation (input) PINCTRL_GRP_SDIO0_1BIT_0_7 :: u16 where "PINCTRL_GRP_SDIO0_1BIT_0_7 \<equiv> 79"
abbreviation (input) PINCTRL_GRP_SDIO0_1BIT_1_0 :: u16 where "PINCTRL_GRP_SDIO0_1BIT_1_0 \<equiv> 80"
abbreviation (input) PINCTRL_GRP_SDIO0_1BIT_1_1 :: u16 where "PINCTRL_GRP_SDIO0_1BIT_1_1 \<equiv> 81"
abbreviation (input) PINCTRL_GRP_SDIO0_1BIT_1_2 :: u16 where "PINCTRL_GRP_SDIO0_1BIT_1_2 \<equiv> 82"
abbreviation (input) PINCTRL_GRP_SDIO0_1BIT_1_3 :: u16 where "PINCTRL_GRP_SDIO0_1BIT_1_3 \<equiv> 83"
abbreviation (input) PINCTRL_GRP_SDIO0_1BIT_1_4 :: u16 where "PINCTRL_GRP_SDIO0_1BIT_1_4 \<equiv> 84"
abbreviation (input) PINCTRL_GRP_SDIO0_1BIT_1_5 :: u16 where "PINCTRL_GRP_SDIO0_1BIT_1_5 \<equiv> 85"
abbreviation (input) PINCTRL_GRP_SDIO0_1BIT_1_6 :: u16 where "PINCTRL_GRP_SDIO0_1BIT_1_6 \<equiv> 86"
abbreviation (input) PINCTRL_GRP_SDIO0_1BIT_1_7 :: u16 where "PINCTRL_GRP_SDIO0_1BIT_1_7 \<equiv> 87"
abbreviation (input) PINCTRL_GRP_SDIO0_1BIT_2_0 :: u16 where "PINCTRL_GRP_SDIO0_1BIT_2_0 \<equiv> 88"
abbreviation (input) PINCTRL_GRP_SDIO0_1BIT_2_1 :: u16 where "PINCTRL_GRP_SDIO0_1BIT_2_1 \<equiv> 89"
abbreviation (input) PINCTRL_GRP_SDIO0_1BIT_2_2 :: u16 where "PINCTRL_GRP_SDIO0_1BIT_2_2 \<equiv> 90"
abbreviation (input) PINCTRL_GRP_SDIO0_1BIT_2_3 :: u16 where "PINCTRL_GRP_SDIO0_1BIT_2_3 \<equiv> 91"
abbreviation (input) PINCTRL_GRP_SDIO0_1BIT_2_4 :: u16 where "PINCTRL_GRP_SDIO0_1BIT_2_4 \<equiv> 92"
abbreviation (input) PINCTRL_GRP_SDIO0_1BIT_2_5 :: u16 where "PINCTRL_GRP_SDIO0_1BIT_2_5 \<equiv> 93"
abbreviation (input) PINCTRL_GRP_SDIO0_1BIT_2_6 :: u16 where "PINCTRL_GRP_SDIO0_1BIT_2_6 \<equiv> 94"
abbreviation (input) PINCTRL_GRP_SDIO0_1BIT_2_7 :: u16 where "PINCTRL_GRP_SDIO0_1BIT_2_7 \<equiv> 95"
abbreviation (input) PINCTRL_GRP_SDIO0_0_PC :: u16 where "PINCTRL_GRP_SDIO0_0_PC \<equiv> 96"
abbreviation (input) PINCTRL_GRP_SDIO0_0_CD :: u16 where "PINCTRL_GRP_SDIO0_0_CD \<equiv> 97"
abbreviation (input) PINCTRL_GRP_SDIO0_0_WP :: u16 where "PINCTRL_GRP_SDIO0_0_WP \<equiv> 98"
abbreviation (input) PINCTRL_GRP_SDIO0_1_PC :: u16 where "PINCTRL_GRP_SDIO0_1_PC \<equiv> 99"
abbreviation (input) PINCTRL_GRP_SDIO0_1_CD :: u16 where "PINCTRL_GRP_SDIO0_1_CD \<equiv> 100"
abbreviation (input) PINCTRL_GRP_SDIO0_1_WP :: u16 where "PINCTRL_GRP_SDIO0_1_WP \<equiv> 101"
abbreviation (input) PINCTRL_GRP_SDIO0_2_PC :: u16 where "PINCTRL_GRP_SDIO0_2_PC \<equiv> 102"
abbreviation (input) PINCTRL_GRP_SDIO0_2_CD :: u16 where "PINCTRL_GRP_SDIO0_2_CD \<equiv> 103"
abbreviation (input) PINCTRL_GRP_SDIO0_2_WP :: u16 where "PINCTRL_GRP_SDIO0_2_WP \<equiv> 104"
abbreviation (input) PINCTRL_GRP_SDIO1_0 :: u16 where "PINCTRL_GRP_SDIO1_0 \<equiv> 105"
abbreviation (input) PINCTRL_GRP_SDIO1_4BIT_0_0 :: u16 where "PINCTRL_GRP_SDIO1_4BIT_0_0 \<equiv> 106"
abbreviation (input) PINCTRL_GRP_SDIO1_4BIT_0_1 :: u16 where "PINCTRL_GRP_SDIO1_4BIT_0_1 \<equiv> 107"
abbreviation (input) PINCTRL_GRP_SDIO1_4BIT_1_0 :: u16 where "PINCTRL_GRP_SDIO1_4BIT_1_0 \<equiv> 108"
abbreviation (input) PINCTRL_GRP_SDIO1_1BIT_0_0 :: u16 where "PINCTRL_GRP_SDIO1_1BIT_0_0 \<equiv> 109"
abbreviation (input) PINCTRL_GRP_SDIO1_1BIT_0_1 :: u16 where "PINCTRL_GRP_SDIO1_1BIT_0_1 \<equiv> 110"
abbreviation (input) PINCTRL_GRP_SDIO1_1BIT_0_2 :: u16 where "PINCTRL_GRP_SDIO1_1BIT_0_2 \<equiv> 111"
abbreviation (input) PINCTRL_GRP_SDIO1_1BIT_0_3 :: u16 where "PINCTRL_GRP_SDIO1_1BIT_0_3 \<equiv> 112"
abbreviation (input) PINCTRL_GRP_SDIO1_1BIT_0_4 :: u16 where "PINCTRL_GRP_SDIO1_1BIT_0_4 \<equiv> 113"
abbreviation (input) PINCTRL_GRP_SDIO1_1BIT_0_5 :: u16 where "PINCTRL_GRP_SDIO1_1BIT_0_5 \<equiv> 114"
abbreviation (input) PINCTRL_GRP_SDIO1_1BIT_0_6 :: u16 where "PINCTRL_GRP_SDIO1_1BIT_0_6 \<equiv> 115"
abbreviation (input) PINCTRL_GRP_SDIO1_1BIT_0_7 :: u16 where "PINCTRL_GRP_SDIO1_1BIT_0_7 \<equiv> 116"
abbreviation (input) PINCTRL_GRP_SDIO1_1BIT_1_0 :: u16 where "PINCTRL_GRP_SDIO1_1BIT_1_0 \<equiv> 117"
abbreviation (input) PINCTRL_GRP_SDIO1_1BIT_1_1 :: u16 where "PINCTRL_GRP_SDIO1_1BIT_1_1 \<equiv> 118"
abbreviation (input) PINCTRL_GRP_SDIO1_1BIT_1_2 :: u16 where "PINCTRL_GRP_SDIO1_1BIT_1_2 \<equiv> 119"
abbreviation (input) PINCTRL_GRP_SDIO1_1BIT_1_3 :: u16 where "PINCTRL_GRP_SDIO1_1BIT_1_3 \<equiv> 120"
abbreviation (input) PINCTRL_GRP_SDIO1_0_PC :: u16 where "PINCTRL_GRP_SDIO1_0_PC \<equiv> 121"
abbreviation (input) PINCTRL_GRP_SDIO1_0_CD :: u16 where "PINCTRL_GRP_SDIO1_0_CD \<equiv> 122"
abbreviation (input) PINCTRL_GRP_SDIO1_0_WP :: u16 where "PINCTRL_GRP_SDIO1_0_WP \<equiv> 123"
abbreviation (input) PINCTRL_GRP_SDIO1_1_PC :: u16 where "PINCTRL_GRP_SDIO1_1_PC \<equiv> 124"
abbreviation (input) PINCTRL_GRP_SDIO1_1_CD :: u16 where "PINCTRL_GRP_SDIO1_1_CD \<equiv> 125"
abbreviation (input) PINCTRL_GRP_SDIO1_1_WP :: u16 where "PINCTRL_GRP_SDIO1_1_WP \<equiv> 126"
abbreviation (input) PINCTRL_GRP_NAND0_0 :: u16 where "PINCTRL_GRP_NAND0_0 \<equiv> 127"
abbreviation (input) PINCTRL_GRP_NAND0_0_CE :: u16 where "PINCTRL_GRP_NAND0_0_CE \<equiv> 128"
abbreviation (input) PINCTRL_GRP_NAND0_0_RB :: u16 where "PINCTRL_GRP_NAND0_0_RB \<equiv> 129"
abbreviation (input) PINCTRL_GRP_NAND0_0_DQS :: u16 where "PINCTRL_GRP_NAND0_0_DQS \<equiv> 130"
abbreviation (input) PINCTRL_GRP_NAND0_1_CE :: u16 where "PINCTRL_GRP_NAND0_1_CE \<equiv> 131"
abbreviation (input) PINCTRL_GRP_NAND0_1_RB :: u16 where "PINCTRL_GRP_NAND0_1_RB \<equiv> 132"
abbreviation (input) PINCTRL_GRP_NAND0_1_DQS :: u16 where "PINCTRL_GRP_NAND0_1_DQS \<equiv> 133"
abbreviation (input) PINCTRL_GRP_CAN0_0 :: u16 where "PINCTRL_GRP_CAN0_0 \<equiv> 134"
abbreviation (input) PINCTRL_GRP_CAN0_1 :: u16 where "PINCTRL_GRP_CAN0_1 \<equiv> 135"
abbreviation (input) PINCTRL_GRP_CAN0_2 :: u16 where "PINCTRL_GRP_CAN0_2 \<equiv> 136"
abbreviation (input) PINCTRL_GRP_CAN0_3 :: u16 where "PINCTRL_GRP_CAN0_3 \<equiv> 137"
abbreviation (input) PINCTRL_GRP_CAN0_4 :: u16 where "PINCTRL_GRP_CAN0_4 \<equiv> 138"
abbreviation (input) PINCTRL_GRP_CAN0_5 :: u16 where "PINCTRL_GRP_CAN0_5 \<equiv> 139"
abbreviation (input) PINCTRL_GRP_CAN0_6 :: u16 where "PINCTRL_GRP_CAN0_6 \<equiv> 140"
abbreviation (input) PINCTRL_GRP_CAN0_7 :: u16 where "PINCTRL_GRP_CAN0_7 \<equiv> 141"
abbreviation (input) PINCTRL_GRP_CAN0_8 :: u16 where "PINCTRL_GRP_CAN0_8 \<equiv> 142"
abbreviation (input) PINCTRL_GRP_CAN0_9 :: u16 where "PINCTRL_GRP_CAN0_9 \<equiv> 143"
abbreviation (input) PINCTRL_GRP_CAN0_10 :: u16 where "PINCTRL_GRP_CAN0_10 \<equiv> 144"
abbreviation (input) PINCTRL_GRP_CAN0_11 :: u16 where "PINCTRL_GRP_CAN0_11 \<equiv> 145"
abbreviation (input) PINCTRL_GRP_CAN0_12 :: u16 where "PINCTRL_GRP_CAN0_12 \<equiv> 146"
abbreviation (input) PINCTRL_GRP_CAN0_13 :: u16 where "PINCTRL_GRP_CAN0_13 \<equiv> 147"
abbreviation (input) PINCTRL_GRP_CAN0_14 :: u16 where "PINCTRL_GRP_CAN0_14 \<equiv> 148"
abbreviation (input) PINCTRL_GRP_CAN0_15 :: u16 where "PINCTRL_GRP_CAN0_15 \<equiv> 149"
abbreviation (input) PINCTRL_GRP_CAN0_16 :: u16 where "PINCTRL_GRP_CAN0_16 \<equiv> 150"
abbreviation (input) PINCTRL_GRP_CAN0_17 :: u16 where "PINCTRL_GRP_CAN0_17 \<equiv> 151"
abbreviation (input) PINCTRL_GRP_CAN0_18 :: u16 where "PINCTRL_GRP_CAN0_18 \<equiv> 152"
abbreviation (input) PINCTRL_GRP_CAN1_0 :: u16 where "PINCTRL_GRP_CAN1_0 \<equiv> 153"
abbreviation (input) PINCTRL_GRP_CAN1_1 :: u16 where "PINCTRL_GRP_CAN1_1 \<equiv> 154"
abbreviation (input) PINCTRL_GRP_CAN1_2 :: u16 where "PINCTRL_GRP_CAN1_2 \<equiv> 155"
abbreviation (input) PINCTRL_GRP_CAN1_3 :: u16 where "PINCTRL_GRP_CAN1_3 \<equiv> 156"
abbreviation (input) PINCTRL_GRP_CAN1_4 :: u16 where "PINCTRL_GRP_CAN1_4 \<equiv> 157"
abbreviation (input) PINCTRL_GRP_CAN1_5 :: u16 where "PINCTRL_GRP_CAN1_5 \<equiv> 158"
abbreviation (input) PINCTRL_GRP_CAN1_6 :: u16 where "PINCTRL_GRP_CAN1_6 \<equiv> 159"
abbreviation (input) PINCTRL_GRP_CAN1_7 :: u16 where "PINCTRL_GRP_CAN1_7 \<equiv> 160"
abbreviation (input) PINCTRL_GRP_CAN1_8 :: u16 where "PINCTRL_GRP_CAN1_8 \<equiv> 161"
abbreviation (input) PINCTRL_GRP_CAN1_9 :: u16 where "PINCTRL_GRP_CAN1_9 \<equiv> 162"
abbreviation (input) PINCTRL_GRP_CAN1_10 :: u16 where "PINCTRL_GRP_CAN1_10 \<equiv> 163"
abbreviation (input) PINCTRL_GRP_CAN1_11 :: u16 where "PINCTRL_GRP_CAN1_11 \<equiv> 164"
abbreviation (input) PINCTRL_GRP_CAN1_12 :: u16 where "PINCTRL_GRP_CAN1_12 \<equiv> 165"
abbreviation (input) PINCTRL_GRP_CAN1_13 :: u16 where "PINCTRL_GRP_CAN1_13 \<equiv> 166"
abbreviation (input) PINCTRL_GRP_CAN1_14 :: u16 where "PINCTRL_GRP_CAN1_14 \<equiv> 167"
abbreviation (input) PINCTRL_GRP_CAN1_15 :: u16 where "PINCTRL_GRP_CAN1_15 \<equiv> 168"
abbreviation (input) PINCTRL_GRP_CAN1_16 :: u16 where "PINCTRL_GRP_CAN1_16 \<equiv> 169"
abbreviation (input) PINCTRL_GRP_CAN1_17 :: u16 where "PINCTRL_GRP_CAN1_17 \<equiv> 170"
abbreviation (input) PINCTRL_GRP_CAN1_18 :: u16 where "PINCTRL_GRP_CAN1_18 \<equiv> 171"
abbreviation (input) PINCTRL_GRP_CAN1_19 :: u16 where "PINCTRL_GRP_CAN1_19 \<equiv> 172"
abbreviation (input) PINCTRL_GRP_UART0_0 :: u16 where "PINCTRL_GRP_UART0_0 \<equiv> 173"
abbreviation (input) PINCTRL_GRP_UART0_1 :: u16 where "PINCTRL_GRP_UART0_1 \<equiv> 174"
abbreviation (input) PINCTRL_GRP_UART0_2 :: u16 where "PINCTRL_GRP_UART0_2 \<equiv> 175"
abbreviation (input) PINCTRL_GRP_UART0_3 :: u16 where "PINCTRL_GRP_UART0_3 \<equiv> 176"
abbreviation (input) PINCTRL_GRP_UART0_4 :: u16 where "PINCTRL_GRP_UART0_4 \<equiv> 177"
abbreviation (input) PINCTRL_GRP_UART0_5 :: u16 where "PINCTRL_GRP_UART0_5 \<equiv> 178"
abbreviation (input) PINCTRL_GRP_UART0_6 :: u16 where "PINCTRL_GRP_UART0_6 \<equiv> 179"
abbreviation (input) PINCTRL_GRP_UART0_7 :: u16 where "PINCTRL_GRP_UART0_7 \<equiv> 180"
abbreviation (input) PINCTRL_GRP_UART0_8 :: u16 where "PINCTRL_GRP_UART0_8 \<equiv> 181"
abbreviation (input) PINCTRL_GRP_UART0_9 :: u16 where "PINCTRL_GRP_UART0_9 \<equiv> 182"
abbreviation (input) PINCTRL_GRP_UART0_10 :: u16 where "PINCTRL_GRP_UART0_10 \<equiv> 183"
abbreviation (input) PINCTRL_GRP_UART0_11 :: u16 where "PINCTRL_GRP_UART0_11 \<equiv> 184"
abbreviation (input) PINCTRL_GRP_UART0_12 :: u16 where "PINCTRL_GRP_UART0_12 \<equiv> 185"
abbreviation (input) PINCTRL_GRP_UART0_13 :: u16 where "PINCTRL_GRP_UART0_13 \<equiv> 186"
abbreviation (input) PINCTRL_GRP_UART0_14 :: u16 where "PINCTRL_GRP_UART0_14 \<equiv> 187"
abbreviation (input) PINCTRL_GRP_UART0_15 :: u16 where "PINCTRL_GRP_UART0_15 \<equiv> 188"
abbreviation (input) PINCTRL_GRP_UART0_16 :: u16 where "PINCTRL_GRP_UART0_16 \<equiv> 189"
abbreviation (input) PINCTRL_GRP_UART0_17 :: u16 where "PINCTRL_GRP_UART0_17 \<equiv> 190"
abbreviation (input) PINCTRL_GRP_UART0_18 :: u16 where "PINCTRL_GRP_UART0_18 \<equiv> 191"
abbreviation (input) PINCTRL_GRP_UART1_0 :: u16 where "PINCTRL_GRP_UART1_0 \<equiv> 192"
abbreviation (input) PINCTRL_GRP_UART1_1 :: u16 where "PINCTRL_GRP_UART1_1 \<equiv> 193"
abbreviation (input) PINCTRL_GRP_UART1_2 :: u16 where "PINCTRL_GRP_UART1_2 \<equiv> 194"
abbreviation (input) PINCTRL_GRP_UART1_3 :: u16 where "PINCTRL_GRP_UART1_3 \<equiv> 195"
abbreviation (input) PINCTRL_GRP_UART1_4 :: u16 where "PINCTRL_GRP_UART1_4 \<equiv> 196"
abbreviation (input) PINCTRL_GRP_UART1_5 :: u16 where "PINCTRL_GRP_UART1_5 \<equiv> 197"
abbreviation (input) PINCTRL_GRP_UART1_6 :: u16 where "PINCTRL_GRP_UART1_6 \<equiv> 198"
abbreviation (input) PINCTRL_GRP_UART1_7 :: u16 where "PINCTRL_GRP_UART1_7 \<equiv> 199"
abbreviation (input) PINCTRL_GRP_UART1_8 :: u16 where "PINCTRL_GRP_UART1_8 \<equiv> 200"
abbreviation (input) PINCTRL_GRP_UART1_9 :: u16 where "PINCTRL_GRP_UART1_9 \<equiv> 201"
abbreviation (input) PINCTRL_GRP_UART1_10 :: u16 where "PINCTRL_GRP_UART1_10 \<equiv> 202"
abbreviation (input) PINCTRL_GRP_UART1_11 :: u16 where "PINCTRL_GRP_UART1_11 \<equiv> 203"
abbreviation (input) PINCTRL_GRP_UART1_12 :: u16 where "PINCTRL_GRP_UART1_12 \<equiv> 204"
abbreviation (input) PINCTRL_GRP_UART1_13 :: u16 where "PINCTRL_GRP_UART1_13 \<equiv> 205"
abbreviation (input) PINCTRL_GRP_UART1_14 :: u16 where "PINCTRL_GRP_UART1_14 \<equiv> 206"
abbreviation (input) PINCTRL_GRP_UART1_15 :: u16 where "PINCTRL_GRP_UART1_15 \<equiv> 207"
abbreviation (input) PINCTRL_GRP_UART1_16 :: u16 where "PINCTRL_GRP_UART1_16 \<equiv> 208"
abbreviation (input) PINCTRL_GRP_UART1_17 :: u16 where "PINCTRL_GRP_UART1_17 \<equiv> 209"
abbreviation (input) PINCTRL_GRP_UART1_18 :: u16 where "PINCTRL_GRP_UART1_18 \<equiv> 210"
abbreviation (input) PINCTRL_GRP_I2C0_0 :: u16 where "PINCTRL_GRP_I2C0_0 \<equiv> 211"
abbreviation (input) PINCTRL_GRP_I2C0_1 :: u16 where "PINCTRL_GRP_I2C0_1 \<equiv> 212"
abbreviation (input) PINCTRL_GRP_I2C0_2 :: u16 where "PINCTRL_GRP_I2C0_2 \<equiv> 213"
abbreviation (input) PINCTRL_GRP_I2C0_3 :: u16 where "PINCTRL_GRP_I2C0_3 \<equiv> 214"
abbreviation (input) PINCTRL_GRP_I2C0_4 :: u16 where "PINCTRL_GRP_I2C0_4 \<equiv> 215"
abbreviation (input) PINCTRL_GRP_I2C0_5 :: u16 where "PINCTRL_GRP_I2C0_5 \<equiv> 216"
abbreviation (input) PINCTRL_GRP_I2C0_6 :: u16 where "PINCTRL_GRP_I2C0_6 \<equiv> 217"
abbreviation (input) PINCTRL_GRP_I2C0_7 :: u16 where "PINCTRL_GRP_I2C0_7 \<equiv> 218"
abbreviation (input) PINCTRL_GRP_I2C0_8 :: u16 where "PINCTRL_GRP_I2C0_8 \<equiv> 219"
abbreviation (input) PINCTRL_GRP_I2C0_9 :: u16 where "PINCTRL_GRP_I2C0_9 \<equiv> 220"
abbreviation (input) PINCTRL_GRP_I2C0_10 :: u16 where "PINCTRL_GRP_I2C0_10 \<equiv> 221"
abbreviation (input) PINCTRL_GRP_I2C0_11 :: u16 where "PINCTRL_GRP_I2C0_11 \<equiv> 222"
abbreviation (input) PINCTRL_GRP_I2C0_12 :: u16 where "PINCTRL_GRP_I2C0_12 \<equiv> 223"
abbreviation (input) PINCTRL_GRP_I2C0_13 :: u16 where "PINCTRL_GRP_I2C0_13 \<equiv> 224"
abbreviation (input) PINCTRL_GRP_I2C0_14 :: u16 where "PINCTRL_GRP_I2C0_14 \<equiv> 225"
abbreviation (input) PINCTRL_GRP_I2C0_15 :: u16 where "PINCTRL_GRP_I2C0_15 \<equiv> 226"
abbreviation (input) PINCTRL_GRP_I2C0_16 :: u16 where "PINCTRL_GRP_I2C0_16 \<equiv> 227"
abbreviation (input) PINCTRL_GRP_I2C0_17 :: u16 where "PINCTRL_GRP_I2C0_17 \<equiv> 228"
abbreviation (input) PINCTRL_GRP_I2C0_18 :: u16 where "PINCTRL_GRP_I2C0_18 \<equiv> 229"
abbreviation (input) PINCTRL_GRP_I2C1_0 :: u16 where "PINCTRL_GRP_I2C1_0 \<equiv> 230"
abbreviation (input) PINCTRL_GRP_I2C1_1 :: u16 where "PINCTRL_GRP_I2C1_1 \<equiv> 231"
abbreviation (input) PINCTRL_GRP_I2C1_2 :: u16 where "PINCTRL_GRP_I2C1_2 \<equiv> 232"
abbreviation (input) PINCTRL_GRP_I2C1_3 :: u16 where "PINCTRL_GRP_I2C1_3 \<equiv> 233"
abbreviation (input) PINCTRL_GRP_I2C1_4 :: u16 where "PINCTRL_GRP_I2C1_4 \<equiv> 234"
abbreviation (input) PINCTRL_GRP_I2C1_5 :: u16 where "PINCTRL_GRP_I2C1_5 \<equiv> 235"
abbreviation (input) PINCTRL_GRP_I2C1_6 :: u16 where "PINCTRL_GRP_I2C1_6 \<equiv> 236"
abbreviation (input) PINCTRL_GRP_I2C1_7 :: u16 where "PINCTRL_GRP_I2C1_7 \<equiv> 237"
abbreviation (input) PINCTRL_GRP_I2C1_8 :: u16 where "PINCTRL_GRP_I2C1_8 \<equiv> 238"
abbreviation (input) PINCTRL_GRP_I2C1_9 :: u16 where "PINCTRL_GRP_I2C1_9 \<equiv> 239"
abbreviation (input) PINCTRL_GRP_I2C1_10 :: u16 where "PINCTRL_GRP_I2C1_10 \<equiv> 240"
abbreviation (input) PINCTRL_GRP_I2C1_11 :: u16 where "PINCTRL_GRP_I2C1_11 \<equiv> 241"
abbreviation (input) PINCTRL_GRP_I2C1_12 :: u16 where "PINCTRL_GRP_I2C1_12 \<equiv> 242"
abbreviation (input) PINCTRL_GRP_I2C1_13 :: u16 where "PINCTRL_GRP_I2C1_13 \<equiv> 243"
abbreviation (input) PINCTRL_GRP_I2C1_14 :: u16 where "PINCTRL_GRP_I2C1_14 \<equiv> 244"
abbreviation (input) PINCTRL_GRP_I2C1_15 :: u16 where "PINCTRL_GRP_I2C1_15 \<equiv> 245"
abbreviation (input) PINCTRL_GRP_I2C1_16 :: u16 where "PINCTRL_GRP_I2C1_16 \<equiv> 246"
abbreviation (input) PINCTRL_GRP_I2C1_17 :: u16 where "PINCTRL_GRP_I2C1_17 \<equiv> 247"
abbreviation (input) PINCTRL_GRP_I2C1_18 :: u16 where "PINCTRL_GRP_I2C1_18 \<equiv> 248"
abbreviation (input) PINCTRL_GRP_I2C1_19 :: u16 where "PINCTRL_GRP_I2C1_19 \<equiv> 249"
abbreviation (input) PINCTRL_GRP_TTC0_0_CLK :: u16 where "PINCTRL_GRP_TTC0_0_CLK \<equiv> 250"
abbreviation (input) PINCTRL_GRP_TTC0_0_WAV :: u16 where "PINCTRL_GRP_TTC0_0_WAV \<equiv> 251"
abbreviation (input) PINCTRL_GRP_TTC0_1_CLK :: u16 where "PINCTRL_GRP_TTC0_1_CLK \<equiv> 252"
abbreviation (input) PINCTRL_GRP_TTC0_1_WAV :: u16 where "PINCTRL_GRP_TTC0_1_WAV \<equiv> 253"
abbreviation (input) PINCTRL_GRP_TTC0_2_CLK :: u16 where "PINCTRL_GRP_TTC0_2_CLK \<equiv> 254"
abbreviation (input) PINCTRL_GRP_TTC0_2_WAV :: u16 where "PINCTRL_GRP_TTC0_2_WAV \<equiv> 255"
abbreviation (input) PINCTRL_GRP_TTC0_3_CLK :: u16 where "PINCTRL_GRP_TTC0_3_CLK \<equiv> 256"
abbreviation (input) PINCTRL_GRP_TTC0_3_WAV :: u16 where "PINCTRL_GRP_TTC0_3_WAV \<equiv> 257"
abbreviation (input) PINCTRL_GRP_TTC0_4_CLK :: u16 where "PINCTRL_GRP_TTC0_4_CLK \<equiv> 258"
abbreviation (input) PINCTRL_GRP_TTC0_4_WAV :: u16 where "PINCTRL_GRP_TTC0_4_WAV \<equiv> 259"
abbreviation (input) PINCTRL_GRP_TTC0_5_CLK :: u16 where "PINCTRL_GRP_TTC0_5_CLK \<equiv> 260"
abbreviation (input) PINCTRL_GRP_TTC0_5_WAV :: u16 where "PINCTRL_GRP_TTC0_5_WAV \<equiv> 261"
abbreviation (input) PINCTRL_GRP_TTC0_6_CLK :: u16 where "PINCTRL_GRP_TTC0_6_CLK \<equiv> 262"
abbreviation (input) PINCTRL_GRP_TTC0_6_WAV :: u16 where "PINCTRL_GRP_TTC0_6_WAV \<equiv> 263"
abbreviation (input) PINCTRL_GRP_TTC0_7_CLK :: u16 where "PINCTRL_GRP_TTC0_7_CLK \<equiv> 264"
abbreviation (input) PINCTRL_GRP_TTC0_7_WAV :: u16 where "PINCTRL_GRP_TTC0_7_WAV \<equiv> 265"
abbreviation (input) PINCTRL_GRP_TTC0_8_CLK :: u16 where "PINCTRL_GRP_TTC0_8_CLK \<equiv> 266"
abbreviation (input) PINCTRL_GRP_TTC0_8_WAV :: u16 where "PINCTRL_GRP_TTC0_8_WAV \<equiv> 267"
abbreviation (input) PINCTRL_GRP_TTC1_0_CLK :: u16 where "PINCTRL_GRP_TTC1_0_CLK \<equiv> 268"
abbreviation (input) PINCTRL_GRP_TTC1_0_WAV :: u16 where "PINCTRL_GRP_TTC1_0_WAV \<equiv> 269"
abbreviation (input) PINCTRL_GRP_TTC1_1_CLK :: u16 where "PINCTRL_GRP_TTC1_1_CLK \<equiv> 270"
abbreviation (input) PINCTRL_GRP_TTC1_1_WAV :: u16 where "PINCTRL_GRP_TTC1_1_WAV \<equiv> 271"
abbreviation (input) PINCTRL_GRP_TTC1_2_CLK :: u16 where "PINCTRL_GRP_TTC1_2_CLK \<equiv> 272"
abbreviation (input) PINCTRL_GRP_TTC1_2_WAV :: u16 where "PINCTRL_GRP_TTC1_2_WAV \<equiv> 273"
abbreviation (input) PINCTRL_GRP_TTC1_3_CLK :: u16 where "PINCTRL_GRP_TTC1_3_CLK \<equiv> 274"
abbreviation (input) PINCTRL_GRP_TTC1_3_WAV :: u16 where "PINCTRL_GRP_TTC1_3_WAV \<equiv> 275"
abbreviation (input) PINCTRL_GRP_TTC1_4_CLK :: u16 where "PINCTRL_GRP_TTC1_4_CLK \<equiv> 276"
abbreviation (input) PINCTRL_GRP_TTC1_4_WAV :: u16 where "PINCTRL_GRP_TTC1_4_WAV \<equiv> 277"
abbreviation (input) PINCTRL_GRP_TTC1_5_CLK :: u16 where "PINCTRL_GRP_TTC1_5_CLK \<equiv> 278"
abbreviation (input) PINCTRL_GRP_TTC1_5_WAV :: u16 where "PINCTRL_GRP_TTC1_5_WAV \<equiv> 279"
abbreviation (input) PINCTRL_GRP_TTC1_6_CLK :: u16 where "PINCTRL_GRP_TTC1_6_CLK \<equiv> 280"
abbreviation (input) PINCTRL_GRP_TTC1_6_WAV :: u16 where "PINCTRL_GRP_TTC1_6_WAV \<equiv> 281"
abbreviation (input) PINCTRL_GRP_TTC1_7_CLK :: u16 where "PINCTRL_GRP_TTC1_7_CLK \<equiv> 282"
abbreviation (input) PINCTRL_GRP_TTC1_7_WAV :: u16 where "PINCTRL_GRP_TTC1_7_WAV \<equiv> 283"
abbreviation (input) PINCTRL_GRP_TTC1_8_CLK :: u16 where "PINCTRL_GRP_TTC1_8_CLK \<equiv> 284"
abbreviation (input) PINCTRL_GRP_TTC1_8_WAV :: u16 where "PINCTRL_GRP_TTC1_8_WAV \<equiv> 285"
abbreviation (input) PINCTRL_GRP_TTC2_0_CLK :: u16 where "PINCTRL_GRP_TTC2_0_CLK \<equiv> 286"
abbreviation (input) PINCTRL_GRP_TTC2_0_WAV :: u16 where "PINCTRL_GRP_TTC2_0_WAV \<equiv> 287"
abbreviation (input) PINCTRL_GRP_TTC2_1_CLK :: u16 where "PINCTRL_GRP_TTC2_1_CLK \<equiv> 288"
abbreviation (input) PINCTRL_GRP_TTC2_1_WAV :: u16 where "PINCTRL_GRP_TTC2_1_WAV \<equiv> 289"
abbreviation (input) PINCTRL_GRP_TTC2_2_CLK :: u16 where "PINCTRL_GRP_TTC2_2_CLK \<equiv> 290"
abbreviation (input) PINCTRL_GRP_TTC2_2_WAV :: u16 where "PINCTRL_GRP_TTC2_2_WAV \<equiv> 291"
abbreviation (input) PINCTRL_GRP_TTC2_3_CLK :: u16 where "PINCTRL_GRP_TTC2_3_CLK \<equiv> 292"
abbreviation (input) PINCTRL_GRP_TTC2_3_WAV :: u16 where "PINCTRL_GRP_TTC2_3_WAV \<equiv> 293"
abbreviation (input) PINCTRL_GRP_TTC2_4_CLK :: u16 where "PINCTRL_GRP_TTC2_4_CLK \<equiv> 294"
abbreviation (input) PINCTRL_GRP_TTC2_4_WAV :: u16 where "PINCTRL_GRP_TTC2_4_WAV \<equiv> 295"
abbreviation (input) PINCTRL_GRP_TTC2_5_CLK :: u16 where "PINCTRL_GRP_TTC2_5_CLK \<equiv> 296"
abbreviation (input) PINCTRL_GRP_TTC2_5_WAV :: u16 where "PINCTRL_GRP_TTC2_5_WAV \<equiv> 297"
abbreviation (input) PINCTRL_GRP_TTC2_6_CLK :: u16 where "PINCTRL_GRP_TTC2_6_CLK \<equiv> 298"
abbreviation (input) PINCTRL_GRP_TTC2_6_WAV :: u16 where "PINCTRL_GRP_TTC2_6_WAV \<equiv> 299"
abbreviation (input) PINCTRL_GRP_TTC2_7_CLK :: u16 where "PINCTRL_GRP_TTC2_7_CLK \<equiv> 300"
abbreviation (input) PINCTRL_GRP_TTC2_7_WAV :: u16 where "PINCTRL_GRP_TTC2_7_WAV \<equiv> 301"
abbreviation (input) PINCTRL_GRP_TTC2_8_CLK :: u16 where "PINCTRL_GRP_TTC2_8_CLK \<equiv> 302"
abbreviation (input) PINCTRL_GRP_TTC2_8_WAV :: u16 where "PINCTRL_GRP_TTC2_8_WAV \<equiv> 303"
abbreviation (input) PINCTRL_GRP_TTC3_0_CLK :: u16 where "PINCTRL_GRP_TTC3_0_CLK \<equiv> 304"
abbreviation (input) PINCTRL_GRP_TTC3_0_WAV :: u16 where "PINCTRL_GRP_TTC3_0_WAV \<equiv> 305"
abbreviation (input) PINCTRL_GRP_TTC3_1_CLK :: u16 where "PINCTRL_GRP_TTC3_1_CLK \<equiv> 306"
abbreviation (input) PINCTRL_GRP_TTC3_1_WAV :: u16 where "PINCTRL_GRP_TTC3_1_WAV \<equiv> 307"
abbreviation (input) PINCTRL_GRP_TTC3_2_CLK :: u16 where "PINCTRL_GRP_TTC3_2_CLK \<equiv> 308"
abbreviation (input) PINCTRL_GRP_TTC3_2_WAV :: u16 where "PINCTRL_GRP_TTC3_2_WAV \<equiv> 309"
abbreviation (input) PINCTRL_GRP_TTC3_3_CLK :: u16 where "PINCTRL_GRP_TTC3_3_CLK \<equiv> 310"
abbreviation (input) PINCTRL_GRP_TTC3_3_WAV :: u16 where "PINCTRL_GRP_TTC3_3_WAV \<equiv> 311"
abbreviation (input) PINCTRL_GRP_TTC3_4_CLK :: u16 where "PINCTRL_GRP_TTC3_4_CLK \<equiv> 312"
abbreviation (input) PINCTRL_GRP_TTC3_4_WAV :: u16 where "PINCTRL_GRP_TTC3_4_WAV \<equiv> 313"
abbreviation (input) PINCTRL_GRP_TTC3_5_CLK :: u16 where "PINCTRL_GRP_TTC3_5_CLK \<equiv> 314"
abbreviation (input) PINCTRL_GRP_TTC3_5_WAV :: u16 where "PINCTRL_GRP_TTC3_5_WAV \<equiv> 315"
abbreviation (input) PINCTRL_GRP_TTC3_6_CLK :: u16 where "PINCTRL_GRP_TTC3_6_CLK \<equiv> 316"
abbreviation (input) PINCTRL_GRP_TTC3_6_WAV :: u16 where "PINCTRL_GRP_TTC3_6_WAV \<equiv> 317"
abbreviation (input) PINCTRL_GRP_TTC3_7_CLK :: u16 where "PINCTRL_GRP_TTC3_7_CLK \<equiv> 318"
abbreviation (input) PINCTRL_GRP_TTC3_7_WAV :: u16 where "PINCTRL_GRP_TTC3_7_WAV \<equiv> 319"
abbreviation (input) PINCTRL_GRP_TTC3_8_CLK :: u16 where "PINCTRL_GRP_TTC3_8_CLK \<equiv> 320"
abbreviation (input) PINCTRL_GRP_TTC3_8_WAV :: u16 where "PINCTRL_GRP_TTC3_8_WAV \<equiv> 321"
abbreviation (input) PINCTRL_GRP_SWDT0_0_CLK :: u16 where "PINCTRL_GRP_SWDT0_0_CLK \<equiv> 322"
abbreviation (input) PINCTRL_GRP_SWDT0_0_RST :: u16 where "PINCTRL_GRP_SWDT0_0_RST \<equiv> 323"
abbreviation (input) PINCTRL_GRP_SWDT0_1_CLK :: u16 where "PINCTRL_GRP_SWDT0_1_CLK \<equiv> 324"
abbreviation (input) PINCTRL_GRP_SWDT0_1_RST :: u16 where "PINCTRL_GRP_SWDT0_1_RST \<equiv> 325"
abbreviation (input) PINCTRL_GRP_SWDT0_2_CLK :: u16 where "PINCTRL_GRP_SWDT0_2_CLK \<equiv> 326"
abbreviation (input) PINCTRL_GRP_SWDT0_2_RST :: u16 where "PINCTRL_GRP_SWDT0_2_RST \<equiv> 327"
abbreviation (input) PINCTRL_GRP_SWDT0_3_CLK :: u16 where "PINCTRL_GRP_SWDT0_3_CLK \<equiv> 328"
abbreviation (input) PINCTRL_GRP_SWDT0_3_RST :: u16 where "PINCTRL_GRP_SWDT0_3_RST \<equiv> 329"
abbreviation (input) PINCTRL_GRP_SWDT0_4_CLK :: u16 where "PINCTRL_GRP_SWDT0_4_CLK \<equiv> 330"
abbreviation (input) PINCTRL_GRP_SWDT0_4_RST :: u16 where "PINCTRL_GRP_SWDT0_4_RST \<equiv> 331"
abbreviation (input) PINCTRL_GRP_SWDT0_5_CLK :: u16 where "PINCTRL_GRP_SWDT0_5_CLK \<equiv> 332"
abbreviation (input) PINCTRL_GRP_SWDT0_5_RST :: u16 where "PINCTRL_GRP_SWDT0_5_RST \<equiv> 333"
abbreviation (input) PINCTRL_GRP_SWDT0_6_CLK :: u16 where "PINCTRL_GRP_SWDT0_6_CLK \<equiv> 334"
abbreviation (input) PINCTRL_GRP_SWDT0_6_RST :: u16 where "PINCTRL_GRP_SWDT0_6_RST \<equiv> 335"
abbreviation (input) PINCTRL_GRP_SWDT0_7_CLK :: u16 where "PINCTRL_GRP_SWDT0_7_CLK \<equiv> 336"
abbreviation (input) PINCTRL_GRP_SWDT0_7_RST :: u16 where "PINCTRL_GRP_SWDT0_7_RST \<equiv> 337"
abbreviation (input) PINCTRL_GRP_SWDT0_8_CLK :: u16 where "PINCTRL_GRP_SWDT0_8_CLK \<equiv> 338"
abbreviation (input) PINCTRL_GRP_SWDT0_8_RST :: u16 where "PINCTRL_GRP_SWDT0_8_RST \<equiv> 339"
abbreviation (input) PINCTRL_GRP_SWDT0_9_CLK :: u16 where "PINCTRL_GRP_SWDT0_9_CLK \<equiv> 340"
abbreviation (input) PINCTRL_GRP_SWDT0_9_RST :: u16 where "PINCTRL_GRP_SWDT0_9_RST \<equiv> 341"
abbreviation (input) PINCTRL_GRP_SWDT0_10_CLK :: u16 where "PINCTRL_GRP_SWDT0_10_CLK \<equiv> 342"
abbreviation (input) PINCTRL_GRP_SWDT0_10_RST :: u16 where "PINCTRL_GRP_SWDT0_10_RST \<equiv> 343"
abbreviation (input) PINCTRL_GRP_SWDT0_11_CLK :: u16 where "PINCTRL_GRP_SWDT0_11_CLK \<equiv> 344"
abbreviation (input) PINCTRL_GRP_SWDT0_11_RST :: u16 where "PINCTRL_GRP_SWDT0_11_RST \<equiv> 345"
abbreviation (input) PINCTRL_GRP_SWDT0_12_CLK :: u16 where "PINCTRL_GRP_SWDT0_12_CLK \<equiv> 346"
abbreviation (input) PINCTRL_GRP_SWDT0_12_RST :: u16 where "PINCTRL_GRP_SWDT0_12_RST \<equiv> 347"
abbreviation (input) PINCTRL_GRP_SWDT1_0_CLK :: u16 where "PINCTRL_GRP_SWDT1_0_CLK \<equiv> 348"
abbreviation (input) PINCTRL_GRP_SWDT1_0_RST :: u16 where "PINCTRL_GRP_SWDT1_0_RST \<equiv> 349"
abbreviation (input) PINCTRL_GRP_SWDT1_1_CLK :: u16 where "PINCTRL_GRP_SWDT1_1_CLK \<equiv> 350"
abbreviation (input) PINCTRL_GRP_SWDT1_1_RST :: u16 where "PINCTRL_GRP_SWDT1_1_RST \<equiv> 351"
abbreviation (input) PINCTRL_GRP_SWDT1_2_CLK :: u16 where "PINCTRL_GRP_SWDT1_2_CLK \<equiv> 352"
abbreviation (input) PINCTRL_GRP_SWDT1_2_RST :: u16 where "PINCTRL_GRP_SWDT1_2_RST \<equiv> 353"
abbreviation (input) PINCTRL_GRP_SWDT1_3_CLK :: u16 where "PINCTRL_GRP_SWDT1_3_CLK \<equiv> 354"
abbreviation (input) PINCTRL_GRP_SWDT1_3_RST :: u16 where "PINCTRL_GRP_SWDT1_3_RST \<equiv> 355"
abbreviation (input) PINCTRL_GRP_SWDT1_4_CLK :: u16 where "PINCTRL_GRP_SWDT1_4_CLK \<equiv> 356"
abbreviation (input) PINCTRL_GRP_SWDT1_4_RST :: u16 where "PINCTRL_GRP_SWDT1_4_RST \<equiv> 357"
abbreviation (input) PINCTRL_GRP_SWDT1_5_CLK :: u16 where "PINCTRL_GRP_SWDT1_5_CLK \<equiv> 358"
abbreviation (input) PINCTRL_GRP_SWDT1_5_RST :: u16 where "PINCTRL_GRP_SWDT1_5_RST \<equiv> 359"
abbreviation (input) PINCTRL_GRP_SWDT1_6_CLK :: u16 where "PINCTRL_GRP_SWDT1_6_CLK \<equiv> 360"
abbreviation (input) PINCTRL_GRP_SWDT1_6_RST :: u16 where "PINCTRL_GRP_SWDT1_6_RST \<equiv> 361"
abbreviation (input) PINCTRL_GRP_SWDT1_7_CLK :: u16 where "PINCTRL_GRP_SWDT1_7_CLK \<equiv> 362"
abbreviation (input) PINCTRL_GRP_SWDT1_7_RST :: u16 where "PINCTRL_GRP_SWDT1_7_RST \<equiv> 363"
abbreviation (input) PINCTRL_GRP_SWDT1_8_CLK :: u16 where "PINCTRL_GRP_SWDT1_8_CLK \<equiv> 364"
abbreviation (input) PINCTRL_GRP_SWDT1_8_RST :: u16 where "PINCTRL_GRP_SWDT1_8_RST \<equiv> 365"
abbreviation (input) PINCTRL_GRP_SWDT1_9_CLK :: u16 where "PINCTRL_GRP_SWDT1_9_CLK \<equiv> 366"
abbreviation (input) PINCTRL_GRP_SWDT1_9_RST :: u16 where "PINCTRL_GRP_SWDT1_9_RST \<equiv> 367"
abbreviation (input) PINCTRL_GRP_SWDT1_10_CLK :: u16 where "PINCTRL_GRP_SWDT1_10_CLK \<equiv> 368"
abbreviation (input) PINCTRL_GRP_SWDT1_10_RST :: u16 where "PINCTRL_GRP_SWDT1_10_RST \<equiv> 369"
abbreviation (input) PINCTRL_GRP_SWDT1_11_CLK :: u16 where "PINCTRL_GRP_SWDT1_11_CLK \<equiv> 370"
abbreviation (input) PINCTRL_GRP_SWDT1_11_RST :: u16 where "PINCTRL_GRP_SWDT1_11_RST \<equiv> 371"
abbreviation (input) PINCTRL_GRP_SWDT1_12_CLK :: u16 where "PINCTRL_GRP_SWDT1_12_CLK \<equiv> 372"
abbreviation (input) PINCTRL_GRP_SWDT1_12_RST :: u16 where "PINCTRL_GRP_SWDT1_12_RST \<equiv> 373"
abbreviation (input) PINCTRL_GRP_GPIO0_0 :: u16 where "PINCTRL_GRP_GPIO0_0 \<equiv> 374"
abbreviation (input) PINCTRL_GRP_GPIO0_1 :: u16 where "PINCTRL_GRP_GPIO0_1 \<equiv> 375"
abbreviation (input) PINCTRL_GRP_GPIO0_2 :: u16 where "PINCTRL_GRP_GPIO0_2 \<equiv> 376"
abbreviation (input) PINCTRL_GRP_GPIO0_3 :: u16 where "PINCTRL_GRP_GPIO0_3 \<equiv> 377"
abbreviation (input) PINCTRL_GRP_GPIO0_4 :: u16 where "PINCTRL_GRP_GPIO0_4 \<equiv> 378"
abbreviation (input) PINCTRL_GRP_GPIO0_5 :: u16 where "PINCTRL_GRP_GPIO0_5 \<equiv> 379"
abbreviation (input) PINCTRL_GRP_GPIO0_6 :: u16 where "PINCTRL_GRP_GPIO0_6 \<equiv> 380"
abbreviation (input) PINCTRL_GRP_GPIO0_7 :: u16 where "PINCTRL_GRP_GPIO0_7 \<equiv> 381"
abbreviation (input) PINCTRL_GRP_GPIO0_8 :: u16 where "PINCTRL_GRP_GPIO0_8 \<equiv> 382"
abbreviation (input) PINCTRL_GRP_GPIO0_9 :: u16 where "PINCTRL_GRP_GPIO0_9 \<equiv> 383"
abbreviation (input) PINCTRL_GRP_GPIO0_10 :: u16 where "PINCTRL_GRP_GPIO0_10 \<equiv> 384"
abbreviation (input) PINCTRL_GRP_GPIO0_11 :: u16 where "PINCTRL_GRP_GPIO0_11 \<equiv> 385"
abbreviation (input) PINCTRL_GRP_GPIO0_12 :: u16 where "PINCTRL_GRP_GPIO0_12 \<equiv> 386"
abbreviation (input) PINCTRL_GRP_GPIO0_13 :: u16 where "PINCTRL_GRP_GPIO0_13 \<equiv> 387"
abbreviation (input) PINCTRL_GRP_GPIO0_14 :: u16 where "PINCTRL_GRP_GPIO0_14 \<equiv> 388"
abbreviation (input) PINCTRL_GRP_GPIO0_15 :: u16 where "PINCTRL_GRP_GPIO0_15 \<equiv> 389"
abbreviation (input) PINCTRL_GRP_GPIO0_16 :: u16 where "PINCTRL_GRP_GPIO0_16 \<equiv> 390"
abbreviation (input) PINCTRL_GRP_GPIO0_17 :: u16 where "PINCTRL_GRP_GPIO0_17 \<equiv> 391"
abbreviation (input) PINCTRL_GRP_GPIO0_18 :: u16 where "PINCTRL_GRP_GPIO0_18 \<equiv> 392"
abbreviation (input) PINCTRL_GRP_GPIO0_19 :: u16 where "PINCTRL_GRP_GPIO0_19 \<equiv> 393"
abbreviation (input) PINCTRL_GRP_GPIO0_20 :: u16 where "PINCTRL_GRP_GPIO0_20 \<equiv> 394"
abbreviation (input) PINCTRL_GRP_GPIO0_21 :: u16 where "PINCTRL_GRP_GPIO0_21 \<equiv> 395"
abbreviation (input) PINCTRL_GRP_GPIO0_22 :: u16 where "PINCTRL_GRP_GPIO0_22 \<equiv> 396"
abbreviation (input) PINCTRL_GRP_GPIO0_23 :: u16 where "PINCTRL_GRP_GPIO0_23 \<equiv> 397"
abbreviation (input) PINCTRL_GRP_GPIO0_24 :: u16 where "PINCTRL_GRP_GPIO0_24 \<equiv> 398"
abbreviation (input) PINCTRL_GRP_GPIO0_25 :: u16 where "PINCTRL_GRP_GPIO0_25 \<equiv> 399"
abbreviation (input) PINCTRL_GRP_GPIO0_26 :: u16 where "PINCTRL_GRP_GPIO0_26 \<equiv> 400"
abbreviation (input) PINCTRL_GRP_GPIO0_27 :: u16 where "PINCTRL_GRP_GPIO0_27 \<equiv> 401"
abbreviation (input) PINCTRL_GRP_GPIO0_28 :: u16 where "PINCTRL_GRP_GPIO0_28 \<equiv> 402"
abbreviation (input) PINCTRL_GRP_GPIO0_29 :: u16 where "PINCTRL_GRP_GPIO0_29 \<equiv> 403"
abbreviation (input) PINCTRL_GRP_GPIO0_30 :: u16 where "PINCTRL_GRP_GPIO0_30 \<equiv> 404"
abbreviation (input) PINCTRL_GRP_GPIO0_31 :: u16 where "PINCTRL_GRP_GPIO0_31 \<equiv> 405"
abbreviation (input) PINCTRL_GRP_GPIO0_32 :: u16 where "PINCTRL_GRP_GPIO0_32 \<equiv> 406"
abbreviation (input) PINCTRL_GRP_GPIO0_33 :: u16 where "PINCTRL_GRP_GPIO0_33 \<equiv> 407"
abbreviation (input) PINCTRL_GRP_GPIO0_34 :: u16 where "PINCTRL_GRP_GPIO0_34 \<equiv> 408"
abbreviation (input) PINCTRL_GRP_GPIO0_35 :: u16 where "PINCTRL_GRP_GPIO0_35 \<equiv> 409"
abbreviation (input) PINCTRL_GRP_GPIO0_36 :: u16 where "PINCTRL_GRP_GPIO0_36 \<equiv> 410"
abbreviation (input) PINCTRL_GRP_GPIO0_37 :: u16 where "PINCTRL_GRP_GPIO0_37 \<equiv> 411"
abbreviation (input) PINCTRL_GRP_GPIO0_38 :: u16 where "PINCTRL_GRP_GPIO0_38 \<equiv> 412"
abbreviation (input) PINCTRL_GRP_GPIO0_39 :: u16 where "PINCTRL_GRP_GPIO0_39 \<equiv> 413"
abbreviation (input) PINCTRL_GRP_GPIO0_40 :: u16 where "PINCTRL_GRP_GPIO0_40 \<equiv> 414"
abbreviation (input) PINCTRL_GRP_GPIO0_41 :: u16 where "PINCTRL_GRP_GPIO0_41 \<equiv> 415"
abbreviation (input) PINCTRL_GRP_GPIO0_42 :: u16 where "PINCTRL_GRP_GPIO0_42 \<equiv> 416"
abbreviation (input) PINCTRL_GRP_GPIO0_43 :: u16 where "PINCTRL_GRP_GPIO0_43 \<equiv> 417"
abbreviation (input) PINCTRL_GRP_GPIO0_44 :: u16 where "PINCTRL_GRP_GPIO0_44 \<equiv> 418"
abbreviation (input) PINCTRL_GRP_GPIO0_45 :: u16 where "PINCTRL_GRP_GPIO0_45 \<equiv> 419"
abbreviation (input) PINCTRL_GRP_GPIO0_46 :: u16 where "PINCTRL_GRP_GPIO0_46 \<equiv> 420"
abbreviation (input) PINCTRL_GRP_GPIO0_47 :: u16 where "PINCTRL_GRP_GPIO0_47 \<equiv> 421"
abbreviation (input) PINCTRL_GRP_GPIO0_48 :: u16 where "PINCTRL_GRP_GPIO0_48 \<equiv> 422"
abbreviation (input) PINCTRL_GRP_GPIO0_49 :: u16 where "PINCTRL_GRP_GPIO0_49 \<equiv> 423"
abbreviation (input) PINCTRL_GRP_GPIO0_50 :: u16 where "PINCTRL_GRP_GPIO0_50 \<equiv> 424"
abbreviation (input) PINCTRL_GRP_GPIO0_51 :: u16 where "PINCTRL_GRP_GPIO0_51 \<equiv> 425"
abbreviation (input) PINCTRL_GRP_GPIO0_52 :: u16 where "PINCTRL_GRP_GPIO0_52 \<equiv> 426"
abbreviation (input) PINCTRL_GRP_GPIO0_53 :: u16 where "PINCTRL_GRP_GPIO0_53 \<equiv> 427"
abbreviation (input) PINCTRL_GRP_GPIO0_54 :: u16 where "PINCTRL_GRP_GPIO0_54 \<equiv> 428"
abbreviation (input) PINCTRL_GRP_GPIO0_55 :: u16 where "PINCTRL_GRP_GPIO0_55 \<equiv> 429"
abbreviation (input) PINCTRL_GRP_GPIO0_56 :: u16 where "PINCTRL_GRP_GPIO0_56 \<equiv> 430"
abbreviation (input) PINCTRL_GRP_GPIO0_57 :: u16 where "PINCTRL_GRP_GPIO0_57 \<equiv> 431"
abbreviation (input) PINCTRL_GRP_GPIO0_58 :: u16 where "PINCTRL_GRP_GPIO0_58 \<equiv> 432"
abbreviation (input) PINCTRL_GRP_GPIO0_59 :: u16 where "PINCTRL_GRP_GPIO0_59 \<equiv> 433"
abbreviation (input) PINCTRL_GRP_GPIO0_60 :: u16 where "PINCTRL_GRP_GPIO0_60 \<equiv> 434"
abbreviation (input) PINCTRL_GRP_GPIO0_61 :: u16 where "PINCTRL_GRP_GPIO0_61 \<equiv> 435"
abbreviation (input) PINCTRL_GRP_GPIO0_62 :: u16 where "PINCTRL_GRP_GPIO0_62 \<equiv> 436"
abbreviation (input) PINCTRL_GRP_GPIO0_63 :: u16 where "PINCTRL_GRP_GPIO0_63 \<equiv> 437"
abbreviation (input) PINCTRL_GRP_GPIO0_64 :: u16 where "PINCTRL_GRP_GPIO0_64 \<equiv> 438"
abbreviation (input) PINCTRL_GRP_GPIO0_65 :: u16 where "PINCTRL_GRP_GPIO0_65 \<equiv> 439"
abbreviation (input) PINCTRL_GRP_GPIO0_66 :: u16 where "PINCTRL_GRP_GPIO0_66 \<equiv> 440"
abbreviation (input) PINCTRL_GRP_GPIO0_67 :: u16 where "PINCTRL_GRP_GPIO0_67 \<equiv> 441"
abbreviation (input) PINCTRL_GRP_GPIO0_68 :: u16 where "PINCTRL_GRP_GPIO0_68 \<equiv> 442"
abbreviation (input) PINCTRL_GRP_GPIO0_69 :: u16 where "PINCTRL_GRP_GPIO0_69 \<equiv> 443"
abbreviation (input) PINCTRL_GRP_GPIO0_70 :: u16 where "PINCTRL_GRP_GPIO0_70 \<equiv> 444"
abbreviation (input) PINCTRL_GRP_GPIO0_71 :: u16 where "PINCTRL_GRP_GPIO0_71 \<equiv> 445"
abbreviation (input) PINCTRL_GRP_GPIO0_72 :: u16 where "PINCTRL_GRP_GPIO0_72 \<equiv> 446"
abbreviation (input) PINCTRL_GRP_GPIO0_73 :: u16 where "PINCTRL_GRP_GPIO0_73 \<equiv> 447"
abbreviation (input) PINCTRL_GRP_GPIO0_74 :: u16 where "PINCTRL_GRP_GPIO0_74 \<equiv> 448"
abbreviation (input) PINCTRL_GRP_GPIO0_75 :: u16 where "PINCTRL_GRP_GPIO0_75 \<equiv> 449"
abbreviation (input) PINCTRL_GRP_GPIO0_76 :: u16 where "PINCTRL_GRP_GPIO0_76 \<equiv> 450"
abbreviation (input) PINCTRL_GRP_GPIO0_77 :: u16 where "PINCTRL_GRP_GPIO0_77 \<equiv> 451"
abbreviation (input) PINCTRL_GRP_USB0_0 :: u16 where "PINCTRL_GRP_USB0_0 \<equiv> 452"
abbreviation (input) PINCTRL_GRP_USB1_0 :: u16 where "PINCTRL_GRP_USB1_0 \<equiv> 453"
abbreviation (input) PINCTRL_GRP_PMU0_0 :: u16 where "PINCTRL_GRP_PMU0_0 \<equiv> 454"
abbreviation (input) PINCTRL_GRP_PMU0_1 :: u16 where "PINCTRL_GRP_PMU0_1 \<equiv> 455"
abbreviation (input) PINCTRL_GRP_PMU0_2 :: u16 where "PINCTRL_GRP_PMU0_2 \<equiv> 456"
abbreviation (input) PINCTRL_GRP_PMU0_3 :: u16 where "PINCTRL_GRP_PMU0_3 \<equiv> 457"
abbreviation (input) PINCTRL_GRP_PMU0_4 :: u16 where "PINCTRL_GRP_PMU0_4 \<equiv> 458"
abbreviation (input) PINCTRL_GRP_PMU0_5 :: u16 where "PINCTRL_GRP_PMU0_5 \<equiv> 459"
abbreviation (input) PINCTRL_GRP_PMU0_6 :: u16 where "PINCTRL_GRP_PMU0_6 \<equiv> 460"
abbreviation (input) PINCTRL_GRP_PMU0_7 :: u16 where "PINCTRL_GRP_PMU0_7 \<equiv> 461"
abbreviation (input) PINCTRL_GRP_PMU0_8 :: u16 where "PINCTRL_GRP_PMU0_8 \<equiv> 462"
abbreviation (input) PINCTRL_GRP_PMU0_9 :: u16 where "PINCTRL_GRP_PMU0_9 \<equiv> 463"
abbreviation (input) PINCTRL_GRP_PMU0_10 :: u16 where "PINCTRL_GRP_PMU0_10 \<equiv> 464"
abbreviation (input) PINCTRL_GRP_PMU0_11 :: u16 where "PINCTRL_GRP_PMU0_11 \<equiv> 465"
abbreviation (input) PINCTRL_GRP_PCIE0_0 :: u16 where "PINCTRL_GRP_PCIE0_0 \<equiv> 466"
abbreviation (input) PINCTRL_GRP_PCIE0_1 :: u16 where "PINCTRL_GRP_PCIE0_1 \<equiv> 467"
abbreviation (input) PINCTRL_GRP_PCIE0_2 :: u16 where "PINCTRL_GRP_PCIE0_2 \<equiv> 468"
abbreviation (input) PINCTRL_GRP_PCIE0_3 :: u16 where "PINCTRL_GRP_PCIE0_3 \<equiv> 469"
abbreviation (input) PINCTRL_GRP_PCIE0_4 :: u16 where "PINCTRL_GRP_PCIE0_4 \<equiv> 470"
abbreviation (input) PINCTRL_GRP_PCIE0_5 :: u16 where "PINCTRL_GRP_PCIE0_5 \<equiv> 471"
abbreviation (input) PINCTRL_GRP_PCIE0_6 :: u16 where "PINCTRL_GRP_PCIE0_6 \<equiv> 472"
abbreviation (input) PINCTRL_GRP_PCIE0_7 :: u16 where "PINCTRL_GRP_PCIE0_7 \<equiv> 473"
abbreviation (input) PINCTRL_GRP_CSU0_0 :: u16 where "PINCTRL_GRP_CSU0_0 \<equiv> 474"
abbreviation (input) PINCTRL_GRP_CSU0_1 :: u16 where "PINCTRL_GRP_CSU0_1 \<equiv> 475"
abbreviation (input) PINCTRL_GRP_CSU0_2 :: u16 where "PINCTRL_GRP_CSU0_2 \<equiv> 476"
abbreviation (input) PINCTRL_GRP_CSU0_3 :: u16 where "PINCTRL_GRP_CSU0_3 \<equiv> 477"
abbreviation (input) PINCTRL_GRP_CSU0_4 :: u16 where "PINCTRL_GRP_CSU0_4 \<equiv> 478"
abbreviation (input) PINCTRL_GRP_CSU0_5 :: u16 where "PINCTRL_GRP_CSU0_5 \<equiv> 479"
abbreviation (input) PINCTRL_GRP_CSU0_6 :: u16 where "PINCTRL_GRP_CSU0_6 \<equiv> 480"
abbreviation (input) PINCTRL_GRP_CSU0_7 :: u16 where "PINCTRL_GRP_CSU0_7 \<equiv> 481"
abbreviation (input) PINCTRL_GRP_CSU0_8 :: u16 where "PINCTRL_GRP_CSU0_8 \<equiv> 482"
abbreviation (input) PINCTRL_GRP_CSU0_9 :: u16 where "PINCTRL_GRP_CSU0_9 \<equiv> 483"
abbreviation (input) PINCTRL_GRP_CSU0_10 :: u16 where "PINCTRL_GRP_CSU0_10 \<equiv> 484"
abbreviation (input) PINCTRL_GRP_CSU0_11 :: u16 where "PINCTRL_GRP_CSU0_11 \<equiv> 485"
abbreviation (input) PINCTRL_GRP_DPAUX0_0 :: u16 where "PINCTRL_GRP_DPAUX0_0 \<equiv> 486"
abbreviation (input) PINCTRL_GRP_DPAUX0_1 :: u16 where "PINCTRL_GRP_DPAUX0_1 \<equiv> 487"
abbreviation (input) PINCTRL_GRP_DPAUX0_2 :: u16 where "PINCTRL_GRP_DPAUX0_2 \<equiv> 488"
abbreviation (input) PINCTRL_GRP_DPAUX0_3 :: u16 where "PINCTRL_GRP_DPAUX0_3 \<equiv> 489"
abbreviation (input) PINCTRL_GRP_PJTAG0_0 :: u16 where "PINCTRL_GRP_PJTAG0_0 \<equiv> 490"
abbreviation (input) PINCTRL_GRP_PJTAG0_1 :: u16 where "PINCTRL_GRP_PJTAG0_1 \<equiv> 491"
abbreviation (input) PINCTRL_GRP_PJTAG0_2 :: u16 where "PINCTRL_GRP_PJTAG0_2 \<equiv> 492"
abbreviation (input) PINCTRL_GRP_PJTAG0_3 :: u16 where "PINCTRL_GRP_PJTAG0_3 \<equiv> 493"
abbreviation (input) PINCTRL_GRP_PJTAG0_4 :: u16 where "PINCTRL_GRP_PJTAG0_4 \<equiv> 494"
abbreviation (input) PINCTRL_GRP_PJTAG0_5 :: u16 where "PINCTRL_GRP_PJTAG0_5 \<equiv> 495"
abbreviation (input) PINCTRL_GRP_TRACE0_0 :: u16 where "PINCTRL_GRP_TRACE0_0 \<equiv> 496"
abbreviation (input) PINCTRL_GRP_TRACE0_0_CLK :: u16 where "PINCTRL_GRP_TRACE0_0_CLK \<equiv> 497"
abbreviation (input) PINCTRL_GRP_TRACE0_1 :: u16 where "PINCTRL_GRP_TRACE0_1 \<equiv> 498"
abbreviation (input) PINCTRL_GRP_TRACE0_1_CLK :: u16 where "PINCTRL_GRP_TRACE0_1_CLK \<equiv> 499"
abbreviation (input) PINCTRL_GRP_TRACE0_2 :: u16 where "PINCTRL_GRP_TRACE0_2 \<equiv> 500"
abbreviation (input) PINCTRL_GRP_TRACE0_2_CLK :: u16 where "PINCTRL_GRP_TRACE0_2_CLK \<equiv> 501"
abbreviation (input) PINCTRL_GRP_TESTSCAN0_0 :: u16 where "PINCTRL_GRP_TESTSCAN0_0 \<equiv> 502"

section \<open>Functions (pm_api_pinctrl.c)\<close>

record pinctrl_function =
  pf_name :: string
  pf_groups :: "u16 list"
  pf_regval :: u8

definition pinctrl_functions_0 :: "pinctrl_function list" where
  "pinctrl_functions_0 = [
     \<comment> \<open>PINCTRL_FUNC_CAN0\<close>
     \<lparr>pf_name = ''can0'', pf_groups = [PINCTRL_GRP_CAN0_0, PINCTRL_GRP_CAN0_1, PINCTRL_GRP_CAN0_2, PINCTRL_GRP_CAN0_3,
        PINCTRL_GRP_CAN0_4, PINCTRL_GRP_CAN0_5, PINCTRL_GRP_CAN0_6, PINCTRL_GRP_CAN0_7,
        PINCTRL_GRP_CAN0_8, PINCTRL_GRP_CAN0_9, PINCTRL_GRP_CAN0_10, PINCTRL_GRP_CAN0_11,
        PINCTRL_GRP_CAN0_12, PINCTRL_GRP_CAN0_13, PINCTRL_GRP_CAN0_14, PINCTRL_GRP_CAN0_15,
        PINCTRL_GRP_CAN0_16, PINCTRL_GRP_CAN0_17, PINCTRL_GRP_CAN0_18, END_OF_GROUPS], pf_regval = 0x20\<rparr>,
     \<comment> \<open>PINCTRL_FUNC_CAN1\<close>
     \<lparr>pf_name = ''can1'', pf_groups = [PINCTRL_GRP_CAN1_0, PINCTRL_GRP_CAN1_1, PINCTRL_GRP_CAN1_2, PINCTRL_GRP_CAN1_3,
        PINCTRL_GRP_CAN1_4, PINCTRL_GRP_CAN1_5, PINCTRL_GRP_CAN1_6, PINCTRL_GRP_CAN1_7,
        PINCTRL_GRP_CAN1_8, PINCTRL_GRP_CAN1_9, PINCTRL_GRP_CAN1_10, PINCTRL_GRP_CAN1_11,
        PINCTRL_GRP_CAN1_12, PINCTRL_GRP_CAN1_13, PINCTRL_GRP_CAN1_14, PINCTRL_GRP_CAN1_15,
        PINCTRL_GRP_CAN1_16, PINCTRL_GRP_CAN1_17, PINCTRL_GRP_CAN1_18, PINCTRL_GRP_CAN1_19,
        END_OF_GROUPS], pf_regval = 0x20\<rparr>,
     \<comment> \<open>PINCTRL_FUNC_ETHERNET0\<close>
     \<lparr>pf_name = ''ethernet0'', pf_groups = [PINCTRL_GRP_ETHERNET0_0, END_OF_GROUPS], pf_regval = 0x02\<rparr>,
     \<comment> \<open>PINCTRL_FUNC_ETHERNET1\<close>
     \<lparr>pf_name = ''ethernet1'', pf_groups = [PINCTRL_GRP_ETHERNET1_0, END_OF_GROUPS], pf_regval = 0x02\<rparr>,
     \<comment> \<open>PINCTRL_FUNC_ETHERNET2\<close>
     \<lparr>pf_name = ''ethernet2'', pf_groups = [PINCTRL_GRP_ETHERNET2_0, END_OF_GROUPS], pf_regval = 0x02\<rparr>,
     \<comment> \<open>PINCTRL_FUNC_ETHERNET3\<close>
     \<lparr>pf_name = ''ethernet3'', pf_groups = [PINCTRL_GRP_ETHERNET3_0, END_OF_GROUPS], pf_regval = 0x02\<rparr>,
     \<comment> \<open>PINCTRL_FUNC_GEMTSU0\<close>
     \<lparr>pf_name = ''gemtsu0'', pf_groups = [PINCTRL_GRP_GEMTSU0_0, PINCTRL_GRP_GEMTSU0_1, PINCTRL_GRP_GEMTSU0_2, END_OF_GROUPS], pf_regval = 0x02\<rparr>,
     \<comment> \<open>PINCTRL_FUNC_GPIO0\<close>
     \<lparr>pf_name = ''gpio0'', pf_groups = [PINCTRL_GRP_GPIO0_0, PINCTRL_GRP_GPIO0_1, PINCTRL_GRP_GPIO0_2, PINCTRL_GRP_GPIO0_3,
        PINCTRL_GRP_GPIO0_4, PINCTRL_GRP_GPIO0_5, PINCTRL_GRP_GPIO0_6, PINCTRL_GRP_GPIO0_7,
        PINCTRL_GRP_GPIO0_8, PINCTRL_GRP_GPIO0_9, PINCTRL_GRP_GPIO0_10, PINCTRL_GRP_GPIO0_11,
        PINCTRL_GRP_GPIO0_12, PINCTRL_GRP_GPIO0_13, PINCTRL_GRP_GPIO0_14, PINCTRL_GRP_GPIO0_15,
        PINCTRL_GRP_GPIO0_16, PINCTRL_GRP_GPIO0_17, PINCTRL_GRP_GPIO0_18, PINCTRL_GRP_GPIO0_19,
        PINCTRL_GRP_GPIO0_20, PINCTRL_GRP_GPIO0_21, PINCTRL_GRP_GPIO0_22, PINCTRL_GRP_GPIO0_23,
        PINCTRL_GRP_GPIO0_24, PINCTRL_GRP_GPIO0_25, PINCTRL_GRP_GPIO0_26, PINCTRL_GRP_GPIO0_27,
        PINCTRL_GRP_GPIO0_28, PINCTRL_GRP_GPIO0_29, PINCTRL_GRP_GPIO0_30, PINCTRL_GRP_GPIO0_31,
        PINCTRL_GRP_GPIO0_32, PINCTRL_GRP_GPIO0_33, PINCTRL_GRP_GPIO0_34, PINCTRL_GRP_GPIO0_35,
        PINCTRL_GRP_GPIO0_36, PINCTRL_GRP_GPIO0_37, PINCTRL_GRP_GPIO0_38, PINCTRL_GRP_GPIO0_39,
        PINCTRL_GRP_GPIO0_40, PINCTRL_GRP_GPIO0_41, PINCTRL_GRP_GPIO0_42, PINCTRL_GRP_GPIO0_43,
        PINCTRL_GRP_GPIO0_44, PINCTRL_GRP_GPIO0_45, PINCTRL_GRP_GPIO0_46, PINCTRL_GRP_GPIO0_47,
        PINCTRL_GRP_GPIO0_48, PINCTRL_GRP_GPIO0_49, PINCTRL_GRP_GPIO0_50, PINCTRL_GRP_GPIO0_51,
        PINCTRL_GRP_GPIO0_52, PINCTRL_GRP_GPIO0_53, PINCTRL_GRP_GPIO0_54, PINCTRL_GRP_GPIO0_55,
        PINCTRL_GRP_GPIO0_56, PINCTRL_GRP_GPIO0_57, PINCTRL_GRP_GPIO0_58, PINCTRL_GRP_GPIO0_59,
        PINCTRL_GRP_GPIO0_60, PINCTRL_GRP_GPIO0_61, PINCTRL_GRP_GPIO0_62, PINCTRL_GRP_GPIO0_63,
        PINCTRL_GRP_GPIO0_64, PINCTRL_GRP_GPIO0_65, PINCTRL_GRP_GPIO0_66, PINCTRL_GRP_GPIO0_67,
        PINCTRL_GRP_GPIO0_68, PINCTRL_GRP_GPIO0_69, PINCTRL_GRP_GPIO0_70, PINCTRL_GRP_GPIO0_71,
        PINCTRL_GRP_GPIO0_72, PINCTRL_GRP_GPIO0_73, PINCTRL_GRP_GPIO0_74, PINCTRL_GRP_GPIO0_75,
        PINCTRL_GRP_GPIO0_76, PINCTRL_GRP_GPIO0_77, END_OF_GROUPS], pf_regval = 0x00\<rparr>,
     \<comment> \<open>PINCTRL_FUNC_I2C0\<close>
     \<lparr>pf_name = ''i2c0'', pf_groups = [PINCTRL_GRP_I2C0_0, PINCTRL_GRP_I2C0_1, PINCTRL_GRP_I2C0_2, PINCTRL_GRP_I2C0_3,
        PINCTRL_GRP_I2C0_4, PINCTRL_GRP_I2C0_5, PINCTRL_GRP_I2C0_6, PINCTRL_GRP_I2C0_7,
        PINCTRL_GRP_I2C0_8, PINCTRL_GRP_I2C0_9, PINCTRL_GRP_I2C0_10, PINCTRL_GRP_I2C0_11,
        PINCTRL_GRP_I2C0_12, PINCTRL_GRP_I2C0_13, PINCTRL_GRP_I2C0_14, PINCTRL_GRP_I2C0_15,
        PINCTRL_GRP_I2C0_16, PINCTRL_GRP_I2C0_17, PINCTRL_GRP_I2C0_18, END_OF_GROUPS], pf_regval = 0x40\<rparr>,
     \<comment> \<open>PINCTRL_FUNC_I2C1\<close>
     \<lparr>pf_name = ''i2c1'', pf_groups = [PINCTRL_GRP_I2C1_0, PINCTRL_GRP_I2C1_1, PINCTRL_GRP_I2C1_2, PINCTRL_GRP_I2C1_3,
        PINCTRL_GRP_I2C1_4, PINCTRL_GRP_I2C1_5, PINCTRL_GRP_I2C1_6, PINCTRL_GRP_I2C1_7,
        PINCTRL_GRP_I2C1_8, PINCTRL_GRP_I2C1_9, PINCTRL_GRP_I2C1_10, PINCTRL_GRP_I2C1_11,
        PINCTRL_GRP_I2C1_12, PINCTRL_GRP_I2C1_13, PINCTRL_GRP_I2C1_14, PINCTRL_GRP_I2C1_15,
        PINCTRL_GRP_I2C1_16, PINCTRL_GRP_I2C1_17, PINCTRL_GRP_I2C1_18, PINCTRL_GRP_I2C1_19,
        END_OF_GROUPS], pf_regval = 0x40\<rparr>,
     \<comment> \<open>PINCTRL_FUNC_MDIO0\<close>
     \<lparr>pf_name = ''mdio0'', pf_groups = [PINCTRL_GRP_MDIO0_0, END_OF_GROUPS], pf_regval = 0x60\<rparr>,
     \<comment> \<open>PINCTRL_FUNC_MDIO1\<close>
     \<lparr>pf_name = ''mdio1'', pf_groups = [PINCTRL_GRP_MDIO1_0, PINCTRL_GRP_MDIO1_1, END_OF_GROUPS], pf_regval = 0x80\<rparr>,
     \<comment> \<open>PINCTRL_FUNC_MDIO2\<close>
     \<lparr>pf_name = ''mdio2'', pf_groups = [PINCTRL_GRP_MDIO2_0, END_OF_GROUPS], pf_regval = 0xa0\<rparr>,
     \<comment> \<open>PINCTRL_FUNC_MDIO3\<close>
     \<lparr>pf_name = ''mdio3'', pf_groups = [PINCTRL_GRP_MDIO3_0, END_OF_GROUPS], pf_regval = 0xc0\<rparr>,
     \<comment> \<open>PINCTRL_FUNC_QSPI0\<close>
     \<lparr>pf_name = ''qspi0'', pf_groups = [PINCTRL_GRP_QSPI0_0, END_OF_GROUPS], pf_regval = 0x02\<rparr>,
     \<comment> \<open>PINCTRL_FUNC_QSPI_FBCLK\<close>
     \<lparr>pf_name = ''qspi_fbclk'', pf_groups = [PINCTRL_GRP_QSPI_FBCLK, END_OF_GROUPS], pf_regval = 0x02\<rparr>,
     \<comment> \<open>PINCTRL_FUNC_QSPI_SS\<close>
     \<lparr>pf_name = ''qspi_ss'', pf_groups = [PINCTRL_GRP_QSPI_SS, END_OF_GROUPS], pf_regval = 0x02\<rparr>,
     \<comment> \<open>PINCTRL_FUNC_SPI0\<close>
     \<lparr>pf_name = ''spi0'', pf_groups = [PINCTRL_GRP_SPI0_0, PINCTRL_GRP_SPI0_1, PINCTRL_GRP_SPI0_2, PINCTRL_GRP_SPI0_3,
        PINCTRL_GRP_SPI0_4, PINCTRL_GRP_SPI0_5, END_OF_GROUPS], pf_regval = 0x80\<rparr>,
     \<comment> \<open>PINCTRL_FUNC_SPI1\<close>
     \<lparr>pf_name = ''spi1'', pf_groups = [PINCTRL_GRP_SPI1_0, PINCTRL_GRP_SPI1_1, PINCTRL_GRP_SPI1_2, PINCTRL_GRP_SPI1_3,
        PINCTRL_GRP_SPI1_4, PINCTRL_GRP_SPI1_5, END_OF_GROUPS], pf_regval = 0x80\<rparr>]"

definition pinctrl_functions_1 :: "pinctrl_function list" where
  "pinctrl_functions_1 = [
     \<comment> \<open>PINCTRL_FUNC_SPI0_SS\<close>
     \<lparr>pf_name = ''spi0_ss'', pf_groups = [PINCTRL_GRP_SPI0_0_SS0, PINCTRL_GRP_SPI0_0_SS1, PINCTRL_GRP_SPI0_0_SS2, PINCTRL_GRP_SPI0_1_SS0,
        PINCTRL_GRP_SPI0_1_SS1, PINCTRL_GRP_SPI0_1_SS2, PINCTRL_GRP_SPI0_2_SS0, PINCTRL_GRP_SPI0_2_SS1,
        PINCTRL_GRP_SPI0_2_SS2, PINCTRL_GRP_SPI0_3_SS0, PINCTRL_GRP_SPI0_3_SS1, PINCTRL_GRP_SPI0_3_SS2,
        PINCTRL_GRP_SPI0_4_SS0, PINCTRL_GRP_SPI0_4_SS1, PINCTRL_GRP_SPI0_4_SS2, PINCTRL_GRP_SPI0_5_SS0,
        PINCTRL_GRP_SPI0_5_SS1, PINCTRL_GRP_SPI0_5_SS2, END_OF_GROUPS], pf_regval = 0x80\<rparr>,
     \<comment> \<open>PINCTRL_FUNC_SPI1_SS\<close>
     \<lparr>pf_name = ''spi1_ss'', pf_groups = [PINCTRL_GRP_SPI1_0_SS0, PINCTRL_GRP_SPI1_0_SS1, PINCTRL_GRP_SPI1_0_SS2, PINCTRL_GRP_SPI1_1_SS0,
        PINCTRL_GRP_SPI1_1_SS1, PINCTRL_GRP_SPI1_1_SS2, PINCTRL_GRP_SPI1_2_SS0, PINCTRL_GRP_SPI1_2_SS1,
        PINCTRL_GRP_SPI1_2_SS2, PINCTRL_GRP_SPI1_3_SS0, PINCTRL_GRP_SPI1_3_SS1, PINCTRL_GRP_SPI1_3_SS2,
        PINCTRL_GRP_SPI1_4_SS0, PINCTRL_GRP_SPI1_4_SS1, PINCTRL_GRP_SPI1_4_SS2, PINCTRL_GRP_SPI1_5_SS0,
        PINCTRL_GRP_SPI1_5_SS1, PINCTRL_GRP_SPI1_5_SS2, END_OF_GROUPS], pf_regval = 0x80\<rparr>,
     \<comment> \<open>PINCTRL_FUNC_SDIO0\<close>
     \<lparr>pf_name = ''sdio0'', pf_groups = [PINCTRL_GRP_SDIO0_0, PINCTRL_GRP_SDIO0_1, PINCTRL_GRP_SDIO0_2, PINCTRL_GRP_SDIO0_4BIT_0_0,
        PINCTRL_GRP_SDIO0_4BIT_0_1, PINCTRL_GRP_SDIO0_4BIT_1_0, PINCTRL_GRP_SDIO0_4BIT_1_1,
        PINCTRL_GRP_SDIO0_4BIT_2_0, PINCTRL_GRP_SDIO0_4BIT_2_1, PINCTRL_GRP_SDIO0_1BIT_0_0,
        PINCTRL_GRP_SDIO0_1BIT_0_1, PINCTRL_GRP_SDIO0_1BIT_0_2, PINCTRL_GRP_SDIO0_1BIT_0_3,
        PINCTRL_GRP_SDIO0_1BIT_0_4, PINCTRL_GRP_SDIO0_1BIT_0_5, PINCTRL_GRP_SDIO0_1BIT_0_6,
        PINCTRL_GRP_SDIO0_1BIT_0_7, PINCTRL_GRP_SDIO0_1BIT_1_0, PINCTRL_GRP_SDIO0_1BIT_1_1,
        PINCTRL_GRP_SDIO0_1BIT_1_2, PINCTRL_GRP_SDIO0_1BIT_1_3, PINCTRL_GRP_SDIO0_1BIT_1_4,
        PINCTRL_GRP_SDIO0_1BIT_1_5, PINCTRL_GRP_SDIO0_1BIT_1_6, PINCTRL_GRP_SDIO0_1BIT_1_7,
        PINCTRL_GRP_SDIO0_1BIT_2_0, PINCTRL_GRP_SDIO0_1BIT_2_1, PINCTRL_GRP_SDIO0_1BIT_2_2,
        PINCTRL_GRP_SDIO0_1BIT_2_3, PINCTRL_GRP_SDIO0_1BIT_2_4, PINCTRL_GRP_SDIO0_1BIT_2_5,
        PINCTRL_GRP_SDIO0_1BIT_2_6, PINCTRL_GRP_SDIO0_1BIT_2_7, END_OF_GROUPS], pf_regval = 0x08\<rparr>,
     \<comment> \<open>PINCTRL_FUNC_SDIO0_PC\<close>
     \<lparr>pf_name = ''sdio0_pc'', pf_groups = [PINCTRL_GRP_SDIO0_0_PC, PINCTRL_GRP_SDIO0_1_PC, PINCTRL_GRP_SDIO0_2_PC, END_OF_GROUPS], pf_regval = 0x08\<rparr>,
     \<comment> \<open>PINCTRL_FUNC_SDIO0_CD\<close>
     \<lparr>pf_name = ''sdio0_cd'', pf_groups = [PINCTRL_GRP_SDIO0_0_CD, PINCTRL_GRP_SDIO0_1_CD, PINCTRL_GRP_SDIO0_2_CD, END_OF_GROUPS], pf_regval = 0x08\<rparr>,
     \<comment> \<open>PINCTRL_FUNC_SDIO0_WP\<close>
     \<lparr>pf_name = ''sdio0_wp'', pf_groups = [PINCTRL_GRP_SDIO0_0_WP, PINCTRL_GRP_SDIO0_1_WP, PINCTRL_GRP_SDIO0_2_WP, END_OF_GROUPS], pf_regval = 0x08\<rparr>,
     \<comment> \<open>PINCTRL_FUNC_SDIO1\<close>
     \<lparr>pf_name = ''sdio1'', pf_groups = [PINCTRL_GRP_SDIO1_0, PINCTRL_GRP_SDIO1_4BIT_0_0, PINCTRL_GRP_SDIO1_4BIT_0_1,
        PINCTRL_GRP_SDIO1_4BIT_1_0, PINCTRL_GRP_SDIO1_1BIT_0_0, PINCTRL_GRP_SDIO1_1BIT_0_1,
        PINCTRL_GRP_SDIO1_1BIT_0_2, PINCTRL_GRP_SDIO1_1BIT_0_3, PINCTRL_GRP_SDIO1_1BIT_0_4,
        PINCTRL_GRP_SDIO1_1BIT_0_5, PINCTRL_GRP_SDIO1_1BIT_0_6, PINCTRL_GRP_SDIO1_1BIT_0_7,
        PINCTRL_GRP_SDIO1_1BIT_1_0, PINCTRL_GRP_SDIO1_1BIT_1_1, PINCTRL_GRP_SDIO1_1BIT_1_2,
        PINCTRL_GRP_SDIO1_1BIT_1_3, END_OF_GROUPS], pf_regval = 0x10\<rparr>,
     \<comment> \<open>PINCTRL_FUNC_SDIO1_PC\<close>
     \<lparr>pf_name = ''sdio1_pc'', pf_groups = [PINCTRL_GRP_SDIO1_0_PC, PINCTRL_GRP_SDIO1_1_PC, END_OF_GROUPS], pf_regval = 0x10\<rparr>,
     \<comment> \<open>PINCTRL_FUNC_SDIO1_CD\<close>
     \<lparr>pf_name = ''sdio1_cd'', pf_groups = [PINCTRL_GRP_SDIO1_0_CD, PINCTRL_GRP_SDIO1_1_CD, END_OF_GROUPS], pf_regval = 0x10\<rparr>,
     \<comment> \<open>PINCTRL_FUNC_SDIO1_WP\<close>
     \<lparr>pf_name = ''sdio1_wp'', pf_groups = [PINCTRL_GRP_SDIO1_0_WP, PINCTRL_GRP_SDIO1_1_WP, END_OF_GROUPS], pf_regval = 0x10\<rparr>,
     \<comment> \<open>PINCTRL_FUNC_NAND0\<close>
     \<lparr>pf_name = ''nand0'', pf_groups = [PINCTRL_GRP_NAND0_0, END_OF_GROUPS], pf_regval = 0x04\<rparr>,
     \<comment> \<open>PINCTRL_FUNC_NAND0_CE\<close>
     \<lparr>pf_name = ''nand0_ce'', pf_groups = [PINCTRL_GRP_NAND0_0_CE, PINCTRL_GRP_NAND0_1_CE, END_OF_GROUPS], pf_regval = 0x04\<rparr>,
     \<comment> \<open>PINCTRL_FUNC_NAND0_RB\<close>
     \<lparr>pf_name = ''nand0_rb'', pf_groups = [PINCTRL_GRP_NAND0_0_RB, PINCTRL_GRP_NAND0_1_RB, END_OF_GROUPS], pf_regval = 0x04\<rparr>,
     \<comment> \<open>PINCTRL_FUNC_NAND0_DQS\<close>
     \<lparr>pf_name = ''nand0_dqs'', pf_groups = [PINCTRL_GRP_NAND0_0_DQS, PINCTRL_GRP_NAND0_1_DQS, END_OF_GROUPS], pf_regval = 0x04\<rparr>,
     \<comment> \<open>PINCTRL_FUNC_TTC0_CLK\<close>
     \<lparr>pf_name = ''ttc0_clk'', pf_groups = [PINCTRL_GRP_TTC0_0_CLK, PINCTRL_GRP_TTC0_1_CLK, PINCTRL_GRP_TTC0_2_CLK, PINCTRL_GRP_TTC0_3_CLK,
        PINCTRL_GRP_TTC0_4_CLK, PINCTRL_GRP_TTC0_5_CLK, PINCTRL_GRP_TTC0_6_CLK, PINCTRL_GRP_TTC0_7_CLK,
        PINCTRL_GRP_TTC0_8_CLK, END_OF_GROUPS], pf_regval = 0xa0\<rparr>,
     \<comment> \<open>PINCTRL_FUNC_TTC0_WAV\<close>
     \<lparr>pf_name = ''ttc0_wav'', pf_groups = [PINCTRL_GRP_TTC0_0_WAV, PINCTRL_GRP_TTC0_1_WAV, PINCTRL_GRP_TTC0_2_WAV, PINCTRL_GRP_TTC0_3_WAV,
        PINCTRL_GRP_TTC0_4_WAV, PINCTRL_GRP_TTC0_5_WAV, PINCTRL_GRP_TTC0_6_WAV, PINCTRL_GRP_TTC0_7_WAV,
        PINCTRL_GRP_TTC0_8_WAV, END_OF_GROUPS], pf_regval = 0xa0\<rparr>,
     \<comment> \<open>PINCTRL_FUNC_TTC1_CLK\<close>
     \<lparr>pf_name = ''ttc1_clk'', pf_groups = [PINCTRL_GRP_TTC1_0_CLK, PINCTRL_GRP_TTC1_1_CLK, PINCTRL_GRP_TTC1_2_CLK, PINCTRL_GRP_TTC1_3_CLK,
        PINCTRL_GRP_TTC1_4_CLK, PINCTRL_GRP_TTC1_5_CLK, PINCTRL_GRP_TTC1_6_CLK, PINCTRL_GRP_TTC1_7_CLK,
        PINCTRL_GRP_TTC1_8_CLK, END_OF_GROUPS], pf_regval = 0xa0\<rparr>,
     \<comment> \<open>PINCTRL_FUNC_TTC1_WAV\<close>
     \<lparr>pf_name = ''ttc1_wav'', pf_groups = [PINCTRL_GRP_TTC1_0_WAV, PINCTRL_GRP_TTC1_1_WAV, PINCTRL_GRP_TTC1_2_WAV, PINCTRL_GRP_TTC1_3_WAV,
        PINCTRL_GRP_TTC1_4_WAV, PINCTRL_GRP_TTC1_5_WAV, PINCTRL_GRP_TTC1_6_WAV, PINCTRL_GRP_TTC1_7_WAV,
        PINCTRL_GRP_TTC1_8_WAV, END_OF_GROUPS], pf_regval = 0xa0\<rparr>,
     \<comment> \<open>PINCTRL_FUNC_TTC2_CLK\<close>
     \<lparr>pf_name = ''ttc2_clk'', pf_groups = [PINCTRL_GRP_TTC2_0_CLK, PINCTRL_GRP_TTC2_1_CLK, PINCTRL_GRP_TTC2_2_CLK, PINCTRL_GRP_TTC2_3_CLK,
        PINCTRL_GRP_TTC2_4_CLK, PINCTRL_GRP_TTC2_5_CLK, PINCTRL_GRP_TTC2_6_CLK, PINCTRL_GRP_TTC2_7_CLK,
        PINCTRL_GRP_TTC2_8_CLK, END_OF_GROUPS], pf_regval = 0xa0\<rparr>]"

definition pinctrl_functions_2 :: "pinctrl_function list" where
  "pinctrl_functions_2 = [
     \<comment> \<open>PINCTRL_FUNC_TTC2_WAV\<close>
     \<lparr>pf_name = ''ttc2_wav'', pf_groups = [PINCTRL_GRP_TTC2_0_WAV, PINCTRL_GRP_TTC2_1_WAV, PINCTRL_GRP_TTC2_2_WAV, PINCTRL_GRP_TTC2_3_WAV,
        PINCTRL_GRP_TTC2_4_WAV, PINCTRL_GRP_TTC2_5_WAV, PINCTRL_GRP_TTC2_6_WAV, PINCTRL_GRP_TTC2_7_WAV,
        PINCTRL_GRP_TTC2_8_WAV, END_OF_GROUPS], pf_regval = 0xa0\<rparr>,
     \<comment> \<open>PINCTRL_FUNC_TTC3_CLK\<close>
     \<lparr>pf_name = ''ttc3_clk'', pf_groups = [PINCTRL_GRP_TTC3_0_CLK, PINCTRL_GRP_TTC3_1_CLK, PINCTRL_GRP_TTC3_2_CLK, PINCTRL_GRP_TTC3_3_CLK,
        PINCTRL_GRP_TTC3_4_CLK, PINCTRL_GRP_TTC3_5_CLK, PINCTRL_GRP_TTC3_6_CLK, PINCTRL_GRP_TTC3_7_CLK,
        PINCTRL_GRP_TTC3_8_CLK, END_OF_GROUPS], pf_regval = 0xa0\<rparr>,
     \<comment> \<open>PINCTRL_FUNC_TTC3_WAV\<close>
     \<lparr>pf_name = ''ttc3_wav'', pf_groups = [PINCTRL_GRP_TTC3_0_WAV, PINCTRL_GRP_TTC3_1_WAV, PINCTRL_GRP_TTC3_2_WAV, PINCTRL_GRP_TTC3_3_WAV,
        PINCTRL_GRP_TTC3_4_WAV, PINCTRL_GRP_TTC3_5_WAV, PINCTRL_GRP_TTC3_6_WAV, PINCTRL_GRP_TTC3_7_WAV,
        PINCTRL_GRP_TTC3_8_WAV, END_OF_GROUPS], pf_regval = 0xa0\<rparr>,
     \<comment> \<open>PINCTRL_FUNC_UART0\<close>
     \<lparr>pf_name = ''uart0'', pf_groups = [PINCTRL_GRP_UART0_0, PINCTRL_GRP_UART0_1, PINCTRL_GRP_UART0_2, PINCTRL_GRP_UART0_3,
        PINCTRL_GRP_UART0_4, PINCTRL_GRP_UART0_5, PINCTRL_GRP_UART0_6, PINCTRL_GRP_UART0_7,
        PINCTRL_GRP_UART0_8, PINCTRL_GRP_UART0_9, PINCTRL_GRP_UART0_10, PINCTRL_GRP_UART0_11,
        PINCTRL_GRP_UART0_12, PINCTRL_GRP_UART0_13, PINCTRL_GRP_UART0_14, PINCTRL_GRP_UART0_15,
        PINCTRL_GRP_UART0_16, PINCTRL_GRP_UART0_17, PINCTRL_GRP_UART0_18, END_OF_GROUPS], pf_regval = 0xc0\<rparr>,
     \<comment> \<open>PINCTRL_FUNC_UART1\<close>
     \<lparr>pf_name = ''uart1'', pf_groups = [PINCTRL_GRP_UART1_0, PINCTRL_GRP_UART1_1, PINCTRL_GRP_UART1_2, PINCTRL_GRP_UART1_3,
        PINCTRL_GRP_UART1_4, PINCTRL_GRP_UART1_5, PINCTRL_GRP_UART1_6, PINCTRL_GRP_UART1_7,
        PINCTRL_GRP_UART1_8, PINCTRL_GRP_UART1_9, PINCTRL_GRP_UART1_10, PINCTRL_GRP_UART1_11,
        PINCTRL_GRP_UART1_12, PINCTRL_GRP_UART1_13, PINCTRL_GRP_UART1_14, PINCTRL_GRP_UART1_15,
        PINCTRL_GRP_UART1_16, PINCTRL_GRP_UART1_17, PINCTRL_GRP_UART1_18, END_OF_GROUPS], pf_regval = 0xc0\<rparr>,
     \<comment> \<open>PINCTRL_FUNC_USB0\<close>
     \<lparr>pf_name = ''usb0'', pf_groups = [PINCTRL_GRP_USB0_0, END_OF_GROUPS], pf_regval = 0x04\<rparr>,
     \<comment> \<open>PINCTRL_FUNC_USB1\<close>
     \<lparr>pf_name = ''usb1'', pf_groups = [PINCTRL_GRP_USB1_0, END_OF_GROUPS], pf_regval = 0x04\<rparr>,
     \<comment> \<open>PINCTRL_FUNC_SWDT0_CLK\<close>
     \<lparr>pf_name = ''swdt0_clk'', pf_groups = [PINCTRL_GRP_SWDT0_0_CLK, PINCTRL_GRP_SWDT0_1_CLK, PINCTRL_GRP_SWDT0_2_CLK,
        PINCTRL_GRP_SWDT0_3_CLK, PINCTRL_GRP_SWDT0_4_CLK, PINCTRL_GRP_SWDT0_5_CLK,
        PINCTRL_GRP_SWDT0_6_CLK, PINCTRL_GRP_SWDT0_7_CLK, PINCTRL_GRP_SWDT0_8_CLK,
        PINCTRL_GRP_SWDT0_9_CLK, PINCTRL_GRP_SWDT0_10_CLK, PINCTRL_GRP_SWDT0_11_CLK,
        PINCTRL_GRP_SWDT0_12_CLK, END_OF_GROUPS], pf_regval = 0x60\<rparr>,
     \<comment> \<open>PINCTRL_FUNC_SWDT0_RST\<close>
     \<lparr>pf_name = ''swdt0_rst'', pf_groups = [PINCTRL_GRP_SWDT0_0_RST, PINCTRL_GRP_SWDT0_1_RST, PINCTRL_GRP_SWDT0_2_RST,
        PINCTRL_GRP_SWDT0_3_RST, PINCTRL_GRP_SWDT0_4_RST, PINCTRL_GRP_SWDT0_5_RST,
        PINCTRL_GRP_SWDT0_6_RST, PINCTRL_GRP_SWDT0_7_RST, PINCTRL_GRP_SWDT0_8_RST,
        PINCTRL_GRP_SWDT0_9_RST, PINCTRL_GRP_SWDT0_10_RST, PINCTRL_GRP_SWDT0_11_RST,
        PINCTRL_GRP_SWDT0_12_RST, END_OF_GROUPS], pf_regval = 0x60\<rparr>,
     \<comment> \<open>PINCTRL_FUNC_SWDT1_CLK\<close>
     \<lparr>pf_name = ''swdt1_clk'', pf_groups = [PINCTRL_GRP_SWDT1_0_CLK, PINCTRL_GRP_SWDT1_1_CLK, PINCTRL_GRP_SWDT1_2_CLK,
        PINCTRL_GRP_SWDT1_3_CLK, PINCTRL_GRP_SWDT1_4_CLK, PINCTRL_GRP_SWDT1_5_CLK,
        PINCTRL_GRP_SWDT1_6_CLK, PINCTRL_GRP_SWDT1_7_CLK, PINCTRL_GRP_SWDT1_8_CLK,
        PINCTRL_GRP_SWDT1_9_CLK, PINCTRL_GRP_SWDT1_10_CLK, PINCTRL_GRP_SWDT1_11_CLK,
        PINCTRL_GRP_SWDT1_12_CLK, END_OF_GROUPS], pf_regval = 0x60\<rparr>,
     \<comment> \<open>PINCTRL_FUNC_SWDT1_RST\<close>
     \<lparr>pf_name = ''swdt1_rst'', pf_groups = [PINCTRL_GRP_SWDT1_0_RST, PINCTRL_GRP_SWDT1_1_RST, PINCTRL_GRP_SWDT1_2_RST,
        PINCTRL_GRP_SWDT1_3_RST, PINCTRL_GRP_SWDT1_4_RST, PINCTRL_GRP_SWDT1_5_RST,
        PINCTRL_GRP_SWDT1_6_RST, PINCTRL_GRP_SWDT1_7_RST, PINCTRL_GRP_SWDT1_8_RST,
        PINCTRL_GRP_SWDT1_9_RST, PINCTRL_GRP_SWDT1_10_RST, PINCTRL_GRP_SWDT1_11_RST,
        PINCTRL_GRP_SWDT1_12_RST, END_OF_GROUPS], pf_regval = 0x60\<rparr>,
     \<comment> \<open>PINCTRL_FUNC_PMU0\<close>
     \<lparr>pf_name = ''pmu0'', pf_groups = [PINCTRL_GRP_PMU0_0, PINCTRL_GRP_PMU0_1, PINCTRL_GRP_PMU0_2, PINCTRL_GRP_PMU0_3,
        PINCTRL_GRP_PMU0_4, PINCTRL_GRP_PMU0_5, PINCTRL_GRP_PMU0_6, PINCTRL_GRP_PMU0_7,
        PINCTRL_GRP_PMU0_8, PINCTRL_GRP_PMU0_9, PINCTRL_GRP_PMU0_10, PINCTRL_GRP_PMU0_11, END_OF_GROUPS], pf_regval = 0x08\<rparr>,
     \<comment> \<open>PINCTRL_FUNC_PCIE0\<close>
     \<lparr>pf_name = ''pcie0'', pf_groups = [PINCTRL_GRP_PCIE0_0, PINCTRL_GRP_PCIE0_1, PINCTRL_GRP_PCIE0_2, PINCTRL_GRP_PCIE0_3,
        PINCTRL_GRP_PCIE0_4, PINCTRL_GRP_PCIE0_5, PINCTRL_GRP_PCIE0_6, PINCTRL_GRP_PCIE0_7,
        END_OF_GROUPS], pf_regval = 0x04\<rparr>,
     \<comment> \<open>PINCTRL_FUNC_CSU0\<close>
     \<lparr>pf_name = ''csu0'', pf_groups = [PINCTRL_GRP_CSU0_0, PINCTRL_GRP_CSU0_1, PINCTRL_GRP_CSU0_2, PINCTRL_GRP_CSU0_3,
        PINCTRL_GRP_CSU0_4, PINCTRL_GRP_CSU0_5, PINCTRL_GRP_CSU0_6, PINCTRL_GRP_CSU0_7,
        PINCTRL_GRP_CSU0_8, PINCTRL_GRP_CSU0_9, PINCTRL_GRP_CSU0_10, PINCTRL_GRP_CSU0_11, END_OF_GROUPS], pf_regval = 0x18\<rparr>,
     \<comment> \<open>PINCTRL_FUNC_DPAUX0\<close>
     \<lparr>pf_name = ''dpaux0'', pf_groups = [PINCTRL_GRP_DPAUX0_0, PINCTRL_GRP_DPAUX0_1, PINCTRL_GRP_DPAUX0_2, PINCTRL_GRP_DPAUX0_3,
        END_OF_GROUPS], pf_regval = 0x18\<rparr>,
     \<comment> \<open>PINCTRL_FUNC_PJTAG0\<close>
     \<lparr>pf_name = ''pjtag0'', pf_groups = [PINCTRL_GRP_PJTAG0_0, PINCTRL_GRP_PJTAG0_1, PINCTRL_GRP_PJTAG0_2, PINCTRL_GRP_PJTAG0_3,
        PINCTRL_GRP_PJTAG0_4, PINCTRL_GRP_PJTAG0_5, END_OF_GROUPS], pf_regval = 0x60\<rparr>,
     \<comment> \<open>PINCTRL_FUNC_TRACE0\<close>
     \<lparr>pf_name = ''trace0'', pf_groups = [PINCTRL_GRP_TRACE0_0, PINCTRL_GRP_TRACE0_1, PINCTRL_GRP_TRACE0_2, END_OF_GROUPS], pf_regval = 0xe0\<rparr>,
     \<comment> \<open>PINCTRL_FUNC_TRACE0_CLK\<close>
     \<lparr>pf_name = ''trace0_clk'', pf_groups = [PINCTRL_GRP_TRACE0_0_CLK, PINCTRL_GRP_TRACE0_1_CLK, PINCTRL_GRP_TRACE0_2_CLK, END_OF_GROUPS], pf_regval = 0xe0\<rparr>,
     \<comment> \<open>PINCTRL_FUNC_TESTSCAN0\<close>
     \<lparr>pf_name = ''testscan0'', pf_groups = [PINCTRL_GRP_TESTSCAN0_0, END_OF_GROUPS], pf_regval = 0x10\<rparr>]"

definition pinctrl_functions :: "pinctrl_function list" where
  "pinctrl_functions = pinctrl_functions_0 @ pinctrl_functions_1 @ pinctrl_functions_2"

section \<open>Pins (pm_api_pinctrl.c)\<close>

definition zynqmp_pin_groups_0 :: "u16 list list" where
  "zynqmp_pin_groups_0 = [
     \<comment> \<open>PINCTRL_PIN_0\<close>
     [PINCTRL_GRP_QSPI0_0, PINCTRL_GRP_RESERVED, PINCTRL_GRP_RESERVED, PINCTRL_GRP_TESTSCAN0_0,
      PINCTRL_GRP_RESERVED, PINCTRL_GRP_GPIO0_0, PINCTRL_GRP_CAN1_0, PINCTRL_GRP_I2C1_0,
      PINCTRL_GRP_PJTAG0_0, PINCTRL_GRP_SPI0_0, PINCTRL_GRP_TTC3_0_CLK, PINCTRL_GRP_UART1_0,
      PINCTRL_GRP_TRACE0_0_CLK, END_OF_GROUPS],
     \<comment> \<open>PINCTRL_PIN_1\<close>
     [PINCTRL_GRP_QSPI0_0, PINCTRL_GRP_RESERVED, PINCTRL_GRP_RESERVED, PINCTRL_GRP_TESTSCAN0_0,
      PINCTRL_GRP_RESERVED, PINCTRL_GRP_GPIO0_1, PINCTRL_GRP_CAN1_0, PINCTRL_GRP_I2C1_0,
      PINCTRL_GRP_PJTAG0_0, PINCTRL_GRP_SPI0_0_SS2, PINCTRL_GRP_TTC3_0_WAV, PINCTRL_GRP_UART1_0,
      PINCTRL_GRP_TRACE0_0_CLK, END_OF_GROUPS],
     \<comment> \<open>PINCTRL_PIN_2\<close>
     [PINCTRL_GRP_QSPI0_0, PINCTRL_GRP_RESERVED, PINCTRL_GRP_RESERVED, PINCTRL_GRP_TESTSCAN0_0,
      PINCTRL_GRP_RESERVED, PINCTRL_GRP_GPIO0_2, PINCTRL_GRP_CAN0_0, PINCTRL_GRP_I2C0_0,
      PINCTRL_GRP_PJTAG0_0, PINCTRL_GRP_SPI0_0_SS1, PINCTRL_GRP_TTC2_0_CLK, PINCTRL_GRP_UART0_0,
      PINCTRL_GRP_TRACE0_0, END_OF_GROUPS],
     \<comment> \<open>PINCTRL_PIN_3\<close>
     [PINCTRL_GRP_QSPI0_0, PINCTRL_GRP_RESERVED, PINCTRL_GRP_RESERVED, PINCTRL_GRP_TESTSCAN0_0,
      PINCTRL_GRP_RESERVED, PINCTRL_GRP_GPIO0_3, PINCTRL_GRP_CAN0_0, PINCTRL_GRP_I2C0_0,
      PINCTRL_GRP_PJTAG0_0, PINCTRL_GRP_SPI0_0_SS0, PINCTRL_GRP_TTC2_0_WAV, PINCTRL_GRP_UART0_0,
      PINCTRL_GRP_TRACE0_0, END_OF_GROUPS],
     \<comment> \<open>PINCTRL_PIN_4\<close>
     [PINCTRL_GRP_QSPI0_0, PINCTRL_GRP_RESERVED, PINCTRL_GRP_RESERVED, PINCTRL_GRP_TESTSCAN0_0,
      PINCTRL_GRP_RESERVED, PINCTRL_GRP_GPIO0_4, PINCTRL_GRP_CAN1_1, PINCTRL_GRP_I2C1_1,
      PINCTRL_GRP_SWDT1_0_CLK, PINCTRL_GRP_SPI0_0, PINCTRL_GRP_TTC1_0_CLK, PINCTRL_GRP_UART1_1,
      PINCTRL_GRP_TRACE0_0, END_OF_GROUPS],
     \<comment> \<open>PINCTRL_PIN_5\<close>
     [PINCTRL_GRP_QSPI_SS, PINCTRL_GRP_RESERVED, PINCTRL_GRP_RESERVED, PINCTRL_GRP_TESTSCAN0_0,
      PINCTRL_GRP_RESERVED, PINCTRL_GRP_GPIO0_5, PINCTRL_GRP_CAN1_1, PINCTRL_GRP_I2C1_1,
      PINCTRL_GRP_SWDT1_0_RST, PINCTRL_GRP_SPI0_0, PINCTRL_GRP_TTC1_0_WAV, PINCTRL_GRP_UART1_1,
      PINCTRL_GRP_TRACE0_0, END_OF_GROUPS],
     \<comment> \<open>PINCTRL_PIN_6\<close>
     [PINCTRL_GRP_QSPI_FBCLK, PINCTRL_GRP_RESERVED, PINCTRL_GRP_RESERVED, PINCTRL_GRP_TESTSCAN0_0,
      PINCTRL_GRP_RESERVED, PINCTRL_GRP_GPIO0_6, PINCTRL_GRP_CAN0_1, PINCTRL_GRP_I2C0_1,
      PINCTRL_GRP_SWDT0_0_CLK, PINCTRL_GRP_SPI1_0, PINCTRL_GRP_TTC0_0_CLK, PINCTRL_GRP_UART0_1,
      PINCTRL_GRP_TRACE0_0, END_OF_GROUPS],
     \<comment> \<open>PINCTRL_PIN_7\<close>
     [PINCTRL_GRP_QSPI_SS, PINCTRL_GRP_RESERVED, PINCTRL_GRP_RESERVED, PINCTRL_GRP_TESTSCAN0_0,
      PINCTRL_GRP_RESERVED, PINCTRL_GRP_GPIO0_7, PINCTRL_GRP_CAN0_1, PINCTRL_GRP_I2C0_1,
      PINCTRL_GRP_SWDT0_0_RST, PINCTRL_GRP_SPI1_0_SS2, PINCTRL_GRP_TTC0_0_WAV, PINCTRL_GRP_UART0_1,
      PINCTRL_GRP_TRACE0_0, END_OF_GROUPS],
     \<comment> \<open>PINCTRL_PIN_8\<close>
     [PINCTRL_GRP_QSPI0_0, PINCTRL_GRP_RESERVED, PINCTRL_GRP_RESERVED, PINCTRL_GRP_TESTSCAN0_0,
      PINCTRL_GRP_RESERVED, PINCTRL_GRP_GPIO0_8, PINCTRL_GRP_CAN1_2, PINCTRL_GRP_I2C1_2,
      PINCTRL_GRP_SWDT1_1_CLK, PINCTRL_GRP_SPI1_0_SS1, PINCTRL_GRP_TTC3_1_CLK, PINCTRL_GRP_UART1_2,
      PINCTRL_GRP_TRACE0_0, END_OF_GROUPS],
     \<comment> \<open>PINCTRL_PIN_9\<close>
     [PINCTRL_GRP_QSPI0_0, PINCTRL_GRP_NAND0_0_CE, PINCTRL_GRP_RESERVED, PINCTRL_GRP_TESTSCAN0_0,
      PINCTRL_GRP_RESERVED, PINCTRL_GRP_GPIO0_9, PINCTRL_GRP_CAN1_2, PINCTRL_GRP_I2C1_2,
      PINCTRL_GRP_SWDT1_1_RST, PINCTRL_GRP_SPI1_0_SS0, PINCTRL_GRP_TTC3_1_WAV, PINCTRL_GRP_UART1_2,
      PINCTRL_GRP_TRACE0_0, END_OF_GROUPS],
     \<comment> \<open>PINCTRL_PIN_10\<close>
     [PINCTRL_GRP_QSPI0_0, PINCTRL_GRP_NAND0_0_RB, PINCTRL_GRP_RESERVED, PINCTRL_GRP_TESTSCAN0_0,
      PINCTRL_GRP_RESERVED, PINCTRL_GRP_GPIO0_10, PINCTRL_GRP_CAN0_2, PINCTRL_GRP_I2C0_2,
      PINCTRL_GRP_SWDT0_1_CLK, PINCTRL_GRP_SPI1_0, PINCTRL_GRP_TTC2_1_CLK, PINCTRL_GRP_UART0_2,
      PINCTRL_GRP_TRACE0_0, END_OF_GROUPS],
     \<comment> \<open>PINCTRL_PIN_11\<close>
     [PINCTRL_GRP_QSPI0_0, PINCTRL_GRP_NAND0_0_RB, PINCTRL_GRP_RESERVED, PINCTRL_GRP_TESTSCAN0_0,
      PINCTRL_GRP_RESERVED, PINCTRL_GRP_GPIO0_11, PINCTRL_GRP_CAN0_2, PINCTRL_GRP_I2C0_2,
      PINCTRL_GRP_SWDT0_1_RST, PINCTRL_GRP_SPI1_0, PINCTRL_GRP_TTC2_1_WAV, PINCTRL_GRP_UART0_2,
      PINCTRL_GRP_TRACE0_0, END_OF_GROUPS],
     \<comment> \<open>PINCTRL_PIN_12\<close>
     [PINCTRL_GRP_QSPI0_0, PINCTRL_GRP_NAND0_0_DQS, PINCTRL_GRP_RESERVED, PINCTRL_GRP_TESTSCAN0_0,
      PINCTRL_GRP_RESERVED, PINCTRL_GRP_GPIO0_12, PINCTRL_GRP_CAN1_3, PINCTRL_GRP_I2C1_3,
      PINCTRL_GRP_PJTAG0_1, PINCTRL_GRP_SPI0_1, PINCTRL_GRP_TTC1_1_CLK, PINCTRL_GRP_UART1_3,
      PINCTRL_GRP_TRACE0_0, END_OF_GROUPS],
     \<comment> \<open>PINCTRL_PIN_13\<close>
     [PINCTRL_GRP_RESERVED, PINCTRL_GRP_NAND0_0, PINCTRL_GRP_SDIO0_0, PINCTRL_GRP_TESTSCAN0_0,
      PINCTRL_GRP_RESERVED, PINCTRL_GRP_GPIO0_13, PINCTRL_GRP_CAN1_3, PINCTRL_GRP_I2C1_3,
      PINCTRL_GRP_PJTAG0_1, PINCTRL_GRP_SPI0_1_SS2, PINCTRL_GRP_TTC1_1_WAV, PINCTRL_GRP_UART1_3,
      PINCTRL_GRP_TRACE0_0, PINCTRL_GRP_SDIO0_4BIT_0_0, PINCTRL_GRP_SDIO0_1BIT_0_0, END_OF_GROUPS],
     \<comment> \<open>PINCTRL_PIN_14\<close>
     [PINCTRL_GRP_RESERVED, PINCTRL_GRP_NAND0_0, PINCTRL_GRP_SDIO0_0, PINCTRL_GRP_TESTSCAN0_0,
      PINCTRL_GRP_RESERVED, PINCTRL_GRP_GPIO0_14, PINCTRL_GRP_CAN0_3, PINCTRL_GRP_I2C0_3,
      PINCTRL_GRP_PJTAG0_1, PINCTRL_GRP_SPI0_1_SS1, PINCTRL_GRP_TTC0_1_CLK, PINCTRL_GRP_UART0_3,
      PINCTRL_GRP_TRACE0_0, PINCTRL_GRP_SDIO0_4BIT_0_0, PINCTRL_GRP_SDIO0_1BIT_0_1, END_OF_GROUPS],
     \<comment> \<open>PINCTRL_PIN_15\<close>
     [PINCTRL_GRP_RESERVED, PINCTRL_GRP_NAND0_0, PINCTRL_GRP_SDIO0_0, PINCTRL_GRP_TESTSCAN0_0,
      PINCTRL_GRP_RESERVED, PINCTRL_GRP_GPIO0_15, PINCTRL_GRP_CAN0_3, PINCTRL_GRP_I2C0_3,
      PINCTRL_GRP_PJTAG0_1, PINCTRL_GRP_SPI0_1_SS0, PINCTRL_GRP_TTC0_1_WAV, PINCTRL_GRP_UART0_3,
      PINCTRL_GRP_TRACE0_0, PINCTRL_GRP_SDIO0_4BIT_0_0, PINCTRL_GRP_SDIO0_1BIT_0_2, END_OF_GROUPS],
     \<comment> \<open>PINCTRL_PIN_16\<close>
     [PINCTRL_GRP_RESERVED, PINCTRL_GRP_NAND0_0, PINCTRL_GRP_SDIO0_0, PINCTRL_GRP_TESTSCAN0_0,
      PINCTRL_GRP_RESERVED, PINCTRL_GRP_GPIO0_16, PINCTRL_GRP_CAN1_4, PINCTRL_GRP_I2C1_4,
      PINCTRL_GRP_SWDT1_2_CLK, PINCTRL_GRP_SPI0_1, PINCTRL_GRP_TTC3_2_CLK, PINCTRL_GRP_UART1_4,
      PINCTRL_GRP_TRACE0_0, PINCTRL_GRP_SDIO0_4BIT_0_0, PINCTRL_GRP_SDIO0_1BIT_0_3, END_OF_GROUPS],
     \<comment> \<open>PINCTRL_PIN_17\<close>
     [PINCTRL_GRP_RESERVED, PINCTRL_GRP_NAND0_0, PINCTRL_GRP_SDIO0_0, PINCTRL_GRP_TESTSCAN0_0,
      PINCTRL_GRP_RESERVED, PINCTRL_GRP_GPIO0_17, PINCTRL_GRP_CAN1_4, PINCTRL_GRP_I2C1_4,
      PINCTRL_GRP_SWDT1_2_RST, PINCTRL_GRP_SPI0_1, PINCTRL_GRP_TTC3_2_WAV, PINCTRL_GRP_UART1_4,
      PINCTRL_GRP_TRACE0_0, PINCTRL_GRP_SDIO0_4BIT_0_1, PINCTRL_GRP_SDIO0_1BIT_0_4, END_OF_GROUPS],
     \<comment> \<open>PINCTRL_PIN_18\<close>
     [PINCTRL_GRP_RESERVED, PINCTRL_GRP_NAND0_0, PINCTRL_GRP_SDIO0_0, PINCTRL_GRP_TESTSCAN0_0,
      PINCTRL_GRP_CSU0_0, PINCTRL_GRP_GPIO0_18, PINCTRL_GRP_CAN0_4, PINCTRL_GRP_I2C0_4,
      PINCTRL_GRP_SWDT0_2_CLK, PINCTRL_GRP_SPI1_1, PINCTRL_GRP_TTC2_2_CLK, PINCTRL_GRP_UART0_4,
      PINCTRL_GRP_RESERVED, PINCTRL_GRP_SDIO0_4BIT_0_1, PINCTRL_GRP_SDIO0_1BIT_0_5, END_OF_GROUPS],
     \<comment> \<open>PINCTRL_PIN_19\<close>
     [PINCTRL_GRP_RESERVED, PINCTRL_GRP_NAND0_0, PINCTRL_GRP_SDIO0_0, PINCTRL_GRP_TESTSCAN0_0,
      PINCTRL_GRP_CSU0_1, PINCTRL_GRP_GPIO0_19, PINCTRL_GRP_CAN0_4, PINCTRL_GRP_I2C0_4,
      PINCTRL_GRP_SWDT0_2_RST, PINCTRL_GRP_SPI1_1_SS2, PINCTRL_GRP_TTC2_2_WAV, PINCTRL_GRP_UART0_4,
      PINCTRL_GRP_RESERVED, PINCTRL_GRP_SDIO0_4BIT_0_1, PINCTRL_GRP_SDIO0_1BIT_0_6, END_OF_GROUPS]]"

definition zynqmp_pin_groups_1 :: "u16 list list" where
  "zynqmp_pin_groups_1 = [
     \<comment> \<open>PINCTRL_PIN_20\<close>
     [PINCTRL_GRP_RESERVED, PINCTRL_GRP_NAND0_0, PINCTRL_GRP_SDIO0_0, PINCTRL_GRP_TESTSCAN0_0,
      PINCTRL_GRP_CSU0_2, PINCTRL_GRP_GPIO0_20, PINCTRL_GRP_CAN1_5, PINCTRL_GRP_I2C1_5,
      PINCTRL_GRP_SWDT1_3_CLK, PINCTRL_GRP_SPI1_1_SS1, PINCTRL_GRP_TTC1_2_CLK, PINCTRL_GRP_UART1_5,
      PINCTRL_GRP_RESERVED, PINCTRL_GRP_SDIO0_4BIT_0_1, PINCTRL_GRP_SDIO0_1BIT_0_7, END_OF_GROUPS],
     \<comment> \<open>PINCTRL_PIN_21\<close>
     [PINCTRL_GRP_RESERVED, PINCTRL_GRP_NAND0_0, PINCTRL_GRP_SDIO0_0, PINCTRL_GRP_TESTSCAN0_0,
      PINCTRL_GRP_CSU0_3, PINCTRL_GRP_GPIO0_21, PINCTRL_GRP_CAN1_5, PINCTRL_GRP_I2C1_5,
      PINCTRL_GRP_SWDT1_3_RST, PINCTRL_GRP_SPI1_1_SS0, PINCTRL_GRP_TTC1_2_WAV, PINCTRL_GRP_UART1_5,
      PINCTRL_GRP_RESERVED, PINCTRL_GRP_SDIO0_4BIT_0_0, PINCTRL_GRP_SDIO0_4BIT_0_1,
      PINCTRL_GRP_SDIO0_1BIT_0_0, PINCTRL_GRP_SDIO0_1BIT_0_1, PINCTRL_GRP_SDIO0_1BIT_0_2,
      PINCTRL_GRP_SDIO0_1BIT_0_3, PINCTRL_GRP_SDIO0_1BIT_0_4, PINCTRL_GRP_SDIO0_1BIT_0_5,
      PINCTRL_GRP_SDIO0_1BIT_0_6, PINCTRL_GRP_SDIO0_1BIT_0_7, END_OF_GROUPS],
     \<comment> \<open>PINCTRL_PIN_22\<close>
     [PINCTRL_GRP_RESERVED, PINCTRL_GRP_NAND0_0, PINCTRL_GRP_SDIO0_0, PINCTRL_GRP_TESTSCAN0_0,
      PINCTRL_GRP_CSU0_4, PINCTRL_GRP_GPIO0_22, PINCTRL_GRP_CAN0_5, PINCTRL_GRP_I2C0_5,
      PINCTRL_GRP_SWDT0_3_CLK, PINCTRL_GRP_SPI1_1, PINCTRL_GRP_TTC0_2_CLK, PINCTRL_GRP_UART0_5,
      PINCTRL_GRP_RESERVED, PINCTRL_GRP_SDIO0_4BIT_0_0, PINCTRL_GRP_SDIO0_4BIT_0_1,
      PINCTRL_GRP_SDIO0_1BIT_0_0, PINCTRL_GRP_SDIO0_1BIT_0_1, PINCTRL_GRP_SDIO0_1BIT_0_2,
      PINCTRL_GRP_SDIO0_1BIT_0_3, PINCTRL_GRP_SDIO0_1BIT_0_4, PINCTRL_GRP_SDIO0_1BIT_0_5,
      PINCTRL_GRP_SDIO0_1BIT_0_6, PINCTRL_GRP_SDIO0_1BIT_0_7, END_OF_GROUPS],
     \<comment> \<open>PINCTRL_PIN_23\<close>
     [PINCTRL_GRP_RESERVED, PINCTRL_GRP_NAND0_0, PINCTRL_GRP_SDIO0_0_PC, PINCTRL_GRP_TESTSCAN0_0,
      PINCTRL_GRP_CSU0_5, PINCTRL_GRP_GPIO0_23, PINCTRL_GRP_CAN0_5, PINCTRL_GRP_I2C0_5,
      PINCTRL_GRP_SWDT0_3_RST, PINCTRL_GRP_SPI1_1, PINCTRL_GRP_TTC0_2_WAV, PINCTRL_GRP_UART0_5,
      PINCTRL_GRP_RESERVED, END_OF_GROUPS],
     \<comment> \<open>PINCTRL_PIN_24\<close>
     [PINCTRL_GRP_RESERVED, PINCTRL_GRP_NAND0_0, PINCTRL_GRP_SDIO0_0_CD, PINCTRL_GRP_TESTSCAN0_0,
      PINCTRL_GRP_CSU0_6, PINCTRL_GRP_GPIO0_24, PINCTRL_GRP_CAN1_6, PINCTRL_GRP_I2C1_6,
      PINCTRL_GRP_SWDT1_4_CLK, PINCTRL_GRP_RESERVED, PINCTRL_GRP_TTC3_3_CLK, PINCTRL_GRP_UART1_6,
      PINCTRL_GRP_RESERVED, END_OF_GROUPS],
     \<comment> \<open>PINCTRL_PIN_25\<close>
     [PINCTRL_GRP_RESERVED, PINCTRL_GRP_NAND0_0, PINCTRL_GRP_SDIO0_0_WP, PINCTRL_GRP_TESTSCAN0_0,
      PINCTRL_GRP_CSU0_7, PINCTRL_GRP_GPIO0_25, PINCTRL_GRP_CAN1_6, PINCTRL_GRP_I2C1_6,
      PINCTRL_GRP_SWDT1_4_RST, PINCTRL_GRP_RESERVED, PINCTRL_GRP_TTC3_3_WAV, PINCTRL_GRP_UART1_6,
      PINCTRL_GRP_RESERVED, END_OF_GROUPS],
     \<comment> \<open>PINCTRL_PIN_26\<close>
     [PINCTRL_GRP_ETHERNET0_0, PINCTRL_GRP_GEMTSU0_0, PINCTRL_GRP_NAND0_1_CE, PINCTRL_GRP_PMU0_0,
      PINCTRL_GRP_TESTSCAN0_0, PINCTRL_GRP_CSU0_8, PINCTRL_GRP_GPIO0_26, PINCTRL_GRP_CAN0_6,
      PINCTRL_GRP_I2C0_6, PINCTRL_GRP_PJTAG0_2, PINCTRL_GRP_SPI0_2, PINCTRL_GRP_TTC2_3_CLK,
      PINCTRL_GRP_UART0_6, PINCTRL_GRP_TRACE0_1, END_OF_GROUPS],
     \<comment> \<open>PINCTRL_PIN_27\<close>
     [PINCTRL_GRP_ETHERNET0_0, PINCTRL_GRP_NAND0_1_RB, PINCTRL_GRP_PMU0_1, PINCTRL_GRP_TESTSCAN0_0,
      PINCTRL_GRP_DPAUX0_0, PINCTRL_GRP_GPIO0_27, PINCTRL_GRP_CAN0_6, PINCTRL_GRP_I2C0_6,
      PINCTRL_GRP_PJTAG0_2, PINCTRL_GRP_SPI0_2_SS2, PINCTRL_GRP_TTC2_3_WAV, PINCTRL_GRP_UART0_6,
      PINCTRL_GRP_TRACE0_1, END_OF_GROUPS],
     \<comment> \<open>PINCTRL_PIN_28\<close>
     [PINCTRL_GRP_ETHERNET0_0, PINCTRL_GRP_NAND0_1_RB, PINCTRL_GRP_PMU0_2, PINCTRL_GRP_TESTSCAN0_0,
      PINCTRL_GRP_DPAUX0_0, PINCTRL_GRP_GPIO0_28, PINCTRL_GRP_CAN1_7, PINCTRL_GRP_I2C1_7,
      PINCTRL_GRP_PJTAG0_2, PINCTRL_GRP_SPI0_2_SS1, PINCTRL_GRP_TTC1_3_CLK, PINCTRL_GRP_UART1_7,
      PINCTRL_GRP_TRACE0_1, END_OF_GROUPS],
     \<comment> \<open>PINCTRL_PIN_29\<close>
     [PINCTRL_GRP_ETHERNET0_0, PINCTRL_GRP_PCIE0_0, PINCTRL_GRP_PMU0_3, PINCTRL_GRP_TESTSCAN0_0,
      PINCTRL_GRP_DPAUX0_1, PINCTRL_GRP_GPIO0_29, PINCTRL_GRP_CAN1_7, PINCTRL_GRP_I2C1_7,
      PINCTRL_GRP_PJTAG0_2, PINCTRL_GRP_SPI0_2_SS0, PINCTRL_GRP_TTC1_3_WAV, PINCTRL_GRP_UART1_7,
      PINCTRL_GRP_TRACE0_1, END_OF_GROUPS],
     \<comment> \<open>PINCTRL_PIN_30\<close>
     [PINCTRL_GRP_ETHERNET0_0, PINCTRL_GRP_PCIE0_1, PINCTRL_GRP_PMU0_4, PINCTRL_GRP_TESTSCAN0_0,
      PINCTRL_GRP_DPAUX0_1, PINCTRL_GRP_GPIO0_30, PINCTRL_GRP_CAN0_7, PINCTRL_GRP_I2C0_7,
      PINCTRL_GRP_SWDT0_4_CLK, PINCTRL_GRP_SPI0_2, PINCTRL_GRP_TTC0_3_CLK, PINCTRL_GRP_UART0_7,
      PINCTRL_GRP_TRACE0_1, END_OF_GROUPS],
     \<comment> \<open>PINCTRL_PIN_31\<close>
     [PINCTRL_GRP_ETHERNET0_0, PINCTRL_GRP_PCIE0_2, PINCTRL_GRP_PMU0_5, PINCTRL_GRP_TESTSCAN0_0,
      PINCTRL_GRP_CSU0_9, PINCTRL_GRP_GPIO0_31, PINCTRL_GRP_CAN0_7, PINCTRL_GRP_I2C0_7,
      PINCTRL_GRP_SWDT0_4_RST, PINCTRL_GRP_SPI0_2, PINCTRL_GRP_TTC0_3_WAV, PINCTRL_GRP_UART0_7,
      PINCTRL_GRP_TRACE0_1, END_OF_GROUPS],
     \<comment> \<open>PINCTRL_PIN_32\<close>
     [PINCTRL_GRP_ETHERNET0_0, PINCTRL_GRP_NAND0_1_DQS, PINCTRL_GRP_PMU0_6, PINCTRL_GRP_TESTSCAN0_0,
      PINCTRL_GRP_CSU0_10, PINCTRL_GRP_GPIO0_32, PINCTRL_GRP_CAN1_8, PINCTRL_GRP_I2C1_8,
      PINCTRL_GRP_SWDT1_5_CLK, PINCTRL_GRP_SPI1_2, PINCTRL_GRP_TTC3_4_CLK, PINCTRL_GRP_UART1_8,
      PINCTRL_GRP_TRACE0_1, END_OF_GROUPS],
     \<comment> \<open>PINCTRL_PIN_33\<close>
     [PINCTRL_GRP_ETHERNET0_0, PINCTRL_GRP_PCIE0_3, PINCTRL_GRP_PMU0_7, PINCTRL_GRP_TESTSCAN0_0,
      PINCTRL_GRP_CSU0_11, PINCTRL_GRP_GPIO0_33, PINCTRL_GRP_CAN1_8, PINCTRL_GRP_I2C1_8,
      PINCTRL_GRP_SWDT1_5_RST, PINCTRL_GRP_SPI1_2_SS2, PINCTRL_GRP_TTC3_4_WAV, PINCTRL_GRP_UART1_8,
      PINCTRL_GRP_TRACE0_1, END_OF_GROUPS],
     \<comment> \<open>PINCTRL_PIN_34\<close>
     [PINCTRL_GRP_ETHERNET0_0, PINCTRL_GRP_PCIE0_4, PINCTRL_GRP_PMU0_8, PINCTRL_GRP_TESTSCAN0_0,
      PINCTRL_GRP_DPAUX0_2, PINCTRL_GRP_GPIO0_34, PINCTRL_GRP_CAN0_8, PINCTRL_GRP_I2C0_8,
      PINCTRL_GRP_SWDT0_5_CLK, PINCTRL_GRP_SPI1_2_SS1, PINCTRL_GRP_TTC2_4_CLK, PINCTRL_GRP_UART0_8,
      PINCTRL_GRP_TRACE0_1, END_OF_GROUPS],
     \<comment> \<open>PINCTRL_PIN_35\<close>
     [PINCTRL_GRP_ETHERNET0_0, PINCTRL_GRP_PCIE0_5, PINCTRL_GRP_PMU0_9, PINCTRL_GRP_TESTSCAN0_0,
      PINCTRL_GRP_DPAUX0_2, PINCTRL_GRP_GPIO0_35, PINCTRL_GRP_CAN0_8, PINCTRL_GRP_I2C0_8,
      PINCTRL_GRP_SWDT0_5_RST, PINCTRL_GRP_SPI1_2_SS0, PINCTRL_GRP_TTC2_4_WAV, PINCTRL_GRP_UART0_8,
      PINCTRL_GRP_TRACE0_1, END_OF_GROUPS],
     \<comment> \<open>PINCTRL_PIN_36\<close>
     [PINCTRL_GRP_ETHERNET0_0, PINCTRL_GRP_PCIE0_6, PINCTRL_GRP_PMU0_10, PINCTRL_GRP_TESTSCAN0_0,
      PINCTRL_GRP_DPAUX0_3, PINCTRL_GRP_GPIO0_36, PINCTRL_GRP_CAN1_9, PINCTRL_GRP_I2C1_9,
      PINCTRL_GRP_SWDT1_6_CLK, PINCTRL_GRP_SPI1_2, PINCTRL_GRP_TTC1_4_CLK, PINCTRL_GRP_UART1_9,
      PINCTRL_GRP_TRACE0_1, END_OF_GROUPS],
     \<comment> \<open>PINCTRL_PIN_37\<close>
     [PINCTRL_GRP_ETHERNET0_0, PINCTRL_GRP_PCIE0_7, PINCTRL_GRP_PMU0_11, PINCTRL_GRP_TESTSCAN0_0,
      PINCTRL_GRP_DPAUX0_3, PINCTRL_GRP_GPIO0_37, PINCTRL_GRP_CAN1_9, PINCTRL_GRP_I2C1_9,
      PINCTRL_GRP_SWDT1_6_RST, PINCTRL_GRP_SPI1_2, PINCTRL_GRP_TTC1_4_WAV, PINCTRL_GRP_UART1_9,
      PINCTRL_GRP_TRACE0_1, END_OF_GROUPS],
     \<comment> \<open>PINCTRL_PIN_38\<close>
     [PINCTRL_GRP_ETHERNET1_0, PINCTRL_GRP_RESERVED, PINCTRL_GRP_SDIO0_1, PINCTRL_GRP_RESERVED,
      PINCTRL_GRP_RESERVED, PINCTRL_GRP_GPIO0_38, PINCTRL_GRP_CAN0_9, PINCTRL_GRP_I2C0_9,
      PINCTRL_GRP_PJTAG0_3, PINCTRL_GRP_SPI0_3, PINCTRL_GRP_TTC0_4_CLK, PINCTRL_GRP_UART0_9,
      PINCTRL_GRP_TRACE0_1_CLK, PINCTRL_GRP_SDIO0_4BIT_1_0, PINCTRL_GRP_SDIO0_4BIT_1_1,
      PINCTRL_GRP_SDIO0_1BIT_1_0, PINCTRL_GRP_SDIO0_1BIT_1_1, PINCTRL_GRP_SDIO0_1BIT_1_2,
      PINCTRL_GRP_SDIO0_1BIT_1_3, PINCTRL_GRP_SDIO0_1BIT_1_4, PINCTRL_GRP_SDIO0_1BIT_1_5,
      PINCTRL_GRP_SDIO0_1BIT_1_6, PINCTRL_GRP_SDIO0_1BIT_1_7, END_OF_GROUPS],
     \<comment> \<open>PINCTRL_PIN_39\<close>
     [PINCTRL_GRP_ETHERNET1_0, PINCTRL_GRP_RESERVED, PINCTRL_GRP_SDIO0_1_CD, PINCTRL_GRP_SDIO1_0,
      PINCTRL_GRP_RESERVED, PINCTRL_GRP_GPIO0_39, PINCTRL_GRP_CAN0_9, PINCTRL_GRP_I2C0_9,
      PINCTRL_GRP_PJTAG0_3, PINCTRL_GRP_SPI0_3_SS2, PINCTRL_GRP_TTC0_4_WAV, PINCTRL_GRP_UART0_9,
      PINCTRL_GRP_TRACE0_1_CLK, PINCTRL_GRP_SDIO1_4BIT_0_0, PINCTRL_GRP_SDIO1_1BIT_0_0, END_OF_GROUPS]]"

definition zynqmp_pin_groups_2 :: "u16 list list" where
  "zynqmp_pin_groups_2 = [
     \<comment> \<open>PINCTRL_PIN_40\<close>
     [PINCTRL_GRP_ETHERNET1_0, PINCTRL_GRP_RESERVED, PINCTRL_GRP_SDIO0_1, PINCTRL_GRP_SDIO1_0,
      PINCTRL_GRP_RESERVED, PINCTRL_GRP_GPIO0_40, PINCTRL_GRP_CAN1_10, PINCTRL_GRP_I2C1_10,
      PINCTRL_GRP_PJTAG0_3, PINCTRL_GRP_SPI0_3_SS1, PINCTRL_GRP_TTC3_5_CLK, PINCTRL_GRP_UART1_10,
      PINCTRL_GRP_TRACE0_1, PINCTRL_GRP_SDIO0_4BIT_1_0, PINCTRL_GRP_SDIO0_4BIT_1_1,
      PINCTRL_GRP_SDIO0_1BIT_1_0, PINCTRL_GRP_SDIO0_1BIT_1_1, PINCTRL_GRP_SDIO0_1BIT_1_2,
      PINCTRL_GRP_SDIO0_1BIT_1_3, PINCTRL_GRP_SDIO0_1BIT_1_4, PINCTRL_GRP_SDIO0_1BIT_1_5,
      PINCTRL_GRP_SDIO0_1BIT_1_6, PINCTRL_GRP_SDIO0_1BIT_1_7, PINCTRL_GRP_SDIO1_4BIT_0_0,
      PINCTRL_GRP_SDIO1_1BIT_0_1, END_OF_GROUPS],
     \<comment> \<open>PINCTRL_PIN_41\<close>
     [PINCTRL_GRP_ETHERNET1_0, PINCTRL_GRP_RESERVED, PINCTRL_GRP_SDIO0_1, PINCTRL_GRP_SDIO1_0,
      PINCTRL_GRP_RESERVED, PINCTRL_GRP_GPIO0_41, PINCTRL_GRP_CAN1_10, PINCTRL_GRP_I2C1_10,
      PINCTRL_GRP_PJTAG0_3, PINCTRL_GRP_SPI0_3_SS0, PINCTRL_GRP_TTC3_5_WAV, PINCTRL_GRP_UART1_10,
      PINCTRL_GRP_TRACE0_1, PINCTRL_GRP_SDIO0_4BIT_1_0, PINCTRL_GRP_SDIO0_1BIT_1_0,
      PINCTRL_GRP_SDIO1_4BIT_0_0, PINCTRL_GRP_SDIO1_1BIT_0_2, END_OF_GROUPS],
     \<comment> \<open>PINCTRL_PIN_42\<close>
     [PINCTRL_GRP_ETHERNET1_0, PINCTRL_GRP_RESERVED, PINCTRL_GRP_SDIO0_1, PINCTRL_GRP_SDIO1_0,
      PINCTRL_GRP_RESERVED, PINCTRL_GRP_GPIO0_42, PINCTRL_GRP_CAN0_10, PINCTRL_GRP_I2C0_10,
      PINCTRL_GRP_SWDT0_6_CLK, PINCTRL_GRP_SPI0_3, PINCTRL_GRP_TTC2_5_CLK, PINCTRL_GRP_UART0_10,
      PINCTRL_GRP_TRACE0_1, PINCTRL_GRP_SDIO0_1, PINCTRL_GRP_SDIO0_4BIT_1_0,
      PINCTRL_GRP_SDIO0_1BIT_1_1, PINCTRL_GRP_SDIO1_4BIT_0_0, PINCTRL_GRP_SDIO1_1BIT_0_3,
      END_OF_GROUPS],
     \<comment> \<open>PINCTRL_PIN_43\<close>
     [PINCTRL_GRP_ETHERNET1_0, PINCTRL_GRP_RESERVED, PINCTRL_GRP_SDIO0_1, PINCTRL_GRP_SDIO1_0_PC,
      PINCTRL_GRP_RESERVED, PINCTRL_GRP_GPIO0_43, PINCTRL_GRP_CAN0_10, PINCTRL_GRP_I2C0_10,
      PINCTRL_GRP_SWDT0_6_RST, PINCTRL_GRP_SPI0_3, PINCTRL_GRP_TTC2_5_WAV, PINCTRL_GRP_UART0_10,
      PINCTRL_GRP_TRACE0_1, PINCTRL_GRP_SDIO0_4BIT_1_0, PINCTRL_GRP_SDIO0_1BIT_1_2, END_OF_GROUPS],
     \<comment> \<open>PINCTRL_PIN_44\<close>
     [PINCTRL_GRP_ETHERNET1_0, PINCTRL_GRP_RESERVED, PINCTRL_GRP_SDIO0_1, PINCTRL_GRP_SDIO1_0_WP,
      PINCTRL_GRP_RESERVED, PINCTRL_GRP_GPIO0_44, PINCTRL_GRP_CAN1_11, PINCTRL_GRP_I2C1_11,
      PINCTRL_GRP_SWDT1_7_CLK, PINCTRL_GRP_SPI1_3, PINCTRL_GRP_TTC1_5_CLK, PINCTRL_GRP_UART1_11,
      PINCTRL_GRP_RESERVED, PINCTRL_GRP_SDIO0_4BIT_1_0, PINCTRL_GRP_SDIO0_1BIT_1_3, END_OF_GROUPS],
     \<comment> \<open>PINCTRL_PIN_45\<close>
     [PINCTRL_GRP_ETHERNET1_0, PINCTRL_GRP_RESERVED, PINCTRL_GRP_SDIO0_1, PINCTRL_GRP_SDIO1_0_CD,
      PINCTRL_GRP_RESERVED, PINCTRL_GRP_GPIO0_45, PINCTRL_GRP_CAN1_11, PINCTRL_GRP_I2C1_11,
      PINCTRL_GRP_SWDT1_7_RST, PINCTRL_GRP_SPI1_3_SS2, PINCTRL_GRP_TTC1_5_WAV, PINCTRL_GRP_UART1_11,
      PINCTRL_GRP_RESERVED, PINCTRL_GRP_SDIO0_4BIT_1_1, PINCTRL_GRP_SDIO0_1BIT_1_4, END_OF_GROUPS],
     \<comment> \<open>PINCTRL_PIN_46\<close>
     [PINCTRL_GRP_ETHERNET1_0, PINCTRL_GRP_RESERVED, PINCTRL_GRP_SDIO0_1, PINCTRL_GRP_SDIO1_0,
      PINCTRL_GRP_RESERVED, PINCTRL_GRP_GPIO0_46, PINCTRL_GRP_CAN0_11, PINCTRL_GRP_I2C0_11,
      PINCTRL_GRP_SWDT0_7_CLK, PINCTRL_GRP_SPI1_3_SS1, PINCTRL_GRP_TTC0_5_CLK, PINCTRL_GRP_UART0_11,
      PINCTRL_GRP_RESERVED, PINCTRL_GRP_SDIO0_4BIT_1_1, PINCTRL_GRP_SDIO0_1BIT_1_5,
      PINCTRL_GRP_SDIO1_4BIT_0_1, PINCTRL_GRP_SDIO1_1BIT_0_4, END_OF_GROUPS],
     \<comment> \<open>PINCTRL_PIN_47\<close>
     [PINCTRL_GRP_ETHERNET1_0, PINCTRL_GRP_RESERVED, PINCTRL_GRP_SDIO0_1, PINCTRL_GRP_SDIO1_0,
      PINCTRL_GRP_RESERVED, PINCTRL_GRP_GPIO0_47, PINCTRL_GRP_CAN0_11, PINCTRL_GRP_I2C0_11,
      PINCTRL_GRP_SWDT0_7_RST, PINCTRL_GRP_SPI1_3_SS0, PINCTRL_GRP_TTC0_5_WAV, PINCTRL_GRP_UART0_11,
      PINCTRL_GRP_RESERVED, PINCTRL_GRP_SDIO0_4BIT_1_1, PINCTRL_GRP_SDIO0_1BIT_1_6,
      PINCTRL_GRP_SDIO1_4BIT_0_1, PINCTRL_GRP_SDIO1_1BIT_0_5, END_OF_GROUPS],
     \<comment> \<open>PINCTRL_PIN_48\<close>
     [PINCTRL_GRP_ETHERNET1_0, PINCTRL_GRP_RESERVED, PINCTRL_GRP_SDIO0_1, PINCTRL_GRP_SDIO1_0,
      PINCTRL_GRP_RESERVED, PINCTRL_GRP_GPIO0_48, PINCTRL_GRP_CAN1_12, PINCTRL_GRP_I2C1_12,
      PINCTRL_GRP_SWDT1_8_CLK, PINCTRL_GRP_SPI1_3, PINCTRL_GRP_TTC3_6_CLK, PINCTRL_GRP_UART1_12,
      PINCTRL_GRP_RESERVED, PINCTRL_GRP_SDIO0_4BIT_1_1, PINCTRL_GRP_SDIO0_1BIT_1_7,
      PINCTRL_GRP_SDIO1_4BIT_0_1, PINCTRL_GRP_SDIO1_1BIT_0_6, END_OF_GROUPS],
     \<comment> \<open>PINCTRL_PIN_49\<close>
     [PINCTRL_GRP_ETHERNET1_0, PINCTRL_GRP_RESERVED, PINCTRL_GRP_SDIO0_1_PC, PINCTRL_GRP_SDIO1_0,
      PINCTRL_GRP_RESERVED, PINCTRL_GRP_GPIO0_49, PINCTRL_GRP_CAN1_12, PINCTRL_GRP_I2C1_12,
      PINCTRL_GRP_SWDT1_8_RST, PINCTRL_GRP_SPI1_3, PINCTRL_GRP_TTC3_6_WAV, PINCTRL_GRP_UART1_12,
      PINCTRL_GRP_RESERVED, PINCTRL_GRP_SDIO1_4BIT_0_1, PINCTRL_GRP_SDIO1_1BIT_0_7, END_OF_GROUPS],
     \<comment> \<open>PINCTRL_PIN_50\<close>
     [PINCTRL_GRP_GEMTSU0_1, PINCTRL_GRP_RESERVED, PINCTRL_GRP_SDIO0_1_WP, PINCTRL_GRP_SDIO1_0,
      PINCTRL_GRP_RESERVED, PINCTRL_GRP_GPIO0_50, PINCTRL_GRP_CAN0_12, PINCTRL_GRP_I2C0_12,
      PINCTRL_GRP_SWDT0_8_CLK, PINCTRL_GRP_MDIO1_0, PINCTRL_GRP_TTC2_6_CLK, PINCTRL_GRP_UART0_12,
      PINCTRL_GRP_RESERVED, PINCTRL_GRP_SDIO1_4BIT_0_0, PINCTRL_GRP_SDIO1_4BIT_0_1,
      PINCTRL_GRP_SDIO1_1BIT_0_0, PINCTRL_GRP_SDIO1_1BIT_0_1, PINCTRL_GRP_SDIO1_1BIT_0_2,
      PINCTRL_GRP_SDIO1_1BIT_0_3, PINCTRL_GRP_SDIO1_1BIT_0_4, PINCTRL_GRP_SDIO1_1BIT_0_5,
      PINCTRL_GRP_SDIO1_1BIT_0_6, PINCTRL_GRP_SDIO1_1BIT_0_7, END_OF_GROUPS],
     \<comment> \<open>PINCTRL_PIN_51\<close>
     [PINCTRL_GRP_GEMTSU0_2, PINCTRL_GRP_RESERVED, PINCTRL_GRP_RESERVED, PINCTRL_GRP_SDIO1_0,
      PINCTRL_GRP_RESERVED, PINCTRL_GRP_GPIO0_51, PINCTRL_GRP_CAN0_12, PINCTRL_GRP_I2C0_12,
      PINCTRL_GRP_SWDT0_8_RST, PINCTRL_GRP_MDIO1_0, PINCTRL_GRP_TTC2_6_WAV, PINCTRL_GRP_UART0_12,
      PINCTRL_GRP_RESERVED, PINCTRL_GRP_SDIO1_4BIT_0_0, PINCTRL_GRP_SDIO1_4BIT_0_1,
      PINCTRL_GRP_SDIO1_1BIT_0_0, PINCTRL_GRP_SDIO1_1BIT_0_1, PINCTRL_GRP_SDIO1_1BIT_0_2,
      PINCTRL_GRP_SDIO1_1BIT_0_3, PINCTRL_GRP_SDIO1_1BIT_0_4, PINCTRL_GRP_SDIO1_1BIT_0_5,
      PINCTRL_GRP_SDIO1_1BIT_0_6, PINCTRL_GRP_SDIO1_1BIT_0_7, END_OF_GROUPS],
     \<comment> \<open>PINCTRL_PIN_52\<close>
     [PINCTRL_GRP_ETHERNET2_0, PINCTRL_GRP_USB0_0, PINCTRL_GRP_RESERVED, PINCTRL_GRP_RESERVED,
      PINCTRL_GRP_RESERVED, PINCTRL_GRP_GPIO0_52, PINCTRL_GRP_CAN1_13, PINCTRL_GRP_I2C1_13,
      PINCTRL_GRP_PJTAG0_4, PINCTRL_GRP_SPI0_4, PINCTRL_GRP_TTC1_6_CLK, PINCTRL_GRP_UART1_13,
      PINCTRL_GRP_TRACE0_2_CLK, END_OF_GROUPS],
     \<comment> \<open>PINCTRL_PIN_53\<close>
     [PINCTRL_GRP_ETHERNET2_0, PINCTRL_GRP_USB0_0, PINCTRL_GRP_RESERVED, PINCTRL_GRP_RESERVED,
      PINCTRL_GRP_RESERVED, PINCTRL_GRP_GPIO0_53, PINCTRL_GRP_CAN1_13, PINCTRL_GRP_I2C1_13,
      PINCTRL_GRP_PJTAG0_4, PINCTRL_GRP_SPI0_4_SS2, PINCTRL_GRP_TTC1_6_WAV, PINCTRL_GRP_UART1_13,
      PINCTRL_GRP_TRACE0_2_CLK, END_OF_GROUPS],
     \<comment> \<open>PINCTRL_PIN_54\<close>
     [PINCTRL_GRP_ETHERNET2_0, PINCTRL_GRP_USB0_0, PINCTRL_GRP_RESERVED, PINCTRL_GRP_RESERVED,
      PINCTRL_GRP_RESERVED, PINCTRL_GRP_GPIO0_54, PINCTRL_GRP_CAN0_13, PINCTRL_GRP_I2C0_13,
      PINCTRL_GRP_PJTAG0_4, PINCTRL_GRP_SPI0_4_SS1, PINCTRL_GRP_TTC0_6_CLK, PINCTRL_GRP_UART0_13,
      PINCTRL_GRP_TRACE0_2, END_OF_GROUPS],
     \<comment> \<open>PINCTRL_PIN_55\<close>
     [PINCTRL_GRP_ETHERNET2_0, PINCTRL_GRP_USB0_0, PINCTRL_GRP_RESERVED, PINCTRL_GRP_RESERVED,
      PINCTRL_GRP_RESERVED, PINCTRL_GRP_GPIO0_55, PINCTRL_GRP_CAN0_13, PINCTRL_GRP_I2C0_13,
      PINCTRL_GRP_PJTAG0_4, PINCTRL_GRP_SPI0_4_SS0, PINCTRL_GRP_TTC0_6_WAV, PINCTRL_GRP_UART0_13,
      PINCTRL_GRP_TRACE0_2, END_OF_GROUPS],
     \<comment> \<open>PINCTRL_PIN_56\<close>
     [PINCTRL_GRP_ETHERNET2_0, PINCTRL_GRP_USB0_0, PINCTRL_GRP_RESERVED, PINCTRL_GRP_RESERVED,
      PINCTRL_GRP_RESERVED, PINCTRL_GRP_GPIO0_56, PINCTRL_GRP_CAN1_14, PINCTRL_GRP_I2C1_14,
      PINCTRL_GRP_SWDT1_9_CLK, PINCTRL_GRP_SPI0_4, PINCTRL_GRP_TTC3_7_CLK, PINCTRL_GRP_UART1_14,
      PINCTRL_GRP_TRACE0_2, END_OF_GROUPS],
     \<comment> \<open>PINCTRL_PIN_57\<close>
     [PINCTRL_GRP_ETHERNET2_0, PINCTRL_GRP_USB0_0, PINCTRL_GRP_RESERVED, PINCTRL_GRP_RESERVED,
      PINCTRL_GRP_RESERVED, PINCTRL_GRP_GPIO0_57, PINCTRL_GRP_CAN1_14, PINCTRL_GRP_I2C1_14,
      PINCTRL_GRP_SWDT1_9_RST, PINCTRL_GRP_SPI0_4, PINCTRL_GRP_TTC3_7_WAV, PINCTRL_GRP_UART1_14,
      PINCTRL_GRP_TRACE0_2, END_OF_GROUPS],
     \<comment> \<open>PINCTRL_PIN_58\<close>
     [PINCTRL_GRP_ETHERNET2_0, PINCTRL_GRP_USB0_0, PINCTRL_GRP_RESERVED, PINCTRL_GRP_RESERVED,
      PINCTRL_GRP_RESERVED, PINCTRL_GRP_GPIO0_58, PINCTRL_GRP_CAN0_14, PINCTRL_GRP_I2C0_14,
      PINCTRL_GRP_PJTAG0_5, PINCTRL_GRP_SPI1_4, PINCTRL_GRP_TTC2_7_CLK, PINCTRL_GRP_UART0_14,
      PINCTRL_GRP_TRACE0_2, END_OF_GROUPS],
     \<comment> \<open>PINCTRL_PIN_59\<close>
     [PINCTRL_GRP_ETHERNET2_0, PINCTRL_GRP_USB0_0, PINCTRL_GRP_RESERVED, PINCTRL_GRP_RESERVED,
      PINCTRL_GRP_RESERVED, PINCTRL_GRP_GPIO0_59, PINCTRL_GRP_CAN0_14, PINCTRL_GRP_I2C0_14,
      PINCTRL_GRP_PJTAG0_5, PINCTRL_GRP_SPI1_4_SS2, PINCTRL_GRP_TTC2_7_WAV, PINCTRL_GRP_UART0_14,
      PINCTRL_GRP_TRACE0_2, END_OF_GROUPS]]"

definition zynqmp_pin_groups_3 :: "u16 list list" where
  "zynqmp_pin_groups_3 = [
     \<comment> \<open>PINCTRL_PIN_60\<close>
     [PINCTRL_GRP_ETHERNET2_0, PINCTRL_GRP_USB0_0, PINCTRL_GRP_RESERVED, PINCTRL_GRP_RESERVED,
      PINCTRL_GRP_RESERVED, PINCTRL_GRP_GPIO0_60, PINCTRL_GRP_CAN1_15, PINCTRL_GRP_I2C1_15,
      PINCTRL_GRP_PJTAG0_5, PINCTRL_GRP_SPI1_4_SS1, PINCTRL_GRP_TTC1_7_CLK, PINCTRL_GRP_UART1_15,
      PINCTRL_GRP_TRACE0_2, END_OF_GROUPS],
     \<comment> \<open>PINCTRL_PIN_61\<close>
     [PINCTRL_GRP_ETHERNET2_0, PINCTRL_GRP_USB0_0, PINCTRL_GRP_RESERVED, PINCTRL_GRP_RESERVED,
      PINCTRL_GRP_RESERVED, PINCTRL_GRP_GPIO0_61, PINCTRL_GRP_CAN1_15, PINCTRL_GRP_I2C1_15,
      PINCTRL_GRP_PJTAG0_5, PINCTRL_GRP_SPI1_4_SS0, PINCTRL_GRP_TTC1_7_WAV, PINCTRL_GRP_UART1_15,
      PINCTRL_GRP_TRACE0_2, END_OF_GROUPS],
     \<comment> \<open>PINCTRL_PIN_62\<close>
     [PINCTRL_GRP_ETHERNET2_0, PINCTRL_GRP_USB0_0, PINCTRL_GRP_RESERVED, PINCTRL_GRP_RESERVED,
      PINCTRL_GRP_RESERVED, PINCTRL_GRP_GPIO0_62, PINCTRL_GRP_CAN0_15, PINCTRL_GRP_I2C0_15,
      PINCTRL_GRP_SWDT0_9_CLK, PINCTRL_GRP_SPI1_4, PINCTRL_GRP_TTC0_7_CLK, PINCTRL_GRP_UART0_15,
      PINCTRL_GRP_TRACE0_2, END_OF_GROUPS],
     \<comment> \<open>PINCTRL_PIN_63\<close>
     [PINCTRL_GRP_ETHERNET2_0, PINCTRL_GRP_USB0_0, PINCTRL_GRP_RESERVED, PINCTRL_GRP_RESERVED,
      PINCTRL_GRP_RESERVED, PINCTRL_GRP_GPIO0_63, PINCTRL_GRP_CAN0_15, PINCTRL_GRP_I2C0_15,
      PINCTRL_GRP_SWDT0_9_RST, PINCTRL_GRP_SPI1_4, PINCTRL_GRP_TTC0_7_WAV, PINCTRL_GRP_UART0_15,
      PINCTRL_GRP_TRACE0_2, END_OF_GROUPS],
     \<comment> \<open>PINCTRL_PIN_64\<close>
     [PINCTRL_GRP_ETHERNET3_0, PINCTRL_GRP_USB1_0, PINCTRL_GRP_SDIO0_2, PINCTRL_GRP_RESERVED,
      PINCTRL_GRP_RESERVED, PINCTRL_GRP_GPIO0_64, PINCTRL_GRP_CAN1_16, PINCTRL_GRP_I2C1_16,
      PINCTRL_GRP_SWDT1_10_CLK, PINCTRL_GRP_SPI0_5, PINCTRL_GRP_TTC3_8_CLK, PINCTRL_GRP_UART1_16,
      PINCTRL_GRP_TRACE0_2, PINCTRL_GRP_SDIO0_4BIT_2_0, PINCTRL_GRP_SDIO0_4BIT_2_1,
      PINCTRL_GRP_SDIO0_1BIT_2_0, PINCTRL_GRP_SDIO0_1BIT_2_1, PINCTRL_GRP_SDIO0_1BIT_2_2,
      PINCTRL_GRP_SDIO0_1BIT_2_3, PINCTRL_GRP_SDIO0_1BIT_2_4, PINCTRL_GRP_SDIO0_1BIT_2_5,
      PINCTRL_GRP_SDIO0_1BIT_2_6, PINCTRL_GRP_SDIO0_1BIT_2_7, END_OF_GROUPS],
     \<comment> \<open>PINCTRL_PIN_65\<close>
     [PINCTRL_GRP_ETHERNET3_0, PINCTRL_GRP_USB1_0, PINCTRL_GRP_SDIO0_2_CD, PINCTRL_GRP_RESERVED,
      PINCTRL_GRP_RESERVED, PINCTRL_GRP_GPIO0_65, PINCTRL_GRP_CAN1_16, PINCTRL_GRP_I2C1_16,
      PINCTRL_GRP_SWDT1_10_RST, PINCTRL_GRP_SPI0_5_SS2, PINCTRL_GRP_TTC3_8_WAV, PINCTRL_GRP_UART1_16,
      PINCTRL_GRP_TRACE0_2, END_OF_GROUPS],
     \<comment> \<open>PINCTRL_PIN_66\<close>
     [PINCTRL_GRP_ETHERNET3_0, PINCTRL_GRP_USB1_0, PINCTRL_GRP_SDIO0_2, PINCTRL_GRP_RESERVED,
      PINCTRL_GRP_RESERVED, PINCTRL_GRP_GPIO0_66, PINCTRL_GRP_CAN0_16, PINCTRL_GRP_I2C0_16,
      PINCTRL_GRP_SWDT0_10_CLK, PINCTRL_GRP_SPI0_5_SS1, PINCTRL_GRP_TTC2_8_CLK, PINCTRL_GRP_UART0_16,
      PINCTRL_GRP_TRACE0_2, PINCTRL_GRP_SDIO0_4BIT_2_0, PINCTRL_GRP_SDIO0_4BIT_2_1,
      PINCTRL_GRP_SDIO0_1BIT_2_0, PINCTRL_GRP_SDIO0_1BIT_2_1, PINCTRL_GRP_SDIO0_1BIT_2_2,
      PINCTRL_GRP_SDIO0_1BIT_2_3, PINCTRL_GRP_SDIO0_1BIT_2_4, PINCTRL_GRP_SDIO0_1BIT_2_5,
      PINCTRL_GRP_SDIO0_1BIT_2_6, PINCTRL_GRP_SDIO0_1BIT_2_7, END_OF_GROUPS],
     \<comment> \<open>PINCTRL_PIN_67\<close>
     [PINCTRL_GRP_ETHERNET3_0, PINCTRL_GRP_USB1_0, PINCTRL_GRP_SDIO0_2, PINCTRL_GRP_RESERVED,
      PINCTRL_GRP_RESERVED, PINCTRL_GRP_GPIO0_67, PINCTRL_GRP_CAN0_16, PINCTRL_GRP_I2C0_16,
      PINCTRL_GRP_SWDT0_10_RST, PINCTRL_GRP_SPI0_5_SS0, PINCTRL_GRP_TTC2_8_WAV, PINCTRL_GRP_UART0_16,
      PINCTRL_GRP_TRACE0_2, PINCTRL_GRP_SDIO0_4BIT_2_0, PINCTRL_GRP_SDIO0_1BIT_2_0, END_OF_GROUPS],
     \<comment> \<open>PINCTRL_PIN_68\<close>
     [PINCTRL_GRP_ETHERNET3_0, PINCTRL_GRP_USB1_0, PINCTRL_GRP_SDIO0_2, PINCTRL_GRP_RESERVED,
      PINCTRL_GRP_RESERVED, PINCTRL_GRP_GPIO0_68, PINCTRL_GRP_CAN1_17, PINCTRL_GRP_I2C1_17,
      PINCTRL_GRP_SWDT1_11_CLK, PINCTRL_GRP_SPI0_5, PINCTRL_GRP_TTC1_8_CLK, PINCTRL_GRP_UART1_17,
      PINCTRL_GRP_TRACE0_2, PINCTRL_GRP_SDIO0_4BIT_2_0, PINCTRL_GRP_SDIO0_1BIT_2_1, END_OF_GROUPS],
     \<comment> \<open>PINCTRL_PIN_69\<close>
     [PINCTRL_GRP_ETHERNET3_0, PINCTRL_GRP_USB1_0, PINCTRL_GRP_SDIO0_2, PINCTRL_GRP_SDIO1_1_WP,
      PINCTRL_GRP_RESERVED, PINCTRL_GRP_GPIO0_69, PINCTRL_GRP_CAN1_17, PINCTRL_GRP_I2C1_17,
      PINCTRL_GRP_SWDT1_11_RST, PINCTRL_GRP_SPI0_5, PINCTRL_GRP_TTC1_8_WAV, PINCTRL_GRP_UART1_17,
      PINCTRL_GRP_TRACE0_2, PINCTRL_GRP_SDIO0_4BIT_2_0, PINCTRL_GRP_SDIO0_1BIT_2_2, END_OF_GROUPS],
     \<comment> \<open>PINCTRL_PIN_70\<close>
     [PINCTRL_GRP_ETHERNET3_0, PINCTRL_GRP_USB1_0, PINCTRL_GRP_SDIO0_2, PINCTRL_GRP_SDIO1_1_PC,
      PINCTRL_GRP_RESERVED, PINCTRL_GRP_GPIO0_70, PINCTRL_GRP_CAN0_17, PINCTRL_GRP_I2C0_17,
      PINCTRL_GRP_SWDT0_11_CLK, PINCTRL_GRP_SPI1_5, PINCTRL_GRP_TTC0_8_CLK, PINCTRL_GRP_UART0_17,
      PINCTRL_GRP_RESERVED, PINCTRL_GRP_SDIO0_4BIT_2_0, PINCTRL_GRP_SDIO0_1BIT_2_3, END_OF_GROUPS],
     \<comment> \<open>PINCTRL_PIN_71\<close>
     [PINCTRL_GRP_ETHERNET3_0, PINCTRL_GRP_USB1_0, PINCTRL_GRP_SDIO0_2, PINCTRL_GRP_SDIO1_4BIT_1_0,
      PINCTRL_GRP_RESERVED, PINCTRL_GRP_GPIO0_71, PINCTRL_GRP_CAN0_17, PINCTRL_GRP_I2C0_17,
      PINCTRL_GRP_SWDT0_11_RST, PINCTRL_GRP_SPI1_5_SS2, PINCTRL_GRP_TTC0_8_WAV, PINCTRL_GRP_UART0_17,
      PINCTRL_GRP_RESERVED, PINCTRL_GRP_SDIO0_2, PINCTRL_GRP_SDIO0_4BIT_2_1,
      PINCTRL_GRP_SDIO0_1BIT_2_4, PINCTRL_GRP_SDIO1_1BIT_1_0, END_OF_GROUPS],
     \<comment> \<open>PINCTRL_PIN_72\<close>
     [PINCTRL_GRP_ETHERNET3_0, PINCTRL_GRP_USB1_0, PINCTRL_GRP_SDIO0_2, PINCTRL_GRP_SDIO1_4BIT_1_0,
      PINCTRL_GRP_RESERVED, PINCTRL_GRP_GPIO0_72, PINCTRL_GRP_CAN1_18, PINCTRL_GRP_I2C1_18,
      PINCTRL_GRP_SWDT1_12_CLK, PINCTRL_GRP_SPI1_5_SS1, PINCTRL_GRP_RESERVED, PINCTRL_GRP_UART1_18,
      PINCTRL_GRP_RESERVED, PINCTRL_GRP_SDIO0_4BIT_2_1, PINCTRL_GRP_SDIO0_1BIT_2_5,
      PINCTRL_GRP_SDIO1_1BIT_1_1, END_OF_GROUPS],
     \<comment> \<open>PINCTRL_PIN_73\<close>
     [PINCTRL_GRP_ETHERNET3_0, PINCTRL_GRP_USB1_0, PINCTRL_GRP_SDIO0_2, PINCTRL_GRP_SDIO1_4BIT_1_0,
      PINCTRL_GRP_RESERVED, PINCTRL_GRP_GPIO0_73, PINCTRL_GRP_CAN1_18, PINCTRL_GRP_I2C1_18,
      PINCTRL_GRP_SWDT1_12_RST, PINCTRL_GRP_SPI1_5_SS0, PINCTRL_GRP_RESERVED, PINCTRL_GRP_UART1_18,
      PINCTRL_GRP_RESERVED, PINCTRL_GRP_SDIO0_4BIT_2_1, PINCTRL_GRP_SDIO0_1BIT_2_6,
      PINCTRL_GRP_SDIO1_1BIT_1_2, END_OF_GROUPS],
     \<comment> \<open>PINCTRL_PIN_74\<close>
     [PINCTRL_GRP_ETHERNET3_0, PINCTRL_GRP_USB1_0, PINCTRL_GRP_SDIO0_2, PINCTRL_GRP_SDIO1_4BIT_1_0,
      PINCTRL_GRP_RESERVED, PINCTRL_GRP_GPIO0_74, PINCTRL_GRP_CAN0_18, PINCTRL_GRP_I2C0_18,
      PINCTRL_GRP_SWDT0_12_CLK, PINCTRL_GRP_SPI1_5, PINCTRL_GRP_RESERVED, PINCTRL_GRP_UART0_18,
      PINCTRL_GRP_RESERVED, PINCTRL_GRP_SDIO0_4BIT_2_1, PINCTRL_GRP_SDIO0_1BIT_2_7,
      PINCTRL_GRP_SDIO1_1BIT_1_3, END_OF_GROUPS],
     \<comment> \<open>PINCTRL_PIN_75\<close>
     [PINCTRL_GRP_ETHERNET3_0, PINCTRL_GRP_USB1_0, PINCTRL_GRP_SDIO0_2_PC,
      PINCTRL_GRP_SDIO1_4BIT_1_0, PINCTRL_GRP_RESERVED, PINCTRL_GRP_GPIO0_75, PINCTRL_GRP_CAN0_18,
      PINCTRL_GRP_I2C0_18, PINCTRL_GRP_SWDT0_12_RST, PINCTRL_GRP_SPI1_5, PINCTRL_GRP_RESERVED,
      PINCTRL_GRP_UART0_18, PINCTRL_GRP_RESERVED, PINCTRL_GRP_SDIO1_1BIT_1_0,
      PINCTRL_GRP_SDIO1_1BIT_1_1, PINCTRL_GRP_SDIO1_1BIT_1_2, PINCTRL_GRP_SDIO1_1BIT_1_3,
      END_OF_GROUPS],
     \<comment> \<open>PINCTRL_PIN_76\<close>
     [PINCTRL_GRP_RESERVED, PINCTRL_GRP_RESERVED, PINCTRL_GRP_SDIO0_2_WP, PINCTRL_GRP_SDIO1_4BIT_1_0,
      PINCTRL_GRP_RESERVED, PINCTRL_GRP_GPIO0_76, PINCTRL_GRP_CAN1_19, PINCTRL_GRP_I2C1_19,
      PINCTRL_GRP_MDIO0_0, PINCTRL_GRP_MDIO1_1, PINCTRL_GRP_MDIO2_0, PINCTRL_GRP_MDIO3_0,
      PINCTRL_GRP_RESERVED, PINCTRL_GRP_SDIO1_1BIT_1_0, PINCTRL_GRP_SDIO1_1BIT_1_1,
      PINCTRL_GRP_SDIO1_1BIT_1_2, PINCTRL_GRP_SDIO1_1BIT_1_3, END_OF_GROUPS],
     \<comment> \<open>PINCTRL_PIN_77\<close>
     [PINCTRL_GRP_RESERVED, PINCTRL_GRP_RESERVED, PINCTRL_GRP_RESERVED, PINCTRL_GRP_SDIO1_1_CD,
      PINCTRL_GRP_RESERVED, PINCTRL_GRP_GPIO0_77, PINCTRL_GRP_CAN1_19, PINCTRL_GRP_I2C1_19,
      PINCTRL_GRP_MDIO0_0, PINCTRL_GRP_MDIO1_1, PINCTRL_GRP_MDIO2_0, PINCTRL_GRP_MDIO3_0,
      PINCTRL_GRP_RESERVED, END_OF_GROUPS]]"

definition zynqmp_pin_groups :: "u16 list list" where
  "zynqmp_pin_groups = zynqmp_pin_groups_0 @ zynqmp_pin_groups_1 @ zynqmp_pin_groups_2 @ zynqmp_pin_groups_3"

lemmas pin_tables = pinctrl_functions_def pinctrl_functions_0_def pinctrl_functions_1_def pinctrl_functions_2_def
  zynqmp_pin_groups_def zynqmp_pin_groups_0_def zynqmp_pin_groups_1_def zynqmp_pin_groups_2_def zynqmp_pin_groups_3_def

end
