(* ===== verification/PM_Pinctrl.thy ===== *)
theory PM_Pinctrl
  imports PM_Pin_Tables PM_Sys
begin

text \<open>
  Pin control queries (\<open>plat/xilinx/zynqmp/pm_service/pm_api_pinctrl.c\<close>) on the tables of
  \<open>PM_Pin_Tables\<close>.  As for the clocks, a query gives its status and the words it stored, and \<open>None\<close>
  is a read outside an array.  No group pointer of the tables is null.
\<close>

section \<open>Queries\<close>

definition pm_api_pinctrl_get_num_pins :: "u32 \<times> u32 list" where
  "pm_api_pinctrl_get_num_pins = (PM_RET_SUCCESS, [MAX_PIN])"

definition pm_api_pinctrl_get_num_functions :: "u32 \<times> u32 list" where
  "pm_api_pinctrl_get_num_functions = (PM_RET_SUCCESS, [MAX_FUNCTION])"

fun count_groups :: "u16 list \<Rightarrow> u32 \<Rightarrow> u32 option" where
  "count_groups [] ngroups = None"
| "count_groups (g # grps) ngroups = (if g = END_OF_GROUPS then Some ngroups else count_groups grps (ngroups + 1))"

definition pm_api_pinctrl_get_num_func_groups :: "u32 \<Rightarrow> (u32 \<times> u32 list) option" where
  "pm_api_pinctrl_get_num_func_groups fid =
     (if fid \<ge> MAX_FUNCTION then Some (PM_RET_ERROR_ARGS, [])
      else do {
        ngroups \<leftarrow> count_groups (pf_groups (pinctrl_functions ! unat fid)) 0;
        Some (PM_RET_SUCCESS, [ngroups])
      })"

definition pm_api_pinctrl_get_function_name :: "u32 \<Rightarrow> string" where
  "pm_api_pinctrl_get_function_name fid =
     take FUNCTION_NAME_LEN
       ((if fid \<ge> MAX_FUNCTION then ''END_OF_FUNCTION'' else pf_name (pinctrl_functions ! unat fid)) @
        replicate FUNCTION_NAME_LEN (CHR 0x00))"

text \<open>The loop that skips groups (\<open>True\<close> if it met the end mark) and the loop that copies a page of them.\<close>

function skip_groups :: "u16 list \<Rightarrow> nat \<Rightarrow> nat \<Rightarrow> bool option" where
  "skip_groups grps i index =
     (if i < index then
        (if i < length grps then (if grps ! i = END_OF_GROUPS then Some True else skip_groups grps (Suc i) index) else None)
      else Some False)"
  by pat_completeness auto
termination by (relation "measure (\<lambda>(grps, i, index). index - i)") auto

function copy_groups :: "u16 list \<Rightarrow> nat \<Rightarrow> nat \<Rightarrow> u16 list \<Rightarrow> u16 list option" where
  "copy_groups grps index i groups =
     (if i < NUM_GROUPS_PER_RESP then
        (if index + i < length grps then
           let groups = groups[i := grps ! (index + i)]
           in if groups ! i = END_OF_GROUPS then Some groups else copy_groups grps index (Suc i) groups
         else None)
      else Some groups)"
  by pat_completeness auto
termination by (relation "measure (\<lambda>(grps, index, i, groups). NUM_GROUPS_PER_RESP - i)") auto

declare skip_groups.simps [simp del] copy_groups.simps [simp del]

text \<open>The common part of the two group queries, after the check of the number.\<close>

definition group_page :: "u16 list \<Rightarrow> u32 \<Rightarrow> (u32 \<times> u16 list) option" where
  "group_page grps index = do {
     let groups = replicate NUM_GROUPS_PER_RESP END_OF_GROUPS;
     done \<leftarrow> skip_groups grps 0 (unat index);
     if done then Some (PM_RET_SUCCESS, groups)
     else do {
       groups \<leftarrow> copy_groups grps (unat index) 0 groups;
       Some (PM_RET_SUCCESS, groups)
     }
   }"

definition pm_api_pinctrl_get_function_groups :: "u32 \<Rightarrow> u32 \<Rightarrow> (u32 \<times> u16 list) option" where
  "pm_api_pinctrl_get_function_groups fid index =
     (if fid \<ge> MAX_FUNCTION then Some (PM_RET_ERROR_ARGS, [])
      else group_page (pf_groups (pinctrl_functions ! unat fid)) index)"

definition pm_api_pinctrl_get_pin_groups :: "u32 \<Rightarrow> u32 \<Rightarrow> (u32 \<times> u16 list) option" where
  "pm_api_pinctrl_get_pin_groups pin index =
     (if pin \<ge> MAX_PIN then Some (PM_RET_ERROR_ARGS, [])
      else group_page (zynqmp_pin_groups ! unat pin) index)"

section \<open>Queries against a reference\<close>

definition wf_groups :: "u16 list \<Rightarrow> bool" where
  "wf_groups grps \<longleftrightarrow> grps \<noteq> [] \<and> last grps = END_OF_GROUPS \<and> END_OF_GROUPS \<notin> set (butlast grps)"

text \<open>A page: the next six groups, then end marks.\<close>

definition page6 :: "u16 list \<Rightarrow> nat \<Rightarrow> u16 list" where
  "page6 gs k = take 6 (drop k gs @ replicate 6 END_OF_GROUPS)"

lemma wf_groups_cases:
  assumes "wf_groups grps"
  obtains gs where "grps = gs @ [END_OF_GROUPS]" "END_OF_GROUPS \<notin> set gs" "butlast grps = gs"
proof
  show "grps = butlast grps @ [END_OF_GROUPS]" using assms append_butlast_last_id [of grps] by (simp add: wf_groups_def)
qed (use assms in \<open>simp_all add: wf_groups_def\<close>)

lemma count_groups_append:
  "END_OF_GROUPS \<notin> set gs \<Longrightarrow> count_groups (gs @ [END_OF_GROUPS]) n = Some (n + of_nat (length gs))"
  by (induction gs arbitrary: n) auto

lemma skip_groups_append:
  assumes "END_OF_GROUPS \<notin> set gs" and "i \<le> length gs" "i \<le> index"
  shows "skip_groups (gs @ [END_OF_GROUPS]) i index = Some (length gs < index)"
  using assms(2,3)
proof (induction "index - i" arbitrary: i)
  case 0
  then show ?case by (subst skip_groups.simps) simp
next
  case (Suc n)
  show ?case
  proof (cases "i = length gs")
    case True
    then show ?thesis using Suc by (subst skip_groups.simps) simp
  next
    case False
    then have i: "i < length gs" using Suc.prems by simp
    then have "gs ! i \<noteq> END_OF_GROUPS" using assms(1) by (metis nth_mem)
    then show ?thesis using Suc i by (subst skip_groups.simps) (simp add: nth_append)
  qed
qed

lemma copy_groups_append:
  assumes "END_OF_GROUPS \<notin> set gs" and "index + i \<le> length gs" "i \<le> 6"
    and "length groups = 6" "drop i groups = replicate (6 - i) END_OF_GROUPS"
  shows "copy_groups (gs @ [END_OF_GROUPS]) index i groups =
    Some (take i groups @ take (6 - i) (drop (index + i) gs @ replicate 6 END_OF_GROUPS))"
  using assms(2-)
proof (induction "6 - i" arbitrary: i groups)
  case 0
  then show ?case by (subst copy_groups.simps) simp
next
  case (Suc n)
  then have i: "i < 6" by simp
  have d: "drop i groups = groups ! i # drop (Suc i) groups" using i Suc.prems(3) by (simp add: Cons_nth_drop_Suc)
  moreover have "replicate (6 - i) END_OF_GROUPS = END_OF_GROUPS # replicate (6 - Suc i) END_OF_GROUPS"
    using i by (metis Suc_diff_Suc replicate_Suc)
  ultimately have gi: "groups ! i = END_OF_GROUPS" "drop (Suc i) groups = replicate (6 - Suc i) END_OF_GROUPS"
    using Suc.prems(4) by (metis list.inject)+
  show ?case
  proof (cases "index + i = length gs")
    case True
    then have "copy_groups (gs @ [END_OF_GROUPS]) index i groups = Some groups"
      using i gi(1) Suc.prems(3) by (subst copy_groups.simps) (simp add: Let_def list_update_same_conv [THEN iffD2])
    moreover have "groups = take i groups @ replicate (6 - i) END_OF_GROUPS"
      using append_take_drop_id [of i groups] Suc.prems(4) by simp
    ultimately show ?thesis using True by simp
  next
    case False
    then have l: "index + i < length gs" using Suc.prems(1) by simp
    define g where "g = gs ! (index + i)"
    have g: "g \<noteq> END_OF_GROUPS" using assms(1) l unfolding g_def by (metis nth_mem)
    have "copy_groups (gs @ [END_OF_GROUPS]) index i groups = copy_groups (gs @ [END_OF_GROUPS]) index (Suc i) (groups[i := g])"
      using i l g Suc.prems(3) by (subst copy_groups.simps) (simp add: Let_def nth_append g_def)
    also have "\<dots> = Some (take (Suc i) (groups[i := g]) @
        take (6 - Suc i) (drop (index + Suc i) gs @ replicate 6 END_OF_GROUPS))"
      using Suc.hyps i l Suc.prems(3) gi(2) by (intro Suc.hyps(1)) auto
    also have "take (Suc i) (groups[i := g]) = take i groups @ [g]"
      using i Suc.prems(3) by (subst take_Suc_conv_app_nth) simp_all
    finally show ?thesis
      using i l Cons_nth_drop_Suc [OF l] by (simp add: g_def Suc_diff_Suc [symmetric] del: replicate.simps)
        (metis Suc_diff_Suc append_Cons take_Suc_Cons)
  qed
qed

lemma group_page_ref:
  assumes "wf_groups grps"
  shows "group_page grps index = Some (PM_RET_SUCCESS, page6 (butlast grps) (unat index))"
proof -
  from assms obtain gs where gs: "grps = gs @ [END_OF_GROUPS]" "END_OF_GROUPS \<notin> set gs" "butlast grps = gs"
    by (rule wf_groups_cases)
  have s: "skip_groups grps 0 (unat index) = Some (length gs < unat index)"
    using skip_groups_append [OF gs(2), of 0 "unat index"] gs(1) by simp
  show ?thesis
  proof (cases "length gs < unat index")
    case True
    then show ?thesis using s gs(3) by (simp add: group_page_def page6_def)
  next
    case False
    then have "copy_groups grps (unat index) 0 (replicate 6 END_OF_GROUPS) = Some (page6 gs (unat index))"
      using copy_groups_append [OF gs(2), of "unat index" 0 "replicate 6 END_OF_GROUPS"] gs(1) by (simp add: page6_def)
    then show ?thesis using s False gs(3) by (simp add: group_page_def)
  qed
qed

section \<open>Facts of the tables\<close>

lemma functions_wf: "list_all (\<lambda>f. wf_groups (pf_groups f) \<and> length (pf_name f) < 16) pinctrl_functions"
  by (simp add: pin_tables wf_groups_def)

lemma pins_wf: "list_all wf_groups zynqmp_pin_groups"
  by (simp add: pin_tables wf_groups_def)

lemma table_lengths [simp]: "length pinctrl_functions = 57" "length zynqmp_pin_groups = 78"
  by (simp_all add: pin_tables)

lemma function_wf: "fid < MAX_FUNCTION \<Longrightarrow> wf_groups (pf_groups (pinctrl_functions ! unat fid))"
  using functions_wf by (simp add: list_all_length word_less_nat_alt)

lemma pin_wf: "pin < MAX_PIN \<Longrightarrow> wf_groups (zynqmp_pin_groups ! unat pin)"
  using pins_wf by (simp add: list_all_length word_less_nat_alt)

text \<open>What a caller that asks for page after page gets: everything up to the first end mark.\<close>

lemma pages_all:
  assumes "END_OF_GROUPS \<notin> set gs" and "length gs < 6 * n"
  shows "takeWhile (\<lambda>g. g \<noteq> END_OF_GROUPS) (concat (map (\<lambda>k. page6 gs (6 * k)) [0..<n])) = gs"
proof -
  have "concat (map (\<lambda>k. page6 gs (6 * k)) [0..<m]) = take (6 * m) (gs @ replicate (6 * m) END_OF_GROUPS)" for m
  proof (induction m)
    case (Suc m)
    have "take (6 * Suc m) xs = take (6 * m) xs @ take 6 (drop (6 * m) xs)" for xs :: "u16 list"
      by (simp add: take_add [symmetric] add.commute)
    then show ?case using Suc
      by (cases "length gs \<le> 6 * m") (simp_all add: page6_def replicate_add [symmetric] del: replicate_add)
  qed simp
  then have "concat (map (\<lambda>k. page6 gs (6 * k)) [0..<n]) = gs @ replicate (6 * n - length gs) END_OF_GROUPS"
    using assms(2) by simp
  moreover have "replicate (6 * n - length gs) END_OF_GROUPS = END_OF_GROUPS # replicate (6 * n - Suc (length gs)) END_OF_GROUPS"
    using assms(2) by (metis Suc_diff_Suc replicate_Suc)
  ultimately show ?thesis using assms(1) by (auto simp: takeWhile_append2 takeWhile_tail)
qed

section \<open>Property\<close>

text \<open>The groups of a function and of a pin, without the end mark.\<close>

definition function_groups :: "u32 \<Rightarrow> u16 list" where
  "function_groups fid = butlast (pf_groups (pinctrl_functions ! unat fid))"

definition pin_groups :: "u32 \<Rightarrow> u16 list" where
  "pin_groups pin = butlast (zynqmp_pin_groups ! unat pin)"

lemma function_groups_facts:
  assumes "fid < MAX_FUNCTION"
  shows "END_OF_GROUPS \<notin> set (function_groups fid)" "length (function_groups fid) < 84"
proof -
  show "END_OF_GROUPS \<notin> set (function_groups fid)"
    using function_wf [OF assms] by (simp add: function_groups_def wf_groups_def)
  have "list_all (\<lambda>f. length (butlast (pf_groups f)) < 84) pinctrl_functions" by (simp add: pin_tables)
  then show "length (function_groups fid) < 84"
    using assms by (simp add: list_all_length word_less_nat_alt function_groups_def)
qed

lemma pin_groups_facts:
  assumes "pin < MAX_PIN"
  shows "END_OF_GROUPS \<notin> set (pin_groups pin)" "length (pin_groups pin) < 30"
proof -
  show "END_OF_GROUPS \<notin> set (pin_groups pin)"
    using pin_wf [OF assms] by (simp add: pin_groups_def wf_groups_def)
  have "list_all (\<lambda>gs. length (butlast gs) < 30) zynqmp_pin_groups" by (simp add: pin_tables)
  then show "length (pin_groups pin) < 30"
    using assms by (simp add: list_all_length word_less_nat_alt pin_groups_def)
qed

lemma function_query:
  "fid < MAX_FUNCTION \<Longrightarrow> pm_api_pinctrl_get_function_groups fid index = Some (PM_RET_SUCCESS, page6 (function_groups fid) (unat index))"
  by (simp add: pm_api_pinctrl_get_function_groups_def group_page_ref [OF function_wf] function_groups_def)

lemma pin_query:
  "pin < MAX_PIN \<Longrightarrow> pm_api_pinctrl_get_pin_groups pin index = Some (PM_RET_SUCCESS, page6 (pin_groups pin) (unat index))"
  by (simp add: pm_api_pinctrl_get_pin_groups_def group_page_ref [OF pin_wf] pin_groups_def)

lemma num_groups_query:
  assumes "fid < MAX_FUNCTION"
  shows "pm_api_pinctrl_get_num_func_groups fid = Some (PM_RET_SUCCESS, [of_nat (length (function_groups fid))])"
proof -
  from function_wf [OF assms] obtain gs where
    "pf_groups (pinctrl_functions ! unat fid) = gs @ [END_OF_GROUPS]" "END_OF_GROUPS \<notin> set gs" "function_groups fid = gs"
    unfolding function_groups_def by (rule wf_groups_cases)
  then show ?thesis using assms by (simp add: pm_api_pinctrl_get_num_func_groups_def count_groups_append)
qed

text \<open>The six groups of an answer, none if there is no answer.\<close>

definition answer :: "(u32 \<times> u16 list) option \<Rightarrow> u16 list" where
  "answer r = (case r of Some (_, gs) \<Rightarrow> gs | None \<Rightarrow> [])"

lemma answers_all:
  assumes "END_OF_GROUPS \<notin> set gs" "length gs < 6 * n" "n < 100"
    and q: "\<And>index. query index = Some (st, page6 gs (unat (index :: u32)))"
  shows "takeWhile (\<lambda>g. g \<noteq> END_OF_GROUPS) (concat (map (\<lambda>k. answer (query (of_nat (6 * k)))) [0..<n])) = gs"
proof -
  have "map (\<lambda>k. answer (query (of_nat (6 * k)))) [0..<n] = map (\<lambda>k. page6 gs (6 * k)) [0..<n]"
    using assms(3) by (intro map_cong refl) (simp add: answer_def q unat_small del: of_nat_mult)
  with pages_all [OF assms(1,2)] show ?thesis by (simp only:)
qed

text \<open>
  C35.  The pin queries give the whole tables and never leave them.  For every function and every pin,
  every answer to a group query, for whatever index, is the next six groups of the table from that
  index on, filled up with end marks; a caller that asks for one page after the other and stops at
  the first end mark has exactly the groups of the table, 14 pages being enough for every function
  and 5 for every pin; and the number of groups that the count query reports is right.
\<close>

theorem pin_queries_complete:
  "(fid < MAX_FUNCTION \<longrightarrow>
      pm_api_pinctrl_get_num_func_groups fid = Some (PM_RET_SUCCESS, [of_nat (length (function_groups fid))]) \<and>
      (\<forall>index. pm_api_pinctrl_get_function_groups fid index = Some (PM_RET_SUCCESS, page6 (function_groups fid) (unat index))) \<and>
      takeWhile (\<lambda>g. g \<noteq> END_OF_GROUPS)
        (concat (map (\<lambda>k. answer (pm_api_pinctrl_get_function_groups fid (of_nat (6 * k)))) [0..<14])) = function_groups fid) \<and>
   (pin < MAX_PIN \<longrightarrow>
      (\<forall>index. pm_api_pinctrl_get_pin_groups pin index = Some (PM_RET_SUCCESS, page6 (pin_groups pin) (unat index))) \<and>
      takeWhile (\<lambda>g. g \<noteq> END_OF_GROUPS)
        (concat (map (\<lambda>k. answer (pm_api_pinctrl_get_pin_groups pin (of_nat (6 * k)))) [0..<5])) = pin_groups pin)"
proof (intro conjI impI allI)
  assume f: "fid < MAX_FUNCTION"
  show "takeWhile (\<lambda>g. g \<noteq> END_OF_GROUPS)
      (concat (map (\<lambda>k. answer (pm_api_pinctrl_get_function_groups fid (of_nat (6 * k)))) [0..<14])) = function_groups fid"
    by (rule answers_all [OF function_groups_facts(1) [OF f] _ _ function_query [OF f]])
      (use function_groups_facts [OF f] in simp_all)
next
  assume p: "pin < MAX_PIN"
  show "takeWhile (\<lambda>g. g \<noteq> END_OF_GROUPS)
      (concat (map (\<lambda>k. answer (pm_api_pinctrl_get_pin_groups pin (of_nat (6 * k)))) [0..<5])) = pin_groups pin"
    by (rule answers_all [OF pin_groups_facts(1) [OF p] _ _ pin_query [OF p]])
      (use pin_groups_facts [OF p] in simp_all)
qed (simp_all add: num_groups_query function_query pin_query)

theorem pin_queries_complete_witness:
  "pm_api_pinctrl_get_num_func_groups 46 = Some (PM_RET_SUCCESS, [of_nat (length (function_groups 46))]) \<and>
   pm_api_pinctrl_get_pin_groups 26 6 = Some (PM_RET_SUCCESS, page6 (pin_groups 26) 6)"
  using pin_queries_complete [of 46 26] by simp

end
