(* ===== verification/PM_Svc.thy ===== *)
theory PM_Svc
  imports PM_Ioctl PM_Pinctrl
begin

text \<open>
  The secure monitor calls of the platform: \<open>pm_query_data\<close> of \<open>pm_api_sys.c\<close>, the initialisation and
  the handlers of the power and error management services (\<open>pm_service/pm_svc_main.c\<close>) and the entry
  point that dispatches every SiP call (\<open>sip_svc_setup.c\<close>).  A handler returns the registers that the
  caller gets, starting with \<open>x0\<close>; \<open>None\<close> is an access outside an array, a failing assertion or a
  call that does not return.
\<close>

section \<open>Constants\<close>

abbreviation (input) PM_QID_CLOCK_GET_NAME :: u32 where "PM_QID_CLOCK_GET_NAME \<equiv> 1"
abbreviation (input) PM_QID_CLOCK_GET_TOPOLOGY :: u32 where "PM_QID_CLOCK_GET_TOPOLOGY \<equiv> 2"
abbreviation (input) PM_QID_CLOCK_GET_FIXEDFACTOR_PARAMS :: u32 where "PM_QID_CLOCK_GET_FIXEDFACTOR_PARAMS \<equiv> 3"
abbreviation (input) PM_QID_CLOCK_GET_PARENTS :: u32 where "PM_QID_CLOCK_GET_PARENTS \<equiv> 4"
abbreviation (input) PM_QID_CLOCK_GET_ATTRIBUTES :: u32 where "PM_QID_CLOCK_GET_ATTRIBUTES \<equiv> 5"
abbreviation (input) PM_QID_PINCTRL_GET_NUM_PINS :: u32 where "PM_QID_PINCTRL_GET_NUM_PINS \<equiv> 6"
abbreviation (input) PM_QID_PINCTRL_GET_NUM_FUNCTIONS :: u32 where "PM_QID_PINCTRL_GET_NUM_FUNCTIONS \<equiv> 7"
abbreviation (input) PM_QID_PINCTRL_GET_NUM_FUNCTION_GROUPS :: u32 where "PM_QID_PINCTRL_GET_NUM_FUNCTION_GROUPS \<equiv> 8"
abbreviation (input) PM_QID_PINCTRL_GET_FUNCTION_NAME :: u32 where "PM_QID_PINCTRL_GET_FUNCTION_NAME \<equiv> 9"
abbreviation (input) PM_QID_PINCTRL_GET_FUNCTION_GROUPS :: u32 where "PM_QID_PINCTRL_GET_FUNCTION_GROUPS \<equiv> 10"
abbreviation (input) PM_QID_PINCTRL_GET_PIN_GROUPS :: u32 where "PM_QID_PINCTRL_GET_PIN_GROUPS \<equiv> 11"
abbreviation (input) PM_QID_CLOCK_GET_NUM_CLOCKS :: u32 where "PM_QID_CLOCK_GET_NUM_CLOCKS \<equiv> 12"
abbreviation (input) PM_QID_CLOCK_GET_MAX_DIVISOR :: u32 where "PM_QID_CLOCK_GET_MAX_DIVISOR \<equiv> 13"
abbreviation (input) PM_GET_CALLBACK_DATA :: u32 where "PM_GET_CALLBACK_DATA \<equiv> 0xa01"
abbreviation (input) PM_SET_SUSPEND_MODE :: u32 where "PM_SET_SUSPEND_MODE \<equiv> 0xa02"
abbreviation (input) PM_GET_TRUSTZONE_VERSION :: u32 where "PM_GET_TRUSTZONE_VERSION \<equiv> 0xa03"
abbreviation (input) PM_VERSION :: u32 where "PM_VERSION \<equiv> 0x10001"
abbreviation (input) ZYNQMP_TZ_VERSION :: u32 where "ZYNQMP_TZ_VERSION \<equiv> 0x10000"
abbreviation (input) FUNCID_NUM_MASK :: u32 where "FUNCID_NUM_MASK \<equiv> 0xffff"
abbreviation (input) ZYNQMP_SIP_SVC_CALL_COUNT :: u32 where "ZYNQMP_SIP_SVC_CALL_COUNT \<equiv> 0x8200ff00"
abbreviation (input) ZYNQMP_SIP_SVC_UID :: u32 where "ZYNQMP_SIP_SVC_UID \<equiv> 0x8200ff01"
abbreviation (input) ZYNQMP_SIP_SVC_VERSION :: u32 where "ZYNQMP_SIP_SVC_VERSION \<equiv> 0x8200ff03"
abbreviation (input) SIP_SVC_VERSION_MAJOR :: u64 where "SIP_SVC_VERSION_MAJOR \<equiv> 0"
abbreviation (input) SIP_SVC_VERSION_MINOR :: u64 where "SIP_SVC_VERSION_MINOR \<equiv> 1"
abbreviation (input) PM_FID_MASK :: u32 where "PM_FID_MASK \<equiv> 0xf000"
abbreviation (input) PM_FID_VALUE :: u32 where "PM_FID_VALUE \<equiv> 0"
abbreviation (input) IPI_FID_VALUE :: u32 where "IPI_FID_VALUE \<equiv> 0x1000"
abbreviation (input) EM_FID_MASK :: u32 where "EM_FID_MASK \<equiv> 0xf0000"
abbreviation (input) EM_FID_VALUE :: u32 where "EM_FID_VALUE \<equiv> 0xE0000"

section \<open>Queries (pm_api_sys.c)\<close>

text \<open>
  The four words \<open>data\<close> of a query start as zeros.  A name is stored there byte by byte, groups as
  half words from \<open>data[1]\<close> on, everything else as words after the status.
\<close>

definition le_word :: "char list \<Rightarrow> u32" where
  "le_word bs = (case bs of [b0, b1, b2, b3] \<Rightarrow>
     of_char b0 OR push_bit 8 (of_char b1) OR push_bit 16 (of_char b2) OR push_bit 24 (of_char b3) | _ \<Rightarrow> 0)"

definition name_data :: "string \<Rightarrow> u32 list" where
  "name_data bytes =
     (let bs = take 16 (bytes @ replicate 16 (CHR 0x00))
      in [le_word (take 4 bs), le_word (take 4 (drop 4 bs)), le_word (take 4 (drop 8 bs)), le_word (drop 12 bs)])"

definition word_data :: "u32 \<times> u32 list \<Rightarrow> u32 list" where
  "word_data r = take 4 (fst r # snd r @ [0, 0, 0])"

definition group_data :: "u32 \<times> u16 list \<Rightarrow> u32 list" where
  "group_data r = fst r # (case snd r of
     [g0, g1, g2, g3, g4, g5] \<Rightarrow> [ucast g0 OR push_bit 16 (ucast g1), ucast g2 OR push_bit 16 (ucast g3), ucast g4 OR push_bit 16 (ucast g5)]
   | _ \<Rightarrow> [0, 0, 0])"

text \<open>The static functions between \<open>pm_query_data\<close> and the queries only pass their arguments on.\<close>

definition pm_query_data :: "u32 \<Rightarrow> u32 \<Rightarrow> u32 \<Rightarrow> u32 \<Rightarrow> u32 list option" where
  "pm_query_data qid arg1 arg2 arg3 =
     (if qid = PM_QID_CLOCK_GET_NAME then map_option name_data (pm_api_clock_get_name arg1)
      else if qid = PM_QID_CLOCK_GET_TOPOLOGY then map_option word_data (pm_api_clock_get_topology arg1 arg2)
      else if qid = PM_QID_CLOCK_GET_FIXEDFACTOR_PARAMS then map_option word_data (pm_api_clock_get_fixedfactor_params arg1)
      else if qid = PM_QID_CLOCK_GET_PARENTS then map_option word_data (pm_api_clock_get_parents arg1 arg2)
      else if qid = PM_QID_CLOCK_GET_ATTRIBUTES then Some (word_data (pm_api_clock_get_attributes arg1))
      else if qid = PM_QID_PINCTRL_GET_NUM_PINS then Some (word_data pm_api_pinctrl_get_num_pins)
      else if qid = PM_QID_PINCTRL_GET_NUM_FUNCTIONS then Some (word_data pm_api_pinctrl_get_num_functions)
      else if qid = PM_QID_PINCTRL_GET_NUM_FUNCTION_GROUPS then map_option word_data (pm_api_pinctrl_get_num_func_groups arg1)
      else if qid = PM_QID_PINCTRL_GET_FUNCTION_NAME then Some (name_data (pm_api_pinctrl_get_function_name arg1))
      else if qid = PM_QID_PINCTRL_GET_FUNCTION_GROUPS then map_option group_data (pm_api_pinctrl_get_function_groups arg1 arg2)
      else if qid = PM_QID_PINCTRL_GET_PIN_GROUPS then map_option group_data (pm_api_pinctrl_get_pin_groups arg1 arg2)
      else if qid = PM_QID_CLOCK_GET_NUM_CLOCKS then Some (word_data pm_api_clock_get_num_clocks)
      else if qid = PM_QID_CLOCK_GET_MAX_DIVISOR then map_option word_data (pm_api_clock_get_max_divisor arg1 (ucast arg2))
      else Some (word_data (PM_RET_ERROR_ARGS, [])))"

section \<open>Power management service (pm_svc_main.c)\<close>

definition pm_setup :: "'a svc_mach_scheme \<Rightarrow> (int \<times> 'a svc_mach_scheme) option" where
  "pm_setup s = do {
     (status, s) \<leftarrow> pm_ipi_init primary_proc s;
     ((ret, vs), s) \<leftarrow> pm_get_api_version s;
     let s = s\<lparr>api_version := vs ! 0\<rparr>;
     if api_version s < PM_VERSION then Some (- EINVAL, s)
     else do {
       let (status, s) = pm_wdt_restart_setup s;
       let ret = (if status \<ge> 0 then 0 else status);
       Some (ret, s\<lparr>pm_up := (if status = 0 then 1 else 0)\<rparr>)
     }
   }"

text \<open>
  \<open>(uint64_t)lo | ((uint64_t)hi << 32)\<close>, and a local variable of the handler after the call that
  may have stored to it: without a store it is what the stack held.
\<close>

definition two_words :: "u32 \<Rightarrow> u32 \<Rightarrow> u64" where
  "two_words lo hi = ucast lo OR push_bit 32 (ucast hi)"

definition local_var :: "u32 list \<Rightarrow> nat \<Rightarrow> 'a pm_mach_scheme \<Rightarrow> u32" where
  "local_var vs k s = (if k < length vs then vs ! k else stack_junk s (m_now s) k)"

type_synonym 's smc_call = "'s \<Rightarrow> (u64 list \<times> 's) option"

text \<open>
  The three ways a result is returned: \<open>SMC_RET1(handle, (uint64_t)ret)\<close>, with one word in the upper
  half, and with a word there and another in \<open>x1\<close>.
\<close>

definition ret_status :: "'s pm_api \<Rightarrow> 's smc_call" where
  "ret_status f s = do {
     ((ret, _), s) \<leftarrow> f s;
     Some ([ucast ret], s)
   }"

definition ret_value :: "'a pm_mach_scheme pm_api \<Rightarrow> 'a pm_mach_scheme smc_call" where
  "ret_value f s = do {
     ((ret, vs), s) \<leftarrow> f s;
     Some ([two_words ret (local_var vs 0 s)], s)
   }"

definition ret_values :: "'a pm_mach_scheme pm_api \<Rightarrow> 'a pm_mach_scheme smc_call" where
  "ret_values f s = do {
     ((ret, vs), s) \<leftarrow> f s;
     Some ([two_words ret (local_var vs 0 s), ucast (local_var vs 1 s)], s)
   }"

definition smc_unknown :: "'s smc_call" where
  "smc_unknown s = Some ([- 1], s)"

text \<open>The cases of the handler that are more than one call.\<close>

definition smc_api_version :: "u32 \<Rightarrow> 'a svc_mach_scheme smc_call" where
  "smc_api_version arg0 s =
     (if api_version s \<ge> PM_VERSION then do {
        s \<leftarrow> (if ipi_irq_flag s = 0
             then do { s \<leftarrow> pm_ipi_irq_enable primary_proc s; Some (s\<lparr>ipi_irq_flag := 1\<rparr>) }
             else Some s);
        Some ([two_words PM_RET_SUCCESS (api_version s)], s)
      }
      else ret_status (pm_set_configuration arg0) s)"

definition smc_node_status :: "u32 \<Rightarrow> 'a pm_mach_scheme smc_call" where
  "smc_node_status arg0 s = do {
     ((ret, buff), s) \<leftarrow> pm_get_node_status arg0 s;
     Some ([two_words ret (local_var buff 0 s), two_words (local_var buff 1 s) (local_var buff 2 s)], s)
   }"

text \<open>The only local variable for a single value that starts as zero.\<close>

definition smc_pinctrl_function :: "u32 \<Rightarrow> 'a pm_mach_scheme smc_call" where
  "smc_pinctrl_function arg0 s = do {
     ((ret, vs), s) \<leftarrow> pm_pinctrl_get_function arg0 s;
     Some ([two_words ret (if vs = [] then 0 else vs ! 0)], s)
   }"

text \<open>\<open>pm_get_callbackdata\<close> stores the words it read to the array of four; a fifth one is outside.\<close>

definition smc_callback_data :: "'a pm_mach_scheme smc_call" where
  "smc_callback_data s = do {
     (vs, s) \<leftarrow> pm_get_callbackdata 4 s;
     if length vs > 4 then None
     else let result = take 4 (vs @ [0, 0, 0, 0])
          in Some ([two_words (result ! 0) (result ! 1), two_words (result ! 2) (result ! 3)], s)
   }"

definition smc_query_data :: "u32 \<Rightarrow> u32 \<Rightarrow> u32 \<Rightarrow> u32 \<Rightarrow> 's smc_call" where
  "smc_query_data qid arg1 arg2 arg3 s = do {
     data \<leftarrow> pm_query_data qid arg1 arg2 arg3;
     Some ([two_words (data ! 0) (data ! 1), two_words (data ! 2) (data ! 3)], s)
   }"

text \<open>
  The handler: the four arguments are the halves of \<open>x1\<close> and \<open>x2\<close>, the call is the low half of the
  function number.
\<close>

definition pm_smc_handler :: "u32 \<Rightarrow> u64 \<Rightarrow> u64 \<Rightarrow> 'a clk_mach_scheme smc_call" where
  "pm_smc_handler smc_fid x1 x2 s =
     (if pm_up s = 0 then smc_unknown s
      else
        let arg0 = ucast x1; arg1 = ucast (drop_bit 32 x1); arg2 = ucast x2; arg3 = ucast (drop_bit 32 x2);
            api = smc_fid AND FUNCID_NUM_MASK
        in (if api = PM_SELF_SUSPEND then ret_status (pm_self_suspend arg0 arg1 arg2 (ucast arg3))
            else if api = PM_REQ_SUSPEND then ret_status (pm_req_suspend arg0 arg1 arg2 arg3)
            else if api = PM_REQ_WAKEUP then
              ret_status (pm_req_wakeup arg0 (arg1 AND 1) (push_bit 32 (ucast arg2) OR ucast (arg1 AND NOT 1)) arg3)
            else if api = PM_FORCE_POWERDOWN then ret_status (pm_force_powerdown arg0 arg1)
            else if api = PM_ABORT_SUSPEND then ret_status (pm_abort_suspend arg0)
            else if api = PM_SET_WAKEUP_SOURCE then
              ret_status (\<lambda>s. do { (ret, s) \<leftarrow> pm_set_wakeup_source arg0 arg1 arg2 s; pm_ret ret s })
            else if api = PM_SYSTEM_SHUTDOWN then ret_status (pm_system_shutdown arg0 arg1)
            else if api = PM_REQ_NODE then ret_status (pm_req_node arg0 arg1 arg2 arg3)
            else if api = PM_RELEASE_NODE then ret_status (pm_release_node arg0)
            else if api = PM_SET_REQUIREMENT then ret_status (pm_set_requirement arg0 arg1 arg2 arg3)
            else if api = PM_SET_MAX_LATENCY then ret_status (pm_set_max_latency arg0 arg1)
            else if api = PM_GET_API_VERSION then smc_api_version arg0
            else if api = PM_SET_CONFIGURATION then ret_status (pm_set_configuration arg0)
            else if api = PM_INIT_FINALIZE then ret_status pm_init_finalize
            else if api = PM_GET_NODE_STATUS then smc_node_status arg0
            else if api = PM_GET_OP_CHARACTERISTIC then ret_value (pm_get_op_characteristic arg0 arg1)
            else if api = PM_REGISTER_NOTIFIER then ret_status (pm_register_notifier arg0 arg1 arg2 arg3)
            else if api = PM_RESET_ASSERT then ret_status (pm_reset_assert arg0 arg1)
            else if api = PM_RESET_GET_STATUS then ret_value (pm_reset_get_status arg0)
            else if api = PM_MMIO_WRITE then ret_status (pm_mmio_write arg0 arg1 arg2)
            else if api = PM_MMIO_READ then ret_value (pm_mmio_read arg0)
            else if api = PM_FPGA_LOAD then ret_status (pm_fpga_load arg0 arg1 arg2 arg3)
            else if api = PM_FPGA_GET_STATUS then ret_value pm_fpga_get_status
            else if api = PM_GET_CHIPID then ret_values pm_get_chipid
            else if api = PM_SECURE_RSA_AES then ret_status (pm_secure_rsaaes arg0 arg1 arg2 arg3)
            else if api = PM_GET_CALLBACK_DATA then smc_callback_data
            else if api = PM_PINCTRL_REQUEST then ret_status (pm_pinctrl_request arg0)
            else if api = PM_PINCTRL_RELEASE then ret_status (pm_pinctrl_release arg0)
            else if api = PM_PINCTRL_GET_FUNCTION then smc_pinctrl_function arg0
            else if api = PM_PINCTRL_SET_FUNCTION then ret_status (pm_pinctrl_set_function arg0 arg1)
            else if api = PM_PINCTRL_CONFIG_PARAM_GET then ret_value (pm_pinctrl_get_config arg0 arg1)
            else if api = PM_PINCTRL_CONFIG_PARAM_SET then ret_status (pm_pinctrl_set_config arg0 arg1 arg2)
            else if api = PM_IOCTL then ret_value (pm_api_ioctl arg0 arg1 arg2 arg3)
            else if api = PM_QUERY_DATA then smc_query_data arg0 arg1 arg2 arg3
            else if api = PM_CLOCK_ENABLE then ret_status (pm_clock_enable arg0)
            else if api = PM_CLOCK_DISABLE then ret_status (pm_clock_disable arg0)
            else if api = PM_CLOCK_GETSTATE then ret_value (pm_clock_getstate arg0)
            else if api = PM_CLOCK_SETDIVIDER then ret_status (pm_clock_setdivider arg0 arg1)
            else if api = PM_CLOCK_GETDIVIDER then ret_value (\<lambda>s. pm_clock_getdivider arg0 (local_var [] 0 s) s)
            else if api = PM_CLOCK_SETRATE then ret_status (pm_clock_setrate arg0 (push_bit 32 (ucast arg2) OR ucast arg1))
            else if api = PM_CLOCK_GETRATE then ret_values (pm_clock_getrate arg0)
            else if api = PM_CLOCK_SETPARENT then ret_status (pm_clock_setparent arg0 arg1)
            else if api = PM_CLOCK_GETPARENT then ret_value (pm_clock_getparent arg0)
            else if api = PM_GET_TRUSTZONE_VERSION then (\<lambda>s. Some ([two_words PM_RET_SUCCESS ZYNQMP_TZ_VERSION], s))
            else if api = PM_SET_SUSPEND_MODE then (\<lambda>s. let (ret, s) = pm_set_suspend_mode arg0 s in Some ([ucast ret], s))
            else if api = PM_SECURE_SHA then ret_status (pm_sha_hash arg0 arg1 arg2 arg3)
            else if api = PM_SECURE_RSA then ret_status (pm_rsa_core arg0 arg1 arg2 arg3)
            else if api = PM_SECURE_IMAGE then ret_values (pm_secure_image arg0 arg1 arg2 arg3)
            else if api = PM_FPGA_READ then ret_value (pm_fpga_read arg0 arg1 arg2 arg3)
            else if api = PM_SECURE_AES then ret_value (pm_aes_engine arg0 arg1)
            else if api = PM_PLL_SET_PARAMETER then ret_status (pm_pll_set_parameter arg0 arg1 arg2)
            else if api = PM_PLL_GET_PARAMETER then ret_value (pm_pll_get_parameter arg0 arg1)
            else if api = PM_PLL_SET_MODE then ret_status (pm_pll_set_mode arg0 arg1)
            else if api = PM_PLL_GET_MODE then ret_value (pm_pll_get_mode arg0)
            else if api = PM_REGISTER_ACCESS then ret_value (pm_register_access arg0 arg1 arg2 arg3)
            else if api = PM_EFUSE_ACCESS then ret_value (pm_efuse_access arg0 arg1)
            else smc_unknown) s)"

definition em_smc_handler :: "u32 \<Rightarrow> 'a pm_mach_scheme smc_call" where
  "em_smc_handler smc_fid =
     (let api = smc_fid AND FUNCID_NUM_MASK
      in if api = EM_SET_ACTION then ret_value em_set_action
         else if api = EM_REMOVE_ACTION then ret_value em_remove_action
         else if api = EM_SEND_ERRORS then ret_value em_send_errors
         else smc_unknown)"

section \<open>The entry point (sip_svc_setup.c)\<close>

text \<open>The four registers of \<open>SMC_UUID_RET(handle, zynqmp_sip_uuid)\<close>.\<close>

definition zynqmp_sip_uuid :: "u64 list" where
  "zynqmp_sip_uuid = [0x2a1b9b5c, 0x40238605, 0x25b91ba6, 0xa5e32d82]"

definition sip_svc_smc_handler :: "u32 \<Rightarrow> u64 \<Rightarrow> u64 \<Rightarrow> u64 \<Rightarrow> 'a clk_mach_scheme smc_call" where
  "sip_svc_smc_handler smc_fid x1 x2 x3 s =
     (if smc_fid AND EM_FID_MASK = EM_FID_VALUE then em_smc_handler smc_fid s
      else if smc_fid AND PM_FID_MASK = PM_FID_VALUE then pm_smc_handler smc_fid x1 x2 s
      else if smc_fid AND PM_FID_MASK = IPI_FID_VALUE then do {
        (r, s) \<leftarrow> ipi_smc_handler smc_fid x1 x2 x3 s;
        Some ([r], s)
      }
      else if smc_fid = ZYNQMP_SIP_SVC_CALL_COUNT then Some ([ucast PM_API_MAX + 2], s)
      else if smc_fid = ZYNQMP_SIP_SVC_UID then Some (zynqmp_sip_uuid, s)
      else if smc_fid = ZYNQMP_SIP_SVC_VERSION then Some ([SIP_SVC_VERSION_MAJOR, SIP_SVC_VERSION_MINOR], s)
      else smc_unknown s)"

section \<open>Which calls return\<close>

lemma pm_query_data_None:
  "pm_query_data qid arg1 arg2 arg3 = None \<longleftrightarrow> qid = PM_QID_CLOCK_GET_NAME \<and> CLK_MAX < arg1"
proof -
  have f: "pm_api_pinctrl_get_num_func_groups arg1 \<noteq> None \<and> pm_api_pinctrl_get_function_groups arg1 arg2 \<noteq> None"
  proof (cases "arg1 < MAX_FUNCTION")
    case True
    then show ?thesis using num_groups_query [OF True] function_query [OF True, of arg2] by simp
  qed (simp add: pm_api_pinctrl_get_num_func_groups_def pm_api_pinctrl_get_function_groups_def not_less)
  have p: "pm_api_pinctrl_get_pin_groups arg1 arg2 \<noteq> None"
  proof (cases "arg1 < MAX_PIN")
    case True
    then show ?thesis using pin_query [OF True, of arg2] by simp
  qed (simp add: pm_api_pinctrl_get_pin_groups_def not_less)
  show ?thesis
    by (simp only: pm_query_data_def if_distrib [of "\<lambda>x. x = None"] map_option_is_None option.distinct f p
        table_queries_total clock_name_None) auto
qed

lemma runs_ret:
  "pml.runs b f \<Longrightarrow> pml.runs b (ret_status f)" "pml.runs b f \<Longrightarrow> pml.runs b (ret_value f)"
  "pml.runs b f \<Longrightarrow> pml.runs b (ret_values f)"
  unfolding ret_status_def ret_value_def ret_values_def
  by (intro pml.runs_bind pml.runs_prod pml.runs_upd; assumption)+

lemma runs_unknown: "pml.runs b smc_unknown"
  unfolding smc_unknown_def by (rule pml.runs_upd)

lemma pm_ok_calls [simp]: "pm_ok b (s\<lparr>ipi_irq_flag := n\<rparr>) = pm_ok b s" "pm_ok b (t\<lparr>suspend_mode := m\<rparr>) = pm_ok b t"
  by (simp_all add: pm_ok_def pm_idle_def pmu_live_def plat_my_core_pos_def)

lemma runs_api_version: "pml.runs b (smc_api_version a)"
proof (rule pml.runsI)
  fix s :: "'a svc_mach_scheme" assume ok: "pm_ok b s"
  have "\<exists>r s'. ret_status (pm_set_configuration a) s = Some (r, s') \<and> pm_ok b s'"
    by (rule pml.runsD [OF runs_ret(1) [OF runs_api(9)] ok])
  with ipi_mb_ops_eq(5) [OF pm_ok_ents [OF ok]] ok
  show "\<exists>r s'. smc_api_version a s = Some (r, s') \<and> pm_ok b s'"
    by (simp add: smc_api_version_def pm_ipi_irq_enable_def)
qed

lemma runs_node_status: "pml.runs b (smc_node_status a)"
  unfolding smc_node_status_def by (intro pml.runs_bind pml.runs_prod pml.runs_upd runs_api)

lemma runs_pinctrl_function: "pml.runs b (smc_pinctrl_function a)"
  unfolding smc_pinctrl_function_def by (intro pml.runs_bind pml.runs_prod pml.runs_upd runs_api)

lemma runs_wakeup_call: "pml.runs b (\<lambda>s. pm_set_wakeup_source u v w s \<bind> (\<lambda>(ret, s). pm_ret ret s))"
  by (rule pml.runs_bind [OF runs_pm_set_wakeup_source runs_pm_ret])

lemma runs_suspend_mode: "pml.runs b (\<lambda>s. case pm_set_suspend_mode a s of (ret, s) \<Rightarrow> Some ([ucast ret], s))"
  by (rule pml.runsI) (simp add: pm_set_suspend_mode_def)

lemma runs_getdivider_call: "pml.runs b (\<lambda>s. pm_clock_getdivider a (local_var [] 0 s) s)"
  by (rule pml.runs_at [where f = "pm_clock_getdivider a"]) (rule runs_getdivider)

lemma runs_ite: "(c \<Longrightarrow> pml.runs b f) \<Longrightarrow> (\<not> c \<Longrightarrow> pml.runs b g) \<Longrightarrow> pml.runs b (if c then f else g)"
  by simp

lemma runs_query: "\<not> (q = PM_QID_CLOCK_GET_NAME \<and> CLK_MAX < u) \<Longrightarrow> pml.runs b (smc_query_data q u v w)"
  using pm_query_data_None [of q u v w] by (auto intro!: pml.runsI simp: smc_query_data_def)

lemmas smc_runs = runs_ret runs_unknown runs_api_version runs_node_status runs_pinctrl_function runs_wakeup_call runs_suspend_mode runs_getdivider_call

lemma runs_rates: "pml.runs b (pm_clock_setrate c r)" "pml.runs b (pm_clock_getrate c)"
  by (simp_all add: pm_clock_setrate_def pm_clock_getrate_def pm_runs)

lemma runs_version: "pml.runs b (\<lambda>s. Some (v, s))"
  by (rule pml.runs_upd)

lemma runs_pm_smc:
  assumes "smc_fid AND FUNCID_NUM_MASK \<noteq> PM_GET_CALLBACK_DATA"
    and "\<not> (smc_fid AND FUNCID_NUM_MASK = PM_QUERY_DATA \<and> ucast x1 = PM_QID_CLOCK_GET_NAME \<and> CLK_MAX < ucast (drop_bit 32 x1))"
  shows "pml.runs False (pm_smc_handler smc_fid x1 x2)"
  unfolding pm_smc_handler_def Let_def
  by (rule pml.runs_if, rule runs_unknown, intro runs_ite smc_runs runs_rates pm_runs runs_version)
    (use assms in \<open>simp_all add: runs_query\<close>)

text \<open>Single cases of the handler.\<close>

lemma smc_cases:
  assumes "pm_up s \<noteq> 0"
  shows "smc_fid AND FUNCID_NUM_MASK = PM_GET_CALLBACK_DATA \<Longrightarrow> pm_smc_handler smc_fid x1 x2 s = smc_callback_data s"
    and "smc_fid AND FUNCID_NUM_MASK = PM_QUERY_DATA \<Longrightarrow> pm_smc_handler smc_fid x1 x2 s =
      smc_query_data (ucast x1) (ucast (drop_bit 32 x1)) (ucast x2) (ucast (drop_bit 32 x2)) s"
    and "smc_fid AND FUNCID_NUM_MASK = PM_GET_API_VERSION \<Longrightarrow> pm_smc_handler smc_fid x1 x2 s = smc_api_version (ucast x1) s"
    and "smc_fid AND FUNCID_NUM_MASK = PM_CLOCK_GETRATE \<Longrightarrow> pm_smc_handler smc_fid x1 x2 s = ret_values (pm_clock_getrate (ucast x1)) s"
    and "smc_fid AND FUNCID_NUM_MASK = PM_IOCTL \<Longrightarrow> pm_smc_handler smc_fid x1 x2 s =
      ret_value (pm_api_ioctl (ucast x1) (ucast (drop_bit 32 x1)) (ucast x2) (ucast (drop_bit 32 x2))) s"
    and "smc_fid AND FUNCID_NUM_MASK = PM_REGISTER_ACCESS \<Longrightarrow> pm_smc_handler smc_fid x1 x2 s =
      ret_value (pm_register_access (ucast x1) (ucast (drop_bit 32 x1)) (ucast x2) (ucast (drop_bit 32 x2))) s"
  using assms by (simp_all add: pm_smc_handler_def)

lemma two_words_high: "ucast (drop_bit 32 (two_words lo hi)) = hi"
  by (rule bit_word_eqI) (auto simp: two_words_def bit_simps dest: bit_imp_le_length)

lemma ucast_back: "ucast (ucast w :: u64) = w" for w :: u32
  by (rule bit_word_eqI) (simp add: bit_simps)

lemma ioctl_unknown: "27 < i \<Longrightarrow> pm_api_ioctl nid i u v = pm_ret PM_RET_ERROR_NOTSUPPORTED"
  by (auto simp: pm_api_ioctl_def)

text \<open>A callback of the power management firmware is waiting: the status register shows its interrupt.\<close>

definition callback_pending :: "'a pm_mach_scheme \<Rightarrow> bool" where
  "callback_pending s \<longleftrightarrow> (\<exists>t. pm_ipi_irq_status primary_proc s = Some (1, t))"

lemma callback_words:
  assumes "pm_get_callbackdata 4 s = Some (vs, s')"
  shows "length vs = (if callback_pending s then 5 else 0)"
proof -
  from assms obtain st t where t: "pm_ipi_irq_status primary_proc s = Some (st, t)"
    by (auto simp: pm_get_callbackdata_def split: bind_splits)
  have five: "[0..<Suc 4] = [0, 1, 2, 3, 4 :: nat]" by code_simp
  have "st = 0 \<or> st = 1" using t by (auto simp: pm_ipi_irq_status_def split: bind_splits if_splits)
  with t assms show ?thesis
    by (auto simp: pm_get_callbackdata_def callback_pending_def pm_ipi_buff_read_callb_def case_prod_unfold Let_def read_words_fst
        split: bind_splits if_splits)
qed

lemma callback_call:
  assumes "pm_ok b s"
  shows "if callback_pending s then smc_callback_data s = None
    else \<exists>r s'. smc_callback_data s = Some (r, s') \<and> pm_ok b s'"
proof -
  from pml.runsE [OF runs_pm_get_callbackdata assms] obtain vs s' where
    "pm_get_callbackdata 4 s = Some (vs, s')" "pm_ok b s'" by blast
  with callback_words [OF this(1)] show ?thesis by (simp add: smc_callback_data_def Let_def)
qed

text \<open>The registration of the restart handlers and what the requests leave alone.\<close>

lemma table_more: "mach.more t = mach.more s \<Longrightarrow> type_el3_interrupt_table t = type_el3_interrupt_table s"
  for s t :: "'a el3_mach_scheme"
  by (cases s, cases t) simp

lemma up_more: "mach.more t = mach.more s \<Longrightarrow> pm_up t = pm_up s" for s t :: "'a svc_mach_scheme"
  by (cases s, cases t) simp

definition restart_slots_free :: "'a el3_mach_scheme \<Rightarrow> bool" where
  "restart_slots_free s \<longleftrightarrow>
     type_el3_interrupt_table s ARM_IRQ_SEC_SGI_7 = None \<and> type_el3_interrupt_table s IRQ_TTC3_1 = None"

lemma pm_ok_table [simp]: "pm_ok b (s\<lparr>type_el3_interrupt_table := f\<rparr>) = pm_ok b s" for s :: "'a pmc_mach_scheme"
  by (simp add: pm_ok_def pm_idle_def pmu_live_def plat_my_core_pos_def)

lemma restart_setup_cases:
  assumes "pm_ok b s"
  obtains (up) t where "pm_wdt_restart_setup s = (0, t)" "restart_slots_free s" "pm_ok b t" "api_version t = api_version s"
      "type_el3_interrupt_table t = (type_el3_interrupt_table s)(15 \<mapsto> Zynqmp_sgi7_irq, 77 \<mapsto> Ttc_fiq_handler)"
    | (down) st t where "pm_wdt_restart_setup s = (st, t)" "st < 0" "\<not> restart_slots_free s" "pm_ok b t"
proof (cases "restart_slots_free s")
  case True
  then show ?thesis using assms
    by (intro up [of "snd (pm_wdt_restart_setup s)"])
      (auto simp: restart_slots_free_def pm_wdt_restart_setup_def request_intr_type_el3_def MAX_INTR_EL3_def)
next
  case False
  then have "fst (pm_wdt_restart_setup s) < 0" "pm_ok b (snd (pm_wdt_restart_setup s))"
    using assms by (auto simp: restart_slots_free_def pm_wdt_restart_setup_def request_intr_type_el3_def MAX_INTR_EL3_def
        EALREADY_def Let_def)
  with False show ?thesis by (intro down) auto
qed

lemma setup_channel:
  assumes ok: "pm_ok False (s\<lparr>pm_secure_lock := False\<rparr>)"
  obtains v t where "pm_ok False t" "api_version t = v" "mach.more t = mach.more (s\<lparr>pm_secure_lock := False, api_version := v\<rparr>)"
    "pm_setup s = (if v < PM_VERSION then Some (- EINVAL, t)
       else let (status, t) = pm_wdt_restart_setup t
            in Some (if status \<ge> 0 then 0 else status, t\<lparr>pm_up := (if status = 0 then 1 else 0)\<rparr>))"
proof -
  define s0 where "s0 = s\<lparr>pm_secure_lock := False\<rparr>"
  have "\<exists>s1. ipi_mb_open (local_ipi_id (ipi primary_proc)) (remote_ipi_id (ipi primary_proc)) s0 = Some s1 \<and>
      mach.more s1 = mach.more s0 \<and> m_hw s1 = m_hw s0"
    using ipi_mb_ops_eq(1) [OF pm_ok_ents [OF ok [folded s0_def]]] by simp
  then obtain s1 where s1: "pm_ipi_init primary_proc s = Some (0, s1)" "mach.more s1 = mach.more s0" "m_hw s1 = m_hw s0"
    by (auto simp: pm_ipi_init_def s0_def)
  have ok1: "pm_ok False s1" using pm_ok_cong [OF s1(2,3)] ok by (simp add: s0_def)
  then obtain st vs t where t: "pm_get_api_version s1 = Some ((st, vs), t)" "pm_ok False t"
    using pml.runsD [OF runs_api(8) ok1] by auto
  have m: "mach.more t = mach.more s1"
    using send_sync_apu [of s1] t(1) ok1 by (metis pm_get_api_version_def pm_req_def pm_ok_def)
  show ?thesis
  proof (rule that [of "t\<lparr>api_version := vs ! 0\<rparr>" "vs ! 0"])
    show "mach.more (t\<lparr>api_version := vs ! 0\<rparr>) = mach.more (s\<lparr>pm_secure_lock := False, api_version := vs ! 0\<rparr>)"
      using m s1(2) by (cases s, cases t, cases s1) (simp add: s0_def)
  qed (use t s1(1) in \<open>simp_all add: pm_setup_def pm_ok_def pm_idle_def pmu_live_def plat_my_core_pos_def\<close>)
qed

lemma pm_ok_up [simp]: "pm_ok b (s\<lparr>pm_up := n\<rparr>) = pm_ok b s" for s :: "'a svc_mach_scheme"
  by (simp add: pm_ok_def pm_idle_def pmu_live_def plat_my_core_pos_def)

lemma pm_ok_version [simp]: "pm_ok b (s\<lparr>api_version := n\<rparr>) = pm_ok b s" for s :: "'a svc_mach_scheme"
  by (simp add: pm_ok_def pm_idle_def pmu_live_def plat_my_core_pos_def)

lemma api_version_call:
  assumes "pm_ok b s" "pm_up s \<noteq> 0" "PM_VERSION \<le> api_version s" "smc_fid AND FUNCID_NUM_MASK = PM_GET_API_VERSION"
  shows "\<exists>s'. pm_smc_handler smc_fid x1 x2 s = Some ([two_words PM_RET_SUCCESS (api_version s)], s')"
  unfolding smc_cases(3) [OF assms(2,4)]
  using ipi_mb_ops_eq(5) [OF pm_ok_ents [OF assms(1)]] assms(3)
  by (cases "ipi_irq_flag s = 0") (simp_all add: smc_api_version_def pm_ipi_irq_enable_def)

lemma svc_down: "pm_up s = 0 \<Longrightarrow> pm_smc_handler smc_fid x1 x2 s = Some ([- 1], s)"
  by (simp add: pm_smc_handler_def smc_unknown_def)

section \<open>Properties\<close>

text \<open>
  C21.  Exactly two kinds of calls of the power management service are not defined.  With a live
  firmware and the locks free, every call with any function number and arguments returns, again with
  the locks free, except these two: asking for callback data while a callback is waiting, where five
  words are stored to an array of four on the monitor's stack, and asking for the name of a clock
  whose number is above the number of clocks, where memory behind the table of names is read.
\<close>

theorem smc_defined_exactly:
  assumes "pm_ok False s"
  shows "if pm_up s \<noteq> 0 \<and>
      (smc_fid AND FUNCID_NUM_MASK = PM_GET_CALLBACK_DATA \<and> callback_pending s \<or>
       smc_fid AND FUNCID_NUM_MASK = PM_QUERY_DATA \<and> ucast x1 = PM_QID_CLOCK_GET_NAME \<and> CLK_MAX < ucast (drop_bit 32 x1))
    then pm_smc_handler smc_fid x1 x2 s = None
    else \<exists>r s'. pm_smc_handler smc_fid x1 x2 s = Some (r, s') \<and> pm_ok False s'"
proof (cases "pm_up s = 0")
  case True
  then show ?thesis using assms by (simp add: pm_smc_handler_def smc_unknown_def)
next
  case up: False
  consider (cb) "smc_fid AND FUNCID_NUM_MASK = PM_GET_CALLBACK_DATA"
    | (name) "smc_fid AND FUNCID_NUM_MASK = PM_QUERY_DATA" "ucast x1 = PM_QID_CLOCK_GET_NAME" "CLK_MAX < ucast (drop_bit 32 x1)"
    | (other) "smc_fid AND FUNCID_NUM_MASK \<noteq> PM_GET_CALLBACK_DATA"
      "\<not> (smc_fid AND FUNCID_NUM_MASK = PM_QUERY_DATA \<and> ucast x1 = PM_QID_CLOCK_GET_NAME \<and> CLK_MAX < ucast (drop_bit 32 x1))"
    by blast
  then show ?thesis
  proof cases
    case cb
    then show ?thesis using callback_call [OF assms] smc_cases(1) [OF up cb, of x1 x2] up by simp
  next
    case name
    then have "pm_query_data (ucast x1) (ucast (drop_bit 32 x1)) u v = None" for u v by (simp add: pm_query_data_None)
    then show ?thesis using smc_cases(2) [OF up name(1), of x1 x2] name up by (simp add: smc_query_data_def)
  next
    case other
    from pml.runsD [OF runs_pm_smc [OF other] assms, of x2] other show ?thesis by (simp only:) auto
  qed
qed

text \<open>
  C31.  Error paths of the service give the caller words of the monitor's stack.  For a clock rate (any
  clock), a device control with a number that does not exist, and a register access outside the
  allowed addresses, the call stores nothing to the handler's local variable, and the caller finds
  what was on the stack in the upper half of \<open>x0\<close> (and for the rate another word in \<open>x1\<close>).
\<close>

theorem smc_leaks_stack:
  assumes "pm_up s \<noteq> 0"
    and "smc_fid AND FUNCID_NUM_MASK = PM_CLOCK_GETRATE \<or>
      smc_fid AND FUNCID_NUM_MASK = PM_IOCTL \<and> 27 < (ucast (drop_bit 32 x1) :: u32) \<or>
      smc_fid AND FUNCID_NUM_MASK = PM_REGISTER_ACCESS \<and> \<not> register_window (ucast (drop_bit 32 x1))"
  shows "\<exists>rs. pm_smc_handler smc_fid x1 x2 s = Some (rs, s) \<and> ucast (drop_bit 32 (rs ! 0)) = stack_junk s (m_now s) 0 \<and>
    (smc_fid AND FUNCID_NUM_MASK = PM_CLOCK_GETRATE \<longrightarrow> ucast (rs ! 1) = stack_junk s (m_now s) 1)"
  using assms(2)
proof (elim disjE conjE)
  assume c: "smc_fid AND FUNCID_NUM_MASK = PM_CLOCK_GETRATE"
  show ?thesis unfolding smc_cases(4) [OF assms(1) c]
    by (simp add: ret_values_def pm_clock_getrate_def pm_ret_def local_var_def two_words_high ucast_back)
next
  assume c: "smc_fid AND FUNCID_NUM_MASK = PM_IOCTL" and i: "27 < (ucast (drop_bit 32 x1) :: u32)"
  show ?thesis unfolding smc_cases(5) [OF assms(1) c] ioctl_unknown [OF i]
    using c by (simp add: ret_value_def pm_ret_def local_var_def two_words_high)
next
  assume c: "smc_fid AND FUNCID_NUM_MASK = PM_REGISTER_ACCESS" and w: "\<not> register_window (ucast (drop_bit 32 x1))"
  show ?thesis unfolding smc_cases(6) [OF assms(1) c]
    using c w by (simp add: ret_value_def pm_register_access_def pm_ret_def local_var_def two_words_high)
qed

text \<open>
  C22.  The service opens exactly when the firmware is new enough and the two interrupts of the warm
  restart could be registered.  \<open>pm_setup\<close> always returns; it reports success exactly when it set
  \<open>pm_up\<close>.  Without that every later call of the service is answered as unknown and changes
  nothing, with it both handlers are in the table and the version can be asked for.
\<close>

theorem setup_gates_service:
  assumes "pm_ok False (s\<lparr>pm_secure_lock := False\<rparr>)" and "pm_up s = 0"
  shows "\<exists>ret s'. pm_setup s = Some (ret, s') \<and> pm_ok False s' \<and>
    (pm_up s' \<noteq> 0 \<longleftrightarrow> PM_VERSION \<le> api_version s' \<and> restart_slots_free s) \<and> (ret = 0 \<longleftrightarrow> pm_up s' \<noteq> 0) \<and>
    (if pm_up s' = 0 then \<forall>fid x1 x2. pm_smc_handler fid x1 x2 s' = Some ([- 1], s')
     else type_el3_interrupt_table s' = (type_el3_interrupt_table s)(15 \<mapsto> Zynqmp_sgi7_irq, 77 \<mapsto> Ttc_fiq_handler) \<and>
       (\<forall>x1 x2. \<exists>s''. pm_smc_handler PM_GET_API_VERSION x1 x2 s' = Some ([two_words PM_RET_SUCCESS (api_version s')], s'')))"
proof -
  obtain v t where t: "pm_ok False t" "api_version t = v"
      "mach.more t = mach.more (s\<lparr>pm_secure_lock := False, api_version := v\<rparr>)"
    and eq: "pm_setup s = (if v < PM_VERSION then Some (- EINVAL, t)
       else let (status, t) = pm_wdt_restart_setup t
            in Some (if status \<ge> 0 then 0 else status, t\<lparr>pm_up := (if status = 0 then 1 else 0)\<rparr>))"
    by (rule setup_channel [OF assms(1)])
  have tab: "type_el3_interrupt_table t = type_el3_interrupt_table s" "restart_slots_free t = restart_slots_free s"
    using table_more [OF t(3)] by (simp_all add: restart_slots_free_def)
  have up: "pm_up t = 0" using up_more [OF t(3)] assms(2) by simp
  show ?thesis
  proof (cases "v < PM_VERSION")
    case True
    then show ?thesis using eq t up by (auto simp: svc_down EINVAL_def)
  next
    case False
    from t(1) show ?thesis
    proof (cases rule: restart_setup_cases)
      case (up t')
      then show ?thesis
        using eq False t(2) tab api_version_call [of False "t'\<lparr>pm_up := 1\<rparr>" PM_GET_API_VERSION] by (simp add: not_less)
    next
      case (down st t')
      then show ?thesis using eq False t(2) tab by (simp add: svc_down)
    qed
  qed
qed

text \<open>The service up, with the version of the firmware that the monitor was built for.\<close>

definition test_up :: clk_mach where
  "test_up = test_clk\<lparr>pm_up := 1, api_version := PM_VERSION\<rparr>"

lemma test_up_ok: "pm_ok False test_up" "pm_up test_up = 1"
  by (simp_all add: test_up_def test_clk_ok)

lemma test_clk_idle: "test_clk\<lparr>pm_secure_lock := False\<rparr> = test_clk" "pm_up test_clk = 0" "restart_slots_free test_clk"
  by (simp_all add: test_clk_def svc_mach.defs test_svc_simps restart_slots_free_def)

theorem smc_defined_exactly_witness:
  "pm_smc_handler PM_QUERY_DATA 0x12C00000001 0 test_up = None \<and>
   (\<exists>r s'. pm_smc_handler PM_CLOCK_ENABLE 3 0 test_up = Some (r, s') \<and> pm_ok False s')"
  using smc_defined_exactly [OF test_up_ok(1), of PM_QUERY_DATA "0x12C00000001" 0]
    smc_defined_exactly [OF test_up_ok(1), of PM_CLOCK_ENABLE 3 0]
  by (simp add: test_up_ok)

theorem smc_leaks_stack_witness:
  "\<exists>rs. pm_smc_handler PM_CLOCK_GETRATE 3 0 test_up = Some (rs, test_up) \<and>
    ucast (drop_bit 32 (rs ! 0)) = stack_junk test_up (m_now test_up) 0"
  using smc_leaks_stack [of test_up PM_CLOCK_GETRATE 3 0] by (auto simp: test_up_ok)

theorem setup_gates_service_witness:
  "\<exists>ret s'. pm_setup test_clk = Some (ret, s') \<and> (ret = 0 \<longleftrightarrow> pm_up s' \<noteq> 0) \<and>
    (pm_up s' \<noteq> 0 \<longleftrightarrow> PM_VERSION \<le> api_version s')"
  using setup_gates_service [of test_clk] test_clk_ok test_clk_idle by auto

end
