(* ===== verification/Plat_Psci.thy ===== *)
theory Plat_Psci
  imports PM_Svc
begin

text \<open>
  The power state handlers of the platform (\<open>plat/xilinx/zynqmp/plat_psci.c\<close>), which the generic PSCI
  library calls when a core or the cluster changes its power state, and the driver of the coherent
  interconnect that they use (\<open>drivers/arm/cci/cci.c\<close>, \<open>plat/arm/common/arm_cci.c\<close>).  They sit on the
  power management requests of \<open>PM_Sys\<close> and on the GIC driver.  \<open>None\<close> is a failing assertion, a null
  pointer that is followed, or a poll that never ends.
\<close>

section \<open>Constants\<close>

abbreviation (input) PLAT_ARM_CCI_BASE :: addr where "PLAT_ARM_CCI_BASE \<equiv> 0xFD6E0000"
abbreviation (input) PERIPHERAL_ID0 :: addr where "PERIPHERAL_ID0 \<equiv> 0xFE0"
abbreviation (input) PERIPHERAL_ID1 :: addr where "PERIPHERAL_ID1 \<equiv> 0xFE4"
abbreviation (input) STATUS_REG :: addr where "STATUS_REG \<equiv> 0xC"
abbreviation (input) SNOOP_CTRL_REG :: addr where "SNOOP_CTRL_REG \<equiv> 0"
abbreviation (input) CHANGE_PENDING_BIT :: u32 where "CHANGE_PENDING_BIT \<equiv> 1"
abbreviation (input) SNOOP_EN_BIT :: u32 where "SNOOP_EN_BIT \<equiv> 1"
abbreviation (input) DVM_EN_BIT :: u32 where "DVM_EN_BIT \<equiv> 2"
abbreviation (input) PLAT_MAX_RET_STATE :: u8 where "PLAT_MAX_RET_STATE \<equiv> 1"
abbreviation (input) PLAT_MAX_OFF_STATE :: u8 where "PLAT_MAX_OFF_STATE \<equiv> 2"
abbreviation (input) PSCI_E_SUCCESS :: int where "PSCI_E_SUCCESS \<equiv> 0"
abbreviation (input) PSCI_E_INVALID_PARAMS :: int where "PSCI_E_INVALID_PARAMS \<equiv> - 2"
abbreviation (input) PSCI_E_INTERN_FAIL :: int where "PSCI_E_INTERN_FAIL \<equiv> - 6"
abbreviation (input) MAX_LATENCY :: u32 where "MAX_LATENCY \<equiv> NOT 0"
abbreviation (input) PM_STATE_CPU_IDLE :: u32 where "PM_STATE_CPU_IDLE \<equiv> 0"
abbreviation (input) PM_PROC_STATE_SUSPENDING :: u32 where "PM_PROC_STATE_SUSPENDING \<equiv> 3"
abbreviation (input) PMF_SHUTDOWN_TYPE_SHUTDOWN :: u32 where "PMF_SHUTDOWN_TYPE_SHUTDOWN \<equiv> 0"

section \<open>Coherent interconnect (cci.c, arm_cci.c)\<close>

text \<open>The static variables; a map that is not set yet is the empty list.\<close>

record cci_mach = clk_mach +
  cci_base :: addr
  cci_slave_if_map :: "int list"
  max_master_id :: u32
  cci_num_slave_ports :: int

fun cci_map_loop :: "int \<Rightarrow> int list \<Rightarrow> u32 \<Rightarrow> u32 option" where
  "cci_map_loop ports [] valid_cci_map = Some valid_cci_map"
| "cci_map_loop ports (slave_if_id # m) valid_cci_map =
     (if slave_if_id < 0 then cci_map_loop ports m valid_cci_map
      else if slave_if_id \<ge> ports then None
      else if bit valid_cci_map (nat slave_if_id) then None
      else cci_map_loop ports m (valid_cci_map OR push_bit (nat slave_if_id) 1))"

definition validate_cci_map :: "int list \<Rightarrow> 'a cci_mach_scheme \<Rightarrow> bool option" where
  "validate_cci_map m s =
     (if unat (max_master_id s) < length m
      then Some (case cci_map_loop (cci_num_slave_ports s) (take (Suc (unat (max_master_id s))) m) 0 of
                   None \<Rightarrow> False | Some valid_cci_map \<Rightarrow> valid_cci_map \<noteq> 0)
      else None)"

definition read_cci_part_number :: "addr \<Rightarrow> 'a mach_scheme \<Rightarrow> u32 \<times> 'a mach_scheme" where
  "read_cci_part_number base s =
     (let (part_lo, s) = mmio_read_32 (base + PERIPHERAL_ID0) s;
          (part_hi, s) = mmio_read_32 (base + PERIPHERAL_ID1) s
      in (push_bit 8 (part_hi AND 0xF) OR (part_lo AND 0xFF), s))"

definition get_slave_ports :: "u32 \<Rightarrow> int" where
  "get_slave_ports part_num =
     (if part_num = 0x420 then 5 else if part_num = 0x422 then 7 else if part_num = 0x423 then 7 else - 1)"

definition cci_init :: "addr \<Rightarrow> int list \<Rightarrow> u32 \<Rightarrow> 'a cci_mach_scheme \<Rightarrow> 'a cci_mach_scheme option" where
  "cci_init base m num_cci_masters s = do {
     assert_C (m \<noteq> []);
     assert_C (base \<noteq> 0);
     let (part, s) = read_cci_part_number base
           (s\<lparr>cci_base := base, cci_slave_if_map := m, max_master_id := num_cci_masters - 1\<rparr>);
     let s = s\<lparr>cci_num_slave_ports := get_slave_ports part\<rparr>;
     assert_C (cci_num_slave_ports s \<ge> 0);
     ok \<leftarrow> validate_cci_map m s;
     assert_C ok;
     Some s
   }"

text \<open>
  The two functions differ in the value written.  \<open>cci_set_snoop\<close> is the common part: the entry of the
  map, the assertions, the write to the port, and the poll until no change is pending.
\<close>

definition cci_set_snoop :: "u32 \<Rightarrow> u32 \<Rightarrow> 'a cci_mach_scheme \<Rightarrow> 'a cci_mach_scheme option" where
  "cci_set_snoop master_id v s = do {
     assert_C (unat master_id < length (cci_slave_if_map s));
     let slave_if_id = cci_slave_if_map s ! unat master_id;
     assert_C (master_id \<le> max_master_id s);
     assert_C (slave_if_id < cci_num_slave_ports s \<and> slave_if_id \<ge> 0);
     assert_C (cci_base s \<noteq> 0);
     let s = mmio_write_32 (cci_base s + (0x1000 + 0x1000 * of_int slave_if_id) + SNOOP_CTRL_REG) v s;
     map_option snd (do_poll (mmio_read_32 (cci_base s + STATUS_REG)) (\<lambda>w. w AND CHANGE_PENDING_BIT = 0) s)
   }"

definition cci_enable_snoop_dvm_reqs :: "u32 \<Rightarrow> 'a cci_mach_scheme \<Rightarrow> 'a cci_mach_scheme option" where
  "cci_enable_snoop_dvm_reqs master_id = cci_set_snoop master_id (DVM_EN_BIT OR SNOOP_EN_BIT)"

definition cci_disable_snoop_dvm_reqs :: "u32 \<Rightarrow> 'a cci_mach_scheme \<Rightarrow> 'a cci_mach_scheme option" where
  "cci_disable_snoop_dvm_reqs master_id = cci_set_snoop master_id (NOT (DVM_EN_BIT OR SNOOP_EN_BIT))"

definition plat_arm_interconnect_init :: "'a cci_mach_scheme \<Rightarrow> 'a cci_mach_scheme option" where
  "plat_arm_interconnect_init = cci_init PLAT_ARM_CCI_BASE [3, 4] 2"

definition plat_arm_interconnect_enter_coherency :: "'a cci_mach_scheme \<Rightarrow> 'a cci_mach_scheme option" where
  "plat_arm_interconnect_enter_coherency s = cci_enable_snoop_dvm_reqs (ucast (drop_bit 8 (mpidr_el1 s) AND 0xFF)) s"

definition plat_arm_interconnect_exit_coherency :: "'a cci_mach_scheme \<Rightarrow> 'a cci_mach_scheme option" where
  "plat_arm_interconnect_exit_coherency s = cci_disable_snoop_dvm_reqs (ucast (drop_bit 8 (mpidr_el1 s) AND 0xFF)) s"

section \<open>Power states (plat_psci.c)\<close>

text \<open>A power state is the array \<open>pwr_domain_state\<close>: entry 0 is the core, entry 1 the cluster.\<close>

type_synonym psci_power_state = "nat \<Rightarrow> u8"

record psci_mach = cci_mach +
  zynqmp_sec_entry :: u64

definition zynqmp_pwr_domain_on :: "u64 \<Rightarrow> 'a psci_mach_scheme \<Rightarrow> (int \<times> 'a psci_mach_scheme) option" where
  "zynqmp_pwr_domain_on mpidr s = do {
     let cpu_id = plat_core_pos_by_mpidr mpidr;
     if cpu_id = - 1 then Some (PSCI_E_INTERN_FAIL, s)
     else do {
       proc \<leftarrow> pm_get_proc (of_int cpu_id);
       ((ret, buff), s) \<leftarrow> pm_get_node_status (node_id proc) s;
       if ret \<noteq> PM_RET_SUCCESS \<or> buff ! 0 = PM_PROC_STATE_SUSPENDING then Some (PSCI_E_INTERN_FAIL, s)
       else do {
         s \<leftarrow> pm_client_wakeup (Some proc) s;
         (_, s) \<leftarrow> pm_req_wakeup (node_id proc) 1 (zynqmp_sec_entry s) REQ_ACK_BLOCKING s;
         Some (PSCI_E_SUCCESS, s)
       }
     }
   }"

definition zynqmp_pwr_domain_off :: "'a psci_mach_scheme \<Rightarrow> 'a psci_mach_scheme option" where
  "zynqmp_pwr_domain_off s = do {
     let cpu_id = plat_my_core_pos s;
     let proc = pm_get_proc (of_nat cpu_id);
     s \<leftarrow> gicv2_cpuif_disable s;
     p \<leftarrow> proc;
     (_, s) \<leftarrow> pm_self_suspend (node_id p) MAX_LATENCY PM_STATE_CPU_IDLE 0 s;
     Some s
   }"

definition zynqmp_pwr_domain_suspend :: "psci_power_state \<Rightarrow> 'a psci_mach_scheme \<Rightarrow> 'a psci_mach_scheme option" where
  "zynqmp_pwr_domain_suspend target_state s = do {
     proc \<leftarrow> pm_get_proc (of_nat (plat_my_core_pos s));
     let state = (if target_state 1 > PLAT_MAX_RET_STATE then PM_STATE_SUSPEND_TO_RAM else PM_STATE_CPU_IDLE);
     (_, s) \<leftarrow> pm_self_suspend (node_id proc) MAX_LATENCY state (zynqmp_sec_entry s) s;
     if target_state 1 > PLAT_MAX_RET_STATE then plat_arm_interconnect_exit_coherency s else Some s
   }"

definition zynqmp_pwr_domain_on_finish :: "'a psci_mach_scheme \<Rightarrow> 'a psci_mach_scheme option" where
  "zynqmp_pwr_domain_on_finish s = do {
     s \<leftarrow> plat_arm_gic_pcpu_init s;
     gicv2_cpuif_enable s
   }"

definition zynqmp_pwr_domain_suspend_finish ::
  "psci_power_state \<Rightarrow> 'a psci_mach_scheme \<Rightarrow> 'a psci_mach_scheme option" where
  "zynqmp_pwr_domain_suspend_finish target_state s = do {
     let proc = pm_get_proc (of_nat (plat_my_core_pos s));
     s \<leftarrow> pm_client_wakeup proc s;
     s \<leftarrow> plat_arm_interconnect_enter_coherency s;
     if target_state 1 > PLAT_MAX_RET_STATE then plat_arm_gic_init s
     else do {
       s \<leftarrow> gicv2_cpuif_enable s;
       gicv2_pcpu_distif_init s
     }
   }"

text \<open>The two functions that never return give the state in which the core waits forever.\<close>

definition zynqmp_system_off :: "'a psci_mach_scheme \<Rightarrow> 'a psci_mach_scheme option" where
  "zynqmp_system_off s = do {
     s \<leftarrow> plat_arm_interconnect_exit_coherency s;
     (_, s) \<leftarrow> pm_system_shutdown PMF_SHUTDOWN_TYPE_SHUTDOWN (pm_get_shutdown_scope s) s;
     Some s
   }"

definition zynqmp_system_reset :: "'a psci_mach_scheme \<Rightarrow> 'a psci_mach_scheme option" where
  "zynqmp_system_reset s = do {
     s \<leftarrow> plat_arm_interconnect_exit_coherency s;
     (_, s) \<leftarrow> pm_system_shutdown PMF_SHUTDOWN_TYPE_RESET (pm_get_shutdown_scope s) s;
     Some s
   }"

definition zynqmp_validate_power_state :: "u32 \<Rightarrow> psci_power_state \<Rightarrow> int \<times> psci_power_state" where
  "zynqmp_validate_power_state power_state req_state =
     (let pstate = drop_bit 30 power_state AND 1;
          req_state = req_state(0 := (if pstate = 0 then PLAT_MAX_RET_STATE else PLAT_MAX_OFF_STATE))
      in if power_state AND 0xFFFFFFF \<noteq> 0 then (PSCI_E_INVALID_PARAMS, req_state) else (PSCI_E_SUCCESS, req_state))"

definition zynqmp_get_sys_suspend_power_state :: "psci_power_state \<Rightarrow> psci_power_state" where
  "zynqmp_get_sys_suspend_power_state req_state = req_state(0 := PLAT_MAX_OFF_STATE, 1 := PLAT_MAX_OFF_STATE)"

definition plat_setup_psci_ops :: "u64 \<Rightarrow> 'a psci_mach_scheme \<Rightarrow> 'a psci_mach_scheme" where
  "plat_setup_psci_ops sec_entrypoint s = s\<lparr>zynqmp_sec_entry := sec_entrypoint\<rparr>"

section \<open>What the handlers leave alone\<close>

text \<open>
  The interconnect is set up for this cluster, and a change of a port does not stay pending forever.
\<close>

definition cci_ready :: "'a cci_mach_scheme \<Rightarrow> bool" where
  "cci_ready s \<longleftrightarrow> cci_base s = PLAT_ARM_CCI_BASE \<and> cci_slave_if_map s = [3, 4] \<and> max_master_id s = 1 \<and>
     cci_num_slave_ports s \<ge> 5 \<and> drop_bit 8 (mpidr_el1 s) AND 0xFF = 0 \<and>
     (\<forall>t v. \<exists>n. m_hw s (t + n) 0xFD6E000C v AND CHANGE_PENDING_BIT = 0)"

lemma psci_more_fields:
  fixes s s' :: "'a psci_mach_scheme"
  assumes "mach.more s' = mach.more s"
  shows "driver_data s' = driver_data s" "gic_lock s' = gic_lock s" "mpidr_el1 s' = mpidr_el1 s"
    "pm_client_secure_lock s' = pm_client_secure_lock s" "plat_my_core_pos s' = plat_my_core_pos s"
    "cci_base s' = cci_base s" "cci_slave_if_map s' = cci_slave_if_map s" "max_master_id s' = max_master_id s"
    "cci_num_slave_ports s' = cci_num_slave_ports s" "zynqmp_sec_entry s' = zynqmp_sec_entry s"
  using assms by (cases s, cases s', simp add: plat_my_core_pos_def)+

lemma gicd_neq: "n < 4096 \<Longrightarrow> gicd_at n \<noteq> APU_PWRCTL" "n < 4096 \<Longrightarrow> gicd_at n \<noteq> 0xFD6E4000"
  by (simp_all add: word_unat_eq_iff unat_gicd_at)

lemma proc_exists:
  assumes "c < 4"
  obtains p where "pm_get_proc (of_nat c) = Some p" "pm_get_cpuid (node_id p) \<noteq> UNDEFINED_CPUID"
proof -
  from assms have "c = 0 \<or> c = 1 \<or> c = 2 \<or> c = 3" by linarith
  then show ?thesis by (auto simp: pm_get_proc_def pm_get_cpuid_def pm_procs_all_def intro: that)
qed

lemma client_wakeup_ok:
  fixes s :: "'a pmc_mach_scheme"
  assumes "c < 4" "\<not> pm_client_secure_lock s"
  shows "\<exists>v s'. pm_client_wakeup (pm_get_proc (of_nat c)) s = Some s' \<and> m_hw s' = m_hw s \<and>
    m_regs s' = (m_regs s)(APU_PWRCTL := v) \<and> mach.more s' = mach.more s"
proof -
  obtain p where p: "pm_get_proc (of_nat c) = Some p" "pm_get_cpuid (node_id p) \<noteq> UNDEFINED_CPUID"
    by (rule proc_exists [OF assms(1)])
  show ?thesis using assms(2)
    by (intro exI [of _ "m_hw s (m_now s) APU_PWRCTL (m_regs s APU_PWRCTL) AND NOT (pwrdn_mask p)"], cases s)
      (simp add: p pm_client_wakeup_def pmc_lock_get_def pmc_lock_release_def mmio_read_32_def mmio_write_32_def
        case_prod_unfold Let_def)
qed

lemma enter_coherency_ok:
  fixes s :: "'a psci_mach_scheme"
  assumes "cci_ready s"
  shows "\<exists>s'. plat_arm_interconnect_enter_coherency s = Some s' \<and> m_hw s' = m_hw s \<and>
    m_regs s' = (m_regs s)(0xFD6E4000 := 3) \<and> mach.more s' = mach.more s"
proof -
  let ?t = "mmio_write_32 0xFD6E4000 3 s" and ?rd = "mmio_read_32 0xFD6E000C"
  obtain n where "m_hw s (Suc (m_now s) + n) 0xFD6E000C (m_regs s 0xFD6E000C) AND 1 = 0"
    using assms unfolding cci_ready_def by blast
  then have "fst (?rd (after_reads ?rd n ?t)) AND 1 = 0" by simp
  from do_poll_terminates [where rd = ?rd and n = n and s = ?t and stop = "\<lambda>w. w AND 1 = 0", OF this]
  obtain m where m: "do_poll ?rd (\<lambda>w. w AND 1 = 0) ?t = Some (?rd (after_reads ?rd m ?t))" by blast
  have "cci_base ?t = 0xFD6E0000" using psci_more_fields(6) [of ?t s] assms by (simp add: cci_ready_def)
  then show ?thesis using assms m
    by (simp add: Let_def plat_arm_interconnect_enter_coherency_def cci_enable_snoop_dvm_reqs_def cci_set_snoop_def cci_ready_def)
qed

text \<open>The first half of the return from a suspend does not touch the interrupt controller.\<close>

lemma resume_bus:
  fixes s :: "'a psci_mach_scheme"
  assumes "gic_ready s" "plat_my_core_pos s < 4" "\<not> pm_client_secure_lock s" "cci_ready s"
  obtains s2 where "zynqmp_pwr_domain_suspend_finish ts s = (if ts 1 > PLAT_MAX_RET_STATE then plat_arm_gic_init s2
       else gicv2_cpuif_enable s2 \<bind> gicv2_pcpu_distif_init)"
    and "gic_ready s2" and "plat_my_core_pos s2 < PLATFORM_CORE_COUNT" and "m_hw s2 = m_hw s"
    and "\<And>n. n < 4096 \<Longrightarrow> m_regs s2 (gicd_at n) = m_regs s (gicd_at n)"
proof -
  obtain v s1 where s1: "pm_client_wakeup (pm_get_proc (of_nat (plat_my_core_pos s))) s = Some s1" "m_hw s1 = m_hw s"
    "m_regs s1 = (m_regs s)(APU_PWRCTL := v)" "mach.more s1 = mach.more s"
    using client_wakeup_ok [OF assms(2,3)] by blast
  have "cci_ready s1" using assms(4) s1(2) psci_more_fields [OF s1(4)] by (simp add: cci_ready_def)
  from enter_coherency_ok [OF this] obtain s2 where s2: "plat_arm_interconnect_enter_coherency s1 = Some s2"
    "m_hw s2 = m_hw s1" "m_regs s2 = (m_regs s1)(0xFD6E4000 := 3)" "mach.more s2 = mach.more s1" by blast
  have more: "mach.more s2 = mach.more s" and hw: "m_hw s2 = m_hw s" using s1 s2 by simp_all
  have regs: "m_regs s2 (gicd_at n) = m_regs s (gicd_at n)" if "n < 4096" for n
    using gicd_neq [OF that] by (simp add: s1(3) s2(3))
  have ready: "gic_ready s2" and pos: "plat_my_core_pos s2 < PLATFORM_CORE_COUNT"
    using assms(1,2) hw psci_more_fields [OF more] gicd_plain_cong [OF hw] by (simp_all add: gic_ready_def PLATFORM_CORE_COUNT_def)
  show ?thesis
    by (rule that [OF _ ready pos hw regs]) (simp add: zynqmp_pwr_domain_suspend_finish_def s1(1) s2(1))
qed

section \<open>Properties\<close>

text \<open>
  C5.  Waking the cluster up disarms the heartbeat.  Let the size field of the distributor, whenever it is read, be at
  least \<open>K\<close>, which means that it has the shared interrupts below \<open>32 * (K + 1)\<close>.  The return from a suspend always
  completes, with the lock of the GIC driver free.  When only the core had slept, the security of every shared
  interrupt, 32 to 1019, is as before.  When the cluster had been off, \<open>plat_arm_gic_init\<close> runs again and
  each of the distributor's shared interrupts but 77 becomes non-secure, and \<open>zynqmp_swdt_init\<close> is not called again:
  the timer interrupt 74 of the secure heartbeat is then an interrupt of the normal world and never reaches the
  monitor.
\<close>

theorem resume_disarms_heartbeat:
  fixes s :: "'a psci_mach_scheme"
  assumes "gic_ready s" "plat_my_core_pos s < 4" "\<not> pm_client_secure_lock s" "cci_ready s"
    and lines: "2 \<le> K" "\<forall>t. K \<le> unat (m_hw s t (gicd_at 4) (m_regs s (gicd_at 4)) AND 0x1F)"
  shows "\<exists>s'. zynqmp_pwr_domain_suspend_finish ts s = Some s' \<and> gic_ready s' \<and>
    (\<forall>i. 32 \<le> unat i \<and> unat i < 1020 \<longrightarrow>
       (if ts 1 > PLAT_MAX_RET_STATE then unat i < 32 * Suc K \<longrightarrow> irq_group s' i = (i \<noteq> 77)
        else irq_group s' i = irq_group s i)) \<and>
    map_option fst (plat_ic_get_interrupt_type 74 s') =
      Some (if ts 1 > PLAT_MAX_RET_STATE \<or> irq_group s 74 then INTR_TYPE_NS else INTR_TYPE_EL3)"
proof -
  let ?spis = "\<lambda>s'. \<forall>i. 32 \<le> unat i \<and> unat i < 1020 \<longrightarrow> (if ts 1 > PLAT_MAX_RET_STATE
      then unat i < 32 * Suc K \<longrightarrow> irq_group s' i = (i \<noteq> 77) else irq_group s' i = irq_group s i)"
  obtain s2 where eq: "zynqmp_pwr_domain_suspend_finish ts s = (if ts 1 > PLAT_MAX_RET_STATE then plat_arm_gic_init s2
       else gicv2_cpuif_enable s2 \<bind> gicv2_pcpu_distif_init)"
    and ready: "gic_ready s2" and pos: "plat_my_core_pos s2 < PLATFORM_CORE_COUNT" and hw: "m_hw s2 = m_hw s"
    and regs: "\<And>n. n < 4096 \<Longrightarrow> m_regs s2 (gicd_at n) = m_regs s (gicd_at n)"
    using resume_bus [OF assms(1-4)] by metis
  have "\<exists>s'. zynqmp_pwr_domain_suspend_finish ts s = Some s' \<and> gic_ready s' \<and> ?spis s'"
  proof (cases "ts 1 > PLAT_MAX_RET_STATE")
    case True
    define N where "N = 32 * Suc (unat (m_hw s2 (m_now s2 + 2) (gicd_at 4) (m_regs s2 (gicd_at 4)) AND 0x1F))"
    have N: "32 * Suc K \<le> N" unfolding N_def using lines(2) hw regs [of 4] by simp
    from gic_init_run [OF ready pos N_def] obtain s' where "plat_arm_gic_init s2 = Some s'" "gic_ready s'"
      "\<forall>i. 32 \<le> unat i \<and> unat i < min N 1020 \<longrightarrow> irq_group s' i = (i \<noteq> 77)" by blast
    with N True show ?thesis by (auto simp: eq)
  next
    case False
    have dr: "driver_data s2 = Some arm_gic_data" using ready by (simp add: gic_ready_def)
    from cpuif_enable_ok [OF dr] obtain s3 where s3: "gicv2_cpuif_enable s2 = Some s3" "m_hw s3 = m_hw s2"
      "driver_data s3 = driver_data s2" "gic_lock s3 = gic_lock s2" "\<forall>n<4096. m_regs s3 (gicd_at n) = m_regs s2 (gicd_at n)" by blast
    from pcpu_init [of s3] dr s3(3) obtain s4 where s4: "gicv2_pcpu_distif_init s3 = Some s4" "same_env s3 s4"
      "\<forall>n<4096. 0x84 \<le> n \<and> n < 0x100 \<or> 0x420 \<le> n \<and> n < 0xC00 \<longrightarrow> m_regs s4 (gicd_at n) = m_regs s3 (gicd_at n)" by auto
    have "irq_group s4 i = irq_group s i" if "32 \<le> unat i" "unat i < 1020" for i
      using that s3(5) s4(3) regs by (intro spi_view_cong(1)) auto
    moreover have "gic_ready s4" using ready s3 s4(2) gicd_plain_cong [of s4 s2] by (simp add: gic_ready_def same_env_def)
    ultimately show ?thesis using False
      by (simp add: eq s3(1) s4(1))
  qed
  then obtain s' where s': "zynqmp_pwr_domain_suspend_finish ts s = Some s'" "gic_ready s'" "?spis s'" by blast
  have "irq_group s' 74 = (ts 1 > PLAT_MAX_RET_STATE \<or> irq_group s 74)"
    using s'(3) [rule_format, of 74] lines(1) by (auto split: if_splits)
  moreover have "map_option fst (plat_ic_get_interrupt_type 74 s') = Some (if irq_group s' 74 then INTR_TYPE_NS else INTR_TYPE_EL3)"
    using s'(2) by (intro get_type_group) (simp_all add: gic_ready_def MAX_SPI_ID_def)
  ultimately show ?thesis using s' by (intro exI [of _ s']) auto
qed

text \<open>The requests of starting a core.\<close>

definition on_request :: "pm_proc \<Rightarrow> u64 \<Rightarrow> bool \<Rightarrow> u32 list \<Rightarrow> bool" where
  "on_request p entry started ws \<longleftrightarrow> ws ! 1 = node_id p \<and>
     (ws ! 0 = PM_GET_NODE_STATUS \<or>
      started \<and> ws ! 0 = PM_REQ_WAKEUP \<and> ws ! 2 = ucast (entry OR 1) \<and> ws ! 3 = ucast (drop_bit 32 (entry OR 1)))"

lemma reqs_node_status: "rq.keeps (on_request p e b) (pm_get_node_status (node_id p))"
  unfolding pm_get_node_status_def
  by (rule reqs_pm_req) (simp add: on_request_def less_Suc_eq_0_disj numeral_eq_Suc)

lemma reqs_wakeup: "rq.keeps (on_request p e True) (pm_req_wakeup (node_id p) 1 e REQ_ACK_BLOCKING)"
  unfolding pm_req_wakeup_def pm_req_ack_def Let_def if_P [OF refl] if_P [OF one_neq_zero]
  by (rule reqs_pm_req) (auto simp: on_request_def less_Suc_eq_0_disj numeral_eq_Suc)

lemma proc_of_core:
  assumes "plat_core_pos_by_mpidr mpidr \<noteq> - 1"
  obtains c where "c < 4" "plat_core_pos_by_mpidr mpidr = int c"
proof -
  from assms have c: "mpidr AND 0xFF00 = 0" "mpidr AND 0xFF < 4" "plat_core_pos_by_mpidr mpidr = uint (mpidr AND 0xFF)"
    by (auto simp: plat_core_pos_by_mpidr_def zynqmp_calc_core_pos_def PLATFORM_CORE_COUNT_def not_le split: if_splits)
  then have "unat (mpidr AND 0xFF) < 4" by (simp add: word_less_nat_alt)
  then show ?thesis using c(3) by (intro that) (simp_all only: uint_nat)
qed

lemma only_client_wakeup: "pm_client_wakeup pr s = Some s' \<Longrightarrow> only_reqs Q s s'" for s :: "'a pmc_mach_scheme"
  by (auto simp: pm_client_wakeup_def pmc_lock_get_def pmc_lock_release_def only_reqs_def pm_idle_def mmio_read_32_def
      mmio_write_32_def assert_C_def Let_def split: bind_splits if_splits)

text \<open>
  C25.  Starting a core.  With a live firmware and the locks free, \<open>zynqmp_pwr_domain_on\<close> returns with the
  locks free, with success or an internal failure.  For a core that does not exist nothing is requested.
  Otherwise it succeeds exactly when the firmware answers the question for the status of the core and the
  core is not suspending; all its requests concern the node of this core, when it fails the only request was
  the one for the status, so that a core that is still suspending is never woken, and a wake-up
  request names the secure entry point of the PSCI library with the bit that says it is valid.
\<close>

theorem core_on_safe:
  fixes s :: "'a psci_mach_scheme"
  assumes "pm_ok False s"
  shows "\<exists>r s'. zynqmp_pwr_domain_on mpidr s = Some (r, s') \<and> pm_ok False s' \<and> r \<in> {PSCI_E_SUCCESS, PSCI_E_INTERN_FAIL} \<and>
    (case pm_get_proc (of_int (plat_core_pos_by_mpidr mpidr)) of
       None \<Rightarrow> r = PSCI_E_INTERN_FAIL \<and> s' = s
     | Some p \<Rightarrow> (r = PSCI_E_SUCCESS \<longleftrightarrow> (\<exists>vs s1. pm_get_node_status (node_id p) s = Some ((PM_RET_SUCCESS, vs), s1) \<and>
           vs ! 0 \<noteq> PM_PROC_STATE_SUSPENDING)) \<and>
         list_all (on_request p (zynqmp_sec_entry s) (r = PSCI_E_SUCCESS)) (pm_reqs buf (since s s')))"
proof (cases "plat_core_pos_by_mpidr mpidr = - 1")
  case True
  have "\<not> unat (- 1 :: u32) < 4" unfolding not_less using word_order.extremum [of "4 :: u32"] unfolding word_le_nat_alt by simp
  then have "pm_get_proc (- 1) = None" by (simp add: pm_get_proc_def pm_procs_all_def)
  with True show ?thesis using assms by (simp add: zynqmp_pwr_domain_on_def)
next
  case False
  from proc_of_core [OF False] obtain c where c: "c < 4" "plat_core_pos_by_mpidr mpidr = int c" by blast
  obtain p where p: "pm_get_proc (of_nat c) = Some p" using proc_exists [OF c(1)] by blast
  obtain st vs s1 where s1: "pm_get_node_status (node_id p) s = Some ((st, vs), s1)" "pm_ok False s1"
    using pml.runsD [OF runs_api(11) assms] by fastforce
  have r1: "only_reqs (on_request p e b) s s1" for e b by (rule rq.keepsD [OF reqs_node_status s1(1)])
  have idle: "pm_idle s" using assms by (simp add: pm_ok_def)
  show ?thesis
  proof (cases "st \<noteq> PM_RET_SUCCESS \<or> vs ! 0 = PM_PROC_STATE_SUSPENDING")
    case True
    then show ?thesis using s1 p c(2) False idle r1 [of "zynqmp_sec_entry s" False]
      by (auto simp: zynqmp_pwr_domain_on_def only_reqs_def since_def)
  next
    case ok: False
    have "\<not> pm_client_secure_lock s1" using s1(2) by (simp add: pm_ok_def)
    from client_wakeup_ok [OF c(1) this] obtain s2 where
      s2: "pm_client_wakeup (Some p) s1 = Some s2" "m_hw s2 = m_hw s1" "mach.more s2 = mach.more s1" by (auto simp: p)
    have ok2: "pm_ok False s2" using pm_ok_cong [OF s2(3,2)] s1(2) by simp
    from pml.runsD [OF runs_api(2) ok2] obtain r s3 where
      s3: "pm_req_wakeup (node_id p) 1 (zynqmp_sec_entry s2) REQ_ACK_BLOCKING s2 = Some (r, s3)" "pm_ok False s3" by blast
    have "mach.more s1 = mach.more s"
      using send_sync_apu [OF idle] s1(1) by (metis pm_get_node_status_def pm_req_def)
    then have "zynqmp_sec_entry s2 = zynqmp_sec_entry s" using psci_more_fields(10) [of s2 s] s2(3) by simp
    moreover have "only_reqs (on_request p (zynqmp_sec_entry s2) True) s s3"
      by (rule rq.R_trans [OF r1 rq.R_trans [OF only_client_wakeup [OF s2(1)] rq.keepsD [OF reqs_wakeup s3(1)]]])
    ultimately show ?thesis using s1(1) s2(1) s3 p c(2) False ok idle
      by (auto simp: zynqmp_pwr_domain_on_def only_reqs_def since_def)
  qed
qed

text \<open>A machine with the interconnect set up; \<open>hw\<close> is the response of the registers.\<close>

definition test_psci :: "(nat \<Rightarrow> addr \<Rightarrow> u32 \<Rightarrow> u32) \<Rightarrow> psci_mach" where
  "test_psci hw = cci_mach.extend (clk_mach.extend (test_clk\<lparr>m_hw := hw\<rparr>)
     \<lparr>cci_base = PLAT_ARM_CCI_BASE, cci_slave_if_map = [3, 4], max_master_id = 1, cci_num_slave_ports = 5\<rparr>)
     \<lparr>zynqmp_sec_entry = 0x1000\<rparr>"

lemmas test_psci_simps = test_psci_def cci_mach.defs clk_mach.defs test_clk_def svc_mach.defs test_svc_simps

theorem resume_disarms_heartbeat_witness:
  "\<exists>s'. zynqmp_pwr_domain_suspend_finish (\<lambda>_. PLAT_MAX_OFF_STATE)
      (test_psci (\<lambda>t a v. if a = gicd_at 4 then 5 else if a = 0xFD6E000C then 0 else v)) = Some s' \<and>
    map_option fst (plat_ic_get_interrupt_type 74 s') = Some INTR_TYPE_NS \<and> irq_group s' 191 \<and> \<not> irq_group s' 77"
proof -
  let ?s = "test_psci (\<lambda>t a v. if a = gicd_at 4 then 5 else if a = 0xFD6E000C then 0 else v)"
  have neq: "n < 4096 \<Longrightarrow> gicd_at n \<noteq> 0xFD6E000C" for n by (simp add: word_unat_eq_iff unat_gicd_at)
  have "gic_ready ?s" using neq by (auto simp: gic_ready_def gicd_plain_def plain_def test_psci_simps)
  moreover have "plat_my_core_pos ?s < 4" "\<not> pm_client_secure_lock ?s"
    by (simp_all add: test_psci_simps plat_my_core_pos_def zynqmp_calc_core_pos_def)
  moreover have "cci_ready ?s" using neq [of 4] by (auto simp: cci_ready_def test_psci_simps)
  moreover have "\<forall>t. 5 \<le> unat (m_hw ?s t (gicd_at 4) (m_regs ?s (gicd_at 4)) AND 0x1F)" by (simp add: test_psci_simps)
  ultimately obtain s' where s': "zynqmp_pwr_domain_suspend_finish (\<lambda>_. PLAT_MAX_OFF_STATE) ?s = Some s'"
    "\<forall>i. 32 \<le> unat i \<and> unat i < 1020 \<longrightarrow> unat i < 32 * Suc 5 \<longrightarrow> irq_group s' i = (i \<noteq> 77)"
    "map_option fst (plat_ic_get_interrupt_type 74 s') = Some INTR_TYPE_NS"
    using resume_disarms_heartbeat [of ?s 5 "\<lambda>_. PLAT_MAX_OFF_STATE"] by auto
  with s'(2) [rule_format, of 191] s'(2) [rule_format, of 77] show ?thesis by simp
qed

theorem core_on_safe_witness:
  "\<exists>r s'. zynqmp_pwr_domain_on 1 (test_psci (m_hw test_clk)) = Some (r, s') \<and> r \<in> {PSCI_E_SUCCESS, PSCI_E_INTERN_FAIL}"
proof -
  have "pm_ok False (test_psci (m_hw test_clk))"
    by (simp add: pm_ok_def pm_idle_def pmu_live_def test_psci_simps plat_my_core_pos_def zynqmp_calc_core_pos_def)
  from core_on_safe [OF this] show ?thesis by blast
qed

end
