(* ===== verification/BL31_Boot.thy ===== *)
theory BL31_Boot
  imports Plat_Psci
begin

text \<open>
  The early setup of the monitor: the parameters that the first stage boot loader hands over
  (\<open>plat/xilinx/common/plat_startup.c\<close>), the configuration of the platform
  (\<open>aarch64/zynqmp_common.c\<close>, \<open>generic_delay_timer.c\<close>) and the first part of \<open>bl31_zynqmp_setup.c\<close>,
  which decides where the secure and the normal world start.  \<open>None\<close> is a failing assertion or a panic.
\<close>

section \<open>Constants\<close>

abbreviation (input) FSBL_HANDOFF_SUCCESS :: u32 where "FSBL_HANDOFF_SUCCESS \<equiv> 0"
abbreviation (input) FSBL_HANDOFF_NO_STRUCT :: u32 where "FSBL_HANDOFF_NO_STRUCT \<equiv> 1"
abbreviation (input) FSBL_HANDOFF_INVAL_STRUCT :: u32 where "FSBL_HANDOFF_INVAL_STRUCT \<equiv> 2"
abbreviation (input) FSBL_HANDOFF_TOO_MANY_PARTS :: u32 where "FSBL_HANDOFF_TOO_MANY_PARTS \<equiv> 3"
abbreviation (input) FSBL_MAX_PARTITIONS :: u32 where "FSBL_MAX_PARTITIONS \<equiv> 8"
abbreviation (input) FSBL_FLAGS_A53_0 :: u64 where "FSBL_FLAGS_A53_0 \<equiv> 0"
abbreviation (input) FSBL_FLAGS_EL0 :: u64 where "FSBL_FLAGS_EL0 \<equiv> 0"
abbreviation (input) FSBL_FLAGS_EL2 :: u64 where "FSBL_FLAGS_EL2 \<equiv> 2"
abbreviation (input) FSBL_FLAGS_EL3 :: u64 where "FSBL_FLAGS_EL3 \<equiv> 3"
abbreviation (input) FSBL_FLAGS_SECURE :: u64 where "FSBL_FLAGS_SECURE \<equiv> 1"
abbreviation (input) FSBL_FLAGS_ESTATE_A32 :: u64 where "FSBL_FLAGS_ESTATE_A32 \<equiv> 1"
abbreviation (input) SPSR_E_LITTLE :: u32 where "SPSR_E_LITTLE \<equiv> 0"
abbreviation (input) SPSR_E_BIG :: u32 where "SPSR_E_BIG \<equiv> 1"
abbreviation (input) SPSR_T_ARM :: u32 where "SPSR_T_ARM \<equiv> 0"
abbreviation (input) MODE_SP_ELX :: u32 where "MODE_SP_ELX \<equiv> 1"
abbreviation (input) MODE_EL1 :: u32 where "MODE_EL1 \<equiv> 1"
abbreviation (input) MODE_EL2 :: u32 where "MODE_EL2 \<equiv> 2"
abbreviation (input) MODE32_svc :: u32 where "MODE32_svc \<equiv> 3"
abbreviation (input) MODE32_hyp :: u32 where "MODE32_hyp \<equiv> 0xA"
abbreviation (input) MODE32_sys :: u32 where "MODE32_sys \<equiv> 0xF"
abbreviation (input) DISABLE_ALL_EXCEPTIONS :: u32 where "DISABLE_ALL_EXCEPTIONS \<equiv> 0xF"
abbreviation (input) EP_EE_MASK :: u32 where "EP_EE_MASK \<equiv> 2"
abbreviation (input) EP_EE_LITTLE :: u32 where "EP_EE_LITTLE \<equiv> 0"
abbreviation (input) EP_EE_BIG :: u32 where "EP_EE_BIG \<equiv> 2"
abbreviation (input) BL31_BASE :: u64 where "BL31_BASE \<equiv> 0x1000"
abbreviation (input) BL32_BASE :: u64 where "BL32_BASE \<equiv> 0x60000000"
abbreviation (input) PLAT_ARM_NS_IMAGE_BASE :: u64 where "PLAT_ARM_NS_IMAGE_BASE \<equiv> 0x8000000"
abbreviation (input) ZYNQMP_CSU_VERSION :: addr where "ZYNQMP_CSU_VERSION \<equiv> 0xFFCA0044"
abbreviation (input) ZYNQMP_CSU_VERSION_QEMU :: u32 where "ZYNQMP_CSU_VERSION_QEMU \<equiv> 3"
abbreviation (input) IOU_SCNTRS_BASEFREQ :: addr where "IOU_SCNTRS_BASEFREQ \<equiv> 0xFF260020"
abbreviation (input) CRL_APB_BOOT_MODE_USER :: addr where "CRL_APB_BOOT_MODE_USER \<equiv> 0xFF5E0200"
abbreviation (input) ZYNQMP_BOOTMODE_JTAG :: u32 where "ZYNQMP_BOOTMODE_JTAG \<equiv> 0"
abbreviation (input) PMU_GLOBAL_GEN_STORAGE6 :: addr where "PMU_GLOBAL_GEN_STORAGE6 \<equiv> 0xFFD80048"
abbreviation (input) MHZ_TICKS_PER_SEC :: u32 where "MHZ_TICKS_PER_SEC \<equiv> 1000000"

section \<open>State\<close>

text \<open>An entry point without its arguments, which nothing here reads or writes.\<close>

record entry_point_info =
  h_type :: u8
  h_version :: u8
  h_size :: u16
  h_attr :: u32
  ep_pc :: u64
  ep_spsr :: u32

record xfsbl_partition =
  entry_point :: u64
  flags :: u64

text \<open>The array of eight partitions is indexed below eight only.\<close>

record xfsbl_atf_handoff_params =
  magic :: string
  num_entries :: u32
  partition :: "nat \<Rightarrow> xfsbl_partition"

text \<open>
  The static variables of these files, the counter frequency register, and two things that come from
  outside: the end of the monitor in memory, and the structure that lies at an address.
\<close>

record boot_mach = psci_mach +
  bl32_image_ep_info :: entry_point_info
  bl33_image_ep_info :: entry_point_info
  silicon_ver :: u32
  cntfrq_el0 :: u64
  clk_mult :: u32
  clk_div :: u32
  BL31_END :: u64
  handoff_at :: "u64 \<Rightarrow> xfsbl_atf_handoff_params"

section \<open>Handover (plat_startup.c)\<close>

definition get_fsbl_cpu :: "xfsbl_partition \<Rightarrow> u64" where
  "get_fsbl_cpu p = drop_bit 5 (flags p AND push_bit 5 3)"

definition get_fsbl_el :: "xfsbl_partition \<Rightarrow> u64" where
  "get_fsbl_el p = drop_bit 3 (flags p AND push_bit 3 3)"

definition get_fsbl_ss :: "xfsbl_partition \<Rightarrow> u64" where
  "get_fsbl_ss p = drop_bit 2 (flags p AND push_bit 2 1)"

definition get_fsbl_endian :: "xfsbl_partition \<Rightarrow> u32" where
  "get_fsbl_endian p = (if drop_bit 1 (flags p AND push_bit 1 1) = 1 then SPSR_E_BIG else SPSR_E_LITTLE)"

definition get_fsbl_estate :: "xfsbl_partition \<Rightarrow> u64" where
  "get_fsbl_estate p = flags p AND 1"

definition SPSR_64 :: "u32 \<Rightarrow> u32 \<Rightarrow> u32 \<Rightarrow> u32" where
  "SPSR_64 el sp daif = (push_bit 2 (el AND 3) OR (sp AND 1) OR push_bit 6 (daif AND 0xF)) AND NOT (push_bit 12 1)"

definition SPSR_MODE32 :: "u32 \<Rightarrow> u32 \<Rightarrow> u32 \<Rightarrow> u32 \<Rightarrow> u32" where
  "SPSR_MODE32 mode isa endian aif =
     (push_bit 4 1 OR (mode AND 0xF) OR push_bit 5 (isa AND 1) OR push_bit 9 (endian AND 1) OR push_bit 6 (aif AND 7))
       AND NOT (push_bit 23 1)"

text \<open>One round of the loop over the partitions.\<close>

definition handover_entry ::
  "xfsbl_partition \<Rightarrow> entry_point_info \<times> entry_point_info \<Rightarrow> entry_point_info \<times> entry_point_info" where
  "handover_entry p = (\<lambda>(bl32, bl33).
     let target_el = get_fsbl_el p; target_secure = get_fsbl_ss p;
         target_estate = get_fsbl_estate p; target_endianness = get_fsbl_endian p;
         ee = (if target_endianness = SPSR_E_BIG then EP_EE_BIG else EP_EE_LITTLE)
     in if get_fsbl_cpu p \<noteq> FSBL_FLAGS_A53_0 then (bl32, bl33)
        else if target_el = FSBL_FLAGS_EL3 \<or> target_el = FSBL_FLAGS_EL0 then (bl32, bl33)
        else if target_secure = FSBL_FLAGS_SECURE \<and> target_el = FSBL_FLAGS_EL2 then (bl32, bl33)
        else if target_secure = FSBL_FLAGS_SECURE then
          (bl32\<lparr>ep_spsr := (if target_estate = FSBL_FLAGS_ESTATE_A32
                            then SPSR_MODE32 MODE32_svc SPSR_T_ARM target_endianness DISABLE_ALL_EXCEPTIONS
                            else SPSR_64 MODE_EL1 MODE_SP_ELX DISABLE_ALL_EXCEPTIONS),
                ep_pc := entry_point p, h_attr := h_attr bl32 AND NOT EP_EE_MASK OR ee\<rparr>, bl33)
        else
          (bl32, bl33\<lparr>ep_spsr := (if target_estate = FSBL_FLAGS_ESTATE_A32
                            then SPSR_MODE32 (if target_el = FSBL_FLAGS_EL2 then MODE32_hyp else MODE32_sys)
                                   SPSR_T_ARM target_endianness DISABLE_ALL_EXCEPTIONS
                            else SPSR_64 (if target_el = FSBL_FLAGS_EL2 then MODE_EL2 else MODE_EL1)
                                   MODE_SP_ELX DISABLE_ALL_EXCEPTIONS),
                ep_pc := entry_point p, h_attr := h_attr bl33 AND NOT EP_EE_MASK OR ee\<rparr>))"

definition fsbl_atf_handover ::
  "u64 \<Rightarrow> 'a boot_mach_scheme \<Rightarrow> (u32 \<times> 'a boot_mach_scheme) option" where
  "fsbl_atf_handover atf_handoff_addr s = do {
     assert_C (atf_handoff_addr < BL31_BASE \<or> atf_handoff_addr > BL31_END s);
     if atf_handoff_addr = 0 then Some (FSBL_HANDOFF_NO_STRUCT, s)
     else
       let ATFHandoffParams = handoff_at s atf_handoff_addr
       in if magic ATFHandoffParams \<noteq> ''XLNX'' then Some (FSBL_HANDOFF_INVAL_STRUCT, s)
          else if num_entries ATFHandoffParams > FSBL_MAX_PARTITIONS then Some (FSBL_HANDOFF_TOO_MANY_PARTS, s)
          else
            let (bl32, bl33) = fold handover_entry (map (partition ATFHandoffParams) [0..<unat (num_entries ATFHandoffParams)])
                  (bl32_image_ep_info s, bl33_image_ep_info s)
            in Some (FSBL_HANDOFF_SUCCESS, s\<lparr>bl32_image_ep_info := bl32, bl33_image_ep_info := bl33\<rparr>)
   }"

section \<open>Configuration (zynqmp_common.c, generic_delay_timer.c)\<close>

definition zynqmp_get_silicon_ver :: "'a boot_mach_scheme \<Rightarrow> u32 \<times> 'a boot_mach_scheme" where
  "zynqmp_get_silicon_ver s =
     (if silicon_ver s = 0
      then let (ver, s) = mmio_read_32 ZYNQMP_CSU_VERSION s;
               ver = drop_bit 12 (ver AND 0xF000)
           in (ver, s\<lparr>silicon_ver := ver\<rparr>)
      else (silicon_ver s, s))"

definition zynqmp_get_uart_clk :: "'a boot_mach_scheme \<Rightarrow> u32 \<times> 'a boot_mach_scheme" where
  "zynqmp_get_uart_clk s =
     (let (ver, s) = zynqmp_get_silicon_ver s
      in (if ver = ZYNQMP_CSU_VERSION_QEMU then 133000000 else 100000000, s))"

definition plat_get_syscnt_freq2 :: "'a boot_mach_scheme \<Rightarrow> u32 \<times> 'a boot_mach_scheme" where
  "plat_get_syscnt_freq2 s =
     (let (ver, s) = zynqmp_get_silicon_ver s
      in if ver = ZYNQMP_CSU_VERSION_QEMU then (65000000, s) else mmio_read_32 IOU_SCNTRS_BASEFREQ s)"

text \<open>The names are only printed at the highest log level; what remains are the two version reads.\<close>

definition zynqmp_print_platform_name :: "'a boot_mach_scheme \<Rightarrow> 'a boot_mach_scheme" where
  "zynqmp_print_platform_name s = snd (mmio_read_32 ZYNQMP_CSU_VERSION (snd (zynqmp_get_silicon_ver s)))"

text \<open>\<open>while (mult % 10 == 0 && div % 10 == 0)\<close>; a multiplier of zero, which would loop, does not occur.\<close>

function reduce_ticks :: "u32 \<Rightarrow> u32 \<Rightarrow> u32 \<times> u32" where
  "reduce_ticks mult dv =
     (if mult \<noteq> 0 \<and> mult mod 10 = 0 \<and> dv mod 10 = 0 then reduce_ticks (mult div 10) (dv div 10) else (mult, dv))"
  by pat_completeness auto
termination
proof (relation "measure (\<lambda>(mult, _). unat mult)")
  fix mult dv :: u32
  assume "mult \<noteq> 0 \<and> mult mod 10 = 0 \<and> dv mod 10 = 0"
  then show "((mult div 10, dv div 10), mult, dv) \<in> measure (\<lambda>(mult, _). unat mult)"
    by (simp add: unat_div unat_gt_0)
qed simp

declare reduce_ticks.simps [simp del]

definition generic_delay_timer_init :: "'a boot_mach_scheme \<Rightarrow> 'a boot_mach_scheme option" where
  "generic_delay_timer_init s = do {
     let (dv, s) = plat_get_syscnt_freq2 s;
     let (mult, dv) = reduce_ticks MHZ_TICKS_PER_SEC dv;
     assert_C (mult \<noteq> 0 \<and> dv \<noteq> 0);
     Some (s\<lparr>clk_mult := mult, clk_div := dv\<rparr>)
   }"

definition zynqmp_config_setup :: "'a boot_mach_scheme \<Rightarrow> 'a boot_mach_scheme option" where
  "zynqmp_config_setup s =
     (let s = zynqmp_print_platform_name (zynqmp_ipi_config_table_init s);
          s = (if cntfrq_el0 s = 0
               then let (freq, s) = plat_get_syscnt_freq2 s in s\<lparr>cntfrq_el0 := ucast freq\<rparr>
               else s)
      in generic_delay_timer_init s)"

definition zynqmp_get_bootmode :: "'a boot_mach_scheme \<Rightarrow> (u32 \<times> 'a boot_mach_scheme) option" where
  "zynqmp_get_bootmode s = do {
     ((ret, vs), s) \<leftarrow> pm_mmio_read (ucast CRL_APB_BOOT_MODE_USER) s;
     let (r, s) = (if ret \<noteq> PM_RET_SUCCESS then mmio_read_32 CRL_APB_BOOT_MODE_USER s else (vs ! 0, s));
     Some (r AND 0xF, s)
   }"

section \<open>Early setup (bl31_zynqmp_setup.c)\<close>

definition bl31_plat_get_next_image_ep_info :: "u32 \<Rightarrow> 'a boot_mach_scheme \<Rightarrow> entry_point_info option" where
  "bl31_plat_get_next_image_ep_info type s = do {
     assert_C (type = SECURE \<or> type = NON_SECURE);
     Some (if type = NON_SECURE then bl33_image_ep_info s else bl32_image_ep_info s)
   }"

definition bl31_set_default_config :: "'a boot_mach_scheme \<Rightarrow> 'a boot_mach_scheme" where
  "bl31_set_default_config s =
     s\<lparr>bl32_image_ep_info := (bl32_image_ep_info s)\<lparr>ep_pc := BL32_BASE, ep_spsr := 0\<rparr>,
       bl33_image_ep_info := (bl33_image_ep_info s)\<lparr>ep_pc := PLAT_ARM_NS_IMAGE_BASE,
         ep_spsr := SPSR_64 MODE_EL2 MODE_SP_ELX DISABLE_ALL_EXCEPTIONS\<rparr>\<rparr>"

text \<open>\<open>SET_PARAM_HEAD(&image, PARAM_EP, VERSION_1, 0); SET_SECURITY_STATE(image.h.attr, state);\<close>\<close>

definition set_param_head :: "u32 \<Rightarrow> entry_point_info \<Rightarrow> entry_point_info" where
  "set_param_head security ep = ep\<lparr>h_type := 1, h_version := 1, h_size := 88, h_attr := 0 AND NOT 1 OR security\<rparr>"

text \<open>The setup up to the decision: the address that the boot loader left, and the boot mode.\<close>

definition early_inputs :: "u64 \<Rightarrow> u64 \<Rightarrow> 'a boot_mach_scheme \<Rightarrow> ((u64 \<times> u32) \<times> 'a boot_mach_scheme) option" where
  "early_inputs arg0 arg1 s = do {
     let (clk, s) = zynqmp_get_uart_clk s;
     let s = fw_call ''console_cdns_register'' [clk] s;
     s \<leftarrow> zynqmp_config_setup s;
     assert_C (arg0 = 0);
     assert_C (arg1 = 0);
     let s = s\<lparr>bl32_image_ep_info := set_param_head SECURE (bl32_image_ep_info s),
               bl33_image_ep_info := set_param_head NON_SECURE (bl33_image_ep_info s)\<rparr>;
     let (atf_handoff_addr, s) = mmio_read_32 PMU_GLOBAL_GEN_STORAGE6 s;
     (mode, s) \<leftarrow> zynqmp_get_bootmode s;
     Some ((ucast atf_handoff_addr, mode), s)
   }"

definition bl31_early_platform_setup2 :: "u64 \<Rightarrow> u64 \<Rightarrow> 'a boot_mach_scheme \<Rightarrow> 'a boot_mach_scheme option" where
  "bl31_early_platform_setup2 arg0 arg1 s = do {
     ((atf_handoff_addr, mode), s) \<leftarrow> early_inputs arg0 arg1 s;
     if mode = ZYNQMP_BOOTMODE_JTAG then Some (bl31_set_default_config s)
     else do {
       (ret, s) \<leftarrow> fsbl_atf_handover atf_handoff_addr s;
       if ret = FSBL_HANDOFF_NO_STRUCT then Some (bl31_set_default_config s)
       else if ret \<noteq> FSBL_HANDOFF_SUCCESS then None
       else Some s
     }
   }"

text \<open>The page tables are built by the generic translation table library.\<close>

definition bl31_plat_arch_setup :: "'a boot_mach_scheme \<Rightarrow> 'a boot_mach_scheme option" where
  "bl31_plat_arch_setup s = do {
     s \<leftarrow> plat_arm_interconnect_init s;
     s \<leftarrow> plat_arm_interconnect_enter_coherency s;
     Some (fw_call ''enable_mmu_el3'' [0] (fw_call ''setup_page_tables'' [] s))
   }"

section \<open>The handover as a choice of partitions\<close>

text \<open>
  A partition that the monitor accepts for the secure (normal) world, and how it fills an entry point.
  The reference: the last accepted partition of each world wins.
\<close>

definition accepted :: "bool \<Rightarrow> xfsbl_partition \<Rightarrow> bool" where
  "accepted secure p \<longleftrightarrow> get_fsbl_cpu p = 0 \<and> (get_fsbl_ss p = 1 \<longleftrightarrow> secure) \<and>
     get_fsbl_el p \<in> (if secure then {1} else {1, 2})"

definition load_image :: "bool \<Rightarrow> xfsbl_partition \<Rightarrow> entry_point_info \<Rightarrow> entry_point_info" where
  "load_image secure p ep = ep\<lparr>ep_spsr :=
       (if get_fsbl_estate p = FSBL_FLAGS_ESTATE_A32
        then SPSR_MODE32 (if secure then MODE32_svc else if get_fsbl_el p = 2 then MODE32_hyp else MODE32_sys)
               SPSR_T_ARM (get_fsbl_endian p) DISABLE_ALL_EXCEPTIONS
        else SPSR_64 (if secure then MODE_EL1 else if get_fsbl_el p = 2 then MODE_EL2 else MODE_EL1) MODE_SP_ELX DISABLE_ALL_EXCEPTIONS),
     ep_pc := entry_point p,
     h_attr := h_attr ep AND NOT EP_EE_MASK OR (if get_fsbl_endian p = SPSR_E_BIG then EP_EE_BIG else EP_EE_LITTLE)\<rparr>"

definition last_image :: "bool \<Rightarrow> xfsbl_partition list \<Rightarrow> entry_point_info \<Rightarrow> entry_point_info" where
  "last_image secure ps ep = (let qs = filter (accepted secure) ps in if qs = [] then ep else load_image secure (last qs) ep)"

lemma two_bits: "w AND 3 \<in> {0, 1, 2, 3}" for w :: u64
proof -
  have "w AND 3 \<le> 3" by (rule word_and_le1)
  then have "unat (w AND 3) \<le> 3" by (simp add: word_le_nat_alt)
  then have "unat (w AND 3) \<in> {0, 1, 2, 3}" by auto
  then show ?thesis by (simp add: word_unat_eq_iff)
qed

lemma el_cases: "get_fsbl_el p \<in> {0, 1, 2, 3}"
proof -
  have "get_fsbl_el p = drop_bit 3 (flags p) AND 3"
    by (rule bit_word_eqI) (auto simp: get_fsbl_el_def bit_simps)
  then show ?thesis using two_bits by simp
qed

lemma handover_entry_eq:
  "handover_entry p (bl32, bl33) =
    (if accepted True p then load_image True p bl32 else bl32, if accepted False p then load_image False p bl33 else bl33)"
  using el_cases [of p] by (auto simp: handover_entry_def accepted_def load_image_def Let_def)

lemma load_load: "load_image secure p (load_image secure q ep) = load_image secure p ep"
proof -
  have "(w AND - 3 OR 2) AND - 3 = w AND - 3" for w :: u32
    by (simp add: bit.conj_disj_distrib2 and.assoc)
  then show ?thesis by (simp add: load_image_def and.assoc)
qed

lemma handover_last:
  "fold handover_entry ps (bl32, bl33) = (last_image True ps bl32, last_image False ps bl33)"
proof (induction ps rule: rev_induct)
  case (snoc p ps)
  then show ?case by (simp add: handover_entry_eq last_image_def Let_def load_load)
qed (simp add: last_image_def)

section \<open>The configuration keeps the images\<close>

definition same_boot :: "'a boot_mach_scheme \<Rightarrow> 'a boot_mach_scheme \<Rightarrow> bool" where
  "same_boot s t \<longleftrightarrow> m_hw t = m_hw s \<and> m_regs t = m_regs s \<and> ipi_table t = ipi_table s \<and>
     pm_secure_lock t = pm_secure_lock s \<and>
     bl32_image_ep_info t = bl32_image_ep_info s \<and> bl33_image_ep_info t = bl33_image_ep_info s \<and>
     handoff_at t = handoff_at s \<and> BL31_END t = BL31_END s"

lemma same_boot_trans: "same_boot s t \<Longrightarrow> same_boot t u \<Longrightarrow> same_boot s u"
  by (simp add: same_boot_def)

lemma same_boot_read: "same_boot s (snd (mmio_read_32 a s))" "same_boot s (fw_call f as s)"
  by (simp_all add: same_boot_def) (simp_all add: mmio_read_32_def fw_call_def Let_def)

lemma same_boot_ver: "same_boot s (snd (zynqmp_get_silicon_ver s))"
  by (simp add: zynqmp_get_silicon_ver_def case_prod_unfold Let_def same_boot_def mmio_read_32_def)

lemma same_boot_freq: "same_boot s (snd (plat_get_syscnt_freq2 s))"
  using same_boot_ver [of s] same_boot_trans [OF same_boot_ver [of s] same_boot_read(1)]
  by (simp add: plat_get_syscnt_freq2_def case_prod_unfold Let_def)

lemma freq_nonzero:
  assumes "\<forall>t. m_hw s t IOU_SCNTRS_BASEFREQ (m_regs s IOU_SCNTRS_BASEFREQ) \<noteq> 0"
  shows "fst (plat_get_syscnt_freq2 s) \<noteq> 0"
  using assms same_boot_ver [of s] by (simp add: plat_get_syscnt_freq2_def case_prod_unfold Let_def same_boot_def)

lemma reduce_nonzero:
  assumes "mult \<noteq> 0" "dv \<noteq> 0"
  shows "fst (reduce_ticks mult dv) \<noteq> 0 \<and> snd (reduce_ticks mult dv) \<noteq> 0"
  using assms
proof (induction mult dv rule: reduce_ticks.induct)
  case (1 mult dv)
  show ?case
  proof (cases "mult mod 10 = 0 \<and> dv mod 10 = 0")
    case True
    then have "mult div 10 \<noteq> 0" "dv div 10 \<noteq> 0"
      using 1(2,3) div_mult_mod_eq [of mult 10] div_mult_mod_eq [of dv 10] by auto
    then show ?thesis using 1 True by (subst (1 2) reduce_ticks.simps) simp
  next
    case False
    then have "reduce_ticks mult dv = (mult, dv)" by (subst reduce_ticks.simps) auto
    then show ?thesis using 1(2,3) by simp
  qed
qed

lemma config_ok:
  fixes s :: "'a boot_mach_scheme"
  assumes "\<forall>t. m_hw s t IOU_SCNTRS_BASEFREQ (m_regs s IOU_SCNTRS_BASEFREQ) \<noteq> 0"
  obtains t where "zynqmp_config_setup s = Some t" "same_boot (zynqmp_ipi_config_table_init s) t"
proof -
  define s0 where "s0 = zynqmp_ipi_config_table_init s"
  define s1 where "s1 = zynqmp_print_platform_name s0"
  define s2 where "s2 = (if cntfrq_el0 s1 = 0 then let (freq, t) = plat_get_syscnt_freq2 s1 in t\<lparr>cntfrq_el0 := ucast freq\<rparr> else s1)"
  have b1: "same_boot s0 s1"
    unfolding s1_def zynqmp_print_platform_name_def by (rule same_boot_trans [OF same_boot_ver same_boot_read(1)])
  have "same_boot s1 s2"
    using same_boot_freq [of s1] by (simp add: s2_def case_prod_unfold Let_def) (simp add: same_boot_def)
  with b1 have b2: "same_boot s0 s2" by (rule same_boot_trans)
  have "fst (plat_get_syscnt_freq2 s2) \<noteq> 0"
    by (rule freq_nonzero)
      (use assms b2 in \<open>simp add: same_boot_def s0_def zynqmp_ipi_config_table_init_def ipi_config_table_init_def\<close>)
  from reduce_nonzero [OF _ this, of MHZ_TICKS_PER_SEC] obtain m d where
    md: "generic_delay_timer_init s2 = Some (snd (plat_get_syscnt_freq2 s2)\<lparr>clk_mult := m, clk_div := d\<rparr>)"
    by (simp add: generic_delay_timer_init_def case_prod_unfold Let_def)
  have "same_boot s0 (snd (plat_get_syscnt_freq2 s2)\<lparr>clk_mult := m, clk_div := d\<rparr>)"
    using same_boot_trans [OF b2 same_boot_freq] by (simp add: same_boot_def)
  moreover have "zynqmp_config_setup s = generic_delay_timer_init s2"
    unfolding zynqmp_config_setup_def Let_def s2_def s1_def s0_def ..
  ultimately show ?thesis using md by (intro that) (simp_all add: s0_def)
qed

text \<open>The inputs of the decision: both headers are set, and nothing else of the images has changed.\<close>

lemma boot_fields_more:
  fixes s t :: "'a boot_mach_scheme"
  assumes "mach.more t = mach.more s"
  shows "bl32_image_ep_info t = bl32_image_ep_info s" "bl33_image_ep_info t = bl33_image_ep_info s"
    "handoff_at t = handoff_at s" "BL31_END t = BL31_END s"
  using assms by (cases s, cases t, simp)+

lemma bootmode_ok:
  fixes s :: "'a boot_mach_scheme"
  assumes "pm_idle s" "pmu_live s"
  obtains mode t where "zynqmp_get_bootmode s = Some (mode, t)" "mach.more t = mach.more s"
proof -
  obtain st vs t where t: "pm_mmio_read (ucast CRL_APB_BOOT_MODE_USER) s = Some ((st, vs), t)"
    using send_sync_returns [OF assms(1)] pmu_live_takes [OF assms(2)]
    by (metis pm_mmio_read_def pm_req_def option.exhaust surj_pair)
  have "mach.more t = mach.more s"
    using send_sync_apu [OF assms(1)] t by (metis pm_mmio_read_def pm_req_def)
  then show ?thesis using t
    by (cases "st = PM_RET_SUCCESS") (auto simp: zynqmp_get_bootmode_def case_prod_unfold Let_def intro!: that)
qed

lemma inputs_ok:
  fixes s :: "'a boot_mach_scheme"
  assumes "\<not> pm_secure_lock s" "pmu_live s"
    and "\<forall>t. m_hw s t IOU_SCNTRS_BASEFREQ (m_regs s IOU_SCNTRS_BASEFREQ) \<noteq> 0"
  obtains a mode t where "early_inputs 0 0 s = Some ((a, mode), t)"
    "bl32_image_ep_info t = set_param_head SECURE (bl32_image_ep_info s)"
    "bl33_image_ep_info t = set_param_head NON_SECURE (bl33_image_ep_info s)"
    "handoff_at t = handoff_at s" "BL31_END t = BL31_END s"
proof -
  define s1 where "s1 = fw_call ''console_cdns_register'' [fst (zynqmp_get_uart_clk s)] (snd (zynqmp_get_uart_clk s))"
  have "snd (zynqmp_get_uart_clk s) = snd (zynqmp_get_silicon_ver s)"
    by (simp add: zynqmp_get_uart_clk_def case_prod_unfold Let_def)
  then have b1: "same_boot s s1" using same_boot_trans [OF same_boot_ver same_boot_read(2)] by (metis s1_def)
  have "\<forall>t. m_hw s1 t IOU_SCNTRS_BASEFREQ (m_regs s1 IOU_SCNTRS_BASEFREQ) \<noteq> 0" using assms(3) b1 by (simp add: same_boot_def)
  from config_ok [OF this] obtain s2 where
    s2: "zynqmp_config_setup s1 = Some s2" "same_boot (zynqmp_ipi_config_table_init s1) s2" by blast
  define s3 where "s3 = s2\<lparr>bl32_image_ep_info := set_param_head SECURE (bl32_image_ep_info s2),
     bl33_image_ep_info := set_param_head NON_SECURE (bl33_image_ep_info s2)\<rparr>"
  let ?r = "mmio_read_32 PMU_GLOBAL_GEN_STORAGE6 s3"
  have keep: "\<not> pm_secure_lock s3" "ipi_table s3 = zynqmp_ipi_table" "m_hw s3 = m_hw s"
    "bl32_image_ep_info s3 = set_param_head SECURE (bl32_image_ep_info s)"
    "bl33_image_ep_info s3 = set_param_head NON_SECURE (bl33_image_ep_info s)" "handoff_at s3 = handoff_at s" "BL31_END s3 = BL31_END s"
    using b1 s2(2) assms(1) by (simp_all add: s3_def same_boot_def zynqmp_ipi_config_table_init_def ipi_config_table_init_def)
  have "pm_idle (snd ?r)" "pmu_live (snd ?r)"
    using keep(1-3) assms(2) by (simp_all add: pm_idle_bus) (simp_all add: pm_idle_def pmu_live_def)
  then obtain mode t where t: "zynqmp_get_bootmode (snd ?r) = Some (mode, t)" "mach.more t = mach.more (snd ?r)"
    by (rule bootmode_ok)
  have "mach.more t = mach.more s3" using t(2) by simp
  note more = boot_fields_more [OF this]
  have "early_inputs 0 0 s = Some ((ucast (fst ?r), mode), t)"
    unfolding early_inputs_def using s2(1) t(1) by (simp add: case_prod_unfold Let_def flip: s1_def s3_def del: mmio_read_fst)
  then show ?thesis by (rule that) (simp_all add: more keep)
qed

section \<open>Property\<close>

text \<open>
  The program status with which a world is entered lies below the monitor and masks the interrupts:
  EL1 or EL2 in 64-bit state, one of the given modes in 32-bit state, which never include the monitor mode.
\<close>

definition below_monitor :: "u32 \<Rightarrow> bool" where
  "below_monitor w \<longleftrightarrow> w AND 0x1C0 = 0x1C0 \<and>
     (if bit w 4 then w AND 0xF \<in> {MODE32_svc, MODE32_hyp, MODE32_sys} else drop_bit 2 w AND 3 \<in> {1, 2})"

lemma load_below: "below_monitor (ep_spsr (load_image secure p ep))"
proof -
  have "get_fsbl_endian p = 0 \<or> get_fsbl_endian p = 1" by (simp add: get_fsbl_endian_def)
  then show ?thesis by (auto simp: load_image_def below_monitor_def SPSR_MODE32_def SPSR_64_def)
qed

lemma load_attr: "bit (h_attr (load_image secure p ep)) 0 = bit (h_attr ep) 0"
  by (simp add: load_image_def bit_simps)

lemma last_attr: "bit (h_attr (last_image secure ps ep)) 0 = bit (h_attr ep) 0"
  by (simp add: last_image_def Let_def load_attr)

lemma head_attr: "bit (h_attr (set_param_head NON_SECURE ep)) 0" "\<not> bit (h_attr (set_param_head SECURE ep)) 0"
  by (simp_all add: set_param_head_def SECURE_def NON_SECURE_def)

text \<open>
  C24.  Where the worlds start.  With a live power management firmware, its lock free and a counter that has
  a frequency, the early setup reads the boot mode and the address that the boot loader left.  It stops
  exactly when the boot is not over JTAG and the structure at that address lies in the monitor, has the wrong
  magic or more than eight partitions.  Otherwise the two images are the built-in ones (JTAG, or no
  structure), or each is the last partition of its world that is meant for the first core at a level below
  the monitor; the secure image stays marked secure and the normal one non-secure, and the normal image, when
  there is one, and every loaded secure image starts below the monitor with its interrupts masked.
\<close>

theorem boot_images:
  fixes s :: "'a boot_mach_scheme"
  assumes "\<not> pm_secure_lock s" "pmu_live s"
    and "\<forall>t. m_hw s t IOU_SCNTRS_BASEFREQ (m_regs s IOU_SCNTRS_BASEFREQ) \<noteq> 0"
  shows "\<exists>a mode t. early_inputs 0 0 s = Some ((a, mode), t) \<and>
    (let h = handoff_at s a; ps = map (partition h) [0..<unat (num_entries h)]; jtag = (mode = ZYNQMP_BOOTMODE_JTAG);
         bl32 = set_param_head SECURE (bl32_image_ep_info s); bl33 = set_param_head NON_SECURE (bl33_image_ep_info s)
     in if \<not> jtag \<and> (BL31_BASE \<le> a \<and> a \<le> BL31_END s \<or> a \<noteq> 0 \<and> (magic h \<noteq> ''XLNX'' \<or> num_entries h > FSBL_MAX_PARTITIONS))
        then bl31_early_platform_setup2 0 0 s = None
        else \<exists>s'. bl31_early_platform_setup2 0 0 s = Some s' \<and>
          bl32_image_ep_info s' = (if jtag \<or> a = 0 then bl32\<lparr>ep_pc := BL32_BASE, ep_spsr := 0\<rparr> else last_image True ps bl32) \<and>
          bl33_image_ep_info s' = (if jtag \<or> a = 0
            then bl33\<lparr>ep_pc := PLAT_ARM_NS_IMAGE_BASE, ep_spsr := SPSR_64 MODE_EL2 MODE_SP_ELX DISABLE_ALL_EXCEPTIONS\<rparr>
            else last_image False ps bl33) \<and>
          \<not> bit (h_attr (bl32_image_ep_info s')) 0 \<and> bit (h_attr (bl33_image_ep_info s')) 0 \<and>
          (jtag \<or> a = 0 \<or> list_ex (accepted False) ps \<longrightarrow> below_monitor (ep_spsr (bl33_image_ep_info s'))) \<and>
          (\<not> jtag \<and> a \<noteq> 0 \<and> list_ex (accepted True) ps \<longrightarrow> below_monitor (ep_spsr (bl32_image_ep_info s'))))"
proof -
  obtain a mode t where t: "early_inputs 0 0 s = Some ((a, mode), t)"
    "bl32_image_ep_info t = set_param_head SECURE (bl32_image_ep_info s)"
    "bl33_image_ep_info t = set_param_head NON_SECURE (bl33_image_ep_info s)"
    "handoff_at t = handoff_at s" "BL31_END t = BL31_END s"
    by (rule inputs_ok [OF assms])
  have last: "list_ex (accepted secure) ps \<Longrightarrow> below_monitor (ep_spsr (last_image secure ps ep))" for secure ps ep
    by (auto simp: last_image_def Let_def list_ex_iff filter_empty_conv load_below)
  have dflt: "below_monitor (SPSR_64 MODE_EL2 MODE_SP_ELX DISABLE_ALL_EXCEPTIONS)"
    by (simp add: below_monitor_def SPSR_64_def)
  show ?thesis
    by (intro exI [of _ a] exI [of _ mode] exI [of _ t] conjI t(1))
      (auto simp: bl31_early_platform_setup2_def t fsbl_atf_handover_def bl31_set_default_config_def handover_last
        last_attr head_attr last dflt assert_C_def Let_def not_le)
qed

text \<open>A machine whose counter runs at 100 MHz; the boot loader left a structure with one partition, at EL2,
  and the monitor ends at its base.\<close>

definition test_boot :: boot_mach where
  "test_boot = psci_mach.extend (test_psci (\<lambda>t a v. if a = IOU_SCNTRS_BASEFREQ then 100000000 else if a = PMU_GLOBAL_GEN_STORAGE6 then 0x100000
       else if a = 0xFF300004 then 0 else 1))
     \<lparr>bl32_image_ep_info = \<lparr>h_type = 0, h_version = 0, h_size = 0, h_attr = 0, ep_pc = 0, ep_spsr = 0\<rparr>,
      bl33_image_ep_info = \<lparr>h_type = 0, h_version = 0, h_size = 0, h_attr = 0, ep_pc = 0, ep_spsr = 0\<rparr>,
      silicon_ver = 0, cntfrq_el0 = 0, clk_mult = 0, clk_div = 0, BL31_END = 0xFFF,
      handoff_at = (\<lambda>_. \<lparr>magic = ''XLNX'', num_entries = 1, partition = (\<lambda>_. \<lparr>entry_point = 0x8000000, flags = 0x10\<rparr>)\<rparr>)\<rparr>"

theorem boot_images_witness:
  "\<exists>a mode t s'. early_inputs 0 0 test_boot = Some ((a, mode), t) \<and> bl31_early_platform_setup2 0 0 test_boot = Some s' \<and>
    bit (h_attr (bl33_image_ep_info s')) 0"
proof -
  have "\<not> pm_secure_lock test_boot" "pmu_live test_boot"
    "\<forall>t. m_hw test_boot t IOU_SCNTRS_BASEFREQ (m_regs test_boot IOU_SCNTRS_BASEFREQ) \<noteq> 0"
    by (simp_all add: test_boot_def psci_mach.defs test_psci_simps pmu_live_def)
  note boot_images [OF this]
  moreover have "magic (handoff_at test_boot a) = ''XLNX''" "num_entries (handoff_at test_boot a) = 1"
    "\<not> (BL31_BASE \<le> a \<and> a \<le> BL31_END test_boot)" for a
    by (auto simp: test_boot_def psci_mach.defs word_le_nat_alt)
  ultimately show ?thesis unfolding Let_def by auto
qed

end
