(* ===== verification/CSUDMA.thy ===== *)
theory CSUDMA
  imports Prelude
begin

text \<open>
  The secure operating system's side of partial reconfiguration starts here: the state of the
  OP-TEE core that its CSU drivers use, the timeout loops of \<open>kernel/delay.h\<close>, and the CSU DMA
  driver \<open>core/drivers/zynqmp_csudma.c\<close>.

  The mappings of the memory management unit (\<open>core_mmu_get_va\<close>, \<open>virt_to_phys\<close>) and the
  counter-timer are parameters carried by the state: \<open>tee_va\<close> gives the virtual address of a
  device (0 where it is not mapped), \<open>tee_pa\<close> the physical address of a buffer, and
  \<open>tee_late t us t'\<close> says whether a timeout of \<open>us\<close> microseconds taken at tick \<open>t\<close> has elapsed at
  tick \<open>t'\<close>.  RAM is the byte array \<open>tee_mem\<close>.

  The lemmas show what a call adds to the bus trace: which windows it writes (\<open>touches\<close>) and
  which transfers it starts on the source channel (\<open>dma_sends\<close>), which register it does not read
  (\<open>skips\<close>), and that an accepted transfer succeeds on a DMA that is in time (\<open>dma_prompt\<close>).
\<close>

section \<open>The state of the CSU drivers\<close>

record tee_mach = mach +
  tee_va :: "addr \<Rightarrow> addr"
  tee_pa :: "addr \<Rightarrow> addr"
  tee_late :: "nat \<Rightarrow> u32 \<Rightarrow> nat \<Rightarrow> bool"
  tee_mem :: "addr \<Rightarrow> u8"
  iv_arr :: addr
  pcap :: addr
  csu :: addr
  aes :: addr
  crl_apb :: addr
  bs_iv :: addr

lemma tee_fields [bus_simps]:
  "tee_va (snd (mmio_read_32 a s)) = tee_va s" "tee_va (mmio_write_32 a v s) = tee_va s" "tee_va (fw_call f as s) = tee_va s"
  "tee_pa (snd (mmio_read_32 a s)) = tee_pa s" "tee_pa (mmio_write_32 a v s) = tee_pa s" "tee_pa (fw_call f as s) = tee_pa s"
  "tee_late (snd (mmio_read_32 a s)) = tee_late s" "tee_late (mmio_write_32 a v s) = tee_late s" "tee_late (fw_call f as s) = tee_late s"
  "tee_mem (snd (mmio_read_32 a s)) = tee_mem s" "tee_mem (mmio_write_32 a v s) = tee_mem s" "tee_mem (fw_call f as s) = tee_mem s"
  "iv_arr (snd (mmio_read_32 a s)) = iv_arr s" "iv_arr (mmio_write_32 a v s) = iv_arr s" "iv_arr (fw_call f as s) = iv_arr s"
  "pcap (snd (mmio_read_32 a s)) = pcap s" "pcap (mmio_write_32 a v s) = pcap s" "pcap (fw_call f as s) = pcap s"
  "csu (snd (mmio_read_32 a s)) = csu s" "csu (mmio_write_32 a v s) = csu s" "csu (fw_call f as s) = csu s"
  "aes (snd (mmio_read_32 a s)) = aes s" "aes (mmio_write_32 a v s) = aes s" "aes (fw_call f as s) = aes s"
  "crl_apb (snd (mmio_read_32 a s)) = crl_apb s" "crl_apb (mmio_write_32 a v s) = crl_apb s" "crl_apb (fw_call f as s) = crl_apb s"
  "bs_iv (snd (mmio_read_32 a s)) = bs_iv s" "bs_iv (mmio_write_32 a v s) = bs_iv s" "bs_iv (fw_call f as s) = bs_iv s"
  by (simp_all add: mmio_read_32_def mmio_write_32_def fw_call_def Let_def)

declare tee_fields [simp]

abbreviation (input) TEE_SUCCESS :: u32 where "TEE_SUCCESS \<equiv> 0"
abbreviation (input) TEE_ERROR_GENERIC :: u32 where "TEE_ERROR_GENERIC \<equiv> 0xFFFF0000"
abbreviation (input) TEE_ERROR_BAD_FORMAT :: u32 where "TEE_ERROR_BAD_FORMAT \<equiv> 0xFFFF0005"
abbreviation (input) TEE_ERROR_BAD_PARAMETERS :: u32 where "TEE_ERROR_BAD_PARAMETERS \<equiv> 0xFFFF0006"
abbreviation (input) TEE_ERROR_BAD_STATE :: u32 where "TEE_ERROR_BAD_STATE \<equiv> 0xFFFF0007"
abbreviation (input) TEE_ERROR_BUSY :: u32 where "TEE_ERROR_BUSY \<equiv> 0xFFFF000D"

abbreviation (input) CSUDMA_BASE :: addr where "CSUDMA_BASE \<equiv> 0xFFC80000"
abbreviation (input) CSU_BASE :: addr where "CSU_BASE \<equiv> 0xFFCA0000"
abbreviation (input) ZYNQMP_CSU_AES_BASE :: addr where "ZYNQMP_CSU_AES_BASE \<equiv> 0xFFCA1000"
abbreviation (input) ZYNQMP_CSU_PCAP_BASE :: addr where "ZYNQMP_CSU_PCAP_BASE \<equiv> 0xFFCA3000"
abbreviation (input) CRL_APB_BASE :: addr where "CRL_APB_BASE \<equiv> 0xFF5E0000"

text \<open>The timeouts of \<open>kernel/delay.h\<close>: a reference point and a test against the counter.\<close>

definition timeout_init_us :: "u32 \<Rightarrow> 'a tee_mach_scheme \<Rightarrow> nat \<times> u32" where
  "timeout_init_us us s = (m_now s, us)"

definition timeout_elapsed :: "nat \<times> u32 \<Rightarrow> 'a tee_mach_scheme \<Rightarrow> bool" where
  "timeout_elapsed tref s = tee_late s (fst tref) (snd tref) (m_now s)"

text \<open>
  \<open>while (!timeout_elapsed(tref)) { status = io_read32(a); if (stop(status)) ...; }\<close>: the value
  that ended the loop, or nothing when the timeout ended it.  A counter that never advances
  makes the loop endless (\<open>None\<close>).
\<close>

partial_function (option) poll_until ::
  "addr \<Rightarrow> (u32 \<Rightarrow> bool) \<Rightarrow> nat \<times> u32 \<Rightarrow> 'a tee_mach_scheme \<Rightarrow> (u32 option \<times> 'a tee_mach_scheme) option" where
  "poll_until a stop tref s =
     (if timeout_elapsed tref s then Some (None, s)
      else let r = mmio_read_32 a s
           in if stop (fst r) then Some (Some (fst r), snd r) else poll_until a stop tref (snd r))"

declare poll_until.simps [code]

text \<open>The counter advances: every timeout elapses at some later tick.\<close>

definition timer_runs :: "'a tee_mach_scheme \<Rightarrow> bool" where
  "timer_runs s \<longleftrightarrow> (\<forall>t us t0. \<exists>t'\<ge>t. tee_late s t0 us t')"

section \<open>The CSU DMA driver\<close>

datatype zynqmp_csudma_channel = ZYNQMP_CSUDMA_SRC_CHANNEL | ZYNQMP_CSUDMA_DST_CHANNEL

abbreviation (input) CSUDMA_ADDR_OFFSET :: addr where "CSUDMA_ADDR_OFFSET \<equiv> 0x00"
abbreviation (input) CSUDMA_SIZE_OFFSET :: addr where "CSUDMA_SIZE_OFFSET \<equiv> 0x04"
abbreviation (input) CSUDMA_CTRL_OFFSET :: addr where "CSUDMA_CTRL_OFFSET \<equiv> 0x0C"
abbreviation (input) CSUDMA_CRC_OFFSET :: addr where "CSUDMA_CRC_OFFSET \<equiv> 0x10"
abbreviation (input) CSUDMA_I_STS_OFFSET :: addr where "CSUDMA_I_STS_OFFSET \<equiv> 0x14"
abbreviation (input) CSUDMA_ADDR_MSB_OFFSET :: addr where "CSUDMA_ADDR_MSB_OFFSET \<equiv> 0x28"
abbreviation (input) CSUDMA_OFFSET_DIFF :: addr where "CSUDMA_OFFSET_DIFF \<equiv> 0x0800"
abbreviation (input) CSUDMA_ADDR_MASK :: addr where "CSUDMA_ADDR_MASK \<equiv> 0xFFFFFFFC"
abbreviation (input) CSUDMA_CTRL_ENDIAN_MASK :: u32 where "CSUDMA_CTRL_ENDIAN_MASK \<equiv> 0x800000"
abbreviation (input) CSUDMA_IXR_DONE_MASK :: u32 where "CSUDMA_IXR_DONE_MASK \<equiv> 2"
abbreviation (input) CSUDMA_IXR_SRC_MASK :: u32 where "CSUDMA_IXR_SRC_MASK \<equiv> 0x7F"
abbreviation (input) CSUDMA_IXR_DST_MASK :: u32 where "CSUDMA_IXR_DST_MASK \<equiv> 0xFE"
abbreviation (input) CSUDMA_DONE_TIMEOUT_USEC :: u32 where "CSUDMA_DONE_TIMEOUT_USEC \<equiv> 3000000"
abbreviation (input) DCACHE_AREA_CLEAN :: u32 where "DCACHE_AREA_CLEAN \<equiv> 1"
abbreviation (input) DCACHE_AREA_INVALIDATE :: u32 where "DCACHE_AREA_INVALIDATE \<equiv> 3"

definition csudma_clear_intr :: "zynqmp_csudma_channel \<Rightarrow> u32 \<Rightarrow> 'a tee_mach_scheme \<Rightarrow> 'a tee_mach_scheme" where
  "csudma_clear_intr channel msk s =
     (let dma = tee_va s CSUDMA_BASE;
          (dma, val) = (if channel = ZYNQMP_CSUDMA_DST_CHANNEL
                        then (dma + CSUDMA_OFFSET_DIFF, CSUDMA_IXR_DST_MASK)
                        else (dma, CSUDMA_IXR_SRC_MASK))
      in mmio_write_32 (dma + CSUDMA_I_STS_OFFSET) (val AND msk) s)"

definition zynqmp_csudma_sync ::
  "zynqmp_csudma_channel \<Rightarrow> 'a tee_mach_scheme \<Rightarrow> (u32 \<times> 'a tee_mach_scheme) option" where
  "zynqmp_csudma_sync channel s =
     (let dma = tee_va s CSUDMA_BASE; tref = timeout_init_us CSUDMA_DONE_TIMEOUT_USEC s
      in if dma = 0 then Some (TEE_ERROR_GENERIC, s)
         else let dma = (if channel = ZYNQMP_CSUDMA_DST_CHANNEL then dma + CSUDMA_OFFSET_DIFF else dma)
         in do {
           (status, s) \<leftarrow> poll_until (dma + CSUDMA_I_STS_OFFSET)
                            (\<lambda>status. status AND CSUDMA_IXR_DONE_MASK = CSUDMA_IXR_DONE_MASK) tref s;
           case status of
             None \<Rightarrow> Some (TEE_ERROR_GENERIC, s)
           | Some _ \<Rightarrow>
               let (crc, s) = mmio_read_32 (dma + CSUDMA_CRC_OFFSET) s
               in Some (TEE_SUCCESS, csudma_clear_intr channel CSUDMA_IXR_DONE_MASK s)
         })"

definition zynqmp_csudma_prepare ::
  "zynqmp_csudma_channel \<Rightarrow> 'a tee_mach_scheme \<Rightarrow> u32 \<times> 'a tee_mach_scheme" where
  "zynqmp_csudma_prepare channel s =
     (let dma = tee_va s CSUDMA_BASE
      in if dma = 0 then (TEE_ERROR_GENERIC, s)
         else let dma = (if channel = ZYNQMP_CSUDMA_DST_CHANNEL then dma + CSUDMA_OFFSET_DIFF else dma)
         in (TEE_SUCCESS, mmio_setbits_32 (dma + CSUDMA_CTRL_OFFSET) CSUDMA_CTRL_ENDIAN_MASK s))"

definition zynqmp_csudma_unprepare ::
  "zynqmp_csudma_channel \<Rightarrow> 'a tee_mach_scheme \<Rightarrow> u32 \<times> 'a tee_mach_scheme" where
  "zynqmp_csudma_unprepare channel s =
     (let dma = tee_va s CSUDMA_BASE
      in if dma = 0 then (TEE_ERROR_GENERIC, s)
         else let dma = (if channel = ZYNQMP_CSUDMA_DST_CHANNEL then dma + CSUDMA_OFFSET_DIFF else dma)
         in (TEE_SUCCESS, mmio_clrbits_32 (dma + CSUDMA_CTRL_OFFSET) CSUDMA_CTRL_ENDIAN_MASK s))"

text \<open>
  The cache maintenance calls are recorded with the operation, the two halves of the address
  and the length.
\<close>

definition cache_op :: "string \<Rightarrow> u32 \<Rightarrow> addr \<Rightarrow> u64 \<Rightarrow> 'a tee_mach_scheme \<Rightarrow> 'a tee_mach_scheme" where
  "cache_op f c a len s = fw_call f [c, ucast a, ucast (drop_bit 32 a), ucast len] s"

definition zynqmp_csudma_transfer ::
  "zynqmp_csudma_channel \<Rightarrow> addr \<Rightarrow> u64 \<Rightarrow> u8 \<Rightarrow> 'a tee_mach_scheme \<Rightarrow> u32 \<times> 'a tee_mach_scheme" where
  "zynqmp_csudma_transfer channel addr len notify s =
     (let dma = tee_va s CSUDMA_BASE; phys = tee_pa s addr
      in if dma = 0 then (TEE_ERROR_GENERIC, s)
         else if len mod 4 \<noteq> 0 then (TEE_ERROR_BAD_PARAMETERS, s)
         else if phys AND 7 \<noteq> 0 then (TEE_ERROR_BAD_PARAMETERS, s)
         else
           let (dma, s) =
                 (if channel = ZYNQMP_CSUDMA_DST_CHANNEL
                  then (dma + CSUDMA_OFFSET_DIFF,
                        cache_op ''cache_op_outer'' DCACHE_AREA_INVALIDATE phys len
                          (cache_op ''cache_op_inner'' DCACHE_AREA_INVALIDATE addr len s))
                  else (dma,
                        cache_op ''cache_op_outer'' DCACHE_AREA_CLEAN phys len
                          (cache_op ''cache_op_inner'' DCACHE_AREA_CLEAN addr len s)));
               s = mmio_write_32 (dma + CSUDMA_CRC_OFFSET) 0 s;
               s = mmio_write_32 (dma + CSUDMA_ADDR_OFFSET) (ucast (phys AND CSUDMA_ADDR_MASK)) s;
               s = mmio_write_32 (dma + CSUDMA_ADDR_MSB_OFFSET) (ucast (drop_bit 32 phys)) s;
               s = mmio_write_32 (dma + CSUDMA_SIZE_OFFSET) (ucast (len OR ucast notify)) s
           in (TEE_SUCCESS, s))"

section \<open>What a call adds to the trace\<close>

text \<open>The address lies in the window of \<open>n\<close> bytes at which a device is mapped.\<close>

definition win :: "addr \<Rightarrow> addr \<Rightarrow> addr set" where
  "win b n = {a. a - b < n}"

definition wr_in :: "addr set \<Rightarrow> ioev list \<Rightarrow> bool" where
  "wr_in W es \<longleftrightarrow> (\<forall>e \<in> set es. case e of WR a v \<Rightarrow> a \<in> W | WR8 a v \<Rightarrow> False | _ \<Rightarrow> True)"

text \<open>The mappings, the counter and the driver's device pointers are as before.\<close>

definition same_env :: "'a tee_mach_scheme \<Rightarrow> 'a tee_mach_scheme \<Rightarrow> bool" where
  "same_env s s' \<longleftrightarrow> m_hw s' = m_hw s \<and> tee_va s' = tee_va s \<and> tee_pa s' = tee_pa s \<and>
     tee_late s' = tee_late s \<and> iv_arr s' = iv_arr s \<and> pcap s' = pcap s \<and> csu s' = csu s \<and>
     aes s' = aes s \<and> crl_apb s' = crl_apb s"

definition touches :: "addr set \<Rightarrow> 'a tee_mach_scheme \<Rightarrow> 'a tee_mach_scheme \<Rightarrow> bool" where
  "touches W s s' \<longleftrightarrow> same_env s s' \<and> (\<exists>es. m_evs s' = m_evs s @ es \<and> wr_in W es)"

text \<open>
  The transfers a trace starts on the channel at \<open>d\<close>: the DMA latches the address registers
  when \<open>SIZE\<close> is written.  Each is the address, the length and the last-word flag of \<open>SIZE\<close>.
\<close>

fun dma_reqs :: "addr \<Rightarrow> u32 \<Rightarrow> u32 \<Rightarrow> ioev list \<Rightarrow> (addr \<times> u32 \<times> bool) list" where
  "dma_reqs d lo hi [] = []"
| "dma_reqs d lo hi (WR a v # es) =
     (if a = d + 0x04 then (push_bit 32 (ucast hi) OR ucast lo, v AND NOT 3, bit v 0) # dma_reqs d lo hi es
      else if a = d then dma_reqs d v hi es
      else if a = d + 0x28 then dma_reqs d lo v es
      else dma_reqs d lo hi es)"
| "dma_reqs d lo hi (_ # es) = dma_reqs d lo hi es"

definition dma_sends :: "addr \<Rightarrow> (addr \<times> u32 \<times> bool) list \<Rightarrow> 'a mach_scheme \<Rightarrow> 'a mach_scheme \<Rightarrow> bool" where
  "dma_sends d rs s s' \<longleftrightarrow> (\<exists>es. m_evs s' = m_evs s @ es \<and>
     (\<forall>lo hi fs. \<exists>lo' hi'. dma_reqs d lo hi (es @ fs) = rs @ dma_reqs d lo' hi' fs))"

lemma wr_in_simps [simp]:
  "wr_in W []" "wr_in W (es @ fs) \<longleftrightarrow> wr_in W es \<and> wr_in W fs"
  "wr_in W (RD a v # es) \<longleftrightarrow> wr_in W es" "wr_in W (CALL f as # es) \<longleftrightarrow> wr_in W es"
  "wr_in W (WR a v # es) \<longleftrightarrow> a \<in> W \<and> wr_in W es"
  "wr_in W (RD8 a w # es) \<longleftrightarrow> wr_in W es" "\<not> wr_in W (WR8 a w # es)"
  by (auto simp: wr_in_def)

lemma wr_in_mono: "wr_in V es \<Longrightarrow> V \<subseteq> W \<Longrightarrow> wr_in W es"
  unfolding wr_in_def by (fastforce split: ioev.splits)

lemma same_env_refl [simp]: "same_env s s"
  by (simp add: same_env_def)

lemma same_env_trans: "same_env s t \<Longrightarrow> same_env t u \<Longrightarrow> same_env s u"
  by (simp add: same_env_def)

lemma touches_refl: "touches W s s"
  by (auto simp: touches_def)

lemma touches_trans:
  assumes "touches W s t" and "touches W t u"
  shows "touches W s u"
proof -
  from assms obtain es fs where "m_evs t = m_evs s @ es" "wr_in W es" "m_evs u = m_evs t @ fs" "wr_in W fs"
    unfolding touches_def by blast
  then have "m_evs u = m_evs s @ (es @ fs) \<and> wr_in W (es @ fs)" by simp
  with assms show ?thesis unfolding touches_def by (blast intro: same_env_trans)
qed

interpretation tch: step_logic "touches W" for W :: "addr set"
  by unfold_locales (rule touches_refl, rule touches_trans)

lemma touches_mono: "touches V s s' \<Longrightarrow> V \<subseteq> W \<Longrightarrow> touches W s s'"
  unfolding touches_def by (blast intro: wr_in_mono)

lemma touches_env: "touches W s s' \<Longrightarrow> same_env s s'"
  by (simp add: touches_def)

named_theorems tch_intros \<open>what the calls of the CSU drivers write\<close>

lemma touches_read [tch_intros]: "touches W s (snd (mmio_read_32 a s))"
  by (auto simp: touches_def same_env_def)

lemma touches_call [tch_intros]: "touches W s (fw_call f as s)"
  by (auto simp: touches_def same_env_def)

lemma touches_write [tch_intros]: "a \<in> W \<Longrightarrow> touches W s (mmio_write_32 a v s)"
  by (auto simp: touches_def same_env_def)

lemma touches_setbits [tch_intros]:
  "a \<in> W \<Longrightarrow> touches W s (mmio_setbits_32 a v s)" "a \<in> W \<Longrightarrow> touches W s (mmio_clrbits_32 a v s)"
  by (auto simp: mmio_setbits_32_def mmio_clrbits_32_def case_prod_unfold touches_def same_env_def)

lemma dma_sends_refl: "dma_sends d [] s s"
  by (auto simp: dma_sends_def)

lemma dma_sends_trans:
  assumes "dma_sends d rs s t" and "dma_sends d qs t u"
  shows "dma_sends d (rs @ qs) s u"
proof -
  obtain es where es: "m_evs t = m_evs s @ es"
    "\<And>lo hi fs. \<exists>lo' hi'. dma_reqs d lo hi (es @ fs) = rs @ dma_reqs d lo' hi' fs"
    using assms(1) unfolding dma_sends_def by blast
  obtain gs where gs: "m_evs u = m_evs t @ gs"
    "\<And>lo hi fs. \<exists>lo' hi'. dma_reqs d lo hi (gs @ fs) = qs @ dma_reqs d lo' hi' fs"
    using assms(2) unfolding dma_sends_def by blast
  have "\<exists>lo' hi'. dma_reqs d lo hi ((es @ gs) @ fs) = (rs @ qs) @ dma_reqs d lo' hi' fs" for lo hi fs
  proof -
    obtain lo1 hi1 where 1: "dma_reqs d lo hi (es @ (gs @ fs)) = rs @ dma_reqs d lo1 hi1 (gs @ fs)"
      using es(2) by blast
    obtain lo2 hi2 where "dma_reqs d lo1 hi1 (gs @ fs) = qs @ dma_reqs d lo2 hi2 fs" using gs(2) by blast
    with 1 show ?thesis by auto
  qed
  then show ?thesis using es(1) gs(1) unfolding dma_sends_def by (intro exI [of _ "es @ gs"]) simp
qed

lemma dma_sends_reqs: "dma_sends d rs s s' \<Longrightarrow> dma_reqs d lo hi (since s s') = rs"
  unfolding dma_sends_def since_def by (metis append_Nil2 append_eq_conv_conj dma_reqs.simps(1))

text \<open>A call that leaves the three registers of the channel alone starts no transfer.\<close>

lemma dma_reqs_quiet:
  assumes "wr_in W es" and "d \<notin> W" "d + 0x04 \<notin> W" "d + 0x28 \<notin> W"
  shows "dma_reqs d lo hi (es @ fs) = dma_reqs d lo hi fs"
  using assms by (induction d lo hi es rule: dma_reqs.induct) auto

lemma dma_sends_quiet:
  "touches W s s' \<Longrightarrow> d \<notin> W \<Longrightarrow> d + 0x04 \<notin> W \<Longrightarrow> d + 0x28 \<notin> W \<Longrightarrow> dma_sends d [] s s'"
  unfolding touches_def dma_sends_def by (metis append_Nil dma_reqs_quiet)

section \<open>What the driver's calls do\<close>

text \<open>
  A timeout loop only reads its register; it ends at the timeout or with the value it last
  read, which satisfies the test.
\<close>

definition polled :: "addr \<Rightarrow> (u32 \<Rightarrow> bool) \<Rightarrow> 'a tee_mach_scheme \<Rightarrow> u32 option \<times> 'a tee_mach_scheme \<Rightarrow> bool" where
  "polled a stop s r \<longleftrightarrow> (\<exists>n. snd r = after_reads (mmio_read_32 a) n s \<and>
     (\<forall>v. fst r = Some v \<longrightarrow> stop v \<and> (\<exists>es. m_evs (snd r) = m_evs s @ es @ [RD a v])))"

lemma polled_step: "polled a stop (snd (mmio_read_32 a s)) r \<Longrightarrow> polled a stop s r"
  unfolding polled_def after_reads_Suc [symmetric] by fastforce

lemma poll_until_Some:
  assumes ret: "poll_until a stop tref s = Some r"
  shows "polled a stop s r"
proof (rule poll_until.raw_induct [where P = "\<lambda>a stop tref s r. polled a stop s r", OF _ ret])
  fix f :: "addr \<Rightarrow> (u32 \<Rightarrow> bool) \<Rightarrow> nat \<times> u32 \<Rightarrow> 'a tee_mach_scheme \<Rightarrow> (u32 option \<times> 'a tee_mach_scheme) option"
    and a stop tref s r
  assume IH: "\<And>a stop tref s r. f a stop tref s = Some r \<Longrightarrow> polled a stop s r"
    and eq: "(if timeout_elapsed tref s then Some (None, s)
      else let r = mmio_read_32 a s
           in if stop (fst r) then Some (Some (fst r), snd r) else f a stop tref (snd r)) = Some r"
  consider (late) "timeout_elapsed tref s" | (stop) "\<not> timeout_elapsed tref s" "stop (fst (mmio_read_32 a s))"
    | (again) "\<not> timeout_elapsed tref s" "\<not> stop (fst (mmio_read_32 a s))" by blast
  then show "polled a stop s r"
  proof cases
    case late
    with eq show ?thesis by (auto simp: polled_def intro: exI [of _ 0])
  next
    case stop
    with eq show ?thesis by (auto simp: polled_def Let_def after_reads_Suc intro!: exI [of _ "Suc 0"])
  next
    case again
    with eq have "f a stop tref (snd (mmio_read_32 a s)) = Some r" by (simp add: Let_def)
    from IH [OF this] show ?thesis by (rule polled_step)
  qed
qed

lemma touches_after_reads: "touches W s (after_reads (mmio_read_32 a) n s)"
  by (induction n arbitrary: s) (auto simp: after_reads_Suc intro: touches_refl touches_trans touches_read)

lemma poll_until_touches: "poll_until a stop tref s = Some (r, s') \<Longrightarrow> touches W s s'"
  using poll_until_Some [of a stop tref s "(r, s')"] touches_after_reads by (auto simp: polled_def)

lemma poll_until_hit:
  "poll_until a stop tref s = Some (Some v, s') \<Longrightarrow> stop v \<and> (\<exists>es. m_evs s' = m_evs s @ es @ [RD a v])"
  using poll_until_Some [of a stop tref s "(Some v, s')"] by (auto simp: polled_def)

lemma do_poll_touches: "do_poll (mmio_read_32 a) stop s = Some (v, s') \<Longrightarrow> touches W s s'"
  by (metis do_poll_Some snd_conv touches_after_reads after_reads_Suc touches_trans touches_read)

text \<open>With a counter that advances the loop ends.\<close>

interpretation env: step_logic same_env
  by unfold_locales (simp, rule same_env_trans)

lemma poll_until_ends:
  assumes "timer_runs s"
  shows "\<exists>r. poll_until a stop tref s = Some r"
proof -
  obtain t' where t': "m_now s \<le> t'" "tee_late s (fst tref) (snd tref) t'"
    using assms unfolding timer_runs_def by blast
  have "\<exists>r. poll_until a stop tref s = Some r"
    if "tee_late s (fst tref) (snd tref) (m_now s + n)" for n
    using that
  proof (induction n arbitrary: s)
    case 0
    then show ?case by (subst poll_until.simps) (simp add: timeout_elapsed_def)
  next
    case (Suc n)
    have "\<exists>r. poll_until a stop tref (snd (mmio_read_32 a s)) = Some r"
      by (rule Suc.IH) (use Suc.prems in simp)
    then show ?case by (subst poll_until.simps) (auto simp: Let_def)
  qed
  from this [of "t' - m_now s"] t' show ?thesis by simp
qed

lemma timer_runs_env: "same_env s s' \<Longrightarrow> timer_runs s' = timer_runs s"
  by (simp add: timer_runs_def same_env_def)

lemma win_self: "k < n \<Longrightarrow> b + k \<in> win b n"
  by (simp add: win_def)

lemma win_first: "0 < n \<Longrightarrow> b \<in> win b n"
  by (simp add: win_def)

text \<open>
  Two windows are apart when each starts beyond the other's end; addresses of one are then
  outside the other.
\<close>

definition apart :: "addr \<times> addr \<Rightarrow> addr \<times> addr \<Rightarrow> bool" where
  "apart x y \<longleftrightarrow> \<not> fst y - fst x < snd x \<and> \<not> fst x - fst y < snd y"

lemma apart_disjoint: "apart (p, n) (q, m) \<Longrightarrow> a \<in> win p n \<Longrightarrow> a \<notin> win q m"
proof
  assume d: "apart (p, n) (q, m)" and p: "a \<in> win p n" and q: "a \<in> win q m"
  define x y where "x = a - p" and "y = a - q"
  have xy: "x < n" "y < m" "q - p = x - y" "p - q = y - x" using p q by (auto simp: win_def x_def y_def)
  show False
  proof (cases "y \<le> x")
    case True
    then have "x - y \<le> x" by (rule word_sub_le)
    then have "x - y < n" using xy(1) by (rule order_le_less_trans)
    with xy d show False by (simp add: apart_def)
  next
    case False
    then have "y - x \<le> y" by (intro word_sub_le) simp
    then have "y - x < m" using xy(2) by (rule order_le_less_trans)
    with xy d show False by (simp add: apart_def)
  qed
qed

abbreviation (input) dmaw :: "'a tee_mach_scheme \<Rightarrow> addr set" where "dmaw s \<equiv> win (tee_va s CSUDMA_BASE) 0x1000"

text \<open>The registers that start a transfer on the source channel.\<close>

definition srcregs :: "'a tee_mach_scheme \<Rightarrow> addr set" where
  "srcregs s = {tee_va s CSUDMA_BASE, tee_va s CSUDMA_BASE + 0x04, tee_va s CSUDMA_BASE + 0x28}"

lemma csudma_clear_intr_touches: "dmaw s - srcregs s \<subseteq> W \<Longrightarrow> touches W s (csudma_clear_intr ZYNQMP_CSUDMA_SRC_CHANNEL m s)"
  by (auto simp: csudma_clear_intr_def Let_def win_def srcregs_def intro!: touches_write)

lemma zynqmp_csudma_prepare_touches: "dmaw s - srcregs s \<subseteq> W \<Longrightarrow> touches W s (snd (zynqmp_csudma_prepare ZYNQMP_CSUDMA_SRC_CHANNEL s))"
  by (auto simp: zynqmp_csudma_prepare_def Let_def win_def srcregs_def touches_refl intro!: touches_setbits)

lemma zynqmp_csudma_unprepare_touches: "dmaw s - srcregs s \<subseteq> W \<Longrightarrow> touches W s (snd (zynqmp_csudma_unprepare ZYNQMP_CSUDMA_SRC_CHANNEL s))"
  by (auto simp: zynqmp_csudma_unprepare_def Let_def win_def srcregs_def touches_refl intro!: touches_setbits)

lemma zynqmp_csudma_sync_touches:
  assumes "zynqmp_csudma_sync ZYNQMP_CSUDMA_SRC_CHANNEL s = Some (r, s')" and "dmaw s - srcregs s \<subseteq> W"
  shows "touches W s s'"
proof (cases "tee_va s CSUDMA_BASE = 0")
  case True
  with assms(1) show ?thesis by (simp add: zynqmp_csudma_sync_def touches_refl)
next
  case False
  let ?d = "tee_va s CSUDMA_BASE"
  obtain v t where p: "poll_until (?d + CSUDMA_I_STS_OFFSET)
      (\<lambda>status. status AND CSUDMA_IXR_DONE_MASK = CSUDMA_IXR_DONE_MASK)
      (timeout_init_us CSUDMA_DONE_TIMEOUT_USEC s) s = Some (v, t)"
    using assms(1) False by (auto simp: zynqmp_csudma_sync_def Let_def split: bind_splits)
  have t: "touches W s t" using p by (rule poll_until_touches)
  let ?u = "snd (mmio_read_32 (?d + CSUDMA_CRC_OFFSET) t)"
  have va: "tee_va t = tee_va s" using t by (simp add: touches_def same_env_def)
  have "touches W t (csudma_clear_intr ZYNQMP_CSUDMA_SRC_CHANNEL CSUDMA_IXR_DONE_MASK ?u)"
    by (rule touches_trans [OF touches_read csudma_clear_intr_touches])
      (use assms(2) va in \<open>simp add: srcregs_def\<close>)
  moreover have "s' = t \<or> s' = csudma_clear_intr ZYNQMP_CSUDMA_SRC_CHANNEL CSUDMA_IXR_DONE_MASK ?u"
    using assms(1) False p
    by (auto simp: zynqmp_csudma_sync_def Let_def case_prod_unfold split: option.splits)
  ultimately show ?thesis using t by (auto intro: touches_trans)
qed

text \<open>
  A transfer either refuses its arguments and does nothing, or starts exactly one transfer of
  the physical buffer: the address registers hold all of its address, \<open>SIZE\<close> its length and,
  in bit 0, the last-word flag.
\<close>

definition dma_req :: "addr \<Rightarrow> u64 \<Rightarrow> u8 \<Rightarrow> addr \<times> u32 \<times> bool" where
  "dma_req phys len notify = (phys, ucast len, notify = 1)"

lemma dma_addr_decode: "phys AND 7 = 0 \<Longrightarrow>
  push_bit 32 (ucast (ucast (drop_bit 32 phys) :: u32)) OR ucast (ucast (phys AND CSUDMA_ADDR_MASK) :: u32) = phys"
  (is "_ \<Longrightarrow> ?l = _") for phys :: addr
proof (rule bit_word_eqI)
  fix n assume al: "phys AND 7 = 0" and n: "n < LENGTH(64)"
  have "(7 :: addr) = mask 3" by (simp add: mask_eq_exp_minus_1)
  with al have low: "\<not> bit phys k" if "k < 3" for k
    using that by (metis bit_0_eq bit_and_iff bit_mask_iff bot_apply bot_bool_def bit_imp_le_length possible_bit_word)
  have fc: "(0xFFFFFFFC :: addr) = mask 32 AND NOT (mask 2)" by (simp add: mask_eq_exp_minus_1)
  show "bit ?l n \<longleftrightarrow> bit phys n"
    unfolding fc using n low [of n] by (cases "n < 32") (auto simp: bit_simps)
qed

lemma dma_size_decode:
  fixes len :: u64 and notify :: u8
  assumes "len mod 4 = 0" and "notify \<le> 1"
  shows "ucast (len OR ucast notify) AND NOT 3 = (ucast len :: u32)"
    and "bit (ucast (len OR ucast notify) :: u32) 0 \<longleftrightarrow> notify = 1"
proof -
  have "len AND mask 2 = 0" using assms(1) by (simp add: take_bit_eq_mod flip: take_bit_eq_mask)
  then have low: "\<not> bit len k" if "k < 2" for k
    using that by (metis bit_0_eq bit_and_iff bit_mask_iff bot_apply bot_bool_def bit_imp_le_length possible_bit_word)
  have nt: "notify = 0 \<or> notify = 1" using assms(2) by (auto simp: word_le_nat_alt word_unat_eq_iff)
  have three: "(3 :: u32) = mask 2" by (simp add: mask_eq_exp_minus_1)
  show "ucast (len OR ucast notify) AND NOT 3 = (ucast len :: u32)"
    unfolding three using nt low [of 0] low [of 1]
    by (intro bit_word_eqI) (auto simp: bit_simps not_le less_2_cases_iff intro: gr0I)
  show "bit (ucast (len OR ucast notify) :: u32) 0 \<longleftrightarrow> notify = 1"
    using nt low [of 0] by (auto simp: bit_simps)
qed

lemma zynqmp_csudma_transfer_cases:
  assumes "zynqmp_csudma_transfer ZYNQMP_CSUDMA_SRC_CHANNEL a len notify s = (r, s')"
  obtains (refused) "r \<noteq> 0" "s' = s"
  | (started) "r = 0" "tee_va s CSUDMA_BASE \<noteq> 0" "len mod 4 = 0" "tee_pa s a AND 7 = 0"
      "m_evs s' = m_evs s @
         [CALL ''cache_op_inner'' [1, ucast a, ucast (drop_bit 32 a), ucast len],
          CALL ''cache_op_outer'' [1, ucast (tee_pa s a), ucast (drop_bit 32 (tee_pa s a)), ucast len],
          WR (tee_va s CSUDMA_BASE + CSUDMA_CRC_OFFSET) 0,
          WR (tee_va s CSUDMA_BASE) (ucast (tee_pa s a AND CSUDMA_ADDR_MASK)),
          WR (tee_va s CSUDMA_BASE + CSUDMA_ADDR_MSB_OFFSET) (ucast (drop_bit 32 (tee_pa s a))),
          WR (tee_va s CSUDMA_BASE + CSUDMA_SIZE_OFFSET) (ucast (len OR ucast notify))]"
      "same_env s s'" "tee_mem s' = tee_mem s" "bs_iv s' = bs_iv s"
  using assms
  by (auto simp: zynqmp_csudma_transfer_def Let_def cache_op_def same_env_def split: if_splits)

lemma zynqmp_csudma_transfer_sends:
  assumes "zynqmp_csudma_transfer ZYNQMP_CSUDMA_SRC_CHANNEL a len notify s = (r, s')" and "notify \<le> 1"
  shows "dma_sends (tee_va s CSUDMA_BASE) (if r = 0 then [dma_req (tee_pa s a) len notify] else []) s s'"
  using assms(1)
proof (cases rule: zynqmp_csudma_transfer_cases)
  case refused
  then show ?thesis by (simp add: dma_sends_refl)
next
  case started
  from started(4) have ad: "push_bit 32 (ucast (ucast (drop_bit 32 (tee_pa s a)) :: u32))
      OR ucast (ucast (tee_pa s a AND CSUDMA_ADDR_MASK) :: u32) = tee_pa s a"
    by (rule dma_addr_decode)
  show ?thesis
    unfolding dma_sends_def started(5)
    by (intro exI conjI allI, rule refl)
      (simp add: started(1) ad dma_size_decode [OF started(3) assms(2), simplified] dma_req_def)
qed

lemma zynqmp_csudma_transfer_touches:
  assumes "dmaw s \<subseteq> W"
  shows "touches W s (snd (zynqmp_csudma_transfer ZYNQMP_CSUDMA_SRC_CHANNEL a len notify s))"
proof -
  obtain r s' where rs: "zynqmp_csudma_transfer ZYNQMP_CSUDMA_SRC_CHANNEL a len notify s = (r, s')" by fastforce
  from rs show ?thesis
  proof (cases rule: zynqmp_csudma_transfer_cases)
    case refused
    with rs show ?thesis by (simp add: touches_refl)
  next
    case started
    have "b + k \<in> W" if "b = tee_va s CSUDMA_BASE" "k < 0x1000" for b k using assms that win_self by blast
    from this [of _ 0] this [of _ CSUDMA_CRC_OFFSET] this [of _ CSUDMA_ADDR_MSB_OFFSET] this [of _ CSUDMA_SIZE_OFFSET]
    show ?thesis using rs started unfolding touches_def by auto
  qed
qed

text \<open>The push of one buffer: start the transfer and wait for it, as every caller does.\<close>

definition dma_push :: "addr \<Rightarrow> u64 \<Rightarrow> u8 \<Rightarrow> 'a tee_mach_scheme \<Rightarrow> (u32 \<times> 'a tee_mach_scheme) option" where
  "dma_push a len notify s =
     (let (ret, s) = zynqmp_csudma_transfer ZYNQMP_CSUDMA_SRC_CHANNEL a len notify s
      in if ret \<noteq> 0 then Some (ret, s) else zynqmp_csudma_sync ZYNQMP_CSUDMA_SRC_CHANNEL s)"

lemma srcregs_quiet: "touches (dmaw s - srcregs s) s s' \<Longrightarrow> dma_sends (tee_va s CSUDMA_BASE) [] s s'"
  by (erule dma_sends_quiet) (simp_all add: srcregs_def)

lemma dma_push_touches:
  assumes "dma_push a len notify s = Some (r, s')" and "dmaw s \<subseteq> W"
  shows "touches W s s'"
proof -
  obtain q t where t: "zynqmp_csudma_transfer ZYNQMP_CSUDMA_SRC_CHANNEL a len notify s = (q, t)" by fastforce
  have 1: "touches W s t" using zynqmp_csudma_transfer_touches [OF assms(2), of a len notify] t by simp
  then have "dmaw t - srcregs t \<subseteq> W" using assms(2) by (auto simp: touches_def same_env_def)
  then show ?thesis
    using assms(1) t 1 touches_trans [OF 1 zynqmp_csudma_sync_touches]
    by (auto simp: dma_push_def split: if_splits)
qed

lemma dma_push_sends:
  assumes "dma_push a len notify s = Some (r, s')" and "notify \<le> 1"
  obtains k where "dma_sends (tee_va s CSUDMA_BASE) (take k [dma_req (tee_pa s a) len notify]) s s'" "r = 0 \<longrightarrow> k = 1"
proof -
  obtain q t where t: "zynqmp_csudma_transfer ZYNQMP_CSUDMA_SRC_CHANNEL a len notify s = (q, t)" by fastforce
  note snd = zynqmp_csudma_transfer_sends [OF t assms(2)]
  show thesis
  proof (cases "q = 0")
    case False
    then show thesis using that [of 0] assms(1) t snd by (auto simp: dma_push_def)
  next
    case True
    then have sy: "zynqmp_csudma_sync ZYNQMP_CSUDMA_SRC_CHANNEL t = Some (r, s')"
      using assms(1) t by (simp add: dma_push_def)
    have va: "tee_va t = tee_va s"
      using zynqmp_csudma_transfer_touches [OF subset_refl, of s a len notify] t by (simp add: touches_def same_env_def)
    have "dma_sends (tee_va s CSUDMA_BASE) [] t s'"
      using srcregs_quiet [OF zynqmp_csudma_sync_touches [OF sy subset_refl]] va by simp
    with snd True have "dma_sends (tee_va s CSUDMA_BASE) ([dma_req (tee_pa s a) len notify] @ []) s s'"
      by (intro dma_sends_trans) auto
    then show thesis using that [of 1] by simp
  qed
qed

lemma ends_poll: "timer_runs s0 \<Longrightarrow> env.ends s0 (poll_until a stop tref)"
  by (rule env.endsI) (metis poll_until_ends poll_until_touches surj_pair timer_runs_env touches_env)

lemma ends_poll_us: "timer_runs s0 \<Longrightarrow> env.ends s0 (\<lambda>s. poll_until a stop (timeout_init_us us s) s)"
  by (rule env.ends_at [where f = "poll_until a stop"], rule ends_poll)

lemma zynqmp_csudma_sync_ends:
  assumes "timer_runs s0"
  shows "env.ends s0 (zynqmp_csudma_sync ZYNQMP_CSUDMA_SRC_CHANNEL)"
proof (rule env.endsI)
  fix s :: "'a tee_mach_scheme" assume e: "same_env s0 s"
  have "timer_runs s" using assms timer_runs_env [OF e] by simp
  from poll_until_ends [OF this] obtain v t where
    "poll_until (tee_va s CSUDMA_BASE + CSUDMA_I_STS_OFFSET) (\<lambda>v. v AND CSUDMA_IXR_DONE_MASK = CSUDMA_IXR_DONE_MASK)
      (timeout_init_us CSUDMA_DONE_TIMEOUT_USEC s) s = Some (v, t)" by (metis surj_pair)
  then have "\<exists>r u. zynqmp_csudma_sync ZYNQMP_CSUDMA_SRC_CHANNEL s = Some (r, u)"
    by (cases v) (simp_all add: zynqmp_csudma_sync_def Let_def case_prod_unfold)
  then show "\<exists>r u. zynqmp_csudma_sync ZYNQMP_CSUDMA_SRC_CHANNEL s = Some (r, u) \<and> same_env s u"
    using zynqmp_csudma_sync_touches [OF _ subset_UNIV] touches_env by blast
qed

lemma env_transfer: "same_env s (snd (zynqmp_csudma_transfer ZYNQMP_CSUDMA_SRC_CHANNEL a len notify s))"
  by (rule touches_env [OF zynqmp_csudma_transfer_touches [OF subset_UNIV]])

lemma env_prepare:
  "same_env s (snd (zynqmp_csudma_prepare ZYNQMP_CSUDMA_SRC_CHANNEL s))"
  "same_env s (snd (zynqmp_csudma_unprepare ZYNQMP_CSUDMA_SRC_CHANNEL s))"
  by (rule touches_env [OF zynqmp_csudma_prepare_touches [OF subset_UNIV]],
      rule touches_env [OF zynqmp_csudma_unprepare_touches [OF subset_UNIV]])

lemma env_write: "same_env s (mmio_write_32 a v s)" "same_env s (snd (mmio_read_32 a s))"
  by (simp_all add: same_env_def)

lemmas env_steps = env_transfer env_prepare env_write

lemma dma_push_ends: "timer_runs s0 \<Longrightarrow> env.ends s0 (dma_push a len notify)"
  unfolding dma_push_def [abs_def]
  by (intro env.ends_let env.ends_if env.ends_ret zynqmp_csudma_sync_ends env_steps same_env_refl)

section \<open>Registers that a call does not read\<close>

text \<open>The values that a trace read from one register, and calls that do not read it.\<close>

definition reads_at :: "addr \<Rightarrow> ioev list \<Rightarrow> u32 list" where
  "reads_at a es = map snd (filter (\<lambda>(b, v). b = a) (reads_of es))"

lemma reads_at_simps [simp]:
  "reads_at a [] = []" "reads_at a (es @ fs) = reads_at a es @ reads_at a fs"
  "reads_at a (RD b v # es) = (if b = a then v # reads_at a es else reads_at a es)"
  "reads_at a (WR b v # es) = reads_at a es" "reads_at a (CALL f as # es) = reads_at a es"
  by (simp_all add: reads_at_def)

definition skips :: "addr \<Rightarrow> 'a tee_mach_scheme \<Rightarrow> 'a tee_mach_scheme \<Rightarrow> bool" where
  "skips a s s' \<longleftrightarrow> same_env s s' \<and> (\<exists>es. m_evs s' = m_evs s @ es \<and> reads_at a es = [])"

lemma skips_trans: "skips a s t \<Longrightarrow> skips a t u \<Longrightarrow> skips a s u"
  unfolding skips_def by (auto intro: same_env_trans)

interpretation skp: step_logic "skips a" for a
  by unfold_locales (simp add: skips_def, rule skips_trans)

lemma skips_env: "skips a s s' \<Longrightarrow> same_env s s'"
  by (simp add: skips_def)

lemma skips_bus:
  "skips a s (mmio_write_32 b v s)" "skips a s (fw_call f as s)" "b \<noteq> a \<Longrightarrow> skips a s (snd (mmio_read_32 b s))"
  "b \<noteq> a \<Longrightarrow> skips a s (mmio_setbits_32 b v s)" "b \<noteq> a \<Longrightarrow> skips a s (mmio_clrbits_32 b v s)"
  by (simp_all add: skips_def same_env_def mmio_setbits_32_def mmio_clrbits_32_def case_prod_unfold)

lemma skips_after_reads: "b \<noteq> a \<Longrightarrow> skips a s (after_reads (mmio_read_32 b) n s)"
  by (induction n arbitrary: s) (auto simp: after_reads_Suc intro: skp.R_refl skips_trans skips_bus)

lemma poll_until_skips: "poll_until b stop tref s = Some (r, s') \<Longrightarrow> b \<noteq> a \<Longrightarrow> skips a s s'"
  using poll_until_Some [of b stop tref s "(r, s')"] skips_after_reads by (auto simp: polled_def)

lemma do_poll_skips: "do_poll (mmio_read_32 b) stop s = Some (v, s') \<Longrightarrow> b \<noteq> a \<Longrightarrow> skips a s s'"
  by (metis do_poll_Some snd_conv skips_after_reads after_reads_Suc skips_trans skips_bus(3))

lemma skips_prepare:
  assumes "a \<notin> dmaw s"
  shows "skips a s (snd (zynqmp_csudma_prepare ZYNQMP_CSUDMA_SRC_CHANNEL s))"
    and "skips a s (snd (zynqmp_csudma_unprepare ZYNQMP_CSUDMA_SRC_CHANNEL s))"
  using assms win_self [of CSUDMA_CTRL_OFFSET "0x1000" "tee_va s CSUDMA_BASE"]
  by (auto simp: zynqmp_csudma_prepare_def zynqmp_csudma_unprepare_def Let_def intro: skips_bus skp.R_refl)

lemma skips_transfer: "skips a s (snd (zynqmp_csudma_transfer ZYNQMP_CSUDMA_SRC_CHANNEL b len notify s))"
  by (simp add: zynqmp_csudma_transfer_def Let_def cache_op_def skp.R_refl)
    (simp add: skips_def same_env_def)

lemma skips_sync:
  assumes run: "zynqmp_csudma_sync ZYNQMP_CSUDMA_SRC_CHANNEL s = Some (r, s')" and a: "a \<notin> dmaw s"
  shows "skips a s s'"
proof -
  let ?d = "tee_va s CSUDMA_BASE"
  have neq: "?d + CSUDMA_I_STS_OFFSET \<noteq> a" "?d + CSUDMA_CRC_OFFSET \<noteq> a"
    using a win_self [of _ "0x1000" ?d] by auto
  show ?thesis
    using run neq
    by (auto simp: zynqmp_csudma_sync_def csudma_clear_intr_def Let_def case_prod_unfold skp.R_refl split: if_splits bind_splits option.splits
        dest!: poll_until_skips [where a = a] intro!: skips_trans [OF skips_trans [OF _ skips_bus(3)] skips_bus(1)])
qed

lemma dma_push_skips:
  assumes "dma_push b len notify s = Some (r, s')" and "a \<notin> dmaw s"
  shows "skips a s s'"
proof -
  obtain q t where t: "zynqmp_csudma_transfer ZYNQMP_CSUDMA_SRC_CHANNEL b len notify s = (q, t)" by fastforce
  have st: "skips a s t" using skips_transfer [of a s b len notify] t by simp
  then have "a \<notin> dmaw t" using assms(2) by (simp add: skips_def same_env_def)
  with st assms(1) t show ?thesis
    by (auto simp: dma_push_def split: if_splits intro: skips_trans skips_sync)
qed

section \<open>A DMA that is in time\<close>

text \<open>
  The DMA is mapped and every transfer is done before the driver's timeout: from every tick on there is a tick at which the status
  shows it, and the timeout has not elapsed up to there.  An accepted push then succeeds.
\<close>

definition dma_prompt :: "'a tee_mach_scheme \<Rightarrow> bool" where
  "dma_prompt s \<longleftrightarrow> tee_va s CSUDMA_BASE \<noteq> 0 \<and> (\<forall>t. \<exists>n.
     (\<forall>v. m_hw s (t + n) (tee_va s CSUDMA_BASE + CSUDMA_I_STS_OFFSET) v AND CSUDMA_IXR_DONE_MASK = CSUDMA_IXR_DONE_MASK) \<and>
     (\<forall>k\<le>n. \<not> tee_late s t CSUDMA_DONE_TIMEOUT_USEC (t + k)))"

lemma dma_prompt_env: "same_env s s' \<Longrightarrow> dma_prompt s' = dma_prompt s"
  by (simp add: dma_prompt_def same_env_def)

lemma poll_until_prompt:
  assumes "\<forall>k\<le>n. \<not> tee_late s (fst tref) (snd tref) (m_now s + k)" and "\<forall>v. stop (m_hw s (m_now s + n) a v)"
  shows "\<exists>v u. poll_until a stop tref s = Some (Some v, u)"
  using assms
proof (induction n arbitrary: s)
  case 0
  then show ?case by (subst poll_until.simps) (simp add: timeout_elapsed_def Let_def)
next
  case (Suc n)
  have "\<exists>v u. poll_until a stop tref (snd (mmio_read_32 a s)) = Some (Some v, u)"
    by (rule Suc.IH) (use Suc.prems in auto)
  moreover have "\<not> timeout_elapsed tref s" using Suc.prems(1) by (auto simp: timeout_elapsed_def)
  ultimately show ?case by (subst poll_until.simps) (simp add: Let_def)
qed

lemma dma_push_prompt:
  assumes "dma_prompt s" "len mod 4 = 0" "tee_pa s a AND 7 = 0"
    and run: "dma_push a len notify s = Some (r, s')"
  shows "r = 0"
proof -
  let ?sts = "tee_va s CSUDMA_BASE + CSUDMA_I_STS_OFFSET" and ?done = "\<lambda>v :: u32. v AND 2 = 2"
  define t where "t = snd (zynqmp_csudma_transfer ZYNQMP_CSUDMA_SRC_CHANNEL a len notify s)"
  have t: "zynqmp_csudma_transfer ZYNQMP_CSUDMA_SRC_CHANNEL a len notify s = (0, t)"
    using assms by (simp add: dma_prompt_def t_def zynqmp_csudma_transfer_def Let_def)
  have e: "same_env s t" unfolding t_def by (rule env_transfer)
  obtain n where n: "\<forall>v. ?done (m_hw t (m_now t + n) ?sts v)" "\<forall>k\<le>n. \<not> tee_late t (m_now t) CSUDMA_DONE_TIMEOUT_USEC (m_now t + k)"
    using assms(1) e unfolding dma_prompt_def same_env_def by metis
  have "\<exists>v u. poll_until ?sts ?done (timeout_init_us CSUDMA_DONE_TIMEOUT_USEC t) t = Some (Some v, u)"
    by (rule poll_until_prompt [where n = n]) (use n in \<open>simp_all add: timeout_init_us_def\<close>)
  then show ?thesis
    using run t e assms(1) by (auto simp: dma_prompt_def dma_push_def zynqmp_csudma_sync_def same_env_def Let_def case_prod_unfold)
qed

end
