(* ===== verification/CSU_Secure.thy ===== *)
theory CSU_Secure
  imports CSUDMA
begin

text \<open>
  The decryption of one block of an encrypted bitstream, \<open>core/drivers/zynqmp_csu_secure.c\<close>:
  the initialisation vector, the data, the next block's secure header and the tag are pushed
  through the AES-GCM engine, whose output goes to the PCAP.
  The lemmas give the transfers a call starts (\<open>block_reqs\<close>, a prefix of them when it fails),
  the windows it writes, and that it returns.
\<close>

abbreviation (input) AES_STS_OFFSET :: addr where "AES_STS_OFFSET \<equiv> 0x00"
abbreviation (input) AES_START_MSG_OFFSET :: addr where "AES_START_MSG_OFFSET \<equiv> 0x0C"
abbreviation (input) AES_KUP_WR_OFFSET :: addr where "AES_KUP_WR_OFFSET \<equiv> 0x1C"
abbreviation (input) SECURE_PCAP_STS_OFFSET :: addr where "SECURE_PCAP_STS_OFFSET \<equiv> 0x10"
abbreviation (input) AES_STS_AES_BUSY :: u32 where "AES_STS_AES_BUSY \<equiv> 1"
abbreviation (input) AES_STS_GCM_TAG_OK :: u32 where "AES_STS_GCM_TAG_OK \<equiv> 8"
abbreviation (input) AES_TIMEOUT_USEC :: u32 where "AES_TIMEOUT_USEC \<equiv> 2000000"
abbreviation (input) AES_BLK_TYPE_SECURE_HEADER :: u32 where "AES_BLK_TYPE_SECURE_HEADER \<equiv> 0"
abbreviation (input) AES_BLK_TYPE_DATA_BLOCK :: u32 where "AES_BLK_TYPE_DATA_BLOCK \<equiv> 1"
abbreviation (input) SECURE_HDR_SIZE :: u64 where "SECURE_HDR_SIZE \<equiv> 48"
abbreviation (input) ZYNQMP_GCM_TAG_SIZE :: u64 where "ZYNQMP_GCM_TAG_SIZE \<equiv> 16"
abbreviation (input) ZYNQMP_CSUDMA_MIN_SIZE :: u64 where "ZYNQMP_CSUDMA_MIN_SIZE \<equiv> 16"

definition aes_wait :: "u32 \<Rightarrow> bool \<Rightarrow> 'a tee_mach_scheme \<Rightarrow> (u32 \<times> 'a tee_mach_scheme) option" where
  "aes_wait event setv s =
     (let aes = tee_va s ZYNQMP_CSU_AES_BASE; tref = timeout_init_us AES_TIMEOUT_USEC s
      in if aes = 0 then Some (TEE_ERROR_GENERIC, s)
         else do {
           (status, s) \<leftarrow> poll_until (aes + AES_STS_OFFSET)
             (\<lambda>v. (setv \<and> v AND event = event) \<or> (\<not> setv \<and> v AND event \<noteq> event)) tref s;
           Some (if status = None then TEE_ERROR_GENERIC else TEE_SUCCESS, s)
         })"

text \<open>The data of a block, which a block that is only a secure header does not have.\<close>

definition aes_push_data :: "addr \<Rightarrow> u64 \<Rightarrow> u32 \<Rightarrow> 'a tee_mach_scheme \<Rightarrow> (u32 \<times> 'a tee_mach_scheme) option" where
  "aes_push_data src len block_type s =
     (if block_type \<noteq> AES_BLK_TYPE_SECURE_HEADER
      then do {
        (ret, s) \<leftarrow> dma_push src len 0 s;
        if ret \<noteq> 0 then Some (ret, s)
        else do {
          (_, s) \<leftarrow> do_poll (mmio_read_32 (tee_va s ZYNQMP_CSU_PCAP_BASE + SECURE_PCAP_STS_OFFSET)) (\<lambda>v. v AND 1 = 1) s;
          Some (TEE_SUCCESS, s)
        }
      }
      else Some (TEE_SUCCESS, s))"

text \<open>The tail of the block: secure header, tag and the check of the tag.\<close>

definition aes_dec_tail :: "addr \<Rightarrow> addr \<Rightarrow> addr \<Rightarrow> 'a tee_mach_scheme \<Rightarrow> (u32 \<times> 'a tee_mach_scheme) option" where
  "aes_dec_tail aesb hdr tag s = do {
     let s = mmio_write_32 (aesb + AES_KUP_WR_OFFSET) 3 s;
     (ret, s) \<leftarrow> dma_push hdr SECURE_HDR_SIZE 1 s;
     if ret \<noteq> 0 then Some (ret, snd (zynqmp_csudma_unprepare ZYNQMP_CSUDMA_SRC_CHANNEL s))
     else do {
     let s = mmio_write_32 (aesb + AES_KUP_WR_OFFSET) 0 s;
     (ret, s) \<leftarrow> dma_push tag ZYNQMP_GCM_TAG_SIZE 0 s;
     if ret \<noteq> 0 then Some (ret, snd (zynqmp_csudma_unprepare ZYNQMP_CSUDMA_SRC_CHANNEL s))
     else do {
     let (gcm_status, s) = mmio_read_32 (aesb + AES_STS_OFFSET) s;
     Some (if gcm_status AND AES_STS_GCM_TAG_OK = 0 then TEE_ERROR_GENERIC else TEE_SUCCESS,
           snd (zynqmp_csudma_unprepare ZYNQMP_CSUDMA_SRC_CHANNEL s))
   }}}"

definition aes_transfer_dec ::
  "addr \<Rightarrow> u64 \<Rightarrow> addr \<Rightarrow> addr \<Rightarrow> u32 \<Rightarrow> 'a tee_mach_scheme \<Rightarrow> (u32 \<times> 'a tee_mach_scheme) option" where
  "aes_transfer_dec src len tag iv block_type s =
     (let aes = tee_va s ZYNQMP_CSU_AES_BASE;
          out = (\<lambda>ret s. Some (ret, snd (zynqmp_csudma_unprepare ZYNQMP_CSUDMA_SRC_CHANNEL s)))
      in if aes = 0 then Some (TEE_ERROR_GENERIC, s)
      else do {
        let s = mmio_write_32 (aes + AES_START_MSG_OFFSET) 1 s;
        (ret, s) \<leftarrow> dma_push iv ZYNQMP_CSUDMA_MIN_SIZE 0 s;
        if ret \<noteq> 0 then out ret s
        else do {
        let (ret, s) = zynqmp_csudma_prepare ZYNQMP_CSUDMA_SRC_CHANNEL s;
        if ret \<noteq> 0 then Some (ret, s)
        else do {
        (ret, s) \<leftarrow> aes_push_data src len block_type s;
        if ret \<noteq> 0 then out ret s else aes_dec_tail aes (src + len) tag s
      }}})"

definition zynqmp_csu_aes_decrypt_data ::
  "addr \<Rightarrow> u64 \<Rightarrow> addr \<Rightarrow> addr \<Rightarrow> u32 \<Rightarrow> 'a tee_mach_scheme \<Rightarrow> (u32 \<times> 'a tee_mach_scheme) option" where
  "zynqmp_csu_aes_decrypt_data src src_len tag iv block_type s =
     (if src = 0 \<or> tag = 0 \<or> iv = 0 then Some (TEE_ERROR_BAD_PARAMETERS, s)
      else do {
        (ret, s) \<leftarrow> aes_transfer_dec src src_len tag iv block_type s;
        if ret \<noteq> 0 then Some (ret, s) else aes_wait AES_STS_AES_BUSY False s
      })"

section \<open>What a block's decryption writes\<close>

abbreviation (input) aesw :: "'a tee_mach_scheme \<Rightarrow> addr set" where "aesw s \<equiv> win (tee_va s ZYNQMP_CSU_AES_BASE) 0x1000"

lemma aes_wait_touches: "aes_wait event b s = Some (r, s') \<Longrightarrow> touches W s s'"
  by (auto simp: aes_wait_def Let_def split: bind_splits if_splits dest: poll_until_touches intro: touches_refl)

text \<open>
  The transfers of one block, in the order in which they are pushed; \<open>hdr\<close> tells the first
  block, which is only a secure header.
\<close>

definition block_reqs :: "(addr \<Rightarrow> addr) \<Rightarrow> addr \<times> u64 \<times> addr \<times> addr \<times> bool \<Rightarrow> (addr \<times> u32 \<times> bool) list" where
  "block_reqs pa = (\<lambda>(src, len, tag, iv, hdr).
     [dma_req (pa iv) 16 0] @ (if hdr then [] else [dma_req (pa src) len 0]) @
     [dma_req (pa (src + len)) 48 1, dma_req (pa tag) 16 0])"

text \<open>
  A relation for the run of a driver function with a result: the windows written, and the
  transfers started, which are the first \<open>k\<close> of the list \<open>rs\<close>; all of them when the function
  succeeds.
\<close>

definition pushes :: "addr set \<Rightarrow> (addr \<times> u32 \<times> bool) list \<Rightarrow> u32 \<Rightarrow> 'a tee_mach_scheme \<Rightarrow> 'a tee_mach_scheme \<Rightarrow> bool" where
  "pushes W rs r s s' \<longleftrightarrow> touches W s s' \<and>
     (\<exists>k. dma_sends (tee_va s CSUDMA_BASE) (take k rs) s s' \<and> (r = 0 \<longrightarrow> length rs \<le> k))"

lemma pushes_quiet: "touches V s s' \<Longrightarrow> V \<subseteq> W \<Longrightarrow> V \<inter> srcregs s = {} \<Longrightarrow> pushes W [] r s s'"
  unfolding pushes_def
  by (auto intro: touches_mono intro!: dma_sends_quiet [of V] simp: srcregs_def)

lemma pushes_fail: "pushes W rs r s s' \<Longrightarrow> r \<noteq> 0 \<Longrightarrow> q \<noteq> 0 \<Longrightarrow> pushes W (rs @ qs) q s s'"
  unfolding pushes_def
proof (elim conjE exE)
  fix k assume "dma_sends (tee_va s CSUDMA_BASE) (take k rs) s s'" "q \<noteq> 0" "touches W s s'"
  moreover have "take k rs = take (min k (length rs)) (rs @ qs)" by (simp add: min_def)
  ultimately show "touches W s s' \<and> (\<exists>k. dma_sends (tee_va s CSUDMA_BASE) (take k (rs @ qs)) s s' \<and>
      (q = 0 \<longrightarrow> length (rs @ qs) \<le> k))" by metis
qed

lemma pushes_seq:
  assumes "pushes W rs 0 s t" and "pushes W qs r t u"
  shows "pushes W (rs @ qs) r s u"
proof -
  obtain k l where k: "dma_sends (tee_va s CSUDMA_BASE) (take k rs) s t" "length rs \<le> k"
    and l: "dma_sends (tee_va t CSUDMA_BASE) (take l qs) t u" "r = 0 \<Longrightarrow> length qs \<le> l"
    using assms unfolding pushes_def by blast
  have "tee_va t = tee_va s" using assms(1) by (simp add: pushes_def touches_def same_env_def)
  then have "dma_sends (tee_va s CSUDMA_BASE) (take (length rs + l) (rs @ qs)) s u"
    using dma_sends_trans [OF k(1), of "take l qs" u] k(2) l(1) by simp
  moreover have "touches W s u" using assms unfolding pushes_def by (blast intro: touches_trans)
  ultimately show ?thesis using l(2) unfolding pushes_def by fastforce
qed

lemma dma_push_pushes:
  assumes "dma_push a len notify s = Some (r, s')" and "notify \<le> 1" and "dmaw s \<subseteq> W"
  shows "pushes W [dma_req (tee_pa s a) len notify] r s s'"
proof -
  obtain k where "dma_sends (tee_va s CSUDMA_BASE) (take k [dma_req (tee_pa s a) len notify]) s s'" "r = 0 \<longrightarrow> k = 1"
    by (rule dma_push_sends [OF assms(1,2)])
  then show ?thesis
    unfolding pushes_def using dma_push_touches [OF assms(1,3)] by (auto intro!: exI [of _ k])
qed

lemma pushes_before:
  "touches V s t \<Longrightarrow> V \<subseteq> W \<Longrightarrow> V \<inter> srcregs s = {} \<Longrightarrow> pushes W rs r t u \<Longrightarrow> pushes W rs r s u"
  using pushes_seq [OF pushes_quiet, of V s t W rs r u] by simp

lemma pushes_after:
  assumes "pushes W rs r s t" "touches V t u" "V \<subseteq> W" "V \<inter> srcregs s = {}"
  shows "pushes W rs r s u"
proof -
  obtain k where k: "dma_sends (tee_va s CSUDMA_BASE) (take k rs) s t" "r = 0 \<Longrightarrow> length rs \<le> k"
    and t: "touches W s t"
    using assms(1) unfolding pushes_def by blast
  have "dma_sends (tee_va s CSUDMA_BASE) [] t u"
    using assms(2,4) by (auto intro!: dma_sends_quiet [of V] simp: srcregs_def)
  from dma_sends_trans [OF k(1) this] have "dma_sends (tee_va s CSUDMA_BASE) (take k rs) s u" by simp
  then show ?thesis using k(2) touches_trans [OF t touches_mono [OF assms(2,3)]] unfolding pushes_def by blast
qed

lemma pushes_env: "pushes W rs r s t \<Longrightarrow> same_env s t"
  by (simp add: pushes_def touches_def)

lemma srcregs_env: "same_env s t \<Longrightarrow> srcregs t = srcregs s"
  by (simp add: srcregs_def same_env_def)

text \<open>One step of a driver function: a call, the branch taken when it fails, and the rest.\<close>

lemma pushes_then:
  assumes "f s \<bind> (\<lambda>(ret, s). if ret \<noteq> 0 then h ret s else g s) = Some (r, u)"
    and f: "\<And>q t. f s = Some (q, t) \<Longrightarrow> pushes W rs q s t"
    and h: "\<And>q t. q \<noteq> 0 \<Longrightarrow> pushes W rs q s t \<Longrightarrow> h q t = Some (r, u) \<Longrightarrow> r \<noteq> 0 \<and> pushes W rs r s u"
    and g: "\<And>t. same_env s t \<Longrightarrow> g t = Some (r, u) \<Longrightarrow> pushes W qs r t u"
  shows "pushes W (rs @ qs) r s u"
proof -
  obtain q t where q: "f s = Some (q, t)" "(if q \<noteq> 0 then h q t else g t) = Some (r, u)"
    using assms(1) by (cases "f s") auto
  note ft = f [OF q(1)]
  show ?thesis
  proof (cases "q = 0")
    case True
    then have "g t = Some (r, u)" "pushes W rs 0 s t" using q(2) ft by simp_all
    then show ?thesis by (intro pushes_seq [of W rs s t] g pushes_env [of W rs 0 s t])
  next
    case False
    then have "r \<noteq> 0 \<and> pushes W rs r s u" using q(2) by (intro h [OF _ ft]) auto
    then show ?thesis by (intro pushes_fail [of W rs r]) auto
  qed
qed

text \<open>The driver's own windows: no register of the AES engine starts a transfer.\<close>

definition aes_apart :: "'a tee_mach_scheme \<Rightarrow> bool" where
  "aes_apart s \<longleftrightarrow> apart (tee_va s CSUDMA_BASE, 0x1000) (tee_va s ZYNQMP_CSU_AES_BASE, 0x1000)"

definition aes_win :: "addr set \<Rightarrow> 'a tee_mach_scheme \<Rightarrow> bool" where
  "aes_win W s \<longleftrightarrow> aes_apart s \<and> dmaw s \<subseteq> W \<and> aesw s \<subseteq> W"

lemma aes_win_env: "same_env s t \<Longrightarrow> aes_win W t = aes_win W s"
  by (simp add: same_env_def aes_apart_def aes_win_def)

lemma srcregs_dmaw: "srcregs s \<subseteq> dmaw s"
  by (auto simp: srcregs_def win_def)

lemma aesw_srcregs: "aes_win W s \<Longrightarrow> aesw s \<inter> srcregs s = {}"
  unfolding aes_win_def aes_apart_def using apart_disjoint srcregs_dmaw by blast

text \<open>
  The transfers that a piece of a driver function starts, whenever it runs in the environment
  of \<open>s0\<close>.
\<close>

definition psh :: "addr set \<Rightarrow> 'a tee_mach_scheme \<Rightarrow> (addr \<times> u32 \<times> bool) list \<Rightarrow>
    ('a tee_mach_scheme \<Rightarrow> (u32 \<times> 'a tee_mach_scheme) option) \<Rightarrow> bool" where
  "psh W s0 rs f \<longleftrightarrow> (\<forall>s r u. same_env s0 s \<longrightarrow> f s = Some (r, u) \<longrightarrow> pushes W rs r s u)"

lemma pshI: "(\<And>s r u. same_env s0 s \<Longrightarrow> f s = Some (r, u) \<Longrightarrow> pushes W rs r s u) \<Longrightarrow> psh W s0 rs f"
  by (simp add: psh_def)

lemma pshD: "psh W s0 rs f \<Longrightarrow> f s = Some (r, u) \<Longrightarrow> same_env s0 s \<Longrightarrow> pushes W rs r s u"
  by (simp add: psh_def)

lemma psh_write:
  assumes "aes_win W s0" and "k < 0x1000" and "psh W s0 rs f"
  shows "psh W s0 rs (\<lambda>s. f (mmio_write_32 (tee_va s0 ZYNQMP_CSU_AES_BASE + k) v s))"
proof (rule pshI)
  fix s r u assume e: "same_env s0 s" and run: "f (mmio_write_32 (tee_va s0 ZYNQMP_CSU_AES_BASE + k) v s) = Some (r, u)"
  let ?t = "mmio_write_32 (tee_va s0 ZYNQMP_CSU_AES_BASE + k) v s"
  have t: "touches (aesw s0) s ?t" by (intro touches_write win_self assms(2))
  have "pushes W rs r ?t u" by (rule pshD [OF assms(3) run same_env_trans [OF e touches_env [OF t]]])
  show "pushes W rs r s u"
    by (rule pushes_before [OF t _ _ \<open>pushes W rs r ?t u\<close>]) (use assms(1) aesw_srcregs [OF assms(1)] srcregs_env [OF e] in \<open>auto simp: aes_win_def\<close>)
qed

lemma psh_push:
  assumes "aes_win W s0" and "notify \<le> 1"
  shows "psh W s0 [dma_req (tee_pa s0 a) len notify] (dma_push a len notify)"
proof (rule pshI)
  fix s r u assume e: "same_env s0 s" and run: "dma_push a len notify s = Some (r, u)"
  show "pushes W [dma_req (tee_pa s0 a) len notify] r s u"
    using dma_push_pushes [OF run assms(2), of W] assms(1) e by (simp add: aes_win_def same_env_def)
qed

lemma psh_quiet:
  assumes "\<And>s r u. same_env s0 s \<Longrightarrow> f s = Some (r, u) \<Longrightarrow> touches V s u" and "V \<subseteq> W" "V \<inter> srcregs s0 = {}"
  shows "psh W s0 [] f"
  by (rule pshI, rule pushes_quiet [OF assms(1,2)]) (use assms(3) srcregs_env in auto)

text \<open>A call, the branch taken when it fails, which starts nothing, and the rest.\<close>

lemma psh_then:
  assumes f: "psh W s0 rs f" and g: "psh W s0 qs g"
    and h: "\<And>q s. same_env s0 s \<Longrightarrow> fst (h q s) = q \<and> touches V s (snd (h q s))"
    and V: "V \<subseteq> W" "V \<inter> srcregs s0 = {}"
  shows "psh W s0 (rs @ qs) (\<lambda>s. f s \<bind> (\<lambda>(ret, s). if ret \<noteq> 0 then Some (h ret s) else g s))"
proof (rule pshI)
  fix s r u assume e: "same_env s0 s"
    and run: "f s \<bind> (\<lambda>(ret, s). if ret \<noteq> 0 then Some (h ret s) else g s) = Some (r, u)"
  show "pushes W (rs @ qs) r s u"
    using run
  proof (rule pushes_then)
    show "pushes W rs q s t" if "f s = Some (q, t)" for q t by (rule pshD [OF f that e])
    show "pushes W qs r t u" if "same_env s t" "g t = Some (r, u)" for t
      by (rule pshD [OF g that(2) same_env_trans [OF e that(1)]])
    show "r \<noteq> 0 \<and> pushes W rs r s u" if q: "q \<noteq> 0" "pushes W rs q s t" "Some (h q t) = Some (r, u)" for q t
    proof -
      have "fst (h q t) = q \<and> touches V t (snd (h q t))"
        by (rule h) (rule same_env_trans [OF e pushes_env [OF q(2)]])
      with q have "r = q" "touches V t u" by auto
      then show ?thesis using q(1) pushes_after [OF q(2)] V srcregs_env [OF e] by simp
    qed
  qed
qed

lemma unprepare_touches:
  "same_env s0 s \<Longrightarrow> touches (dmaw s0 - srcregs s0) s (snd (zynqmp_csudma_unprepare ZYNQMP_CSUDMA_SRC_CHANNEL s))"
  by (rule zynqmp_csudma_unprepare_touches) (simp add: same_env_def srcregs_def)

lemma psh_then_out:
  assumes "psh W s0 rs f" "psh W s0 qs g" "aes_win W s0"
  shows "psh W s0 (rs @ qs) (\<lambda>s. f s \<bind> (\<lambda>(ret, s). if ret \<noteq> 0
      then Some (ret, snd (zynqmp_csudma_unprepare ZYNQMP_CSUDMA_SRC_CHANNEL s)) else g s))"
  by (rule psh_then [OF assms(1,2), where V = "dmaw s0 - srcregs s0"])
    (use assms(3) unprepare_touches in \<open>auto simp: aes_win_def\<close>)

lemma psh_then_ret:
  assumes "psh W s0 rs f" "psh W s0 qs g"
  shows "psh W s0 (rs @ qs) (\<lambda>s. f s \<bind> (\<lambda>(ret, s). if ret \<noteq> 0 then Some (ret, s) else g s))"
  by (rule psh_then [OF assms, where V = "{}"]) (auto intro: touches_refl)

lemma psh_aes_push_data:
  assumes "aes_win W s0"
  shows "psh W s0 (if bt = 0 then [] else [dma_req (tee_pa s0 src) len 0]) (aes_push_data src len bt)"
proof (cases "bt = 0")
  case True
  have "psh W s0 [] (\<lambda>s. Some (TEE_SUCCESS, s))"
    by (rule psh_quiet [where V = "{}"]) (auto intro: touches_refl)
  with True show ?thesis by (simp add: aes_push_data_def [abs_def])
next
  case False
  have "psh W s0 ([dma_req (tee_pa s0 src) len 0] @ []) (aes_push_data src len bt)"
    unfolding aes_push_data_def [abs_def] using False
    by (simp del: append.simps append_Nil2)
      (intro psh_then_ret psh_push assms word_zero_le,
       rule psh_quiet [where V = "{}"], auto split: bind_splits dest: do_poll_touches)
  with False show ?thesis by simp
qed

lemma read_unprepare_touches:
  assumes "same_env s0 s"
  shows "touches (dmaw s0 - srcregs s0) s (snd (zynqmp_csudma_unprepare ZYNQMP_CSUDMA_SRC_CHANNEL (snd (mmio_read_32 a s))))"
  by (rule touches_trans [OF touches_read unprepare_touches]) (use assms in \<open>simp add: same_env_def\<close>)

lemma psh_aes_dec_tail:
  assumes "aes_win W s0"
  shows "psh W s0 ([dma_req (tee_pa s0 hdr) 48 1] @ [dma_req (tee_pa s0 tag) 16 0] @ [])
    (aes_dec_tail (tee_va s0 ZYNQMP_CSU_AES_BASE) hdr tag)"
  unfolding aes_dec_tail_def [abs_def] Let_def
  by (intro psh_write psh_then_out psh_push assms word_zero_le order_refl psh_quiet [where V = "dmaw s0 - srcregs s0"])
    (use assms read_unprepare_touches in \<open>auto simp: case_prod_unfold aes_win_def\<close>)

lemma psh_prepare:
  assumes "psh W s0 qs g" "aes_win W s0"
  shows "psh W s0 qs (\<lambda>s. let (ret, s) = zynqmp_csudma_prepare ZYNQMP_CSUDMA_SRC_CHANNEL s in
      if ret \<noteq> 0 then Some (ret, s) else g s)"
proof -
  have "touches (dmaw s0 - srcregs s0) s u"
    if "same_env s0 s" "Some (zynqmp_csudma_prepare ZYNQMP_CSUDMA_SRC_CHANNEL s) = Some (r, u)" for s r u
    using zynqmp_csudma_prepare_touches [of s "dmaw s0 - srcregs s0"] that by (auto simp: same_env_def srcregs_def)
  then have "psh W s0 [] (\<lambda>s. Some (zynqmp_csudma_prepare ZYNQMP_CSUDMA_SRC_CHANNEL s))"
    by (rule psh_quiet) (use assms(2) in \<open>auto simp: aes_win_def\<close>)
  from psh_then_ret [OF this assms(1)] show ?thesis by (simp add: case_prod_unfold Let_def)
qed

text \<open>
  One block: the transfers a call of \<open>aes_transfer_dec\<close> starts are the first few of the block's
  four, and all of them when it succeeds.
\<close>

lemma psh_aes_transfer_dec:
  assumes "aes_win W s0"
  shows "psh W s0 (block_reqs (tee_pa s0) (src, len, tag, iv, bt = 0)) (aes_transfer_dec src len tag iv bt)"
proof (cases "tee_va s0 ZYNQMP_CSU_AES_BASE = 0")
  case True
  show ?thesis
  proof (rule pshI)
    fix s r u assume "same_env s0 s" "aes_transfer_dec src len tag iv bt s = Some (r, u)"
    with True have "r \<noteq> 0" "u = s" by (auto simp: aes_transfer_dec_def same_env_def)
    then show "pushes W (block_reqs (tee_pa s0) (src, len, tag, iv, bt = 0)) r s u"
      using pushes_fail [OF pushes_quiet [of "{}" s s W r], of r] touches_refl by fastforce
  qed
next
  case False
  let ?a = "tee_va s0 ZYNQMP_CSU_AES_BASE"
  let ?f = "\<lambda>s. dma_push iv ZYNQMP_CSUDMA_MIN_SIZE 0 (mmio_write_32 (?a + AES_START_MSG_OFFSET) 1 s) \<bind>
    (\<lambda>(ret, s). if ret \<noteq> 0 then Some (ret, snd (zynqmp_csudma_unprepare ZYNQMP_CSUDMA_SRC_CHANNEL s))
     else let (ret, s) = zynqmp_csudma_prepare ZYNQMP_CSUDMA_SRC_CHANNEL s in
       if ret \<noteq> 0 then Some (ret, s)
       else aes_push_data src len bt s \<bind> (\<lambda>(ret, s).
         if ret \<noteq> 0 then Some (ret, snd (zynqmp_csudma_unprepare ZYNQMP_CSUDMA_SRC_CHANNEL s))
         else aes_dec_tail ?a (src + len) tag s))"
  have "psh W s0 ([dma_req (tee_pa s0 iv) 16 0] @ (if bt = 0 then [] else [dma_req (tee_pa s0 src) len 0]) @
      ([dma_req (tee_pa s0 (src + len)) 48 1] @ [dma_req (tee_pa s0 tag) 16 0] @ [])) ?f"
    by (intro psh_write psh_then_out psh_prepare psh_push psh_aes_push_data psh_aes_dec_tail assms word_zero_le) simp
  moreover have "?f s = aes_transfer_dec src len tag iv bt s" if "same_env s0 s" for s
    using that False by (simp add: aes_transfer_dec_def same_env_def Let_def)
  ultimately show ?thesis by (simp add: psh_def block_reqs_def)
qed

lemma psh_decrypt_data:
  assumes "aes_win W s0"
  shows "psh W s0 (block_reqs (tee_pa s0) (src, len, tag, iv, bt = 0)) (zynqmp_csu_aes_decrypt_data src len tag iv bt)"
proof (cases "src = 0 \<or> tag = 0 \<or> iv = 0")
  case True
  show ?thesis
  proof (rule pshI)
    fix s r u assume "same_env s0 s" "zynqmp_csu_aes_decrypt_data src len tag iv bt s = Some (r, u)"
    with True have "r \<noteq> 0" "u = s" by (auto simp: zynqmp_csu_aes_decrypt_data_def)
    then show "pushes W (block_reqs (tee_pa s0) (src, len, tag, iv, bt = 0)) r s u"
      using pushes_fail [OF pushes_quiet [of "{}" s s W r], of r] touches_refl by fastforce
  qed
next
  case False
  have "psh W s0 (block_reqs (tee_pa s0) (src, len, tag, iv, bt = 0) @ []) (zynqmp_csu_aes_decrypt_data src len tag iv bt)"
    using False unfolding zynqmp_csu_aes_decrypt_data_def [abs_def]
    by (simp del: append_Nil2)
      (intro psh_then_ret psh_aes_transfer_dec assms psh_quiet [where V = "{}"], auto dest: aes_wait_touches)
  then show ?thesis by simp
qed

section \<open>A block's decryption returns\<close>

text \<open>The PCAP drains: at every later point its write side becomes idle.\<close>

definition pcap_drains :: "'a tee_mach_scheme \<Rightarrow> bool" where
  "pcap_drains s \<longleftrightarrow> (\<forall>t. \<exists>t'\<ge>t. \<forall>v. m_hw s t' (tee_va s ZYNQMP_CSU_PCAP_BASE + SECURE_PCAP_STS_OFFSET) v AND 1 = 1)"

lemma pcap_idle_ends:
  assumes "pcap_drains s0"
  shows "env.ends s0 (\<lambda>s. do_poll (mmio_read_32 (tee_va s ZYNQMP_CSU_PCAP_BASE + SECURE_PCAP_STS_OFFSET)) (\<lambda>v. v AND 1 = 1) s)"
proof (rule env.endsI)
  fix s :: "'a tee_mach_scheme" assume e: "same_env s0 s"
  let ?rd = "mmio_read_32 (tee_va s ZYNQMP_CSU_PCAP_BASE + SECURE_PCAP_STS_OFFSET)"
  obtain t' where t': "m_now s \<le> t'"
    "\<And>v. m_hw s t' (tee_va s ZYNQMP_CSU_PCAP_BASE + SECURE_PCAP_STS_OFFSET) v AND 1 = 1"
    using assms [unfolded pcap_drains_def, rule_format, of "m_now s"] e by (auto simp: same_env_def)
  have "(\<lambda>v. v AND 1 = 1) (fst (?rd (after_reads ?rd (t' - m_now s) s)))" using t' by simp
  from do_poll_terminates [where stop = "\<lambda>v. v AND 1 = 1" and rd = ?rd and n = "t' - m_now s" and s = s, OF this]
  obtain r u where "do_poll ?rd (\<lambda>v. v AND 1 = 1) s = Some (r, u)" by (metis surj_pair)
  then show "\<exists>r u. do_poll ?rd (\<lambda>v. v AND 1 = 1) s = Some (r, u) \<and> same_env s u"
    using do_poll_touches touches_env by blast
qed

lemma aes_push_data_ends:
  "timer_runs s0 \<Longrightarrow> pcap_drains s0 \<Longrightarrow> env.ends s0 (aes_push_data src len bt)"
  unfolding aes_push_data_def [abs_def]
  by (intro env.ends_if env.ends_bind dma_push_ends pcap_idle_ends env.ends_ret same_env_refl)

lemma aes_dec_tail_ends: "timer_runs s0 \<Longrightarrow> env.ends s0 (aes_dec_tail b hdr tag)"
  unfolding aes_dec_tail_def [abs_def] Let_def
  by (intro env.ends_after [of _ "mmio_write_32 _ _"] env.ends_bind env.ends_if env.ends_let [unfolded Let_def] dma_push_ends env.ends_ret env_steps same_env_refl)

lemma aes_wait_ends:
  assumes "timer_runs s0"
  shows "env.ends s0 (aes_wait event b)"
proof -
  let ?stop = "\<lambda>v. (b \<and> v AND event = event) \<or> (\<not> b \<and> v AND event \<noteq> event)"
  let ?poll = "poll_until (tee_va s0 ZYNQMP_CSU_AES_BASE + AES_STS_OFFSET) ?stop"
  have "env.ends s0 (\<lambda>s. ?poll (timeout_init_us AES_TIMEOUT_USEC s) s \<bind>
      (\<lambda>(status, s). Some (if status = None then TEE_ERROR_GENERIC else TEE_SUCCESS, s)))"
    by (intro env.ends_bind env.ends_ret same_env_refl ends_poll_us assms)
  then have "env.ends s0 (\<lambda>s. if tee_va s0 ZYNQMP_CSU_AES_BASE = 0 then Some (TEE_ERROR_GENERIC, s)
      else ?poll (timeout_init_us AES_TIMEOUT_USEC s) s \<bind>
        (\<lambda>(status, s). Some (if status = None then TEE_ERROR_GENERIC else TEE_SUCCESS, s)))"
    by (intro env.ends_if env.ends_ret same_env_refl)
  then show ?thesis
    by (rule env.ends_cong [rotated]) (simp add: aes_wait_def same_env_def Let_def)
qed

lemma aes_transfer_dec_ends:
  assumes "timer_runs s0" "pcap_drains s0"
  shows "env.ends s0 (aes_transfer_dec src len tag iv bt)"
proof -
  let ?a = "tee_va s0 ZYNQMP_CSU_AES_BASE"
  have "env.ends s0 (\<lambda>s. if ?a = 0 then Some (TEE_ERROR_GENERIC, s) else
    dma_push iv ZYNQMP_CSUDMA_MIN_SIZE 0 (mmio_write_32 (?a + AES_START_MSG_OFFSET) 1 s) \<bind>
    (\<lambda>(ret, s). if ret \<noteq> 0 then Some (ret, snd (zynqmp_csudma_unprepare ZYNQMP_CSUDMA_SRC_CHANNEL s))
     else let (ret, s) = zynqmp_csudma_prepare ZYNQMP_CSUDMA_SRC_CHANNEL s in
       if ret \<noteq> 0 then Some (ret, s)
       else aes_push_data src len bt s \<bind> (\<lambda>(ret, s).
         if ret \<noteq> 0 then Some (ret, snd (zynqmp_csudma_unprepare ZYNQMP_CSUDMA_SRC_CHANNEL s))
         else aes_dec_tail ?a (src + len) tag s)))"
    by (intro env.ends_if env.ends_bind env.ends_let dma_push_ends aes_push_data_ends aes_dec_tail_ends
        env.ends_after [of _ "mmio_write_32 _ _"] env.ends_ret env_steps same_env_refl assms)
  then show ?thesis
    by (rule env.ends_cong [rotated]) (simp add: aes_transfer_dec_def same_env_def Let_def)
qed

lemma decrypt_data_ends:
  assumes "timer_runs s0" "pcap_drains s0"
  shows "env.ends s0 (zynqmp_csu_aes_decrypt_data src len tag iv bt)"
  unfolding zynqmp_csu_aes_decrypt_data_def [abs_def]
  by (intro env.ends_if env.ends_bind aes_transfer_dec_ends aes_wait_ends env.ends_ret same_env_refl assms)

section \<open>Registers that a block's decryption does not read\<close>

text \<open>An address that is no register of the DMA, nor the status of the AES engine or of the PCAP.\<close>

definition unpolled :: "addr \<Rightarrow> 'a tee_mach_scheme \<Rightarrow> bool" where
  "unpolled a s \<longleftrightarrow> a \<notin> dmaw s \<and> tee_va s ZYNQMP_CSU_AES_BASE \<noteq> a \<and> tee_va s ZYNQMP_CSU_PCAP_BASE + SECURE_PCAP_STS_OFFSET \<noteq> a"

lemma unpolled_skips: "skips a s t \<Longrightarrow> unpolled a t = unpolled a s"
  by (simp add: skips_def same_env_def unpolled_def)

lemma skp_push: "unpolled a s0 \<Longrightarrow> skp.from_on a s0 (dma_push b len notify)"
  by (rule skp.from_onI, erule dma_push_skips) (use unpolled_skips in \<open>auto simp: unpolled_def\<close>)

lemma skp_prepare:
  assumes "unpolled a s0" "skips a s0 s"
  shows "skips a s (snd (zynqmp_csudma_prepare ZYNQMP_CSUDMA_SRC_CHANNEL s))"
    and "skips a s (snd (zynqmp_csudma_unprepare ZYNQMP_CSUDMA_SRC_CHANNEL s))"
  using skips_prepare unpolled_skips [OF assms(2)] assms(1) by (auto simp: unpolled_def)

lemma skp_pcap_poll:
  assumes "unpolled a s0"
  shows "skp.from_on a s0 (\<lambda>s. do_poll (mmio_read_32 (tee_va s ZYNQMP_CSU_PCAP_BASE + SECURE_PCAP_STS_OFFSET)) (\<lambda>v. v AND 1 = 1) s)"
  by (rule skp.from_onI, erule do_poll_skips) (use assms unpolled_skips in \<open>auto simp: unpolled_def\<close>)

lemma skp_aes_push_data: "unpolled a s0 \<Longrightarrow> skp.from_on a s0 (aes_push_data src len bt)"
  unfolding aes_push_data_def [abs_def]
  by (intro skp.from_if skp.from_bind skp_push skp_pcap_poll skp.from_ret skp.R_refl)

lemma skp_aes_dec_tail: "unpolled a s0 \<Longrightarrow> b \<noteq> a \<Longrightarrow> skp.from_on a s0 (aes_dec_tail b hdr tag)"
  unfolding aes_dec_tail_def [abs_def] Let_def
  by (intro skp.from_after [of _ _ "mmio_write_32 _ _"] skp.from_bind skp.from_if skp.from_let [unfolded Let_def] skp_push skp.from_ret
      skips_bus skp_prepare) (simp_all add: skp.R_refl)

lemma skp_aes_wait:
  assumes "unpolled a s0"
  shows "skp.from_on a s0 (aes_wait event b)"
proof (rule skp.from_onI)
  fix s r u assume "skips a s0 s" "aes_wait event b s = Some (r, u)"
  then show "skips a s u"
    using assms unpolled_skips by (auto simp: aes_wait_def Let_def unpolled_def skp.R_refl split: if_splits bind_splits dest!: poll_until_skips [where a = a])
qed

lemma skp_aes_transfer_dec:
  assumes "unpolled a s0"
  shows "skp.from_on a s0 (aes_transfer_dec src len tag iv bt)"
proof -
  let ?a = "tee_va s0 ZYNQMP_CSU_AES_BASE"
  have "skp.from_on a s0 (\<lambda>s. if ?a = 0 then Some (TEE_ERROR_GENERIC, s) else
    dma_push iv ZYNQMP_CSUDMA_MIN_SIZE 0 (mmio_write_32 (?a + AES_START_MSG_OFFSET) 1 s) \<bind>
    (\<lambda>(ret, s). if ret \<noteq> 0 then Some (ret, snd (zynqmp_csudma_unprepare ZYNQMP_CSUDMA_SRC_CHANNEL s))
     else let (ret, s) = zynqmp_csudma_prepare ZYNQMP_CSUDMA_SRC_CHANNEL s in
       if ret \<noteq> 0 then Some (ret, s)
       else aes_push_data src len bt s \<bind> (\<lambda>(ret, s).
         if ret \<noteq> 0 then Some (ret, snd (zynqmp_csudma_unprepare ZYNQMP_CSUDMA_SRC_CHANNEL s))
         else aes_dec_tail ?a (src + len) tag s)))"
    by (intro skp.from_if skp.from_bind skp.from_let skp_push skp_aes_push_data skp_aes_dec_tail
        skp.from_after [of _ _ "mmio_write_32 _ _"] skp.from_ret skips_bus skp_prepare skp.R_refl assms)
      (use assms in \<open>simp_all add: unpolled_def\<close>)
  then show ?thesis
    by (rule skp.from_cong [rotated]) (simp add: aes_transfer_dec_def skips_def same_env_def Let_def)
qed

lemma skp_decrypt_data: "unpolled a s0 \<Longrightarrow> skp.from_on a s0 (zynqmp_csu_aes_decrypt_data src len tag iv bt)"
  unfolding zynqmp_csu_aes_decrypt_data_def [abs_def]
  by (intro skp.from_if skp.from_bind skp_aes_transfer_dec skp_aes_wait skp.from_ret skp.R_refl)

section \<open>A block is pushed completely\<close>

text \<open>
  With a DMA that is in time, every block that the DMA can take (no null pointer, whole words, aligned physical
  addresses) is pushed completely, whatever the check of its tag says.
\<close>

definition dma_ok :: "(addr \<Rightarrow> addr) \<Rightarrow> addr \<times> u64 \<times> addr \<times> addr \<times> bool \<Rightarrow> bool" where
  "dma_ok pa = (\<lambda>(src, len, tag, iv, hdr). src \<noteq> 0 \<and> tag \<noteq> 0 \<and> iv \<noteq> 0 \<and> len mod 4 = 0 \<and>
     list_all (\<lambda>(p, n, l). p AND 7 = 0) (block_reqs pa (src, len, tag, iv, hdr)))"

text \<open>Pieces of a driver function that start all of \<open>rs\<close>, whatever their result.\<close>

definition psf :: "addr set \<Rightarrow> 'a tee_mach_scheme \<Rightarrow> (addr \<times> u32 \<times> bool) list \<Rightarrow>
    ('a tee_mach_scheme \<Rightarrow> (u32 \<times> 'a tee_mach_scheme) option) \<Rightarrow> bool" where
  "psf W s0 rs f \<longleftrightarrow> psh W s0 rs (\<lambda>s. map_option (\<lambda>(r, u). (0, u)) (f s))"

lemma psfI: "(\<And>s r u. same_env s0 s \<Longrightarrow> f s = Some (r, u) \<Longrightarrow> pushes W rs 0 s u) \<Longrightarrow> psf W s0 rs f"
  by (auto simp: psf_def psh_def)

lemma psfD: "psf W s0 rs f \<Longrightarrow> f s = Some (r, u) \<Longrightarrow> same_env s0 s \<Longrightarrow> pushes W rs 0 s u"
  by (auto simp: psf_def psh_def)

lemma psf_write:
  "aes_win W s0 \<Longrightarrow> k < 0x1000 \<Longrightarrow> psf W s0 rs f \<Longrightarrow> psf W s0 rs (\<lambda>s. f (mmio_write_32 (tee_va s0 ZYNQMP_CSU_AES_BASE + k) v s))"
  unfolding psf_def by (rule psh_write)

lemma psf_quiet:
  assumes "\<And>s r u. same_env s0 s \<Longrightarrow> f s = Some (r, u) \<Longrightarrow> touches V s u" and "V \<subseteq> W" "V \<inter> srcregs s0 = {}"
  shows "psf W s0 [] f"
  unfolding psf_def by (rule psh_quiet [OF _ assms(2,3)]) (use assms(1) in auto)

lemma psf_then:
  assumes f: "psh W s0 rs f" and g: "psf W s0 qs g" and ok: "\<And>s q t. same_env s0 s \<Longrightarrow> f s = Some (q, t) \<Longrightarrow> q = 0"
  shows "psf W s0 (rs @ qs) (\<lambda>s. f s \<bind> (\<lambda>(ret, s). if ret \<noteq> 0 then h ret s else g s))"
proof (rule psfI)
  fix s r u assume e: "same_env s0 s" and run: "f s \<bind> (\<lambda>(ret, s). if ret \<noteq> 0 then h ret s else g s) = Some (r, u)"
  obtain q t where q: "f s = Some (q, t)" using run by (cases "f s") auto
  then have 0: "q = 0" "g t = Some (r, u)" using ok [OF e q] run by simp_all
  have st: "pushes W rs 0 s t" using pshD [OF f q e] 0(1) by simp
  have "pushes W qs 0 t u" by (rule psfD [OF g 0(2) same_env_trans [OF e pushes_env [OF st]]])
  with st show "pushes W (rs @ qs) 0 s u" by (rule pushes_seq)
qed

lemma psf_prepare:
  assumes "psf W s0 qs g" "aes_win W s0" "dma_prompt s0"
  shows "psf W s0 qs (\<lambda>s. let (ret, s) = zynqmp_csudma_prepare ZYNQMP_CSUDMA_SRC_CHANNEL s in
      if ret \<noteq> 0 then Some (ret, s) else g s)"
proof -
  have q: "psh W s0 [] (\<lambda>s. let (ret, s) = zynqmp_csudma_prepare ZYNQMP_CSUDMA_SRC_CHANNEL s in
      if ret \<noteq> 0 then Some (ret, s) else Some (TEE_SUCCESS, s))"
    by (rule psh_prepare [OF _ assms(2)], rule psh_quiet [where V = "{}"]) (auto intro: touches_refl)
  have "psf W s0 ([] @ qs) (\<lambda>s. (let (ret, s) = zynqmp_csudma_prepare ZYNQMP_CSUDMA_SRC_CHANNEL s in
      if ret \<noteq> 0 then Some (ret, s) else Some (TEE_SUCCESS, s)) \<bind> (\<lambda>(ret, s). if ret \<noteq> 0 then Some (ret, s) else g s))"
    by (rule psf_then [OF q assms(1)]) (use assms(3) in \<open>auto simp: dma_prompt_def zynqmp_csudma_prepare_def Let_def same_env_def split: if_splits\<close>)
  moreover have "(let (ret, s) = x in if ret \<noteq> 0 then Some (ret, s) else Some (TEE_SUCCESS, s)) \<bind>
      (\<lambda>(ret, s). if ret \<noteq> 0 then Some (ret, s) else g s) = (let (ret, s) = x in if ret \<noteq> 0 then Some (ret, s) else g s)" for x
    by (simp add: case_prod_unfold Let_def)
  ultimately show ?thesis by simp
qed

lemma size_mod: "(16 :: u64) mod 4 = 0" "(48 :: u64) mod 4 = 0"
  by simp_all

lemma push_ok:
  assumes "dma_prompt s0" "tee_pa s0 a AND 7 = 0" "len mod 4 = 0"
    and "same_env s0 s" "dma_push a len notify s = Some (q, t)"
  shows "q = 0"
  using dma_push_prompt [of s len a notify q t] assms dma_prompt_env [OF assms(4)] by (simp add: same_env_def)

lemma psf_aes_dec_tail:
  assumes w: "aes_win W s0" and pr: "dma_prompt s0"
    and al: "tee_pa s0 hdr AND 7 = 0" "tee_pa s0 tag AND 7 = 0"
  shows "psf W s0 ([dma_req (tee_pa s0 hdr) 48 1] @ [dma_req (tee_pa s0 tag) 16 0] @ [])
    (aes_dec_tail (tee_va s0 ZYNQMP_CSU_AES_BASE) hdr tag)"
  unfolding aes_dec_tail_def [abs_def] Let_def
  by (intro psf_write psf_then psh_push w word_zero_le order_refl psf_quiet [where V = "dmaw s0 - srcregs s0"])
    (use w read_unprepare_touches push_ok [OF pr al(1) size_mod(2)] push_ok [OF pr al(2) size_mod(1)] in \<open>auto simp: case_prod_unfold aes_win_def\<close>)

lemma aes_push_data_ok:
  assumes "dma_prompt s0" "bt \<noteq> 0 \<Longrightarrow> tee_pa s0 src AND 7 = 0" "len mod 4 = 0"
    and "same_env s0 s" "aes_push_data src len bt s = Some (q, t)"
  shows "q = 0"
  using assms(5) push_ok [OF assms(1) _ assms(3,4)] assms(2)
  by (fastforce simp: aes_push_data_def split: if_splits bind_splits)

lemma psf_decrypt_data:
  assumes w: "aes_win W s0" and pr: "dma_prompt s0" "tee_va s0 ZYNQMP_CSU_AES_BASE \<noteq> 0"
    and ok: "dma_ok (tee_pa s0) (src, len, tag, iv, bt = 0)"
  shows "psf W s0 (block_reqs (tee_pa s0) (src, len, tag, iv, bt = 0)) (zynqmp_csu_aes_decrypt_data src len tag iv bt)"
proof -
  let ?a = "tee_va s0 ZYNQMP_CSU_AES_BASE"
  have al: "tee_pa s0 iv AND 7 = 0" "bt \<noteq> 0 \<Longrightarrow> tee_pa s0 src AND 7 = 0" "tee_pa s0 (src + len) AND 7 = 0" "tee_pa s0 tag AND 7 = 0"
    "len mod 4 = 0" "src \<noteq> 0" "tag \<noteq> 0" "iv \<noteq> 0"
    using ok by (auto simp: dma_ok_def block_reqs_def dma_req_def)
  let ?f = "\<lambda>s. dma_push iv ZYNQMP_CSUDMA_MIN_SIZE 0 (mmio_write_32 (?a + AES_START_MSG_OFFSET) 1 s) \<bind>
    (\<lambda>(ret, s). if ret \<noteq> 0 then Some (ret, snd (zynqmp_csudma_unprepare ZYNQMP_CSUDMA_SRC_CHANNEL s))
     else let (ret, s) = zynqmp_csudma_prepare ZYNQMP_CSUDMA_SRC_CHANNEL s in
       if ret \<noteq> 0 then Some (ret, s)
       else aes_push_data src len bt s \<bind> (\<lambda>(ret, s).
         if ret \<noteq> 0 then Some (ret, snd (zynqmp_csudma_unprepare ZYNQMP_CSUDMA_SRC_CHANNEL s))
         else aes_dec_tail ?a (src + len) tag s))"
  have f: "psf W s0 ([dma_req (tee_pa s0 iv) 16 0] @ (if bt = 0 then [] else [dma_req (tee_pa s0 src) len 0]) @
      ([dma_req (tee_pa s0 (src + len)) 48 1] @ [dma_req (tee_pa s0 tag) 16 0] @ [])) ?f"
    by (intro psf_write [OF w] psf_then psf_prepare psh_push [OF w] psh_aes_push_data [OF w] psf_aes_dec_tail al w pr word_zero_le)
      (use push_ok [OF pr(1) al(1) size_mod(1)] aes_push_data_ok [OF pr(1) al(2,5)] in auto)
  have eq: "?f s = aes_transfer_dec src len tag iv bt s" if "same_env s0 s" for s
    using that pr(2) by (simp add: aes_transfer_dec_def same_env_def Let_def)
  show ?thesis
  proof (rule psfI)
    fix s r u assume e: "same_env s0 s" and run: "zynqmp_csu_aes_decrypt_data src len tag iv bt s = Some (r, u)"
    obtain q t where q: "aes_transfer_dec src len tag iv bt s = Some (q, t)" "u = t \<or> aes_wait AES_STS_AES_BUSY False t = Some (r, u)"
      using run al by (auto simp: zynqmp_csu_aes_decrypt_data_def split: bind_splits if_splits)
    have t: "pushes W (block_reqs (tee_pa s0) (src, len, tag, iv, bt = 0)) 0 s t"
      using psfD [OF f _ e] q(1) eq [OF e] by (simp add: block_reqs_def)
    have "touches {} t u" using q(2) aes_wait_touches touches_refl by metis
    then show "pushes W (block_reqs (tee_pa s0) (src, len, tag, iv, bt = 0)) 0 s u"
      by (rule pushes_after [OF t]) simp_all
  qed
qed

end
