(* ===== verification/CSU_PCAP.thy ===== *)
theory CSU_PCAP
  imports CSU_Secure
begin

text \<open>
  The PCAP driver \<open>core/drivers/zynqmp_csu_pcap.c\<close>: checks of a bitstream's header,
  initialisation of the interface, and the writing of an encrypted and of a plain bitstream
  into the programmable logic.

  An encrypted image is a chain of blocks: the first is only a secure header, each secure
  header announces (through the AES engine's \<open>IV3\<close> register) the length of the block that
  follows, and a length of zero ends the chain.  The loop over the blocks may not end, so it is
  a \<open>partial_function\<close>.
\<close>

abbreviation (input) PCAP_CLK_CTRL_OFFSET :: addr where "PCAP_CLK_CTRL_OFFSET \<equiv> 0xA4"
abbreviation (input) PCAP_CLK_EN_MASK :: u32 where "PCAP_CLK_EN_MASK \<equiv> 0x01000000"
abbreviation (input) AUTHCERT_HEADER_OFFSET :: addr where "AUTHCERT_HEADER_OFFSET \<equiv> 0x98"
abbreviation (input) AUTHCERT_OFFSET :: addr where "AUTHCERT_OFFSET \<equiv> 0x10"
abbreviation (input) SECURE_SYNC_WORD_OFFSET :: addr where "SECURE_SYNC_WORD_OFFSET \<equiv> 0x20"
abbreviation (input) KEY_SOURCE_OFFSET :: addr where "KEY_SOURCE_OFFSET \<equiv> 0x28"
abbreviation (input) IV_OFFSET :: addr where "IV_OFFSET \<equiv> 0xA0"
abbreviation (input) IV_LEN :: nat where "IV_LEN \<equiv> 12"
abbreviation (input) HEADER_TABLE_OFFSET :: addr where "HEADER_TABLE_OFFSET \<equiv> 0x9C"
abbreviation (input) KEY_SRC_KUP :: u32 where "KEY_SRC_KUP \<equiv> 0xA3A5C3C5"
abbreviation (input) AES_STATUS_OFFSET :: addr where "AES_STATUS_OFFSET \<equiv> 0x00"
abbreviation (input) AES_KEY_SRC_OFFSET :: addr where "AES_KEY_SRC_OFFSET \<equiv> 0x04"
abbreviation (input) AES_KEY_LOAD_OFFSET :: addr where "AES_KEY_LOAD_OFFSET \<equiv> 0x08"
abbreviation (input) AES_RESET_OFFSET :: addr where "AES_RESET_OFFSET \<equiv> 0x10"
abbreviation (input) AES_KEY_CLEAR_OFFSET :: addr where "AES_KEY_CLEAR_OFFSET \<equiv> 0x14"
abbreviation (input) AES_CFG_OFFSET :: addr where "AES_CFG_OFFSET \<equiv> 0x18"
abbreviation (input) AES_KUP0_OFFSET :: addr where "AES_KUP0_OFFSET \<equiv> 0x20"
abbreviation (input) AES_IV0_OFFSET :: addr where "AES_IV0_OFFSET \<equiv> 0x40"
abbreviation (input) AES_IV3_OFFSET :: addr where "AES_IV3_OFFSET \<equiv> 0x4C"
abbreviation (input) AES_STS_KEY_INIT_DONE :: u32 where "AES_STS_KEY_INIT_DONE \<equiv> 0x10"
abbreviation (input) ZYNQMP_CSU_SSS_CFG_OFFSET :: addr where "ZYNQMP_CSU_SSS_CFG_OFFSET \<equiv> 0x08"
abbreviation (input) ZYNQMP_CSU_SSS_DMA_STREAM_TO_PCAP :: u32 where "ZYNQMP_CSU_SSS_DMA_STREAM_TO_PCAP \<equiv> 0x05"
abbreviation (input) ZYNQMP_CSU_SSS_DMA_STREAM_TO_AES_TO_PCAP :: u32 where "ZYNQMP_CSU_SSS_DMA_STREAM_TO_AES_TO_PCAP \<equiv> 0x50A"
abbreviation (input) PCAP_RDWR_OFFSET :: addr where "PCAP_RDWR_OFFSET \<equiv> 0x04"
abbreviation (input) PCAP_CTRL_OFFSET :: addr where "PCAP_CTRL_OFFSET \<equiv> 0x08"
abbreviation (input) PCAP_RESET_OFFSET :: addr where "PCAP_RESET_OFFSET \<equiv> 0x0C"
abbreviation (input) PCAP_STS_OFFSET :: addr where "PCAP_STS_OFFSET \<equiv> 0x10"
abbreviation (input) PCAP_STS_PL_GPWRDWN_B_MASK :: u32 where "PCAP_STS_PL_GPWRDWN_B_MASK \<equiv> 0x200"
abbreviation (input) PCAP_STS_PL_DONE_MASK :: u32 where "PCAP_STS_PL_DONE_MASK \<equiv> 8"
abbreviation (input) PCAP_STS_PL_INIT_MASK :: u32 where "PCAP_STS_PL_INIT_MASK \<equiv> 4"
abbreviation (input) PCAP_STS_WR_IDLE_MASK :: u32 where "PCAP_STS_WR_IDLE_MASK \<equiv> 1"
abbreviation (input) TIMEOUT_USEC :: u32 where "TIMEOUT_USEC \<equiv> 3000000"
abbreviation (input) SYNC_BYTE_POSITION :: nat where "SYNC_BYTE_POSITION \<equiv> 64"
abbreviation (input) VIVADO_BIT_HEADER :: nat where "VIVADO_BIT_HEADER \<equiv> 0x100"
abbreviation (input) TEE_ERROR_DEFER_DRIVER_INIT :: u32 where "TEE_ERROR_DEFER_DRIVER_INIT \<equiv> 0x80000000"

definition SecureBootgenBinFormat :: "u8 list" where
  "SecureBootgenBinFormat = [0x66, 0x55, 0x99, 0xAA, 0x58, 0x4E, 0x4C, 0x58]"

definition VivadoBinFormat :: "u8 list" where
  "VivadoBinFormat =
    [0x00, 0x00, 0x00, 0xBB, 0x11, 0x22, 0x00, 0x44, 0xFF, 0xFF, 0xFF, 0xFF, 0xFF, 0xFF, 0xFF, 0xFF,
     0xAA, 0x99, 0x55, 0x66]"

definition BootgenBinFormat :: "u8 list" where
  "BootgenBinFormat =
    [0xBB, 0x00, 0x00, 0x00, 0x44, 0x00, 0x22, 0x11, 0xFF, 0xFF, 0xFF, 0xFF, 0xFF, 0xFF, 0xFF, 0xFF,
     0x66, 0x55, 0x99, 0xAA]"

section \<open>RAM\<close>

definition mem_bytes :: "'a tee_mach_scheme \<Rightarrow> addr \<Rightarrow> nat \<Rightarrow> u8 list" where
  "mem_bytes s a n = map (\<lambda>i. tee_mem s (a + of_nat i)) [0..<n]"

definition mem_word :: "'a tee_mach_scheme \<Rightarrow> addr \<Rightarrow> u32" where
  "mem_word s a = ucast (tee_mem s a) OR push_bit 8 (ucast (tee_mem s (a + 1))) OR
     push_bit 16 (ucast (tee_mem s (a + 2))) OR push_bit 24 (ucast (tee_mem s (a + 3)))"

text \<open>\<open>io_read32\<close> of a buffer in RAM: a volatile access, hence an event of the trace.\<close>

definition ram_read32 :: "addr \<Rightarrow> 'a tee_mach_scheme \<Rightarrow> u32 \<times> 'a tee_mach_scheme" where
  "ram_read32 a s = (mem_word s a, s\<lparr>m_now := Suc (m_now s), m_evs := m_evs s @ [RD a (mem_word s a)]\<rparr>)"

text \<open>\<open>memcpy\<close>, byte by byte in increasing order.\<close>

primrec mem_copy :: "nat \<Rightarrow> addr \<Rightarrow> addr \<Rightarrow> (addr \<Rightarrow> u8) \<Rightarrow> addr \<Rightarrow> u8" where
  "mem_copy 0 d a m = m"
| "mem_copy (Suc n) d a m = mem_copy n (d + 1) (a + 1) (m(d := m a))"

section \<open>Waiting for the devices\<close>

definition endian_swap :: "u32 \<Rightarrow> u32" where
  "endian_swap w =
     (if w = 0 then w
      else drop_bit 24 w OR (drop_bit 8 w AND 0x0000FF00) OR (push_bit 8 w AND 0x00FF0000) OR push_bit 24 w)"

definition waitForEvent :: "addr \<Rightarrow> u32 \<Rightarrow> u32 \<Rightarrow> u32 \<Rightarrow> 'a tee_mach_scheme \<Rightarrow> (u32 \<times> 'a tee_mach_scheme) option" where
  "waitForEvent addr msk val timeout s = do {
     (status, s) \<leftarrow> poll_until addr (\<lambda>status. status AND msk = val) (timeout_init_us timeout s) s;
     Some (if status = None then TEE_ERROR_BUSY else TEE_SUCCESS, s)
   }"

definition pcap_waitForDone :: "'a tee_mach_scheme \<Rightarrow> (u32 \<times> 'a tee_mach_scheme) option" where
  "pcap_waitForDone s =
     (if pcap s = 0 then Some (TEE_ERROR_GENERIC, s)
      else waitForEvent (pcap s + PCAP_STS_OFFSET) PCAP_STS_WR_IDLE_MASK PCAP_STS_WR_IDLE_MASK TIMEOUT_USEC s)"

definition pcap_waitForPLDone :: "'a tee_mach_scheme \<Rightarrow> (u32 \<times> 'a tee_mach_scheme) option" where
  "pcap_waitForPLDone s =
     (if pcap s = 0 then Some (TEE_ERROR_GENERIC, s)
      else do {
        (ret, s) \<leftarrow> waitForEvent (pcap s + PCAP_STS_OFFSET) PCAP_STS_PL_DONE_MASK PCAP_STS_PL_DONE_MASK TIMEOUT_USEC s;
        if ret \<noteq> TEE_SUCCESS then Some (ret, s)
        else
          let s = mmio_write_32 (pcap s + PCAP_RESET_OFFSET) 1 s;
              s = mmio_write_32 (pcap s + PCAP_RESET_OFFSET) 0 s
          in Some (TEE_SUCCESS, s)
      })"

section \<open>Validation of the header\<close>

text \<open>The length argument of the source is not used by the check of an encrypted bitstream.\<close>

definition validateSecureBitstream :: "addr \<Rightarrow> u64 \<Rightarrow> 'a tee_mach_scheme \<Rightarrow> u32 \<times> 'a tee_mach_scheme" where
  "validateSecureBitstream buf len s =
     (if mem_bytes s (buf + SECURE_SYNC_WORD_OFFSET) (length SecureBootgenBinFormat) \<noteq> SecureBootgenBinFormat
      then (TEE_ERROR_BAD_FORMAT, s)
      else
        let (AuthHdr_offset, s) = ram_read32 (buf + AUTHCERT_HEADER_OFFSET) s;
            (AuthCert_offset, s) = ram_read32 (buf + ucast AuthHdr_offset + AUTHCERT_OFFSET) s
        in if AuthCert_offset \<noteq> 0 then (TEE_ERROR_BAD_FORMAT, s)
        else
          let (bs_keysrc, s) = ram_read32 (buf + KEY_SOURCE_OFFSET) s
          in if bs_keysrc \<noteq> KEY_SRC_KUP then (TEE_ERROR_BAD_FORMAT, s)
          else (TEE_SUCCESS,
                s\<lparr>tee_mem := mem_copy IV_LEN (iv_arr s) (buf + IV_OFFSET) (tee_mem s), bs_iv := iv_arr s\<rparr>))"

text \<open>
  The search for the sync word of a plain bitstream: \<open>n\<close> positions are left from \<open>index\<close>.
  The result is the return value, the position and the state at the end of the loop.
\<close>

fun find_sync :: "nat \<Rightarrow> addr \<Rightarrow> nat \<Rightarrow> 'a tee_mach_scheme \<Rightarrow> u32 \<times> nat \<times> 'a tee_mach_scheme" where
  "find_sync 0 buf index s = (TEE_ERROR_BAD_FORMAT, index, s)"
| "find_sync (Suc n) buf index s =
     (if tee_mem s (buf + of_nat index) = 0xFF then
        if mem_bytes s (buf + of_nat (index + SYNC_BYTE_POSITION)) (length BootgenBinFormat) = BootgenBinFormat
        then let (ret, s) = zynqmp_csudma_unprepare ZYNQMP_CSUDMA_SRC_CHANNEL s in (ret, index, s)
        else if mem_bytes s (buf + of_nat (index + SYNC_BYTE_POSITION)) (length BootgenBinFormat) = VivadoBinFormat
        then let (ret, s) = zynqmp_csudma_prepare ZYNQMP_CSUDMA_SRC_CHANNEL s in (ret, index, s)
        else find_sync n buf (Suc index) s
      else find_sync n buf (Suc index) s)"

definition validateBitstream :: "addr \<Rightarrow> u64 \<Rightarrow> 'a tee_mach_scheme \<Rightarrow> (u32 \<times> u64) \<times> 'a tee_mach_scheme" where
  "validateBitstream buf len s =
     (if unat len < SYNC_BYTE_POSITION + length BootgenBinFormat then ((TEE_ERROR_BAD_PARAMETERS, len), s)
      else
        let (ret, index, s) = find_sync (Suc VIVADO_BIT_HEADER) buf 0 s
        in if ret = TEE_SUCCESS \<and> index \<noteq> 0
           then ((ret, len - of_nat index),
                 s\<lparr>tee_mem := mem_copy (unat (len - of_nat index)) buf (buf + of_nat index) (tee_mem s)\<rparr>)
           else ((ret, len), s))"

section \<open>Writing through the PCAP\<close>

definition zynqmp_csu_pcap_init :: "'a tee_mach_scheme \<Rightarrow> (u32 \<times> 'a tee_mach_scheme) option" where
  "zynqmp_csu_pcap_init s =
     (let (RegVal, s) = mmio_read_32 (crl_apb s + PCAP_CLK_CTRL_OFFSET) s;
          s = mmio_write_32 (crl_apb s + PCAP_CLK_CTRL_OFFSET) (RegVal OR PCAP_CLK_EN_MASK) s
      in if pcap s = 0 then Some (TEE_ERROR_GENERIC, s)
      else
        let (status, s) = mmio_read_32 (pcap s + PCAP_STS_OFFSET) s
        in if status AND PCAP_STS_PL_GPWRDWN_B_MASK = 0 then Some (TEE_ERROR_BAD_STATE, s)
        else do {
          let s = mmio_write_32 (pcap s + PCAP_RESET_OFFSET) 1 s;
          let s = mmio_write_32 (pcap s + PCAP_RESET_OFFSET) 0 s;
          let s = mmio_write_32 (pcap s + PCAP_CTRL_OFFSET) 1 s;
          let s = mmio_write_32 (pcap s + PCAP_RDWR_OFFSET) 0 s;
          waitForEvent (pcap s + PCAP_STS_OFFSET) PCAP_STS_PL_INIT_MASK PCAP_STS_PL_INIT_MASK TIMEOUT_USEC s
        })"

definition AesKupKey :: "u32 list" where
  "AesKupKey = [0xAD00C023, 0xE238AC90, 0x39EA984D, 0x49AA8C81, 0x9456A98C, 0x124AE890, 0xACEF0021, 0x00128932]"

text \<open>
  One round of the loop over the blocks.  \<open>Inl\<close> leaves the loop: \<open>Inl (Inl ret)\<close> is a \<open>return\<close>
  from inside it, \<open>Inl (Inr ret)\<close> the value of \<open>ret\<close> at the \<open>break\<close>.  \<open>Inr\<close> holds the block to
  decrypt next: \<open>EncStartAddr\<close>, \<open>NextBlkLen\<close>, \<open>TagAddr\<close> and \<open>CurrentImgLen\<close>.
  \<open>secure_next\<close> is the part behind the reading of the next length.
\<close>

definition secure_next ::
  "u32 \<Rightarrow> addr \<Rightarrow> u32 \<Rightarrow> u32 \<Rightarrow> u32 \<Rightarrow> 'a tee_mach_scheme \<Rightarrow>
     (((u32 + u32) + (addr \<times> u32 \<times> addr \<times> u32)) \<times> 'a tee_mach_scheme) option" where
  "secure_next UnEncDataLen TagAddr CurrentImgLen ret NextBlkLen s =
     (let CurrentImgLen = CurrentImgLen + NextBlkLen
      in if NextBlkLen = 0 then
        (if CurrentImgLen \<noteq> UnEncDataLen then Some (Inl (Inl TEE_ERROR_GENERIC), s) else Some (Inl (Inr ret), s))
      else if CurrentImgLen > UnEncDataLen then Some (Inl (Inl TEE_ERROR_GENERIC), s)
      else do {
        let s = mmio_write_32 (aes s + AES_KEY_LOAD_OFFSET) 1 s;
        (ret, s) \<leftarrow> waitForEvent (aes s + AES_STATUS_OFFSET) AES_STS_KEY_INIT_DONE AES_STS_KEY_INIT_DONE TIMEOUT_USEC s;
        if ret \<noteq> TEE_SUCCESS then Some (Inl (Inl TEE_ERROR_GENERIC), s)
        else
          let EncStartAddr = TagAddr + ZYNQMP_GCM_TAG_SIZE;
              TagAddr = EncStartAddr + ucast NextBlkLen + SECURE_HDR_SIZE;
              s = s\<lparr>bs_iv := aes s + AES_IV0_OFFSET\<rparr>
          in Some (Inr (EncStartAddr, NextBlkLen, TagAddr, CurrentImgLen), s)
      })"

definition secure_block ::
  "u32 \<Rightarrow> addr \<Rightarrow> u32 \<Rightarrow> addr \<Rightarrow> u32 \<Rightarrow> u32 \<Rightarrow> 'a tee_mach_scheme \<Rightarrow>
     (((u32 + u32) + (addr \<times> u32 \<times> addr \<times> u32)) \<times> 'a tee_mach_scheme) option" where
  "secure_block UnEncDataLen EncStartAddr NextBlkLen TagAddr CurrentImgLen BlockType s = do {
     (ret, s) \<leftarrow> zynqmp_csu_aes_decrypt_data EncStartAddr (ucast NextBlkLen) TagAddr (bs_iv s) BlockType s;
     let (NextBlkLen, s) = mmio_read_32 (aes s + AES_IV3_OFFSET) s;
     secure_next UnEncDataLen TagAddr CurrentImgLen ret (endian_swap NextBlkLen * 4) s
   }"

partial_function (option) secure_blocks ::
  "u32 \<Rightarrow> addr \<Rightarrow> u32 \<Rightarrow> addr \<Rightarrow> u32 \<Rightarrow> u32 \<Rightarrow> 'a tee_mach_scheme \<Rightarrow> ((u32 + u32) \<times> 'a tee_mach_scheme) option" where
  "secure_blocks UnEncDataLen EncStartAddr NextBlkLen TagAddr CurrentImgLen BlockType s = do {
     (out, s) \<leftarrow> secure_block UnEncDataLen EncStartAddr NextBlkLen TagAddr CurrentImgLen BlockType s;
     case out of
       Inl r \<Rightarrow> Some (r, s)
     | Inr (EncStartAddr, NextBlkLen, TagAddr, CurrentImgLen) \<Rightarrow>
         secure_blocks UnEncDataLen EncStartAddr NextBlkLen TagAddr CurrentImgLen AES_BLK_TYPE_DATA_BLOCK s
   }"

declare secure_blocks.simps [code]

text \<open>
  The set-up of the stream switch, of the AES engine and of its key, before the first block.  The key is a constant
  array on the stack; its reads are not part of the trace.
\<close>

definition setup_writes :: "'a tee_mach_scheme \<Rightarrow> (addr \<times> u32) list" where
  "setup_writes s =
     [(csu s + ZYNQMP_CSU_SSS_CFG_OFFSET, ZYNQMP_CSU_SSS_DMA_STREAM_TO_AES_TO_PCAP),
      (aes s + AES_CFG_OFFSET, 0), (aes s + AES_RESET_OFFSET, 1), (aes s + AES_RESET_OFFSET, 0),
      (aes s + AES_KEY_CLEAR_OFFSET, 0)] @
     map (\<lambda>i. (aes s + AES_KUP0_OFFSET + of_nat (i * 4), AesKupKey ! i)) [0..<8] @
     [(aes s + AES_KEY_SRC_OFFSET, 0), (aes s + AES_KEY_LOAD_OFFSET, 1)]"

definition secure_setup :: "'a tee_mach_scheme \<Rightarrow> (u32 \<times> 'a tee_mach_scheme) option" where
  "secure_setup s = do {
     let s = write_words (setup_writes s) s;
     (ret, s) \<leftarrow> waitForEvent (aes s + AES_STATUS_OFFSET) AES_STS_KEY_INIT_DONE AES_STS_KEY_INIT_DONE TIMEOUT_USEC s;
     Some (zynqmp_csudma_prepare ZYNQMP_CSUDMA_SRC_CHANNEL s)
   }"

text \<open>The streaming of the image once its header table is read.\<close>

definition secure_stream :: "u32 \<Rightarrow> addr \<Rightarrow> 'a tee_mach_scheme \<Rightarrow> (u32 \<times> 'a tee_mach_scheme) option" where
  "secure_stream UnEncDataLen EncStartAddr s =
     (if csu s = 0 \<or> aes s = 0 then Some (TEE_ERROR_GENERIC, s)
      else do {
        (ret, s) \<leftarrow> secure_setup s;
        (r, s) \<leftarrow> secure_blocks UnEncDataLen EncStartAddr 0 (EncStartAddr + SECURE_HDR_SIZE) 0 AES_BLK_TYPE_SECURE_HEADER s;
        case r of
          Inl ret \<Rightarrow> Some (ret, s)
        | Inr ret \<Rightarrow>
            if ret \<noteq> TEE_SUCCESS then Some (ret, s)
            else do {
              (ret, s) \<leftarrow> pcap_waitForDone s;
              if ret \<noteq> TEE_SUCCESS then Some (ret, s) else pcap_waitForPLDone s
            }
      })"

definition zynqmp_csu_secure_pcap_write :: "addr \<Rightarrow> u64 \<Rightarrow> 'a tee_mach_scheme \<Rightarrow> (u32 \<times> 'a tee_mach_scheme) option" where
  "zynqmp_csu_secure_pcap_write addr len s =
     (let (off, s) = ram_read32 (addr + HEADER_TABLE_OFFSET) s;
          HeaderTableAddr = addr + ucast off;
          (w, s) = ram_read32 (HeaderTableAddr + 0x20) s;
          UnEncDataOffset = w * 4;
          (w, s) = ram_read32 (HeaderTableAddr + 0x4) s;
          UnEncDataLen = w * 4;
          EncStartAddr = addr + ucast UnEncDataOffset
      in secure_stream UnEncDataLen EncStartAddr s)"

definition zynqmp_csu_pcap_write :: "addr \<Rightarrow> u64 \<Rightarrow> 'a tee_mach_scheme \<Rightarrow> (u32 \<times> 'a tee_mach_scheme) option" where
  "zynqmp_csu_pcap_write addr len s =
     (if pcap s = 0 \<or> csu s = 0 then Some (TEE_ERROR_GENERIC, s)
      else do {
        let s = mmio_write_32 (csu s + ZYNQMP_CSU_SSS_CFG_OFFSET) ZYNQMP_CSU_SSS_DMA_STREAM_TO_PCAP s;
        (ret, s) \<leftarrow> dma_push addr len 0 s;
        if ret \<noteq> TEE_SUCCESS then Some (ret, s)
        else do {
          (ret, s) \<leftarrow> pcap_waitForDone s;
          if ret \<noteq> TEE_SUCCESS then Some (ret, s) else pcap_waitForPLDone s
        }
      })"

definition csu_pcap_init :: "'a tee_mach_scheme \<Rightarrow> u32 \<times> 'a tee_mach_scheme" where
  "csu_pcap_init s =
     (let s = s\<lparr>pcap := tee_va s ZYNQMP_CSU_PCAP_BASE, csu := tee_va s CSU_BASE,
                aes := tee_va s ZYNQMP_CSU_AES_BASE, crl_apb := tee_va s CRL_APB_BASE\<rparr>
      in (if pcap s = 0 \<or> csu s = 0 \<or> aes s = 0 \<or> crl_apb s = 0 then TEE_ERROR_DEFER_DRIVER_INIT else TEE_SUCCESS, s))"

section \<open>What the driver writes\<close>

abbreviation (input) csuw :: "'a tee_mach_scheme \<Rightarrow> addr set" where "csuw s \<equiv> win (tee_va s CSU_BASE) 0x1000"
abbreviation (input) pcapw :: "'a tee_mach_scheme \<Rightarrow> addr set" where "pcapw s \<equiv> win (tee_va s ZYNQMP_CSU_PCAP_BASE) 0x1000"
abbreviation (input) crlw :: "'a tee_mach_scheme \<Rightarrow> addr set" where "crlw s \<equiv> win (tee_va s CRL_APB_BASE) 0x2B0"

text \<open>The driver is initialised: its static pointers are the mapped addresses of the devices.\<close>

definition pcap_ready :: "'a tee_mach_scheme \<Rightarrow> bool" where
  "pcap_ready s \<longleftrightarrow> pcap s = tee_va s ZYNQMP_CSU_PCAP_BASE \<and> csu s = tee_va s CSU_BASE \<and>
     aes s = tee_va s ZYNQMP_CSU_AES_BASE \<and> crl_apb s = tee_va s CRL_APB_BASE \<and>
     pcap s \<noteq> 0 \<and> csu s \<noteq> 0 \<and> aes s \<noteq> 0 \<and> crl_apb s \<noteq> 0"

lemma csu_pcap_init_ready: "fst (csu_pcap_init s) = TEE_SUCCESS \<longleftrightarrow> pcap_ready (snd (csu_pcap_init s))"
  by (simp add: csu_pcap_init_def pcap_ready_def Let_def)

text \<open>No window of the other devices overlaps the registers of the DMA.\<close>

definition csu_windows :: "'a tee_mach_scheme \<Rightarrow> bool" where
  "csu_windows s \<longleftrightarrow> (\<forall>x \<in> set [(CSU_BASE, 0x1000), (ZYNQMP_CSU_AES_BASE, 0x1000), (ZYNQMP_CSU_PCAP_BASE, 0x1000), (CRL_APB_BASE, 0x2B0)].
     apart (tee_va s CSUDMA_BASE, 0x1000) (tee_va s (fst x), snd x))"

definition allw :: "'a tee_mach_scheme \<Rightarrow> addr set" where
  "allw s = dmaw s \<union> csuw s \<union> aesw s \<union> pcapw s \<union> crlw s"

lemma ready_env: "same_env s t \<Longrightarrow> pcap_ready t = pcap_ready s \<and> csu_windows t = csu_windows s \<and> allw t = allw s"
  by (simp add: same_env_def pcap_ready_def csu_windows_def allw_def)

text \<open>The writes that are no transfer: all windows but the three registers of the source channel.\<close>

definition quietw :: "'a tee_mach_scheme \<Rightarrow> addr set" where
  "quietw s = allw s - srcregs s"

lemma quietw_allw: "quietw s \<subseteq> allw s" "quietw s \<inter> srcregs s = {}"
  by (auto simp: quietw_def)

lemma allw_quietw:
  assumes "csu_windows s"
  shows "csuw s \<subseteq> quietw s" "aesw s \<subseteq> quietw s" "pcapw s \<subseteq> quietw s" "crlw s \<subseteq> quietw s"
    "dmaw s - srcregs s \<subseteq> quietw s"
proof -
  have "csuw s \<inter> dmaw s = {}" "aesw s \<inter> dmaw s = {}" "pcapw s \<inter> dmaw s = {}" "crlw s \<inter> dmaw s = {}"
    using assms unfolding csu_windows_def by (auto dest: apart_disjoint)
  then show "csuw s \<subseteq> quietw s" "aesw s \<subseteq> quietw s" "pcapw s \<subseteq> quietw s" "crlw s \<subseteq> quietw s"
    "dmaw s - srcregs s \<subseteq> quietw s"
    using srcregs_dmaw [of s] unfolding quietw_def allw_def by blast+
qed

lemma aes_win_allw: "csu_windows s \<Longrightarrow> aes_win (allw s) s"
  by (auto simp: csu_windows_def aes_win_def aes_apart_def allw_def)

lemma ram_read_touches: "touches W s (snd (ram_read32 a s))"
  by (simp add: ram_read32_def touches_def same_env_def)

lemma waitForEvent_touches: "waitForEvent a m v us s = Some (r, u) \<Longrightarrow> touches W s u"
  by (auto simp: waitForEvent_def split: bind_splits dest: poll_until_touches)

lemma waitForEvent_skips: "waitForEvent b m v us s = Some (r, u) \<Longrightarrow> b \<noteq> a \<Longrightarrow> skips a s u"
  by (auto simp: waitForEvent_def split: bind_splits dest: poll_until_skips)

lemma waitForEvent_seen:
  assumes "waitForEvent a m v us s = Some (0, u)"
  shows "\<exists>es x. m_evs u = m_evs s @ es @ [RD a x] \<and> x AND m = v"
proof -
  obtain st where "poll_until a (\<lambda>x. x AND m = v) (timeout_init_us us s) s = Some (Some st, u)"
    using assms by (auto simp: waitForEvent_def split: bind_splits if_splits)
  from poll_until_hit [OF this] show ?thesis by blast
qed

lemma ready_in:
  assumes "pcap_ready s" "csu_windows s"
  shows "k < 0x1000 \<Longrightarrow> pcap s + k \<in> quietw s" "k < 0x1000 \<Longrightarrow> aes s + k \<in> quietw s"
    "k < 0x1000 \<Longrightarrow> csu s + k \<in> quietw s" "k < 0x2B0 \<Longrightarrow> crl_apb s + k \<in> quietw s"
  using assms allw_quietw [OF assms(2)] win_self unfolding pcap_ready_def by (metis subsetD)+

lemma write_words_touches: "fst ` set ws \<subseteq> W \<Longrightarrow> touches W s (write_words ws s)"
proof (induction ws arbitrary: s)
  case (Cons w ws)
  then show ?case
    by (cases w) (auto intro: touches_trans [OF touches_write])
qed (simp add: touches_refl)

lemma write_words_env: "same_env s (write_words ws s)"
  using write_words_touches [of ws UNIV s] touches_env by blast

lemma secure_setup_touches:
  assumes "secure_setup s = Some (r, u)" "pcap_ready s" "csu_windows s"
  shows "touches (quietw s) s u"
proof -
  let ?w = "write_words (setup_writes s) s"
  have "fst ` set (setup_writes s) \<subseteq> quietw s"
    using ready_in [OF assms(2,3)] by (auto simp: setup_writes_def upt_rec add.assoc)
  then have 1: "touches (quietw s) s ?w" by (rule write_words_touches)
  obtain q t where t: "waitForEvent (aes ?w + AES_STATUS_OFFSET) AES_STS_KEY_INIT_DONE AES_STS_KEY_INIT_DONE TIMEOUT_USEC ?w = Some (q, t)"
    "zynqmp_csudma_prepare ZYNQMP_CSUDMA_SRC_CHANNEL t = (r, u)"
    using assms(1) unfolding secure_setup_def Let_def by (auto split: bind_splits)
  have 2: "touches (quietw s) s t" using touches_trans [OF 1 waitForEvent_touches [OF t(1)]] .
  have "touches (quietw s) t (snd (zynqmp_csudma_prepare ZYNQMP_CSUDMA_SRC_CHANNEL t))"
    using touches_env [OF 2] allw_quietw(5) [OF assms(3)]
    by (intro zynqmp_csudma_prepare_touches) (simp add: same_env_def srcregs_def)
  with 2 t(2) show ?thesis by (auto intro: touches_trans)
qed

lemma pcap_waitForDone_touches: "pcap_waitForDone s = Some (r, u) \<Longrightarrow> touches W s u"
  by (auto simp: pcap_waitForDone_def touches_refl split: if_splits intro: waitForEvent_touches)

text \<open>The wait for the logic to come up: a success has seen \<open>PL_DONE\<close>.\<close>

lemma pcap_waitForPLDone_touches:
  assumes "pcap_waitForPLDone s = Some (r, u)" "pcap_ready s" "csu_windows s"
  shows "touches (quietw s) s u"
    and "r = 0 \<Longrightarrow> \<exists>es x fs. m_evs u = m_evs s @ es @ [RD (pcap s + PCAP_STS_OFFSET) x] @ fs \<and> x AND 8 = 8"
proof -
  obtain q t where q: "waitForEvent (pcap s + PCAP_STS_OFFSET) PCAP_STS_PL_DONE_MASK PCAP_STS_PL_DONE_MASK TIMEOUT_USEC s = Some (q, t)"
    using assms(1,2) by (auto simp: pcap_waitForPLDone_def pcap_ready_def split: bind_splits)
  have t: "touches (quietw s) s t" using q by (rule waitForEvent_touches)
  have pc: "pcap t = pcap s" using touches_env [OF t] by (simp add: same_env_def)
  let ?u = "mmio_write_32 (pcap t + PCAP_RESET_OFFSET) 0 (mmio_write_32 (pcap t + PCAP_RESET_OFFSET) 1 t)"
  have cs: "(q \<noteq> 0 \<and> r = q \<and> u = t) \<or> (q = 0 \<and> r = 0 \<and> u = ?u)"
    using assms(1,2) q by (auto simp: pcap_waitForPLDone_def pcap_ready_def split: if_splits)
  have "touches (quietw s) t ?u"
    unfolding pc by (intro touches_trans [OF touches_write touches_write] ready_in(1) [OF assms(2,3)]) simp_all
  with t cs show "touches (quietw s) s u" by (auto intro: touches_trans)
  show "\<exists>es x fs. m_evs u = m_evs s @ es @ [RD (pcap s + PCAP_STS_OFFSET) x] @ fs \<and> x AND 8 = 8" if "r = 0"
  proof -
    from cs that have 0: "q = 0" "u = ?u" by auto
    with q waitForEvent_seen obtain es x where "m_evs t = m_evs s @ es @ [RD (pcap s + PCAP_STS_OFFSET) x]" "x AND 8 = 8"
      by metis
    then have "m_evs u = m_evs s @ es @ [RD (pcap s + PCAP_STS_OFFSET) x] @
        [WR (pcap t + PCAP_RESET_OFFSET) 1, WR (pcap t + PCAP_RESET_OFFSET) 0] \<and> x AND 8 = 8"
      using 0(2) by simp
    then show ?thesis by blast
  qed
qed

section \<open>The chain of blocks\<close>

text \<open>
  The specification: the blocks of an image whose secure headers announce the lengths \<open>ns\<close>.
  Each block starts behind the previous tag; its secure header follows the data and its tag
  follows the secure header.
\<close>

primrec data_blocks :: "addr \<Rightarrow> addr \<Rightarrow> u32 list \<Rightarrow> (addr \<times> u64 \<times> addr \<times> addr \<times> bool) list" where
  "data_blocks iv tag [] = []"
| "data_blocks iv tag (n # ns) =
     (tag + 16, ucast n, tag + 16 + ucast n + 48, iv, False) # data_blocks iv (tag + 16 + ucast n + 48) ns"

text \<open>The transfers of a list of blocks of which the first \<open>k\<close> of each are started.\<close>

definition stream_of :: "(addr \<Rightarrow> addr) \<Rightarrow> nat list \<Rightarrow> (addr \<times> u64 \<times> addr \<times> addr \<times> bool) list \<Rightarrow> (addr \<times> u32 \<times> bool) list" where
  "stream_of pa ks bs = concat (map2 (\<lambda>k b. take k (block_reqs pa b)) ks bs)"

text \<open>
  The length that a secure header announces, from the word \<open>v\<close> read in \<open>IV3\<close>: the number of words of the next
  block, most significant byte first.
\<close>

definition announced :: "u32 \<Rightarrow> u32" where
  "announced v = 4 * (2 ^ 24 * (v AND 0xFF) + 2 ^ 16 * (drop_bit 8 v AND 0xFF) + 2 ^ 8 * (drop_bit 16 v AND 0xFF) + drop_bit 24 v)"

lemma announced_swap: "endian_swap v * 4 = announced v"
proof -
  let ?b = "\<lambda>k. drop_bit k v AND 0xFF"
  have m: "(0xFF :: u32) = mask 8" by (simp add: mask_eq_exp_minus_1)
  have m2: "(0x0000FF00 :: u32) = push_bit 8 (mask 8)" "(0x00FF0000 :: u32) = push_bit 16 (mask 8)"
    by (simp_all add: mask_eq_exp_minus_1 push_bit_eq_mult)
  have "2 ^ 24 * ?b 0 + 2 ^ 16 * ?b 8 + 2 ^ 8 * ?b 16 + drop_bit 24 v =
      push_bit 24 (?b 0) + push_bit 16 (?b 8) + push_bit 8 (?b 16) + drop_bit 24 v"
    by (simp add: push_bit_eq_mult mult.commute)
  also have "push_bit 24 (?b 0) + push_bit 16 (?b 8) = push_bit 24 (?b 0) OR push_bit 16 (?b 8)"
    unfolding m by (rule disjunctive_add) (auto simp: bit_simps)
  also have "\<dots> + push_bit 8 (?b 16) = \<dots> OR push_bit 8 (?b 16)"
    unfolding m by (rule disjunctive_add) (auto simp: bit_simps)
  also have "\<dots> + drop_bit 24 v = \<dots> OR drop_bit 24 v"
    unfolding m by (rule disjunctive_add) (auto simp: bit_simps dest: bit_imp_le_length)
  also have "\<dots> = endian_swap v"
    unfolding endian_swap_def m m2
    by (intro bit_word_eqI) (auto simp: bit_simps)
  finally show ?thesis by (simp add: announced_def)
qed

text \<open>
  One round of the loop on the block \<open>blk\<close>, with the result \<open>ret\<close> of its decryption and the word \<open>v\<close> read
  from \<open>IV3\<close>: the first transfers of the block were started, all of them when the decryption succeeded or
  when the DMA is in time and can take the block; and \<open>IV3\<close> was read once, as far as its address is
  no status register of another device.
\<close>

abbreviation (input) iv3 :: "'a tee_mach_scheme \<Rightarrow> addr" where "iv3 s \<equiv> aes s + AES_IV3_OFFSET"

definition round_run :: "addr \<times> u64 \<times> addr \<times> addr \<times> bool \<Rightarrow> u32 \<Rightarrow> u32 \<Rightarrow> 'a tee_mach_scheme \<Rightarrow> 'a tee_mach_scheme \<Rightarrow> bool" where
  "round_run blk ret v s u \<longleftrightarrow> pushes (allw s) (block_reqs (tee_pa s) blk) ret s u \<and>
     (dma_prompt s \<and> dma_ok (tee_pa s) blk \<longrightarrow> pushes (allw s) (block_reqs (tee_pa s) blk) 0 s u) \<and>
     (unpolled (iv3 s) s \<longrightarrow> reads_at (iv3 s) (since s u) = [v])"

text \<open>
  The loop from a block on: \<open>vs\<close> are the words read from \<open>IV3\<close>, one per block; each but the last announces the
  block that follows.
\<close>

definition chain_run ::
  "u32 \<Rightarrow> addr \<times> u64 \<times> addr \<times> addr \<times> bool \<Rightarrow> addr \<Rightarrow> u32 \<Rightarrow> 'a tee_mach_scheme \<Rightarrow> u32 + u32 \<Rightarrow> 'a tee_mach_scheme \<Rightarrow> bool" where
  "chain_run U blk tag cur s r s' \<longleftrightarrow> touches (allw s) s s' \<and>
     (\<exists>vs ks. let ns = map announced (butlast vs); bs = blk # data_blocks (aes s + AES_IV0_OFFSET) tag ns in
        vs \<noteq> [] \<and> length ks = length vs \<and> 0 \<notin> set ns \<and>
        (unpolled (iv3 s) s \<longrightarrow> reads_at (iv3 s) (since s s') = vs) \<and>
        dma_sends (tee_va s CSUDMA_BASE) (stream_of (tee_pa s) ks bs) s s' \<and>
        (dma_prompt s \<longrightarrow> (\<forall>i < length bs. dma_ok (tee_pa s) (bs ! i) \<longrightarrow> ks ! i = 4)) \<and>
        (\<forall>q. r = Inl q \<longrightarrow> q \<noteq> 0) \<and>
        (\<forall>q. r = Inr q \<longrightarrow> announced (last vs) = 0 \<and> cur + sum_list ns = U \<and> (q = 0 \<longrightarrow> last ks = 4)))"

lemma block_reqs_length: "length (block_reqs pa b) \<le> 4"
  by (cases b) (simp add: block_reqs_def)

lemma pushes_four: "pushes W (block_reqs pa b) 0 s t \<Longrightarrow> dma_sends (tee_va s CSUDMA_BASE) (take 4 (block_reqs pa b)) s t"
  using block_reqs_length [of pa b] unfolding pushes_def by auto

text \<open>The number of transfers of a round.\<close>

lemma round_run_count:
  assumes "round_run blk ret v s u"
  obtains k where "dma_sends (tee_va s CSUDMA_BASE) (take k (block_reqs (tee_pa s) blk)) s u" "ret = 0 \<longrightarrow> k = 4"
    "dma_prompt s \<longrightarrow> dma_ok (tee_pa s) blk \<longrightarrow> k = 4"
proof (cases "ret = 0 \<or> dma_prompt s \<and> dma_ok (tee_pa s) blk")
  case True
  then have "pushes (allw s) (block_reqs (tee_pa s) blk) 0 s u" using assms by (auto simp: round_run_def)
  from that [OF pushes_four [OF this]] show thesis by simp
next
  case False
  then show thesis using that assms unfolding round_run_def pushes_def by blast
qed

lemma unpolled_env: "same_env s t \<Longrightarrow> unpolled a t = unpolled a s"
  by (simp add: same_env_def unpolled_def)

lemma since_via: "touches V s t \<Longrightarrow> touches W t u \<Longrightarrow> since s u = since s t @ since t u"
  by (auto simp: touches_def since_def)

lemma round_run_touches: "round_run blk ret v s u \<Longrightarrow> touches (allw s) s u"
  by (simp add: round_run_def pushes_def)

lemma chain_run_stop:
  assumes p: "round_run blk ret v s u"
    and r: "(\<exists>e. r = Inl e \<and> e \<noteq> 0) \<or> r = Inr ret \<and> cur = U \<and> announced v = 0"
  shows "chain_run U blk tag cur s r u"
proof -
  obtain k where k: "dma_sends (tee_va s CSUDMA_BASE) (take k (block_reqs (tee_pa s) blk)) s u" "ret = 0 \<longrightarrow> k = 4"
    "dma_prompt s \<longrightarrow> dma_ok (tee_pa s) blk \<longrightarrow> k = 4" by (rule round_run_count [OF p])
  then show ?thesis
    unfolding chain_run_def Let_def using r round_run_touches [OF p] p
    by (intro conjI exI [of _ "[v]"] exI [of _ "[k]"]) (auto simp: stream_of_def round_run_def)
qed

lemma chain_run_next:
  assumes p: "round_run blk ret v s u" and n: "n = announced v" "n \<noteq> 0"
    and c: "chain_run U (tag + 16, ucast n, tag + 16 + ucast n + 48, aes s + AES_IV0_OFFSET, False)
      (tag + 16 + ucast n + 48) (cur + n) u r s'"
  shows "chain_run U blk tag cur s r s'"
proof -
  obtain k where k: "dma_sends (tee_va s CSUDMA_BASE) (take k (block_reqs (tee_pa s) blk)) s u"
    "dma_prompt s \<longrightarrow> dma_ok (tee_pa s) blk \<longrightarrow> k = 4" by (rule round_run_count [OF p])
  have su: "touches (allw s) s u" by (rule round_run_touches [OF p])
  have e: "same_env s u" by (rule touches_env [OF su])
  let ?bs = "\<lambda>vs. data_blocks (aes s + AES_IV0_OFFSET) tag (map announced (v # butlast vs))"
  obtain vs ks where vs: "vs \<noteq> []" "length ks = length vs" "0 \<notin> announced ` set (butlast vs)"
    "unpolled (iv3 s) s \<longrightarrow> reads_at (iv3 s) (since u s') = vs"
    "dma_sends (tee_va s CSUDMA_BASE) (stream_of (tee_pa s) ks (?bs vs)) u s'"
    "dma_prompt s \<longrightarrow> (\<forall>i < length (?bs vs). dma_ok (tee_pa s) (?bs vs ! i) \<longrightarrow> ks ! i = 4)"
    "\<forall>q. r = Inl q \<longrightarrow> q \<noteq> 0"
    "\<forall>q. r = Inr q \<longrightarrow> announced (last vs) = 0 \<and> cur + n + sum_list (map announced (butlast vs)) = U \<and> (q = 0 \<longrightarrow> last ks = 4)"
    using c e n(1) unpolled_env [OF e] dma_prompt_env [OF e] unfolding chain_run_def Let_def by (auto simp: same_env_def)
  have us: "touches (allw s) u s'" using c ready_env [OF e] by (simp add: chain_run_def)
  have "unpolled (iv3 s) s \<longrightarrow> reads_at (iv3 s) (since s s') = v # vs"
    using p vs(4) since_via [OF su us] by (simp add: round_run_def)
  moreover have "dma_sends (tee_va s CSUDMA_BASE) (stream_of (tee_pa s) (k # ks) (blk # ?bs vs)) s s'"
    using dma_sends_trans [OF k(1) vs(5)] by (simp add: stream_of_def)
  moreover have "dma_prompt s \<longrightarrow> (\<forall>i < length (blk # ?bs vs). dma_ok (tee_pa s) ((blk # ?bs vs) ! i) \<longrightarrow> (k # ks) ! i = 4)"
    using k(2) vs(6) by (auto simp: less_Suc_eq_0_disj)
  moreover have "ks \<noteq> []" using vs(1,2) by auto
  ultimately show ?thesis
    unfolding chain_run_def Let_def using touches_trans [OF su us] vs n
    by (intro conjI exI [of _ "v # vs"] exI [of _ "k # ks"])
      (auto simp: ac_simps)
qed

text \<open>What a round does with the announced length \<open>n\<close>, and that the block it names continues the chain.\<close>

definition next_of :: "u32 \<Rightarrow> addr \<Rightarrow> u32 \<Rightarrow> u32 \<Rightarrow> u32 \<Rightarrow> addr \<Rightarrow> (u32 + u32) + (addr \<times> u32 \<times> addr \<times> u32) \<Rightarrow> addr \<Rightarrow> bool" where
  "next_of U tag cur ret n iv out iv' \<longleftrightarrow>
     (\<exists>e. out = Inl (Inl e) \<and> e \<noteq> 0) \<or> (out = Inl (Inr ret) \<and> cur = U \<and> n = 0) \<or>
     (n \<noteq> 0 \<and> cur + n \<le> U \<and> out = Inr (tag + 16, n, tag + 16 + ucast n + 48, cur + n) \<and> iv' = iv)"

lemma secure_next_cases:
  assumes run: "secure_next U tag cur ret n s = Some (out, u)" and rd: "pcap_ready s" "csu_windows s"
  shows "touches (quietw s) s u \<and> next_of U tag cur ret n (aes s + AES_IV0_OFFSET) out (bs_iv u)"
proof -
  define t where "t = mmio_write_32 (aes s + AES_KEY_LOAD_OFFSET) 1 s"
  have t: "touches (quietw s) s t" unfolding t_def by (intro touches_write ready_in(2) [OF rd]) simp
  consider (ret) "n = 0" "cur \<noteq> U" | (brk) "n = 0" "cur = U" | (big) "n \<noteq> 0" "U < cur + n" | (wait) "n \<noteq> 0" "cur + n \<le> U"
    by fastforce
  then show ?thesis
  proof cases
    case wait
    then obtain q w where w: "waitForEvent (aes s + AES_STATUS_OFFSET) AES_STS_KEY_INIT_DONE AES_STS_KEY_INIT_DONE TIMEOUT_USEC t = Some (q, w)"
      and o: "(if q \<noteq> 0 then Some (Inl (Inl TEE_ERROR_GENERIC), w) else
          Some (Inr (tag + 16, n, tag + 16 + ucast n + 48, cur + n), w\<lparr>bs_iv := aes w + AES_IV0_OFFSET\<rparr>)) = Some (out, u)"
      using run [unfolded secure_next_def Let_def] wait(1) by (auto simp: t_def leD [OF wait(2)] split: bind_splits)
    have tw: "touches (quietw s) s w" using touches_trans [OF t waitForEvent_touches [OF w]] .
    then have "aes w = aes s" "touches (quietw s) s (w\<lparr>bs_iv := aes w + AES_IV0_OFFSET\<rparr>)"
      by (simp_all add: touches_def same_env_def)
    note w' = this
    show ?thesis
    proof (cases "q = 0")
      case True
      with o have "u = w\<lparr>bs_iv := aes w + AES_IV0_OFFSET\<rparr>" "out = Inr (tag + 16, n, tag + 16 + ucast n + 48, cur + n)"
        by simp_all
      then show ?thesis using w' wait by (simp add: next_of_def)
    next
      case False
      with o have "u = w" "out = Inl (Inl TEE_ERROR_GENERIC)" by simp_all
      then show ?thesis using tw by (simp add: next_of_def)
    qed
  next
    case ret
    then have "u = s" "out = Inl (Inl TEE_ERROR_GENERIC)" using run by (simp_all add: secure_next_def)
    then show ?thesis by (simp add: next_of_def touches_refl)
  next
    case brk
    then have "u = s" "out = Inl (Inr ret)" using run by (simp_all add: secure_next_def)
    then show ?thesis using brk by (simp add: next_of_def touches_refl)
  next
    case big
    then have "u = s" "out = Inl (Inl TEE_ERROR_GENERIC)" using run by (simp_all add: secure_next_def)
    then show ?thesis by (simp add: next_of_def touches_refl)
  qed
qed

lemma secure_next_skips:
  assumes run: "secure_next U tag cur ret n s = Some (out, u)" and a: "aes s \<noteq> a"
  shows "skips a s u"
proof (cases "n = 0 \<or> cur + n > U")
  case True
  then have "u = s" using run by (auto simp: secure_next_def Let_def split: if_splits)
  then show ?thesis by (simp add: skp.R_refl)
next
  case False
  let ?t = "mmio_write_32 (aes s + AES_KEY_LOAD_OFFSET) 1 s"
  obtain q w where w: "waitForEvent (aes s) AES_STS_KEY_INIT_DONE AES_STS_KEY_INIT_DONE TIMEOUT_USEC ?t = Some (q, w)"
    "u = w \<or> u = w\<lparr>bs_iv := aes w + AES_IV0_OFFSET\<rparr>"
    using run False by (auto simp: secure_next_def Let_def split: bind_splits if_splits)
  have "skips a s w" using skips_trans [OF skips_bus(1) waitForEvent_skips [OF w(1) a]] .
  with w(2) show ?thesis by (auto simp: skips_def same_env_def)
qed

lemma secure_block_cases:
  assumes run: "secure_block U enc nxt tag cur bt s = Some (out, u)" and rd: "pcap_ready s" "csu_windows s"
  obtains ret k x v where "v = m_hw s k (aes s + AES_IV3_OFFSET) x"
    "round_run (enc, ucast nxt, tag, bs_iv s, bt = 0) ret v s u"
    "next_of U tag cur ret (announced v) (aes s + AES_IV0_OFFSET) out (bs_iv u)"
proof -
  let ?blk = "(enc, ucast nxt, tag, bs_iv s, bt = 0)"
  obtain ret t where t: "zynqmp_csu_aes_decrypt_data enc (ucast nxt) tag (bs_iv s) bt s = Some (ret, t)"
    and n: "secure_next U tag cur ret (endian_swap (fst (mmio_read_32 (aes t + AES_IV3_OFFSET) t)) * 4)
       (snd (mmio_read_32 (aes t + AES_IV3_OFFSET) t)) = Some (out, u)"
    using run by (auto simp: secure_block_def case_prod_unfold split: bind_splits)
  have p: "pushes (allw s) (block_reqs (tee_pa s) ?blk) ret s t"
    by (rule pshD [OF psh_decrypt_data [OF aes_win_allw [OF rd(2)]] t same_env_refl])
  have full: "pushes (allw s) (block_reqs (tee_pa s) ?blk) 0 s t" if "dma_prompt s" "dma_ok (tee_pa s) ?blk"
    by (rule psfD [OF psf_decrypt_data [OF aes_win_allw [OF rd(2)] that(1) _ that(2)] t same_env_refl])
      (use rd(1) in \<open>auto simp: pcap_ready_def\<close>)
  let ?t1 = "snd (mmio_read_32 (aes t + AES_IV3_OFFSET) t)" and ?v = "fst (mmio_read_32 (aes t + AES_IV3_OFFSET) t)"
  have e: "same_env s t" using p by (rule pushes_env)
  then have e1: "same_env s ?t1" and aes: "aes t = aes s" by (simp_all add: same_env_def)
  have q: "quietw ?t1 = quietw s" using ready_env [OF e1] srcregs_env [OF e1] by (simp add: quietw_def)
  have nx: "touches (quietw s) ?t1 u \<and> next_of U tag cur ret (endian_swap ?v * 4) (aes s + AES_IV0_OFFSET) out (bs_iv u)"
    using secure_next_cases [OF n] ready_env [OF e1] rd q aes by simp
  then have tu: "touches (quietw s) t u" using touches_trans [OF touches_read] by blast
  have after: "pushes (allw s) rs r s u" if "pushes (allw s) rs r s t" for rs r
    by (rule pushes_after [OF that tu]) (simp_all add: quietw_allw)
  have rds: "reads_at (iv3 s) (since s u) = [?v]" if un: "unpolled (iv3 s) s"
  proof -
    have "skips (iv3 s) s t" by (rule skp.from_onD [OF skp_decrypt_data [OF un] skp.R_refl t])
    moreover have "skips (iv3 s) ?t1 u"
      by (rule secure_next_skips [OF n]) (use aes in simp)
    ultimately show ?thesis by (auto simp: skips_def since_def aes)
  qed
  have rr: "round_run ?blk ret ?v s u" using after [OF p] after [OF full] rds by (auto simp: round_run_def)
  have vv: "?v = m_hw s (m_now t) (iv3 s) (m_regs t (iv3 s))" using e by (simp add: same_env_def)
  show thesis by (rule that [OF vv rr]) (use nx in \<open>simp only: announced_swap\<close>)
qed

text \<open>The loop is the chain: every return of it has streamed the blocks the headers announced.\<close>

lemma secure_blocks_chain:
  assumes ret: "secure_blocks U enc nxt tag cur bt s = Some (r, s')"
    and rd: "pcap_ready s" "csu_windows s"
  shows "chain_run U (enc, ucast nxt, tag, bs_iv s, bt = 0) tag cur s r s'"
proof -
  let ?P = "\<lambda>U enc nxt tag cur bt s x. pcap_ready s \<longrightarrow> csu_windows s \<longrightarrow>
      chain_run U (enc, ucast nxt, tag, bs_iv s, bt = 0) tag cur s (fst x) (snd x)"
  have "?P U enc nxt tag cur bt s (r, s')"
  proof (rule secure_blocks.raw_induct [where P = ?P, OF _ ret], intro impI)
    fix f :: "u32 \<Rightarrow> addr \<Rightarrow> u32 \<Rightarrow> addr \<Rightarrow> u32 \<Rightarrow> u32 \<Rightarrow> 'a tee_mach_scheme \<Rightarrow> ((u32 + u32) \<times> 'a tee_mach_scheme) option"
      and U enc nxt tag cur bt s x
    assume IH: "\<And>U enc nxt tag cur bt s x. f U enc nxt tag cur bt s = Some x \<Longrightarrow> ?P U enc nxt tag cur bt s x"
      and run: "secure_block U enc nxt tag cur bt s \<bind> (\<lambda>(out, s). case out of Inl r \<Rightarrow> Some (r, s)
        | Inr (enc, n, tag, cur) \<Rightarrow> f U enc n tag cur AES_BLK_TYPE_DATA_BLOCK s) = Some x"
      and rd: "pcap_ready s" "csu_windows s"
    obtain out u where u: "secure_block U enc nxt tag cur bt s = Some (out, u)"
      using run by (auto split: bind_splits)
    show "chain_run U (enc, ucast nxt, tag, bs_iv s, bt = 0) tag cur s (fst x) (snd x)"
      using u rd
    proof (rule secure_block_cases)
      fix ret k y v
      assume p: "round_run (enc, ucast nxt, tag, bs_iv s, bt = 0) ret v s u"
        and cs: "next_of U tag cur ret (announced v) (aes s + AES_IV0_OFFSET) out (bs_iv u)"
      have e: "same_env s u" by (rule touches_env [OF round_run_touches [OF p]])
      show ?thesis
      proof (cases out)
        case (Inl r)
        then have "x = (r, u)" using run u by simp
        with Inl cs show ?thesis by (auto simp: next_of_def intro!: chain_run_stop [OF p])
      next
        case (Inr o')
        define n where "n = announced v"
        have n: "n \<noteq> 0" "out = Inr (tag + 16, n, tag + 16 + ucast n + 48, cur + n)"
          "bs_iv u = aes s + AES_IV0_OFFSET" using cs Inr by (auto simp: next_of_def n_def)
        then have "f U (tag + 16) n (tag + 16 + ucast n + 48) (cur + n) 1 u = Some x" using run u by simp
        from IH [OF this] have "chain_run U (tag + 16, ucast n, tag + 16 + ucast n + 48, aes s + AES_IV0_OFFSET, False)
            (tag + 16 + ucast n + 48) (cur + n) u (fst x) (snd x)"
          using ready_env [OF e] rd n(3) by simp
        then show ?thesis by (rule chain_run_next [OF p n_def n(1)])
      qed
    qed
  qed
  then show ?thesis using rd by simp
qed

section \<open>Writing an encrypted image\<close>

text \<open>
  What the image's header table says: where the encrypted data starts and how long the data
  is; and the blocks of the image for the announced lengths \<open>ns\<close>.
\<close>

definition header_table :: "'a tee_mach_scheme \<Rightarrow> addr \<Rightarrow> addr" where
  "header_table s a = a + ucast (mem_word s (a + HEADER_TABLE_OFFSET))"

definition image_start :: "'a tee_mach_scheme \<Rightarrow> addr \<Rightarrow> addr" where
  "image_start s a = a + ucast (mem_word s (header_table s a + 0x20) * 4)"

definition image_len :: "'a tee_mach_scheme \<Rightarrow> addr \<Rightarrow> u32" where
  "image_len s a = mem_word s (header_table s a + 0x4) * 4"

definition image_blocks :: "'a tee_mach_scheme \<Rightarrow> addr \<Rightarrow> u32 list \<Rightarrow> (addr \<times> u64 \<times> addr \<times> addr \<times> bool) list" where
  "image_blocks s a ns =
     (image_start s a, 0, image_start s a + 48, bs_iv s, True) #
     data_blocks (aes s + AES_IV0_OFFSET) (image_start s a + 48) ns"

text \<open>The reads of the header table, which lead to the state in which the streaming starts.\<close>

definition header_read :: "addr \<Rightarrow> 'a tee_mach_scheme \<Rightarrow> 'a tee_mach_scheme" where
  "header_read a s = snd (ram_read32 (header_table s a + 0x4) (snd (ram_read32 (header_table s a + 0x20)
     (snd (ram_read32 (a + HEADER_TABLE_OFFSET) s)))))"

lemma ram_read_fields [simp]:
  "fst (ram_read32 a s) = mem_word s a" "mem_word (snd (ram_read32 a s)) = mem_word s"
  "bs_iv (snd (ram_read32 a s)) = bs_iv s" "csu (snd (ram_read32 a s)) = csu s" "aes (snd (ram_read32 a s)) = aes s"
  by (simp_all add: ram_read32_def mem_word_def fun_eq_iff)

lemma header_read_fields: "bs_iv (header_read a s) = bs_iv s" "touches W s (header_read a s)"
  unfolding header_read_def
  by (simp, rule touches_trans [OF touches_trans [OF ram_read_touches ram_read_touches] ram_read_touches])

lemma secure_write_unfold:
  "zynqmp_csu_secure_pcap_write a len s = secure_stream (image_len s a) (image_start s a) (header_read a s)"
  by (simp add: zynqmp_csu_secure_pcap_write_def header_read_def image_len_def image_start_def header_table_def
      Let_def case_prod_unfold)

text \<open>Streaming: the blocks of the chain, in order, and on success the logic has come up.\<close>

definition pl_done :: "'a tee_mach_scheme \<Rightarrow> 'a tee_mach_scheme \<Rightarrow> bool" where
  "pl_done s s' \<longleftrightarrow> (\<exists>x. RD (pcap s + PCAP_STS_OFFSET) x \<in> set (since s s') \<and> x AND PCAP_STS_PL_DONE_MASK = PCAP_STS_PL_DONE_MASK)"

lemma pl_doneI:
  assumes "touches W s t" "m_evs u = m_evs t @ es @ [RD (pcap s + PCAP_STS_OFFSET) x] @ fs" "x AND 8 = 8"
  shows "pl_done s u"
proof -
  obtain gs where "m_evs t = m_evs s @ gs" using assms(1) by (auto simp: touches_def)
  then have "since s u = gs @ es @ [RD (pcap s + PCAP_STS_OFFSET) x] @ fs" using assms(2) by (simp add: since_def)
  then show ?thesis using assms(3) unfolding pl_done_def by (intro exI [of _ x]) simp
qed

lemma pl_done_before:
  assumes "touches W s t" "touches V t u" "pl_done t u"
  shows "pl_done s u"
proof -
  obtain es fs where "m_evs t = m_evs s @ es" "m_evs u = m_evs t @ fs" using assms(1,2) unfolding touches_def by blast
  then have "since s u = es @ since t u" by (simp add: since_def)
  then show ?thesis using assms(3) touches_env [OF assms(1)] by (auto simp: pl_done_def same_env_def)
qed

lemma chain_run_after:
  assumes c: "chain_run U blk tag cur s r t" and q: "touches (quietw s) t u" and k: "unpolled (iv3 s) s \<longrightarrow> skips (iv3 s) t u"
  shows "chain_run U blk tag cur s r u"
proof -
  have "dma_sends (tee_va s CSUDMA_BASE) [] t u"
    using quietw_allw(2) [of s] by (intro dma_sends_quiet [OF q]) (auto simp: srcregs_def)
  then have 1: "dma_sends (tee_va s CSUDMA_BASE) rs s t \<Longrightarrow> dma_sends (tee_va s CSUDMA_BASE) rs s u" for rs
    using dma_sends_trans [of "tee_va s CSUDMA_BASE" rs s t "[]" u] by simp
  have st: "touches (allw s) s t" using c by (simp add: chain_run_def)
  have 2: "touches (allw s) s u" by (rule touches_trans [OF st touches_mono [OF q quietw_allw(1)]])
  have 3: "reads_at (iv3 s) (since s u) = reads_at (iv3 s) (since s t)" if "unpolled (iv3 s) s"
    using k that since_via [OF st q] by (auto simp: skips_def since_def)
  show ?thesis using c 2 unfolding chain_run_def Let_def by (elim conjE exE, intro conjI exI) (auto simp: 1 3)
qed

lemma chain_run_before:
  assumes q: "touches (quietw s) s t" and k: "unpolled (iv3 s) s \<longrightarrow> skips (iv3 s) s t" and c: "chain_run U blk tag cur t r u"
  shows "chain_run U blk tag cur s r u"
proof -
  have e: "same_env s t" by (rule touches_env [OF q])
  have env: "tee_va t = tee_va s" "tee_pa t = tee_pa s" "aes t = aes s" "allw t = allw s" "unpolled a t = unpolled a s"
    "dma_prompt t = dma_prompt s" for a
    using e ready_env [OF e] unpolled_env [OF e] dma_prompt_env [OF e] by (simp_all add: same_env_def)
  have "dma_sends (tee_va s CSUDMA_BASE) [] s t"
    using quietw_allw(2) [of s] by (intro dma_sends_quiet [OF q]) (auto simp: srcregs_def)
  then have 1: "dma_sends (tee_va s CSUDMA_BASE) rs t u \<Longrightarrow> dma_sends (tee_va s CSUDMA_BASE) rs s u" for rs
    using dma_sends_trans [of "tee_va s CSUDMA_BASE" "[]" s t rs u] by simp
  have tu: "touches (allw s) t u" using c env by (simp add: chain_run_def)
  have 2: "touches (allw s) s u" by (rule touches_trans [OF touches_mono [OF q quietw_allw(1)] tu])
  have 3: "reads_at (iv3 s) (since s u) = reads_at (iv3 s) (since t u)" if "unpolled (iv3 s) s"
    using k that since_via [OF q tu] by (auto simp: skips_def since_def)
  show ?thesis using c 2 unfolding chain_run_def Let_def env by (elim conjE exE, intro conjI exI) (auto simp: 1 3)
qed

lemma more_bs_iv: "mach.more t = mach.more s \<Longrightarrow> bs_iv t = bs_iv s"
  by (cases s, cases t) simp

lemma poll_until_bs_iv: "poll_until a stop tref s = Some (r, u) \<Longrightarrow> bs_iv u = bs_iv s"
  using poll_until_Some [of a stop tref s "(r, u)"] by (auto simp: polled_def intro: more_bs_iv)

lemma write_words_bs_iv [simp]: "bs_iv (write_words ws s) = bs_iv s"
  by (rule more_bs_iv) simp

lemma secure_setup_bs_iv: "secure_setup s = Some (r, u) \<Longrightarrow> bs_iv u = bs_iv s"
  by (auto simp: secure_setup_def waitForEvent_def zynqmp_csudma_prepare_def mmio_setbits_32_def Let_def case_prod_unfold
      dest!: poll_until_bs_iv split: bind_splits if_splits intro: more_bs_iv)

text \<open>The set-up and the final waits do not read \<open>IV3\<close>.\<close>

lemma secure_setup_skips:
  assumes "secure_setup s = Some (r, u)" "unpolled a s" "pcap_ready s"
  shows "skips a s u"
proof -
  let ?w = "write_words (setup_writes s) s"
  have "reads_of (map (\<lambda>(x, y). WR x y) ws) = []" for ws by (induction ws) auto
  then have 1: "skips a s ?w"
    using write_words_env [of s] by (auto simp: skips_def reads_at_def)
  obtain q t where t: "waitForEvent (aes ?w) AES_STS_KEY_INIT_DONE AES_STS_KEY_INIT_DONE TIMEOUT_USEC ?w = Some (q, t)"
    "zynqmp_csudma_prepare ZYNQMP_CSUDMA_SRC_CHANNEL t = (r, u)"
    using assms(1) unfolding secure_setup_def Let_def by (auto split: bind_splits)
  have "aes ?w \<noteq> a" using skips_env [OF 1] assms(2,3) by (simp add: same_env_def unpolled_def pcap_ready_def)
  then have 2: "skips a s t" by (rule skips_trans [OF 1 waitForEvent_skips [OF t(1)]])
  from skips_trans [OF this skp_prepare(1) [OF assms(2) this]] t(2) show ?thesis by simp
qed

lemma pcap_wait_skips:
  assumes "unpolled a s" "pcap_ready s"
  shows "pcap_waitForDone s = Some (r, u) \<Longrightarrow> skips a s u" "pcap_waitForPLDone s = Some (r, u) \<Longrightarrow> skips a s u"
proof -
  have neq: "pcap s + PCAP_STS_OFFSET \<noteq> a" using assms by (simp add: unpolled_def pcap_ready_def)
  show "pcap_waitForDone s = Some (r, u) \<Longrightarrow> skips a s u"
    using neq by (auto simp: pcap_waitForDone_def skp.R_refl split: if_splits intro: waitForEvent_skips)
  show "pcap_waitForPLDone s = Some (r, u) \<Longrightarrow> skips a s u"
    using neq by (auto simp: pcap_waitForPLDone_def Let_def skp.R_refl split: if_splits bind_splits
        dest!: waitForEvent_skips [where a = a] intro!: skips_trans [OF skips_trans [OF _ skips_bus(1)] skips_bus(1)])
qed

lemma secure_stream_run:
  assumes run: "secure_stream U enc s = Some (r, s')" and rd: "pcap_ready s" "csu_windows s"
  obtains q where "chain_run U (enc, 0, enc + 48, bs_iv s, True) (enc + 48) 0 s q s'" "r = 0 \<longrightarrow> q = Inr 0 \<and> pl_done s s'"
proof -
  obtain ret t x u where t: "secure_setup s = Some (ret, t)"
    and u: "secure_blocks U enc 0 (enc + 48) 0 0 t = Some (x, u)"
    and fin: "(case x of Inl ret \<Rightarrow> Some (ret, u)
        | Inr ret \<Rightarrow> if ret \<noteq> 0 then Some (ret, u)
            else pcap_waitForDone u \<bind> (\<lambda>(ret, t). if ret \<noteq> 0 then Some (ret, t) else pcap_waitForPLDone t)) = Some (r, s')"
    using run rd(1) by (auto simp: secure_stream_def pcap_ready_def split: bind_splits)
  have st: "touches (quietw s) s t" by (rule secure_setup_touches [OF t rd])
  have e: "same_env s t" by (rule touches_env [OF st])
  have "chain_run U (enc, 0, enc + 48, bs_iv t, True) (enc + 48) 0 t x u"
    using secure_blocks_chain [OF u] ready_env [OF e] rd by simp
  then have c: "chain_run U (enc, 0, enc + 48, bs_iv s, True) (enc + 48) 0 s x u"
    using secure_setup_bs_iv [OF t] secure_setup_skips [OF t] rd(1) by (auto intro: chain_run_before [OF st])
  have su: "touches (allw s) s u" using c by (simp add: chain_run_def)
  have eu: "same_env s u" by (rule touches_env [OF su])
  have ru: "pcap_ready u" using ready_env [OF eu] rd by simp
  consider (fail) "r \<noteq> 0" "s' = u" | (busy) "r \<noteq> 0" "pcap_waitForDone u = Some (r, s')"
    | (pl) w where "x = Inr 0" "pcap_waitForDone u = Some (0, w)" "pcap_waitForPLDone w = Some (r, s')"
    using fin c unfolding chain_run_def Let_def by (auto split: sum.splits if_splits bind_splits)
  then show thesis
  proof cases
    case fail
    then show thesis using that c by simp
  next
    case busy
    have "touches (quietw s) u s'" using busy(2) by (rule pcap_waitForDone_touches)
    moreover have "unpolled (iv3 s) s \<longrightarrow> skips (iv3 s) u s'"
      using pcap_wait_skips(1) [OF _ _ busy(2)] ru unpolled_env [OF eu] by blast
    ultimately show thesis using that [OF chain_run_after [OF c]] busy(1) by blast
  next
    case (pl w)
    have uw: "touches V u w" for V using pl(2) by (rule pcap_waitForDone_touches)
    have sw: "touches (allw s) s w" by (rule touches_trans [OF su uw])
    have ew: "same_env s w" by (rule touches_env [OF sw])
    have q: "quietw w = quietw s" using ready_env [OF ew] srcregs_env [OF ew] by (simp add: quietw_def)
    have rw: "pcap_ready w" "csu_windows w" using ready_env [OF ew] rd by simp_all
    have "touches (quietw s) u s'"
      using touches_trans [OF uw pcap_waitForPLDone_touches(1) [OF pl(3) rw, unfolded q]] .
    moreover have "r = 0 \<longrightarrow> pl_done s s'"
      using pcap_waitForPLDone_touches(2) [OF pl(3) rw] ew pl_doneI [OF sw] by (auto simp: same_env_def)
    moreover have "unpolled (iv3 s) s \<longrightarrow> skips (iv3 s) u s'"
      using pcap_wait_skips(1) [OF _ ru pl(2)] pcap_wait_skips(2) [OF _ rw(1) pl(3)] unpolled_env [OF eu] unpolled_env [OF ew]
      by (blast intro: skips_trans)
    ultimately show thesis using that [OF chain_run_after [OF c]] pl(1) by blast
  qed
qed

section \<open>Runs on responsive devices\<close>

text \<open>
  Devices that answer at once: every wait of the drivers is over at its first read.  On them a
  run can be followed tick by tick, whatever the check of the tags says.
\<close>

definition responsive :: "'a tee_mach_scheme \<Rightarrow> bool" where
  "responsive s \<longleftrightarrow> (\<forall>t v.
     (\<forall>us. \<not> tee_late s t us t) \<and>
     m_hw s t (tee_va s CSUDMA_BASE + CSUDMA_I_STS_OFFSET) v AND 2 = 2 \<and>
     m_hw s t (tee_va s ZYNQMP_CSU_AES_BASE) v AND 0x10 = 0x10 \<and>
     m_hw s t (tee_va s ZYNQMP_CSU_AES_BASE) v AND 1 \<noteq> 1 \<and>
     m_hw s t (tee_va s ZYNQMP_CSU_PCAP_BASE + PCAP_STS_OFFSET) v AND 1 = 1 \<and>
     m_hw s t (tee_va s ZYNQMP_CSU_PCAP_BASE + PCAP_STS_OFFSET) v AND 4 = 4 \<and>
     m_hw s t (tee_va s ZYNQMP_CSU_PCAP_BASE + PCAP_STS_OFFSET) v AND 8 = 8 \<and>
     m_hw s t (tee_va s ZYNQMP_CSU_PCAP_BASE + PCAP_STS_OFFSET) v AND 0x200 \<noteq> 0) \<and>
     tee_va s CSUDMA_BASE \<noteq> 0 \<and> pcap_ready s"

text \<open>\<open>k\<close> ticks later in the same environment.\<close>

definition adv :: "nat \<Rightarrow> 'a tee_mach_scheme \<Rightarrow> 'a tee_mach_scheme \<Rightarrow> bool" where
  "adv k s u \<longleftrightarrow> same_env s u \<and> bs_iv u = bs_iv s \<and> m_now u = m_now s + k"

lemma adv_trans: "adv i s t \<Longrightarrow> adv j t u \<Longrightarrow> adv (i + j) s u"
  unfolding adv_def by (auto intro: same_env_trans)

lemma adv_write: "adv 1 s (mmio_write_32 a v s)" and adv_read: "adv 1 s (snd (mmio_read_32 a s))"
  by (simp_all add: adv_def same_env_def)

lemma responsive_adv: "adv k s u \<Longrightarrow> responsive u = responsive s"
  unfolding adv_def by (auto simp: responsive_def same_env_def pcap_ready_def)

lemma adv_prepare: "responsive s \<Longrightarrow> \<exists>u. zynqmp_csudma_prepare ZYNQMP_CSUDMA_SRC_CHANNEL s = (0, u) \<and> adv 2 s u"
  and adv_unprepare: "responsive s \<Longrightarrow> adv 2 s (snd (zynqmp_csudma_unprepare ZYNQMP_CSUDMA_SRC_CHANNEL s))"
  by (simp_all add: zynqmp_csudma_prepare_def zynqmp_csudma_unprepare_def responsive_def adv_def same_env_def
      mmio_setbits_32_def mmio_clrbits_32_def case_prod_unfold Let_def)

lemma poll_now:
  assumes "responsive s" "\<And>t v. stop (m_hw s t a v)"
  shows "poll_until a stop (timeout_init_us us s) s = Some (Some (fst (mmio_read_32 a s)), snd (mmio_read_32 a s))"
  using assms by (subst poll_until.simps) (simp add: responsive_def timeout_elapsed_def timeout_init_us_def Let_def)

lemma wait_now:
  assumes "responsive s" "\<And>t v. m_hw s t a v AND m = x"
  shows "waitForEvent a m x us s = Some (0, snd (mmio_read_32 a s))"
  using poll_now [of s "\<lambda>v. v AND m = x"] assms by (simp add: waitForEvent_def)

lemma push_now:
  assumes "responsive s" "len mod 4 = 0" "tee_pa s a AND 7 = 0"
  shows "\<exists>u. dma_push a len notify s = Some (0, u) \<and> adv 9 s u"
proof -
  obtain t where t: "zynqmp_csudma_transfer ZYNQMP_CSUDMA_SRC_CHANNEL a len notify s = (0, t)" "adv 6 s t"
    using assms by (simp add: zynqmp_csudma_transfer_def responsive_def adv_def same_env_def cache_op_def Let_def)
  have r: "responsive t" using responsive_adv [OF t(2)] assms(1) by simp
  have "poll_until (tee_va t CSUDMA_BASE + CSUDMA_I_STS_OFFSET) (\<lambda>v. v AND 2 = 2) (timeout_init_us CSUDMA_DONE_TIMEOUT_USEC t) t
     = Some (Some (fst (mmio_read_32 (tee_va t CSUDMA_BASE + CSUDMA_I_STS_OFFSET) t)), snd (mmio_read_32 (tee_va t CSUDMA_BASE + CSUDMA_I_STS_OFFSET) t))"
    by (rule poll_now [OF r]) (use r in \<open>simp add: responsive_def\<close>)
  then obtain u where u: "zynqmp_csudma_sync ZYNQMP_CSUDMA_SRC_CHANNEL t = Some (0, u)" "adv 3 t u"
    using r by (simp add: zynqmp_csudma_sync_def csudma_clear_intr_def responsive_def adv_def same_env_def Let_def case_prod_unfold)
  from adv_trans [OF t(2) u(2)] u(1) t(1) show ?thesis by (simp add: dma_push_def)
qed

text \<open>The answer of the engine to the check of a tag at tick \<open>t\<close>.\<close>

definition tag_at :: "'a tee_mach_scheme \<Rightarrow> nat \<Rightarrow> bool \<Rightarrow> bool" where
  "tag_at s t b \<longleftrightarrow> (\<forall>v. (m_hw s t (tee_va s ZYNQMP_CSU_AES_BASE) v AND AES_STS_GCM_TAG_OK \<noteq> 0) = b)"

abbreviation (input) verdict :: "bool \<Rightarrow> u32" where "verdict b \<equiv> (if b then TEE_SUCCESS else TEE_ERROR_GENERIC)"

lemma tail_now:
  assumes r: "responsive s" and al: "tee_pa s hdr AND 7 = 0" "tee_pa s tag AND 7 = 0" and b: "tag_at s (m_now s + 20) b"
  shows "\<exists>u. aes_dec_tail (tee_va s ZYNQMP_CSU_AES_BASE) hdr tag s = Some (verdict b, u) \<and> adv 23 s u"
proof -
  let ?a = "tee_va s ZYNQMP_CSU_AES_BASE"
  let ?s1 = "mmio_write_32 (?a + AES_KUP_WR_OFFSET) 3 s"
  have 1: "adv 1 s ?s1" by (rule adv_write)
  obtain s2 where s2: "dma_push hdr SECURE_HDR_SIZE 1 ?s1 = Some (0, s2)" "adv 9 ?s1 s2"
    using push_now [of ?s1 48 hdr 1] r al responsive_adv [OF 1] by auto
  let ?s3 = "mmio_write_32 (?a + AES_KUP_WR_OFFSET) 0 s2"
  have 3: "adv 11 s ?s3" using adv_trans [OF adv_trans [OF 1 s2(2)] adv_write [of s2]] by simp
  obtain s4 where s4: "dma_push tag ZYNQMP_GCM_TAG_SIZE 0 ?s3 = Some (0, s4)" "adv 9 ?s3 s4"
    using push_now [of ?s3 16 tag 0] r al responsive_adv [OF 3] 3 by (auto simp: adv_def same_env_def)
  have 4: "adv 20 s s4" using adv_trans [OF 3 s4(2)] by simp
  let ?s5 = "snd (mmio_read_32 (?a + AES_STS_OFFSET) s4)"
  have 5: "adv 21 s ?s5" using adv_trans [OF 4 adv_read] by simp
  have "(m_hw s4 (m_now s4) ?a (m_regs s4 ?a) AND 8 \<noteq> 0) = b"
    using b 4 by (simp add: tag_at_def adv_def same_env_def)
  moreover have "adv 23 s (snd (zynqmp_csudma_unprepare ZYNQMP_CSUDMA_SRC_CHANNEL ?s5))"
    using adv_trans [OF 5 adv_unprepare] responsive_adv [OF 5] r by simp
  ultimately show ?thesis
    using s2(1) s4(1) by (auto simp: aes_dec_tail_def case_prod_unfold Let_def)
qed

lemma ready_nz: "responsive s \<Longrightarrow> tee_va s ZYNQMP_CSU_AES_BASE \<noteq> 0"
  by (auto simp: responsive_def pcap_ready_def)

lemma push_data_now:
  assumes "responsive s" "tee_pa s src AND 7 = 0" "len mod 4 = 0"
  shows "\<exists>u. aes_push_data src len bt s = Some (0, u) \<and> adv (if bt = 0 then 0 else 10) s u"
proof (cases "bt = 0")
  case True
  then show ?thesis by (simp add: aes_push_data_def adv_def)
next
  case False
  obtain t where t: "dma_push src len 0 s = Some (0, t)" "adv 9 s t" using push_now [OF assms(1,3,2)] by blast
  let ?rd = "mmio_read_32 (tee_va t ZYNQMP_CSU_PCAP_BASE + SECURE_PCAP_STS_OFFSET)"
  have "do_poll ?rd (\<lambda>v. v AND 1 = 1) t = Some (?rd t)"
    using responsive_adv [OF t(2)] assms(1) by (subst do_poll.simps) (simp add: responsive_def Let_def)
  then show ?thesis
    using False t(1) adv_trans [OF t(2) adv_read] by (simp add: aes_push_data_def case_prod_unfold) 
qed

text \<open>One block: the result is the verdict on its tag.\<close>

lemma decrypt_now:
  assumes r: "responsive s" and nz: "src \<noteq> 0" "tag \<noteq> 0" "iv \<noteq> 0" and len: "len mod 4 = 0"
    and al: "tee_pa s iv AND 7 = 0" "tee_pa s src AND 7 = 0" "tee_pa s (src + len) AND 7 = 0" "tee_pa s tag AND 7 = 0"
    and k: "k = (if bt = 0 then 0 else 10)" and b: "tag_at s (m_now s + 32 + k) b"
  shows "\<exists>u. zynqmp_csu_aes_decrypt_data src len tag iv bt s = Some (verdict b, u) \<and> adv (35 + k + (if b then 1 else 0)) s u"
proof -
  let ?a = "tee_va s ZYNQMP_CSU_AES_BASE"
  let ?s1 = "mmio_write_32 (?a + AES_START_MSG_OFFSET) 1 s"
  have 1: "adv 1 s ?s1" by (rule adv_write)
  obtain s2 where s2: "dma_push iv ZYNQMP_CSUDMA_MIN_SIZE 0 ?s1 = Some (0, s2)" "adv 9 ?s1 s2"
    using push_now [of ?s1 16 iv 0] r al responsive_adv [OF 1] by auto
  have a2: "adv 10 s s2" using adv_trans [OF 1 s2(2)] by simp
  obtain s3 where s3: "zynqmp_csudma_prepare ZYNQMP_CSUDMA_SRC_CHANNEL s2 = (0, s3)" "adv 2 s2 s3"
    using adv_prepare responsive_adv [OF a2] r by blast
  have a3: "adv 12 s s3" using adv_trans [OF a2 s3(2)] by simp
  have e3: "tee_pa s3 = tee_pa s" "tee_va s3 = tee_va s" "m_hw s3 = m_hw s" "m_now s3 = m_now s + 12"
    using a3 by (simp_all add: adv_def same_env_def)
  obtain s4 where s4: "aes_push_data src len bt s3 = Some (0, s4)" "adv k s3 s4"
    using push_data_now [of s3 src len bt] responsive_adv [OF a3] r al len e3 k by auto
  have a4: "adv (12 + k) s s4" using adv_trans [OF a3 s4(2)] by simp
  have e4: "tee_pa s4 = tee_pa s" "tee_va s4 = tee_va s" "m_hw s4 = m_hw s" "m_now s4 = m_now s + 12 + k"
    using a4 by (simp_all add: adv_def same_env_def)
  obtain s5 where s5: "aes_dec_tail ?a (src + len) tag s4 = Some (verdict b, s5)" "adv 23 s4 s5"
    using tail_now [of s4 "src + len" tag b] responsive_adv [OF a4] r al e4 b by (auto simp: tag_at_def ac_simps)
  have a5: "adv (35 + k) s s5" using adv_trans [OF a4 s5(2)] by (simp add: ac_simps)
  have r5: "responsive s5" using responsive_adv [OF a5] r by simp
  have dec: "aes_transfer_dec src len tag iv bt s = Some (verdict b, s5)"
    using ready_nz [OF r] s2(1) s3(1) s4(1) s5(1) by (simp add: aes_transfer_dec_def Let_def)
  have "aes_wait AES_STS_AES_BUSY False s5 = Some (0, snd (mmio_read_32 (tee_va s5 ZYNQMP_CSU_AES_BASE) s5))"
    using poll_now [of s5 "\<lambda>v. v AND 1 \<noteq> 1" "tee_va s5 ZYNQMP_CSU_AES_BASE"] r5 ready_nz [OF r5]
    by (simp add: aes_wait_def responsive_def Let_def)
  then show ?thesis
    using dec nz a5 adv_trans [OF a5 adv_read] by (auto simp: zynqmp_csu_aes_decrypt_data_def)
qed

text \<open>The set-up takes 18 ticks.\<close>

lemma setup_now:
  assumes "responsive s"
  shows "\<exists>u. secure_setup s = Some (0, u) \<and> adv 18 s u"
proof -
  let ?t = "write_words (setup_writes s) s"
  have "length (setup_writes s) = 15" by (simp add: setup_writes_def)
  then have t: "adv 15 s ?t" by (simp add: adv_def write_words_env)
  have rt: "responsive ?t" using responsive_adv [OF t] assms by simp
  have "waitForEvent (aes ?t) AES_STS_KEY_INIT_DONE AES_STS_KEY_INIT_DONE TIMEOUT_USEC ?t = Some (0, snd (mmio_read_32 (aes ?t) ?t))"
    by (rule wait_now [OF rt]) (use rt in \<open>simp add: responsive_def pcap_ready_def\<close>)
  moreover obtain u where u: "zynqmp_csudma_prepare ZYNQMP_CSUDMA_SRC_CHANNEL (snd (mmio_read_32 (aes ?t) ?t)) = (0, u)"
    "adv 2 (snd (mmio_read_32 (aes ?t) ?t)) u"
    using adv_prepare responsive_adv [OF adv_read] rt by blast
  moreover have "adv 18 s u" using adv_trans [OF adv_trans [OF t adv_read] u(2)] by simp
  ultimately show ?thesis by (simp add: secure_setup_def Let_def)
qed

text \<open>A round whose block announces \<open>n\<close>, when it is not the last; and the last round.\<close>

definition announces :: "'a tee_mach_scheme \<Rightarrow> nat \<Rightarrow> u32 \<Rightarrow> bool" where
  "announces s t n \<longleftrightarrow> (\<forall>v. endian_swap (m_hw s t (tee_va s ZYNQMP_CSU_AES_BASE + AES_IV3_OFFSET) v) * 4 = n)"

lemma round_now:
  assumes r: "responsive s" and d: "zynqmp_csu_aes_decrypt_data enc (ucast nxt) tag (bs_iv s) bt s = Some (ret, t)" "adv k s t"
    and n: "announces s (m_now s + k) n" "n \<noteq> 0" "cur + n \<le> U"
  shows "\<exists>u. secure_block U enc nxt tag cur bt s = Some (Inr (tag + 16, n, tag + 16 + ucast n + 48, cur + n), u) \<and>
    same_env s u \<and> bs_iv u = aes s + AES_IV0_OFFSET \<and> m_now u = m_now s + k + 3"
proof -
  have rt: "responsive t" using responsive_adv [OF d(2)] r by simp
  have av: "aes t = tee_va t ZYNQMP_CSU_AES_BASE" using rt by (simp add: responsive_def pcap_ready_def)
  let ?t1 = "snd (mmio_read_32 (aes t + AES_IV3_OFFSET) t)"
  let ?t2 = "mmio_write_32 (aes t + AES_KEY_LOAD_OFFSET) 1 ?t1"
  have n': "endian_swap (m_hw t (m_now t) (aes t + AES_IV3_OFFSET) (m_regs t (aes t + AES_IV3_OFFSET))) * 4 = n"
    using n(1) d(2) av by (simp add: announces_def adv_def same_env_def)
  have t2: "adv 2 t ?t2" by (simp add: adv_def same_env_def)
  have "waitForEvent (aes t) AES_STS_KEY_INIT_DONE AES_STS_KEY_INIT_DONE TIMEOUT_USEC ?t2 = Some (0, snd (mmio_read_32 (aes t) ?t2))"
    by (rule wait_now [OF responsive_adv [OF t2, THEN iffD2, OF rt]]) (use rt in \<open>simp add: responsive_def pcap_ready_def\<close>)
  then have "secure_next U tag cur ret n ?t1 = Some (Inr (tag + 16, n, tag + 16 + ucast n + 48, cur + n),
      (snd (mmio_read_32 (aes t) ?t2))\<lparr>bs_iv := aes t + AES_IV0_OFFSET\<rparr>)"
    using n(2) by (simp add: secure_next_def Let_def leD [OF n(3)])
  then show ?thesis
    using d n' by (simp add: secure_block_def case_prod_unfold adv_def same_env_def)
qed

lemma last_round_now:
  assumes d: "zynqmp_csu_aes_decrypt_data enc (ucast nxt) tag (bs_iv s) bt s = Some (ret, t)" "adv k s t"
    and r: "responsive s" and n: "announces s (m_now s + k) 0"
  shows "\<exists>u. secure_block U enc nxt tag U bt s = Some (Inl (Inr ret), u) \<and> adv (k + 1) s u"
proof -
  have "aes t = tee_va s ZYNQMP_CSU_AES_BASE" using r d(2) by (simp add: responsive_def pcap_ready_def adv_def same_env_def)
  then have "endian_swap (m_hw t (m_now t) (aes t + AES_IV3_OFFSET) (m_regs t (aes t + AES_IV3_OFFSET))) * 4 = 0"
    using n d(2) by (simp add: announces_def adv_def same_env_def)
  then show ?thesis
    using d(1) adv_trans [OF d(2) adv_read] by (simp add: secure_block_def secure_next_def case_prod_unfold)
qed

lemma final_now:
  assumes "responsive s"
  shows "\<exists>u. (pcap_waitForDone s \<bind> (\<lambda>(ret, s). if ret \<noteq> 0 then Some (ret, s) else pcap_waitForPLDone s)) = Some (0, u)"
proof -
  let ?a = "pcap s + PCAP_STS_OFFSET"
  let ?t = "snd (mmio_read_32 ?a s)"
  have p: "pcap s = tee_va s ZYNQMP_CSU_PCAP_BASE" "pcap s \<noteq> 0" using assms by (auto simp: responsive_def pcap_ready_def)
  have rt: "responsive ?t" using responsive_adv [OF adv_read] assms by blast
  have "waitForEvent ?a 1 1 TIMEOUT_USEC s = Some (0, ?t)"
    by (rule wait_now [OF assms]) (use assms in \<open>simp add: p(1), simp add: responsive_def\<close>)
  moreover have "waitForEvent ?a 8 8 TIMEOUT_USEC ?t = Some (0, snd (mmio_read_32 ?a ?t))"
    by (rule wait_now [OF rt]) (use assms in \<open>simp add: p(1), simp add: responsive_def\<close>)
  ultimately show ?thesis using p(2) by (simp add: pcap_waitForDone_def pcap_waitForPLDone_def)
qed

text \<open>A small image of one secure header and one block of eight bytes, and devices that accept it.\<close>

definition tee_image :: "addr \<Rightarrow> u8" where
  "tee_image a =
     (if a = 0x100020 then 0x66 else if a = 0x100021 then 0x55 else if a = 0x100022 then 0x99 else if a = 0x100023 then 0xAA
      else if a = 0x100024 then 0x58 else if a = 0x100025 then 0x4E else if a = 0x100026 then 0x4C else if a = 0x100027 then 0x58
      else if a = 0x100028 then 0xC5 else if a = 0x100029 then 0xC3 else if a = 0x10002A then 0xA5 else if a = 0x10002B then 0xA3
      else if a = 0x100099 then 0x03 else if a = 0x10009D then 0x02 else if a = 0x100221 then 0x01 else if a = 0x100204 then 2
      else 0)"

definition tee_hw :: "bool \<Rightarrow> nat \<Rightarrow> nat \<Rightarrow> addr \<Rightarrow> u32 \<Rightarrow> u32" where
  "tee_hw b T t a v =
     (if a = 0xFFCA3010 then 0xFFFFFFFF else if a = 0xFFC80014 then 2
      else if a = 0xFFCA1000 then (if t < T \<and> \<not> b then 0x10 else 0x18)
      else if a = 0xFFCA104C then (if t < T then 0x02000000 else 0) else v)"

definition test_tee :: "bool \<Rightarrow> nat \<Rightarrow> addr \<Rightarrow> tee_mach" where
  "test_tee b T dfx = \<lparr>m_hw = tee_hw b T, m_now = 0, m_regs = (\<lambda>_. 0), m_evs = [],
     tee_va = (\<lambda>a. if a = 0xA0020000 then dfx else a), tee_pa = (\<lambda>a. a), tee_late = (\<lambda>t0 us t. t0 + unat us < t), tee_mem = tee_image,
     iv_arr = 0x200000, pcap = 0xFFCA3000, csu = 0xFFCA0000, aes = 0xFFCA1000, crl_apb = 0xFF5E0000, bs_iv = 0x200000\<rparr>"

lemma test_tee_ready: "pcap_ready (test_tee b T dfx)" "csu_windows (test_tee b T dfx)" "responsive (test_tee b T dfx)"
  by (simp_all add: test_tee_def pcap_ready_def csu_windows_def apart_def responsive_def tee_hw_def)

lemma test_tee_image:
  "image_start (test_tee b T dfx) 0x100000 = 0x100400" "image_len (test_tee b T dfx) 0x100000 = 8"
  by (simp_all add: image_start_def image_len_def header_table_def mem_word_def test_tee_def tee_image_def)

lemma header_now: "adv 3 s (header_read a s)"
  by (simp add: header_read_def adv_def ram_read32_def same_env_def)

lemma env_answers: "same_env s t \<Longrightarrow> announces t = announces s \<and> tag_at t = tag_at s \<and> tee_pa t = tee_pa s \<and> responsive t = responsive s"
  by (simp add: same_env_def announces_def [abs_def] tag_at_def [abs_def] responsive_def pcap_ready_def)

text \<open>
  The run: the check of the first block's tag gives \<open>b\<close>, the rest goes well, and the whole
  write succeeds either way.  The phase switches between the ticks of the first and of the
  second announcement, which follow the ticks at which the call starts.
\<close>

lemma test_run:
  assumes s: "same_env (test_tee b (tk + 70) dfx) s" "m_now s = tk" "bs_iv s = 0x200000"
    and img: "image_start s 0x100000 = 0x100400" "image_len s 0x100000 = 8"
  shows "\<exists>s1 t s'. secure_setup (header_read 0x100000 s) = Some (0, s1) \<and>
    zynqmp_csu_aes_decrypt_data 0x100400 0 0x100430 (bs_iv s1) 0 s1 = Some (verdict b, t) \<and>
    zynqmp_csu_secure_pcap_write 0x100000 len s = Some (TEE_SUCCESS, s')"
proof -
  let ?s0 = "test_tee b (tk + 70) dfx" and ?k = "35 + (if b then 1 else 0) :: nat"
  have r: "responsive s" using env_answers [OF s(1)] test_tee_ready(3) by blast
  have h: "adv 3 s (header_read 0x100000 s)" by (rule header_now)
  obtain s1 where s1: "secure_setup (header_read 0x100000 s) = Some (0, s1)" "adv 18 (header_read 0x100000 s) s1"
    using setup_now responsive_adv [OF h] r by blast
  have a1: "adv 21 s s1" using adv_trans [OF h s1(2)] by simp
  have e1: "same_env ?s0 s1" "m_now s1 = tk + 21" "bs_iv s1 = 0x200000" "responsive s1"
    using a1 s responsive_adv [OF a1] r by (auto simp: adv_def intro: same_env_trans)
  note w1 = env_answers [OF e1(1)]
  have "\<exists>t. zynqmp_csu_aes_decrypt_data 0x100400 0 0x100430 (bs_iv s1) 0 s1 = Some (verdict b, t) \<and> adv (35 + 0 + (if b then 1 else 0)) s1 t"
    by (rule decrypt_now [OF e1(4)]) (use w1 e1(2,3) in \<open>simp_all add: tag_at_def test_tee_def tee_hw_def\<close>)
  then obtain t where t: "zynqmp_csu_aes_decrypt_data 0x100400 0 0x100430 (bs_iv s1) 0 s1 = Some (verdict b, t)" "adv ?k s1 t" by auto
  have "announces s1 (m_now s1 + ?k) 8"
    using w1 e1(2) by (simp add: announces_def test_tee_def tee_hw_def endian_swap_def)
  then obtain u where u: "secure_block 8 0x100400 0 0x100430 0 0 s1 = Some (Inr (0x100440, 8, 0x100478, 8), u)"
    "same_env s1 u" "bs_iv u = aes s1 + AES_IV0_OFFSET" "m_now u = m_now s1 + ?k + 3"
    using round_now [OF e1(4), where enc = "0x100400" and nxt = 0 and tag = "0x100430" and bt = 0 and ret = "verdict b" and t = t
        and k = ?k and n = 8 and cur = 0 and U = 8] t by auto
  have eu: "same_env ?s0 u" using same_env_trans [OF e1(1) u(2)] .
  note wu = env_answers [OF eu]
  have ru: "responsive u" using wu test_tee_ready(3) by blast
  have bu: "bs_iv u = 0xFFCA1040" using u(3) e1(1) by (simp add: same_env_def test_tee_def)
  have "\<exists>v. zynqmp_csu_aes_decrypt_data 0x100440 8 0x100478 (bs_iv u) 1 u = Some (verdict True, v) \<and> adv (35 + 10 + (if True then 1 else 0)) u v"
    by (rule decrypt_now [OF ru]) (use wu bu u(4) e1(2) in \<open>simp_all add: tag_at_def test_tee_def tee_hw_def\<close>)
  then obtain v where v: "zynqmp_csu_aes_decrypt_data 0x100440 8 0x100478 (bs_iv u) 1 u = Some (0, v)" "adv 46 u v" by auto
  have "announces u (m_now u + 46) 0"
    using wu u(4) e1(2) by (simp add: announces_def test_tee_def tee_hw_def endian_swap_def)
  then obtain w where w: "secure_block 8 0x100440 8 0x100478 8 1 u = Some (Inl (Inr 0), w)" "adv 47 u w"
    using last_round_now [where enc = "0x100440" and nxt = 8 and tag = "0x100478" and bt = 1 and ret = 0 and t = v
        and k = 46 and s = u and U = 8] v ru by auto
  have blocks: "secure_blocks 8 0x100400 0 0x100430 0 0 s1 = Some (Inr 0, w)"
    using u(1) w(1) by (subst secure_blocks.simps, simp, subst secure_blocks.simps) simp
  have ew: "same_env ?s0 w" using w(2) eu by (auto simp: adv_def intro: same_env_trans)
  then obtain s' where "(pcap_waitForDone w \<bind> (\<lambda>(ret, s). if ret \<noteq> 0 then Some (ret, s) else pcap_waitForPLDone s)) = Some (0, s')"
    using final_now env_answers [OF ew] test_tee_ready(3) by blast
  then show ?thesis
    using s1(1) t(1) blocks r unfolding secure_write_unfold img
    by (auto simp: secure_stream_def header_read_def responsive_def pcap_ready_def)
qed


text \<open>The specification of the whole write, with the words \<open>vs\<close> that were read from \<open>IV3\<close> after the header table.\<close>

definition image_streamed ::
  "u32 list \<Rightarrow> nat list \<Rightarrow> addr \<Rightarrow> u32 \<Rightarrow> 'a tee_mach_scheme \<Rightarrow> 'a tee_mach_scheme \<Rightarrow> bool" where
  "image_streamed vs ks a r s s' \<longleftrightarrow>
     (let ns = map announced (butlast vs); bs = image_blocks s a ns
      in vs \<noteq> [] \<and> length ks = length vs \<and> 0 \<notin> set ns \<and>
         (\<forall>lo hi. dma_reqs (tee_va s CSUDMA_BASE) lo hi (since s s') = stream_of (tee_pa s) ks bs) \<and>
         (dma_prompt s \<longrightarrow> (\<forall>i < length bs. dma_ok (tee_pa s) (bs ! i) \<longrightarrow> ks ! i = 4)) \<and>
         (r = TEE_SUCCESS \<longrightarrow>
            announced (last vs) = 0 \<and> sum_list ns = image_len s a \<and> last ks = 4 \<and> pl_done s s'))"

lemma secure_write_run:
  assumes "pcap_ready s" and "csu_windows s"
    and "zynqmp_csu_secure_pcap_write a len s = Some (r, s')"
  shows "touches (allw s) s s' \<and> (\<exists>vs ks. image_streamed vs ks a r s s' \<and>
    (unpolled (iv3 s) s \<longrightarrow> reads_at (iv3 s) (since (header_read a s) s') = vs))"
proof -
  let ?t = "header_read a s"
  have st: "touches (quietw s) s ?t" by (rule header_read_fields)
  have e: "same_env s ?t" by (rule touches_env [OF st])
  have env: "tee_va ?t = tee_va s" "tee_pa ?t = tee_pa s" "aes ?t = aes s" "allw ?t = allw s" "unpolled b ?t = unpolled b s"
    "dma_prompt ?t = dma_prompt s" for b
    using e ready_env [OF e] unpolled_env [OF e] dma_prompt_env [OF e] by (simp_all add: same_env_def)
  obtain q where q: "chain_run (image_len s a) (image_start s a, 0, image_start s a + 48, bs_iv ?t, True) (image_start s a + 48) 0 ?t q s'"
    "r = 0 \<longrightarrow> q = Inr 0 \<and> pl_done ?t s'"
    by (rule secure_stream_run [OF assms(3) [unfolded secure_write_unfold]]) (use ready_env [OF e] assms in auto)
  have ts: "touches (allw s) ?t s'" using q(1) env by (simp add: chain_run_def)
  have all: "touches (allw s) s s'" by (rule touches_trans [OF touches_mono [OF st quietw_allw(1)] ts])
  have "dma_sends (tee_va s CSUDMA_BASE) [] s ?t"
    using quietw_allw(2) [of s] by (intro dma_sends_quiet [OF st]) (auto simp: srcregs_def)
  then have 1: "dma_sends (tee_va s CSUDMA_BASE) rs ?t s' \<Longrightarrow> dma_reqs (tee_va s CSUDMA_BASE) lo hi (since s s') = rs" for rs lo hi
    using dma_sends_reqs [OF dma_sends_trans [of "tee_va s CSUDMA_BASE" "[]" s ?t rs s']] by simp
  obtain vs ks where vs: "vs \<noteq> []" "length ks = length vs" "0 \<notin> set (map announced (butlast vs))"
    "unpolled (iv3 s) s \<longrightarrow> reads_at (iv3 s) (since ?t s') = vs"
    "dma_sends (tee_va s CSUDMA_BASE) (stream_of (tee_pa s) ks (image_blocks s a (map announced (butlast vs)))) ?t s'"
    "dma_prompt s \<longrightarrow> (\<forall>i < length (image_blocks s a (map announced (butlast vs))).
        dma_ok (tee_pa s) (image_blocks s a (map announced (butlast vs)) ! i) \<longrightarrow> ks ! i = 4)"
    "\<forall>x. q = Inr x \<longrightarrow> announced (last vs) = 0 \<and> 0 + sum_list (map announced (butlast vs)) = image_len s a \<and> (x = 0 \<longrightarrow> last ks = 4)"
    using q(1) unfolding chain_run_def Let_def image_blocks_def env header_read_fields(1) by blast
  have "image_streamed vs ks a r s s'"
    using vs 1 [OF vs(5)] q(2) pl_done_before [OF st ts] by (simp add: image_streamed_def Let_def)
  with all vs(4) show ?thesis by blast
qed

lemma iv3_unpolled:
  assumes "pcap_ready s" "csu_windows s" "apart (tee_va s ZYNQMP_CSU_AES_BASE, 0x1000) (tee_va s ZYNQMP_CSU_PCAP_BASE, 0x1000)"
  shows "unpolled (iv3 s) s"
proof -
  have "iv3 s \<in> aesw s" "tee_va s ZYNQMP_CSU_PCAP_BASE + SECURE_PCAP_STS_OFFSET \<in> pcapw s"
    using assms(1) by (simp_all add: pcap_ready_def win_def)
  moreover have "apart (tee_va s CSUDMA_BASE, 0x1000) (tee_va s ZYNQMP_CSU_AES_BASE, 0x1000)"
    using assms(2) by (simp add: csu_windows_def)
  ultimately have "iv3 s \<notin> dmaw s" "tee_va s ZYNQMP_CSU_PCAP_BASE + SECURE_PCAP_STS_OFFSET \<noteq> iv3 s"
    using apart_disjoint assms(3) by metis+
  then show ?thesis using assms(1) by (simp add: unpolled_def pcap_ready_def)
qed

section \<open>The write returns\<close>

lemma waitForEvent_ends: "timer_runs s0 \<Longrightarrow> env.ends s0 (waitForEvent a m v us)"
  unfolding waitForEvent_def [abs_def]
  by (intro env.ends_bind ends_poll_us env.ends_ret same_env_refl)

text \<open>A round of the loop returns, and what it announces comes from the \<open>IV3\<close> register.\<close>

lemma secure_next_ends:
  assumes "timer_runs s0" "same_env s0 s"
  shows "\<exists>out u. secure_next U tag cur ret n s = Some (out, u) \<and> same_env s u"
proof -
  let ?t = "mmio_write_32 (aes s + AES_KEY_LOAD_OFFSET) 1 s"
  have "same_env s0 ?t" using assms(2) by (simp add: same_env_def)
  then obtain q w where w: "waitForEvent (aes s + AES_STATUS_OFFSET) AES_STS_KEY_INIT_DONE AES_STS_KEY_INIT_DONE TIMEOUT_USEC ?t = Some (q, w)" "same_env ?t w"
    using env.endsD [OF waitForEvent_ends [OF assms(1)]] by blast
  then have "same_env s w" "same_env s (w\<lparr>bs_iv := aes w + AES_IV0_OFFSET\<rparr>)" by (simp_all add: same_env_def)
  with w(1) show ?thesis by (simp add: secure_next_def Let_def)
qed

lemma secure_block_ends:
  assumes "timer_runs s0" "pcap_drains s0" "same_env s0 s"
  shows "\<exists>out u. secure_block U enc nxt tag cur bt s = Some (out, u) \<and> same_env s u"
proof -
  obtain ret t where t: "zynqmp_csu_aes_decrypt_data enc (ucast nxt) tag (bs_iv s) bt s = Some (ret, t)" "same_env s t"
    using env.endsD [OF decrypt_data_ends [OF assms(1,2)] assms(3)] by blast
  let ?u = "snd (mmio_read_32 (aes t + AES_IV3_OFFSET) t)"
  have e: "same_env s0 ?u" "same_env s ?u" using assms(3) t(2) by (simp_all add: same_env_def)
  obtain out v where "secure_next U tag cur ret (endian_swap (fst (mmio_read_32 (aes t + AES_IV3_OFFSET) t)) * 4) ?u = Some (out, v)"
    "same_env ?u v" using secure_next_ends [OF assms(1) e(1)] by blast
  then show ?thesis using t(1) same_env_trans [OF e(2)] by (auto simp: secure_block_def case_prod_unfold)
qed

text \<open>
  The announcements do not overflow the counter of the image's length: no announced length
  added to the length in the header table reaches \<open>2^32\<close>.
\<close>

definition no_overflow :: "u32 \<Rightarrow> 'a tee_mach_scheme \<Rightarrow> bool" where
  "no_overflow U s \<longleftrightarrow> (\<forall>t v. unat U + unat (endian_swap (m_hw s t (aes s + AES_IV3_OFFSET) v) * 4) < 2 ^ 32)"

lemma secure_blocks_ends:
  assumes "timer_runs s0" "pcap_drains s0" "pcap_ready s0" "csu_windows s0" "no_overflow U s0"
    and "same_env s0 s" "cur \<le> U"
  shows "\<exists>r u. secure_blocks U enc nxt tag cur bt s = Some (r, u) \<and> same_env s u"
  using assms(6,7)
proof (induction "unat U - unat cur" arbitrary: enc nxt tag cur bt s rule: less_induct)
  case less
  obtain out u where u: "secure_block U enc nxt tag cur bt s = Some (out, u)" "same_env s u"
    using secure_block_ends [OF assms(1,2) less.prems(1)] by blast
  have rd: "pcap_ready s" "csu_windows s" using ready_env [OF less.prems(1)] assms(3,4) by simp_all
  show ?case
  proof (cases out)
    case (Inl r)
    with u show ?thesis by (subst secure_blocks.simps) simp
  next
    case (Inr o')
    obtain ret k x where nx: "next_of U tag cur ret (endian_swap (m_hw s k (aes s + AES_IV3_OFFSET) x) * 4)
       (aes s + AES_IV0_OFFSET) out (bs_iv u)"
      using secure_block_cases [OF u(1) rd] announced_swap by metis
    define n where "n = endian_swap (m_hw s k (aes s + AES_IV3_OFFSET) x) * 4"
    have o: "n \<noteq> 0" "cur + n \<le> U" "out = Inr (tag + 16, n, tag + 16 + ucast n + 48, cur + n)"
      using nx Inr unfolding n_def [symmetric] next_of_def by auto
    have "unat U + unat n < 2 ^ 32"
      using assms(5) less.prems(1) unfolding no_overflow_def n_def same_env_def by simp
    then have "unat cur + unat n < 2 ^ 32" using less.prems(2) by (simp add: word_le_nat_alt)
    then have "unat (cur + n) = unat cur + unat n" by (subst unat_add_lem [symmetric]) simp
    moreover have "0 < unat n" using o(1) by (simp add: unat_gt_0)
    ultimately have "unat U - unat (cur + n) < unat U - unat cur" using o(2) by (simp add: word_le_nat_alt)
    from less.hyps [OF this same_env_trans [OF less.prems(1) u(2)] o(2)]
    obtain r v where "secure_blocks U (tag + 16) n (tag + 16 + ucast n + 48) (cur + n) 1 u = Some (r, v)" "same_env u v" by blast
    then show ?thesis using u o(3) same_env_trans [OF u(2)] by (subst secure_blocks.simps) auto
  qed
qed

lemma pcap_wait_ends:
  assumes "timer_runs s0"
  shows "env.ends s0 pcap_waitForDone" and "env.ends s0 pcap_waitForPLDone"
proof -
  let ?w = "\<lambda>m. waitForEvent (pcap s0 + PCAP_STS_OFFSET) m m TIMEOUT_USEC"
  have "env.ends s0 (\<lambda>s. if pcap s0 = 0 then Some (TEE_ERROR_GENERIC, s) else ?w 1 s)"
    by (intro env.ends_if env.ends_ret waitForEvent_ends same_env_refl assms)
  then show "env.ends s0 pcap_waitForDone"
    by (rule env.ends_cong [rotated]) (simp add: pcap_waitForDone_def same_env_def)
  have "env.ends s0 (\<lambda>s. if pcap s0 = 0 then Some (TEE_ERROR_GENERIC, s) else
      ?w 8 s \<bind> (\<lambda>(ret, s). if ret \<noteq> TEE_SUCCESS then Some (ret, s)
        else Some (TEE_SUCCESS, mmio_write_32 (pcap (mmio_write_32 (pcap s + PCAP_RESET_OFFSET) 1 s) + PCAP_RESET_OFFSET) 0
          (mmio_write_32 (pcap s + PCAP_RESET_OFFSET) 1 s))))"
    by (intro env.ends_if env.ends_bind env.ends_ret waitForEvent_ends same_env_refl assms) (simp add: same_env_def)
  then show "env.ends s0 pcap_waitForPLDone"
    by (rule env.ends_cong [rotated]) (simp add: pcap_waitForPLDone_def [unfolded Let_def] same_env_def)
qed

lemma secure_setup_ends:
  assumes "timer_runs s0"
  shows "env.ends s0 secure_setup"
proof (rule env.endsI)
  fix s :: "'a tee_mach_scheme" assume e: "same_env s0 s"
  let ?w = "write_words (setup_writes s) s"
  have "same_env s0 ?w" using same_env_trans [OF e write_words_env] .
  then obtain q t where t: "waitForEvent (aes ?w + AES_STATUS_OFFSET) AES_STS_KEY_INIT_DONE AES_STS_KEY_INIT_DONE TIMEOUT_USEC ?w = Some (q, t)"
    "same_env ?w t" using env.endsD [OF waitForEvent_ends [OF assms]] by blast
  have "same_env s t" using same_env_trans [OF write_words_env t(2)] .
  then have "same_env s (snd (zynqmp_csudma_prepare ZYNQMP_CSUDMA_SRC_CHANNEL t))" using same_env_trans env_prepare(1) by blast
  with t(1) show "\<exists>r u. secure_setup s = Some (r, u) \<and> same_env s u"
    by (cases "zynqmp_csudma_prepare ZYNQMP_CSUDMA_SRC_CHANNEL t") (simp add: secure_setup_def Let_def)
qed

lemma secure_stream_ends:
  assumes "timer_runs s" "pcap_drains s" "pcap_ready s" "csu_windows s" "no_overflow U s"
  shows "\<exists>r u. secure_stream U enc s = Some (r, u)"
proof -
  obtain ret t where t: "secure_setup s = Some (ret, t)" "same_env s t"
    using env.ends_returns [OF secure_setup_ends [OF assms(1)]] by blast
  obtain r u where u: "secure_blocks U enc 0 (enc + 48) 0 0 t = Some (r, u)" "same_env t u"
    using secure_blocks_ends [OF assms t(2) word_zero_le] by blast
  have su: "same_env s u" using same_env_trans [OF t(2) u(2)] .
  obtain q v where v: "pcap_waitForDone u = Some (q, v)" "same_env u v"
    using env.endsD [OF pcap_wait_ends(1) [OF assms(1)] su] by blast
  obtain q' w where "pcap_waitForPLDone v = Some (q', w)"
    using env.endsD [OF pcap_wait_ends(2) [OF assms(1)] same_env_trans [OF su v(2)]] by blast
  with t(1) u(1) v(1) show ?thesis by (auto simp: secure_stream_def split: sum.splits)
qed

text \<open>
  The hypothesis on the lengths is needed: with the largest length in the header table and
  headers that keep announcing eight bytes, the comparison with \<open>CurrentImgLen\<close>, which wraps,
  never ends the loop.
\<close>

lemma aligned8_le: "x AND 7 = 0 \<Longrightarrow> x \<le> 0xFFFFFFF8" for x :: u32
proof -
  assume a: "x AND 7 = 0"
  have "x = x AND (7 OR NOT 7)" by (simp del: bit.disj_cancel_right add: bit.disj_cancel_right)
  also have "\<dots> = x AND NOT 7" using a by (simp only: bit.conj_disj_distrib) simp
  also have "\<dots> \<le> NOT 7" by (rule word_and_le1)
  finally have "x \<le> - 8" by simp
  moreover have "(- 8 :: u32) = 0xFFFFFFF8" by simp
  ultimately show ?thesis by (simp only:)
qed

lemma aligned8_add: "x AND 7 = 0 \<Longrightarrow> (x + 8) AND 7 = 0" for x :: u32
proof -
  have m: "(7 :: u32) = mask 3" by (simp add: mask_eq_exp_minus_1)
  have "unat ((x + 8) AND mask 3) = (unat x + 8) mod 2 ^ 32 mod 8"
    unfolding unat_and_mask by (simp add: unat_word_ariths)
  also have "\<dots> = unat x mod 8" by (simp add: mod_mod_cancel)
  also have "\<dots> = unat (x AND mask 3)" unfolding unat_and_mask by simp
  finally have "(x + 8) AND mask 3 = x AND mask 3" by (simp only: word_unat_eq_iff)
  then show "x AND 7 = 0 \<Longrightarrow> (x + 8) AND 7 = 0" unfolding m by simp
qed

lemma endless_round:
  assumes run: "secure_block 0xFFFFFFF8 enc nxt tag cur bt s = Some (out, u)"
    and r: "responsive s" "csu_windows s" and ann: "\<And>t. announces s t 8" and al: "cur AND 7 = 0"
  shows "out = Inr (tag + 16, 8, tag + 16 + 8 + 48, cur + 8) \<and> same_env s u"
proof -
  have rd: "pcap_ready s" using r(1) by (simp add: responsive_def)
  obtain ret t where t: "zynqmp_csu_aes_decrypt_data enc (ucast nxt) tag (bs_iv s) bt s = Some (ret, t)"
    and n: "secure_next 0xFFFFFFF8 tag cur ret (endian_swap (fst (mmio_read_32 (aes t + AES_IV3_OFFSET) t)) * 4)
       (snd (mmio_read_32 (aes t + AES_IV3_OFFSET) t)) = Some (out, u)"
    using run by (auto simp: secure_block_def case_prod_unfold split: bind_splits)
  have e: "same_env s t"
    by (rule pushes_env [OF pshD [OF psh_decrypt_data [OF aes_win_allw [OF r(2)]] t same_env_refl]])
  let ?t2 = "mmio_write_32 (aes t + AES_KEY_LOAD_OFFSET) 1 (snd (mmio_read_32 (aes t + AES_IV3_OFFSET) t))"
  have e2: "same_env s ?t2" using e by (simp add: same_env_def)
  have r2: "responsive ?t2" "responsive t" using env_answers [OF e2] env_answers [OF e] r(1) by blast+
  have "waitForEvent (aes t) AES_STS_KEY_INIT_DONE AES_STS_KEY_INIT_DONE TIMEOUT_USEC ?t2 = Some (0, snd (mmio_read_32 (aes t) ?t2))"
    by (rule wait_now [OF r2(1)]) (use r2(2) in \<open>simp add: responsive_def pcap_ready_def\<close>)
  moreover have "endian_swap (m_hw t (m_now t) (aes t + AES_IV3_OFFSET) (m_regs t (aes t + AES_IV3_OFFSET))) * 4 = 8"
    using ann [of "m_now t"] e rd by (simp add: announces_def same_env_def pcap_ready_def)
  ultimately show ?thesis
    using n e leD [OF aligned8_le [OF aligned8_add [OF al]]]
    by (auto simp: secure_next_def [unfolded Let_def] same_env_def)
qed

lemma secure_blocks_endless:
  assumes "responsive s0" "csu_windows s0" and ann: "\<And>t. announces s0 t 8"
    and "same_env s0 s" "cur AND 7 = 0"
  shows "secure_blocks 0xFFFFFFF8 enc nxt tag cur bt s = None"
proof (rule ccontr)
  let ?P = "\<lambda>(U :: u32) (enc :: addr) (nxt :: u32) (tag :: addr) (cur :: u32) (bt :: u32) s x.
      U = 0xFFFFFFF8 \<longrightarrow> same_env s0 s \<longrightarrow> cur AND 7 = 0 \<longrightarrow> False"
  assume "secure_blocks 0xFFFFFFF8 enc nxt tag cur bt s \<noteq> None"
  then obtain x where x: "secure_blocks 0xFFFFFFF8 enc nxt tag cur bt s = Some x" by blast
  have "?P 0xFFFFFFF8 enc nxt tag cur bt s x"
  proof (rule secure_blocks.raw_induct [where P = ?P, OF _ x], intro impI)
    fix f :: "u32 \<Rightarrow> addr \<Rightarrow> u32 \<Rightarrow> addr \<Rightarrow> u32 \<Rightarrow> u32 \<Rightarrow> 'a tee_mach_scheme \<Rightarrow> ((u32 + u32) \<times> 'a tee_mach_scheme) option"
      and U enc nxt tag cur bt s x
    assume IH: "\<And>U enc nxt tag cur bt s x. f U enc nxt tag cur bt s = Some x \<Longrightarrow> ?P U enc nxt tag cur bt s x"
      and run: "secure_block U enc nxt tag cur bt s \<bind> (\<lambda>(out, s). case out of Inl r \<Rightarrow> Some (r, s)
        | Inr (enc, n, tag, cur) \<Rightarrow> f U enc n tag cur AES_BLK_TYPE_DATA_BLOCK s) = Some x"
      and U: "U = 0xFFFFFFF8" and e: "same_env s0 s" and al: "cur AND 7 = 0"
    obtain out u where u: "secure_block 0xFFFFFFF8 enc nxt tag cur bt s = Some (out, u)"
      using run U by (auto split: bind_splits)
    have "out = Inr (tag + 16, 8, tag + 16 + 8 + 48, cur + 8) \<and> same_env s u"
      by (rule endless_round [OF u]) (use env_answers [OF e] ready_env [OF e] assms(1,2) ann al in simp_all)
    then show False
      using IH run u U al same_env_trans [OF e] aligned8_add [OF al] by auto
  qed
  then show False using assms by simp
qed


section \<open>Properties of the write\<close>

text \<open>
  C11.  Writing an encrypted image refines the chain of blocks of its format.  Let the windows of the AES engine
  and of the PCAP not overlap.  For every answer of the hardware and every return of
  \<open>zynqmp_csu_secure_pcap_write\<close>, let \<open>vs\<close> be the words that the call read from the engine's \<open>IV3\<close> register
  after the header table; there is one for each block.  The first block is the secure header at the start the header
  table gives; each word but the last, taken as a big-endian number of words, is the length of the block that
  follows, which lies behind the tag of the one before.  The transfers started on the DMA's source channel are, in
  this order, those of these blocks: for each the first few of initialisation vector, data, next secure header
  and tag, at their physical addresses, and all of them when the DMA finishes its transfers in time and
  can take the block.  When the call succeeds, the last word announced nothing, the last block
  was pushed completely, the announced lengths add up (modulo \<open>2^32\<close>) to the length in the header table, and the
  logic was seen to report \<open>PL_DONE\<close>.  (Without a DMA in time even a success does not mean that the blocks before the last
  were complete, because the driver drops their errors.)
\<close>

theorem secure_write_refines_chain:
  assumes "pcap_ready s" and "csu_windows s"
    and "apart (tee_va s ZYNQMP_CSU_AES_BASE, 0x1000) (tee_va s ZYNQMP_CSU_PCAP_BASE, 0x1000)"
    and "zynqmp_csu_secure_pcap_write a len s = Some (r, s')"
  shows "\<exists>ks. image_streamed (reads_at (aes s + AES_IV3_OFFSET) (since (header_read a s) s')) ks a r s s'"
  using secure_write_run [OF assms(1,2,4)] iv3_unpolled [OF assms(1-3)] by blast

text \<open>
  On the small image the announced lengths add up to the eight bytes of its one data block; the DMA is in time, and the
  secure header at the start was pushed completely.
\<close>

theorem secure_write_refines_chain_witness:
  "\<exists>(s' :: tee_mach) vs ks. zynqmp_csu_secure_pcap_write 0x100000 0 (test_tee True 70 0xA0020000) = Some (TEE_SUCCESS, s') \<and>
     vs = reads_at 0xFFCA104C (since (header_read 0x100000 (test_tee True 70 0xA0020000)) s') \<and>
     image_streamed vs ks 0x100000 TEE_SUCCESS (test_tee True 70 0xA0020000) s' \<and>
     sum_list (map announced (butlast vs)) = 8 \<and> announced (last vs) = 0 \<and> ks ! 0 = 4"
proof -
  let ?s = "test_tee True 70 0xA0020000"
  obtain s' :: tee_mach where w: "zynqmp_csu_secure_pcap_write 0x100000 0 ?s = Some (TEE_SUCCESS, s')"
    using test_run [where b = True and tk = 0 and dfx = "0xA0020000" and s = ?s and len = 0] by (auto simp: test_tee_image) (auto simp: test_tee_def)
  have ap: "apart (tee_va ?s ZYNQMP_CSU_AES_BASE, 0x1000) (tee_va ?s ZYNQMP_CSU_PCAP_BASE, 0x1000)"
    by (simp add: test_tee_def apart_def)
  have pr: "dma_prompt ?s" by (auto simp: dma_prompt_def test_tee_def tee_hw_def intro!: exI [of _ 0])
  have ok: "dma_ok (tee_pa ?s) (image_blocks ?s 0x100000 ns ! 0)" for ns
    by (simp add: image_blocks_def test_tee_image) (simp add: dma_ok_def block_reqs_def dma_req_def test_tee_def)
  have aes: "aes ?s = 0xFFCA1000" by (simp add: test_tee_def)
  from secure_write_refines_chain [OF test_tee_ready(1,2) ap w] obtain ks where
    ks: "image_streamed (reads_at 0xFFCA104C (since (header_read 0x100000 ?s) s')) ks 0x100000 TEE_SUCCESS ?s s'"
    unfolding aes by auto
  then have "ks ! 0 = 4" "sum_list (map announced (butlast (reads_at 0xFFCA104C (since (header_read 0x100000 ?s) s')))) = 8"
    "announced (last (reads_at 0xFFCA104C (since (header_read 0x100000 ?s) s'))) = 0"
    using pr ok by (auto simp: image_streamed_def Let_def test_tee_image) (auto simp: image_blocks_def)
  with w ks show ?thesis by blast
qed

text \<open>
  C13.  Only the last block's tag decides about the success of the write: there is an image and
  there are devices for which the decryption of the first block fails with a mismatch of its
  authentication tag, and the whole call still reports success (and the caller takes the
  logic as configured).  The error of every block but the last is overwritten by the wait
  for the next key.
\<close>

theorem tag_mismatch_succeeds:
  "\<exists>(s :: tee_mach) s1 t s'. pcap_ready s \<and> csu_windows s \<and>
     secure_setup (header_read 0x100000 s) = Some (TEE_SUCCESS, s1) \<and>
     zynqmp_csu_aes_decrypt_data (image_start s 0x100000) 0 (image_start s 0x100000 + 48) (bs_iv s1) AES_BLK_TYPE_SECURE_HEADER s1
       = Some (TEE_ERROR_GENERIC, t) \<and>
     zynqmp_csu_secure_pcap_write 0x100000 len s = Some (TEE_SUCCESS, s') \<and> pl_done s s'"
proof -
  let ?s = "test_tee False 70 0xA0020000"
  obtain s1 t s' :: tee_mach where w: "secure_setup (header_read 0x100000 ?s) = Some (0, s1)"
    "zynqmp_csu_aes_decrypt_data 0x100400 0 0x100430 (bs_iv s1) 0 s1 = Some (TEE_ERROR_GENERIC, t)"
    "zynqmp_csu_secure_pcap_write 0x100000 len ?s = Some (TEE_SUCCESS, s')"
    using test_run [where b = False and tk = 0 and dfx = "0xA0020000" and s = ?s and len = len] by (auto simp: test_tee_image) (auto simp: test_tee_def)
  have "pl_done ?s s'" using secure_write_run [OF test_tee_ready(1,2) w(3)] by (auto simp: image_streamed_def Let_def)
  with w show ?thesis
    by (intro exI [of _ ?s] exI [of _ s1] exI [of _ t] exI [of _ s']) (simp add: test_tee_image test_tee_ready)
qed

text \<open>
  C14.  Writing an encrypted image returns, with a success or an error, whatever the devices
  answer, provided that the counter-timer runs, that the PCAP's write side becomes idle again
  (the wait for it has no timeout), and that no announced block length overflows the 32-bit
  counter of the image's length.
\<close>

theorem secure_write_returns:
  assumes "pcap_ready s" and "csu_windows s" and "timer_runs s" and "pcap_drains s" and "no_overflow (image_len s a) s"
  shows "\<exists>r s'. zynqmp_csu_secure_pcap_write a len s = Some (r, s')"
proof -
  have e: "same_env s (header_read a s)" by (rule touches_env [OF header_read_fields(2)])
  have "timer_runs (header_read a s)" "pcap_drains (header_read a s)" "no_overflow (image_len s a) (header_read a s)"
    using assms timer_runs_env [OF e] e by (simp_all add: pcap_drains_def no_overflow_def same_env_def)
  then show ?thesis
    unfolding secure_write_unfold using secure_stream_ends ready_env [OF e] assms(1,2) by blast
qed

theorem secure_write_returns_witness:
  "\<exists>r (s' :: tee_mach). zynqmp_csu_secure_pcap_write 0x100000 5 (test_tee False 3 0xA0020000) = Some (r, s')"
proof (rule secure_write_returns [OF test_tee_ready(1,2)])
  show "timer_runs (test_tee False 3 0xA0020000)"
    unfolding timer_runs_def
  proof (intro allI)
    fix t t0 and us :: u32
    show "\<exists>t'\<ge>t. tee_late (test_tee False 3 0xA0020000) t0 us t'"
      by (intro exI [of _ "Suc (t + t0 + unat us)"]) (simp add: test_tee_def)
  qed
  show "pcap_drains (test_tee False 3 0xA0020000)" by (auto simp: pcap_drains_def test_tee_def tee_hw_def)
  show "no_overflow (image_len (test_tee False 3 0xA0020000) 0x100000) (test_tee False 3 0xA0020000)"
    by (simp add: no_overflow_def test_tee_image) (simp add: test_tee_def tee_hw_def endian_swap_def)
qed

end
