(* ===== verification/FPGA_MGR.thy ===== *)
theory FPGA_MGR
  imports CSU_PCAP
begin

text \<open>
  The pseudo trusted application that reconfigures the programmable logic,
  \<open>core/pta/zynqmp/fpga_mgr.c\<close>: it checks the image, initialises the PCAP, isolates the two
  reconfigurable partitions from the static logic (where the watchdog lives), writes the image
  and connects the partitions again.

  The specification is an automaton over the bus trace (\<open>isolation\<close>): a DMA transfer into the
  logic may start only while both decouplers isolate their partition.
\<close>

abbreviation (input) ZYNQMP_DFX_DECOUPLER_BASE :: addr where "ZYNQMP_DFX_DECOUPLER_BASE \<equiv> 0xA0020000"
abbreviation (input) DFX_DECOUPLER_1_OFFSET :: addr where "DFX_DECOUPLER_1_OFFSET \<equiv> 0x00000"
abbreviation (input) DFX_DECOUPLER_0_OFFSET :: addr where "DFX_DECOUPLER_0_OFFSET \<equiv> 0x10000"
abbreviation (input) DFX_DECOUPLE :: u32 where "DFX_DECOUPLE \<equiv> 1"
abbreviation (input) DFX_COUPLE :: u32 where "DFX_COUPLE \<equiv> 0"
abbreviation (input) TEE_PARAM_TYPE_MEMREF_INOUT :: u32 where "TEE_PARAM_TYPE_MEMREF_INOUT \<equiv> 7"
abbreviation (input) PTA_ZYNQMP_FPGA_MGR_CMD_WRITE :: u32 where "PTA_ZYNQMP_FPGA_MGR_CMD_WRITE \<equiv> 0"

definition zynqmp_dfx_decouple :: "u32 \<Rightarrow> 'a tee_mach_scheme \<Rightarrow> 'a tee_mach_scheme" where
  "zynqmp_dfx_decouple decouple s =
     (let base = tee_va s ZYNQMP_DFX_DECOUPLER_BASE
      in if base = 0 then s
         else mmio_write_32 (base + DFX_DECOUPLER_0_OFFSET) decouple
                (mmio_write_32 (base + DFX_DECOUPLER_1_OFFSET) decouple s))"

definition pta_zynqmp_fpga_write :: "u32 \<Rightarrow> addr \<Rightarrow> u64 \<Rightarrow> 'a tee_mach_scheme \<Rightarrow> (u32 \<times> 'a tee_mach_scheme) option" where
  "pta_zynqmp_fpga_write param_types va sz s =
     (if param_types \<noteq> TEE_PARAM_TYPE_MEMREF_INOUT then Some (TEE_ERROR_BAD_PARAMETERS, s)
      else if va = 0 \<or> sz = 0 then Some (TEE_ERROR_BAD_PARAMETERS, s)
      else
        let (result, s) = validateSecureBitstream va sz s
        in if result \<noteq> TEE_SUCCESS then Some (result, s)
        else do {
          (result, s) \<leftarrow> zynqmp_csu_pcap_init s;
          if result \<noteq> TEE_SUCCESS then Some (TEE_ERROR_GENERIC, s)
          else do {
            let s = zynqmp_dfx_decouple DFX_DECOUPLE s;
            (result, s) \<leftarrow> zynqmp_csu_secure_pcap_write va sz s;
            Some (result, zynqmp_dfx_decouple DFX_COUPLE s)
          }
        })"

definition invoke_command :: "u32 \<Rightarrow> u32 \<Rightarrow> addr \<Rightarrow> u64 \<Rightarrow> 'a tee_mach_scheme \<Rightarrow> (u32 \<times> 'a tee_mach_scheme) option" where
  "invoke_command cmd_id param_types va sz s =
     (if cmd_id = PTA_ZYNQMP_FPGA_MGR_CMD_WRITE then pta_zynqmp_fpga_write param_types va sz s
      else Some (TEE_ERROR_BAD_PARAMETERS, s))"

section \<open>The isolation automaton\<close>

text \<open>
  The state is whether each decoupler isolates (bit 0 of what was last written to it); \<open>None\<close> is a
  violation: a transfer started while a partition was connected.
\<close>

fun isolation :: "addr \<Rightarrow> addr \<Rightarrow> bool \<times> bool \<Rightarrow> ioev list \<Rightarrow> (bool \<times> bool) option" where
  "isolation dfx d st [] = Some st"
| "isolation dfx d (p1, p0) (WR a v # es) =
     (if a = dfx then isolation dfx d (bit v 0, p0) es
      else if a = dfx + 0x10000 then isolation dfx d (p1, bit v 0) es
      else if a = d + 0x04 \<and> \<not> (p1 \<and> p0) then None
      else isolation dfx d (p1, p0) es)"
| "isolation dfx d st (_ # es) = isolation dfx d st es"

lemma isolation_quiet:
  assumes "wr_in W es" "dfx \<notin> W" "dfx + 0x10000 \<notin> W" "d + 0x04 \<notin> W"
  shows "isolation dfx d st (es @ fs) = isolation dfx d st fs"
  using assms by (induction dfx d st es rule: isolation.induct) auto

lemma isolation_decoupled:
  assumes "wr_in W es" "dfx \<notin> W" "dfx + 0x10000 \<notin> W"
  shows "isolation dfx d (True, True) (es @ fs) = isolation dfx d (True, True) fs"
  using assms by (induction es) (auto simp: wr_in_def split: ioev.splits)

text \<open>The decouplers are mapped, away from the other devices.\<close>

definition dfx_windows :: "'a tee_mach_scheme \<Rightarrow> bool" where
  "dfx_windows s \<longleftrightarrow> tee_va s ZYNQMP_DFX_DECOUPLER_BASE \<noteq> 0 \<and>
     (\<forall>x \<in> set [(CSUDMA_BASE, 0x1000), (CSU_BASE, 0x1000), (ZYNQMP_CSU_AES_BASE, 0x1000), (ZYNQMP_CSU_PCAP_BASE, 0x1000), (CRL_APB_BASE, 0x2B0)].
       apart (tee_va s ZYNQMP_DFX_DECOUPLER_BASE, 0x20000) (tee_va s (fst x), snd x))"

lemma dfx_apart:
  assumes "dfx_windows s" "a \<in> win (tee_va s ZYNQMP_DFX_DECOUPLER_BASE) 0x20000"
  shows "a \<notin> allw s"
  using assms unfolding dfx_windows_def allw_def by (auto dest: apart_disjoint)

lemma dfx_regs:
  assumes "dfx_windows s"
  shows "tee_va s ZYNQMP_DFX_DECOUPLER_BASE \<notin> allw s" "tee_va s ZYNQMP_DFX_DECOUPLER_BASE + 0x10000 \<notin> allw s"
    "tee_va s ZYNQMP_DFX_DECOUPLER_BASE \<noteq> tee_va s CSUDMA_BASE + 0x04"
    "tee_va s ZYNQMP_DFX_DECOUPLER_BASE + 0x10000 \<noteq> tee_va s CSUDMA_BASE + 0x04"
proof -
  show 1: "tee_va s ZYNQMP_DFX_DECOUPLER_BASE \<notin> allw s" "tee_va s ZYNQMP_DFX_DECOUPLER_BASE + 0x10000 \<notin> allw s"
    by (auto intro!: dfx_apart [OF assms] win_self win_first)
  have "tee_va s CSUDMA_BASE + 0x04 \<in> allw s" by (simp add: allw_def win_self)
  then show "tee_va s ZYNQMP_DFX_DECOUPLER_BASE \<noteq> tee_va s CSUDMA_BASE + 0x04"
    "tee_va s ZYNQMP_DFX_DECOUPLER_BASE + 0x10000 \<noteq> tee_va s CSUDMA_BASE + 0x04" using 1 by metis+
qed

section \<open>What the steps of a reconfiguration write\<close>

lemma validateSecureBitstream_touches: "touches W s (snd (validateSecureBitstream va sz s))"
proof -
  let ?s1 = "snd (ram_read32 (va + AUTHCERT_HEADER_OFFSET) s)"
  let ?s2 = "snd (ram_read32 (va + ucast (mem_word s (va + AUTHCERT_HEADER_OFFSET)) + AUTHCERT_OFFSET) ?s1)"
  let ?s3 = "snd (ram_read32 (va + KEY_SOURCE_OFFSET) ?s2)"
  have 1: "touches W s ?s1" by (rule ram_read_touches)
  have 2: "touches W s ?s2" using 1 ram_read_touches by (rule touches_trans)
  have 3: "touches W s ?s3" using 2 ram_read_touches by (rule touches_trans)
  then have "touches W s (?s3\<lparr>tee_mem := m, bs_iv := i\<rparr>)" for m i by (simp add: touches_def same_env_def)
  with 2 3 show ?thesis
    by (simp add: validateSecureBitstream_def case_prod_unfold Let_def touches_refl)
qed

lemma pcap_init_touches:
  assumes run: "zynqmp_csu_pcap_init s = Some (r, u)" and rd: "pcap_ready s" "csu_windows s"
  shows "touches (quietw s) s u"
proof -
  let ?s1 = "mmio_write_32 (crl_apb s + PCAP_CLK_CTRL_OFFSET) (fst (mmio_read_32 (crl_apb s + PCAP_CLK_CTRL_OFFSET) s) OR PCAP_CLK_EN_MASK)
      (snd (mmio_read_32 (crl_apb s + PCAP_CLK_CTRL_OFFSET) s))"
  have 1: "touches (quietw s) s ?s1"
    by (rule touches_trans [OF touches_read touches_write]) (use ready_in(4) [OF rd] in simp)
  let ?s2 = "snd (mmio_read_32 (pcap s + PCAP_STS_OFFSET) ?s1)"
  have 2: "touches (quietw s) s ?s2" using 1 touches_read by (rule touches_trans)
  let ?s3 = "write_words [(pcap s + PCAP_RESET_OFFSET, 1), (pcap s + PCAP_RESET_OFFSET, 0), (pcap s + PCAP_CTRL_OFFSET, 1), (pcap s + PCAP_RDWR_OFFSET, 0)] ?s2"
  have 3: "touches (quietw s) s ?s3"
    by (rule touches_trans [OF 2 write_words_touches]) (use ready_in(1) [OF rd] in simp)
  have "u = ?s2 \<or> (\<exists>q. waitForEvent (pcap s + PCAP_STS_OFFSET) PCAP_STS_PL_INIT_MASK PCAP_STS_PL_INIT_MASK TIMEOUT_USEC ?s3 = Some (q, u))"
    using run rd(1) unfolding zynqmp_csu_pcap_init_def Let_def
    by (auto simp: case_prod_unfold pcap_ready_def split: if_splits)
  then show ?thesis using 2 touches_trans [OF 3 waitForEvent_touches] by blast
qed

lemma zynqmp_dfx_decouple_evs:
  assumes "tee_va s ZYNQMP_DFX_DECOUPLER_BASE \<noteq> 0"
  shows "m_evs (zynqmp_dfx_decouple v s) = m_evs s @ [WR (tee_va s ZYNQMP_DFX_DECOUPLER_BASE) v, WR (tee_va s ZYNQMP_DFX_DECOUPLER_BASE + 0x10000) v]"
  using assms by (simp add: zynqmp_dfx_decouple_def Let_def)

lemma zynqmp_dfx_decouple_env: "same_env s (zynqmp_dfx_decouple v s)"
  by (simp add: zynqmp_dfx_decouple_def same_env_def Let_def)

text \<open>The trace of a reconfiguration: nothing but preparation, or a write between isolation and connection.\<close>

lemma fpga_write_cases:
  assumes run: "pta_zynqmp_fpga_write pt va sz s = Some (r, s')"
    and rd: "pcap_ready s" "csu_windows s" and dfx: "tee_va s ZYNQMP_DFX_DECOUPLER_BASE \<noteq> 0"
  obtains (refused) "r \<noteq> 0" "touches (quietw s) s s'"
  | (written) es fs where "wr_in (quietw s) es" "wr_in (allw s) fs"
      "since s s' = es @ [WR (tee_va s ZYNQMP_DFX_DECOUPLER_BASE) 1, WR (tee_va s ZYNQMP_DFX_DECOUPLER_BASE + 0x10000) 1] @ fs @
        [WR (tee_va s ZYNQMP_DFX_DECOUPLER_BASE) 0, WR (tee_va s ZYNQMP_DFX_DECOUPLER_BASE + 0x10000) 0]"
proof -
  obtain q t where t: "validateSecureBitstream va sz s = (q, t)" by fastforce
  have st: "touches (quietw s) s t" using validateSecureBitstream_touches [of "quietw s" s va sz] t by simp
  have et: "same_env s t" by (rule touches_env [OF st])
  have rt: "pcap_ready t" "csu_windows t" "quietw t = quietw s"
    using ready_env [OF et] srcregs_env [OF et] rd by (simp_all add: quietw_def)
  consider (bad) "r \<noteq> 0" "s' = s \<or> s' = t" | (init) q u where "zynqmp_csu_pcap_init t = Some (q, u)"
      "(if q \<noteq> 0 then Some (TEE_ERROR_GENERIC, u) else
        zynqmp_csu_secure_pcap_write va sz (zynqmp_dfx_decouple DFX_DECOUPLE u) \<bind>
          (\<lambda>(result, s). Some (result, zynqmp_dfx_decouple DFX_COUPLE s))) = Some (r, s')"
    using run t unfolding pta_zynqmp_fpga_write_def by (auto simp: Let_def split: if_splits bind_splits)
  then show thesis
  proof cases
    case bad
    then show thesis using refused st touches_refl by auto
  next
    case (init q u)
    have su: "touches (quietw s) s u"
      using touches_trans [OF st pcap_init_touches [OF init(1) rt(1,2), unfolded rt(3)]] .
    show thesis
    proof (cases "q = 0")
      case False
      then show thesis using refused su init(2) by auto
    next
      case True
      let ?v = "zynqmp_dfx_decouple DFX_DECOUPLE u"
      obtain w where w: "zynqmp_csu_secure_pcap_write va sz ?v = Some (r, w)" "s' = zynqmp_dfx_decouple DFX_COUPLE w"
        using init(2) True by (auto split: bind_splits)
      have eu: "same_env s u" by (rule touches_env [OF su])
      have ev: "same_env s ?v" using same_env_trans [OF eu zynqmp_dfx_decouple_env] .
      have vw: "touches (allw s) ?v w" using secure_write_run [OF _ _ w(1)] ready_env [OF ev] rd by auto
      have ew: "same_env s w" using same_env_trans [OF ev touches_env [OF vw]] .
      obtain es where es: "m_evs u = m_evs s @ es" "wr_in (quietw s) es" using su unfolding touches_def by blast
      obtain fs where fs: "m_evs w = m_evs ?v @ fs" "wr_in (allw s) fs" using vw unfolding touches_def by blast
      have "since s s' = es @ [WR (tee_va s ZYNQMP_DFX_DECOUPLER_BASE) 1, WR (tee_va s ZYNQMP_DFX_DECOUPLER_BASE + 0x10000) 1] @ fs @
        [WR (tee_va s ZYNQMP_DFX_DECOUPLER_BASE) 0, WR (tee_va s ZYNQMP_DFX_DECOUPLER_BASE + 0x10000) 0]"
        using zynqmp_dfx_decouple_evs [of u 1] zynqmp_dfx_decouple_evs [of w 0] eu ew dfx es(1) fs(1) w(2)
        by (simp add: since_def same_env_def)
      with es(2) fs(2) show thesis by (rule written)
    qed
  qed
qed

text \<open>A run of the whole command on the responsive devices.\<close>

lemma pcap_init_now:
  assumes r: "responsive s"
  shows "\<exists>u. zynqmp_csu_pcap_init s = Some (0, u) \<and> adv 8 s u \<and> tee_mem u = tee_mem s"
proof -
  have p: "pcap s = tee_va s ZYNQMP_CSU_PCAP_BASE" "pcap s \<noteq> 0" using r by (auto simp: responsive_def pcap_ready_def)
  let ?s1 = "mmio_write_32 (crl_apb s + PCAP_CLK_CTRL_OFFSET) (fst (mmio_read_32 (crl_apb s + PCAP_CLK_CTRL_OFFSET) s) OR PCAP_CLK_EN_MASK)
      (snd (mmio_read_32 (crl_apb s + PCAP_CLK_CTRL_OFFSET) s))"
  let ?s2 = "snd (mmio_read_32 (pcap s + PCAP_STS_OFFSET) ?s1)"
  let ?s3 = "write_words [(pcap s + PCAP_RESET_OFFSET, 1), (pcap s + PCAP_RESET_OFFSET, 0), (pcap s + PCAP_CTRL_OFFSET, 1), (pcap s + PCAP_RDWR_OFFSET, 0)] ?s2"
  have a3: "adv 7 s ?s3" by (simp add: adv_def same_env_def)
  have r3: "responsive ?s3" using responsive_adv [OF a3] r by simp
  have "waitForEvent (pcap s + PCAP_STS_OFFSET) PCAP_STS_PL_INIT_MASK PCAP_STS_PL_INIT_MASK TIMEOUT_USEC ?s3
      = Some (0, snd (mmio_read_32 (pcap s + PCAP_STS_OFFSET) ?s3))"
    by (rule wait_now [OF r3]) (use r in \<open>simp add: p(1), simp add: responsive_def\<close>)
  moreover have "m_hw s t (pcap s + PCAP_STS_OFFSET) v AND PCAP_STS_PL_GPWRDWN_B_MASK \<noteq> 0" for t v
    using r unfolding p(1) by (simp add: responsive_def)
  ultimately have "zynqmp_csu_pcap_init s = Some (0, snd (mmio_read_32 (pcap s + PCAP_STS_OFFSET) ?s3))"
    using p(2) by (simp add: zynqmp_csu_pcap_init_def case_prod_unfold Let_def)
  moreover have "adv 8 s (snd (mmio_read_32 (pcap s + PCAP_STS_OFFSET) ?s3))" using adv_trans [OF a3 adv_read] by simp
  ultimately show ?thesis by simp
qed

lemma validate_accepts:
  assumes "mem_bytes s (va + SECURE_SYNC_WORD_OFFSET) 8 = SecureBootgenBinFormat"
    "mem_word s (va + ucast (mem_word s (va + AUTHCERT_HEADER_OFFSET)) + AUTHCERT_OFFSET) = 0"
    "mem_word s (va + KEY_SOURCE_OFFSET) = KEY_SRC_KUP"
  shows "\<exists>u. validateSecureBitstream va sz s = (0, u) \<and> same_env s u \<and> m_now u = m_now s + 3 \<and> bs_iv u = iv_arr s \<and>
    tee_mem u = mem_copy IV_LEN (iv_arr s) (va + IV_OFFSET) (tee_mem s)"
proof -
  have "length SecureBootgenBinFormat = 8" by (simp add: SecureBootgenBinFormat_def)
  with assms show ?thesis
    by (simp add: validateSecureBitstream_def case_prod_unfold Let_def) (simp add: ram_read32_def same_env_def)
qed

lemma mem_copy_zeros:
  "(\<And>i. i < n \<Longrightarrow> tee_image (d + of_nat i) = 0 \<and> tee_image (a + of_nat i) = 0) \<Longrightarrow> mem_copy n d a tee_image = tee_image"
proof (induction n arbitrary: d a)
  case (Suc n)
  have "tee_image (d + 1 + of_nat i) = 0 \<and> tee_image (a + 1 + of_nat i) = 0" if "i < n" for i
    using Suc.prems [of "Suc i"] that by (simp add: add.assoc)
  then have "mem_copy n (d + 1) (a + 1) tee_image = tee_image" by (rule Suc.IH)
  then show ?case using Suc.prems [of 0] by (simp add: fun_upd_idem)
qed simp

lemma test_iv_copy: "mem_copy 12 0x200000 0x1000A0 tee_image = tee_image"
proof (rule mem_copy_zeros)
  fix i :: nat assume "i < 12"
  then have "i \<in> {0, 1, 2, 3, 4, 5, 6, 7, 8, 9, 10, 11}" by (simp, presburger)
  then show "tee_image (0x200000 + of_nat i) = 0 \<and> tee_image (0x1000A0 + of_nat i) = 0"
    by (elim insertE emptyE; simp add: tee_image_def)
qed

lemma test_validate:
  "\<exists>u. validateSecureBitstream 0x100000 sz (test_tee b T dfx) = (0, u) \<and> same_env (test_tee b T dfx) u \<and> m_now u = 3 \<and>
    bs_iv u = 0x200000 \<and> tee_mem u = tee_image"
proof -
  let ?s = "test_tee b T dfx"
  have "mem_word ?s 0x100098 = 0x300" "mem_word ?s 0x100310 = 0" "mem_word ?s 0x100028 = KEY_SRC_KUP"
    "mem_bytes ?s 0x100020 8 = SecureBootgenBinFormat"
    by (simp_all add: mem_word_def mem_bytes_def upt_rec SecureBootgenBinFormat_def test_tee_def tee_image_def)
  then have "\<exists>u. validateSecureBitstream 0x100000 sz ?s = (0, u) \<and> same_env ?s u \<and> m_now u = m_now ?s + 3 \<and> bs_iv u = iv_arr ?s \<and>
    tee_mem u = mem_copy IV_LEN (iv_arr ?s) (0x100000 + IV_OFFSET) (tee_mem ?s)"
    by (intro validate_accepts) simp_all
  moreover have "m_now ?s = 0" "iv_arr ?s = 0x200000" "tee_mem ?s = tee_image" by (simp_all add: test_tee_def)
  ultimately show ?thesis by (simp add: test_iv_copy)
qed

lemma test_reconfiguration:
  assumes "tk = (if dfx = 0 then 11 else 13)"
  shows "\<exists>s'. pta_zynqmp_fpga_write 7 0x100000 0x1000 (test_tee b (tk + 70) dfx) = Some (0, s')"
proof -
  let ?s = "test_tee b (tk + 70) dfx"
  obtain t where t: "validateSecureBitstream 0x100000 0x1000 ?s = (0, t)" "same_env ?s t" "m_now t = 3" "bs_iv t = 0x200000"
    "tee_mem t = tee_image"
    using test_validate by blast
  have rt: "responsive t" using env_answers [OF t(2)] test_tee_ready(3) by blast
  obtain u where u: "zynqmp_csu_pcap_init t = Some (0, u)" "adv 8 t u" "tee_mem u = tee_mem t"
    using pcap_init_now [OF rt] by blast
  let ?v = "zynqmp_dfx_decouple DFX_DECOUPLE u"
  have eu: "same_env ?s u" "m_now u = 11" "bs_iv u = 0x200000" using u(2) t by (auto simp: adv_def intro: same_env_trans)
  have va: "tee_va u ZYNQMP_DFX_DECOUPLER_BASE = dfx" using eu(1) by (simp add: same_env_def test_tee_def)
  have ev: "same_env ?s ?v" using same_env_trans [OF eu(1) zynqmp_dfx_decouple_env] .
  have mv: "m_now ?v = tk" "bs_iv ?v = 0x200000" "tee_mem ?v = tee_image"
    using eu va assms u(3) t(5) by (simp_all add: zynqmp_dfx_decouple_def)
  have "mem_word ?v = mem_word ?s" using mv(3) by (simp add: mem_word_def fun_eq_iff test_tee_def)
  then have "image_start ?v 0x100000 = 0x100400" "image_len ?v 0x100000 = 8"
    using test_tee_image [of b "tk + 70" dfx] by (simp_all add: image_start_def image_len_def header_table_def)
  then obtain w where "zynqmp_csu_secure_pcap_write 0x100000 0x1000 ?v = Some (0, w)"
    using test_run [OF ev mv(1,2)] by blast
  with t(1) u(1) show ?thesis by (simp add: pta_zynqmp_fpga_write_def)
qed

text \<open>
  C10.  The static logic, and with it the watchdog, is isolated from the partitions while they are
  rewritten: on every return of the reconfiguration command, whatever the devices answer and
  whatever the image holds, no DMA transfer into the logic started while a decoupler connected
  its partition; and at the end both partitions are connected again, unless the command failed
  before it isolated them, in which case it started no transfer and left the decouplers alone.
\<close>

theorem reconfiguration_isolated:
  assumes "pcap_ready s" and "csu_windows s" and "dfx_windows s"
    and "pta_zynqmp_fpga_write param_types va sz s = Some (r, s')"
  shows "isolation (tee_va s ZYNQMP_DFX_DECOUPLER_BASE) (tee_va s CSUDMA_BASE) st (since s s') = Some (False, False) \<or>
    (isolation (tee_va s ZYNQMP_DFX_DECOUPLER_BASE) (tee_va s CSUDMA_BASE) st (since s s') = Some st \<and>
     r \<noteq> TEE_SUCCESS \<and> dma_reqs (tee_va s CSUDMA_BASE) lo hi (since s s') = [])"
proof -
  let ?x = "tee_va s ZYNQMP_DFX_DECOUPLER_BASE" and ?d = "tee_va s CSUDMA_BASE"
  note regs = dfx_regs [OF assms(3)]
  have q: "?x \<notin> quietw s" "?x + 0x10000 \<notin> quietw s" "?d + 0x04 \<notin> quietw s" "?d \<notin> quietw s" "?d + 0x28 \<notin> quietw s"
    using regs(1,2) by (auto simp: quietw_def srcregs_def)
  have nz: "?x \<noteq> 0" using assms(3) by (simp add: dfx_windows_def)
  from assms(4,1,2) nz show ?thesis
  proof (cases rule: fpga_write_cases)
    case refused
    then obtain es where es: "since s s' = es" "wr_in (quietw s) es" by (auto simp: touches_def since_def)
    have "isolation ?x ?d st es = Some st" using isolation_quiet [OF es(2) q(1,2,3), of st "[]"] by (cases st) simp
    moreover have "dma_reqs ?d lo hi es = []" using dma_reqs_quiet [OF es(2) q(4,3,5), of lo hi "[]"] by simp
    ultimately show ?thesis using refused(1) es(1) by simp
  next
    case (written es fs)
    obtain p1 p0 where st: "st = (p1, p0)" by fastforce
    show ?thesis
      unfolding written(3) st using regs
      by (simp add: isolation_quiet [OF written(1) q(1,2,3)] isolation_decoupled [OF written(2)])
  qed
qed

theorem reconfiguration_isolated_witness:
  "\<exists>s'. pta_zynqmp_fpga_write 7 0x100000 0x1000 (test_tee True 83 0xA0020000) = Some (TEE_SUCCESS, s') \<and>
     isolation 0xA0020000 CSUDMA_BASE (False, False) (since (test_tee True 83 0xA0020000) s') = Some (False, False)"
proof -
  let ?s = "test_tee True 83 0xA0020000"
  obtain s' where s': "pta_zynqmp_fpga_write 7 0x100000 0x1000 ?s = Some (0, s')"
    using test_reconfiguration [of 13 "0xA0020000" True] by auto
  have "dfx_windows ?s" by (simp add: dfx_windows_def apart_def test_tee_def)
  from reconfiguration_isolated [OF test_tee_ready(1,2) this s', of "(False, False)" 0 0] s' show ?thesis
    by (simp add: test_tee_def)
qed

end
