(* ===== verification/BS_Downloader.thy ===== *)
theory BS_Downloader
  imports FPGA_MGR
begin

text \<open>
  The trusted application that fetches a bitstream over the network and has it written into the
  logic, \<open>optee_examples/bs_downloader/ta/bs_downloader_ta.c\<close>.

  The internal core API it calls (sessions, heap, sockets) is the environment: each call takes a
  tick, and its answer at tick \<open>t\<close> is given by a function of the state that is never fixed.
  \<open>net_recv t\<close> is the answer of \<open>recv\<close>: its result, the count it stores in \<open>*len\<close>, and the bytes
  it writes at the buffer.  The command of the pseudo trusted application is a parameter of
  \<open>downlaod_bs\<close>; the properties instantiate it with the model of that application.
\<close>

record ta_mach = tee_mach +
  tee_open :: "nat \<Rightarrow> u32 \<times> u32"
  tee_malloc :: "nat \<Rightarrow> addr"
  net_open :: "nat \<Rightarrow> u32"
  net_recv :: "nat \<Rightarrow> u32 \<times> u32 \<times> u8 list"
  pta_zynqmp_fpga_mgr_session :: u32
  ta_param_types :: u32
  ta_params :: "addr \<times> u64"

abbreviation (input) REVC_BLOCK :: u32 where "REVC_BLOCK \<equiv> 0x10000"
abbreviation (input) BITSTREAM_SIZE :: u32 where "BITSTREAM_SIZE \<equiv> 5000000"
abbreviation (input) TEE_HANDLE_NULL :: u32 where "TEE_HANDLE_NULL \<equiv> 0"
abbreviation (input) TEE_PARAM_TYPE_VALUE_OUTPUT :: u32 where "TEE_PARAM_TYPE_VALUE_OUTPUT \<equiv> 2"
abbreviation (input) TA_BS_DOWNLOADER_CMD_DOWNLOAD :: u32 where "TA_BS_DOWNLOADER_CMD_DOWNLOAD \<equiv> 0"

definition TA_OpenSessionEntryPoint :: "u32 \<Rightarrow> 'a ta_mach_scheme \<Rightarrow> u32 \<times> 'a ta_mach_scheme" where
  "TA_OpenSessionEntryPoint param_types s =
     (if param_types \<noteq> 0 then (TEE_ERROR_BAD_PARAMETERS, s)
      else
        let (res, s) =
              (if pta_zynqmp_fpga_mgr_session s = TEE_HANDLE_NULL
               then let (res, h) = tee_open s (m_now s); s = fw_call ''TEE_OpenTASession'' [] s
                    in (res, s\<lparr>pta_zynqmp_fpga_mgr_session := h\<rparr>)
               else (TEE_SUCCESS, s))
        in if res \<noteq> TEE_SUCCESS then (res, s)
           else (TEE_SUCCESS, s\<lparr>ta_param_types := TEE_PARAM_TYPE_MEMREF_INOUT\<rparr>))"

definition tcp_connect :: "'a ta_mach_scheme \<Rightarrow> u32 \<times> 'a ta_mach_scheme" where
  "tcp_connect s = (net_open s (m_now s), fw_call ''open'' [] s)"

text \<open>The bytes that \<open>recv\<close> stores at the address.\<close>

fun mem_write :: "addr \<Rightarrow> u8 list \<Rightarrow> (addr \<Rightarrow> u8) \<Rightarrow> addr \<Rightarrow> u8" where
  "mem_write a [] m = m"
| "mem_write a (b # bs) m = mem_write (a + 1) bs (m(a := b))"

text \<open>The receive loop: it ends when \<open>recv\<close> reports a count of zero, and only then.\<close>

partial_function (option) recv_loop :: "addr \<Rightarrow> 'a ta_mach_scheme \<Rightarrow> ((u32 \<times> addr) \<times> 'a ta_mach_scheme) option" where
  "recv_loop ptr s =
     (let (res, chunk, data) = net_recv s (m_now s);
          s = (fw_call ''recv'' [REVC_BLOCK] s)\<lparr>tee_mem := mem_write ptr data (tee_mem s)\<rparr>;
          ptr = ptr + ucast chunk
      in if chunk > 0 then recv_loop ptr s else Some ((res, ptr), s))"

declare recv_loop.simps [code]

definition socket_client :: "addr \<Rightarrow> u32 \<Rightarrow> 'a ta_mach_scheme \<Rightarrow> ((u32 \<times> u32) \<times> 'a ta_mach_scheme) option" where
  "socket_client data data_size s =
     (let (res, s) = tcp_connect s
      in if res \<noteq> TEE_SUCCESS then Some ((TEE_ERROR_BAD_PARAMETERS, data_size), s)
      else do {
        ((res, ptr), s) \<leftarrow> recv_loop data s;
        let data_size = ucast (ptr - data);
        if res \<noteq> TEE_SUCCESS then Some ((res, data_size), s)
        else Some ((res, data_size), fw_call ''close'' [] s)
      })"

definition downlaod_bs ::
  "(u32 \<Rightarrow> u32 \<Rightarrow> addr \<Rightarrow> u64 \<Rightarrow> 'a ta_mach_scheme \<Rightarrow> (u32 \<times> 'a ta_mach_scheme) option) \<Rightarrow>
     u32 \<Rightarrow> 'a ta_mach_scheme \<Rightarrow> (u32 \<times> 'a ta_mach_scheme) option" where
  "downlaod_bs invoke param_types s =
     (if param_types \<noteq> TEE_PARAM_TYPE_VALUE_OUTPUT then Some (TEE_ERROR_BAD_PARAMETERS, s)
      else
        let ptr = tee_malloc s (m_now s);
            s = fw_call ''TEE_Malloc'' [BITSTREAM_SIZE] s
        in if ptr = 0 then Some (TEE_ERROR_GENERIC, s)
        else do {
          let s = s\<lparr>tee_mem := (\<lambda>a. if a \<in> win ptr (ucast BITSTREAM_SIZE) then 0 else tee_mem s a)\<rparr>;
          ((res, bs_len), s) \<leftarrow> socket_client ptr BITSTREAM_SIZE s;
          let s = s\<lparr>ta_params := (ptr, ucast bs_len)\<rparr>;
          (res, s) \<leftarrow> invoke PTA_ZYNQMP_FPGA_MGR_CMD_WRITE (ta_param_types s) (fst (ta_params s)) (snd (ta_params s)) s;
          Some (res, fw_call ''TEE_Free'' [] s)
        })"

definition TA_InvokeCommandEntryPoint ::
  "(u32 \<Rightarrow> u32 \<Rightarrow> addr \<Rightarrow> u64 \<Rightarrow> 'a ta_mach_scheme \<Rightarrow> (u32 \<times> 'a ta_mach_scheme) option) \<Rightarrow>
     u32 \<Rightarrow> u32 \<Rightarrow> 'a ta_mach_scheme \<Rightarrow> (u32 \<times> 'a ta_mach_scheme) option" where
  "TA_InvokeCommandEntryPoint invoke cmd_id param_types s =
     (if cmd_id = TA_BS_DOWNLOADER_CMD_DOWNLOAD then downlaod_bs invoke param_types s
      else Some (TEE_ERROR_BAD_PARAMETERS, s))"

section \<open>The downloaded stream\<close>

lemma ta_fields [bus_simps]:
  "tee_open (fw_call f as s) = tee_open s" "tee_malloc (fw_call f as s) = tee_malloc s"
  "net_open (fw_call f as s) = net_open s" "net_recv (fw_call f as s) = net_recv s"
  "pta_zynqmp_fpga_mgr_session (fw_call f as s) = pta_zynqmp_fpga_mgr_session s"
  "ta_param_types (fw_call f as s) = ta_param_types s" "ta_params (fw_call f as s) = ta_params s"
  by (simp_all add: fw_call_def)

declare ta_fields [simp]

lemma mem_write_append: "mem_write a (xs @ ys) m = mem_write (a + of_nat (length xs)) ys (mem_write a xs m)"
  by (induction xs arbitrary: a m) (simp_all add: add.assoc)

text \<open>What the memory holds after a write: the bytes in the written range, the old content elsewhere.\<close>

lemma mem_write_at:
  assumes "length bs \<le> 2 ^ 64"
  shows "mem_write a bs m x = (if unat (x - a) < length bs then bs ! unat (x - a) else m x)"
  using assms
proof (induction bs arbitrary: a m)
  case (Cons b bs)
  show ?case
  proof (cases "x = a")
    case True
    have "unat (a - (a + 1)) = 2 ^ 64 - 1" by (simp add: unsigned_minus_1_eq_mask mask_eq_exp_minus_1)
    then show ?thesis using Cons True by simp
  next
    case False
    have "1 + (x - (a + 1)) = x - a" by simp
    moreover have "x - a \<noteq> 0" using False by simp
    ultimately have "unat (x - a) = Suc (unat (x - (a + 1)))" using unatSuc [of "x - (a + 1)"] by simp
    then show ?thesis using Cons False by simp
  qed
qed simp

text \<open>
  A server that sends the blocks \<open>bs\<close>, each with at most the requested count of bytes, and then
  closes the connection: the documented answers of \<open>recv\<close>, from tick \<open>t\<close> on.
\<close>

primrec serves :: "(nat \<Rightarrow> u32 \<times> u32 \<times> u8 list) \<Rightarrow> nat \<Rightarrow> u32 \<Rightarrow> u8 list list \<Rightarrow> bool" where
  "serves net t res [] \<longleftrightarrow> net t = (res, 0, [])"
| "serves net t res (b # bs) \<longleftrightarrow> b \<noteq> [] \<and> length b \<le> unat REVC_BLOCK \<and>
     net t = (fst (net t), of_nat (length b), b) \<and> serves net (Suc t) res bs"

lemma recv_loop_serves:
  assumes "serves (net_recv s) (m_now s) res bs"
  shows "\<exists>s'. recv_loop p s = Some ((res, p + of_nat (length (concat bs))), s') \<and>
    tee_mem s' = mem_write p (concat bs) (tee_mem s)"
  using assms
proof (induction bs arbitrary: p s)
  case Nil
  then show ?case by (subst recv_loop.simps) (simp add: Let_def)
next
  case (Cons b bs)
  let ?s = "(fw_call ''recv'' [REVC_BLOCK] s)\<lparr>tee_mem := mem_write p b (tee_mem s)\<rparr>"
  obtain r where net: "net_recv s (m_now s) = (r, of_nat (length b), b)" using Cons.prems by auto
  have b: "b \<noteq> []" "length b \<le> 0x10000" using Cons.prems by auto
  have len: "unat (of_nat (length b) :: u32) = length b" using b(2) by (simp add: unsigned_of_nat take_bit_nat_eq_self)
  then have pos: "(of_nat (length b) :: u32) > 0" using b(1) by (simp add: word_less_nat_alt)
  have cast: "ucast (of_nat (length b) :: u32) = (of_nat (length b) :: addr)"
    using b(2) by (simp add: word_unat_eq_iff unat_ucast_up len unsigned_of_nat take_bit_nat_eq_self)
  have "serves (net_recv ?s) (m_now ?s) res bs" using Cons.prems by simp
  from Cons.IH [OF this, of "p + of_nat (length b)"] obtain s' where
    "recv_loop (p + of_nat (length b)) ?s = Some ((res, p + of_nat (length b) + of_nat (length (concat bs))), s')"
    "tee_mem s' = mem_write (p + of_nat (length b)) (concat bs) (mem_write p b (tee_mem s))" by auto
  then show ?case
    using pos by (subst recv_loop.simps) (simp add: net cast Let_def mem_write_append add.assoc)
qed

text \<open>
  C15.  The download assembles the server's stream: when the connection is made and the server
  sends blocks and closes, \<open>socket_client\<close> returns the final result and the length of the stream,
  and the memory from the buffer on holds the stream, byte for byte, while every other byte is
  unchanged.  Nothing bounds the stream by the buffer: of a stream longer than the
  \<open>BITSTREAM_SIZE\<close> bytes that are allocated, the rest overwrites what lies behind the buffer.
\<close>

theorem download_assembles_stream:
  assumes "net_open s (m_now s) = TEE_SUCCESS" and "serves (net_recv s) (Suc (m_now s)) res bs"
    and "length (concat bs) < 2 ^ 32"
  shows "\<exists>s'. socket_client data len s = Some ((res, of_nat (length (concat bs))), s') \<and>
    (\<forall>x. tee_mem s' x = (if unat (x - data) < length (concat bs) then concat bs ! unat (x - data) else tee_mem s x))"
proof -
  let ?n = "length (concat bs)"
  let ?t = "fw_call ''open'' [] s"
  have "serves (net_recv ?t) (m_now ?t) res bs" using assms(2) by simp
  from recv_loop_serves [OF this, of data] obtain u where u: "recv_loop data ?t = Some ((res, data + of_nat ?n), u)"
    "tee_mem u = mem_write data (concat bs) (tee_mem s)" by auto
  have "ucast (data + of_nat ?n - data) = (of_nat ?n :: u32)"
    by (simp add: word_unat_eq_iff unsigned_of_nat unsigned_ucast_eq)
  then have "\<exists>s'. socket_client data len s = Some ((res, of_nat ?n), s') \<and> tee_mem s' = tee_mem u"
    using u(1) assms(1) by (simp add: socket_client_def tcp_connect_def Let_def)
  moreover have "?n \<le> 2 ^ 64" using assms(3) by simp
  ultimately show ?thesis using mem_write_at [of "concat bs" data "tee_mem s"] u(2) by auto
qed

definition test_ta :: "u32 \<Rightarrow> (nat \<Rightarrow> u32 \<times> u32 \<times> u8 list) \<Rightarrow> ta_mach" where
  "test_ta conn net = \<lparr>m_hw = tee_hw True 0, m_now = 0, m_regs = (\<lambda>_. 0), m_evs = [],
     tee_va = (\<lambda>a. a), tee_pa = (\<lambda>a. a), tee_late = (\<lambda>t0 us t. t0 + unat us < t), tee_mem = (\<lambda>_. 0),
     iv_arr = 0x200000, pcap = 0xFFCA3000, csu = 0xFFCA0000, aes = 0xFFCA1000, crl_apb = 0xFF5E0000, bs_iv = 0x200000,
     tee_open = (\<lambda>_. (0, 1)), tee_malloc = (\<lambda>_. 0x300000), net_open = (\<lambda>_. conn), net_recv = net,
     pta_zynqmp_fpga_mgr_session = 1, ta_param_types = 7, ta_params = (0, 0)\<rparr>"

text \<open>A server that sends 77 full blocks, a few bytes more than the buffer holds.\<close>

definition flood :: "nat \<Rightarrow> u32 \<times> u32 \<times> u8 list" where
  "flood t = (if t \<le> 77 then (0, REVC_BLOCK, replicate 0x10000 0x41) else (0, 0, []))"

lemma flood_serves: "n \<le> 77 \<Longrightarrow> serves flood (78 - n) 0 (replicate n (replicate 0x10000 0x41))"
proof (induction n)
  case (Suc n)
  then have "Suc (78 - Suc n) = 78 - n" by simp
  with Suc show ?case by (simp add: flood_def)
qed (simp add: flood_def)

theorem download_assembles_stream_witness:
  "\<exists>s'. socket_client 0x300000 BITSTREAM_SIZE (test_ta 0 flood) = Some ((0, 5046272), s') \<and>
     tee_mem (test_ta 0 flood) (0x300000 + ucast BITSTREAM_SIZE) = 0 \<and>
     tee_mem s' (0x300000 + ucast BITSTREAM_SIZE) = 0x41"
proof -
  let ?bs = "replicate 77 (replicate 0x10000 0x41) :: u8 list list"
  have len: "length (concat ?bs) = 5046272" by (simp add: length_concat sum_list_replicate)
  have "serves (net_recv (test_ta 0 flood)) (Suc (m_now (test_ta 0 flood))) 0 ?bs"
    using flood_serves [of 77] by (simp add: test_ta_def)
  from download_assembles_stream [OF _ this, of "0x300000" BITSTREAM_SIZE] len
  obtain s' where s': "socket_client 0x300000 BITSTREAM_SIZE (test_ta 0 flood) = Some ((0, 5046272), s')"
    "\<And>x. tee_mem s' x = (if unat (x - 0x300000) < 5046272 then concat ?bs ! unat (x - 0x300000) else tee_mem (test_ta 0 flood) x)"
    by (auto simp: test_ta_def)
  have "concat ?bs ! 5000000 \<in> set (concat ?bs)" by (rule nth_mem) (simp add: len)
  then have "concat ?bs ! 5000000 = 0x41" by auto
  then have "tee_mem s' (0x300000 + ucast BITSTREAM_SIZE) = 0x41" by (simp add: s'(2))
  with s'(1) show ?thesis by (simp add: test_ta_def)
qed

text \<open>
  C16.  A failed download cannot reconfigure the logic: when the connection to the server fails,
  the application still hands its zeroed buffer to the pseudo trusted application, which refuses
  it for its format; the command returns that error and no register of any device is written.
\<close>

theorem failed_connection_harmless:
  assumes "tee_malloc s (m_now s) = ptr" and "ptr \<noteq> 0" and "net_open s (Suc (m_now s)) \<noteq> TEE_SUCCESS"
    and "ta_param_types s = TEE_PARAM_TYPE_MEMREF_INOUT"
  shows "\<exists>s'. TA_InvokeCommandEntryPoint invoke_command TA_BS_DOWNLOADER_CMD_DOWNLOAD TEE_PARAM_TYPE_VALUE_OUTPUT s
      = Some (TEE_ERROR_BAD_FORMAT, s') \<and> writes_of (since s s') = []"
proof -
  let ?m = "\<lambda>a. if a \<in> win ptr (ucast BITSTREAM_SIZE) then 0 else tee_mem (fw_call ''TEE_Malloc'' [BITSTREAM_SIZE] s) a"
  define t where "t = (fw_call ''open'' [] ((fw_call ''TEE_Malloc'' [BITSTREAM_SIZE] s)\<lparr>tee_mem := ?m\<rparr>))\<lparr>ta_params := (ptr, ucast BITSTREAM_SIZE)\<rparr>"
  have "mem_bytes t (ptr + SECURE_SYNC_WORD_OFFSET) 8 = [0, 0, 0, 0, 0, 0, 0, 0]"
    by (simp add: t_def mem_bytes_def upt_rec win_def)
  moreover have "length SecureBootgenBinFormat = 8" by (simp add: SecureBootgenBinFormat_def)
  ultimately have "mem_bytes t (ptr + SECURE_SYNC_WORD_OFFSET) (length SecureBootgenBinFormat) \<noteq> SecureBootgenBinFormat"
    by (simp only:) (simp add: SecureBootgenBinFormat_def)
  then have "invoke_command PTA_ZYNQMP_FPGA_MGR_CMD_WRITE TEE_PARAM_TYPE_MEMREF_INOUT ptr (ucast BITSTREAM_SIZE) t = Some (TEE_ERROR_BAD_FORMAT, t)"
    using assms(2) by (simp add: invoke_command_def pta_zynqmp_fpga_write_def validateSecureBitstream_def)
  then have "TA_InvokeCommandEntryPoint invoke_command TA_BS_DOWNLOADER_CMD_DOWNLOAD TEE_PARAM_TYPE_VALUE_OUTPUT s
      = Some (TEE_ERROR_BAD_FORMAT, fw_call ''TEE_Free'' [] t)"
    using assms by (simp add: TA_InvokeCommandEntryPoint_def downlaod_bs_def socket_client_def tcp_connect_def Let_def t_def)
  then show ?thesis by (simp add: t_def since_def)
qed

theorem failed_connection_harmless_witness:
  "\<exists>s'. TA_InvokeCommandEntryPoint invoke_command TA_BS_DOWNLOADER_CMD_DOWNLOAD TEE_PARAM_TYPE_VALUE_OUTPUT (test_ta TEE_ERROR_BUSY flood)
      = Some (TEE_ERROR_BAD_FORMAT, s') \<and> writes_of (since (test_ta TEE_ERROR_BUSY flood) s') = []"
  by (rule failed_connection_harmless [of _ "0x300000"]) (simp_all add: test_ta_def)

end
